(* ===== verification/JS_Base.thy ===== *)
theory JS_Base
  imports Main
begin

text \<open>
  Prelude. The JavaScript values the client handles (numbers, JSON values, strings), the string
  functions of the standard library that the modelled modules call, the machinery of runs
  (a reducer folded over events), and the generic lemmas the component theories share.

  A string is a \<open>char list\<close> and one \<open>char\<close> is one UTF-16 code unit, so \<open>length\<close> is the
  language's \<open>.length\<close>. The alphabet is the Windows-1252 repertoire (every member of it is a
  single code unit): \<open>CHR 0x85\<close> is the ellipsis, \<open>CHR 0x97\<close> the em dash, \<open>CHR 0xB7\<close> the
  middle dot and \<open>CHR 0xA0\<close> the no-break space that the sources use.
\<close>

named_theorems js_defs \<open>definitions of small library functions of the language\<close>

section \<open>Numbers and JSON values\<close>

text \<open>
  A finite number is either integral or carried by the text \<open>String(x)\<close> prints for it; the
  client only tests, copies and prints the numbers it receives. JSON has no NaN or infinity.
\<close>

datatype jnum = JInt int | JFrac string

datatype json =
    JNull
  | JBool bool
  | JNum jnum
  | JStr string
  | JArr "json list"
  | JObj "(string \<times> json) list"

type_synonym jobj = "(string \<times> json) list"

abbreviation jprop :: "jobj \<Rightarrow> string \<Rightarrow> json option" where
  "jprop \<equiv> map_of"

text \<open>\<open>typeof v === "object" && v !== null && !Array.isArray(v)\<close>, narrowed to the record.\<close>

fun as_record :: "json \<Rightarrow> jobj option" where
  "as_record (JObj m) = Some m"
| "as_record _ = None"

fun as_string :: "json \<Rightarrow> string option" where
  "as_string (JStr s) = Some s"
| "as_string _ = None"

fun as_array :: "json \<Rightarrow> json list option" where
  "as_array (JArr xs) = Some xs"
| "as_array _ = None"

fun as_number :: "json \<Rightarrow> jnum option" where
  "as_number (JNum n) = Some n"
| "as_number _ = None"

section \<open>Strings\<close>

text \<open>The white space of \<open>trim\<close> and \<open>\s\<close> inside the alphabet.\<close>

definition js_space :: "char \<Rightarrow> bool" where
  "js_space c \<longleftrightarrow> of_char c \<in> {9::nat, 10, 11, 12, 13, 32, 160}"

definition trim :: "string \<Rightarrow> string" where
  "trim s = rev (dropWhile js_space (rev (dropWhile js_space s)))"

definition lower_char :: "char \<Rightarrow> char" where
  "lower_char c = (let n = of_char c :: nat in
     if 65 \<le> n \<and> n \<le> 90 then char_of (n + 32)
     else if n \<in> {138, 140, 142} then char_of (n + 16)
     else if n = 159 then char_of (255 :: nat)
     else if 192 \<le> n \<and> n \<le> 222 \<and> n \<noteq> 215 then char_of (n + 32)
     else c)"

definition to_lower :: "string \<Rightarrow> string" where
  "to_lower s = map lower_char s"

definition digit_char :: "char \<Rightarrow> bool" where
  "digit_char c \<longleftrightarrow> 48 \<le> (of_char c :: nat) \<and> (of_char c :: nat) \<le> 57"

fun show_nat :: "nat \<Rightarrow> string" where
  "show_nat n =
     (if n < 10 then [char_of (48 + n)] else show_nat (n div 10) @ [char_of (48 + n mod 10)])"

declare show_nat.simps [simp del]

definition show_int :: "int \<Rightarrow> string" where
  "show_int i = (if i < 0 then CHR ''-'' # show_nat (nat (- i)) else show_nat (nat i))"

fun show_num :: "jnum \<Rightarrow> string" where
  "show_num (JInt i) = show_int i"
| "show_num (JFrac t) = t"

fun starts_with :: "string \<Rightarrow> string \<Rightarrow> bool" where
  "starts_with [] s = True"
| "starts_with (p # ps) [] = False"
| "starts_with (p # ps) (c # cs) = (p = c \<and> starts_with ps cs)"

text \<open>\<open>s.indexOf(p)\<close>, \<open>None\<close> for the language's \<open>-1\<close>, and \<open>s.str_includes(p)\<close>.\<close>

fun index_of :: "string \<Rightarrow> string \<Rightarrow> nat option" where
  "index_of p [] = (if p = [] then Some 0 else None)"
| "index_of p (c # cs) =
     (if starts_with p (c # cs) then Some 0 else map_option Suc (index_of p cs))"

definition str_includes :: "string \<Rightarrow> string \<Rightarrow> bool" where
  "str_includes s p \<longleftrightarrow> index_of p s \<noteq> None"

text \<open>\<open>s.split(sep)\<close> for a one-character separator: always at least one part.\<close>

fun split_on :: "char \<Rightarrow> string \<Rightarrow> string list" where
  "split_on sep [] = [[]]"
| "split_on sep (c # cs) =
     (if c = sep then [] # split_on sep cs
      else (case split_on sep cs of [] \<Rightarrow> [[c]] | w # ws \<Rightarrow> (c # w) # ws))"

fun join :: "string \<Rightarrow> string list \<Rightarrow> string" where
  "join sep [] = []"
| "join sep [w] = w"
| "join sep (w # v # ws) = w @ sep @ join sep (v # ws)"

text \<open>\<open>s.split(/\s+/).length\<close> of a trimmed, non-empty string: its maximal runs of non-space.\<close>

fun count_words_from :: "bool \<Rightarrow> string \<Rightarrow> nat" where
  "count_words_from inside [] = 0"
| "count_words_from inside (c # cs) =
     (if js_space c then count_words_from False cs
      else (if inside then 0 else 1) + count_words_from True cs)"

definition word_count :: "string \<Rightarrow> nat" where
  "word_count s = count_words_from False s"

section \<open>JSON text\<close>

definition hex_digit :: "nat \<Rightarrow> char" where
  "hex_digit n = (if n < 10 then char_of (48 + n) else char_of (87 + n))"

definition escape_char :: "char \<Rightarrow> string" where
  "escape_char c = (let n = of_char c :: nat in
     if n = 34 then [char_of (92::nat), CHR 0x22]
     else if n = 92 then [char_of (92::nat), char_of (92::nat)]
     else if n = 8 then [char_of (92::nat), CHR ''b'']
     else if n = 9 then [char_of (92::nat), CHR ''t'']
     else if n = 10 then [char_of (92::nat), CHR ''n'']
     else if n = 12 then [char_of (92::nat), CHR ''f'']
     else if n = 13 then [char_of (92::nat), CHR ''r'']
     else if n < 32 then [char_of (92::nat), CHR ''u'', CHR ''0'', CHR ''0'',
                          hex_digit (n div 16), hex_digit (n mod 16)]
     else [c])"

definition quote_text :: "string \<Rightarrow> string" where
  "quote_text s = CHR 0x22 # concat (map escape_char s) @ [CHR 0x22]"

text \<open>\<open>JSON.stringify\<close> without indentation.\<close>

fun stringify :: "json \<Rightarrow> string"
  and stringify_items :: "json list \<Rightarrow> string list"
  and stringify_members :: "(string \<times> json) list \<Rightarrow> string list" where
  "stringify JNull = ''null''"
| "stringify (JBool b) = (if b then ''true'' else ''false'')"
| "stringify (JNum n) = show_num n"
| "stringify (JStr s) = quote_text s"
| "stringify (JArr xs) = CHR ''['' # join '','' (stringify_items xs) @ '']''"
| "stringify (JObj m) = CHR ''{'' # join '','' (stringify_members m) @ ''}''"
| "stringify_items [] = []"
| "stringify_items (x # xs) = stringify x # stringify_items xs"
| "stringify_members [] = []"
| "stringify_members ((k, v) # m) =
     (quote_text k @ CHR '':'' # stringify v) # stringify_members m"

text \<open>An optional field of a response, as the JSON value the wire carries (\<open>null\<close> for none).\<close>

fun jopt :: "('a \<Rightarrow> json) \<Rightarrow> 'a option \<Rightarrow> json" where
  "jopt f None = JNull"
| "jopt f (Some x) = f x"

section \<open>The last \<open>n\<close> elements of a list\<close>

text \<open>\<open>xs.slice(-n)\<close> for \<open>n > 0\<close>.\<close>

definition take_last :: "nat \<Rightarrow> 'a list \<Rightarrow> 'a list" where
  "take_last n xs = drop (length xs - n) xs"

lemma length_take_last [simp]: "length (take_last n xs) = min n (length xs)"
  by (simp add: take_last_def)

lemma take_last_all [simp]: "length xs \<le> n \<Longrightarrow> take_last n xs = xs"
  by (simp add: take_last_def)

lemma set_take_last: "set (take_last n xs) \<subseteq> set xs"
  by (simp add: take_last_def set_drop_subset)

lemma take_last_snoc:
  "0 < n \<Longrightarrow> take_last n (xs @ [x]) = take_last (n - 1) xs @ [x]"
  by (simp add: take_last_def Suc_diff_le)

lemma take_last_take_last [simp]: "take_last n (take_last m xs) = take_last (min n m) xs"
  by (cases "length xs \<le> m"; cases "n \<le> m") (auto simp: take_last_def min_def)

lemma take_last_append_take_last:
  "take_last n (take_last n xs @ ys) = take_last n (xs @ ys)"
  by (cases "length xs \<le> n"; cases "length ys \<le> n") (auto simp: take_last_def add.commute)

lemma last_take_last: "0 < n \<Longrightarrow> xs \<noteq> [] \<Longrightarrow> last (take_last n xs) = last xs"
  by (simp add: take_last_def)

lemma in_set_map_filter: "y \<in> set (List.map_filter f xs) \<longleftrightarrow> (\<exists>x \<in> set xs. f x = Some y)"
  by (induction xs) (auto split: option.splits)

lemma bex_enumerate: "(\<exists>x \<in> set (enumerate 0 es). P x) \<longleftrightarrow> (\<exists>i < length es. P (i, es ! i))"
  unfolding Bex_def split_paired_Ex in_set_enumerate_eq by auto

section \<open>Lemmas on strings\<close>

lemma split_on_not_Nil [simp]: "split_on sep s \<noteq> []"
  by (induction s) (auto split: list.splits)

lemma split_on_free: "w \<in> set (split_on sep s) \<Longrightarrow> sep \<notin> set w"
proof (induction s arbitrary: w)
  case Nil
  then show ?case by simp
next
  case (Cons c cs)
  obtain v vs where v: "split_on sep cs = v # vs"
    by (cases "split_on sep cs") auto
  with Cons show ?case by (auto split: if_splits)
qed

lemma join_Cons: "ws \<noteq> [] \<Longrightarrow> join sep (w # ws) = w @ sep @ join sep ws"
  by (cases ws) auto

lemma join_split_on [simp]: "join [sep] (split_on sep s) = s"
proof (induction s)
  case Nil
  then show ?case by simp
next
  case (Cons c cs)
  obtain v vs where v: "split_on sep cs = v # vs"
    by (cases "split_on sep cs") auto
  with Cons show ?case by (cases vs) (auto simp: join_Cons)
qed

lemma split_on_single: "sep \<notin> set w \<Longrightarrow> split_on sep w = [w]"
  by (induction w) auto

lemma split_on_append:
  "sep \<notin> set w \<Longrightarrow> split_on sep (w @ sep # s) = w # split_on sep s"
  by (induction w) auto

lemma split_on_join:
  "ws \<noteq> [] \<Longrightarrow> (\<And>w. w \<in> set ws \<Longrightarrow> sep \<notin> set w) \<Longrightarrow> split_on sep (join [sep] ws) = ws"
proof (induction ws)
  case Nil
  then show ?case by simp
next
  case (Cons w ws)
  then show ?case
    by (cases "ws = []") (auto simp: split_on_single join_Cons split_on_append)
qed

lemma starts_with_append [simp]: "starts_with p (p @ s)"
  by (induction p) auto

lemma starts_with_iff: "starts_with p s \<longleftrightarrow> (\<exists>t. s = p @ t)"
  by (induction p s rule: starts_with.induct) auto

lemma trim_Nil [simp]: "trim [] = []"
  by (simp add: trim_def)

lemma length_trim: "length (trim s) \<le> length s"
proof -
  have "length (trim s) \<le> length (rev (dropWhile js_space s))"
    unfolding trim_def length_rev by (metis length_dropWhile_le length_rev)
  also have "\<dots> \<le> length s"
    by (simp add: length_dropWhile_le)
  finally show ?thesis .
qed

lemma length_to_lower [simp]: "length (to_lower s) = length s"
  by (simp add: to_lower_def)

end
