(* ===== verification/Interfaces.thy ===== *)
theory Interfaces
  imports JS_Base
begin

text \<open>
  The contracts that several components share, as locales. \<open>reducer\<close> is a state machine driven
  by events with an invariant every event keeps; \<open>bounded_log\<close> is a capped, receive-ordered log
  (the job machine's frame log and the diagnostics ring both promise it). Each component
  interprets them on its own definitions.
\<close>

section \<open>Runs of a reducer\<close>

text \<open>\<open>events.reduce(step, state)\<close>.\<close>

definition runs :: "('s \<Rightarrow> 'e \<Rightarrow> 's) \<Rightarrow> 's \<Rightarrow> 'e list \<Rightarrow> 's" where
  "runs step s es = foldl step s es"

lemma runs_Nil [simp]: "runs step s [] = s"
  by (simp add: runs_def)

lemma runs_Cons [simp]: "runs step s (e # es) = runs step (step s e) es"
  by (simp add: runs_def)

lemma runs_append [simp]: "runs step s (es @ fs) = runs step (runs step s es) fs"
  by (simp add: runs_def)

locale reducer =
  fixes step :: "'s \<Rightarrow> 'e \<Rightarrow> 's"
    and init :: 's
    and inv :: "'s \<Rightarrow> bool"
  assumes inv_init: "inv init"
    and inv_step: "inv s \<Longrightarrow> inv (step s e)"
begin

lemma inv_runs: "inv s \<Longrightarrow> inv (runs step s es)"
  by (induction es arbitrary: s) (simp_all add: inv_step)

lemma inv_from_init: "inv (runs step init es)"
  by (rule inv_runs [OF inv_init])

text \<open>
  A step-wise law of observations lifts to runs: if every step from a state of the invariant
  relates its two ends by a reflexive and transitive relation, so do the ends of a run.
\<close>

lemma run_related:
  assumes refl: "\<And>s. r s s"
    and trans: "\<And>s t u. r s t \<Longrightarrow> r t u \<Longrightarrow> r s u"
    and stp: "\<And>s e. inv s \<Longrightarrow> e \<in> E \<Longrightarrow> r s (step s e)"
  shows "inv s \<Longrightarrow> set es \<subseteq> E \<Longrightarrow> r s (runs step s es)"
proof (induction es arbitrary: s)
  case Nil
  then show ?case by (simp add: refl)
next
  case (Cons e es)
  then have "r s (step s e)" "r (step s e) (runs step (step s e) es)"
    by (auto intro: stp inv_step)
  then show ?case by (auto intro: trans)
qed

text \<open>A fact a state has and its run's start has not was made true by one step of the run.\<close>

lemma last_change:
  assumes "\<not> p s" and "p (runs step s es)"
  shows "\<exists>pre e post. es = pre @ e # post \<and> \<not> p (runs step s pre)
           \<and> (\<forall>k \<le> length post. p (runs step s (pre @ e # take k post)))"
  using assms
proof (induction es rule: rev_induct)
  case Nil
  then show ?case by simp
next
  case (snoc x xs)
  show ?case
  proof (cases "p (runs step s xs)")
    case True
    then obtain pre e post where
      split: "xs = pre @ e # post" "\<not> p (runs step s pre)"
        "\<forall>k \<le> length post. p (runs step s (pre @ e # take k post))"
      using snoc by blast
    have "p (runs step s (pre @ e # take k (post @ [x])))" if "k \<le> length (post @ [x])" for k
      using that split snoc.prems(2) by (cases "k \<le> length post") auto
    then show ?thesis using split by (intro exI [of _ pre] exI [of _ e] exI [of _ "post @ [x]"]) auto
  next
    case False
    then show ?thesis using snoc.prems(2)
      by (intro exI [of _ xs] exI [of _ x] exI [of _ "[]"]) auto
  qed
qed

end

section \<open>Capped logs\<close>

locale bounded_log =
  fixes cap :: nat
    and ok :: "'s \<Rightarrow> bool"
    and contents :: "'s \<Rightarrow> 'a list"
    and push :: "'s \<Rightarrow> 'a \<Rightarrow> 's"
  assumes cap_pos: "0 < cap"
    and ok_push: "ok s \<Longrightarrow> ok (push s x)"
    and ok_length: "ok s \<Longrightarrow> length (contents s) \<le> cap"
    and push_contents: "ok s \<Longrightarrow> contents (push s x) = take_last cap (contents s @ [x])"
begin

lemma ok_pushes: "ok s \<Longrightarrow> ok (foldl push s xs)"
  by (induction xs arbitrary: s) (simp_all add: ok_push)

lemma last_push: "ok s \<Longrightarrow> last (contents (push s x)) = x"
  using cap_pos by (simp add: push_contents last_take_last)

lemma contents_pushes:
  "ok s \<Longrightarrow> contents (foldl push s xs) = take_last cap (contents s @ xs)"
proof (induction xs arbitrary: s)
  case Nil
  then show ?case by (simp add: ok_length)
next
  case (Cons x xs)
  then have "contents (foldl push (push s x) xs) = take_last cap (contents (push s x) @ xs)"
    by (simp add: ok_push)
  then show ?case
    using Cons.prems by (simp add: push_contents take_last_append_take_last)
qed

lemma length_pushes: "ok s \<Longrightarrow> length (contents (foldl push s xs)) \<le> cap"
  by (simp add: ok_length ok_pushes)

end

end
