(* ===== verification/Api_Errors.thy ===== *)
theory Api_Errors
  imports JS_Base
begin

text \<open>
  \<open>web/lib/api/errors.ts\<close>: the twelve-variant \<open>ApiFailure\<close> union and \<open>normalizeFailure\<close>, the
  one function that turns a failed response or a thrown transport value into a member of it.
  \<open>JSON.parse\<close> is the parameter \<open>parse\<close> (\<open>None\<close> where it throws). A response's headers are a
  function from lower-case names, as \<open>Headers.get\<close> is case-insensitive; its body is \<open>None\<close>
  when reading it rejects.
\<close>

section \<open>The union\<close>

record field_issue =
  fi_path :: string
  fi_message :: string
  fi_type :: "string option"

text \<open>What a request can be rejected with: a thrown value, by what the client reads of it.\<close>

record thrown =
  th_name :: "string option"
  th_type_error :: bool
  th_is_error :: bool
  th_message :: string
  th_text :: string

datatype raw_value = RawUndefined | RawValue json | RawThrown thrown

record failure_common =
  fc_message :: string
  fc_raw :: raw_value
  fc_requestId :: "string option"

datatype api_failure =
    AF_unauthorized failure_common
  | AF_not_found failure_common
  | AF_conflict failure_common "string option"
  | AF_rate_limited failure_common int "jnum option"
  | AF_validation failure_common "field_issue list"
  | AF_upstream_unavailable failure_common
  | AF_proxy_misconfigured failure_common
  | AF_server_error failure_common int
  | AF_offline failure_common
  | AF_timeout failure_common
  | AF_cancelled failure_common
  | AF_unknown failure_common "int option"

datatype api_failure_kind =
    K_unauthorized | K_not_found | K_conflict | K_rate_limited | K_validation
  | K_upstream_unavailable | K_proxy_misconfigured | K_server_error | K_offline | K_timeout
  | K_cancelled | K_unknown

definition API_FAILURE_KINDS :: "api_failure_kind list" where
  "API_FAILURE_KINDS =
     [K_unauthorized, K_not_found, K_conflict, K_rate_limited, K_validation,
      K_upstream_unavailable, K_proxy_misconfigured, K_server_error, K_offline, K_timeout,
      K_cancelled, K_unknown]"

fun failure_kind :: "api_failure \<Rightarrow> api_failure_kind" where
  "failure_kind (AF_unauthorized _) = K_unauthorized"
| "failure_kind (AF_not_found _) = K_not_found"
| "failure_kind (AF_conflict _ _) = K_conflict"
| "failure_kind (AF_rate_limited _ _ _) = K_rate_limited"
| "failure_kind (AF_validation _ _) = K_validation"
| "failure_kind (AF_upstream_unavailable _) = K_upstream_unavailable"
| "failure_kind (AF_proxy_misconfigured _) = K_proxy_misconfigured"
| "failure_kind (AF_server_error _ _) = K_server_error"
| "failure_kind (AF_offline _) = K_offline"
| "failure_kind (AF_timeout _) = K_timeout"
| "failure_kind (AF_cancelled _) = K_cancelled"
| "failure_kind (AF_unknown _ _) = K_unknown"

fun failure_common_of :: "api_failure \<Rightarrow> failure_common" where
  "failure_common_of (AF_unauthorized c) = c"
| "failure_common_of (AF_not_found c) = c"
| "failure_common_of (AF_conflict c _) = c"
| "failure_common_of (AF_rate_limited c _ _) = c"
| "failure_common_of (AF_validation c _) = c"
| "failure_common_of (AF_upstream_unavailable c) = c"
| "failure_common_of (AF_proxy_misconfigured c) = c"
| "failure_common_of (AF_server_error c _) = c"
| "failure_common_of (AF_offline c) = c"
| "failure_common_of (AF_timeout c) = c"
| "failure_common_of (AF_cancelled c) = c"
| "failure_common_of (AF_unknown c _) = c"

abbreviation failure_message :: "api_failure \<Rightarrow> string" where
  "failure_message f \<equiv> fc_message (failure_common_of f)"

text \<open>The \<open>status\<close> field of a variant: \<open>None\<close> where the variant has none, or has \<open>null\<close>.\<close>

fun failure_status :: "api_failure \<Rightarrow> int option" where
  "failure_status (AF_unauthorized _) = Some 401"
| "failure_status (AF_not_found _) = Some 404"
| "failure_status (AF_conflict _ _) = Some 409"
| "failure_status (AF_rate_limited _ _ _) = Some 429"
| "failure_status (AF_validation _ _) = Some 422"
| "failure_status (AF_upstream_unavailable _) = Some 502"
| "failure_status (AF_proxy_misconfigured _) = Some 503"
| "failure_status (AF_server_error _ s) = Some s"
| "failure_status (AF_offline _) = None"
| "failure_status (AF_timeout _) = None"
| "failure_status (AF_cancelled _) = None"
| "failure_status (AF_unknown _ s) = s"

section \<open>Default copy\<close>

datatype copy_key =
    C_unauthorized | C_not_found | C_conflict | C_validation | C_upstream_unavailable
  | C_proxy_misconfigured | C_server_error | C_offline | C_unreachable | C_timeout | C_cancelled
  | C_unknown

fun COPY :: "copy_key \<Rightarrow> string" where
  "COPY C_unauthorized =
     ''This request was not authorized. The server rejected its credentials.''"
| "COPY C_not_found = ''That item is not available.''"
| "COPY C_conflict =
     ''This action is not available in the job'' @ [CHR 0x27] @ ''s current state.''"
| "COPY C_validation = ''The request was rejected as invalid.''"
| "COPY C_upstream_unavailable =
     ''The research service is unreachable right now. Try again shortly.''"
| "COPY C_proxy_misconfigured =
     ''The API proxy is misconfigured, so requests cannot reach the research service.''"
| "COPY C_server_error = ''The server could not complete this request.''"
| "COPY C_offline = ''You appear to be offline. Check your connection and try again.''"
| "COPY C_unreachable =
     ''Could not reach the server. Check your connection and try again.''"
| "COPY C_timeout = ''The request took too long and was stopped.''"
| "COPY C_cancelled = ''The request was cancelled.''"
| "COPY C_unknown = ''Something went wrong.''"

section \<open>Reading a failed response\<close>

record http_response =
  resp_status :: int
  resp_statusText :: string
  resp_header :: "string \<Rightarrow> string option"
  resp_body :: "string option"

record error_body =
  eb_raw :: raw_value
  eb_json :: bool
  eb_text :: string

definition readErrorBody :: "(string \<Rightarrow> json option) \<Rightarrow> http_response \<Rightarrow> error_body" where
  "readErrorBody parse r =
     (case resp_body r of
        None \<Rightarrow> \<lparr>eb_raw = RawUndefined, eb_json = False, eb_text = []\<rparr>
      | Some t \<Rightarrow>
          if t = [] then \<lparr>eb_raw = RawUndefined, eb_json = False, eb_text = t\<rparr>
          else (case parse t of
                  Some v \<Rightarrow> \<lparr>eb_raw = RawValue v, eb_json = True, eb_text = t\<rparr>
                | None \<Rightarrow> \<lparr>eb_raw = RawValue (JStr t), eb_json = False, eb_text = t\<rparr>))"

record normalize_context =
  nc_timedOut :: "bool option"
  nc_cancelled :: "bool option"
  nc_online :: "bool option"
  nc_body :: "error_body option"

section \<open>Helpers\<close>

fun raw_record :: "raw_value \<Rightarrow> jobj option" where
  "raw_record (RawValue v) = as_record v"
| "raw_record _ = None"

definition readDetail :: "raw_value \<Rightarrow> json option" where
  "readDetail raw = (case raw_record raw of Some m \<Rightarrow> jprop m ''detail'' | None \<Rightarrow> None)"

definition errorName :: "thrown \<Rightarrow> string option" where
  "errorName e = th_name e"

definition readRequestId :: "http_response \<Rightarrow> string option" where
  "readRequestId r =
     (case resp_header r ''x-request-id'' of
        Some i \<Rightarrow> Some i
      | None \<Rightarrow> resp_header r ''x-correlation-id'')"

text \<open>\<open>Number.parseInt(s, 10)\<close>, \<open>None\<close> for NaN.\<close>

fun digits_value :: "nat \<Rightarrow> string \<Rightarrow> nat" where
  "digits_value acc [] = acc"
| "digits_value acc (c # cs) =
     (if digit_char c then digits_value (10 * acc + (of_char c - 48)) cs else acc)"

definition parse_unsigned :: "string \<Rightarrow> nat option" where
  "parse_unsigned s =
     (case s of c # _ \<Rightarrow> if digit_char c then Some (digits_value 0 s) else None | [] \<Rightarrow> None)"

definition parse_int :: "string \<Rightarrow> int option" where
  "parse_int s =
     (case dropWhile js_space s of
        [] \<Rightarrow> None
      | c # cs \<Rightarrow>
          if c = CHR ''-'' then map_option (\<lambda>n. - int n) (parse_unsigned cs)
          else if c = CHR ''+'' then map_option int (parse_unsigned cs)
          else map_option int (parse_unsigned (c # cs)))"

definition DEFAULT_RETRY_AFTER_SEC :: int where
  "DEFAULT_RETRY_AFTER_SEC = 60"

definition readRetryAfter :: "http_response \<Rightarrow> int" where
  "readRetryAfter r =
     (case resp_header r ''retry-after'' of
        None \<Rightarrow> DEFAULT_RETRY_AFTER_SEC
      | Some h \<Rightarrow>
          (case parse_int h of
             None \<Rightarrow> DEFAULT_RETRY_AFTER_SEC
           | Some p \<Rightarrow> if p > 0 then p else DEFAULT_RETRY_AFTER_SEC))"

definition readLimitPerHour :: "json option \<Rightarrow> jnum option" where
  "readLimitPerHour detail =
     (case Option.bind detail as_record of
        None \<Rightarrow> None
      | Some m \<Rightarrow> Option.bind (jprop m ''limit_per_hour'') as_number)"

text \<open>\<open>Math.ceil(n / 60)\<close> of a non-negative integer.\<close>

definition ceil60 :: "int \<Rightarrow> int" where
  "ceil60 n = (n + 59) div 60"

definition rateLimitMessage :: "int \<Rightarrow> jnum option \<Rightarrow> string" where
  "rateLimitMessage retryAfterSec limitPerHour =
     (let wait = (if retryAfterSec \<ge> 60
                  then show_int (ceil60 retryAfterSec) @ '' minute''
                         @ (if ceil60 retryAfterSec = 1 then '''' else ''s'')
                  else show_int retryAfterSec @ '' second''
                         @ (if retryAfterSec = 1 then '''' else ''s''));
          ceiling = (case limitPerHour of
                       None \<Rightarrow> ''''
                     | Some n \<Rightarrow> '' This key allows '' @ show_num n @ '' request''
                                  @ (if n = JInt 1 then '''' else ''s'') @ '' per hour.'')
      in ''Rate limit reached. Try again in about '' @ wait @ ''.'' @ ceiling)"

text \<open>\<open>String(v)\<close> of a JSON value; an array prints its items joined, a null item as nothing.\<close>

fun js_String :: "json \<Rightarrow> string"
  and js_String_items :: "json list \<Rightarrow> string list" where
  "js_String JNull = ''null''"
| "js_String (JBool b) = (if b then ''true'' else ''false'')"
| "js_String (JNum n) = show_num n"
| "js_String (JStr s) = s"
| "js_String (JArr xs) = join '','' (js_String_items xs)"
| "js_String (JObj _) = ''[object Object]''"
| "js_String_items [] = []"
| "js_String_items (x # xs) = (if x = JNull then '''' else js_String x) # js_String_items xs"

text \<open>One entry of a 422 body; \<open>None\<close> for an entry that is not an object.\<close>

definition field_issue_of :: "json \<Rightarrow> field_issue option" where
  "field_issue_of entry =
     (case as_record entry of
        None \<Rightarrow> None
      | Some m \<Rightarrow>
          let loc = (case Option.bind (jprop m ''loc'') as_array of Some l \<Rightarrow> l | None \<Rightarrow> []);
              segments = (if length loc > 1 then drop 1 loc else loc);
              message = (case Option.bind (jprop m ''msg'') as_string of
                           Some s \<Rightarrow> s | None \<Rightarrow> ''is invalid'');
              ty = Option.bind (jprop m ''type'') as_string
          in Some \<lparr>fi_path = join ''.'' (map js_String segments), fi_message = message,
                   fi_type = ty\<rparr>)"

definition readFieldIssues :: "json option \<Rightarrow> field_issue list" where
  "readFieldIssues detail =
     (case Option.bind detail as_array of
        None \<Rightarrow> []
      | Some entries \<Rightarrow> List.map_filter field_issue_of entries)"

text \<open>\<open>toUpperCase\<close> of one character, inside the alphabet (sharp s becomes two letters).\<close>

definition upper_text :: "char \<Rightarrow> string" where
  "upper_text c = (let n = of_char c :: nat in
     if 97 \<le> n \<and> n \<le> 122 then [char_of (n - 32)]
     else if n \<in> {154, 156, 158} then [char_of (n - 16)]
     else if n = 223 then ''SS''
     else if n = 255 then [char_of (159 :: nat)]
     else if 224 \<le> n \<and> n \<le> 254 \<and> n \<noteq> 247 then [char_of (n - 32)]
     else [c])"

fun capitalize :: "string \<Rightarrow> string" where
  "capitalize [] = []"
| "capitalize (c # cs) = upper_text c @ cs"

definition validationMessage :: "field_issue list \<Rightarrow> string" where
  "validationMessage flds =
     (case flds of
        [] \<Rightarrow> COPY C_validation
      | [first] \<Rightarrow>
          if fi_path first = [] then COPY C_validation @ '' '' @ capitalize (fi_message first) @ ''.''
          else fi_path first @ '': '' @ fi_message first @ ''.''
      | _ \<Rightarrow> show_nat (length flds) @ '' fields need attention: ''
               @ join '', '' (map fi_path flds) @ ''.'')"

section \<open>The one normalizer\<close>

text \<open>\<open>/\(status=([^)]+)\)/.exec(s)?.[1]\<close>: the group of the leftmost match.\<close>

fun status_group :: "string \<Rightarrow> string option" where
  "status_group [] = None"
| "status_group (c # cs) =
     (if starts_with ''(status='' (c # cs)
      then let rest = drop 8 (c # cs); w = takeWhile (\<lambda>x. x \<noteq> CHR '')'') rest
           in if w \<noteq> [] \<and> length w < length rest then Some w else status_group cs
      else status_group cs)"

definition common :: "http_response \<Rightarrow> raw_value \<Rightarrow> string \<Rightarrow> failure_common" where
  "common r raw message =
     \<lparr>fc_message = message, fc_raw = raw, fc_requestId = readRequestId r\<rparr>"

definition conflict_failure :: "http_response \<Rightarrow> raw_value \<Rightarrow> json option \<Rightarrow> api_failure" where
  "conflict_failure r raw detail =
     (let state = Option.bind (Option.bind detail as_string) status_group
      in case state of
           None \<Rightarrow> AF_conflict (common r raw (COPY C_conflict)) None
         | Some s \<Rightarrow>
             AF_conflict (common r raw
               (''This action is not available while the job is '' @ s @ ''.'')) (Some s))"

definition fromResponse :: "http_response \<Rightarrow> error_body \<Rightarrow> api_failure" where
  "fromResponse r body =
     (let status = resp_status r; raw = eb_raw body; detail = readDetail raw
      in if status = 401 then AF_unauthorized (common r raw (COPY C_unauthorized))
         else if status = 404 then AF_not_found (common r raw (COPY C_not_found))
         else if status = 409 then conflict_failure r raw detail
         else if status = 422 then
           (let flds = readFieldIssues detail
            in AF_validation (common r raw (validationMessage flds)) flds)
         else if status = 429 then
           (let retryAfterSec = readRetryAfter r; limitPerHour = readLimitPerHour detail
            in AF_rate_limited (common r raw (rateLimitMessage retryAfterSec limitPerHour))
                 retryAfterSec limitPerHour)
         else if status = 502 then
           AF_upstream_unavailable (common r raw (COPY C_upstream_unavailable))
         else if status = 503 then
           AF_proxy_misconfigured (common r raw (COPY C_proxy_misconfigured))
         else if status \<ge> 500 then AF_server_error (common r raw (COPY C_server_error)) status
         else AF_unknown (common r raw
                (COPY C_unknown @ '' (HTTP '' @ show_int status @ '')'')) (Some status))"

definition thrown_common :: "thrown \<Rightarrow> string \<Rightarrow> failure_common" where
  "thrown_common e message =
     \<lparr>fc_message = message, fc_raw = RawThrown e, fc_requestId = None\<rparr>"

text \<open>\<open>nav\<close> is what \<open>readOnline()\<close> reads off \<open>navigator\<close>.\<close>

definition fromTransport :: "bool \<Rightarrow> thrown \<Rightarrow> normalize_context \<Rightarrow> api_failure" where
  "fromTransport nav e ctx =
     (let name = errorName e
      in if nc_timedOut ctx = Some True \<or> name = Some ''TimeoutError''
         then AF_timeout (thrown_common e (COPY C_timeout))
         else if nc_cancelled ctx = Some True \<or> name = Some ''AbortError''
         then AF_cancelled (thrown_common e (COPY C_cancelled))
         else if th_type_error e
         then AF_offline (thrown_common e
                (if (case nc_online ctx of Some b \<Rightarrow> b | None \<Rightarrow> nav)
                 then COPY C_unreachable else COPY C_offline))
         else AF_unknown (thrown_common e (COPY C_unknown)) None)"

datatype failure_source_value = Src_response http_response | Src_thrown thrown

definition normalizeFailure ::
  "(string \<Rightarrow> json option) \<Rightarrow> bool \<Rightarrow> failure_source_value \<Rightarrow> normalize_context \<Rightarrow> api_failure"
where
  "normalizeFailure parse nav src ctx =
     (case src of
        Src_response r \<Rightarrow>
          fromResponse r (case nc_body ctx of Some b \<Rightarrow> b | None \<Rightarrow> readErrorBody parse r)
      | Src_thrown e \<Rightarrow> fromTransport nav e ctx)"

section \<open>The legacy error class\<close>

record api_error =
  ae_status :: int
  ae_message :: string
  ae_failure :: api_failure

definition ApiError :: "int \<Rightarrow> string \<Rightarrow> api_failure option \<Rightarrow> api_error" where
  "ApiError status message failure =
     \<lparr>ae_status = status, ae_message = message,
      ae_failure = (case failure of
          Some f \<Rightarrow> f
        | None \<Rightarrow> AF_unknown \<lparr>fc_message = COPY C_unknown, fc_raw = RawValue (JStr message),
                              fc_requestId = None\<rparr> (if status = 0 then None else Some status))\<rparr>"

definition legacyDetailMessage :: "http_response \<Rightarrow> error_body \<Rightarrow> string" where
  "legacyDetailMessage r body =
     (if \<not> eb_json body
      then ''HTTP '' @ show_int (resp_status r) @ '' '' @ resp_statusText r
      else (case Option.bind (readDetail (eb_raw body)) as_string of
              Some d \<Rightarrow> d
            | None \<Rightarrow> (case eb_raw body of RawValue v \<Rightarrow> stringify v | _ \<Rightarrow> [])))"

section \<open>Lemmas\<close>

lemma digit_char_digit [simp]: "d < 10 \<Longrightarrow> digit_char (char_of (48 + d :: nat))"
  by (simp add: digit_char_def)

lemma digits_value_snoc:
  "\<forall>c \<in> set s. digit_char c \<Longrightarrow> digit_char d
     \<Longrightarrow> digits_value acc (s @ [d]) = 10 * digits_value acc s + (of_char d - 48)"
  by (induction s arbitrary: acc) auto

lemma digits_show_nat: "c \<in> set (show_nat n) \<Longrightarrow> digit_char c"
proof (induction n rule: less_induct)
  case (less n)
  show ?case
  proof (cases "n < 10")
    case True
    then show ?thesis using less.prems by (simp add: show_nat.simps)
  next
    case False
    then have "c \<in> set (show_nat (n div 10)) \<or> c = char_of (48 + n mod 10)"
      using less.prems by (subst (asm) show_nat.simps) auto
    then show ?thesis using less.IH [of "n div 10"] False by auto
  qed
qed

lemma show_nat_not_Nil [simp]: "show_nat n \<noteq> []"
  by (subst show_nat.simps) simp

lemma digits_value_show_nat [simp]: "digits_value 0 (show_nat n) = n"
proof (induction n rule: less_induct)
  case (less n)
  show ?case
  proof (cases "n < 10")
    case True
    then show ?thesis by (simp add: show_nat.simps)
  next
    case False
    have "digits_value 0 (show_nat (n div 10) @ [char_of (48 + n mod 10)])
            = 10 * digits_value 0 (show_nat (n div 10)) + n mod 10"
      by (subst digits_value_snoc) (auto dest: digits_show_nat)
    then show ?thesis using less.IH [of "n div 10"] False
      by (subst show_nat.simps) simp
  qed
qed

lemma digit_not_special:
  "digit_char c \<Longrightarrow> \<not> js_space c \<and> c \<noteq> CHR ''-'' \<and> c \<noteq> CHR ''+''"
  by (auto simp: digit_char_def js_space_def)

lemma parse_int_show_nat [simp]: "parse_int (show_nat n) = Some (int n)"
proof -
  obtain c cs where s: "show_nat n = c # cs" by (cases "show_nat n") auto
  then have "digit_char c" using digits_show_nat [of c n] by simp
  with s digit_not_special [of c] digits_value_show_nat [of n] show ?thesis
    by (simp add: parse_int_def parse_unsigned_def del: digits_value_show_nat)
qed

lemma readRetryAfter_pos: "0 < readRetryAfter r"
  by (simp add: readRetryAfter_def DEFAULT_RETRY_AFTER_SEC_def split: option.splits)

lemma status_group_here:
  "w \<noteq> [] \<Longrightarrow> CHR '')'' \<notin> set w \<Longrightarrow> status_group (''(status='' @ w @ '')'' @ post) = Some w"
proof -
  assume w: "w \<noteq> []" "CHR '')'' \<notin> set w"
  have t: "takeWhile (\<lambda>x. x \<noteq> CHR '')'') (w @ '')'' @ post) = w"
    using w(2) by (induction w) auto
  show ?thesis using w t by (simp add: Let_def)
qed

lemma status_group_skip:
  "CHR ''('' \<notin> set pre \<Longrightarrow> status_group (pre @ s) = status_group s"
  by (induction pre) auto

lemma status_group_no_close:
  "status_group s = Some w \<Longrightarrow> w \<noteq> [] \<and> CHR '')'' \<notin> set w"
proof (induction s)
  case Nil
  then show ?case by simp
next
  case (Cons c cs)
  have "CHR '')'' \<notin> set (takeWhile (\<lambda>x. x \<noteq> CHR '')'') t)" for t :: string
    by (auto dest: set_takeWhileD)
  with Cons show ?case by (auto simp: Let_def split: if_splits simp del: starts_with.simps)
qed

lemmas response_defs = fromResponse_def conflict_failure_def common_def Let_def

lemma fromResponse_common:
  "fc_raw (failure_common_of (fromResponse r b)) = eb_raw b
   \<and> fc_requestId (failure_common_of (fromResponse r b)) = readRequestId r"
  by (simp add: response_defs split: option.splits)

lemma fromResponse_status: "failure_status (fromResponse r b) = Some (resp_status r)"
  by (simp add: response_defs split: option.splits)

lemma fromResponse_kind:
  "failure_kind (fromResponse r b) \<notin> {K_offline, K_timeout, K_cancelled}"
  by (simp add: response_defs split: option.splits)

lemma fromTransport_kind:
  "failure_kind (fromTransport nav e ctx) \<in> {K_timeout, K_cancelled, K_offline, K_unknown}"
  by (simp add: fromTransport_def Let_def)

section \<open>Properties\<close>

text \<open>
  Whatever a request fails with, the normalizer keeps the evidence and never invents a
  status: a failed response gives a variant whose status is the response's own, whose \<open>raw\<close> is
  the body as read and whose kind is never one of the transport kinds; a thrown value gives a
  transport kind (or \<open>unknown\<close>), no status, and the thrown value as \<open>raw\<close>.
\<close>

lemma normalizeFailure_agrees:
  "case src of
     Src_response r \<Rightarrow>
       failure_status (normalizeFailure parse nav src ctx) = Some (resp_status r)
       \<and> failure_kind (normalizeFailure parse nav src ctx) \<notin> {K_offline, K_timeout, K_cancelled}
       \<and> fc_requestId (failure_common_of (normalizeFailure parse nav src ctx)) = readRequestId r
       \<and> fc_raw (failure_common_of (normalizeFailure parse nav src ctx))
           = eb_raw (case nc_body ctx of Some b \<Rightarrow> b | None \<Rightarrow> readErrorBody parse r)
   | Src_thrown e \<Rightarrow>
       failure_status (normalizeFailure parse nav src ctx) = None
       \<and> failure_kind (normalizeFailure parse nav src ctx)
           \<in> {K_timeout, K_cancelled, K_offline, K_unknown}
       \<and> fc_raw (failure_common_of (normalizeFailure parse nav src ctx)) = RawThrown e"
proof (cases src)
  case (Src_response r)
  then show ?thesis
    by (simp add: normalizeFailure_def fromResponse_status fromResponse_kind [simplified]
        fromResponse_common)
next
  case (Src_thrown e)
  then show ?thesis
    by (simp add: normalizeFailure_def fromTransport_def thrown_common_def Let_def)
qed

text \<open>
  The backend's conflict text round-trips: a 409 whose \<open>detail\<close> is any reason without a
  parenthesis, then \<open>(status=\<close> and a non-empty state without a closing parenthesis and \<open>)\<close>,
  gives the conflict variant carrying exactly that state, and the sentence names it.
\<close>

lemma conflict_state_roundtrip:
  assumes "resp_status r = 409"
    and "CHR ''('' \<notin> set reason"
    and "state \<noteq> []" and "CHR '')'' \<notin> set state"
    and "eb_raw b = RawValue (JObj [(''detail'', JStr (reason @ ''(status='' @ state @ '')''))])"
  shows "fromResponse r b =
    AF_conflict (common r (eb_raw b)
      (''This action is not available while the job is '' @ state @ ''.'')) (Some state)"
proof -
  have "status_group (reason @ ''(status='' @ state @ '')'') = Some state"
    using status_group_skip [OF assms(2)] status_group_here [OF assms(3,4), of "[]"] by simp
  then show ?thesis
    using assms(1,5) by (simp add: fromResponse_def conflict_failure_def readDetail_def Let_def)
qed

definition example_409 :: http_response where
  "example_409 = \<lparr>resp_status = 409, resp_statusText = ''Conflict'', resp_header = (\<lambda>_. None),
     resp_body = None\<rparr>"

definition example_409_body :: error_body where
  "example_409_body = \<lparr>eb_raw = RawValue (JObj [(''detail'',
       JStr (''job_not_awaiting_review '' @ ''(status='' @ ''running'' @ '')''))]),
     eb_json = True, eb_text = []\<rparr>"

lemma conflict_state_roundtrip_witness:
  "fromResponse example_409 example_409_body =
    AF_conflict (common example_409 (eb_raw example_409_body)
      (''This action is not available while the job is '' @ ''running'' @ ''.'')) (Some ''running'')"
  by (rule conflict_state_roundtrip [where reason = "''job_not_awaiting_review ''"])
     (simp_all add: example_409_def example_409_body_def)

text \<open>
  The wait a rate-limited failure carries is always positive, whatever the header holds,
  and a \<open>retry-after\<close> header that prints a positive number is read back as that number.
\<close>

lemma rate_limited_wait:
  "(case fromResponse r b of AF_rate_limited _ w _ \<Rightarrow> 0 < w | _ \<Rightarrow> True)
   \<and> readRetryAfter (r\<lparr>resp_header := (resp_header r)(''retry-after'' \<mapsto> show_nat (Suc n))\<rparr>)
       = int (Suc n)"
proof
  show "case fromResponse r b of AF_rate_limited _ w _ \<Rightarrow> 0 < w | _ \<Rightarrow> True"
    by (simp add: response_defs readRetryAfter_pos split: option.splits)
  show "readRetryAfter (r\<lparr>resp_header := (resp_header r)(''retry-after'' \<mapsto> show_nat (Suc n))\<rparr>)
       = int (Suc n)"
    by (simp add: readRetryAfter_def)
qed

text \<open>
  No backend text reaches the sentence shown to the reader, outside the three kinds that
  quote it on purpose: two responses with the same status, none of 409, 422 and 429, give the
  same sentence whatever their bodies hold; and a transport failure's sentence depends on the
  thrown value only through its class and name, never through its message.
\<close>

lemma message_hides_raw:
  "(resp_status r \<in> {409, 422, 429} \<or>
      failure_message (fromResponse r b) = failure_message (fromResponse r b'))
   \<and> failure_message (fromTransport nav (e\<lparr>th_message := m, th_text := t\<rparr>) ctx)
      = failure_message (fromTransport nav e ctx)"
proof (rule conjI)
  show "resp_status r \<in> {409, 422, 429} \<or>
      failure_message (fromResponse r b) = failure_message (fromResponse r b')"
    by (simp add: response_defs)
  show "failure_message (fromTransport nav (e\<lparr>th_message := m, th_text := t\<rparr>) ctx)
      = failure_message (fromTransport nav e ctx)"
    by (simp add: fromTransport_def thrown_common_def errorName_def Let_def)
qed

text \<open>
  The client's own timeout wins: once the timeout flag is set the failure is \<open>timeout\<close>, even
  for an \<open>AbortError\<close> and even when the caller cancelled too; with no timeout the caller's
  cancellation gives \<open>cancelled\<close> unless the thrown value is itself a \<open>TimeoutError\<close>.
\<close>

lemma timeout_wins:
  "failure_kind (fromTransport nav e (ctx\<lparr>nc_timedOut := Some True\<rparr>)) = K_timeout
   \<and> failure_kind (fromTransport nav e (ctx\<lparr>nc_timedOut := Some False, nc_cancelled := Some True\<rparr>))
       = (if th_name e = Some ''TimeoutError'' then K_timeout else K_cancelled)"
  by (simp add: fromTransport_def errorName_def Let_def)

end
