(* ===== verification/Job_Types.thy ===== *)
theory Job_Types
  imports Api_Errors
begin

text \<open>
  The vocabulary of the job lifecycle: \<open>web/lib/job/types.ts\<close>, the model types of
  \<open>web/lib/api/models.ts\<close> it reads, the event names of \<open>web/lib/api/events.ts\<close>, and the
  projection of a guided session onto a job in \<open>web/lib/job/session.ts\<close>. A \<open>phase\<close> is the
  client machine's state, a \<open>status\<close> the server's. Times are integers (milliseconds). A plan is
  the raw JSON object: the reducer passes it through unread. A frame's data is the declared
  type, a record or \<open>null\<close>.
\<close>

section \<open>Server vocabulary\<close>

datatype job_status =
    St_pending | St_running | St_pending_review | St_awaiting_learner
  | St_succeeded | St_failed | St_cancelled

fun status_text :: "job_status \<Rightarrow> string" where
  "status_text St_pending = ''pending''"
| "status_text St_running = ''running''"
| "status_text St_pending_review = ''pending_review''"
| "status_text St_awaiting_learner = ''awaiting_learner''"
| "status_text St_succeeded = ''succeeded''"
| "status_text St_failed = ''failed''"
| "status_text St_cancelled = ''cancelled''"

datatype review_action = Approve | Revise | Cancel

datatype job_kind = Kind_research | Kind_session

record job_detail =
  jd_job_id :: string
  jd_status :: job_status
  jd_kind :: "job_kind option"
  jd_query :: string
  jd_created_at :: jnum
  jd_started_at :: "jnum option"
  jd_completed_at :: "jnum option"
  jd_elapsed_sec :: "jnum option"
  jd_result :: "string option"
  jd_error :: "string option"
  jd_error_type :: "string option"
  jd_cost_usd :: "jnum option"
  jd_llm_calls :: "jnum option"
  jd_iterations :: "jnum option"
  jd_quality_score :: "jnum option"
  jd_plan :: "json option"
  jd_conversation_id :: "string option"

text \<open>The fields of a session snapshot the projection reads.\<close>

record session_detail =
  sd_session_id :: string
  sd_status :: job_status
  sd_title :: string
  sd_created_at :: jnum
  sd_started_at :: "jnum option"
  sd_completed_at :: "jnum option"
  sd_elapsed_sec :: "jnum option"
  sd_result :: "string option"
  sd_error :: "string option"
  sd_error_type :: "string option"
  sd_cost_usd :: "jnum option"
  sd_llm_calls :: "jnum option"

definition sessionAsJobDetail :: "session_detail \<Rightarrow> job_detail" where
  "sessionAsJobDetail session =
     \<lparr>jd_job_id = sd_session_id session, jd_status = sd_status session,
      jd_kind = Some Kind_session, jd_query = sd_title session,
      jd_created_at = sd_created_at session, jd_started_at = sd_started_at session,
      jd_completed_at = sd_completed_at session, jd_elapsed_sec = sd_elapsed_sec session,
      jd_result = sd_result session, jd_error = sd_error session,
      jd_error_type = sd_error_type session, jd_cost_usd = sd_cost_usd session,
      jd_llm_calls = sd_llm_calls session, jd_iterations = None, jd_quality_score = None,
      jd_plan = None, jd_conversation_id = None\<rparr>"

section \<open>Phases and connection\<close>

datatype job_phase =
    Ph_idle | Ph_submitting | Ph_submit_failed | Ph_attaching | Ph_unavailable | Ph_live
  | Ph_awaiting_review | Ph_awaiting_learner | Ph_resolving | Ph_reconciling | Ph_settled

definition JOB_PHASES :: "job_phase list" where
  "JOB_PHASES =
     [Ph_idle, Ph_submitting, Ph_submit_failed, Ph_attaching, Ph_unavailable, Ph_live,
      Ph_awaiting_review, Ph_awaiting_learner, Ph_resolving, Ph_reconciling, Ph_settled]"

definition SETTLED_PHASES :: "job_phase set" where
  "SETTLED_PHASES = {Ph_submit_failed, Ph_unavailable, Ph_settled}"

definition TERMINAL_JOB_STATUSES :: "job_status set" where
  "TERMINAL_JOB_STATUSES = {St_succeeded, St_failed, St_cancelled}"

datatype connection_phase = Conn_closed | Conn_opening | Conn_open | Conn_reconnecting

section \<open>Observations\<close>

record observed_checkpoint =
  oc_node :: string
  oc_observedAt :: int
  oc_stateDelta :: jobj

record job_frame =
  jf_name :: string
  jf_data :: "jobj option"
  jf_receivedAt :: int

datatype terminal_name = T_job_completed | T_job_failed | T_job_cancelled

datatype terminal_shape = Sh_live | Sh_replay

record terminal_signal =
  ts_name :: terminal_name
  ts_shape :: terminal_shape
  ts_receivedAt :: int

datatype detail_source = DS_attach | DS_reconcile | DS_poll | DS_refresh

datatype unavailable_reason = UR_not_found | UR_stream_failed

datatype failure_source =
  FS_submit | FS_attach | FS_reconcile | FS_poll | FS_stream | FS_review

record submission_state =
  sub_token :: string
  sub_query :: string
  sub_conversationId :: "string option"
  sub_startedAt :: int

record review_state =
  rv_action :: review_action
  rv_inFlight :: bool

section \<open>State\<close>

record job_state =
  phase :: job_phase
  jobId :: "string option"
  detail :: "job_detail option"
  plan :: "json option"
  checkpoint :: "observed_checkpoint option"
  observed :: "observed_checkpoint list"
  connection :: connection_phase
  frames :: "job_frame list"
  terminal :: "terminal_signal option"
  failure :: "api_failure option"
  failureMessage :: "string option"
  failureStatus :: "int option"
  failureSource :: "failure_source option"
  unavailableReason :: "unavailable_reason option"
  submission :: "submission_state option"
  review :: "review_state option"
  unchangedPolls :: nat
  detailSignature :: "string option"
  lastFrameAt :: "int option"
  connectionOpenedAt :: "int option"
  suspended :: bool

section \<open>Events\<close>

datatype job_event_type =
    E_submit_requested | E_submit_accepted | E_submit_rejected
  | E_attach_requested | E_detail_resolved | E_detail_not_found | E_detail_unreachable
  | E_stream_opened | E_stream_interrupted | E_stream_failed
  | E_job_started | E_node_completed | E_plan_ready | E_turn_ready
  | E_job_completed | E_job_failed | E_job_cancelled | E_stream_timeout | E_unknown_frame
  | E_review_requested | E_review_accepted | E_review_conflict | E_review_rejected
  | E_page_hidden | E_page_restored | E_reset

definition JOB_EVENT_TYPES :: "job_event_type list" where
  "JOB_EVENT_TYPES =
     [E_submit_requested, E_submit_accepted, E_submit_rejected,
      E_attach_requested, E_detail_resolved, E_detail_not_found, E_detail_unreachable,
      E_stream_opened, E_stream_interrupted, E_stream_failed,
      E_job_started, E_node_completed, E_plan_ready, E_turn_ready,
      E_job_completed, E_job_failed, E_job_cancelled, E_stream_timeout, E_unknown_frame,
      E_review_requested, E_review_accepted, E_review_conflict, E_review_rejected,
      E_page_hidden, E_page_restored, E_reset]"

text \<open>
  One constructor per member of the union; the nine frame events carry the frame, the others
  their fields in the order of the declaration (the last integer is \<open>at\<close>).
\<close>

datatype job_event =
    Ev_submit_requested string string "string option" int
  | Ev_submit_accepted string string int
  | Ev_submit_rejected string "api_failure option" string "int option" int
  | Ev_attach_requested string bool int
  | Ev_detail_resolved job_detail detail_source int
  | Ev_detail_not_found string "api_failure option" string "int option" detail_source int
  | Ev_detail_unreachable string "api_failure option" string "int option" detail_source int
  | Ev_stream_opened string int
  | Ev_stream_interrupted string int
  | Ev_stream_failed string int
  | Ev_job_started job_frame
  | Ev_node_completed job_frame
  | Ev_plan_ready job_frame
  | Ev_turn_ready job_frame
  | Ev_job_completed job_frame
  | Ev_job_failed job_frame
  | Ev_job_cancelled job_frame
  | Ev_stream_timeout job_frame
  | Ev_unknown_frame job_frame
  | Ev_review_requested review_action int
  | Ev_review_accepted review_action int
  | Ev_review_conflict "api_failure option" string "int option" int
  | Ev_review_rejected "api_failure option" string "int option" int
  | Ev_page_hidden int
  | Ev_page_restored int
  | Ev_reset int

fun event_type :: "job_event \<Rightarrow> job_event_type" where
  "event_type (Ev_submit_requested _ _ _ _) = E_submit_requested"
| "event_type (Ev_submit_accepted _ _ _) = E_submit_accepted"
| "event_type (Ev_submit_rejected _ _ _ _ _) = E_submit_rejected"
| "event_type (Ev_attach_requested _ _ _) = E_attach_requested"
| "event_type (Ev_detail_resolved _ _ _) = E_detail_resolved"
| "event_type (Ev_detail_not_found _ _ _ _ _ _) = E_detail_not_found"
| "event_type (Ev_detail_unreachable _ _ _ _ _ _) = E_detail_unreachable"
| "event_type (Ev_stream_opened _ _) = E_stream_opened"
| "event_type (Ev_stream_interrupted _ _) = E_stream_interrupted"
| "event_type (Ev_stream_failed _ _) = E_stream_failed"
| "event_type (Ev_job_started _) = E_job_started"
| "event_type (Ev_node_completed _) = E_node_completed"
| "event_type (Ev_plan_ready _) = E_plan_ready"
| "event_type (Ev_turn_ready _) = E_turn_ready"
| "event_type (Ev_job_completed _) = E_job_completed"
| "event_type (Ev_job_failed _) = E_job_failed"
| "event_type (Ev_job_cancelled _) = E_job_cancelled"
| "event_type (Ev_stream_timeout _) = E_stream_timeout"
| "event_type (Ev_unknown_frame _) = E_unknown_frame"
| "event_type (Ev_review_requested _ _) = E_review_requested"
| "event_type (Ev_review_accepted _ _) = E_review_accepted"
| "event_type (Ev_review_conflict _ _ _ _) = E_review_conflict"
| "event_type (Ev_review_rejected _ _ _ _) = E_review_rejected"
| "event_type (Ev_page_hidden _) = E_page_hidden"
| "event_type (Ev_page_restored _) = E_page_restored"
| "event_type (Ev_reset _) = E_reset"

text \<open>\<open>"frame" in event ? event.frame\<close>: the nine frame events carry one, no other does.\<close>

fun event_frame :: "job_event \<Rightarrow> job_frame option" where
  "event_frame (Ev_job_started f) = Some f"
| "event_frame (Ev_node_completed f) = Some f"
| "event_frame (Ev_plan_ready f) = Some f"
| "event_frame (Ev_turn_ready f) = Some f"
| "event_frame (Ev_job_completed f) = Some f"
| "event_frame (Ev_job_failed f) = Some f"
| "event_frame (Ev_job_cancelled f) = Some f"
| "event_frame (Ev_stream_timeout f) = Some f"
| "event_frame (Ev_unknown_frame f) = Some f"
| "event_frame _ = None"

section \<open>Event names\<close>

definition SERVER_EVENT_NAMES :: "string list" where
  "SERVER_EVENT_NAMES =
     [''job_started'', ''node_completed'', ''plan_ready'', ''turn_ready'', ''job_completed'',
      ''job_failed'', ''job_cancelled'', ''stream_timeout'']"

definition STREAM_TIMEOUT_EVENT :: string where
  "STREAM_TIMEOUT_EVENT = ''stream_timeout''"

definition CLIENT_EVENT_NAMES :: "string list" where
  "CLIENT_EVENT_NAMES = [''stream_note'', ''error'']"

definition TERMINAL_EVENTS :: "string list" where
  "TERMINAL_EVENTS = [''job_completed'', ''job_failed'', ''job_cancelled'']"

end
