(* ===== verification/Copy_Trace.thy ===== *)
theory Copy_Trace
  imports JS_Base
begin

text \<open>
  The sentences a run is described with: \<open>web/lib/copy/trace.ts\<close> and the terminal phrases of
  \<open>web/lib/copy/run.ts\<close>. \<open>null\<close> and \<open>undefined\<close> are both \<open>None\<close>; counts and ages are
  integers (the callers pass whole seconds).
\<close>

definition NOT_REPORTED :: string where
  "NOT_REPORTED = ''not reported''"

section \<open>Status words and lines\<close>

datatype run_status_word =
    RW_observed | RW_live | RW_notObserved | RW_pendingReview | RW_succeeded | RW_failed
  | RW_cancelled | RW_expired

fun RUN_STATUS_WORD :: "run_status_word \<Rightarrow> string" where
  "RUN_STATUS_WORD RW_observed = ''observed''"
| "RUN_STATUS_WORD RW_live = ''Live''"
| "RUN_STATUS_WORD RW_notObserved = ''not observed''"
| "RUN_STATUS_WORD RW_pendingReview = ''Waiting for your review''"
| "RUN_STATUS_WORD RW_succeeded = ''Complete''"
| "RUN_STATUS_WORD RW_failed = ''Failed''"
| "RUN_STATUS_WORD RW_cancelled = ''Cancelled''"
| "RUN_STATUS_WORD RW_expired = ''No longer available''"

datatype run_status_line =
    RL_submitting | RL_awaitingReview | RL_rejoined | RL_reconnecting | RL_recycled | RL_cancelled
  | RL_historic | RL_failedWithoutCheckpoints | RL_positionNotReported

fun RUN_STATUS_LINE :: "run_status_line \<Rightarrow> string" where
  "RUN_STATUS_LINE RL_submitting = ''Generating plan'' @ [CHR 0x85]"
| "RUN_STATUS_LINE RL_awaitingReview =
     ''Waiting for your review. The run is paused and not spending.''"
| "RUN_STATUS_LINE RL_rejoined =
     ''This run has not finished. Earlier checkpoints are not replayed.''"
| "RUN_STATUS_LINE RL_reconnecting =
     ''Reconnecting. Checkpoints during the gap are not replayed.''"
| "RUN_STATUS_LINE RL_recycled =
     ''Connection recycled by the server. The run is still going.''"
| "RUN_STATUS_LINE RL_cancelled = ''Cancelled at plan review. Nothing was searched.''"
| "RUN_STATUS_LINE RL_historic =
     ''Complete. This briefing was produced outside this session, so no checkpoints were observed on this connection.''"
| "RUN_STATUS_LINE RL_failedWithoutCheckpoints =
     ''Failed. No checkpoints were observed on this connection.''"
| "RUN_STATUS_LINE RL_positionNotReported =
     ''Position after the last checkpoint is not reported.''"

definition SPINE_SEGMENTS :: "string list" where
  "SPINE_SEGMENTS = [''Question'', ''Plan'', ''Run'', ''Briefing'']"

definition UNAVAILABLE_COPY :: string where
  "UNAVAILABLE_COPY =
     ''This run is no longer available. Run records are kept for a limited time.''"

section \<open>Checkpoints and ages\<close>

definition checkpointCount :: "int \<Rightarrow> string" where
  "checkpointCount count =
     (let n = max 0 count in
      if n = 0 then ''No checkpoints observed on this connection''
      else show_int n @ '' checkpoint'' @ (if n = 1 then '''' else ''s'')
             @ '' observed on this connection'')"

definition checkpointName :: "string option \<Rightarrow> string" where
  "checkpointName node =
     (case node of Some w \<Rightarrow> if w \<noteq> [] then w else NOT_REPORTED | None \<Rightarrow> NOT_REPORTED)"

definition observedCheckpoint :: "string option \<Rightarrow> string" where
  "observedCheckpoint node = ''observed '' @ checkpointName node"

definition lastUpdated :: "int option \<Rightarrow> string option" where
  "lastUpdated secondsAgo =
     (case secondsAgo of
        None \<Rightarrow> None
      | Some v \<Rightarrow>
          let seconds = max 0 v in
          if seconds < 60 then Some (''updated '' @ show_int seconds @ ''s ago'')
          else let minutes = seconds div 60 in
            if minutes < 60 then Some (''updated '' @ show_int minutes @ ''m ago'')
            else Some (''updated '' @ show_int (minutes div 60) @ ''h ago''))"

definition failedStatusLine :: "string option \<Rightarrow> string" where
  "failedStatusLine node =
     (case node of
        None \<Rightarrow> RUN_STATUS_LINE RL_failedWithoutCheckpoints
      | Some w \<Rightarrow>
          if w = [] then RUN_STATUS_LINE RL_failedWithoutCheckpoints
          else ''Failed after the last observed checkpoint ('' @ w @ '').'')"

definition runningStatusLine :: "int \<Rightarrow> int option \<Rightarrow> string" where
  "runningStatusLine count secondsAgo =
     (let parts = [''Running'', checkpointCount count]
      in join ('' '' @ [CHR 0xB7] @ '' '')
           (case lastUpdated secondsAgo of None \<Rightarrow> parts | Some u \<Rightarrow> parts @ [u]))"

section \<open>The terminal phrase\<close>

datatype terminal_phrase =
  TP_unavailable | TP_notStarted | TP_succeeded | TP_cancelled | TP_finished

fun TERMINAL_PHRASE :: "terminal_phrase \<Rightarrow> string" where
  "TERMINAL_PHRASE TP_unavailable = ''no longer available''"
| "TERMINAL_PHRASE TP_notStarted = ''not started''"
| "TERMINAL_PHRASE TP_succeeded = ''complete''"
| "TERMINAL_PHRASE TP_cancelled = ''cancelled''"
| "TERMINAL_PHRASE TP_finished = ''finished''"

definition failedPhrase :: "string option \<Rightarrow> string" where
  "failedPhrase node =
     (case node of
        None \<Rightarrow> ''failed''
      | Some w \<Rightarrow> if w = [] then ''failed'' else ''failed after '' @ w)"

end
