(* ===== verification/Job_Machine.thy ===== *)
theory Job_Machine
  imports Interfaces Job_Types Copy_Trace
begin

text \<open>
  The job lifecycle reducer, \<open>web/lib/job/machine.ts\<close>: the initial state, the payload readers,
  the state helpers, the handlers bound to the cells of the transition table, the ten rows of
  the table cell by cell, \<open>jobReducer\<close>, the selectors and the terminal phrase. A handler that
  the source wraps in \<open>on(type, ...)\<close> has one equation for its event and one that returns the
  state for any other, which is the wrapper's guard.
\<close>

section \<open>Initial state\<close>

definition MAX_FRAMES :: nat where
  "MAX_FRAMES = 200"

definition initialJobState :: job_state where
  "initialJobState =
     \<lparr>phase = Ph_idle, jobId = None, detail = None, plan = None, checkpoint = None,
      observed = [], connection = Conn_closed, frames = [], terminal = None, failure = None,
      failureMessage = None, failureStatus = None, failureSource = None,
      unavailableReason = None, submission = None, review = None, unchangedPolls = 0,
      detailSignature = None, lastFrameAt = None, connectionOpenedAt = None,
      suspended = False\<rparr>"

section \<open>Payload readers\<close>

definition readNode :: "jobj option \<Rightarrow> string option" where
  "readNode data =
     (case data of
        None \<Rightarrow> None
      | Some m \<Rightarrow>
          (case Option.bind (jprop m ''node'') as_string of
             None \<Rightarrow> None
           | Some node \<Rightarrow> if node \<noteq> [] then Some node else None))"

definition readStateDelta :: "jobj option \<Rightarrow> jobj" where
  "readStateDelta data =
     (case data of
        None \<Rightarrow> []
      | Some m \<Rightarrow>
          (case Option.bind (jprop m ''state_delta'') as_record of None \<Rightarrow> [] | Some d \<Rightarrow> d))"

definition readPlan :: "jobj option \<Rightarrow> json option" where
  "readPlan data =
     (case data of
        None \<Rightarrow> None
      | Some m \<Rightarrow> map_option JObj (Option.bind (jprop m ''plan'') as_record))"

definition isReplayShape :: "job_frame \<Rightarrow> bool" where
  "isReplayShape frame =
     (case jf_data frame of None \<Rightarrow> False | Some m \<Rightarrow> jprop m ''status'' \<noteq> None)"

definition isTerminalFrameName :: "string \<Rightarrow> bool" where
  "isTerminalFrameName name \<longleftrightarrow> name \<in> set TERMINAL_EVENTS"

definition isTerminalJobStatus :: "job_status \<Rightarrow> bool" where
  "isTerminalJobStatus status \<longleftrightarrow> status \<in> TERMINAL_JOB_STATUSES"

definition detail_signature :: "job_detail \<Rightarrow> string" where
  "detail_signature d = stringify (JArr
     [JStr (jd_job_id d),
      JStr (status_text (jd_status d)),
      jopt JNum (jd_completed_at d),
      jopt (\<lambda>r. JNum (JInt (int (length r)))) (jd_result d),
      jopt JStr (jd_error d),
      jopt JStr (jd_error_type d),
      jopt JNum (jd_cost_usd d),
      jopt JNum (jd_llm_calls d),
      jopt JNum (jd_iterations d),
      jopt JNum (jd_quality_score d),
      jopt (\<lambda>p. p) (jd_plan d)])"

section \<open>State helpers\<close>

definition cleared :: "job_state \<Rightarrow> job_state" where
  "cleared s = s\<lparr>failure := None, failureMessage := None, failureStatus := None,
                 failureSource := None\<rparr>"

definition freshRun :: "job_state \<Rightarrow> string option \<Rightarrow> job_state" where
  "freshRun s i = initialJobState\<lparr>phase := phase s, jobId := i\<rparr>"

definition beginConnection :: "job_state \<Rightarrow> int \<Rightarrow> job_state" where
  "beginConnection s at =
     s\<lparr>connection := Conn_open, connectionOpenedAt := Some at, checkpoint := None,
       observed := [], suspended := False\<rparr>"

definition ensureOpen :: "job_state \<Rightarrow> int \<Rightarrow> job_state" where
  "ensureOpen s at = (if connection s = Conn_open then s else beginConnection s at)"

definition withFrame :: "job_state \<Rightarrow> job_frame \<Rightarrow> job_state" where
  "withFrame s f =
     (let fs = frames s @ [f]
      in s\<lparr>frames := (if length fs > MAX_FRAMES then take_last MAX_FRAMES fs else fs),
           lastFrameAt := Some (jf_receivedAt f)\<rparr>)"

definition noteFrame :: "job_state \<Rightarrow> job_frame \<Rightarrow> job_state" where
  "noteFrame s f = withFrame (ensureOpen s (jf_receivedAt f)) f"

definition observeCheckpoint :: "job_state \<Rightarrow> job_frame \<Rightarrow> job_state" where
  "observeCheckpoint s f =
     (case readNode (jf_data f) of
        None \<Rightarrow> s
      | Some node \<Rightarrow>
          let observation = \<lparr>oc_node = node, oc_observedAt = jf_receivedAt f,
                             oc_stateDelta = readStateDelta (jf_data f)\<rparr>
          in s\<lparr>checkpoint := Some observation, observed := observed s @ [observation]\<rparr>)"

definition adoptDetail :: "job_state \<Rightarrow> job_detail \<Rightarrow> detail_source \<Rightarrow> job_state" where
  "adoptDetail s d src =
     (let signature = detail_signature d;
          unchanged = (detailSignature s = Some signature);
          base = cleared (s\<lparr>detail := Some d, jobId := Some (jd_job_id d),
                            detailSignature := Some signature,
                            unchangedPolls :=
                              (if src = DS_poll then (if unchanged then unchangedPolls s + 1 else 0)
                               else unchangedPolls s)\<rparr>)
      in if isTerminalJobStatus (jd_status d) then
           base\<lparr>phase := Ph_settled, plan := None, review := None, connection := Conn_closed,
                submission := None\<rparr>
         else if jd_status d = St_pending_review then
           (let parked = base\<lparr>phase := Ph_awaiting_review,
                              plan := (case jd_plan d of Some p \<Rightarrow> Some p | None \<Rightarrow> plan s),
                              submission := None\<rparr>;
                carries = (failureSource s = Some FS_review
                           \<and> map_option failure_kind (failure s) \<noteq> Some K_conflict)
            in if carries
               then parked\<lparr>failure := failure s, failureMessage := failureMessage s,
                           failureStatus := failureStatus s, failureSource := Some FS_review\<rparr>
               else parked)
         else if jd_status d = St_awaiting_learner then
           base\<lparr>phase := Ph_awaiting_learner, plan := None, review := None, submission := None\<rparr>
         else base\<lparr>phase := Ph_live, plan := None, review := None, submission := None\<rparr>)"

definition signalTerminal :: "job_state \<Rightarrow> job_frame \<Rightarrow> terminal_name \<Rightarrow> job_state" where
  "signalTerminal s f name =
     (noteFrame s f)\<lparr>phase := Ph_reconciling, connection := Conn_closed, review := None,
        terminal := Some \<lparr>ts_name = name,
                          ts_shape = (if isReplayShape f then Sh_replay else Sh_live),
                          ts_receivedAt = jf_receivedAt f\<rparr>\<rparr>"

definition narrateInterruption :: "job_state \<Rightarrow> int \<Rightarrow> job_state" where
  "narrateInterruption s at =
     withFrame (s\<lparr>connection := Conn_reconnecting\<rparr>)
       \<lparr>jf_name = ''stream_note'',
        jf_data = Some [(''message'', JStr ''connection interrupted; browser is retrying'')],
        jf_receivedAt = at\<rparr>"

definition toUnavailable ::
  "job_state \<Rightarrow> unavailable_reason option \<Rightarrow> api_failure option \<Rightarrow> string option \<Rightarrow> int option
     \<Rightarrow> failure_source option \<Rightarrow> job_state"
where
  "toUnavailable s reason fl message status src =
     s\<lparr>phase := Ph_unavailable, connection := Conn_closed, plan := None, review := None,
       submission := None, unavailableReason := reason, failure := fl, failureMessage := message,
       failureStatus := status, failureSource := src\<rparr>"

section \<open>Cells\<close>

text \<open>A decided cell: a transition, or \<open>IGNORE\<close>.\<close>

type_synonym transition = "(job_state \<Rightarrow> job_event \<Rightarrow> job_state) option"

type_synonym transition_row = "job_event_type \<Rightarrow> transition"

definition IGNORE :: transition where
  "IGNORE = None"

text \<open>Record a failed call on the state, as eight cells spell out field by field.\<close>

definition with_failure ::
  "job_state \<Rightarrow> api_failure option \<Rightarrow> string \<Rightarrow> int option \<Rightarrow> failure_source \<Rightarrow> job_state"
where
  "with_failure s fl message status src =
     s\<lparr>failure := fl, failureMessage := Some message, failureStatus := status,
       failureSource := Some src\<rparr>"

fun startSubmission :: "job_state \<Rightarrow> job_event \<Rightarrow> job_state" where
  "startSubmission s (Ev_submit_requested token qry conversationId at) =
     (freshRun s None)\<lparr>phase := Ph_submitting,
        submission := Some \<lparr>sub_token = token, sub_query = qry,
                            sub_conversationId = conversationId, sub_startedAt = at\<rparr>\<rparr>"
| "startSubmission s _ = s"

fun startAttach :: "job_state \<Rightarrow> job_event \<Rightarrow> job_state" where
  "startAttach s (Ev_attach_requested job prefetch at) =
     (freshRun s (Some job))\<lparr>phase := (if prefetch then Ph_attaching else Ph_live),
        connection := (if prefetch then Conn_closed else Conn_opening)\<rparr>"
| "startAttach s _ = s"

fun resetAll :: "job_state \<Rightarrow> job_event \<Rightarrow> job_state" where
  "resetAll s (Ev_reset at) = initialJobState"
| "resetAll s _ = s"

fun openConnection :: "job_state \<Rightarrow> job_event \<Rightarrow> job_state" where
  "openConnection s (Ev_stream_opened job at) = beginConnection s at"
| "openConnection s _ = s"

fun interrupt :: "job_state \<Rightarrow> job_event \<Rightarrow> job_state" where
  "interrupt s (Ev_stream_interrupted job at) = narrateInterruption s at"
| "interrupt s _ = s"

fun failStream :: "job_state \<Rightarrow> job_event \<Rightarrow> job_state" where
  "failStream s (Ev_stream_failed job at) =
     toUnavailable s (Some UR_stream_failed) None None None (Some FS_stream)"
| "failStream s _ = s"

definition logFrame :: "job_state \<Rightarrow> job_event \<Rightarrow> job_state" where
  "logFrame s e = (case event_frame e of Some f \<Rightarrow> noteFrame s f | None \<Rightarrow> s)"

fun checkpointFrame :: "job_state \<Rightarrow> job_event \<Rightarrow> job_state" where
  "checkpointFrame s (Ev_node_completed f) = observeCheckpoint (noteFrame s f) f"
| "checkpointFrame s _ = s"

fun planFrame :: "job_state \<Rightarrow> job_event \<Rightarrow> job_state" where
  "planFrame s (Ev_plan_ready f) =
     (let next = noteFrame s f
      in case readPlan (jf_data f) of
           None \<Rightarrow> next
         | Some p \<Rightarrow> next\<lparr>phase := Ph_awaiting_review, plan := Some p, review := None\<rparr>)"
| "planFrame s _ = s"

fun turnFrame :: "job_state \<Rightarrow> job_event \<Rightarrow> job_state" where
  "turnFrame s (Ev_turn_ready f) =
     (noteFrame s f)\<lparr>phase := Ph_awaiting_learner, plan := None, review := None\<rparr>"
| "turnFrame s _ = s"

definition terminalFrame :: "terminal_name \<Rightarrow> job_state \<Rightarrow> job_event \<Rightarrow> job_state" where
  "terminalFrame name s e =
     (case event_frame e of Some f \<Rightarrow> signalTerminal s f name | None \<Rightarrow> s)"

fun timeoutFrame :: "job_state \<Rightarrow> job_event \<Rightarrow> job_state" where
  "timeoutFrame s (Ev_stream_timeout f) = (noteFrame s f)\<lparr>connection := Conn_reconnecting\<rparr>"
| "timeoutFrame s _ = s"

fun suspendPage :: "job_state \<Rightarrow> job_event \<Rightarrow> job_state" where
  "suspendPage s (Ev_page_hidden at) =
     s\<lparr>connection := Conn_closed, checkpoint := None, observed := [], suspended := True\<rparr>"
| "suspendPage s _ = s"

fun restorePage :: "job_state \<Rightarrow> job_event \<Rightarrow> job_state" where
  "restorePage s (Ev_page_restored at) = s\<lparr>suspended := False\<rparr>"
| "restorePage s _ = s"

fun acceptDetail :: "job_state \<Rightarrow> job_event \<Rightarrow> job_state" where
  "acceptDetail s (Ev_detail_resolved d src at) = adoptDetail s d src"
| "acceptDetail s _ = s"

fun missingDetail :: "job_state \<Rightarrow> job_event \<Rightarrow> job_state" where
  "missingDetail s (Ev_detail_not_found job fl message status src at) =
     toUnavailable s (Some UR_not_found) fl (Some message) status (Some FS_attach)"
| "missingDetail s _ = s"

subsection \<open>Cells written inside a row\<close>

fun acceptSubmission :: "job_state \<Rightarrow> job_event \<Rightarrow> job_state" where
  "acceptSubmission s (Ev_submit_accepted token job at) =
     (if map_option sub_token (submission s) \<noteq> Some token then s
      else (cleared s)\<lparr>phase := Ph_attaching, jobId := Some job, submission := None\<rparr>)"
| "acceptSubmission s _ = s"

fun rejectSubmission :: "job_state \<Rightarrow> job_event \<Rightarrow> job_state" where
  "rejectSubmission s (Ev_submit_rejected token fl message status at) =
     (if map_option sub_token (submission s) \<noteq> Some token then s
      else (with_failure s fl message status FS_submit)
             \<lparr>phase := Ph_submit_failed, submission := None\<rparr>)"
| "rejectSubmission s _ = s"

fun attachDetail :: "job_state \<Rightarrow> job_event \<Rightarrow> job_state" where
  "attachDetail s (Ev_detail_resolved d src at) =
     (let next = adoptDetail s d src
      in if phase next = Ph_settled then next else next\<lparr>connection := Conn_opening\<rparr>)"
| "attachDetail s _ = s"

fun attachUnreachable :: "job_state \<Rightarrow> job_event \<Rightarrow> job_state" where
  "attachUnreachable s (Ev_detail_unreachable job fl message status src at) =
     (with_failure s fl message status FS_attach)\<lparr>phase := Ph_live, connection := Conn_opening\<rparr>"
| "attachUnreachable s _ = s"

fun attachOpened :: "job_state \<Rightarrow> job_event \<Rightarrow> job_state" where
  "attachOpened s (Ev_stream_opened job at) = (beginConnection s at)\<lparr>phase := Ph_live\<rparr>"
| "attachOpened s _ = s"

fun recordUnreachable :: "job_state \<Rightarrow> job_event \<Rightarrow> job_state" where
  "recordUnreachable s (Ev_detail_unreachable job fl message status src at) =
     with_failure s fl message status (if src = DS_poll then FS_poll else FS_attach)"
| "recordUnreachable s _ = s"

fun requestReview :: "job_state \<Rightarrow> job_event \<Rightarrow> job_state" where
  "requestReview s (Ev_review_requested a at) =
     (cleared s)\<lparr>review := Some \<lparr>rv_action = a, rv_inFlight = True\<rparr>\<rparr>"
| "requestReview s _ = s"

fun acceptReview :: "job_state \<Rightarrow> job_event \<Rightarrow> job_state" where
  "acceptReview s (Ev_review_accepted a at) =
     (cleared s)\<lparr>phase := Ph_resolving, plan := None,
                 review := Some \<lparr>rv_action = a, rv_inFlight = False\<rparr>\<rparr>"
| "acceptReview s _ = s"

fun conflictReview :: "job_state \<Rightarrow> job_event \<Rightarrow> job_state" where
  "conflictReview s (Ev_review_conflict fl message status at) =
     (with_failure s fl message status FS_review)\<lparr>phase := Ph_attaching, review := None\<rparr>"
| "conflictReview s _ = s"

fun rejectReview :: "job_state \<Rightarrow> job_event \<Rightarrow> job_state" where
  "rejectReview s (Ev_review_rejected fl message status at) =
     (with_failure s fl message status FS_review)\<lparr>review := None\<rparr>"
| "rejectReview s _ = s"

fun resumeStarted :: "job_state \<Rightarrow> job_event \<Rightarrow> job_state" where
  "resumeStarted s (Ev_job_started f) = (noteFrame s f)\<lparr>phase := Ph_live\<rparr>"
| "resumeStarted s _ = s"

fun resumeCheckpoint :: "job_state \<Rightarrow> job_event \<Rightarrow> job_state" where
  "resumeCheckpoint s (Ev_node_completed f) =
     (observeCheckpoint (noteFrame s f) f)\<lparr>phase := Ph_live\<rparr>"
| "resumeCheckpoint s _ = s"

fun reconcileMissing :: "job_state \<Rightarrow> job_event \<Rightarrow> job_state" where
  "reconcileMissing s (Ev_detail_not_found job fl message status src at) =
     toUnavailable s (Some UR_not_found) fl (Some message) status (Some FS_reconcile)"
| "reconcileMissing s _ = s"

fun reconcileUnreachable :: "job_state \<Rightarrow> job_event \<Rightarrow> job_state" where
  "reconcileUnreachable s (Ev_detail_unreachable job fl message status src at) =
     (with_failure s fl message status FS_reconcile)
       \<lparr>phase := Ph_settled, connection := Conn_closed\<rparr>"
| "reconcileUnreachable s _ = s"

section \<open>Rows\<close>

fun idle_row :: transition_row where
  "idle_row E_submit_requested = Some startSubmission"
| "idle_row E_submit_accepted = IGNORE"
| "idle_row E_submit_rejected = IGNORE"
| "idle_row E_attach_requested = Some startAttach"
| "idle_row E_detail_resolved = IGNORE"
| "idle_row E_detail_not_found = IGNORE"
| "idle_row E_detail_unreachable = IGNORE"
| "idle_row E_stream_opened = IGNORE"
| "idle_row E_stream_interrupted = IGNORE"
| "idle_row E_stream_failed = IGNORE"
| "idle_row E_job_started = IGNORE"
| "idle_row E_node_completed = IGNORE"
| "idle_row E_plan_ready = IGNORE"
| "idle_row E_turn_ready = IGNORE"
| "idle_row E_job_completed = IGNORE"
| "idle_row E_job_failed = IGNORE"
| "idle_row E_job_cancelled = IGNORE"
| "idle_row E_stream_timeout = IGNORE"
| "idle_row E_unknown_frame = IGNORE"
| "idle_row E_review_requested = IGNORE"
| "idle_row E_review_accepted = IGNORE"
| "idle_row E_review_conflict = IGNORE"
| "idle_row E_review_rejected = IGNORE"
| "idle_row E_page_hidden = IGNORE"
| "idle_row E_page_restored = IGNORE"
| "idle_row E_reset = Some resetAll"

fun submitting_row :: transition_row where
  "submitting_row E_submit_requested = IGNORE"
| "submitting_row E_submit_accepted = Some acceptSubmission"
| "submitting_row E_submit_rejected = Some rejectSubmission"
| "submitting_row E_attach_requested = Some startAttach"
| "submitting_row E_detail_resolved = IGNORE"
| "submitting_row E_detail_not_found = IGNORE"
| "submitting_row E_detail_unreachable = IGNORE"
| "submitting_row E_stream_opened = IGNORE"
| "submitting_row E_stream_interrupted = IGNORE"
| "submitting_row E_stream_failed = IGNORE"
| "submitting_row E_job_started = IGNORE"
| "submitting_row E_node_completed = IGNORE"
| "submitting_row E_plan_ready = IGNORE"
| "submitting_row E_turn_ready = IGNORE"
| "submitting_row E_job_completed = IGNORE"
| "submitting_row E_job_failed = IGNORE"
| "submitting_row E_job_cancelled = IGNORE"
| "submitting_row E_stream_timeout = IGNORE"
| "submitting_row E_unknown_frame = IGNORE"
| "submitting_row E_review_requested = IGNORE"
| "submitting_row E_review_accepted = IGNORE"
| "submitting_row E_review_conflict = IGNORE"
| "submitting_row E_review_rejected = IGNORE"
| "submitting_row E_page_hidden = IGNORE"
| "submitting_row E_page_restored = IGNORE"
| "submitting_row E_reset = Some resetAll"

fun submitFailed_row :: transition_row where
  "submitFailed_row E_submit_requested = Some startSubmission"
| "submitFailed_row E_submit_accepted = IGNORE"
| "submitFailed_row E_submit_rejected = IGNORE"
| "submitFailed_row E_attach_requested = Some startAttach"
| "submitFailed_row E_detail_resolved = IGNORE"
| "submitFailed_row E_detail_not_found = IGNORE"
| "submitFailed_row E_detail_unreachable = IGNORE"
| "submitFailed_row E_stream_opened = IGNORE"
| "submitFailed_row E_stream_interrupted = IGNORE"
| "submitFailed_row E_stream_failed = IGNORE"
| "submitFailed_row E_job_started = IGNORE"
| "submitFailed_row E_node_completed = IGNORE"
| "submitFailed_row E_plan_ready = IGNORE"
| "submitFailed_row E_turn_ready = IGNORE"
| "submitFailed_row E_job_completed = IGNORE"
| "submitFailed_row E_job_failed = IGNORE"
| "submitFailed_row E_job_cancelled = IGNORE"
| "submitFailed_row E_stream_timeout = IGNORE"
| "submitFailed_row E_unknown_frame = IGNORE"
| "submitFailed_row E_review_requested = IGNORE"
| "submitFailed_row E_review_accepted = IGNORE"
| "submitFailed_row E_review_conflict = IGNORE"
| "submitFailed_row E_review_rejected = IGNORE"
| "submitFailed_row E_page_hidden = IGNORE"
| "submitFailed_row E_page_restored = IGNORE"
| "submitFailed_row E_reset = Some resetAll"

fun attaching_row :: transition_row where
  "attaching_row E_submit_requested = Some startSubmission"
| "attaching_row E_submit_accepted = IGNORE"
| "attaching_row E_submit_rejected = IGNORE"
| "attaching_row E_attach_requested = Some startAttach"
| "attaching_row E_detail_resolved = Some attachDetail"
| "attaching_row E_detail_not_found = Some missingDetail"
| "attaching_row E_detail_unreachable = Some attachUnreachable"
| "attaching_row E_stream_opened = Some attachOpened"
| "attaching_row E_stream_interrupted = Some interrupt"
| "attaching_row E_stream_failed = Some failStream"
| "attaching_row E_job_started = Some logFrame"
| "attaching_row E_node_completed = Some checkpointFrame"
| "attaching_row E_plan_ready = Some planFrame"
| "attaching_row E_turn_ready = Some turnFrame"
| "attaching_row E_job_completed = Some (terminalFrame T_job_completed)"
| "attaching_row E_job_failed = Some (terminalFrame T_job_failed)"
| "attaching_row E_job_cancelled = Some (terminalFrame T_job_cancelled)"
| "attaching_row E_stream_timeout = Some timeoutFrame"
| "attaching_row E_unknown_frame = Some logFrame"
| "attaching_row E_review_requested = IGNORE"
| "attaching_row E_review_accepted = IGNORE"
| "attaching_row E_review_conflict = IGNORE"
| "attaching_row E_review_rejected = IGNORE"
| "attaching_row E_page_hidden = Some suspendPage"
| "attaching_row E_page_restored = Some restorePage"
| "attaching_row E_reset = Some resetAll"

fun unavailable_row :: transition_row where
  "unavailable_row E_submit_requested = Some startSubmission"
| "unavailable_row E_submit_accepted = IGNORE"
| "unavailable_row E_submit_rejected = IGNORE"
| "unavailable_row E_attach_requested = Some startAttach"
| "unavailable_row E_detail_resolved = Some acceptDetail"
| "unavailable_row E_detail_not_found = IGNORE"
| "unavailable_row E_detail_unreachable = IGNORE"
| "unavailable_row E_stream_opened = IGNORE"
| "unavailable_row E_stream_interrupted = IGNORE"
| "unavailable_row E_stream_failed = IGNORE"
| "unavailable_row E_job_started = IGNORE"
| "unavailable_row E_node_completed = IGNORE"
| "unavailable_row E_plan_ready = IGNORE"
| "unavailable_row E_turn_ready = IGNORE"
| "unavailable_row E_job_completed = IGNORE"
| "unavailable_row E_job_failed = IGNORE"
| "unavailable_row E_job_cancelled = IGNORE"
| "unavailable_row E_stream_timeout = IGNORE"
| "unavailable_row E_unknown_frame = IGNORE"
| "unavailable_row E_review_requested = IGNORE"
| "unavailable_row E_review_accepted = IGNORE"
| "unavailable_row E_review_conflict = IGNORE"
| "unavailable_row E_review_rejected = IGNORE"
| "unavailable_row E_page_hidden = IGNORE"
| "unavailable_row E_page_restored = IGNORE"
| "unavailable_row E_reset = Some resetAll"

fun live_row :: transition_row where
  "live_row E_submit_requested = Some startSubmission"
| "live_row E_submit_accepted = IGNORE"
| "live_row E_submit_rejected = IGNORE"
| "live_row E_attach_requested = Some startAttach"
| "live_row E_detail_resolved = Some acceptDetail"
| "live_row E_detail_not_found = Some missingDetail"
| "live_row E_detail_unreachable = Some recordUnreachable"
| "live_row E_stream_opened = Some openConnection"
| "live_row E_stream_interrupted = Some interrupt"
| "live_row E_stream_failed = Some failStream"
| "live_row E_job_started = Some logFrame"
| "live_row E_node_completed = Some checkpointFrame"
| "live_row E_plan_ready = Some planFrame"
| "live_row E_turn_ready = Some turnFrame"
| "live_row E_job_completed = Some (terminalFrame T_job_completed)"
| "live_row E_job_failed = Some (terminalFrame T_job_failed)"
| "live_row E_job_cancelled = Some (terminalFrame T_job_cancelled)"
| "live_row E_stream_timeout = Some timeoutFrame"
| "live_row E_unknown_frame = Some logFrame"
| "live_row E_review_requested = IGNORE"
| "live_row E_review_accepted = IGNORE"
| "live_row E_review_conflict = IGNORE"
| "live_row E_review_rejected = IGNORE"
| "live_row E_page_hidden = Some suspendPage"
| "live_row E_page_restored = Some restorePage"
| "live_row E_reset = Some resetAll"

fun awaitingReview_row :: transition_row where
  "awaitingReview_row E_submit_requested = Some startSubmission"
| "awaitingReview_row E_submit_accepted = IGNORE"
| "awaitingReview_row E_submit_rejected = IGNORE"
| "awaitingReview_row E_attach_requested = Some startAttach"
| "awaitingReview_row E_detail_resolved = Some acceptDetail"
| "awaitingReview_row E_detail_not_found = Some missingDetail"
| "awaitingReview_row E_detail_unreachable = Some recordUnreachable"
| "awaitingReview_row E_stream_opened = Some openConnection"
| "awaitingReview_row E_stream_interrupted = Some interrupt"
| "awaitingReview_row E_stream_failed = Some failStream"
| "awaitingReview_row E_job_started = Some logFrame"
| "awaitingReview_row E_node_completed = Some checkpointFrame"
| "awaitingReview_row E_plan_ready = Some planFrame"
| "awaitingReview_row E_turn_ready = Some turnFrame"
| "awaitingReview_row E_job_completed = Some (terminalFrame T_job_completed)"
| "awaitingReview_row E_job_failed = Some (terminalFrame T_job_failed)"
| "awaitingReview_row E_job_cancelled = Some (terminalFrame T_job_cancelled)"
| "awaitingReview_row E_stream_timeout = Some timeoutFrame"
| "awaitingReview_row E_unknown_frame = Some logFrame"
| "awaitingReview_row E_review_requested = Some requestReview"
| "awaitingReview_row E_review_accepted = Some acceptReview"
| "awaitingReview_row E_review_conflict = Some conflictReview"
| "awaitingReview_row E_review_rejected = Some rejectReview"
| "awaitingReview_row E_page_hidden = Some suspendPage"
| "awaitingReview_row E_page_restored = Some restorePage"
| "awaitingReview_row E_reset = Some resetAll"

fun resolving_row :: transition_row where
  "resolving_row E_submit_requested = Some startSubmission"
| "resolving_row E_submit_accepted = IGNORE"
| "resolving_row E_submit_rejected = IGNORE"
| "resolving_row E_attach_requested = Some startAttach"
| "resolving_row E_detail_resolved = Some acceptDetail"
| "resolving_row E_detail_not_found = Some missingDetail"
| "resolving_row E_detail_unreachable = Some recordUnreachable"
| "resolving_row E_stream_opened = Some openConnection"
| "resolving_row E_stream_interrupted = Some interrupt"
| "resolving_row E_stream_failed = Some failStream"
| "resolving_row E_job_started = Some resumeStarted"
| "resolving_row E_node_completed = Some resumeCheckpoint"
| "resolving_row E_plan_ready = Some planFrame"
| "resolving_row E_turn_ready = Some turnFrame"
| "resolving_row E_job_completed = Some (terminalFrame T_job_completed)"
| "resolving_row E_job_failed = Some (terminalFrame T_job_failed)"
| "resolving_row E_job_cancelled = Some (terminalFrame T_job_cancelled)"
| "resolving_row E_stream_timeout = Some timeoutFrame"
| "resolving_row E_unknown_frame = Some logFrame"
| "resolving_row E_review_requested = IGNORE"
| "resolving_row E_review_accepted = IGNORE"
| "resolving_row E_review_conflict = IGNORE"
| "resolving_row E_review_rejected = IGNORE"
| "resolving_row E_page_hidden = Some suspendPage"
| "resolving_row E_page_restored = Some restorePage"
| "resolving_row E_reset = Some resetAll"

fun reconciling_row :: transition_row where
  "reconciling_row E_submit_requested = Some startSubmission"
| "reconciling_row E_submit_accepted = IGNORE"
| "reconciling_row E_submit_rejected = IGNORE"
| "reconciling_row E_attach_requested = Some startAttach"
| "reconciling_row E_detail_resolved = Some acceptDetail"
| "reconciling_row E_detail_not_found = Some reconcileMissing"
| "reconciling_row E_detail_unreachable = Some reconcileUnreachable"
| "reconciling_row E_stream_opened = IGNORE"
| "reconciling_row E_stream_interrupted = IGNORE"
| "reconciling_row E_stream_failed = IGNORE"
| "reconciling_row E_job_started = IGNORE"
| "reconciling_row E_node_completed = IGNORE"
| "reconciling_row E_plan_ready = IGNORE"
| "reconciling_row E_turn_ready = IGNORE"
| "reconciling_row E_job_completed = IGNORE"
| "reconciling_row E_job_failed = IGNORE"
| "reconciling_row E_job_cancelled = IGNORE"
| "reconciling_row E_stream_timeout = IGNORE"
| "reconciling_row E_unknown_frame = IGNORE"
| "reconciling_row E_review_requested = IGNORE"
| "reconciling_row E_review_accepted = IGNORE"
| "reconciling_row E_review_conflict = IGNORE"
| "reconciling_row E_review_rejected = IGNORE"
| "reconciling_row E_page_hidden = Some suspendPage"
| "reconciling_row E_page_restored = Some restorePage"
| "reconciling_row E_reset = Some resetAll"

fun settled_row :: transition_row where
  "settled_row E_submit_requested = Some startSubmission"
| "settled_row E_submit_accepted = IGNORE"
| "settled_row E_submit_rejected = IGNORE"
| "settled_row E_attach_requested = Some startAttach"
| "settled_row E_detail_resolved = Some acceptDetail"
| "settled_row E_detail_not_found = IGNORE"
| "settled_row E_detail_unreachable = IGNORE"
| "settled_row E_stream_opened = IGNORE"
| "settled_row E_stream_interrupted = IGNORE"
| "settled_row E_stream_failed = IGNORE"
| "settled_row E_job_started = IGNORE"
| "settled_row E_node_completed = IGNORE"
| "settled_row E_plan_ready = IGNORE"
| "settled_row E_turn_ready = IGNORE"
| "settled_row E_job_completed = IGNORE"
| "settled_row E_job_failed = IGNORE"
| "settled_row E_job_cancelled = IGNORE"
| "settled_row E_stream_timeout = IGNORE"
| "settled_row E_unknown_frame = IGNORE"
| "settled_row E_review_requested = IGNORE"
| "settled_row E_review_accepted = IGNORE"
| "settled_row E_review_conflict = IGNORE"
| "settled_row E_review_rejected = IGNORE"
| "settled_row E_page_hidden = IGNORE"
| "settled_row E_page_restored = IGNORE"
| "settled_row E_reset = Some resetAll"
definition awaitingLearner_row :: transition_row where
  "awaitingLearner_row = live_row"

fun TRANSITIONS :: "job_phase \<Rightarrow> transition_row" where
  "TRANSITIONS Ph_idle = idle_row"
| "TRANSITIONS Ph_submitting = submitting_row"
| "TRANSITIONS Ph_submit_failed = submitFailed_row"
| "TRANSITIONS Ph_attaching = attaching_row"
| "TRANSITIONS Ph_unavailable = unavailable_row"
| "TRANSITIONS Ph_live = live_row"
| "TRANSITIONS Ph_awaiting_review = awaitingReview_row"
| "TRANSITIONS Ph_awaiting_learner = awaitingLearner_row"
| "TRANSITIONS Ph_resolving = resolving_row"
| "TRANSITIONS Ph_reconciling = reconciling_row"
| "TRANSITIONS Ph_settled = settled_row"

section \<open>The reducer\<close>

definition jobReducer :: "job_state \<Rightarrow> job_event \<Rightarrow> job_state" where
  "jobReducer s e =
     (case TRANSITIONS (phase s) (event_type e) of None \<Rightarrow> s | Some cell \<Rightarrow> cell s e)"

definition isIgnored :: "job_phase \<Rightarrow> job_event_type \<Rightarrow> bool" where
  "isIgnored p t \<longleftrightarrow> TRANSITIONS p t = None"

definition transitionMatrix :: "(job_phase \<times> job_event_type \<times> bool) list" where
  "transitionMatrix =
     concat (map (\<lambda>p. map (\<lambda>t. (p, t, TRANSITIONS p t \<noteq> None)) JOB_EVENT_TYPES) JOB_PHASES)"

section \<open>Selectors\<close>

definition isSettledPhase :: "job_phase \<Rightarrow> bool" where
  "isSettledPhase p \<longleftrightarrow> p \<in> SETTLED_PHASES"

definition shouldPoll :: "job_state \<Rightarrow> bool" where
  "shouldPoll s \<longleftrightarrow>
     jobId s \<noteq> None \<and> phase s \<noteq> Ph_idle \<and> phase s \<noteq> Ph_submitting
     \<and> \<not> isSettledPhase (phase s) \<and> \<not> suspended s"

definition checkpointLabel :: "job_state \<Rightarrow> string" where
  "checkpointLabel s = (case checkpoint s of Some c \<Rightarrow> oc_node c | None \<Rightarrow> ''unknown'')"

definition observedNode :: "job_state \<Rightarrow> string option" where
  "observedNode s = map_option oc_node (checkpoint s)"

definition checkpointIsCurrent :: "job_state \<Rightarrow> bool" where
  "checkpointIsCurrent s \<longleftrightarrow> connection s = Conn_open \<and> checkpoint s \<noteq> None"

section \<open>The terminal phrase\<close>

definition terminalNameFallback :: "job_state \<Rightarrow> string option" where
  "terminalNameFallback s =
     (case map_option ts_name (terminal s) of
        Some T_job_completed \<Rightarrow> None
      | Some T_job_failed \<Rightarrow> Some ''failed''
      | Some T_job_cancelled \<Rightarrow> Some ''cancelled''
      | None \<Rightarrow> None)"

definition terminalPhrase :: "job_state \<Rightarrow> string option" where
  "terminalPhrase s =
     (if phase s = Ph_unavailable then Some (TERMINAL_PHRASE TP_unavailable)
      else if phase s = Ph_submit_failed then Some (TERMINAL_PHRASE TP_notStarted)
      else if phase s \<noteq> Ph_settled then None
      else let outcome = (case detail s of Some d \<Rightarrow> Some (status_text (jd_status d))
                                         | None \<Rightarrow> terminalNameFallback s)
           in if outcome = Some ''succeeded'' then Some (TERMINAL_PHRASE TP_succeeded)
              else if outcome = Some ''cancelled'' then Some (TERMINAL_PHRASE TP_cancelled)
              else if outcome = Some ''failed'' then Some (failedPhrase (observedNode s))
              else Some (TERMINAL_PHRASE TP_finished))"

end
