(* ===== verification/Job_Laws.thy ===== *)
theory Job_Laws
  imports Job_Machine
begin

text \<open>
  The laws of the job reducer: its well-formedness invariant, kept by every cell of the table,
  the four checkpoint rules, the submission guard, the review and polling rules, and the frame
  log as a capped log. \<open>step_laws\<close> collects the handlers for the case analyses.
\<close>

named_theorems handler_defs \<open>the handlers and helpers of the transition table\<close>

declare cleared_def [handler_defs] freshRun_def [handler_defs] initialJobState_def [handler_defs]
  beginConnection_def [handler_defs] ensureOpen_def [handler_defs] withFrame_def [handler_defs]
  noteFrame_def [handler_defs] observeCheckpoint_def [handler_defs]
  signalTerminal_def [handler_defs] narrateInterruption_def [handler_defs]
  toUnavailable_def [handler_defs] IGNORE_def [handler_defs] with_failure_def [handler_defs]
  logFrame_def [handler_defs] terminalFrame_def [handler_defs]
  awaitingLearner_row_def [handler_defs]

section \<open>The invariant\<close>

definition closed_phases :: "job_phase set" where
  "closed_phases =
     {Ph_idle, Ph_submitting, Ph_submit_failed, Ph_unavailable, Ph_settled, Ph_reconciling}"

definition job_inv :: "job_state \<Rightarrow> bool" where
  "job_inv s \<longleftrightarrow>
     (phase s = Ph_submitting \<longleftrightarrow> submission s \<noteq> None)
   \<and> checkpoint s = (if observed s = [] then None else Some (last (observed s)))
   \<and> length (frames s) \<le> MAX_FRAMES
   \<and> (phase s \<in> closed_phases \<longrightarrow> connection s = Conn_closed)
   \<and> (jobId s = None \<longleftrightarrow> phase s \<in> {Ph_idle, Ph_submitting, Ph_submit_failed})
   \<and> (map_option rv_inFlight (review s) = Some True \<longrightarrow> phase s = Ph_awaiting_review)
   \<and> (failureSource s = None \<longrightarrow>
        failure s = None \<and> failureMessage s = None \<and> failureStatus s = None)
   \<and> (phase s = Ph_settled \<longrightarrow>
        map_option (isTerminalJobStatus \<circ> jd_status) (detail s) = Some True
        \<or> failureSource s = Some FS_reconcile)
   \<and> (phase s = Ph_unavailable \<longrightarrow> unavailableReason s \<noteq> None)
   \<and> detailSignature s = map_option detail_signature (detail s)"

lemma job_inv_init: "job_inv initialJobState"
  by (simp add: job_inv_def initialJobState_def closed_phases_def MAX_FRAMES_def)

lemma job_inv_adopt: "job_inv s \<Longrightarrow> job_inv (adoptDetail s d src)"
  by (cases "jd_status d")
     (auto simp: job_inv_def adoptDetail_def cleared_def Let_def isTerminalJobStatus_def
        TERMINAL_JOB_STATUSES_def closed_phases_def)

lemma frames_withFrame: "frames (withFrame s f) = take_last MAX_FRAMES (frames s @ [f])"
  by (simp add: withFrame_def Let_def)

definition open_phases :: "job_phase set" where
  "open_phases =
     {Ph_attaching, Ph_live, Ph_awaiting_review, Ph_awaiting_learner, Ph_resolving}"

lemmas phase_sets = open_phases_def closed_phases_def

lemma inv_withFrame: "job_inv s \<Longrightarrow> job_inv (withFrame s f)"
  by (simp add: job_inv_def withFrame_def Let_def)

lemma inv_begin: "job_inv s \<Longrightarrow> phase s \<in> open_phases \<Longrightarrow> job_inv (beginConnection s at)"
  by (cases "phase s") (simp_all add: job_inv_def beginConnection_def phase_sets)

lemma inv_noteFrame: "job_inv s \<Longrightarrow> phase s \<in> open_phases \<Longrightarrow> job_inv (noteFrame s f)"
  by (simp add: noteFrame_def ensureOpen_def inv_withFrame inv_begin)

lemma phase_noteFrame [simp]: "phase (noteFrame s f) = phase s"
  by (simp add: noteFrame_def withFrame_def ensureOpen_def beginConnection_def Let_def)

lemma inv_observe: "job_inv s \<Longrightarrow> job_inv (observeCheckpoint s f)"
  by (cases "readNode (jf_data f)") (simp_all add: job_inv_def observeCheckpoint_def Let_def)

lemma phase_observe [simp]: "phase (observeCheckpoint s f) = phase s"
  by (simp add: observeCheckpoint_def Let_def split: option.split)

lemma inv_connection:
  "job_inv s \<Longrightarrow> phase s \<in> open_phases \<Longrightarrow> job_inv (s\<lparr>connection := c\<rparr>)"
  by (cases "phase s") (simp_all add: job_inv_def phase_sets)

lemma inv_startSubmission: "job_inv s \<Longrightarrow> job_inv (startSubmission s e)"
  by (cases e) (simp_all, simp add: job_inv_def freshRun_def initialJobState_def phase_sets)

lemma inv_startAttach: "job_inv s \<Longrightarrow> job_inv (startAttach s e)"
  by (cases e) (simp_all, simp add: job_inv_def freshRun_def initialJobState_def phase_sets)

lemma inv_resetAll: "job_inv s \<Longrightarrow> job_inv (resetAll s e)"
  by (cases e) (simp_all add: job_inv_init)

lemma inv_openConnection:
  "job_inv s \<Longrightarrow> phase s \<in> open_phases \<Longrightarrow> job_inv (openConnection s e)"
  by (cases e) (simp_all add: inv_begin)

lemma inv_interrupt: "job_inv s \<Longrightarrow> phase s \<in> open_phases \<Longrightarrow> job_inv (interrupt s e)"
  by (cases e) (simp_all add: narrateInterruption_def inv_withFrame inv_connection)

lemma inv_toUnavailable:
  "job_inv s \<Longrightarrow> phase s \<notin> {Ph_idle, Ph_submitting, Ph_submit_failed} 
     \<Longrightarrow> job_inv (toUnavailable s (Some r) fl m st (Some src))"
  by (cases "phase s") (simp_all add: job_inv_def toUnavailable_def phase_sets)

lemma inv_failStream: "job_inv s \<Longrightarrow> phase s \<in> open_phases \<Longrightarrow> job_inv (failStream s e)"
  by (cases e) (simp_all, rule inv_toUnavailable, auto simp: open_phases_def)

lemma inv_logFrame: "job_inv s \<Longrightarrow> phase s \<in> open_phases \<Longrightarrow> job_inv (logFrame s e)"
  by (simp add: logFrame_def inv_noteFrame split: option.split)

lemma inv_checkpointFrame:
  "job_inv s \<Longrightarrow> phase s \<in> open_phases \<Longrightarrow> job_inv (checkpointFrame s e)"
  by (cases e) (simp_all add: inv_observe inv_noteFrame)

lemma inv_planFrame: "job_inv s \<Longrightarrow> phase s \<in> open_phases \<Longrightarrow> job_inv (planFrame s e)"
proof (cases e)
  case (Ev_plan_ready f)
  assume "job_inv s" "phase s \<in> open_phases"
  then have "job_inv (noteFrame s f)" "phase (noteFrame s f) \<in> open_phases"
    by (simp_all add: inv_noteFrame)
  then show ?thesis
    by (cases "readPlan (jf_data f)"; cases "phase s"; simp add: Ev_plan_ready Let_def job_inv_def phase_sets)
qed simp_all

lemma inv_turnFrame: "job_inv s \<Longrightarrow> phase s \<in> open_phases \<Longrightarrow> job_inv (turnFrame s e)"
proof (cases e)
  case (Ev_turn_ready f)
  assume "job_inv s" "phase s \<in> open_phases"
  then have "job_inv (noteFrame s f)" "phase (noteFrame s f) \<in> open_phases"
    by (simp_all add: inv_noteFrame)
  then show ?thesis
    by (cases "phase s"; simp add: Ev_turn_ready job_inv_def phase_sets)
qed simp_all

lemma inv_terminalFrame:
  "job_inv s \<Longrightarrow> phase s \<in> open_phases \<Longrightarrow> job_inv (terminalFrame n s e)"
proof (cases "event_frame e")
  case (Some f)
  assume "job_inv s" "phase s \<in> open_phases"
  then have "job_inv (noteFrame s f)" "phase (noteFrame s f) \<in> open_phases"
    by (simp_all add: inv_noteFrame)
  then show ?thesis
    by (cases "phase s"; simp add: Some terminalFrame_def signalTerminal_def job_inv_def phase_sets)
qed (simp add: terminalFrame_def)

lemma inv_timeoutFrame: "job_inv s \<Longrightarrow> phase s \<in> open_phases \<Longrightarrow> job_inv (timeoutFrame s e)"
  by (cases e) (simp_all add: inv_connection inv_noteFrame)

lemma inv_suspendPage: "job_inv s \<Longrightarrow> job_inv (suspendPage s e)"
  by (cases e) (simp_all, simp add: job_inv_def)

lemma inv_restorePage: "job_inv s \<Longrightarrow> job_inv (restorePage s e)"
  by (cases e) (simp_all, simp add: job_inv_def)

lemma inv_acceptDetail: "job_inv s \<Longrightarrow> job_inv (acceptDetail s e)"
  by (cases e) (simp_all add: job_inv_adopt)

lemma inv_missingDetail:
  "job_inv s \<Longrightarrow> phase s \<in> open_phases \<Longrightarrow> job_inv (missingDetail s e)"
  by (cases e) (simp_all, rule inv_toUnavailable, auto simp: open_phases_def)

lemma phase_adoptDetail:
  "phase (adoptDetail s d src) \<in> {Ph_settled, Ph_awaiting_review, Ph_awaiting_learner, Ph_live}"
  by (simp add: adoptDetail_def Let_def)

lemma inv_attachDetail: "job_inv s \<Longrightarrow> job_inv (attachDetail s e)"
proof (cases e)
  case (Ev_detail_resolved d src at)
  assume "job_inv s"
  then have "job_inv (adoptDetail s d src)" by (rule job_inv_adopt)
  then show ?thesis using phase_adoptDetail [of s d src]
    by (cases "phase (adoptDetail s d src)")
       (simp_all add: Ev_detail_resolved Let_def open_phases_def inv_connection)
qed simp_all

lemma inv_cells_attaching:
  "job_inv s \<Longrightarrow> phase s = Ph_attaching \<Longrightarrow> job_inv (attachUnreachable s e)"
  "job_inv s \<Longrightarrow> phase s = Ph_attaching \<Longrightarrow> job_inv (attachOpened s e)"
  by (cases e; simp; simp add: job_inv_def with_failure_def beginConnection_def phase_sets)+

lemma inv_cells_submitting:
  "job_inv s \<Longrightarrow> phase s = Ph_submitting \<Longrightarrow> job_inv (acceptSubmission s e)"
  "job_inv s \<Longrightarrow> phase s = Ph_submitting \<Longrightarrow> job_inv (rejectSubmission s e)"
  by (cases e; simp; simp add: job_inv_def with_failure_def cleared_def phase_sets)+

lemma inv_cells_review:
  "job_inv s \<Longrightarrow> phase s = Ph_awaiting_review \<Longrightarrow> job_inv (requestReview s e)"
  "job_inv s \<Longrightarrow> phase s = Ph_awaiting_review \<Longrightarrow> job_inv (acceptReview s e)"
  "job_inv s \<Longrightarrow> phase s = Ph_awaiting_review \<Longrightarrow> job_inv (conflictReview s e)"
  "job_inv s \<Longrightarrow> phase s = Ph_awaiting_review \<Longrightarrow> job_inv (rejectReview s e)"
  by (cases e; simp; simp add: job_inv_def with_failure_def cleared_def phase_sets)+

lemma inv_recordUnreachable:
  "job_inv s \<Longrightarrow> phase s \<in> open_phases \<Longrightarrow> job_inv (recordUnreachable s e)"
  by (cases e; simp; cases "phase s"; simp add: job_inv_def with_failure_def phase_sets)

lemma not_in_flight:
  "job_inv s \<Longrightarrow> phase s = Ph_resolving
     \<Longrightarrow> review s = None \<or> map_option rv_inFlight (review s) = Some False"
  by (auto simp: job_inv_def)

lemmas cell_invs =
  inv_startSubmission inv_startAttach inv_resetAll inv_openConnection inv_interrupt
  inv_failStream inv_logFrame inv_checkpointFrame inv_planFrame inv_turnFrame inv_terminalFrame
  inv_timeoutFrame inv_suspendPage inv_restorePage inv_acceptDetail inv_missingDetail
  inv_attachDetail inv_cells_attaching inv_cells_submitting inv_cells_review
  inv_recordUnreachable

lemma inv_live:
  "job_inv s \<Longrightarrow> phase s = Ph_resolving \<Longrightarrow> job_inv (s\<lparr>phase := Ph_live\<rparr>)"
  by (simp add: job_inv_def phase_sets)

lemma inv_cells_resolving:
  "job_inv s \<Longrightarrow> phase s = Ph_resolving \<Longrightarrow> job_inv (resumeStarted s e)"
  "job_inv s \<Longrightarrow> phase s = Ph_resolving \<Longrightarrow> job_inv (resumeCheckpoint s e)"
  by (cases e; simp add: inv_live inv_noteFrame inv_observe open_phases_def)+

lemma inv_cells_reconciling:
  "job_inv s \<Longrightarrow> phase s = Ph_reconciling \<Longrightarrow> job_inv (reconcileMissing s e)"
  "job_inv s \<Longrightarrow> phase s = Ph_reconciling \<Longrightarrow> job_inv (reconcileUnreachable s e)"
  subgoal by (cases e) (simp_all add: inv_toUnavailable)
  subgoal by (cases e) (simp_all, simp add: job_inv_def with_failure_def phase_sets)
  done

lemma job_inv_step: "job_inv s \<Longrightarrow> job_inv (jobReducer s e)"
  unfolding jobReducer_def
  by (cases "phase s"; cases "event_type e";
      simp add: cell_invs inv_cells_resolving inv_cells_reconciling IGNORE_def open_phases_def
        awaitingLearner_row_def)

interpretation job: reducer jobReducer initialJobState job_inv
  by unfold_locales (simp_all add: job_inv_init job_inv_step)

end
