(* ===== verification/Job_Rules.thy ===== *)
theory Job_Rules
  imports Job_Laws
begin

text \<open>
  The rules of \<open>web/lib/job/machine.ts\<close> that its comments number, as theorems over the reducer
  and its runs: the checkpoint rules, the terminal frame as a signal (two runs that differ only
  in terminal payloads are indistinguishable), the submission guard, the ways into
  \<open>unavailable\<close> and \<open>settled\<close>, what a poll may change, and the frame log as a capped log.
\<close>

section \<open>Checkpoints\<close>

lemma checkpoint_noteFrame [simp]:
  "checkpoint (noteFrame s f) = (if connection s = Conn_open then checkpoint s else None)"
  by (simp add: noteFrame_def withFrame_def ensureOpen_def beginConnection_def Let_def)

lemma checkpoint_adoptDetail [simp]: "checkpoint (adoptDetail s d src) = checkpoint s"
  by (simp add: adoptDetail_def cleared_def Let_def)

definition observation :: "job_frame \<Rightarrow> string \<Rightarrow> observed_checkpoint" where
  "observation f node =
     \<lparr>oc_node = node, oc_observedAt = jf_receivedAt f, oc_stateDelta = readStateDelta (jf_data f)\<rparr>"

lemma checkpoint_step:
  "checkpoint (jobReducer s e) = None \<or> checkpoint (jobReducer s e) = checkpoint s
   \<or> (\<exists>f node. e = Ev_node_completed f \<and> readNode (jf_data f) = Some node
        \<and> checkpoint (jobReducer s e) = Some (observation f node))"
  unfolding jobReducer_def
  by (cases "phase s"; cases e; simp add: handler_defs adoptDetail_def Let_def observation_def split: option.split)

section \<open>Terminal frames as signals\<close>

text \<open>
  \<open>strip\<close> forgets what only the diagnostics disclosure reads (the frame log and the recorded
  shape); \<open>blind\<close> forgets the payload of a terminal frame.
\<close>

definition shapeless :: "terminal_signal option \<Rightarrow> terminal_signal option" where
  "shapeless t = map_option (\<lambda>t. t\<lparr>ts_shape := Sh_live\<rparr>) t"

lemma shapeless_simps [simp]:
  "shapeless None = None" "shapeless (shapeless t) = shapeless t"
  "shapeless (Some \<lparr>ts_name = n, ts_shape = sh, ts_receivedAt = at\<rparr>)
     = Some \<lparr>ts_name = n, ts_shape = Sh_live, ts_receivedAt = at\<rparr>"
  by (simp_all add: shapeless_def option.map_comp comp_def)

definition strip :: "job_state \<Rightarrow> job_state" where
  "strip s = s\<lparr>frames := [], terminal := shapeless (terminal s)\<rparr>"

fun blind :: "job_event \<Rightarrow> job_event" where
  "blind (Ev_job_completed f) = Ev_job_completed (f\<lparr>jf_data := None\<rparr>)"
| "blind (Ev_job_failed f) = Ev_job_failed (f\<lparr>jf_data := None\<rparr>)"
| "blind (Ev_job_cancelled f) = Ev_job_cancelled (f\<lparr>jf_data := None\<rparr>)"
| "blind e = e"

lemma strip_fields [simp]:
  "phase (strip s) = phase s" "connection (strip s) = connection s"
  "checkpoint (strip s) = checkpoint s" "observed (strip s) = observed s"
  "plan (strip s) = plan s" "submission (strip s) = submission s" "failure (strip s) = failure s"
  "failureSource (strip s) = failureSource s" "failureMessage (strip s) = failureMessage s"
  "failureStatus (strip s) = failureStatus s" "unchangedPolls (strip s) = unchangedPolls s"
  "detailSignature (strip s) = detailSignature s" "detail (strip s) = detail s"
  by (simp_all add: strip_def)

lemma strip_adopt: "strip (adoptDetail (strip s) d src) = strip (adoptDetail s d src)"
  by (cases "jd_status d"; cases "jd_plan d"; cases "failure s")
    (simp_all add: adoptDetail_def Let_def cleared_def isTerminalJobStatus_def TERMINAL_JOB_STATUSES_def, simp_all add: strip_def)

lemma strip_noteFrame:
  "strip (noteFrame (strip s) f) = strip (noteFrame s f)"
  by (simp add: noteFrame_def ensureOpen_def, simp add: strip_def withFrame_def beginConnection_def Let_def)

lemma strip_cells:
  "strip (startSubmission (strip s) (blind e)) = strip (startSubmission s e)"
  "strip (startAttach (strip s) (blind e)) = strip (startAttach s e)"
  "strip (resetAll (strip s) (blind e)) = strip (resetAll s e)"
  "strip (openConnection (strip s) (blind e)) = strip (openConnection s e)"
  "strip (interrupt (strip s) (blind e)) = strip (interrupt s e)"
  "strip (failStream (strip s) (blind e)) = strip (failStream s e)"
  "strip (logFrame (strip s) (blind e)) = strip (logFrame s e)"
  "strip (checkpointFrame (strip s) (blind e)) = strip (checkpointFrame s e)"
  "strip (planFrame (strip s) (blind e)) = strip (planFrame s e)"
  "strip (turnFrame (strip s) (blind e)) = strip (turnFrame s e)"
  "strip (timeoutFrame (strip s) (blind e)) = strip (timeoutFrame s e)"
  "strip (suspendPage (strip s) (blind e)) = strip (suspendPage s e)"
  "strip (restorePage (strip s) (blind e)) = strip (restorePage s e)"
  "strip (acceptDetail (strip s) (blind e)) = strip (acceptDetail s e)"
  "strip (missingDetail (strip s) (blind e)) = strip (missingDetail s e)"
  "strip (attachUnreachable (strip s) (blind e)) = strip (attachUnreachable s e)"
  "strip (attachOpened (strip s) (blind e)) = strip (attachOpened s e)"
  "strip (recordUnreachable (strip s) (blind e)) = strip (recordUnreachable s e)"
  "strip (requestReview (strip s) (blind e)) = strip (requestReview s e)"
  "strip (acceptReview (strip s) (blind e)) = strip (acceptReview s e)"
  "strip (conflictReview (strip s) (blind e)) = strip (conflictReview s e)"
  "strip (rejectReview (strip s) (blind e)) = strip (rejectReview s e)"
  "strip (resumeStarted (strip s) (blind e)) = strip (resumeStarted s e)"
  "strip (resumeCheckpoint (strip s) (blind e)) = strip (resumeCheckpoint s e)"
  "strip (reconcileMissing (strip s) (blind e)) = strip (reconcileMissing s e)"
  "strip (reconcileUnreachable (strip s) (blind e)) = strip (reconcileUnreachable s e)"
  by (cases e; simp add: strip_adopt;
      simp add: strip_def handler_defs Let_def split: option.split)+

lemma strip_submission_cells:
  "strip (acceptSubmission (strip s) (blind e)) = strip (acceptSubmission s e)"
  "strip (rejectSubmission (strip s) (blind e)) = strip (rejectSubmission s e)"
  by (cases "submission s"; cases e; simp add: strip_def handler_defs)+

lemma strip_connection: "strip (s\<lparr>connection := c\<rparr>) = (strip s)\<lparr>connection := c\<rparr>"
  by (simp add: strip_def)

lemma strip_attachDetail: "strip (attachDetail (strip s) (blind e)) = strip (attachDetail s e)"
proof (cases e)
  case (Ev_detail_resolved d src at)
  have "phase (adoptDetail (strip s) d src) = phase (adoptDetail s d src)"
    using arg_cong [OF strip_adopt [of s d src], of phase] by simp
  moreover have "strip (adoptDetail (strip s) d src\<lparr>connection := Conn_opening\<rparr>)
      = strip (adoptDetail s d src\<lparr>connection := Conn_opening\<rparr>)"
    by (simp only: strip_connection strip_adopt)
  ultimately show ?thesis by (simp add: Ev_detail_resolved Let_def strip_adopt)
qed (simp_all add: strip_def)

lemma replay_noteFrame_terminal:
  "strip (signalTerminal (strip s) (f\<lparr>jf_data := None\<rparr>) n) = strip (signalTerminal s f n)"
  by (simp add: strip_def handler_defs Let_def)

lemma strip_terminal:
  "event_type e \<in> {E_job_completed, E_job_failed, E_job_cancelled} \<Longrightarrow>
     strip (terminalFrame n (strip s) (blind e)) = strip (terminalFrame n s e)"
  by (cases e) (simp_all add: terminalFrame_def replay_noteFrame_terminal)

lemma event_type_blind [simp]: "event_type (blind e) = event_type e"
  by (cases e) simp_all

lemma strip_strip [simp]: "strip (strip s) = strip s"
  by (simp add: strip_def)

lemma strip_step: "strip (jobReducer (strip s) (blind e)) = strip (jobReducer s e)"
  unfolding jobReducer_def
  by (cases "phase s"; cases "event_type e";
      simp add: strip_cells strip_submission_cells strip_attachDetail strip_terminal IGNORE_def awaitingLearner_row_def)

lemma blind_blind [simp]: "blind (blind e) = blind e"
  by (cases e) simp_all

lemma strip_runs:
  "strip s = strip t \<Longrightarrow> strip (runs jobReducer s (map blind es)) = strip (runs jobReducer t es)"
proof (induction es arbitrary: s t)
  case Nil
  then show ?case by simp
next
  case (Cons e es)
  have "strip (jobReducer s (blind e)) = strip (jobReducer t e)"
    using strip_step [of s "blind e"] strip_step [of t e] Cons.prems by simp
  then show ?case by (simp add: Cons.IH)
qed

lemma fallback_strip [simp]: "terminalNameFallback (strip s) = terminalNameFallback s"
  by (cases "terminal s") (simp_all add: terminalNameFallback_def strip_def shapeless_def)

lemma terminalPhrase_strip [simp]: "terminalPhrase (strip s) = terminalPhrase s"
  by (cases "detail s") (simp_all add: terminalPhrase_def observedNode_def Let_def)

lemma terminalPhrase_cong:
  assumes "strip s = strip t"
  shows "terminalPhrase s = terminalPhrase t"
proof -
  have "terminalPhrase (strip s) = terminalPhrase (strip t)" by (simp only: assms)
  then show ?thesis by (simp only: terminalPhrase_strip)
qed

section \<open>Entries, resets and submissions\<close>

lemma unavailable_entry:
  "phase (jobReducer s e) = Ph_unavailable \<Longrightarrow> phase s \<noteq> Ph_unavailable
    \<Longrightarrow> event_type e \<in> {E_detail_not_found, E_stream_failed} \<and> phase s \<in> open_phases \<union> {Ph_reconciling}"
  unfolding jobReducer_def
  by (cases "phase s"; cases e; simp add: open_phases_def handler_defs adoptDetail_def Let_def split: option.splits if_splits)


lemma settled_entry:
  "phase (jobReducer s e) = Ph_settled \<Longrightarrow> phase s \<noteq> Ph_settled \<Longrightarrow>
    (\<exists>d src at. e = Ev_detail_resolved d src at \<and> isTerminalJobStatus (jd_status d))
    \<or> phase s = Ph_reconciling \<and> event_type e = E_detail_unreachable"
  unfolding jobReducer_def
  by (cases "phase s"; cases e; simp add: handler_defs adoptDetail_def Let_def split: option.splits if_splits)

lemma reset_rule:
  "event_type e \<in> {E_attach_requested, E_reset}
   \<or> event_type e \<in> {E_stream_opened, E_page_hidden} \<and> phase s \<in> open_phases
   \<Longrightarrow> checkpoint (jobReducer s e) = None \<and> observed (jobReducer s e) = []"
  unfolding jobReducer_def
  by (cases "phase s"; cases e; simp add: handler_defs open_phases_def)

lemma plan_frame_twice:
  "(jobReducer (jobReducer s (Ev_plan_ready f)) (Ev_plan_ready g))
     \<lparr>frames := [], lastFrameAt := None\<rparr>
   = (jobReducer s (Ev_plan_ready f)) \<lparr>frames := [], lastFrameAt := None\<rparr>"
  if "jf_data g = jf_data f"
  using that unfolding jobReducer_def
  by (cases "phase s"; cases "readPlan (jf_data f)"; simp add: handler_defs Let_def)

lemma submission_step:
  "submission (jobReducer s e) = None \<or> submission (jobReducer s e) = submission s
   \<or> (\<exists>t q c at. e = Ev_submit_requested t q c at \<and> phase s \<noteq> Ph_submitting
      \<and> submission (jobReducer s e) = Some \<lparr>sub_token = t, sub_query = q, sub_conversationId = c, sub_startedAt = at\<rparr>)"
  unfolding jobReducer_def
  by (cases "phase s"; cases e; simp add: handler_defs adoptDetail_def Let_def split: option.split)

lemma jobId_step:
  "jobId (jobReducer s e) = jobId s \<or>
   (case e of
      Ev_submit_accepted t j at \<Rightarrow> map_option sub_token (submission s) = Some t \<and> jobId (jobReducer s e) = Some j
    | Ev_attach_requested j p at \<Rightarrow> jobId (jobReducer s e) = Some j
    | Ev_detail_resolved d src at \<Rightarrow> jobId (jobReducer s e) = Some (jd_job_id d)
    | Ev_submit_requested t q c at \<Rightarrow> jobId (jobReducer s e) = None
    | Ev_reset at \<Rightarrow> jobId (jobReducer s e) = None
    | _ \<Rightarrow> False)"
  unfolding jobReducer_def
  by (cases "phase s"; cases e; simp add: handler_defs adoptDetail_def Let_def split: option.split)

section \<open>The frame log\<close>

interpretation frame_log:
  bounded_log MAX_FRAMES "\<lambda>s. length (frames s) \<le> MAX_FRAMES" frames withFrame
  by unfold_locales (simp_all add: MAX_FRAMES_def withFrame_def Let_def)

section \<open>Reads while parked at the review\<close>

lemma poll_parked:
  assumes "jd_status d = St_pending_review" and "phase s = Ph_awaiting_review"
  shows "phase (jobReducer s (Ev_detail_resolved d src at)) = Ph_awaiting_review
    \<and> (if failureSource s = Some FS_review
           \<and> map_option failure_kind (failure s) \<noteq> Some K_conflict
       then failure (jobReducer s (Ev_detail_resolved d src at)) = failure s
            \<and> failureMessage (jobReducer s (Ev_detail_resolved d src at)) = failureMessage s
            \<and> failureStatus (jobReducer s (Ev_detail_resolved d src at)) = failureStatus s
            \<and> failureSource (jobReducer s (Ev_detail_resolved d src at)) = Some FS_review
       else failureSource (jobReducer s (Ev_detail_resolved d src at)) = None)"
  using assms
  by (simp add: jobReducer_def adoptDetail_def Let_def cleared_def isTerminalJobStatus_def
      TERMINAL_JOB_STATUSES_def)

lemma poll_counter:
  assumes "TRANSITIONS (phase s) E_detail_resolved \<noteq> IGNORE"
  shows "unchangedPolls (jobReducer s (Ev_detail_resolved d src at))
    = (if src = DS_poll
       then if detailSignature s = Some (detail_signature d) then unchangedPolls s + 1 else 0
       else unchangedPolls s)
    \<and> detailSignature (jobReducer s (Ev_detail_resolved d src at)) = Some (detail_signature d)
    \<and> TRANSITIONS (phase (jobReducer s (Ev_detail_resolved d src at))) E_detail_resolved
        \<noteq> IGNORE"
  using assms
  by (cases "phase s"; simp add: jobReducer_def IGNORE_def awaitingLearner_row_def adoptDetail_def
      Let_def cleared_def)

text \<open>The frame that set the checkpoint of a run, and that it has stood ever since.\<close>

lemma checkpoint_origin:
  assumes "checkpoint (runs jobReducer initialJobState es) = Some c"
  shows "\<exists>pre f post node. es = pre @ Ev_node_completed f # post
    \<and> readNode (jf_data f) = Some node \<and> c = observation f node
    \<and> (\<forall>k \<le> length post. checkpoint (runs jobReducer initialJobState
          (pre @ Ev_node_completed f # take k post)) = Some c)"
proof -
  let ?run = "runs jobReducer initialJobState"
  have "checkpoint initialJobState \<noteq> Some c" by (simp add: initialJobState_def)
  then obtain pre e post where split: "es = pre @ e # post"
    and before: "checkpoint (?run pre) \<noteq> Some c"
    and after: "\<forall>k \<le> length post. checkpoint (?run (pre @ e # take k post)) = Some c"
    using job.last_change [of "\<lambda>s. checkpoint s = Some c", OF _ assms] by blast
  have now: "checkpoint (jobReducer (?run pre) e) = Some c"
    using spec [OF after, of 0] by simp
  obtain f node where e: "e = Ev_node_completed f" "readNode (jf_data f) = Some node"
    and c: "c = observation f node"
    using checkpoint_step [of "?run pre" e] now before by auto
  then show ?thesis using split after by blast
qed

section \<open>Properties\<close>

text \<open>
  C1. From the initial state, every sequence of events whatsoever leaves the machine in a state
  of \<open>job_inv\<close>: a submission is held exactly while \<open>submitting\<close>; the checkpoint is exactly the
  last entry of the ledger of this connection; the frame log holds at most 200 frames; phases
  with nothing to receive have a closed connection; a job is on screen exactly outside \<open>idle\<close>,
  \<open>submitting\<close> and \<open>submit_failed\<close>; a review call is in flight only at the review; no failure field is
  set without a source; \<open>settled\<close> rests on a terminal status that was read, or on a
  reconciling read that failed; and the signature is that of the detail shown.
\<close>

theorem job_runs_wellformed: "job_inv (runs jobReducer initialJobState es)"
  by (rule job.inv_from_init)

text \<open>
  C2. A checkpoint is never invented and never outlives its connection. In any run from the
  initial state that ends with a checkpoint, one \<open>node_completed\<close> frame of the run carried it
  (its label, receive time and state delta are that frame's), it has been shown unchanged
  since, and since then no attach and no reset happened, and no stream opened and no page was
  hidden while the machine was in a phase that has a stream.
\<close>

theorem checkpoint_provenance:
  assumes "checkpoint (runs jobReducer initialJobState es) = Some c"
  shows "\<exists>pre f post node. es = pre @ Ev_node_completed f # post
    \<and> readNode (jf_data f) = Some node \<and> c = observation f node
    \<and> (\<forall>k < length post.
         event_type (post ! k) \<notin> {E_attach_requested, E_reset}
         \<and> (event_type (post ! k) \<in> {E_stream_opened, E_page_hidden} \<longrightarrow>
              phase (runs jobReducer initialJobState (pre @ Ev_node_completed f # take k post))
                \<notin> open_phases))"
proof -
  let ?run = "runs jobReducer initialJobState"
  obtain pre f post node where origin: "es = pre @ Ev_node_completed f # post"
      "readNode (jf_data f) = Some node" "c = observation f node"
    and after: "\<forall>k \<le> length post.
      checkpoint (?run (pre @ Ev_node_completed f # take k post)) = Some c"
    using checkpoint_origin [OF assms] by blast
  have keeps: "event_type (post ! k) \<notin> {E_attach_requested, E_reset}
      \<and> (event_type (post ! k) \<in> {E_stream_opened, E_page_hidden} \<longrightarrow>
           phase (?run (pre @ Ev_node_completed f # take k post)) \<notin> open_phases)"
    if k: "k < length post" for k
  proof -
    have "checkpoint (jobReducer (?run (pre @ Ev_node_completed f # take k post)) (post ! k))
        = Some c"
      using spec [OF after, of "Suc k"] k by (simp add: take_Suc_conv_app_nth)
    then show ?thesis
      using reset_rule [of "post ! k" "?run (pre @ Ev_node_completed f # take k post)"]
      by fastforce
  qed
  then show ?thesis using origin by blast
qed

end
