(* ===== verification/Job_Hook.thy ===== *)
theory Job_Hook
  imports Job_Rules
begin

text \<open>
  The effects around the reducer: \<open>web/lib/job/useJobStream.ts\<close> and the poll and adoption of
  \<open>web/lib/job/provider.tsx\<close>. The refs of the hook are the fields of \<open>hook\<close>; every promise in
  flight is an entry of \<open>hk_pending\<close>; every \<open>EventSource\<close> ever made is an entry of
  \<open>hk_sources\<close>, with the job and generation its listeners captured. What the hook does to the
  world (requests, streams opened and closed, callbacks) is appended to \<open>hk_log\<close>. The
  environment's moves are \<open>hook_event\<close>: calls of the controls, events of any source (also one
  that was closed), the resolution of any pending promise in any order, page events, the effect
  that runs after a render, and unmounting.
\<close>

section \<open>Values\<close>

datatype attach_mode = Get_first | Stream_first

record hook_options =
  ho_attachMode :: attach_mode
  ho_bfcache :: bool

record event_source =
  es_job :: string
  es_generation :: nat
  es_closed :: bool

datatype pending =
    P_attach string nat
  | P_read string detail_source
  | P_submit string
  | P_review string review_action

datatype effect =
    Fx_post string "string option"
  | Fx_get string
  | Fx_review string review_action "json option"
  | Fx_open nat string
  | Fx_close nat
  | Fx_onDetail job_detail
  | Fx_onSettled job_detail bool

record hook =
  hk_state :: job_state
  hk_source :: "nat option"
  hk_generation :: nat
  hk_attached :: "string option"
  hk_jobId :: "string option"
  hk_submitInFlight :: bool
  hk_attachGeneration :: nat
  hk_suspended :: "string option"
  hk_settledNotified :: "string option"
  hk_submissionToken :: "string option"
  hk_tokenCounter :: nat
  hk_perAttach :: bool
  hk_pending :: "(nat \<times> pending) list"
  hk_nextOp :: nat
  hk_sources :: "event_source list"
  hk_log :: "effect list"

definition initial_hook :: hook where
  "initial_hook =
     \<lparr>hk_state = initialJobState, hk_source = None, hk_generation = 0, hk_attached = None,
      hk_jobId = None, hk_submitInFlight = False, hk_attachGeneration = 0, hk_suspended = None,
      hk_settledNotified = None, hk_submissionToken = None, hk_tokenCounter = 0,
      hk_perAttach = False, hk_pending = [], hk_nextOp = 0, hk_sources = [], hk_log = []\<rparr>"

text \<open>What a call rejects with.\<close>

datatype rejection = Rej_api api_error | Rej_other thrown

record normalized_failure =
  nf_failure :: "api_failure option"
  nf_message :: string
  nf_status :: "int option"

fun normalizeThrown :: "rejection \<Rightarrow> normalized_failure" where
  "normalizeThrown (Rej_api e) =
     \<lparr>nf_failure = Some (ae_failure e), nf_message = ae_message e,
      nf_status = Some (ae_status e)\<rparr>"
| "normalizeThrown (Rej_other e) =
     \<lparr>nf_failure = None, nf_message = (if th_is_error e then th_message e else th_text e),
      nf_status = None\<rparr>"

text \<open>What a pending promise resolves with.\<close>

datatype outcome = O_detail job_detail | O_job string | O_done | O_rejected rejection

text \<open>\<open>n.toString(36)\<close>.\<close>

fun show_base36 :: "nat \<Rightarrow> string" where
  "show_base36 n =
     (let d = n mod 36; c = (if d < 10 then char_of (48 + d) else char_of (87 + d) :: char)
      in if n < 36 then [c] else show_base36 (n div 36) @ [c])"

declare show_base36.simps [simp del]

section \<open>Helpers\<close>

definition dispatch :: "hook \<Rightarrow> job_event \<Rightarrow> hook" where
  "dispatch h e = h\<lparr>hk_state := jobReducer (hk_state h) e\<rparr>"

definition effect :: "hook \<Rightarrow> effect \<Rightarrow> hook" where
  "effect h fx = h\<lparr>hk_log := hk_log h @ [fx]\<rparr>"

text \<open>Start an asynchronous call: its continuation waits in \<open>hk_pending\<close>.\<close>

definition await_call :: "hook \<Rightarrow> pending \<Rightarrow> hook" where
  "await_call h p = h\<lparr>hk_pending := hk_pending h @ [(hk_nextOp h, p)], hk_nextOp := hk_nextOp h + 1\<rparr>"

definition nextSubmissionToken :: "hook \<Rightarrow> int \<Rightarrow> hook \<times> string" where
  "nextSubmissionToken h at =
     (let n = hk_tokenCounter h + 1
      in (h\<lparr>hk_tokenCounter := n\<rparr>,
          ''submission-'' @ show_base36 (nat at) @ ''-'' @ show_nat n))"

definition closeStream :: "hook \<Rightarrow> hook" where
  "closeStream h =
     (let g = h\<lparr>hk_generation := hk_generation h + 1\<rparr>
      in case hk_source g of
           None \<Rightarrow> g
         | Some i \<Rightarrow>
             effect (g\<lparr>hk_source := None,
                       hk_sources := (hk_sources g)[i := (hk_sources g ! i)\<lparr>es_closed := True\<rparr>]\<rparr>)
               (Fx_close i))"

definition notifySettled :: "hook \<Rightarrow> job_detail \<Rightarrow> hook" where
  "notifySettled h d =
     (if hk_settledNotified h = Some (jd_job_id d) then h
      else effect (h\<lparr>hk_settledNotified := Some (jd_job_id d)\<rparr>) (Fx_onSettled d (hk_perAttach h)))"

definition hook_acceptDetail :: "hook \<Rightarrow> job_detail \<Rightarrow> detail_source \<Rightarrow> int \<Rightarrow> hook" where
  "hook_acceptDetail h d src at =
     (let g = effect (dispatch h (Ev_detail_resolved d src at)) (Fx_onDetail d)
      in if isTerminalJobStatus (jd_status d) then notifySettled g d else g)"

definition hook_rejectDetail ::
  "hook \<Rightarrow> rejection \<Rightarrow> string \<Rightarrow> detail_source \<Rightarrow> int \<Rightarrow> hook"
where
  "hook_rejectDetail h err job src at =
     (let n = normalizeThrown err
      in dispatch h
           ((if nf_status n = Some 404 then Ev_detail_not_found else Ev_detail_unreachable)
              job (nf_failure n) (nf_message n) (nf_status n) src at))"

text \<open>\<open>read\<close>: the request now, the rest in \<open>finish_read\<close> when it resolves.\<close>

definition start_read :: "hook \<Rightarrow> string \<Rightarrow> detail_source \<Rightarrow> hook" where
  "start_read h job src = await_call (effect h (Fx_get job)) (P_read job src)"

fun finish_read :: "hook \<Rightarrow> string \<Rightarrow> detail_source \<Rightarrow> outcome \<Rightarrow> int \<Rightarrow> hook" where
  "finish_read h job src (O_detail d) at = hook_acceptDetail h d src at"
| "finish_read h job src (O_rejected err) at = hook_rejectDetail h err job src at"
| "finish_read h job src _ at = h"

definition openStream :: "hook \<Rightarrow> string \<Rightarrow> hook" where
  "openStream h job =
     (let g = closeStream h; i = length (hk_sources g)
      in effect (g\<lparr>hk_sources := hk_sources g
                     @ [\<lparr>es_job = job, es_generation = hk_generation g, es_closed = False\<rparr>],
                   hk_source := Some i\<rparr>)
           (Fx_open i job))"

section \<open>Stream listeners\<close>

text \<open>\<open>live()\<close>, as captured by the listeners of source \<open>i\<close>.\<close>

definition stream_live :: "hook \<Rightarrow> nat \<Rightarrow> bool" where
  "stream_live h i \<longleftrightarrow>
     i < length (hk_sources h) \<and> es_generation (hk_sources h ! i) = hk_generation h
     \<and> hk_source h = Some i"

definition on_open :: "hook \<Rightarrow> nat \<Rightarrow> int \<Rightarrow> hook" where
  "on_open h i at =
     (if stream_live h i then dispatch h (Ev_stream_opened (es_job (hk_sources h ! i)) at) else h)"

text \<open>\<open>frameEvent(name, frame)\<close>.\<close>

fun frameEvent :: "job_event_type \<Rightarrow> job_frame \<Rightarrow> job_event" where
  "frameEvent E_job_started f = Ev_job_started f"
| "frameEvent E_node_completed f = Ev_node_completed f"
| "frameEvent E_plan_ready f = Ev_plan_ready f"
| "frameEvent E_turn_ready f = Ev_turn_ready f"
| "frameEvent E_job_completed f = Ev_job_completed f"
| "frameEvent E_job_failed f = Ev_job_failed f"
| "frameEvent E_job_cancelled f = Ev_job_cancelled f"
| "frameEvent E_stream_timeout f = Ev_stream_timeout f"
| "frameEvent _ f = Ev_unknown_frame f"

text \<open>The wire names that a listener is registered for (\<open>SERVER_EVENT_NAMES\<close>).\<close>

fun wire_name :: "job_event_type \<Rightarrow> string" where
  "wire_name E_job_started = ''job_started''"
| "wire_name E_node_completed = ''node_completed''"
| "wire_name E_plan_ready = ''plan_ready''"
| "wire_name E_turn_ready = ''turn_ready''"
| "wire_name E_job_completed = ''job_completed''"
| "wire_name E_job_failed = ''job_failed''"
| "wire_name E_job_cancelled = ''job_cancelled''"
| "wire_name E_stream_timeout = ''stream_timeout''"
| "wire_name _ = ''message''"

definition receive :: "hook \<Rightarrow> nat \<Rightarrow> job_event_type \<Rightarrow> jobj option \<Rightarrow> int \<Rightarrow> hook" where
  "receive h i name data at =
     (if \<not> stream_live h i \<or> wire_name name \<notin> set SERVER_EVENT_NAMES then h
      else
        let job = es_job (hk_sources h ! i);
            frame = \<lparr>jf_name = wire_name name, jf_data = data, jf_receivedAt = at\<rparr>
        in if wire_name name = STREAM_TIMEOUT_EVENT then
             openStream (dispatch h (frameEvent name frame)) job
           else if isTerminalFrameName (wire_name name) then
             start_read (dispatch (closeStream h) (frameEvent name frame)) job DS_reconcile
           else dispatch h (frameEvent name frame))"

definition on_message :: "hook \<Rightarrow> nat \<Rightarrow> jobj option \<Rightarrow> int \<Rightarrow> hook" where
  "on_message h i data at =
     (if stream_live h i
      then dispatch h (frameEvent E_unknown_frame
             \<lparr>jf_name = ''message'', jf_data = data, jf_receivedAt = at\<rparr>)
      else h)"

text \<open>\<open>closed\<close>: the source's \<open>readyState\<close> is \<open>CLOSED\<close> when the error event fires.\<close>

definition on_error :: "hook \<Rightarrow> nat \<Rightarrow> bool \<Rightarrow> int \<Rightarrow> hook" where
  "on_error h i closed at =
     (if \<not> stream_live h i then h
      else if \<not> closed then dispatch h (Ev_stream_interrupted (es_job (hk_sources h ! i)) at)
      else dispatch h (Ev_stream_failed (es_job (hk_sources h ! i)) at))"

section \<open>Attach\<close>

definition beginAttach :: "hook_options \<Rightarrow> hook \<Rightarrow> string \<Rightarrow> int \<Rightarrow> hook" where
  "beginAttach opts h job at =
     (let g = h\<lparr>hk_attached := Some job, hk_jobId := Some job, hk_settledNotified := None,
                hk_attachGeneration := hk_attachGeneration h + 1\<rparr>;
          g1 = dispatch g (Ev_attach_requested job (ho_attachMode opts = Get_first) at)
      in if ho_attachMode opts = Stream_first then openStream g1 job
         else await_call (effect g1 (Fx_get job)) (P_attach job (hk_attachGeneration g1)))"

fun finish_attach :: "hook \<Rightarrow> string \<Rightarrow> nat \<Rightarrow> outcome \<Rightarrow> int \<Rightarrow> hook" where
  "finish_attach h job gen (O_rejected err) at =
     (if hk_attachGeneration h \<noteq> gen then h
      else let g = hook_rejectDetail h err job DS_attach at
           in if nf_status (normalizeThrown err) \<noteq> Some 404 then openStream g job else g)"
| "finish_attach h job gen (O_detail d) at =
     (if hk_attachGeneration h \<noteq> gen then h
      else let g = hook_acceptDetail h d DS_attach at
           in if isTerminalJobStatus (jd_status d) then g else openStream g job)"
| "finish_attach h job gen _ at = h"

definition hook_attach :: "hook_options \<Rightarrow> hook \<Rightarrow> string \<Rightarrow> bool \<Rightarrow> int \<Rightarrow> hook" where
  "hook_attach opts h job hasOnSettled at =
     (let g = h\<lparr>hk_perAttach := hasOnSettled\<rparr>
      in if hk_attached g = Some job then g else beginAttach opts (closeStream g) job at)"

section \<open>Submit\<close>

definition hook_submit :: "hook \<Rightarrow> string \<Rightarrow> string option \<Rightarrow> int \<Rightarrow> hook" where
  "hook_submit h qry conversationId at =
     (if hk_submitInFlight h then h
      else
        let g = (closeStream (h\<lparr>hk_submitInFlight := True\<rparr>))
                  \<lparr>hk_attached := None, hk_jobId := None, hk_settledNotified := None,
                   hk_perAttach := False\<rparr>;
            (g1, token) = nextSubmissionToken g at;
            g2 = dispatch (g1\<lparr>hk_submissionToken := Some token\<rparr>)
                   (Ev_submit_requested token qry conversationId at)
        in await_call (effect g2 (Fx_post qry conversationId)) (P_submit token))"

fun finish_submit :: "hook_options \<Rightarrow> hook \<Rightarrow> string \<Rightarrow> outcome \<Rightarrow> int \<Rightarrow> hook" where
  "finish_submit opts h token (O_rejected err) at =
     (let n = normalizeThrown err
      in (dispatch h (Ev_submit_rejected token (nf_failure n) (nf_message n) (nf_status n) at))
           \<lparr>hk_submitInFlight := False\<rparr>)"
| "finish_submit opts h token (O_job job) at =
     (let g = h\<lparr>hk_submitInFlight := False\<rparr>
      in if hk_submissionToken g \<noteq> Some token then g
         else beginAttach opts (dispatch g (Ev_submit_accepted token job at)) job at)"
| "finish_submit opts h token _ at = h"

section \<open>Review, refresh, reset\<close>

definition hook_review :: "hook \<Rightarrow> review_action \<Rightarrow> json option \<Rightarrow> int \<Rightarrow> hook" where
  "hook_review h a p at =
     (case hk_jobId h of
        None \<Rightarrow> h
      | Some job \<Rightarrow>
          await_call
            (effect (dispatch h (Ev_review_requested a at))
               (Fx_review job a (if a = Revise then p else None)))
            (P_review job a))"

fun finish_review :: "hook \<Rightarrow> string \<Rightarrow> review_action \<Rightarrow> outcome \<Rightarrow> int \<Rightarrow> hook" where
  "finish_review h job a (O_rejected err) at =
     (let n = normalizeThrown err
      in if nf_status n = Some 409
         then start_read (dispatch h
                (Ev_review_conflict (nf_failure n) (nf_message n) (nf_status n) at)) job DS_attach
         else dispatch h (Ev_review_rejected (nf_failure n) (nf_message n) (nf_status n) at))"
| "finish_review h job a O_done at = dispatch h (Ev_review_accepted a at)"
| "finish_review h job a _ at = h"

definition hook_refresh :: "hook \<Rightarrow> detail_source \<Rightarrow> hook" where
  "hook_refresh h src =
     (case hk_jobId h of None \<Rightarrow> h | Some job \<Rightarrow> start_read h job src)"

definition hook_reset :: "hook \<Rightarrow> int \<Rightarrow> hook" where
  "hook_reset h at =
     dispatch ((closeStream h)
        \<lparr>hk_attached := None, hk_jobId := None, hk_suspended := None, hk_settledNotified := None,
         hk_submissionToken := None, hk_perAttach := False\<rparr>) (Ev_reset at)"

section \<open>Effects of the page\<close>

definition settled_effect :: "hook \<Rightarrow> hook" where
  "settled_effect h =
     (if isSettledPhase (phase (hk_state h)) \<and> hk_source h \<noteq> None then closeStream h else h)"

definition handlePageHide :: "hook_options \<Rightarrow> hook \<Rightarrow> int \<Rightarrow> hook" where
  "handlePageHide opts h at =
     (if \<not> ho_bfcache opts then h
      else case hk_attached h of
             None \<Rightarrow> h
           | Some job \<Rightarrow>
               if hk_source h = None then h
               else dispatch ((closeStream h)\<lparr>hk_attached := None, hk_suspended := Some job\<rparr>)
                      (Ev_page_hidden at))"

definition handlePageShow :: "hook_options \<Rightarrow> hook \<Rightarrow> int \<Rightarrow> hook" where
  "handlePageShow opts h at =
     (if \<not> ho_bfcache opts then h
      else case hk_suspended h of
             None \<Rightarrow> h
           | Some job \<Rightarrow>
               hook_attach opts
                 (dispatch (h\<lparr>hk_suspended := None\<rparr>) (Ev_page_restored at)) job False at)"

definition unmount :: "hook \<Rightarrow> hook" where
  "unmount h =
     (closeStream h)\<lparr>hk_attached := None, hk_attachGeneration := hk_attachGeneration h + 1\<rparr>"

section \<open>The provider\<close>

record poll_options =
  po_intervalMs :: int
  po_backoffIntervalMs :: int
  po_backoffAfterUnchanged :: nat
  po_enabled :: bool

definition DEFAULT_POLL :: poll_options where
  "DEFAULT_POLL =
     \<lparr>po_intervalMs = 20000, po_backoffIntervalMs = 60000, po_backoffAfterUnchanged = 5,
      po_enabled = True\<rparr>"

definition pollIntervalFor :: "job_state \<Rightarrow> poll_options \<Rightarrow> int" where
  "pollIntervalFor s opts =
     (if unchangedPolls s \<ge> po_backoffAfterUnchanged opts then po_backoffIntervalMs opts
      else po_intervalMs opts)"

text \<open>The timer exists only while the poll is enabled and active; a tick refreshes.\<close>

definition poll_tick :: "poll_options \<Rightarrow> hook \<Rightarrow> hook" where
  "poll_tick po h =
     (if po_enabled po \<and> shouldPoll (hk_state h) then hook_refresh h DS_poll else h)"

definition provider_submit ::
  "string option \<Rightarrow> hook \<Rightarrow> string \<Rightarrow> string option \<Rightarrow> int \<Rightarrow> hook"
where
  "provider_submit conversationId h qry own at =
     hook_submit h qry (case own of Some c \<Rightarrow> Some c | None \<Rightarrow> conversationId) at"

definition url_effect :: "hook_options \<Rightarrow> bool \<Rightarrow> string option \<Rightarrow> hook \<Rightarrow> int \<Rightarrow> hook" where
  "url_effect opts autoAttach job h at =
     (case job of
        None \<Rightarrow> h
      | Some j \<Rightarrow> if autoAttach then hook_attach opts h j False at else h)"

section \<open>The environment's moves\<close>

datatype hook_event =
    H_submit string "string option" int
  | H_attach string bool int
  | H_review review_action "json option" int
  | H_refresh detail_source
  | H_reset int
  | H_open nat int
  | H_frame nat job_event_type "jobj option" int
  | H_message nat "jobj option" int
  | H_error nat bool int
  | H_resolve nat outcome int
  | H_settled_effect
  | H_pagehide int
  | H_pageshow int
  | H_poll_tick
  | H_unmount

text \<open>The values each call can resolve with.\<close>

fun outcome_fits :: "pending \<Rightarrow> outcome \<Rightarrow> bool" where
  "outcome_fits p (O_rejected err) = True"
| "outcome_fits (P_attach job gen) (O_detail d) = True"
| "outcome_fits (P_read job src) (O_detail d) = True"
| "outcome_fits (P_submit token) (O_job job) = True"
| "outcome_fits (P_review job a) O_done = True"
| "outcome_fits p out = False"

text \<open>The continuation of pending promise \<open>i\<close>; a promise resolves once.\<close>

definition hook_resolve :: "hook_options \<Rightarrow> hook \<Rightarrow> nat \<Rightarrow> outcome \<Rightarrow> int \<Rightarrow> hook" where
  "hook_resolve opts h i out at =
     (case map_of (hk_pending h) i of
        None \<Rightarrow> h
      | Some p \<Rightarrow>
          if \<not> outcome_fits p out then h
          else let g = h\<lparr>hk_pending := filter (\<lambda>(j, _). j \<noteq> i) (hk_pending h)\<rparr>
          in case p of
               P_attach job gen \<Rightarrow> finish_attach g job gen out at
             | P_read job src \<Rightarrow> finish_read g job src out at
             | P_submit token \<Rightarrow> finish_submit opts g token out at
             | P_review job a \<Rightarrow> finish_review g job a out at)"

fun hook_step :: "hook_options \<Rightarrow> poll_options \<Rightarrow> hook \<Rightarrow> hook_event \<Rightarrow> hook" where
  "hook_step opts po h (H_submit qry conv at) = hook_submit h qry conv at"
| "hook_step opts po h (H_attach job cb at) = hook_attach opts h job cb at"
| "hook_step opts po h (H_review a p at) = hook_review h a p at"
| "hook_step opts po h (H_refresh src) = hook_refresh h src"
| "hook_step opts po h (H_reset at) = hook_reset h at"
| "hook_step opts po h (H_open i at) = on_open h i at"
| "hook_step opts po h (H_frame i name data at) = receive h i name data at"
| "hook_step opts po h (H_message i data at) = on_message h i data at"
| "hook_step opts po h (H_error i closed at) = on_error h i closed at"
| "hook_step opts po h (H_resolve i out at) = hook_resolve opts h i out at"
| "hook_step opts po h H_settled_effect = settled_effect h"
| "hook_step opts po h (H_pagehide at) = handlePageHide opts h at"
| "hook_step opts po h (H_pageshow at) = handlePageShow opts h at"
| "hook_step opts po h H_poll_tick = poll_tick po h"
| "hook_step opts po h H_unmount = unmount h"

end
