(* ===== verification/Job_Properties.thy ===== *)
theory Job_Properties
  imports Job_Rules
begin

text \<open>
  What \<open>web/lib/job/machine.ts\<close> promises, as properties of whole runs of \<open>jobReducer\<close>, with
  concrete runs that show the hypotheses hold. The proofs rest on the rules of \<open>Job_Rules\<close>.
\<close>

section \<open>Concrete runs\<close>

definition example_frame :: "string \<Rightarrow> jobj \<Rightarrow> int \<Rightarrow> job_frame" where
  "example_frame name m at = \<lparr>jf_name = name, jf_data = Some m, jf_receivedAt = at\<rparr>"

definition example_detail :: "string \<Rightarrow> job_status \<Rightarrow> job_detail" where
  "example_detail job st =
     \<lparr>jd_job_id = job, jd_status = st, jd_kind = None, jd_query = ''q'', jd_created_at = JInt 0,
      jd_started_at = None, jd_completed_at = None, jd_elapsed_sec = None, jd_result = None,
      jd_error = None, jd_error_type = None, jd_cost_usd = None, jd_llm_calls = None,
      jd_iterations = None, jd_quality_score = None, jd_plan = None, jd_conversation_id = None\<rparr>"

text \<open>Attach, read, open, one checkpoint, a terminal frame.\<close>

definition example_run :: "jobj \<Rightarrow> job_event list" where
  "example_run payload =
     [Ev_attach_requested ''j'' True 1,
      Ev_detail_resolved (example_detail ''j'' St_running) DS_attach 2,
      Ev_stream_opened ''j'' 3,
      Ev_node_completed (example_frame ''node_completed'' [(''node'', JStr ''reader'')] 4),
      Ev_job_failed (example_frame ''job_failed'' payload 5)]"

lemmas example_defs = example_run_def example_frame_def example_detail_def

lemma example_checkpoint:
  "checkpoint (runs jobReducer initialJobState (example_run payload))
     = Some (observation (example_frame ''node_completed'' [(''node'', JStr ''reader'')] 4) ''reader'')"
  by (simp add: example_defs jobReducer_def handler_defs adoptDetail_def Let_def
      isTerminalJobStatus_def TERMINAL_JOB_STATUSES_def readNode_def readStateDelta_def
      observation_def)

theorem checkpoint_provenance_witness:
  "\<exists>pre f post node. example_run [] = pre @ Ev_node_completed f # post
    \<and> readNode (jf_data f) = Some node
    \<and> observation (example_frame ''node_completed'' [(''node'', JStr ''reader'')] 4) ''reader''
        = observation f node
    \<and> (\<forall>k < length post.
         event_type (post ! k) \<notin> {E_attach_requested, E_reset}
         \<and> (event_type (post ! k) \<in> {E_stream_opened, E_page_hidden} \<longrightarrow>
              phase (runs jobReducer initialJobState (pre @ Ev_node_completed f # take k post))
                \<notin> open_phases))"
  by (rule checkpoint_provenance [OF example_checkpoint])

text \<open>
  C3. A terminal frame is a signal and nothing else: two runs whose events differ only in the
  payloads of their terminal frames end in the same state (up to the frame log and the recorded
  payload shape, which only the diagnostics show), whatever happens before, between and after,
  and describe the outcome with the same phrase.
\<close>

theorem terminal_payload_is_a_signal:
  assumes "map blind es = map blind fs"
  shows "strip (runs jobReducer s es) = strip (runs jobReducer s fs)
    \<and> terminalPhrase (runs jobReducer s es) = terminalPhrase (runs jobReducer s fs)"
proof -
  have "strip (runs jobReducer s es) = strip (runs jobReducer s fs)"
    by (rule trans [OF strip_runs [OF refl, symmetric]]) (simp only: assms strip_runs [OF refl])
  then show ?thesis by (intro conjI terminalPhrase_cong)
qed

theorem terminal_payload_is_a_signal_witness:
  "strip (runs jobReducer initialJobState (example_run [(''status'', JStr ''succeeded'')]))
     = strip (runs jobReducer initialJobState (example_run [(''llm_calls'', JNum (JInt 3))]))
   \<and> terminalPhrase
        (runs jobReducer initialJobState (example_run [(''status'', JStr ''succeeded'')]))
     = terminalPhrase
        (runs jobReducer initialJobState (example_run [(''llm_calls'', JNum (JInt 3))]))"
  by (rule terminal_payload_is_a_signal) (simp add: example_defs)

text \<open>
  C4. One submission, one run. While a submission is in flight another request changes nothing
  at all; an answer that carries any token but the one in flight changes nothing in any phase;
  and the answer to the submission in flight can be delivered twice without a second effect, so
  it can never put a job on screen that the reader did not ask for.
\<close>

theorem submission_guard:
  assumes "job_inv s"
  shows "(phase s = Ph_submitting \<longrightarrow> jobReducer s (Ev_submit_requested t q c at) = s)
    \<and> (map_option sub_token (submission s) \<noteq> Some t \<longrightarrow>
         jobReducer s (Ev_submit_accepted t j at) = s
         \<and> jobReducer s (Ev_submit_rejected t fl m st at) = s)
    \<and> jobReducer (jobReducer s (Ev_submit_accepted t j at)) (Ev_submit_accepted t j' at')
        = jobReducer s (Ev_submit_accepted t j at)
    \<and> (submission s \<noteq> None \<longrightarrow> phase s = Ph_submitting)"
proof (intro conjI impI)
  assume "phase s = Ph_submitting"
  then show "jobReducer s (Ev_submit_requested t q c at) = s"
    by (simp add: jobReducer_def IGNORE_def)
next
  assume "map_option sub_token (submission s) \<noteq> Some t"
  then show "jobReducer s (Ev_submit_accepted t j at) = s"
    by (cases "phase s") (simp_all add: jobReducer_def IGNORE_def awaitingLearner_row_def)
next
  assume "map_option sub_token (submission s) \<noteq> Some t"
  then show "jobReducer s (Ev_submit_rejected t fl m st at) = s"
    by (cases "phase s") (simp_all add: jobReducer_def IGNORE_def awaitingLearner_row_def)
next
  show "jobReducer (jobReducer s (Ev_submit_accepted t j at)) (Ev_submit_accepted t j' at')
      = jobReducer s (Ev_submit_accepted t j at)"
    by (cases "phase s"; simp add: jobReducer_def IGNORE_def awaitingLearner_row_def)
next
  assume "submission s \<noteq> None"
  then show "phase s = Ph_submitting" using assms by (simp add: job_inv_def)
qed

theorem submission_guard_witness:
  "jobReducer (jobReducer initialJobState (Ev_submit_requested ''a'' ''q'' None 1))
     (Ev_submit_accepted ''b'' ''j'' 2)
   = jobReducer initialJobState (Ev_submit_requested ''a'' ''q'' None 1)"
  using submission_guard [OF job_inv_step [OF job_inv_init],
      of "Ev_submit_requested ''a'' ''q'' None 1" "''b''" "''q''" None 2 "''j''"]
  by (simp add: jobReducer_def initialJobState_def freshRun_def)

text \<open>
  The machine never claims a run is gone or over without evidence: \<open>unavailable\<close> is entered
  only by a 404 read or a stream the browser gave up on, while a job is on screen; \<open>settled\<close> is
  entered only by a read whose status is terminal, or by the failed read that follows a
  terminal frame. A failed poll, an interruption or a timeout of the stream does neither.
\<close>

lemma outcome_needs_evidence:
  "(phase (jobReducer s e) \<noteq> Ph_unavailable \<or> phase s = Ph_unavailable
      \<or> event_type e \<in> {E_detail_not_found, E_stream_failed}
         \<and> phase s \<in> open_phases \<union> {Ph_reconciling})
   \<and> (phase (jobReducer s e) \<noteq> Ph_settled \<or> phase s = Ph_settled
      \<or> (\<exists>d src at. e = Ev_detail_resolved d src at \<and> isTerminalJobStatus (jd_status d))
      \<or> phase s = Ph_reconciling \<and> event_type e = E_detail_unreachable)"
  using unavailable_entry [of s e] settled_entry [of s e] by blast

lemma outcome_needs_evidence_witness:
  "phase (jobReducer (runs jobReducer initialJobState (example_run []))
      (Ev_detail_resolved (example_detail ''j'' St_failed) DS_reconcile 6)) = Ph_settled
   \<and> (\<exists>d src at. Ev_detail_resolved (example_detail ''j'' St_failed) DS_reconcile 6
          = Ev_detail_resolved d src at \<and> isTerminalJobStatus (jd_status d))"
proof -
  let ?s = "runs jobReducer initialJobState (example_run [])"
  let ?e = "Ev_detail_resolved (example_detail ''j'' St_failed) DS_reconcile 6"
  have "phase ?s = Ph_reconciling" "phase (jobReducer ?s ?e) = Ph_settled"
    by (simp_all add: example_defs jobReducer_def handler_defs adoptDetail_def Let_def
        isTerminalJobStatus_def TERMINAL_JOB_STATUSES_def readNode_def)
  then show ?thesis using outcome_needs_evidence [of ?s ?e] by simp
qed

text \<open>
  The terminal phrase of any run is one of five fixed phrases, or \<open>failed\<close>, or \<open>failed after\<close>
  a label that some \<open>node_completed\<close> frame of that very run carried verbatim.
\<close>

lemma terminal_phrase_vocabulary:
  "terminalPhrase (runs jobReducer initialJobState es)
     \<in> {None, Some ''no longer available'', Some ''not started'', Some ''complete'',
         Some ''cancelled'', Some ''finished'', Some ''failed''}
       \<union> {Some (''failed after '' @ node) |node f. Ev_node_completed f \<in> set es
            \<and> readNode (jf_data f) = Some node}"
proof -
  let ?s = "runs jobReducer initialJobState es"
  have "failedPhrase (observedNode ?s) = ''failed''
    \<or> (\<exists>node f. Ev_node_completed f \<in> set es \<and> readNode (jf_data f) = Some node
        \<and> failedPhrase (observedNode ?s) = ''failed after '' @ node)"
  proof (cases "checkpoint ?s")
    case None
    then show ?thesis by (simp add: observedNode_def failedPhrase_def)
  next
    case (Some c)
    then obtain pre f post node where "es = pre @ Ev_node_completed f # post"
      "readNode (jf_data f) = Some node" "c = observation f node"
      using checkpoint_origin by blast
    with Some show ?thesis
      by (auto simp: observedNode_def failedPhrase_def observation_def)
  qed
  moreover have "terminalPhrase ?s
     \<in> {None, Some ''no longer available'', Some ''not started'', Some ''complete'',
         Some ''cancelled'', Some ''finished'', Some (failedPhrase (observedNode ?s))}"
    by (simp add: terminalPhrase_def Let_def)
  ultimately show ?thesis by auto
qed

text \<open>
  A failed review call stays explained for as long as the run stays parked: through any
  number of successful reads that still answer \<open>pending_review\<close>, the failure of a rejected
  review and its message, status and source stand unchanged; if the failure was a conflict,
  the first such read clears it.
\<close>

lemma review_failure_survives_reads:
  assumes "phase s = Ph_awaiting_review" and "failureSource s = Some FS_review"
    and "\<forall>(d, src, at) \<in> set reads. jd_status d = St_pending_review"
  shows "let t = runs jobReducer s (map (\<lambda>(d, src, at). Ev_detail_resolved d src at) reads)
    in phase t = Ph_awaiting_review
       \<and> (if map_option failure_kind (failure s) = Some K_conflict \<and> reads \<noteq> []
          then failureSource t = None
          else failure t = failure s \<and> failureMessage t = failureMessage s
               \<and> failureStatus t = failureStatus s \<and> failureSource t = Some FS_review)"
proof -
  let ?ev = "\<lambda>(d, src, at). Ev_detail_resolved d src at"
  have settled_conflict: "phase t = Ph_awaiting_review \<Longrightarrow> failureSource t = None
      \<Longrightarrow> \<forall>(d, src, at) \<in> set rs. jd_status d = St_pending_review
      \<Longrightarrow> phase (runs jobReducer t (map ?ev rs)) = Ph_awaiting_review
          \<and> failureSource (runs jobReducer t (map ?ev rs)) = None" for t rs
    by (induction rs arbitrary: t) (auto simp: poll_parked)
  show ?thesis
    using assms
  proof (induction reads arbitrary: s)
    case Nil
    then show ?case by simp
  next
    case (Cons r rs)
    obtain d src at where r: "r = (d, src, at)" by (cases r)
    let ?t = "jobReducer s (Ev_detail_resolved d src at)"
    have parked: "jd_status d = St_pending_review"
      "\<forall>(d, src, at) \<in> set rs. jd_status d = St_pending_review"
      using Cons.prems(3) r by auto
    note step = poll_parked [OF parked(1) Cons.prems(1), of src at]
    show ?case
    proof (cases "map_option failure_kind (failure s) = Some K_conflict")
      case True
      then show ?thesis
        using step settled_conflict [OF _ _ parked(2), of ?t] by (simp add: r Let_def)
    next
      case False
      then show ?thesis
        using step Cons.IH [OF _ _ parked(2), of ?t] Cons.prems(2) by (auto simp: r Let_def)
    qed
  qed
qed

definition example_rejected :: job_state where
  "example_rejected = initialJobState\<lparr>phase := Ph_awaiting_review, jobId := Some ''j'',
     failure := Some (AF_rate_limited
       \<lparr>fc_message = ''wait'', fc_raw = RawUndefined, fc_requestId = None\<rparr> 60 None),
     failureMessage := Some ''wait'', failureStatus := Some 429,
     failureSource := Some FS_review\<rparr>"

lemma review_failure_survives_reads_witness:
  "failureMessage (runs jobReducer example_rejected
     (map (\<lambda>(d, src, at). Ev_detail_resolved d src at)
        [(example_detail ''j'' St_pending_review, DS_poll, 1),
         (example_detail ''j'' St_pending_review, DS_poll, 2)])) = Some ''wait''"
  using review_failure_survives_reads [of example_rejected
      "[(example_detail ''j'' St_pending_review, DS_poll, 1),
        (example_detail ''j'' St_pending_review, DS_poll, 2)]"]
  by (simp add: example_rejected_def example_detail_def Let_def)

text \<open>
  The backoff counter counts exactly the quiet polls: after a read, \<open>n\<close> liveness polls in a
  row with an unchanged signature raise the counter by \<open>n\<close>, a poll with another signature puts
  it back to zero, and reads that are not polls leave it alone.
\<close>

lemma quiet_polls_counted:
  assumes "\<not> isIgnored (phase s) E_detail_resolved"
    and "\<forall>d \<in> set polls. detail_signature d = detail_signature d0"
  shows "unchangedPolls (runs jobReducer s
      (Ev_detail_resolved d0 src at # map (\<lambda>d. Ev_detail_resolved d DS_poll at) polls))
    = (if src \<noteq> DS_poll then unchangedPolls s
       else if detailSignature s = Some (detail_signature d0) then unchangedPolls s + 1 else 0)
      + length polls"
proof -
  have polls: "TRANSITIONS (phase t) E_detail_resolved \<noteq> IGNORE
      \<Longrightarrow> detailSignature t = Some (detail_signature d0)
      \<Longrightarrow> \<forall>d \<in> set ps. detail_signature d = detail_signature d0
      \<Longrightarrow> unchangedPolls (runs jobReducer t (map (\<lambda>d. Ev_detail_resolved d DS_poll at) ps))
          = unchangedPolls t + length ps" for t ps
    by (induction ps arbitrary: t) (simp_all add: poll_counter)
  have "TRANSITIONS (phase s) E_detail_resolved \<noteq> IGNORE"
    using assms(1) by (simp add: isIgnored_def IGNORE_def)
  note first = poll_counter [OF this, of d0 src at]
  show ?thesis
    using first polls [OF _ _ assms(2), of "jobReducer s (Ev_detail_resolved d0 src at)"]
    by simp
qed

theorem quiet_polls_counted_witness:
  "unchangedPolls (runs jobReducer example_rejected
      (Ev_detail_resolved (example_detail ''j'' St_running) DS_refresh 1
       # map (\<lambda>d. Ev_detail_resolved d DS_poll 1)
           [example_detail ''j'' St_running, example_detail ''j'' St_running])) = 2"
  using quiet_polls_counted [of example_rejected
      "[example_detail ''j'' St_running, example_detail ''j'' St_running]"
      "example_detail ''j'' St_running" DS_refresh 1]
  by (simp add: example_rejected_def isIgnored_def initialJobState_def)

text \<open>
  A second \<open>plan_ready\<close> frame with the same payload is invisible: in every phase it leads
  to the state the first one led to, whatever its name and receive time, except that the frame
  log records it and the time of the newest frame moves.
\<close>

lemma plan_ready_idempotent:
  "(jobReducer (jobReducer s (Ev_plan_ready f)) (Ev_plan_ready (f\<lparr>jf_name := n, jf_receivedAt := at\<rparr>)))
     \<lparr>frames := [], lastFrameAt := None\<rparr>
   = (jobReducer s (Ev_plan_ready f)) \<lparr>frames := [], lastFrameAt := None\<rparr>"
  by (rule plan_frame_twice) simp

text \<open>
  The frame log is the last 200 frames received, in order: logging any sequence of frames
  from a state whose log is within the cap leaves exactly the newest 200 of the old log
  followed by them.
\<close>

lemma frame_log_refines_take_last:
  assumes "job_inv s"
  shows "frames (foldl withFrame s fs) = take_last MAX_FRAMES (frames s @ fs)"
  using assms by (intro frame_log.contents_pushes) (simp add: job_inv_def)

lemma frame_log_refines_take_last_witness:
  "length (frames (foldl withFrame initialJobState
      (replicate 300 (example_frame ''x'' [] 0)))) = 200"
  using frame_log_refines_take_last [OF job_inv_init, of "replicate 300 (example_frame ''x'' [] 0)"]
  by (simp add: MAX_FRAMES_def)

text \<open>
  When the read after a terminal frame fails, the machine settles and keeps the detail it
  had; the outcome it then describes is read off that detail. With a detail whose status was
  not terminal the phrase is \<open>finished\<close>, whichever terminal frame arrived, so the frame's own
  name (\<open>failed\<close>, \<open>cancelled\<close>) is used only when no detail was ever read.
\<close>

lemma unreadable_outcome:
  assumes "phase s = Ph_reconciling"
  shows "let t = jobReducer s (Ev_detail_unreachable j fl m st src at)
    in phase t = Ph_settled \<and> detail t = detail s
       \<and> (case detail s of
            Some d \<Rightarrow> isTerminalJobStatus (jd_status d) \<or> terminalPhrase t = Some ''finished''
          | None \<Rightarrow>
              map_option ts_name (terminal s) = Some T_job_failed \<longrightarrow>
                terminalPhrase t = Some (failedPhrase (observedNode s)))"
  using assms
  by (auto simp: Let_def jobReducer_def with_failure_def terminalPhrase_def
      terminalNameFallback_def observedNode_def isTerminalJobStatus_def TERMINAL_JOB_STATUSES_def
      split: option.split job_status.splits elim: status_text.elims)

lemma unreadable_outcome_witness:
  "terminalPhrase (jobReducer (runs jobReducer initialJobState (example_run []))
      (Ev_detail_unreachable ''j'' None ''m'' None DS_reconcile 6)) = Some ''finished''"
proof -
  let ?s = "runs jobReducer initialJobState (example_run [])"
  have "phase ?s = Ph_reconciling" "detail ?s = Some (example_detail ''j'' St_running)"
    by (simp_all add: example_defs jobReducer_def handler_defs adoptDetail_def Let_def
        isTerminalJobStatus_def TERMINAL_JOB_STATUSES_def readNode_def)
  then show ?thesis
    using unreadable_outcome [of ?s "''j''" None "''m''" None DS_reconcile 6]
    by (simp add: Let_def example_detail_def isTerminalJobStatus_def TERMINAL_JOB_STATUSES_def)
qed

end
