(* ===== verification/Hook_Laws.thy ===== *)
theory Hook_Laws
  imports Job_Hook Job_Properties
begin

text \<open>
  The laws of the hook: at most one open stream and only its events count (\<open>streams_ok\<close>), at most
  one submission in flight (\<open>submits_ok\<close>), what each move may POST (\<open>posts_step\<close>), and that its
  state is always a well-formed reducer state. The lemmas on \<open>[simp]\<close> say which fields each
  helper leaves alone.
\<close>

section \<open>Streams\<close>

definition streams_ok :: "hook \<Rightarrow> bool" where
  "streams_ok h \<longleftrightarrow>
     (\<forall>i < length (hk_sources h). \<not> es_closed (hk_sources h ! i) \<longrightarrow> hk_source h = Some i)
   \<and> (\<forall>i. hk_source h = Some i \<longrightarrow>
        i < length (hk_sources h) \<and> \<not> es_closed (hk_sources h ! i)
        \<and> es_generation (hk_sources h ! i) = hk_generation h)"

lemmas plumbing = dispatch_def effect_def await_call_def

lemma streams_ok_other [simp]:
  "streams_ok (h\<lparr>hk_state := x1\<rparr>) = streams_ok h"
  "streams_ok (h\<lparr>hk_attached := x2\<rparr>) = streams_ok h"
  "streams_ok (h\<lparr>hk_jobId := x3\<rparr>) = streams_ok h"
  "streams_ok (h\<lparr>hk_submitInFlight := x4\<rparr>) = streams_ok h"
  "streams_ok (h\<lparr>hk_attachGeneration := x5\<rparr>) = streams_ok h"
  "streams_ok (h\<lparr>hk_suspended := x6\<rparr>) = streams_ok h"
  "streams_ok (h\<lparr>hk_settledNotified := x7\<rparr>) = streams_ok h"
  "streams_ok (h\<lparr>hk_submissionToken := x8\<rparr>) = streams_ok h"
  "streams_ok (h\<lparr>hk_tokenCounter := x9\<rparr>) = streams_ok h"
  "streams_ok (h\<lparr>hk_perAttach := x10\<rparr>) = streams_ok h"
  "streams_ok (h\<lparr>hk_pending := x11\<rparr>) = streams_ok h"
  "streams_ok (h\<lparr>hk_nextOp := x12\<rparr>) = streams_ok h"
  "streams_ok (h\<lparr>hk_log := x13\<rparr>) = streams_ok h"
  by (simp_all add: streams_ok_def)

lemma streams_ok_plumbing [simp]:
  "streams_ok (dispatch h e) = streams_ok h" "streams_ok (effect h fx) = streams_ok h"
  "streams_ok (await_call h p) = streams_ok h" "streams_ok (notifySettled h d) = streams_ok h"
  "streams_ok (hook_acceptDetail h d src at) = streams_ok h"
  "streams_ok (hook_rejectDetail h err job src at) = streams_ok h"
  "streams_ok (start_read h job src) = streams_ok h"
  "streams_ok (fst (nextSubmissionToken h at)) = streams_ok h"
  by (simp_all add: plumbing notifySettled_def hook_acceptDetail_def hook_rejectDetail_def
      start_read_def nextSubmissionToken_def Let_def)

lemma source_closeStream [simp]: "hk_source (closeStream h) = None"
  by (simp add: closeStream_def effect_def Let_def split: option.split)

lemma streams_ok_close [simp]: "streams_ok h \<Longrightarrow> streams_ok (closeStream h)"
  by (cases "hk_source h") (auto simp: closeStream_def Let_def effect_def streams_ok_def nth_list_update)

lemma streams_ok_open [simp]: "streams_ok h \<Longrightarrow> streams_ok (openStream h job)"
proof -
  assume "streams_ok h"
  then have g: "streams_ok (closeStream h)" "hk_source (closeStream h) = None" by simp_all
  then show ?thesis
    by (auto simp: openStream_def Let_def effect_def streams_ok_def nth_append less_Suc_eq)
qed

lemma streams_ok_begin [simp]: "streams_ok h \<Longrightarrow> streams_ok (beginAttach opts h job at)"
  by (simp add: beginAttach_def Let_def)

lemma streams_ok_attach [simp]: "streams_ok h \<Longrightarrow> streams_ok (hook_attach opts h job cb at)"
  by (simp add: hook_attach_def Let_def)

lemma streams_ok_step: "streams_ok h \<Longrightarrow> streams_ok (hook_step opts po h e)"
proof (cases e)
  case (H_resolve i out at)
  assume ok: "streams_ok h"
  show ?thesis
  proof (cases "map_of (hk_pending h) i")
    case (Some p)
    with ok show ?thesis
      by (cases p; cases out) (simp_all add: H_resolve hook_resolve_def Let_def)
  qed (simp add: H_resolve hook_resolve_def ok)
qed (simp_all add: hook_submit_def hook_review_def hook_refresh_def hook_reset_def on_open_def
   receive_def on_message_def on_error_def settled_effect_def handlePageHide_def
   handlePageShow_def poll_tick_def unmount_def Let_def nextSubmissionToken_def
   split: option.split)

section \<open>Submissions\<close>

fun is_submit :: "nat \<times> pending \<Rightarrow> bool" where
  "is_submit (i, P_submit t) = True"
| "is_submit _ = False"

definition submits_ok :: "hook \<Rightarrow> bool" where
  "submits_ok h \<longleftrightarrow>
     length (filter is_submit (hk_pending h)) = (if hk_submitInFlight h then 1 else 0)
   \<and> distinct (map fst (hk_pending h)) \<and> (\<forall>(i, p) \<in> set (hk_pending h). i < hk_nextOp h)"


lemma submits_ok_other [simp]:
  "submits_ok (h\<lparr>hk_state := x1\<rparr>) = submits_ok h"
  "submits_ok (h\<lparr>hk_source := x2\<rparr>) = submits_ok h"
  "submits_ok (h\<lparr>hk_generation := x3\<rparr>) = submits_ok h"
  "submits_ok (h\<lparr>hk_sources := x4\<rparr>) = submits_ok h"
  "submits_ok (h\<lparr>hk_attached := x5\<rparr>) = submits_ok h"
  "submits_ok (h\<lparr>hk_jobId := x6\<rparr>) = submits_ok h"
  "submits_ok (h\<lparr>hk_attachGeneration := x7\<rparr>) = submits_ok h"
  "submits_ok (h\<lparr>hk_suspended := x8\<rparr>) = submits_ok h"
  "submits_ok (h\<lparr>hk_settledNotified := x9\<rparr>) = submits_ok h"
  "submits_ok (h\<lparr>hk_submissionToken := x10\<rparr>) = submits_ok h"
  "submits_ok (h\<lparr>hk_tokenCounter := x11\<rparr>) = submits_ok h"
  "submits_ok (h\<lparr>hk_perAttach := x12\<rparr>) = submits_ok h"
  "submits_ok (h\<lparr>hk_log := x13\<rparr>) = submits_ok h"
  by (simp_all add: submits_ok_def)

lemma submits_ok_plumbing [simp]:
  "submits_ok (dispatch h e) = submits_ok h" "submits_ok (effect h fx) = submits_ok h"
  "submits_ok (closeStream h) = submits_ok h" "submits_ok (openStream h job) = submits_ok h"
  "submits_ok (notifySettled h d) = submits_ok h"
  "submits_ok (hook_acceptDetail h d src at) = submits_ok h"
  "submits_ok (hook_rejectDetail h err job src at) = submits_ok h"
  by (simp_all add: plumbing notifySettled_def hook_acceptDetail_def hook_rejectDetail_def
      closeStream_def openStream_def Let_def split: option.split)

lemma submits_ok_await [simp]:
  "submits_ok h \<Longrightarrow> \<not> is_submit (0, p) \<Longrightarrow> submits_ok (await_call h p)"
  by (cases p) (auto simp: submits_ok_def await_call_def)

lemma submits_ok_start_read [simp]: "submits_ok h \<Longrightarrow> submits_ok (start_read h job src)"
  by (simp add: start_read_def)

lemma submits_ok_begin [simp]: "submits_ok h \<Longrightarrow> submits_ok (beginAttach opts h job at)"
  by (simp add: beginAttach_def Let_def)

lemma submits_ok_attach [simp]: "submits_ok h \<Longrightarrow> submits_ok (hook_attach opts h job cb at)"
  by (simp add: hook_attach_def Let_def)

lemma submits_ok_flag [simp]:
  "submits_ok (h\<lparr>hk_state := x, hk_submitInFlight := b\<rparr>) = submits_ok (h\<lparr>hk_submitInFlight := b\<rparr>)"
  by (simp add: submits_ok_def)

lemma closeStream_fields [simp]:
  "hk_pending (closeStream h) = hk_pending h" "hk_nextOp (closeStream h) = hk_nextOp h"
  "hk_submitInFlight (closeStream h) = hk_submitInFlight h"
  "hk_state (closeStream h) = hk_state h" "hk_tokenCounter (closeStream h) = hk_tokenCounter h"
  by (simp_all add: closeStream_def effect_def Let_def split: option.split)

text \<open>Taking the continuation of a pending promise.\<close>

abbreviation settle :: "hook \<Rightarrow> nat \<Rightarrow> hook" where
  "settle h i \<equiv> h\<lparr>hk_pending := filter (\<lambda>(j, _). j \<noteq> i) (hk_pending h)\<rparr>"

lemma filter_key:
  "distinct (map fst xs) \<Longrightarrow> map_of xs i = Some p \<Longrightarrow>
     length (filter is_submit xs)
       = length (filter is_submit (filter (\<lambda>(j, _). j \<noteq> i) xs)) + (if is_submit (i, p) then 1 else 0)"
proof (induction xs)
  case Nil
  then show ?case by simp
next
  case (Cons x xs)
  obtain j q where x: "x = (j, q)" by (cases x)
  have "filter (\<lambda>(k, _). k \<noteq> i) xs = xs" if "i \<notin> fst ` set xs"
    using that by (force simp: filter_id_conv)
  then show ?case using Cons x by (cases "j = i") auto
qed

lemma distinct_filter_map: "distinct (map fst xs) \<Longrightarrow> distinct (map fst (filter P xs))"
  by (induction xs) (auto)

lemma submits_ok_settle:
  assumes "submits_ok h" and "map_of (hk_pending h) i = Some p"
  shows "\<not> is_submit (i, p) \<Longrightarrow> submits_ok (settle h i)"
    and "is_submit (i, p) \<Longrightarrow> submits_ok ((settle h i)\<lparr>hk_submitInFlight := False\<rparr>)"
proof -
  have d: "distinct (map fst (hk_pending h))" using assms(1) by (simp add: submits_ok_def)
  show "\<not> is_submit (i, p) \<Longrightarrow> submits_ok (settle h i)"
    using assms filter_key [OF d assms(2)] distinct_filter_map [OF d]
    by (auto simp: submits_ok_def)
  show "is_submit (i, p) \<Longrightarrow> submits_ok ((settle h i)\<lparr>hk_submitInFlight := False\<rparr>)"
    using assms filter_key [OF d assms(2)] distinct_filter_map [OF d]
    by (auto simp: submits_ok_def split: if_splits)
qed

lemma submits_ok_submit: "submits_ok h \<Longrightarrow> submits_ok (hook_submit h qry conv at)"
  by (cases "hk_submitInFlight h")
     (auto simp: hook_submit_def Let_def nextSubmissionToken_def plumbing submits_ok_def)

lemma submits_ok_step: "submits_ok h \<Longrightarrow> submits_ok (hook_step opts po h e)"
proof (cases e)
  case (H_resolve i out at)
  assume ok: "submits_ok h"
  show ?thesis
  proof (cases "map_of (hk_pending h) i")
    case (Some p)
    note settle = submits_ok_settle [OF ok Some]
    show ?thesis
      using settle ok Some
      by (cases p; cases out)
         (simp_all add: H_resolve hook_resolve_def Let_def dispatch_def)
  qed (simp add: H_resolve hook_resolve_def ok)
qed (simp_all add: submits_ok_submit hook_review_def hook_refresh_def hook_reset_def on_open_def
   receive_def on_message_def on_error_def settled_effect_def handlePageHide_def
   handlePageShow_def poll_tick_def unmount_def Let_def split: option.split)

section \<open>What reaches the network\<close>

text \<open>
  The hook writes to the server with two calls, and both are POSTs: \<open>submitResearch\<close> and
  \<open>reviewPlan\<close> (\<open>web/lib/api/client.ts\<close>). A read is a GET and a stream is opened with one.
\<close>

fun is_post :: "effect \<Rightarrow> bool" where
  "is_post (Fx_post q c) = True"
| "is_post (Fx_review job a p) = True"
| "is_post _ = False"

definition posts :: "hook \<Rightarrow> effect list" where
  "posts h = filter is_post (hk_log h)"

lemma posts_other [simp]:
  "posts (h\<lparr>hk_state := x1\<rparr>) = posts h" "posts (h\<lparr>hk_source := x2\<rparr>) = posts h"
  "posts (h\<lparr>hk_generation := x3\<rparr>) = posts h" "posts (h\<lparr>hk_sources := x4\<rparr>) = posts h"
  "posts (h\<lparr>hk_attached := x5\<rparr>) = posts h" "posts (h\<lparr>hk_jobId := x6\<rparr>) = posts h"
  "posts (h\<lparr>hk_attachGeneration := x7\<rparr>) = posts h" "posts (h\<lparr>hk_suspended := x8\<rparr>) = posts h"
  "posts (h\<lparr>hk_settledNotified := x9\<rparr>) = posts h"
  "posts (h\<lparr>hk_submissionToken := x10\<rparr>) = posts h"
  "posts (h\<lparr>hk_tokenCounter := x11\<rparr>) = posts h" "posts (h\<lparr>hk_perAttach := x12\<rparr>) = posts h"
  "posts (h\<lparr>hk_pending := x13\<rparr>) = posts h" "posts (h\<lparr>hk_nextOp := x14\<rparr>) = posts h"
  "posts (h\<lparr>hk_submitInFlight := x15\<rparr>) = posts h"
  by (simp_all add: posts_def)

lemma posts_effect [simp]: "posts (effect h fx) = posts h @ (if is_post fx then [fx] else [])"
  by (simp add: posts_def effect_def)

lemma posts_plumbing [simp]:
  "posts (dispatch h e) = posts h" "posts (await_call h p) = posts h"
  "posts (closeStream h) = posts h" "posts (openStream h job) = posts h"
  "posts (notifySettled h d) = posts h" "posts (hook_acceptDetail h d src at) = posts h"
  "posts (hook_rejectDetail h err job src at) = posts h" "posts (start_read h job src) = posts h"
  "posts (beginAttach opts h job at) = posts h" "posts (hook_attach opts h job cb at) = posts h"
proof -
  show close: "posts (closeStream h) = posts h" for h
    by (simp add: closeStream_def Let_def split: option.split)
  show open_s: "posts (openStream h job) = posts h" for h job
    by (simp add: openStream_def Let_def close)
  show d: "posts (dispatch h e) = posts h" and a: "posts (await_call h p) = posts h" for h e p
    by (simp_all add: dispatch_def await_call_def)
  show n: "posts (notifySettled h d) = posts h" for h d
    by (simp add: notifySettled_def)
  show "posts (hook_acceptDetail h d src at) = posts h"
    by (simp add: hook_acceptDetail_def Let_def d n)
  show "posts (hook_rejectDetail h err job src at) = posts h"
    by (simp add: hook_rejectDetail_def Let_def d)
  show "posts (start_read h job src) = posts h"
    by (simp add: start_read_def a)
  show b: "posts (beginAttach opts h job at) = posts h" for h
    by (simp add: beginAttach_def Let_def a d open_s)
  show "posts (hook_attach opts h job cb at) = posts h"
    by (simp add: hook_attach_def Let_def b close)
qed

lemma posts_step:
  "posts (hook_step opts po h e) = posts h @
     (case e of
        H_submit q c at \<Rightarrow> if hk_submitInFlight h then [] else [Fx_post q c]
      | H_review a p at \<Rightarrow>
          (case hk_jobId h of
             None \<Rightarrow> []
           | Some job \<Rightarrow> [Fx_review job a (if a = Revise then p else None)])
      | _ \<Rightarrow> [])"
proof (cases e)
  case (H_resolve i out at)
  then show ?thesis
    by (cases "map_of (hk_pending h) i"; cases "the (map_of (hk_pending h) i)"; cases out)
       (simp_all add: hook_resolve_def Let_def)
qed (simp_all add: hook_submit_def hook_review_def hook_refresh_def hook_reset_def on_open_def
   receive_def on_message_def on_error_def settled_effect_def handlePageHide_def
   handlePageShow_def poll_tick_def unmount_def Let_def nextSubmissionToken_def
   split: option.split)

section \<open>The state is a reducer state\<close>

lemma job_inv_dispatch [simp]: "job_inv (hk_state h) \<Longrightarrow> job_inv (hk_state (dispatch h e))"
  by (simp add: dispatch_def job_inv_step)

lemma hk_state_plumbing [simp]:
  "hk_state (effect h fx) = hk_state h" "hk_state (await_call h p) = hk_state h"
  "hk_state (openStream h job) = hk_state h" "hk_state (notifySettled h d) = hk_state h"
  "hk_state (start_read h job src) = hk_state h"
  by (simp_all add: effect_def await_call_def openStream_def notifySettled_def start_read_def
      Let_def)

lemma job_inv_begin [simp]:
  "job_inv (hk_state h) \<Longrightarrow> job_inv (hk_state (beginAttach opts h job at))"
  by (simp add: beginAttach_def Let_def)

lemma job_inv_hook_attach [simp]:
  "job_inv (hk_state h) \<Longrightarrow> job_inv (hk_state (hook_attach opts h job cb at))"
  by (simp add: hook_attach_def Let_def)

lemma job_inv_accept [simp]:
  "job_inv (hk_state h) \<Longrightarrow> job_inv (hk_state (hook_acceptDetail h d src at))"
  "job_inv (hk_state h) \<Longrightarrow> job_inv (hk_state (hook_rejectDetail h err job src at))"
  by (simp_all add: hook_acceptDetail_def hook_rejectDetail_def Let_def)

lemma job_inv_hook_step:
  "job_inv (hk_state h) \<Longrightarrow> job_inv (hk_state (hook_step opts po h e))"
proof (cases e)
  case (H_resolve i out at)
  assume "job_inv (hk_state h)"
  then show ?thesis
    by (cases "map_of (hk_pending h) i"; cases "the (map_of (hk_pending h) i)"; cases out)
       (simp_all add: H_resolve hook_resolve_def Let_def)
qed (simp_all add: hook_submit_def hook_review_def hook_refresh_def hook_reset_def on_open_def
   receive_def on_message_def on_error_def settled_effect_def handlePageHide_def
   handlePageShow_def poll_tick_def unmount_def Let_def nextSubmissionToken_def
   split: option.split)

section \<open>The invariant\<close>

definition hook_inv :: "hook \<Rightarrow> bool" where
  "hook_inv h \<longleftrightarrow> streams_ok h \<and> submits_ok h \<and> job_inv (hk_state h)"

interpretation hooked: reducer "hook_step opts po" initial_hook hook_inv
  for opts po
  by unfold_locales
     (simp_all add: hook_inv_def streams_ok_step submits_ok_step job_inv_hook_step,
      simp add: initial_hook_def streams_ok_def submits_ok_def job_inv_init)

lemma stale_source:
  assumes "hk_source h \<noteq> Some i"
  shows "on_open h i at = h" "receive h i name data at = h" "on_message h i data at = h"
    "on_error h i closed at = h"
  using assms
  by (simp_all add: stream_live_def on_open_def receive_def on_message_def on_error_def)

end
