(* ===== verification/Hook_Properties.thy ===== *)
theory Hook_Properties
  imports Hook_Laws
begin

text \<open>
  What \<open>useJobStream\<close> and the provider promise, over every interleaving of the environment's
  moves, and three orders of moves in which an answer that belongs to one job reaches another.
\<close>

section \<open>Streams and requests\<close>

lemma open_is_current:
  "streams_ok h \<Longrightarrow> i < length (hk_sources h) \<Longrightarrow> \<not> es_closed (hk_sources h ! i)
     \<Longrightarrow> hk_source h = Some i"
  unfolding streams_ok_def by blast

lemma current_is_open:
  "streams_ok h \<Longrightarrow> hk_source h = Some i
     \<Longrightarrow> i < length (hk_sources h) \<and> \<not> es_closed (hk_sources h ! i)"
  unfolding streams_ok_def by blast

lemma one_open:
  assumes ok: "streams_ok h"
  shows "length (filter (\<lambda>s. \<not> es_closed s) (hk_sources h)) \<le> 1"
proof -
  let ?open = "{i. i < length (hk_sources h) \<and> \<not> es_closed (hk_sources h ! i)}"
  have "?open \<subseteq> {the (hk_source h)}"
  proof
    fix i assume "i \<in> ?open"
    then have "hk_source h = Some i" by (intro open_is_current [OF ok]) simp_all
    then show "i \<in> {the (hk_source h)}" by simp
  qed
  then have "card ?open \<le> card {the (hk_source h)}" by (intro card_mono) simp_all
  then show ?thesis by (simp add: length_filter_conv_card)
qed

text \<open>
  C5. In every interleaving of calls, stream events, answers and page events, at most one
  \<open>EventSource\<close> is open, and every event of a source that was closed or replaced (open, any
  frame, message or error) leaves the hook exactly as it was.
\<close>

theorem single_live_stream:
  "let h = runs (hook_step opts po) initial_hook es
   in length (filter (\<lambda>s. \<not> es_closed s) (hk_sources h)) \<le> 1
      \<and> (i < length (hk_sources h) \<and> \<not> es_closed (hk_sources h ! i)
         \<or> (\<forall>e \<in> {H_open i at, H_frame i name data at, H_message i data at, H_error i closed at}.
              hook_step opts po h e = h))"
proof -
  let ?h = "runs (hook_step opts po) initial_hook es"
  have ok: "streams_ok ?h" using hooked.inv_from_init [of opts po es] by (simp add: hook_inv_def)
  have "hook_step opts po ?h e = ?h"
    if "\<not> (i < length (hk_sources ?h) \<and> \<not> es_closed (hk_sources ?h ! i))"
      and "e \<in> {H_open i at, H_frame i name data at, H_message i data at, H_error i closed at}" for e
  proof -
    have "hk_source ?h \<noteq> Some i" using current_is_open [OF ok] that(1) by blast
    from stale_source [OF this] that(2) show ?thesis by auto
  qed
  then show ?thesis unfolding Let_def using one_open [OF ok] by blast
qed

definition stream_first :: hook_options where
  "stream_first = \<lparr>ho_attachMode = Stream_first, ho_bfcache = True\<rparr>"

definition two_attaches :: "hook_event list" where
  "two_attaches = [H_attach ''a'' False 1, H_attach ''b'' False 2]"

lemma two_attaches_sources:
  "map es_closed (hk_sources (runs (hook_step stream_first DEFAULT_POLL) initial_hook two_attaches))
     = [True, False]"
  by (simp add: two_attaches_def stream_first_def initial_hook_def hook_attach_def beginAttach_def
      openStream_def closeStream_def plumbing Let_def)

theorem single_live_stream_witness:
  "hook_step stream_first DEFAULT_POLL
     (runs (hook_step stream_first DEFAULT_POLL) initial_hook two_attaches) (H_error 0 True 3)
   = runs (hook_step stream_first DEFAULT_POLL) initial_hook two_attaches"
proof -
  let ?h = "runs (hook_step stream_first DEFAULT_POLL) initial_hook two_attaches"
  have "map es_closed (hk_sources ?h) ! 0 = True" by (simp add: two_attaches_sources)
  moreover have "length (map es_closed (hk_sources ?h)) = 2"
    by (simp only: two_attaches_sources) simp
  ultimately have "es_closed (hk_sources ?h ! 0)" by simp
  then show ?thesis
    using single_live_stream [of stream_first DEFAULT_POLL two_attaches 0 3 E_job_started None True]
    by (simp only: Let_def) blast
qed

text \<open>
  C6. Every write is asked for: along every run, one more move of the hook POSTs nothing unless it
  is a \<open>submit\<close> or a \<open>review\<close>. A \<open>submit\<close> made while no submission is in flight POSTs exactly one
  \<open>/research\<close>, with its own query and conversation, and one made while a submission is in flight
  POSTs nothing. A \<open>review\<close> has no such guard: every call made while the hook has a run POSTs one
  \<open>/research/<job>/review\<close> for that run, with its action, and with the plan for a revision only; with
  no run it POSTs nothing. Attaching, reading, polling, reopening, an answer and every page event
  POST nothing. The in-flight flag counts exactly the submissions whose answer is still awaited, so
  never two are.
\<close>

theorem posts_are_asked_for:
  "let h = runs (hook_step opts po) initial_hook es
   in posts (hook_step opts po h e) = posts h @
        (case e of
           H_submit q c at \<Rightarrow> if hk_submitInFlight h then [] else [Fx_post q c]
         | H_review a p at \<Rightarrow>
             (case hk_jobId h of
                None \<Rightarrow> []
              | Some job \<Rightarrow> [Fx_review job a (if a = Revise then p else None)])
         | _ \<Rightarrow> [])
      \<and> length (filter is_submit (hk_pending h)) = (if hk_submitInFlight h then 1 else 0)"
  using hooked.inv_from_init [of opts po es]
  by (simp only: Let_def posts_step) (simp add: hook_inv_def submits_ok_def)

text \<open>
  A terminal frame on the live stream closes that stream and starts exactly one read of the
  stream's own job, to reconcile; the machine waits in \<open>reconciling\<close> for it.
\<close>

lemma terminal_frame_reconciles:
  assumes "stream_live h i" and "phase (hk_state h) \<in> open_phases"
    and "name \<in> {E_job_completed, E_job_failed, E_job_cancelled}"
  shows "let g = receive h i name data at; job = es_job (hk_sources h ! i)
    in hk_source g = None \<and> es_closed (hk_sources g ! i)
       \<and> hk_log g = hk_log h @ [Fx_close i, Fx_get job]
       \<and> hk_pending g = hk_pending h @ [(hk_nextOp h, P_read job DS_reconcile)]
       \<and> phase (hk_state g) = Ph_reconciling"
proof -
  have i: "i < length (hk_sources h)" "hk_source h = Some i"
    using assms(1) by (simp_all add: stream_live_def)
  have ph: "phase (jobReducer (hk_state h) (frameEvent name f)) = Ph_reconciling" for f
    using assms(2,3)
    by (auto simp: jobReducer_def open_phases_def terminalFrame_def signalTerminal_def
        awaitingLearner_row_def)
  have names: "wire_name name \<in> set SERVER_EVENT_NAMES" "wire_name name \<noteq> STREAM_TIMEOUT_EVENT"
    "isTerminalFrameName (wire_name name)"
    using assms(3)
    by (auto simp: SERVER_EVENT_NAMES_def STREAM_TIMEOUT_EVENT_def isTerminalFrameName_def
        TERMINAL_EVENTS_def)
  show ?thesis
    using i assms(1) ph names
    by (simp add: Let_def receive_def start_read_def plumbing closeStream_def)
qed

definition get_first :: hook_options where
  "get_first = \<lparr>ho_attachMode = Get_first, ho_bfcache = True\<rparr>"

lemmas hook_eval =
  Let_def initial_hook_def get_first_def hook_attach_def beginAttach_def openStream_def
  closeStream_def plumbing hook_resolve_def hook_acceptDetail_def hook_refresh_def start_read_def
  hook_submit_def nextSubmissionToken_def hook_reset_def settled_effect_def notifySettled_def
  jobReducer_def handler_defs adoptDetail_def isTerminalJobStatus_def TERMINAL_JOB_STATUSES_def
  example_detail_def isSettledPhase_def SETTLED_PHASES_def

text \<open>Attach to a job and read that it runs.\<close>

definition attached_run :: "string \<Rightarrow> hook" where
  "attached_run job =
     runs (hook_step get_first DEFAULT_POLL) initial_hook
       [H_attach job False 1, H_resolve 0 (O_detail (example_detail job St_running)) 2]"

lemma attached_run_live:
  "stream_live (attached_run job) 0" "phase (hk_state (attached_run job)) = Ph_live"
  "hk_pending (attached_run job) = []" "hk_attached (attached_run job) = Some job"
  "hk_source (attached_run job) = Some 0" "hk_nextOp (attached_run job) = 1"
  "hk_jobId (attached_run job) = Some job" "es_job (hk_sources (attached_run job) ! 0) = job"
  by (simp_all add: attached_run_def hook_eval stream_live_def)

lemma terminal_frame_reconciles_witness:
  "phase (hk_state (receive (attached_run ''a'') 0 E_job_failed None 5)) = Ph_reconciling
   \<and> hk_source (receive (attached_run ''a'') 0 E_job_failed None 5) = None"
  using terminal_frame_reconciles [OF attached_run_live(1) [of "''a''"], of E_job_failed None 5]
  by (simp add: Let_def attached_run_live open_phases_def)

lemma attach_reducer:
  "jobReducer s (Ev_attach_requested job prefetch at) = startAttach s (Ev_attach_requested job prefetch at)"
  by (cases "phase s") (simp_all add: jobReducer_def awaitingLearner_row_def)

text \<open>
  Hiding a page with an open stream and showing it again re-adopts the same job without
  paying: the stream is closed, nothing is POSTed, the job attached and acted on is the one
  before, and in the GET-first mode exactly one new read of it is started.
\<close>

lemma page_hide_show_roundtrip:
  assumes "hk_attached h = Some job" and "hk_source h = Some i"
  shows "let g = handlePageShow get_first (handlePageHide get_first h t1) t2
    in hk_attached g = Some job \<and> hk_jobId g = Some job \<and> hk_suspended g = None
       \<and> jobId (hk_state g) = Some job \<and> phase (hk_state g) = Ph_attaching
       \<and> hk_source g = None \<and> posts g = posts h
       \<and> hk_log g = hk_log h @ [Fx_close i, Fx_get job]
       \<and> \<not> suspended (hk_state g)"
proof -
  let ?h = "handlePageHide get_first h t1"
  have hidden: "?h = dispatch ((closeStream h)\<lparr>hk_attached := None, hk_suspended := Some job\<rparr>)
      (Ev_page_hidden t1)"
    using assms by (simp add: handlePageHide_def get_first_def)
  have log: "hk_log (closeStream h) = hk_log h @ [Fx_close i]"
    using assms(2) by (simp add: closeStream_def effect_def Let_def)
  have again: "closeStream g = g\<lparr>hk_generation := hk_generation g + 1\<rparr>" if "hk_source g = None" for g
    using that by (simp add: closeStream_def Let_def)
  show ?thesis
    unfolding hidden
    by (simp add: handlePageShow_def get_first_def hook_attach_def beginAttach_def plumbing again
        log attach_reducer freshRun_def initialJobState_def posts_def Let_def)
qed

lemma page_hide_show_roundtrip_witness:
  "hk_attached (handlePageShow get_first (handlePageHide get_first (attached_run ''a'') 5) 6)
     = Some ''a''"
  using page_hide_show_roundtrip [OF attached_run_live(4) attached_run_live(5), of "''a''" 5 6]
  by (simp add: Let_def)

text \<open>
  The liveness poll reads only a job that is on screen, unfinished and not suspended, at one
  of two intervals: twenty seconds, and sixty from the fifth quiet poll in a row. Five polls
  with an unchanged signature after any read are enough for the slow interval, and one changed
  poll restores the fast one.
\<close>

lemma poll_changed:
  "\<not> isIgnored (phase s) E_detail_resolved \<Longrightarrow> detailSignature s \<noteq> Some (detail_signature d)
     \<Longrightarrow> unchangedPolls (jobReducer s (Ev_detail_resolved d DS_poll at)) = 0"
  using poll_counter [of s d DS_poll at] by (simp add: isIgnored_def IGNORE_def)

lemma poll_quiet:
  "TRANSITIONS (phase s) E_detail_resolved \<noteq> IGNORE \<Longrightarrow> detailSignature s = Some (detail_signature d)
     \<Longrightarrow> unchangedPolls (runs jobReducer s (replicate n (Ev_detail_resolved d DS_poll at)))
         = unchangedPolls s + n"
  by (induction n arbitrary: s) (simp_all add: poll_counter)

lemma poll_interval_backs_off:
  assumes "\<not> isIgnored (phase s) E_detail_resolved"
  shows "pollIntervalFor
      (runs jobReducer s (Ev_detail_resolved d src at
         # replicate 5 (Ev_detail_resolved d DS_poll at))) DEFAULT_POLL = 60000
    \<and> (detailSignature s \<noteq> Some (detail_signature d) \<longrightarrow>
         pollIntervalFor (jobReducer s (Ev_detail_resolved d DS_poll at)) DEFAULT_POLL = 20000)
    \<and> (pollIntervalFor s DEFAULT_POLL = 60000 \<longleftrightarrow> 5 \<le> unchangedPolls s)
    \<and> (\<not> shouldPoll (hk_state h) \<longrightarrow> poll_tick po h = h)"
proof -
  have "TRANSITIONS (phase s) E_detail_resolved \<noteq> IGNORE"
    using assms by (simp add: isIgnored_def IGNORE_def)
  note read = poll_counter [OF this, of d src at]
  have "unchangedPolls (runs jobReducer (jobReducer s (Ev_detail_resolved d src at))
      (replicate 5 (Ev_detail_resolved d DS_poll at)))
      = unchangedPolls (jobReducer s (Ev_detail_resolved d src at)) + 5"
    using read by (intro poll_quiet) simp_all
  then show ?thesis
    using poll_changed [OF assms, of d at]
    by (simp add: pollIntervalFor_def DEFAULT_POLL_def poll_tick_def del: replicate_Suc)
qed

lemma poll_interval_backs_off_witness:
  "pollIntervalFor (runs jobReducer example_rejected
      (Ev_detail_resolved (example_detail ''j'' St_running) DS_refresh 1
       # replicate 5 (Ev_detail_resolved (example_detail ''j'' St_running) DS_poll 1)))
     DEFAULT_POLL = 60000"
  using poll_interval_backs_off [of example_rejected "example_detail ''j'' St_running" DS_refresh 1]
  by (simp add: example_rejected_def isIgnored_def)

section \<open>Answers that arrive late\<close>

lemma adopt_terminal:
  "phase s \<in> open_phases \<Longrightarrow> isTerminalJobStatus (jd_status d) \<Longrightarrow>
     phase (jobReducer s (Ev_detail_resolved d src at)) = Ph_settled
     \<and> jobId (jobReducer s (Ev_detail_resolved d src at)) = Some (jd_job_id d)"
  by (cases "phase s")
     (simp_all add: open_phases_def jobReducer_def awaitingLearner_row_def adoptDetail_def
        cleared_def Let_def)

text \<open>
  A read that was started for one job and answers late takes the machine over, whichever job
  is attached by then: nothing compares the answer's job with the one on screen. With the
  machine in any phase that has a stream, a late terminal answer puts that job on screen as
  settled and closes the stream of the attached one, while the refs still name the latter.
\<close>

lemma late_read_takes_over:
  assumes "map_of (hk_pending h) i = Some (P_read job src)"
    and "phase (hk_state h) \<in> open_phases" and "isTerminalJobStatus (jd_status d)"
  shows "let g = settled_effect (hook_resolve opts h i (O_detail d) at)
    in jobId (hk_state g) = Some (jd_job_id d) \<and> phase (hk_state g) = Ph_settled
       \<and> hk_source g = None \<and> hk_attached g = hk_attached h \<and> hk_jobId g = hk_jobId h"
  using assms(1) adopt_terminal [OF assms(2,3), of src at] assms(3)
  by (auto simp: Let_def hook_resolve_def hook_acceptDetail_def notifySettled_def plumbing
      settled_effect_def isSettledPhase_def SETTLED_PHASES_def closeStream_def split: option.split)

text \<open>A poll of \<open>a\<close> is unanswered when the reader moves to \<open>b\<close>.\<close>

definition moved_on :: hook where
  "moved_on = runs (hook_step get_first DEFAULT_POLL) (attached_run ''a'')
     [H_refresh DS_poll, H_attach ''b'' False 3,
      H_resolve 2 (O_detail (example_detail ''b'' St_running)) 4]"

lemma moved_on_state:
  "map_of (hk_pending moved_on) 1 = Some (P_read ''a'' DS_poll)"
  "phase (hk_state moved_on) = Ph_live" "hk_attached moved_on = Some ''b''"
  "hk_source moved_on = Some 1" "jobId (hk_state moved_on) = Some ''b''"
  by (simp_all add: moved_on_def attached_run_def hook_eval)

lemma late_read_takes_over_witness:
  "let g = settled_effect
             (hook_resolve get_first moved_on 1 (O_detail (example_detail ''a'' St_failed)) 5)
   in jobId (hk_state moved_on) = Some ''b'' \<and> jobId (hk_state g) = Some ''a''
      \<and> phase (hk_state g) = Ph_settled \<and> hk_source g = None \<and> hk_attached g = Some ''b''"
  using late_read_takes_over [OF moved_on_state(1), of "example_detail ''a'' St_failed" get_first 5]
  by (simp add: moved_on_state open_phases_def isTerminalJobStatus_def TERMINAL_JOB_STATUSES_def
      example_detail_def Let_def)

text \<open>
  \<open>reset\<close> does not supersede an attach whose read is still unanswered: when that read comes
  back with a run that is not over, the machine stays idle but an \<open>EventSource\<close> is opened for
  the abandoned job, with no job attached and none on screen.
\<close>

lemma reset_leaks_a_stream:
  assumes "map_of (hk_pending h) i = Some (P_attach job (hk_attachGeneration h))"
    and "\<not> isTerminalJobStatus (jd_status d)"
  shows "let g = hook_resolve opts (hook_reset h t1) i (O_detail d) t2
    in phase (hk_state g) = Ph_idle \<and> jobId (hk_state g) = None \<and> hk_attached g = None
       \<and> (\<exists>k. hk_source g = Some k \<and> es_job (hk_sources g ! k) = job
              \<and> \<not> es_closed (hk_sources g ! k))"
proof -
  have idle: "jobReducer (jobReducer s (Ev_reset t1)) e = initialJobState"
    if "event_type e = E_detail_resolved" for s e
  proof -
    have "jobReducer s (Ev_reset t1) = initialJobState"
      by (cases "phase s") (simp_all add: jobReducer_def awaitingLearner_row_def)
    then show ?thesis using that by (simp add: jobReducer_def initialJobState_def IGNORE_def)
  qed
  show ?thesis
    using assms idle [of "Ev_detail_resolved d DS_attach t2"]
    by (auto simp: Let_def hook_reset_def hook_resolve_def plumbing closeStream_def openStream_def
        hook_acceptDetail_def initialJobState_def nth_append split: option.split)
qed

lemma reset_leaks_a_stream_witness:
  "hk_source (hook_resolve get_first
     (hook_reset (hook_step get_first DEFAULT_POLL initial_hook (H_attach ''a'' False 1)) 2) 0
     (O_detail (example_detail ''a'' St_running)) 3) = Some 0"
proof -
  let ?h = "hook_step get_first DEFAULT_POLL initial_hook (H_attach ''a'' False 1)"
  have "map_of (hk_pending ?h) 0 = Some (P_attach ''a'' (hk_attachGeneration ?h))"
    "length (hk_sources ?h) = 0"
    by (simp_all add: hook_eval)
  then show ?thesis
    using reset_leaks_a_stream [of ?h 0 "''a''" "example_detail ''a'' St_running" get_first 2 3]
    by (auto simp: example_detail_def isTerminalJobStatus_def TERMINAL_JOB_STATUSES_def Let_def
        hook_reset_def hook_resolve_def plumbing closeStream_def openStream_def
        hook_acceptDetail_def split: option.splits)
qed

text \<open>
  When the route names a job while a submission is in flight, the reducer drops the
  submission, but the hook's own token stands: the answer that then arrives is not inert. The
  hook attaches to the job it created, over the job the route named.
\<close>

lemma late_submit_overrides_route:
  assumes "map_of (hk_pending h) i = Some (P_submit token)"
    and "hk_submissionToken h = Some token" and "hk_attached h \<noteq> Some route"
  shows "let g = hook_attach get_first h route False t1;
             k = hook_resolve get_first g i (O_job created) t2
    in submission (hk_state g) = None \<and> jobId (hk_state g) = Some route
       \<and> hk_attached k = Some created \<and> jobId (hk_state k) = Some created"
proof -
  let ?g = "hook_attach get_first h route False t1"
  have pend: "map_of (hk_pending ?g) i = Some (P_submit token)"
    using assms(1,3) by (simp add: hook_attach_def beginAttach_def get_first_def plumbing Let_def
        map_add_Some_iff)
  have tok: "hk_submissionToken ?g = Some token"
    using assms(2,3) by (simp add: hook_attach_def beginAttach_def get_first_def plumbing Let_def
        closeStream_def split: option.split)
  have st: "submission (hk_state ?g) = None \<and> jobId (hk_state ?g) = Some route"
    using assms(3) by (simp add: hook_attach_def beginAttach_def get_first_def plumbing Let_def
        attach_reducer freshRun_def initialJobState_def)
  have "hk_attached (beginAttach get_first f created t2) = Some created
      \<and> jobId (hk_state (beginAttach get_first f created t2)) = Some created" for f
    by (simp add: beginAttach_def get_first_def plumbing Let_def attach_reducer freshRun_def)
  then show ?thesis
    using pend tok st by (simp add: Let_def hook_resolve_def)
qed

lemma late_submit_overrides_route_witness:
  "hk_attached (hook_resolve get_first
     (hook_attach get_first (hook_step get_first DEFAULT_POLL initial_hook (H_submit ''q'' None 1))
        ''r'' False 2) 0 (O_job ''j'') 3) = Some ''j''"
proof -
  let ?h = "hook_step get_first DEFAULT_POLL initial_hook (H_submit ''q'' None 1)"
  have "\<exists>t. map_of (hk_pending ?h) 0 = Some (P_submit t) \<and> hk_submissionToken ?h = Some t"
    "hk_attached ?h \<noteq> Some ''r''"
    by (simp_all add: hook_eval)
  then show ?thesis
    using late_submit_overrides_route [of ?h 0 _ "''r''" 2 "''j''" 3] by (auto simp: Let_def)
qed

end
