(* ===== verification/JS_Lookup.thy ===== *)
theory JS_Lookup
  imports JS_Base
begin

text \<open>
  Reading a key of an object literal with brackets. A key that is not the literal's own may be a
  member every object inherits from \<open>Object.prototype\<close>; then the answer is that member, not
  \<open>undefined\<close>.
\<close>

datatype 'a lookup = Own 'a | Inherited | Absent

definition OBJECT_PROTOTYPE :: "string list" where
  "OBJECT_PROTOTYPE =
     [''constructor'', ''__defineGetter__'', ''__defineSetter__'', ''hasOwnProperty'',
      ''__lookupGetter__'', ''__lookupSetter__'', ''isPrototypeOf'', ''propertyIsEnumerable'',
      ''toString'', ''valueOf'', ''__proto__'', ''toLocaleString'']"

definition lookup :: "(string \<times> 'a) list \<Rightarrow> string \<Rightarrow> 'a lookup" where
  "lookup m k =
     (case map_of m k of
        Some x \<Rightarrow> Own x
      | None \<Rightarrow> if k \<in> set OBJECT_PROTOTYPE then Inherited else Absent)"

text \<open>\<open>m[k] ?? x\<close>.\<close>

definition lookup_or :: "(string \<times> 'a) list \<Rightarrow> string \<Rightarrow> 'a \<Rightarrow> 'a lookup" where
  "lookup_or m k x = (case lookup m k of Absent \<Rightarrow> Own x | y \<Rightarrow> y)"

lemma lookup_own: "lookup m k = Own x \<longleftrightarrow> map_of m k = Some x"
  by (auto simp: lookup_def split: option.splits)

lemma lookup_missing:
  "k \<notin> fst ` set m \<Longrightarrow> lookup m k = (if k \<in> set OBJECT_PROTOTYPE then Inherited else Absent)"
  by (simp add: lookup_def flip: map_of_eq_None_iff)

lemma lookup_found: "k \<in> fst ` set m \<Longrightarrow> \<exists>x \<in> snd ` set m. lookup m k = Own x"
  by (cases "map_of m k") (force simp: lookup_def map_of_eq_None_iff dest: map_of_SomeD)+

lemma lookup_inherited:
  "lookup m k = Inherited \<longleftrightarrow> k \<in> set OBJECT_PROTOTYPE \<and> k \<notin> fst ` set m"
  using lookup_found [of k m] by (cases "k \<in> fst ` set m") (auto simp: lookup_missing)

lemma lookup_absent:
  "lookup m k = Absent \<longleftrightarrow> k \<notin> set OBJECT_PROTOTYPE \<and> k \<notin> fst ` set m"
  using lookup_found [of k m] by (cases "k \<in> fst ` set m") (auto simp: lookup_missing)

text \<open>What such a read can answer, and when it is no value of the literal's type.\<close>

lemma lookup_or_cases: "lookup_or m k x \<in> insert Inherited (Own ` insert x (snd ` set m))"
proof (cases "k \<in> fst ` set m")
  case True
  then obtain y where "y \<in> snd ` set m" "lookup m k = Own y" using lookup_found by blast
  then show ?thesis by (simp add: lookup_or_def)
qed (simp add: lookup_or_def lookup_missing)

lemma lookup_or_inherited:
  "lookup_or m k x = Inherited \<longleftrightarrow> k \<in> set OBJECT_PROTOTYPE \<and> k \<notin> fst ` set m"
  by (simp add: lookup_or_def lookup_inherited [symmetric] split: lookup.split)

end
