(* ===== verification/Plan_Schema.thy ===== *)
theory Plan_Schema
  imports Job_Types JS_Lookup
begin

text \<open>
  The plan editor's rules, \<open>web/lib/plan/schema.ts\<close>, with the composers of
  \<open>web/lib/copy/plan.ts\<close> it calls: the bounds, the working copy, what is sent and what is
  refused, the mapping of a 422 onto rows, and the form's resolver. A list the server omitted
  is \<open>None\<close> (the source reads it with \<open>?? []\<close>).
\<close>

section \<open>Copy\<close>

definition ordinal :: "int \<Rightarrow> int" where
  "ordinal position = (if position < 1 then 1 else position)"

definition subQuestionLabel :: "int \<Rightarrow> string" where
  "subQuestionLabel position = ''Sub-question '' @ show_int (ordinal position)"

definition arxivQueryLabel :: "int \<Rightarrow> string" where
  "arxivQueryLabel position = ''arXiv query '' @ show_int (ordinal position)"

definition removeSubQuestion :: "int \<Rightarrow> string" where
  "removeSubQuestion position = ''Remove sub-question '' @ show_int (ordinal position)"

definition removeArxivQuery :: "int \<Rightarrow> string" where
  "removeArxivQuery position = ''Remove arXiv query '' @ show_int (ordinal position)"

text \<open>A comma wherever a multiple of three digits follows, except at the start.\<close>

fun commas :: "string \<Rightarrow> string" where
  "commas [] = []"
| "commas (c # cs) =
     (if cs \<noteq> [] \<and> length cs mod 3 = 0 then c # CHR '','' # commas cs else c # commas cs)"

definition groupDigits :: "int \<Rightarrow> string" where
  "groupDigits v = commas (show_nat (nat \<bar>v\<bar>))"

definition atItemLimit :: "int \<Rightarrow> string" where
  "atItemLimit limit =
     ''This list holds '' @ groupDigits limit @ '' entries at most. Remove one to add another.''"

definition overItemLength :: "int \<Rightarrow> string" where
  "overItemLength over =
     (let n = max 0 over
      in groupDigits n @ '' character'' @ (if n = 1 then '''' else ''s'')
         @ '' over the limit. Shorten this entry to send the plan.'')"

section \<open>Bounds and working copy\<close>

definition MAX_PLAN_ITEMS :: nat where
  "MAX_PLAN_ITEMS = 20"

definition MAX_PLAN_ITEM_LEN :: nat where
  "MAX_PLAN_ITEM_LEN = 500"

record plan_body =
  pl_sub_questions :: "string list option"
  pl_search_queries :: "string list option"

record plan_draft =
  subQuestions :: "string list"
  searchQueries :: "string list"

datatype plan_list_key = PL_subQuestions | PL_searchQueries

definition PLAN_LISTS :: "plan_list_key list" where
  "PLAN_LISTS = [PL_subQuestions, PL_searchQueries]"

text \<open>\<open>draft[list]\<close>.\<close>

fun draft_list :: "plan_draft \<Rightarrow> plan_list_key \<Rightarrow> string list" where
  "draft_list d PL_subQuestions = subQuestions d"
| "draft_list d PL_searchQueries = searchQueries d"

datatype plan_family = Family_ui | Family_mono

record plan_list_spec =
  ps_key :: plan_list_key
  ps_wire :: string
  ps_family :: plan_family
  ps_describesRows :: bool
  ps_columnLabel :: string
  ps_columnHint :: string
  ps_emptyNote :: string
  ps_rowLabel :: "int \<Rightarrow> string"
  ps_removeLabel :: "int \<Rightarrow> string"
  ps_addLabel :: string

fun PLAN_LIST_SPECS :: "plan_list_key \<Rightarrow> plan_list_spec" where
  "PLAN_LIST_SPECS PL_subQuestions =
     \<lparr>ps_key = PL_subQuestions, ps_wire = ''sub_questions'', ps_family = Family_ui,
      ps_describesRows = False, ps_columnLabel = ''Sub-questions'',
      ps_columnHint = ''Your own words. Rewrite these freely '' @ [CHR 0x97]
        @ '' they shape the reading, and no search is made from them.'',
      ps_emptyNote = ''No sub-questions. Add one, or cancel the run.'',
      ps_rowLabel = subQuestionLabel, ps_removeLabel = removeSubQuestion,
      ps_addLabel = ''Add sub-question''\<rparr>"
| "PLAN_LIST_SPECS PL_searchQueries =
     \<lparr>ps_key = PL_searchQueries, ps_wire = ''search_queries'', ps_family = Family_mono,
      ps_describesRows = True, ps_columnLabel = ''arXiv queries'',
      ps_columnHint = ''Each line is sent to arXiv verbatim, exactly as it is written here.'',
      ps_emptyNote = ''No arXiv queries. Add one, or cancel the run.'',
      ps_rowLabel = arxivQueryLabel, ps_removeLabel = removeArxivQuery,
      ps_addLabel = ''Add arXiv query''\<rparr>"

definition WIRE_TO_LIST :: "(string \<times> plan_list_key) list" where
  "WIRE_TO_LIST = [(''sub_questions'', PL_subQuestions), (''search_queries'', PL_searchQueries)]"

text \<open>\<open>xs ?? []\<close>.\<close>

definition or_empty :: "'a list option \<Rightarrow> 'a list" where
  "or_empty xs = (case xs of Some l \<Rightarrow> l | None \<Rightarrow> [])"

definition planToDraft :: "plan_body \<Rightarrow> plan_draft" where
  "planToDraft p =
     \<lparr>subQuestions = or_empty (pl_sub_questions p),
      searchQueries = or_empty (pl_search_queries p)\<rparr>"

definition filled :: "string \<Rightarrow> bool" where
  "filled entry \<longleftrightarrow> trim entry \<noteq> []"

definition draftToPlan :: "plan_draft \<Rightarrow> plan_body" where
  "draftToPlan d =
     \<lparr>pl_sub_questions = Some (filter filled (subQuestions d)),
      pl_search_queries = Some (filter filled (searchQueries d))\<rparr>"

definition sameList :: "string list \<Rightarrow> string list \<Rightarrow> bool" where
  "sameList a b \<longleftrightarrow> length a = length b \<and> list_all (\<lambda>i. a ! i = b ! i) [0..<length a]"

definition planEquals :: "plan_body \<Rightarrow> plan_body \<Rightarrow> bool" where
  "planEquals a b \<longleftrightarrow>
     sameList (or_empty (pl_sub_questions a)) (or_empty (pl_sub_questions b))
     \<and> sameList (or_empty (pl_search_queries a)) (or_empty (pl_search_queries b))"

definition isEdited :: "plan_body \<Rightarrow> plan_draft \<Rightarrow> bool" where
  "isEdited original d \<longleftrightarrow> \<not> planEquals original (draftToPlan d)"

section \<open>Bounds of a draft\<close>

datatype plan_issue_code = Too_long | Too_many

record plan_issue =
  pi_list :: plan_list_key
  pi_index :: "nat option"
  pi_code :: plan_issue_code
  pi_message :: string

definition row_issues :: "plan_list_key \<Rightarrow> string list \<Rightarrow> plan_issue list" where
  "row_issues list entries = List.map_filter
     (\<lambda>(index, entry).
        if length entry > MAX_PLAN_ITEM_LEN
        then Some \<lparr>pi_list = list, pi_index = Some index, pi_code = Too_long,
                   pi_message = overItemLength (int (length entry - MAX_PLAN_ITEM_LEN))\<rparr>
        else None)
     (enumerate 0 entries)"

definition list_issues :: "plan_list_key \<Rightarrow> string list \<Rightarrow> plan_issue list" where
  "list_issues list entries =
     row_issues list entries
     @ (if length entries > MAX_PLAN_ITEMS
        then [\<lparr>pi_list = list, pi_index = None, pi_code = Too_many,
               pi_message = atItemLimit (int MAX_PLAN_ITEMS)\<rparr>]
        else [])"

definition planIssues :: "plan_draft \<Rightarrow> plan_issue list" where
  "planIssues d = concat (map (\<lambda>list. list_issues list (draft_list d list)) PLAN_LISTS)"

definition isListFull :: "plan_draft \<Rightarrow> plan_list_key \<Rightarrow> bool" where
  "isListFull d list \<longleftrightarrow> length (draft_list d list) \<ge> MAX_PLAN_ITEMS"

section \<open>What gets sent\<close>

datatype plan_refusal = Refused_bounds | Refused_empty_plan

record review_request =
  rr_action :: review_action
  rr_plan :: "plan_body option"

datatype plan_submission =
    Sub_ok review_request
  | Sub_refused plan_refusal "plan_issue list"

definition reviewRequestFor :: "plan_body \<Rightarrow> plan_draft \<Rightarrow> plan_submission" where
  "reviewRequestFor original d =
     (let issues = planIssues d
      in if length issues > 0 then Sub_refused Refused_bounds issues
         else if \<not> isEdited original d then Sub_ok \<lparr>rr_action = Approve, rr_plan = None\<rparr>
         else let p = draftToPlan d
              in if or_empty (pl_sub_questions p) = [] \<or> or_empty (pl_search_queries p) = []
                 then Sub_refused Refused_empty_plan []
                 else Sub_ok \<lparr>rr_action = Revise, rr_plan = Some p\<rparr>)"

definition cancelRequest :: review_request where
  "cancelRequest = \<lparr>rr_action = Cancel, rr_plan = None\<rparr>"

section \<open>422 to row\<close>

record mapped_field_issue =
  mf_list :: plan_list_key
  mf_index :: nat
  mf_message :: string
  mf_type :: "string option"

text \<open>
  \<open>Absent\<close> is \<open>null\<close>. \<open>WIRE_TO_LIST[field]\<close> is read with brackets: a field that is the name of an
  inherited member is mapped as well (\<open>Inherited\<close>), to a list the form does not have.
\<close>

definition mapFieldIssue :: "field_issue \<Rightarrow> mapped_field_issue lookup" where
  "mapFieldIssue issue =
     (let segments = filter (\<lambda>w. w \<noteq> []) (split_on (CHR ''.'') (fi_path issue));
          start = (if segments \<noteq> [] \<and> hd segments = ''plan'' then 1 else 0)
      in case drop start segments of
           field # position # _ \<Rightarrow>
             (let list = lookup WIRE_TO_LIST field
              in if list = Absent \<or> \<not> (position \<noteq> [] \<and> list_all digit_char position) then Absent
                 else case list of
                   Own k \<Rightarrow> Own \<lparr>mf_list = k, mf_index = digits_value 0 position,
                                 mf_message = fi_message issue, mf_type = fi_type issue\<rparr>
                 | _ \<Rightarrow> Inherited)
         | _ \<Rightarrow> Absent)"

fun mapFieldIssues :: "field_issue list \<Rightarrow> mapped_field_issue lookup list \<times> field_issue list" where
  "mapFieldIssues [] = ([], [])"
| "mapFieldIssues (issue # issues) =
     (let (rows, unmapped) = mapFieldIssues issues; mapped = mapFieldIssue issue
      in if mapped = Absent then (rows, issue # unmapped) else (mapped # rows, unmapped))"

section \<open>The form\<close>

record plan_form_values =
  fv_subQuestions :: "string list"
  fv_searchQueries :: "string list"

text \<open>Every level optional: the list, a row, the row's value.\<close>

record partial_plan_form_values =
  pv_subQuestions :: "string option option list option"
  pv_searchQueries :: "string option option list option"

definition row_value :: "string option option \<Rightarrow> string" where
  "row_value row = (case row of Some (Some v) \<Rightarrow> v | _ \<Rightarrow> [])"

definition valuesToDraft :: "partial_plan_form_values \<Rightarrow> plan_draft" where
  "valuesToDraft vals =
     \<lparr>subQuestions = map row_value (or_empty (pv_subQuestions vals)),
      searchQueries = map row_value (or_empty (pv_searchQueries vals))\<rparr>"

definition draftToValues :: "plan_draft \<Rightarrow> plan_form_values" where
  "draftToValues d = \<lparr>fv_subQuestions = subQuestions d, fv_searchQueries = searchQueries d\<rparr>"

text \<open>Full form values, as the partial shape the subscription hands back.\<close>

definition as_partial :: "plan_form_values \<Rightarrow> partial_plan_form_values" where
  "as_partial v =
     \<lparr>pv_subQuestions = Some (map (\<lambda>x. Some (Some x)) (fv_subQuestions v)),
      pv_searchQueries = Some (map (\<lambda>x. Some (Some x)) (fv_searchQueries v))\<rparr>"

record plan_list_errors =
  le_rows :: "nat \<Rightarrow> string option"
  le_root :: "string option"

type_synonym plan_form_errors = "plan_list_key \<Rightarrow> plan_list_errors option"

definition add_form_error :: "plan_form_errors \<Rightarrow> plan_issue \<Rightarrow> plan_form_errors" where
  "add_form_error errors issue =
     (let rows = (case errors (pi_list issue) of
                    Some e \<Rightarrow> e | None \<Rightarrow> \<lparr>le_rows = (\<lambda>_. None), le_root = None\<rparr>)
      in errors(pi_list issue \<mapsto>
           (case pi_index issue of
              None \<Rightarrow> rows\<lparr>le_root := Some (pi_message issue)\<rparr>
            | Some i \<Rightarrow> rows\<lparr>le_rows := (le_rows rows)(i \<mapsto> pi_message issue)\<rparr>)))"

definition planFormErrors :: "plan_issue list \<Rightarrow> plan_form_errors" where
  "planFormErrors issues = foldl add_form_error (\<lambda>_. None) issues"

text \<open>The resolver: the values to submit, or none and the error tree.\<close>

definition planResolver ::
  "plan_form_values \<Rightarrow> plan_form_values option \<times> plan_form_errors"
where
  "planResolver v =
     (let issues = planIssues (valuesToDraft (as_partial v))
      in if issues = [] then (Some v, \<lambda>_. None) else (None, planFormErrors issues))"

section \<open>Lemmas\<close>

lemma sameList_eq [simp]: "sameList a b \<longleftrightarrow> a = b"
  by (auto simp: sameList_def list_all_iff intro: nth_equalityI)

definition within_bounds :: "plan_draft \<Rightarrow> bool" where
  "within_bounds d \<longleftrightarrow>
     (\<forall>list. length (draft_list d list) \<le> MAX_PLAN_ITEMS
        \<and> list_all (\<lambda>e. length e \<le> MAX_PLAN_ITEM_LEN) (draft_list d list))"

text \<open>The two lists of a plan, by key.\<close>

fun plan_list :: "plan_body \<Rightarrow> plan_list_key \<Rightarrow> string list" where
  "plan_list p PL_subQuestions = or_empty (pl_sub_questions p)"
| "plan_list p PL_searchQueries = or_empty (pl_search_queries p)"

lemma plan_list_draftToPlan [simp]:
  "plan_list (draftToPlan d) list = filter filled (draft_list d list)"
  by (cases list) (simp_all add: draftToPlan_def or_empty_def)

lemma all_keys: "(\<forall>k. P k) \<longleftrightarrow> P PL_subQuestions \<and> P PL_searchQueries"
  by (metis plan_list_key.exhaust)

lemma ex_keys: "(\<exists>k. P k) \<longleftrightarrow> P PL_subQuestions \<or> P PL_searchQueries"
  by (metis plan_list_key.exhaust)

lemma planEquals_lists: "planEquals a b \<longleftrightarrow> (\<forall>k. plan_list a k = plan_list b k)"
  by (simp add: planEquals_def all_keys)

lemma isEdited_lists:
  "isEdited p d \<longleftrightarrow> (\<exists>k. plan_list p k \<noteq> filter filled (draft_list d k))"
  by (simp add: isEdited_def planEquals_lists)

lemma row_issues_set:
  "issue \<in> set (row_issues k es) \<longleftrightarrow>
     (\<exists>i < length es. length (es ! i) > MAX_PLAN_ITEM_LEN
        \<and> issue = \<lparr>pi_list = k, pi_index = Some i, pi_code = Too_long,
                   pi_message = overItemLength (int (length (es ! i) - MAX_PLAN_ITEM_LEN))\<rparr>)"
  by (auto simp: row_issues_def in_set_map_filter bex_enumerate split: if_splits)

lemma set_planIssues:
  "set (planIssues d) = (\<Union>k. set (list_issues k (draft_list d k)))"
proof -
  have "(UNIV :: plan_list_key set) = {PL_subQuestions, PL_searchQueries}"
    using plan_list_key.exhaust by blast
  then have "(\<Union>k. set (list_issues k (draft_list d k)))
      = (\<Union>k \<in> {PL_subQuestions, PL_searchQueries}. set (list_issues k (draft_list d k)))" by simp
  then show ?thesis by (simp add: planIssues_def PLAN_LISTS_def)
qed

lemma row_issues_empty:
  "row_issues k es = [] \<longleftrightarrow> list_all (\<lambda>e. length e \<le> MAX_PLAN_ITEM_LEN) es"
proof -
  have "row_issues k es = [] \<longleftrightarrow> (\<forall>issue. issue \<notin> set (row_issues k es))" by auto
  also have "\<dots> \<longleftrightarrow> (\<forall>i < length es. \<not> length (es ! i) > MAX_PLAN_ITEM_LEN)"
    by (simp add: row_issues_set) blast
  also have "\<dots> \<longleftrightarrow> list_all (\<lambda>e. length e \<le> MAX_PLAN_ITEM_LEN) es"
    by (simp add: list_all_length not_less)
  finally show ?thesis .
qed

lemma list_issues_empty:
  "list_issues k es = [] \<longleftrightarrow>
     length es \<le> MAX_PLAN_ITEMS \<and> list_all (\<lambda>e. length e \<le> MAX_PLAN_ITEM_LEN) es"
  by (auto simp: list_issues_def not_less row_issues_empty)

lemma planIssues_empty: "planIssues d = [] \<longleftrightarrow> within_bounds d"
  by (simp add: planIssues_def PLAN_LISTS_def list_issues_empty within_bounds_def all_keys)

lemma row_marked:
  "(\<exists>issue \<in> set (planIssues d). pi_list issue = k \<and> pi_index issue = Some i)
     \<longleftrightarrow> i < length (draft_list d k) \<and> length (draft_list d k ! i) > MAX_PLAN_ITEM_LEN"
proof -
  have key: "issue \<in> set (list_issues k' es) \<Longrightarrow> pi_list issue = k'" for issue k' es
    by (auto simp: list_issues_def row_issues_set split: if_splits)
  have "(\<exists>issue \<in> set (planIssues d). pi_list issue = k \<and> pi_index issue = Some i)
      \<longleftrightarrow> (\<exists>issue \<in> set (list_issues k (draft_list d k)). pi_index issue = Some i)"
    unfolding set_planIssues by (auto dest: key)
  also have "\<dots> \<longleftrightarrow> (\<exists>issue \<in> set (row_issues k (draft_list d k)). pi_index issue = Some i)"
    by (auto simp: list_issues_def)
  also have "\<dots> \<longleftrightarrow> i < length (draft_list d k) \<and> length (draft_list d k ! i) > MAX_PLAN_ITEM_LEN"
    by (auto simp: Bex_def row_issues_set)
  finally show ?thesis .
qed

lemma parse_segments:
  "\<lbrakk>CHR ''.'' \<notin> set a; a \<noteq> []; CHR ''.'' \<notin> set b; b \<noteq> []; CHR ''.'' \<notin> set c; c \<noteq> []\<rbrakk> \<Longrightarrow>
     filter (\<lambda>w. w \<noteq> []) (split_on (CHR ''.'') (join ''.'' [a, b, c])) = [a, b, c]"
  by (subst split_on_join) auto

lemma dot_free_show_nat: "CHR ''.'' \<notin> set (show_nat n)"
  using digits_show_nat [of "CHR ''.''" n] by (auto simp: digit_char_def)

lemma digits_of_show_nat: "list_all digit_char (show_nat n)"
  by (simp add: list_all_iff digits_show_nat)

lemma mapFieldIssues_partition:
  "mapFieldIssues issues =
     (filter (\<lambda>m. m \<noteq> Absent) (map mapFieldIssue issues), filter (\<lambda>i. mapFieldIssue i = Absent) issues)"
  by (induction issues) (auto simp: Let_def split: prod.splits)

lemma add_form_error_rows:
  "le_rows (case (add_form_error errors issue) k of Some e \<Rightarrow> e
            | None \<Rightarrow> \<lparr>le_rows = (\<lambda>_. None), le_root = None\<rparr>) i
   = (if pi_list issue = k \<and> pi_index issue = Some i then Some (pi_message issue)
      else le_rows (case errors k of Some e \<Rightarrow> e
                    | None \<Rightarrow> \<lparr>le_rows = (\<lambda>_. None), le_root = None\<rparr>) i)"
  by (auto simp: add_form_error_def Let_def split: option.split)

section \<open>Properties\<close>

text \<open>
  The submit decision, whole. A request is built exactly when the draft is within the server's
  bounds (at most 20 entries per list, at most 500 characters per entry): an approval exactly
  when the non-blank entries are the server's own plan, otherwise a revision that carries
  exactly the non-blank entries, in order and verbatim, with neither list empty. A draft out of
  bounds is refused with its issues, a draft that would leave a list empty is refused too, and
  so no request the bounds would turn into a 422 is ever built.
\<close>

lemma review_request_decision:
  "reviewRequestFor original d =
     (if \<not> within_bounds d then Sub_refused Refused_bounds (planIssues d)
      else if \<forall>k. plan_list original k = filter filled (draft_list d k)
           then Sub_ok \<lparr>rr_action = Approve, rr_plan = None\<rparr>
      else if \<exists>k. filter filled (draft_list d k) = [] then Sub_refused Refused_empty_plan []
      else Sub_ok \<lparr>rr_action = Revise, rr_plan = Some (draftToPlan d)\<rparr>)
   \<and> (case reviewRequestFor original d of
        Sub_ok r \<Rightarrow>
          (case rr_plan r of
             Some p \<Rightarrow> list_all (\<lambda>k. plan_list p k = filter filled (draft_list d k)
               \<and> 0 < length (plan_list p k) \<and> length (plan_list p k) \<le> 20
               \<and> list_all (\<lambda>e. length e \<le> 500) (plan_list p k)) PLAN_LISTS
           | None \<Rightarrow> rr_action r = Approve)
      | Sub_refused _ _ \<Rightarrow> True)"
proof -
  have empty: "(or_empty (pl_sub_questions (draftToPlan d)) = []
      \<or> or_empty (pl_search_queries (draftToPlan d)) = [])
    \<longleftrightarrow> (\<exists>k. filter filled (draft_list d k) = [])"
    by (simp add: ex_keys draftToPlan_def or_empty_def)
  have decision: "reviewRequestFor original d =
     (if \<not> within_bounds d then Sub_refused Refused_bounds (planIssues d)
      else if \<forall>k. plan_list original k = filter filled (draft_list d k)
           then Sub_ok \<lparr>rr_action = Approve, rr_plan = None\<rparr>
      else if \<exists>k. filter filled (draft_list d k) = [] then Sub_refused Refused_empty_plan []
      else Sub_ok \<lparr>rr_action = Revise, rr_plan = Some (draftToPlan d)\<rparr>)"
    unfolding reviewRequestFor_def Let_def empty
    by (simp add: planIssues_empty isEdited_lists)
  moreover have "length (filter filled (draft_list d k)) \<le> 20
      \<and> list_all (\<lambda>e. length e \<le> 500) (filter filled (draft_list d k))"
    if "within_bounds d" for k
    using that le_trans [OF length_filter_le [of filled "draft_list d k"]]
    by (auto simp: within_bounds_def MAX_PLAN_ITEMS_def MAX_PLAN_ITEM_LEN_def list_all_iff)
  ultimately show ?thesis
    by (simp add: PLAN_LISTS_def)
qed

text \<open>
  An untouched plan is approved exactly when the server's plan is within the bounds and none
  of its entries is blank: blank entries are dropped before the comparison, so a plan that
  arrived with one counts as edited although the reader changed nothing.
\<close>

lemma untouched_plan:
  "reviewRequestFor p (planToDraft p) = Sub_ok \<lparr>rr_action = Approve, rr_plan = None\<rparr>
   \<longleftrightarrow> within_bounds (planToDraft p) \<and> (\<forall>k. list_all filled (plan_list p k))"
proof -
  have same: "draft_list (planToDraft p) k = plan_list p k" for k
    by (cases k) (simp_all add: planToDraft_def)
  have "xs = filter filled xs \<longleftrightarrow> list_all filled xs" for xs
    using filter_id_conv [of filled xs] by (auto simp: list_all_iff)
  then show ?thesis
    by (auto simp: reviewRequestFor_def Let_def planIssues_empty isEdited_lists same)
qed

text \<open>
  A 422 lands on the right row and nothing of it is lost: the path the normalizer prints for
  entry \<open>n\<close> of either list of the plan, with or without the \<open>plan\<close> prefix, is mapped to that
  list and that index with its message and type; and every issue is either mapped or kept among the
  unmapped ones, in order.
\<close>

lemma field_issue_roundtrip:
  "mapFieldIssue \<lparr>fi_path = join ''.'' [''plan'', ps_wire (PLAN_LIST_SPECS k), show_nat n],
                  fi_message = m, fi_type = ty\<rparr>
     = Own \<lparr>mf_list = k, mf_index = n, mf_message = m, mf_type = ty\<rparr>
   \<and> fst (mapFieldIssues issues) = filter (\<lambda>m. m \<noteq> Absent) (map mapFieldIssue issues)
   \<and> snd (mapFieldIssues issues) = filter (\<lambda>i. mapFieldIssue i = Absent) issues
   \<and> length (fst (mapFieldIssues issues)) + length (snd (mapFieldIssues issues)) = length issues"
proof -
  have "mapFieldIssue \<lparr>fi_path = join ''.'' [''plan'', ps_wire (PLAN_LIST_SPECS k), show_nat n],
                  fi_message = m, fi_type = ty\<rparr>
     = Own \<lparr>mf_list = k, mf_index = n, mf_message = m, mf_type = ty\<rparr>"
    using parse_segments [of "''plan''" "ps_wire (PLAN_LIST_SPECS k)" "show_nat n"]
    by (cases k) (simp_all add: mapFieldIssue_def WIRE_TO_LIST_def lookup_def dot_free_show_nat
        digits_of_show_nat del: join.simps)
  moreover have "length (filter (\<lambda>m. m \<noteq> Absent) (map mapFieldIssue issues))
      + length (filter (\<lambda>i. mapFieldIssue i = Absent) issues) = length issues"
    by (induction issues) auto
  ultimately show ?thesis by (simp add: mapFieldIssues_partition)
qed

text \<open>A field named like an inherited member is a row nobody sees: neither list has it, and it is
  not among the unmapped ones either.\<close>

lemma inherited_field_is_lost:
  assumes "f \<in> set OBJECT_PROTOTYPE"
  shows "mapFieldIssues [\<lparr>fi_path = join ''.'' [''plan'', f, show_nat n], fi_message = m, fi_type = ty\<rparr>]
    = ([Inherited], [])"
proof -
  have f: "CHR ''.'' \<notin> set f" "f \<noteq> []" "lookup WIRE_TO_LIST f = Inherited"
    using assms by (auto simp: OBJECT_PROTOTYPE_def WIRE_TO_LIST_def lookup_def)
  have "mapFieldIssue \<lparr>fi_path = join ''.'' [''plan'', f, show_nat n], fi_message = m, fi_type = ty\<rparr> = Inherited"
    using parse_segments [of "''plan''" f "show_nat n"] f
    by (simp add: mapFieldIssue_def dot_free_show_nat digits_of_show_nat del: join.simps)
  then show ?thesis by (simp del: join.simps)
qed

text \<open>
  The form and the submit rule agree: the resolver lets values through, unchanged, exactly
  when the submit rule would not refuse the same values for their bounds, whatever the server's
  plan is; otherwise it returns no values and the error tree of the issues, which marks row
  \<open>i\<close> of a list exactly when that entry is over-long.
\<close>

lemma resolver_agrees:
  "let d = \<lparr>subQuestions = fv_subQuestions v, searchQueries = fv_searchQueries v\<rparr>
   in planResolver v = (if within_bounds d then (Some v, \<lambda>_. None)
                        else (None, planFormErrors (planIssues d)))
      \<and> (fst (planResolver v) = None
           \<longleftrightarrow> (\<exists>is. reviewRequestFor original d = Sub_refused Refused_bounds is))
      \<and> (le_rows (case snd (planResolver v) k of Some e \<Rightarrow> e
                  | None \<Rightarrow> \<lparr>le_rows = (\<lambda>_. None), le_root = None\<rparr>) i \<noteq> None
           \<longleftrightarrow> i < length (draft_list d k) \<and> 500 < length (draft_list d k ! i))"
proof -
  let ?d = "\<lparr>subQuestions = fv_subQuestions v, searchQueries = fv_searchQueries v\<rparr>"
  let ?row = "\<lambda>errors :: plan_form_errors. le_rows (case errors k of Some e \<Rightarrow> e
                  | None \<Rightarrow> \<lparr>le_rows = (\<lambda>_. None), le_root = None\<rparr>) i"
  have draft: "valuesToDraft (as_partial v) = ?d"
    by (simp add: valuesToDraft_def as_partial_def or_empty_def row_value_def comp_def)
  have tree: "?row (foldl add_form_error errors issues) \<noteq> None
      \<longleftrightarrow> ?row errors \<noteq> None \<or> (\<exists>issue \<in> set issues. pi_list issue = k \<and> pi_index issue = Some i)"
    for errors issues
    by (induction issues arbitrary: errors) (auto simp: add_form_error_rows)
  have marked: "?row (planFormErrors (planIssues ?d)) \<noteq> None
      \<longleftrightarrow> i < length (draft_list ?d k) \<and> 500 < length (draft_list ?d k ! i)"
    unfolding planFormErrors_def tree row_marked MAX_PLAN_ITEM_LEN_def by simp
  have none: "\<not> (i < length (draft_list ?d k) \<and> 500 < length (draft_list ?d k ! i))"
    if "within_bounds ?d"
    using row_marked [of ?d k i] planIssues_empty [of ?d] that
    by (simp add: MAX_PLAN_ITEM_LEN_def)
  have refused: "(\<exists>is. reviewRequestFor original ?d = Sub_refused Refused_bounds is)
      \<longleftrightarrow> \<not> within_bounds ?d"
    by (simp add: reviewRequestFor_def Let_def planIssues_empty)
  have "planResolver v = (if within_bounds ?d then (Some v, \<lambda>_. None)
                        else (None, planFormErrors (planIssues ?d)))"
    by (simp add: planResolver_def draft planIssues_empty)
  then show ?thesis using marked none refused by (simp add: Let_def)
qed

end
