(* ===== verification/Spine.thy ===== *)
theory Spine
  imports Job_Properties
begin

text \<open>
  The trace spine: \<open>web/lib/spine/state.ts\<close> (the four inputs, the twelve states, the segments
  and the sentences), \<open>web/lib/spine/adapter.ts\<close> (the four inputs read out of the machine) and
  the composers of \<open>web/lib/copy/spine.ts\<close>. Clocks are integer milliseconds.
\<close>

section \<open>Copy\<close>

definition SPINE_running :: string where
  "SPINE_running = ''Running''"

definition SPINE_notReportedYet :: string where
  "SPINE_notReportedYet = ''Attached to this run. Its status is not reported yet.''"

definition SPINE_separator :: string where
  "SPINE_separator = '' '' @ [CHR 0xB7] @ '' ''"

definition SPINE_gap :: string where
  "SPINE_gap = '' ''"

definition segmentLabel :: "string \<Rightarrow> string \<Rightarrow> string" where
  "segmentLabel segment word = segment @ SPINE_separator @ word"

definition observationDetail :: "int \<Rightarrow> int option \<Rightarrow> string" where
  "observationDetail count secondsAgo =
     (case lastUpdated secondsAgo of
        None \<Rightarrow> checkpointCount count
      | Some updated \<Rightarrow> checkpointCount count @ SPINE_separator @ updated)"

definition detailSeparator :: "string \<Rightarrow> string" where
  "detailSeparator announcement =
     (if announcement \<noteq> [] \<and> last announcement \<in> set ''.!?'' then SPINE_gap
      else SPINE_separator)"

section \<open>Inputs\<close>

datatype spine_state =
    Sp_submitting | Sp_awaiting_review | Sp_running_observed | Sp_rejoined | Sp_reconnecting
  | Sp_recycled | Sp_succeeded | Sp_historic | Sp_failed_observed | Sp_failed_unobserved
  | Sp_cancelled | Sp_expired

datatype spine_status = SS_job job_status | SS_submitting | SS_unavailable | SS_null

datatype spine_connection = SC_open | SC_reconnecting | SC_recycled | SC_closed

datatype segment_status =
    Seg_observed | Seg_live | Seg_not_observed | Seg_awaiting_review | Seg_complete | Seg_failed
  | Seg_cancelled | Seg_unavailable

fun SEGMENT_WORD :: "segment_status \<Rightarrow> string" where
  "SEGMENT_WORD Seg_observed = RUN_STATUS_WORD RW_observed"
| "SEGMENT_WORD Seg_live = RUN_STATUS_WORD RW_live"
| "SEGMENT_WORD Seg_not_observed = RUN_STATUS_WORD RW_notObserved"
| "SEGMENT_WORD Seg_awaiting_review = RUN_STATUS_WORD RW_pendingReview"
| "SEGMENT_WORD Seg_complete = RUN_STATUS_WORD RW_succeeded"
| "SEGMENT_WORD Seg_failed = RUN_STATUS_WORD RW_failed"
| "SEGMENT_WORD Seg_cancelled = RUN_STATUS_WORD RW_cancelled"
| "SEGMENT_WORD Seg_unavailable = RUN_STATUS_WORD RW_expired"

record observation_input =
  ob_checkpoints :: "observed_checkpoint list"
  ob_connection :: spine_connection
  ob_current :: bool

record spine_inputs =
  si_status :: spine_status
  si_observation :: observation_input
  si_plan :: "json option"
  si_secondsSinceLastFrame :: "int option"

record spine_segment =
  sg_name :: string
  sg_status :: segment_status
  sg_word :: string

record spine_model =
  sm_id :: spine_state
  sm_segments :: "spine_segment list"
  sm_ledger :: "observed_checkpoint list"
  sm_announcement :: string
  sm_detail :: "string option"
  sm_separator :: string
  sm_live :: bool
  sm_current :: bool

section \<open>The state\<close>

definition isOver :: "spine_status \<Rightarrow> bool" where
  "isOver status \<longleftrightarrow> status \<in> {SS_job St_succeeded, SS_job St_failed, SS_job St_cancelled}"

definition spineStateId :: "spine_inputs \<Rightarrow> spine_state" where
  "spineStateId inp =
     (let status = si_status inp; obs = si_observation inp;
          watched = (ob_checkpoints obs \<noteq> [])
      in if status = SS_submitting then Sp_submitting
         else if status = SS_unavailable then Sp_expired
         else if status = SS_job St_cancelled then Sp_cancelled
         else if status = SS_job St_succeeded then (if watched then Sp_succeeded else Sp_historic)
         else if status = SS_job St_failed
              then (if watched then Sp_failed_observed else Sp_failed_unobserved)
         else if status = SS_job St_pending_review \<or> (si_plan inp \<noteq> None \<and> \<not> isOver status)
              then Sp_awaiting_review
         else if ob_connection obs = SC_recycled then Sp_recycled
         else if ob_connection obs = SC_reconnecting then Sp_reconnecting
         else if watched then Sp_running_observed else Sp_rejoined)"

section \<open>Segments\<close>

fun SEGMENT_TABLE :: "spine_state \<Rightarrow> segment_status list" where
  "SEGMENT_TABLE Sp_submitting = [Seg_not_observed, Seg_not_observed, Seg_not_observed, Seg_not_observed]"
| "SEGMENT_TABLE Sp_awaiting_review = [Seg_observed, Seg_awaiting_review, Seg_not_observed, Seg_not_observed]"
| "SEGMENT_TABLE Sp_running_observed = [Seg_observed, Seg_not_observed, Seg_observed, Seg_not_observed]"
| "SEGMENT_TABLE Sp_rejoined = [Seg_observed, Seg_not_observed, Seg_not_observed, Seg_not_observed]"
| "SEGMENT_TABLE Sp_reconnecting = [Seg_observed, Seg_not_observed, Seg_observed, Seg_not_observed]"
| "SEGMENT_TABLE Sp_recycled = [Seg_observed, Seg_not_observed, Seg_observed, Seg_not_observed]"
| "SEGMENT_TABLE Sp_succeeded = [Seg_observed, Seg_not_observed, Seg_observed, Seg_complete]"
| "SEGMENT_TABLE Sp_historic = [Seg_observed, Seg_not_observed, Seg_not_observed, Seg_complete]"
| "SEGMENT_TABLE Sp_failed_observed = [Seg_observed, Seg_not_observed, Seg_observed, Seg_failed]"
| "SEGMENT_TABLE Sp_failed_unobserved = [Seg_observed, Seg_not_observed, Seg_not_observed, Seg_failed]"
| "SEGMENT_TABLE Sp_cancelled = [Seg_observed, Seg_cancelled, Seg_not_observed, Seg_not_observed]"
| "SEGMENT_TABLE Sp_expired = [Seg_unavailable, Seg_unavailable, Seg_unavailable, Seg_unavailable]"

definition isObservational :: "segment_status \<Rightarrow> bool" where
  "isObservational s \<longleftrightarrow> s = Seg_observed \<or> s = Seg_not_observed"

definition RUN_INDEX :: nat where
  "RUN_INDEX = 2"

definition segmentsFor :: "spine_state \<Rightarrow> spine_inputs \<Rightarrow> spine_segment list" where
  "segmentsFor i inp =
     (let row = SEGMENT_TABLE i; watched = (ob_checkpoints (si_observation inp) \<noteq> [])
      in map (\<lambda>(index, name).
           let declared = row ! index;
               status = (if index = RUN_INDEX \<and> isObservational declared
                         then (if watched then Seg_observed else Seg_not_observed)
                         else declared)
           in \<lparr>sg_name = name, sg_status = status, sg_word = SEGMENT_WORD status\<rparr>)
         (enumerate 0 SPINE_SEGMENTS))"

section \<open>The sentence and the model\<close>

definition STREAMING :: "spine_state set" where
  "STREAMING = {Sp_running_observed, Sp_rejoined, Sp_reconnecting, Sp_recycled}"

definition SOCKET_EXPECTED :: "spine_state set" where
  "SOCKET_EXPECTED = STREAMING \<union> {Sp_awaiting_review}"

definition socketExpected :: "spine_state \<Rightarrow> bool" where
  "socketExpected i \<longleftrightarrow> i \<in> SOCKET_EXPECTED"

definition announcementFor :: "spine_state \<Rightarrow> spine_inputs \<Rightarrow> string" where
  "announcementFor i inp =
     (let checkpoints = ob_checkpoints (si_observation inp);
          newest = (if checkpoints = [] then None else Some (oc_node (last checkpoints)))
      in case i of
           Sp_submitting \<Rightarrow> RUN_STATUS_LINE RL_submitting
         | Sp_awaiting_review \<Rightarrow> RUN_STATUS_LINE RL_awaitingReview
         | Sp_running_observed \<Rightarrow> SPINE_running
         | Sp_rejoined \<Rightarrow>
             (if si_status inp = SS_null then SPINE_notReportedYet else RUN_STATUS_LINE RL_rejoined)
         | Sp_reconnecting \<Rightarrow> RUN_STATUS_LINE RL_reconnecting
         | Sp_recycled \<Rightarrow> RUN_STATUS_LINE RL_recycled
         | Sp_succeeded \<Rightarrow> SEGMENT_WORD Seg_complete
         | Sp_historic \<Rightarrow> RUN_STATUS_LINE RL_historic
         | Sp_failed_observed \<Rightarrow> failedStatusLine newest
         | Sp_failed_unobserved \<Rightarrow> failedStatusLine newest
         | Sp_cancelled \<Rightarrow> RUN_STATUS_LINE RL_cancelled
         | Sp_expired \<Rightarrow> UNAVAILABLE_COPY)"

definition describeSpine :: "spine_inputs \<Rightarrow> spine_model" where
  "describeSpine inp =
     (let i = spineStateId inp;
          count = length (ob_checkpoints (si_observation inp));
          streaming = (i \<in> STREAMING);
          announcement = announcementFor i inp
      in \<lparr>sm_id = i, sm_segments = segmentsFor i inp,
          sm_ledger = ob_checkpoints (si_observation inp), sm_announcement = announcement,
          sm_detail = (if streaming \<or> count > 0
             then Some (observationDetail (int count)
                    (if streaming then si_secondsSinceLastFrame inp else None))
             else None),
          sm_separator = detailSeparator announcement,
          sm_live = (ob_connection (si_observation inp) = SC_open),
          sm_current = ob_current (si_observation inp)\<rparr>)"

section \<open>The adapter\<close>

definition lastFrameName :: "job_state \<Rightarrow> string option" where
  "lastFrameName s = (if frames s = [] then None else Some (jf_name (last (frames s))))"

definition connectionOf :: "job_state \<Rightarrow> spine_connection" where
  "connectionOf s =
     (if connection s = Conn_open then SC_open
      else if connection s = Conn_reconnecting
           then (if lastFrameName s = Some STREAM_TIMEOUT_EVENT then SC_recycled
                 else SC_reconnecting)
      else SC_closed)"

definition statusOf :: "job_state \<Rightarrow> spine_status" where
  "statusOf s =
     (if phase s = Ph_submitting then SS_submitting
      else if phase s = Ph_unavailable then SS_unavailable
      else case detail s of Some d \<Rightarrow> SS_job (jd_status d) | None \<Rightarrow> SS_null)"

text \<open>\<open>Math.round(ms / 1000)\<close>: halves go up.\<close>

definition round_seconds :: "int \<Rightarrow> int" where
  "round_seconds ms = (ms + 500) div 1000"

definition spineInputs :: "job_state \<Rightarrow> int option \<Rightarrow> spine_inputs option" where
  "spineInputs s now =
     (let status = statusOf s
      in if status \<noteq> SS_submitting \<and> jobId s = None then None
         else Some
           \<lparr>si_status = status,
            si_observation = \<lparr>ob_checkpoints = observed s, ob_connection = connectionOf s,
                              ob_current = checkpointIsCurrent s\<rparr>,
            si_plan = plan s,
            si_secondsSinceLastFrame =
              (case (now, lastFrameAt s) of
                 (Some t, Some l) \<Rightarrow> Some (max 0 (round_seconds (t - l)))
               | _ \<Rightarrow> None)\<rparr>)"

section \<open>Lemmas\<close>

lemma segments_expand:
  "segmentsFor i inp =
     map2 (\<lambda>name status. \<lparr>sg_name = name, sg_status = status, sg_word = SEGMENT_WORD status\<rparr>)
       SPINE_SEGMENTS
       ((SEGMENT_TABLE i)[2 := (if i = Sp_expired then Seg_unavailable
          else if ob_checkpoints (si_observation inp) \<noteq> [] then Seg_observed
          else Seg_not_observed)])"
  by (cases i) (simp_all add: segmentsFor_def SPINE_SEGMENTS_def RUN_INDEX_def
      isObservational_def Let_def)

lemma table_rows: "length (SEGMENT_TABLE i) = 4 \<and> Seg_live \<notin> set (SEGMENT_TABLE i)"
  by (cases i) simp_all

lemma observed_step:
  "set (observed (jobReducer s e)) \<subseteq> set (observed s)
     \<union> {observation f node |f node. e = Ev_node_completed f \<and> readNode (jf_data f) = Some node}"
  unfolding jobReducer_def
  by (cases "phase s"; cases e; simp add: handler_defs adoptDetail_def Let_def observation_def
      split: option.split)

lemma observed_runs:
  "set (observed (runs jobReducer s es)) \<subseteq> set (observed s)
     \<union> {observation f node |f node. Ev_node_completed f \<in> set es \<and> readNode (jf_data f) = Some node}"
proof (induction es arbitrary: s)
  case Nil
  then show ?case by simp
next
  case (Cons e es)
  then show ?case using observed_step [of s e] by fastforce
qed

section \<open>Properties\<close>

text \<open>
  The spine shows only what was observed. For any inputs: the four segments keep their
  order and names; none is ever marked \<open>Live\<close>; the Run segment is \<open>observed\<close> exactly when the
  ledger is not empty (and \<open>No longer available\<close> for an expired run); the ledger shown is the
  ledger given; and for a run of the machine each of its entries is a \<open>node_completed\<close> frame of
  that very run, label, time and delta included.
\<close>

lemma spine_shows_observations:
  "(let m = describeSpine inp
    in map sg_name (sm_segments m) = SPINE_SEGMENTS
       \<and> list_all (\<lambda>g. sg_status g \<noteq> Seg_live \<and> sg_word g = SEGMENT_WORD (sg_status g))
            (sm_segments m)
       \<and> sg_status (sm_segments m ! 2) =
           (if sm_id m = Sp_expired then Seg_unavailable
            else if sm_ledger m \<noteq> [] then Seg_observed else Seg_not_observed)
       \<and> sm_ledger m = ob_checkpoints (si_observation inp))
   \<and> (case spineInputs (runs jobReducer initialJobState es) now of
        None \<Rightarrow> True
      | Some read \<Rightarrow> set (sm_ledger (describeSpine read)) \<subseteq>
          {observation f node |f node. Ev_node_completed f \<in> set es
             \<and> readNode (jf_data f) = Some node})"
proof (rule conjI)
  let ?i = "spineStateId inp"
  obtain a b c d where row: "SEGMENT_TABLE ?i = [a, b, c, d]"
    using table_rows [of ?i] by (auto simp: length_Suc_conv numeral_eq_Suc)
  then have "Seg_live \<notin> {a, b, c, d}" using table_rows [of ?i] by simp
  then show "let m = describeSpine inp
    in map sg_name (sm_segments m) = SPINE_SEGMENTS
       \<and> list_all (\<lambda>g. sg_status g \<noteq> Seg_live \<and> sg_word g = SEGMENT_WORD (sg_status g))
            (sm_segments m)
       \<and> sg_status (sm_segments m ! 2) =
           (if sm_id m = Sp_expired then Seg_unavailable
            else if sm_ledger m \<noteq> [] then Seg_observed else Seg_not_observed)
       \<and> sm_ledger m = ob_checkpoints (si_observation inp)"
    by (auto simp: describeSpine_def Let_def segments_expand row SPINE_SEGMENTS_def)
next
  have "observed initialJobState = []" by (simp add: initialJobState_def)
  then have "set (observed (runs jobReducer initialJobState es)) \<subseteq>
      {observation f node |f node. Ev_node_completed f \<in> set es \<and> readNode (jf_data f) = Some node}"
    using observed_runs [of initialJobState es] by simp
  then show "case spineInputs (runs jobReducer initialJobState es) now of
        None \<Rightarrow> True
      | Some read \<Rightarrow> set (sm_ledger (describeSpine read)) \<subseteq>
          {observation f node |f node. Ev_node_completed f \<in> set es
             \<and> readNode (jf_data f) = Some node}"
    by (simp add: spineInputs_def describeSpine_def Let_def)
qed

text \<open>
  A new checkpoint is never announced: for every status but \<open>failed\<close>, adding a checkpoint to
  a ledger that is not empty changes neither the state nor the segments nor the announced
  sentence, and for a failed run the sentence names exactly the last entry of the ledger.
\<close>

lemma checkpoints_are_not_announced:
  assumes "ob_checkpoints (si_observation inp) \<noteq> []"
  shows "let next = inp\<lparr>si_observation := (si_observation inp)
                \<lparr>ob_checkpoints := ob_checkpoints (si_observation inp) @ [c]\<rparr>\<rparr>
    in sm_id (describeSpine next) = sm_id (describeSpine inp)
       \<and> sm_segments (describeSpine next) = sm_segments (describeSpine inp)
       \<and> (if si_status inp = SS_job St_failed
          then sm_announcement (describeSpine next)
                 = ''Failed after the last observed checkpoint ('' @ oc_node c @ '').''
               \<or> oc_node c = []
          else sm_announcement (describeSpine next) = sm_announcement (describeSpine inp))"
proof -
  let ?next = "inp\<lparr>si_observation := (si_observation inp)
                \<lparr>ob_checkpoints := ob_checkpoints (si_observation inp) @ [c]\<rparr>\<rparr>"
  have same: "spineStateId ?next = spineStateId inp"
    using assms by (auto simp: spineStateId_def Let_def)
  have failed: "spineStateId inp \<in> {Sp_failed_observed, Sp_failed_unobserved}
      \<longleftrightarrow> si_status inp = SS_job St_failed"
    by (simp add: spineStateId_def Let_def)
  show ?thesis
    using assms failed same
    by (cases "spineStateId inp")
       (simp_all add: describeSpine_def Let_def segments_expand announcementFor_def
          failedStatusLine_def)
qed

theorem checkpoints_are_not_announced_witness:
  "let inp = \<lparr>si_status = SS_job St_running,
              si_observation = \<lparr>ob_checkpoints = [observation \<lparr>jf_name = [], jf_data = None,
                 jf_receivedAt = 1\<rparr> ''planner''], ob_connection = SC_open, ob_current = True\<rparr>,
              si_plan = None, si_secondsSinceLastFrame = None\<rparr>;
       c = observation \<lparr>jf_name = [], jf_data = None, jf_receivedAt = 2\<rparr> ''reader''
   in sm_announcement (describeSpine (inp\<lparr>si_observation := (si_observation inp)
         \<lparr>ob_checkpoints := ob_checkpoints (si_observation inp) @ [c]\<rparr>\<rparr>)) = ''Running''"
  using checkpoints_are_not_announced [of
      "\<lparr>si_status = SS_job St_running,
        si_observation = \<lparr>ob_checkpoints = [observation \<lparr>jf_name = [], jf_data = None,
          jf_receivedAt = 1\<rparr> ''planner''], ob_connection = SC_open, ob_current = True\<rparr>,
        si_plan = None, si_secondsSinceLastFrame = None\<rparr>"
      "observation \<lparr>jf_name = [], jf_data = None, jf_receivedAt = 2\<rparr> ''reader''"]
  by (simp add: Let_def describeSpine_def spineStateId_def announcementFor_def SPINE_running_def)

text \<open>
  The spine's status is the last one read, so it outlives the pause it describes: after the
  review was accepted and the next checkpoint of the resumed run arrived, the machine is live
  while the spine still says that the run is paused and not spending, until a read answers
  with another status; and a run whose terminal frame arrived during the pause but whose
  outcome could not be read is settled under the same sentence.
\<close>

lemma pause_outlives_the_review:
  assumes "phase s = Ph_awaiting_review" and "detail s = Some d"
    and "jd_status d = St_pending_review" and "jobId s \<noteq> None"
    and "readNode (jf_data f) = Some node"
  shows "let resumed = runs jobReducer s [Ev_review_accepted a t1, Ev_node_completed f];
             over = runs jobReducer s [Ev_job_failed g, Ev_detail_unreachable j fl m st src t2]
    in phase resumed = Ph_live
       \<and> map_option (\<lambda>inp. sm_announcement (describeSpine inp)) (spineInputs resumed now)
           = Some ''Waiting for your review. The run is paused and not spending.''
       \<and> phase over = Ph_settled
       \<and> map_option (\<lambda>inp. sm_announcement (describeSpine inp)) (spineInputs over now)
           = Some ''Waiting for your review. The run is paused and not spending.''"
proof -
  let ?resumed = "runs jobReducer s [Ev_review_accepted a t1, Ev_node_completed f]"
  let ?over = "runs jobReducer s [Ev_job_failed g, Ev_detail_unreachable j fl m st src t2]"
  have states: "phase ?resumed = Ph_live" "detail ?resumed = Some d" "jobId ?resumed = jobId s"
    "phase ?over = Ph_settled" "detail ?over = Some d" "jobId ?over = jobId s"
    using assms by (simp_all add: jobReducer_def handler_defs Let_def)
  show ?thesis
    using states assms(3,4)
    by (simp add: Let_def spineInputs_def statusOf_def describeSpine_def spineStateId_def
        announcementFor_def)
qed

definition example_parked :: job_state where
  "example_parked = initialJobState\<lparr>phase := Ph_awaiting_review, jobId := Some ''j'',
     detail := Some (example_detail ''j'' St_pending_review), connection := Conn_open\<rparr>"

lemma pause_outlives_the_review_witness:
  "map_option (\<lambda>inp. sm_announcement (describeSpine inp))
     (spineInputs (runs jobReducer example_parked
        [Ev_review_accepted Approve 1,
         Ev_node_completed (example_frame ''node_completed'' [(''node'', JStr ''reader'')] 2)]) None)
   = Some ''Waiting for your review. The run is paused and not spending.''"
  using pause_outlives_the_review [of example_parked "example_detail ''j'' St_pending_review"
      "example_frame ''node_completed'' [(''node'', JStr ''reader'')] 2" "''reader''"]
  by (simp add: example_parked_def example_detail_def example_frame_def readNode_def Let_def)

end
