(* ===== verification/Diag_Ring.thy ===== *)
theory Diag_Ring
  imports Job_Properties
begin

text \<open>
  The diagnostics ring, \<open>web/lib/diagnostics/ring.ts\<close>: a circular buffer of the last
  \<open>RING_CAPACITY\<close> records with its slots, cursor and count of writes, the snapshot every change
  publishes, and the records one transition of the job machine produces. A slot never written
  is \<open>None\<close>; \<open>dr_emits\<close> counts the notifications of the listeners. The ring's promise is the
  contract \<open>bounded_log\<close>, interpreted at the end on the ring itself.
\<close>

section \<open>Records\<close>

definition RING_CAPACITY :: nat where
  "RING_CAPACITY = 200"

datatype diagnostic_kind =
  DK_frame | DK_transition | DK_connection | DK_terminal | DK_failure | DK_vital

record diagnostic_input =
  di_at :: int
  di_kind :: diagnostic_kind
  di_event :: string
  di_jobId :: "string option"
  di_phase :: job_phase
  di_from :: "string option"
  di_failureKind :: "string option"
  di_detail :: "jobj option"

record diagnostic_record = diagnostic_input +
  di_seq :: nat

text \<open>\<open>record(input)\<close>: the four optional fields default to \<open>null\<close>.\<close>

definition record_input :: "diagnostic_kind \<Rightarrow> string \<Rightarrow> int \<Rightarrow> job_phase \<Rightarrow> diagnostic_input" where
  "record_input kind event at p =
     \<lparr>di_at = at, di_kind = kind, di_event = event, di_jobId = None, di_phase = p,
      di_from = None, di_failureKind = None, di_detail = None\<rparr>"

text \<open>\<open>{ ...input, seq }\<close> and its inverse on the fields of the input.\<close>

definition stamp :: "diagnostic_input \<Rightarrow> nat \<Rightarrow> diagnostic_record" where
  "stamp x n = diagnostic_input.extend x \<lparr>di_seq = n\<rparr>"

definition unstamp :: "diagnostic_record \<Rightarrow> diagnostic_input" where
  "unstamp r = diagnostic_input.truncate r"

section \<open>The ring\<close>

record ring =
  dr_capacity :: nat
  dr_slots :: "diagnostic_record option list"
  dr_cursor :: nat
  dr_written :: nat
  dr_snapshot :: "diagnostic_record list"
  dr_emits :: nat

text \<open>The constructor throws unless the capacity is a positive integer.\<close>

definition new_ring :: "int \<Rightarrow> ring option" where
  "new_ring capacity =
     (if capacity \<le> 0 then None
      else Some \<lparr>dr_capacity = nat capacity, dr_slots = replicate (nat capacity) None,
                 dr_cursor = 0, dr_written = 0, dr_snapshot = [], dr_emits = 0\<rparr>)"

definition ring_size :: "ring \<Rightarrow> nat" where
  "ring_size r = min (dr_written r) (dr_capacity r)"

definition ring_dropped :: "ring \<Rightarrow> nat" where
  "ring_dropped r = dr_written r - dr_capacity r"

definition ring_read :: "ring \<Rightarrow> diagnostic_record list" where
  "ring_read r =
     map the
       (if dr_written r \<le> dr_capacity r then take (dr_written r) (dr_slots r)
        else drop (dr_cursor r) (dr_slots r) @ take (dr_cursor r) (dr_slots r))"

definition ring_emit :: "ring \<Rightarrow> ring" where
  "ring_emit r = r\<lparr>dr_emits := dr_emits r + 1\<rparr>"

text \<open>The write both \<open>push\<close> and \<open>pushAll\<close> perform.\<close>

definition ring_store :: "ring \<Rightarrow> diagnostic_input \<Rightarrow> ring" where
  "ring_store r x =
     r\<lparr>dr_slots := (dr_slots r)[dr_cursor r := Some (stamp x (dr_written r))],
       dr_cursor := (dr_cursor r + 1) mod dr_capacity r,
       dr_written := dr_written r + 1\<rparr>"

definition ring_publish :: "ring \<Rightarrow> ring" where
  "ring_publish r = ring_emit (r\<lparr>dr_snapshot := ring_read r\<rparr>)"

definition ring_push :: "ring \<Rightarrow> diagnostic_input \<Rightarrow> ring \<times> diagnostic_record" where
  "ring_push r x = (ring_publish (ring_store r x), stamp x (dr_written r))"

fun store_all :: "ring \<Rightarrow> diagnostic_input list \<Rightarrow> ring \<times> diagnostic_record list" where
  "store_all r [] = (r, [])"
| "store_all r (x # xs) =
     (let (r', stored) = store_all (ring_store r x) xs
      in (r', stamp x (dr_written r) # stored))"

definition ring_pushAll :: "ring \<Rightarrow> diagnostic_input list \<Rightarrow> ring \<times> diagnostic_record list" where
  "ring_pushAll r xs =
     (if xs = [] then (r, [])
      else let (r', stored) = store_all r xs in (ring_publish r', stored))"

definition ring_clear :: "ring \<Rightarrow> ring" where
  "ring_clear r =
     ring_emit (r\<lparr>dr_slots := replicate (length (dr_slots r)) None, dr_cursor := 0,
                  dr_written := 0, dr_snapshot := []\<rparr>)"

section \<open>What a transition records\<close>

text \<open>
  The comparison of frames, terminal signals and failures is by reference, so the view of a
  state carries a reference with each.
\<close>

record state_view =
  vw_jobId :: "string option"
  vw_phase :: job_phase
  vw_frames :: "(nat \<times> job_frame) list"
  vw_terminal :: "(nat \<times> terminal_signal) option"
  vw_connection :: connection_phase
  vw_failure :: "(nat \<times> api_failure) option"
  vw_failureSource :: "failure_source option"
  vw_failureStatus :: "int option"
  vw_failureMessage :: "string option"

fun phase_text :: "job_phase \<Rightarrow> string" where
  "phase_text Ph_idle = ''idle''"
| "phase_text Ph_submitting = ''submitting''"
| "phase_text Ph_submit_failed = ''submit_failed''"
| "phase_text Ph_attaching = ''attaching''"
| "phase_text Ph_unavailable = ''unavailable''"
| "phase_text Ph_live = ''live''"
| "phase_text Ph_awaiting_review = ''awaiting_review''"
| "phase_text Ph_awaiting_learner = ''awaiting_learner''"
| "phase_text Ph_resolving = ''resolving''"
| "phase_text Ph_reconciling = ''reconciling''"
| "phase_text Ph_settled = ''settled''"

fun connection_text :: "connection_phase \<Rightarrow> string" where
  "connection_text Conn_closed = ''closed''"
| "connection_text Conn_opening = ''opening''"
| "connection_text Conn_open = ''open''"
| "connection_text Conn_reconnecting = ''reconnecting''"

fun terminal_text :: "terminal_name \<Rightarrow> string" where
  "terminal_text T_job_completed = ''job_completed''"
| "terminal_text T_job_failed = ''job_failed''"
| "terminal_text T_job_cancelled = ''job_cancelled''"

fun shape_text :: "terminal_shape \<Rightarrow> string" where
  "shape_text Sh_live = ''live''"
| "shape_text Sh_replay = ''replay''"

fun failure_source_text :: "failure_source \<Rightarrow> string" where
  "failure_source_text FS_submit = ''submit''"
| "failure_source_text FS_attach = ''attach''"
| "failure_source_text FS_reconcile = ''reconcile''"
| "failure_source_text FS_poll = ''poll''"
| "failure_source_text FS_stream = ''stream''"
| "failure_source_text FS_review = ''review''"

fun failure_kind_text :: "api_failure_kind \<Rightarrow> string" where
  "failure_kind_text K_unauthorized = ''unauthorized''"
| "failure_kind_text K_not_found = ''not_found''"
| "failure_kind_text K_conflict = ''conflict''"
| "failure_kind_text K_rate_limited = ''rate_limited''"
| "failure_kind_text K_validation = ''validation''"
| "failure_kind_text K_upstream_unavailable = ''upstream_unavailable''"
| "failure_kind_text K_proxy_misconfigured = ''proxy_misconfigured''"
| "failure_kind_text K_server_error = ''server_error''"
| "failure_kind_text K_offline = ''offline''"
| "failure_kind_text K_timeout = ''timeout''"
| "failure_kind_text K_cancelled = ''cancelled''"
| "failure_kind_text K_unknown = ''unknown''"

definition frame_records :: "nat set \<Rightarrow> state_view \<Rightarrow> diagnostic_input list" where
  "frame_records seen next =
     map (\<lambda>(ref, frame). (record_input DK_frame (jf_name frame) (jf_receivedAt frame) (vw_phase next))
            \<lparr>di_jobId := vw_jobId next, di_detail := jf_data frame\<rparr>)
       (filter (\<lambda>(ref, frame). ref \<notin> seen) (vw_frames next))"

definition recordsFromTransition ::
  "state_view option \<Rightarrow> state_view \<Rightarrow> int \<Rightarrow> diagnostic_input list"
where
  "recordsFromTransition previous next at =
     (let job = vw_jobId next; p = vw_phase next;
          seen = (case previous of None \<Rightarrow> {} | Some v \<Rightarrow> fst ` set (vw_frames v))
      in frame_records seen next
       @ (case vw_terminal next of
            None \<Rightarrow> []
          | Some (ref, t) \<Rightarrow>
              if map_option fst (Option.bind previous vw_terminal) = Some ref then []
              else [(record_input DK_terminal (terminal_text (ts_name t)) (ts_receivedAt t) p)
                      \<lparr>di_jobId := job,
                       di_detail := Some [(''shape'', JStr (shape_text (ts_shape t)))]\<rparr>])
       @ (case previous of
            None \<Rightarrow> []
          | Some v \<Rightarrow>
              (if vw_connection v \<noteq> vw_connection next
               then [(record_input DK_connection (connection_text (vw_connection next)) at p)
                       \<lparr>di_jobId := job, di_from := Some (connection_text (vw_connection v))\<rparr>]
               else [])
            @ (if vw_phase v \<noteq> vw_phase next
               then [(record_input DK_transition (phase_text p) at p)
                       \<lparr>di_jobId := job, di_from := Some (phase_text (vw_phase v))\<rparr>]
               else []))
       @ (case vw_failure next of
            None \<Rightarrow> []
          | Some (ref, fl) \<Rightarrow>
              if map_option fst (Option.bind previous vw_failure) = Some ref then []
              else [(record_input DK_failure
                       (case vw_failureSource next of
                          Some src \<Rightarrow> failure_source_text src
                        | None \<Rightarrow> failure_kind_text (failure_kind fl)) at p)
                      \<lparr>di_jobId := job,
                       di_failureKind := Some (failure_kind_text (failure_kind fl)),
                       di_detail := Some
                         [(''status'', jopt (\<lambda>n. JNum (JInt n)) (vw_failureStatus next)),
                          (''error'', jopt JStr (vw_failureMessage next))]\<rparr>]))"

section \<open>Lemmas\<close>

text \<open>The whole history of a ring: every record ever written, in order.\<close>

definition stamped :: "diagnostic_input list \<Rightarrow> diagnostic_record list" where
  "stamped xs = map (\<lambda>(n, x). stamp x n) (enumerate 0 xs)"

lemma length_stamped [simp]: "length (stamped xs) = length xs"
  by (simp add: stamped_def)

lemma nth_stamped [simp]: "i < length xs \<Longrightarrow> stamped xs ! i = stamp (xs ! i) i"
  by (simp add: stamped_def nth_enumerate_eq)

lemma stamped_snoc: "stamped (xs @ [x]) = stamped xs @ [stamp x (length xs)]"
  by (simp add: stamped_def enumerate_append_eq)

lemma unstamp_stamp [simp]: "unstamp (stamp x n) = x"
  by (simp add: unstamp_def stamp_def diagnostic_input.defs)

lemma seq_stamp [simp]: "di_seq (stamp x n) = n"
  by (simp add: stamp_def diagnostic_input.defs)

lemma map_unstamp_stamped [simp]: "map unstamp (stamped xs) = xs"
  by (rule nth_equalityI) auto

definition ring_holds :: "ring \<Rightarrow> diagnostic_input list \<Rightarrow> bool" where
  "ring_holds r xs \<longleftrightarrow>
     0 < dr_capacity r \<and> length (dr_slots r) = dr_capacity r \<and> dr_written r = length xs
   \<and> dr_cursor r = length xs mod dr_capacity r
   \<and> (\<forall>i < length xs. length xs \<le> i + dr_capacity r \<longrightarrow>
        dr_slots r ! (i mod dr_capacity r) = Some (stamp (xs ! i) i))"

lemma mod_differs: "i < n \<Longrightarrow> n - i < c \<Longrightarrow> i mod c \<noteq> n mod (c :: nat)"
  by (auto simp: mod_eq_dvd_iff_nat [of i n c] eq_commute [of "i mod c"] dest: dvd_imp_le)

lemma mod_rotate:
  "0 < c \<Longrightarrow> k < c \<Longrightarrow>
     (n + k) mod c = (if n mod c + k < c then n mod c + k else n mod c + k - (c :: nat))"
proof -
  assume c: "0 < c" "k < c"
  have "n mod c < c" using c by simp
  then have small: "n mod c + k - c < c" using c by linarith
  have "(n mod c + k) mod c = (if n mod c + k < c then n mod c + k else n mod c + k - c)"
  proof (cases "n mod c + k < c")
    case False
    then have "(n mod c + k) mod c = (n mod c + k - c) mod c" by (simp add: le_mod_geq)
    then show ?thesis using False mod_less [OF small] by simp
  qed simp
  then show ?thesis by (simp add: mod_add_left_eq)
qed

lemma holds_store:
  assumes "ring_holds r xs"
  shows "ring_holds (ring_store r x) (xs @ [x])"
proof -
  let ?c = "dr_capacity r" and ?n = "length xs"
  have c: "0 < ?c" "length (dr_slots r) = ?c" "dr_written r = ?n" "dr_cursor r = ?n mod ?c"
    using assms by (simp_all add: ring_holds_def)
  have slot: "(dr_slots r)[?n mod ?c := Some (stamp x ?n)] ! (i mod ?c)
      = Some (stamp ((xs @ [x]) ! i) i)"
    if i: "i < Suc ?n" "Suc ?n \<le> i + ?c" for i
  proof (cases "i = ?n")
    case True
    then show ?thesis using c by simp
  next
    case False
    then have less: "i < ?n" "?n - i < ?c" using i by auto
    then have "i mod ?c \<noteq> ?n mod ?c" by (rule mod_differs)
    then show ?thesis
      using assms less i by (simp add: ring_holds_def nth_append)
  qed
  show ?thesis
    unfolding ring_holds_def ring_store_def
    using c slot by (simp add: mod_Suc_eq)
qed

lemma read_holds:
  assumes "ring_holds r xs"
  shows "ring_read r = take_last (dr_capacity r) (stamped xs)"
proof (cases "length xs \<le> dr_capacity r")
  case True
  have "ring_read r ! i = stamped xs ! i" if "i < length xs" for i
    using assms that True by (auto simp: ring_holds_def ring_read_def dest!: spec [of _ i])
  then show ?thesis
    using assms True by (intro nth_equalityI) (auto simp: ring_holds_def ring_read_def)
next
  case False
  let ?c = "dr_capacity r" and ?n = "length xs"
  have c: "0 < ?c" "length (dr_slots r) = ?c" "dr_cursor r = ?n mod ?c" "dr_written r = ?n"
    using assms by (simp_all add: ring_holds_def)
  have cur: "?n mod ?c < ?c" using c by simp
  have elem: "(drop (?n mod ?c) (dr_slots r) @ take (?n mod ?c) (dr_slots r)) ! k
      = dr_slots r ! ((?n + k) mod ?c)" if "k < ?c" for k
    using that c cur mod_rotate [of ?c k ?n] by (auto simp: nth_append not_less add.commute)
  have "ring_read r ! k = take_last ?c (stamped xs) ! k" if k: "k < ?c" for k
  proof -
    have i: "?n - ?c + k < ?n" "?n \<le> ?n - ?c + k + ?c" using k False by auto
    have "?n + k = ?n - ?c + k + ?c" using False by simp
    then have "(?n + k) mod ?c = (?n - ?c + k) mod ?c" by (metis mod_add_self2)
    then have "dr_slots r ! ((?n + k) mod ?c) = Some (stamp (xs ! (?n - ?c + k)) (?n - ?c + k))"
      using assms i by (simp add: ring_holds_def)
    then show ?thesis
      using k c i False elem [OF k] less_imp_le [OF cur]
      by (simp add: ring_read_def take_last_def nth_map del: map_append)
  qed
  then show ?thesis
    using c False by (intro nth_equalityI) (simp_all add: ring_read_def cur less_imp_le)
qed

lemma map_take_last: "map f (take_last n xs) = take_last n (map f xs)"
  by (simp add: take_last_def drop_map)

lemma holds_pushes: "ring_holds r xs \<Longrightarrow> ring_holds (foldl ring_store r ys) (xs @ ys)"
proof (induction ys arbitrary: r xs)
  case Nil
  then show ?case by simp
next
  case (Cons y ys)
  from Cons.IH [OF holds_store [OF Cons.prems, of y]] show ?case by simp
qed

lemma holds_publish [simp]: "ring_holds (ring_publish r) xs = ring_holds r xs"
  by (simp add: ring_publish_def ring_emit_def ring_holds_def)

lemma snapshot_publish [simp]: "dr_snapshot (ring_publish r) = ring_read r"
  by (simp add: ring_publish_def ring_emit_def)

lemma capacity_store [simp]: "dr_capacity (ring_store r x) = dr_capacity r"
  by (simp add: ring_store_def)

lemma capacity_publish [simp]: "dr_capacity (ring_publish r) = dr_capacity r"
  by (simp add: ring_publish_def ring_emit_def)

section \<open>The contract\<close>

definition ring_ok :: "ring \<Rightarrow> bool" where
  "ring_ok r \<longleftrightarrow> dr_capacity r = RING_CAPACITY \<and> dr_snapshot r = ring_read r \<and> (\<exists>xs. ring_holds r xs)"

definition ring_contents :: "ring \<Rightarrow> diagnostic_input list" where
  "ring_contents r = map unstamp (dr_snapshot r)"

abbreviation push_only :: "ring \<Rightarrow> diagnostic_input \<Rightarrow> ring" where
  "push_only r x \<equiv> fst (ring_push r x)"

lemma contents_holds:
  "dr_snapshot r = ring_read r \<Longrightarrow> ring_holds r xs
     \<Longrightarrow> ring_contents r = take_last (dr_capacity r) xs"
  by (simp add: ring_contents_def read_holds map_take_last)

lemma ring_ok_push: "ring_ok r \<Longrightarrow> ring_ok (push_only r x)"
proof -
  assume "ring_ok r"
  then obtain xs where "ring_holds r xs" "dr_capacity r = RING_CAPACITY"
    by (auto simp: ring_ok_def)
  then have "ring_holds (push_only r x) (xs @ [x])" "dr_capacity (push_only r x) = RING_CAPACITY"
    "dr_snapshot (push_only r x) = ring_read (push_only r x)"
    by (simp_all add: ring_push_def holds_store)
       (simp add: ring_publish_def ring_emit_def ring_read_def)
  then show ?thesis by (auto simp: ring_ok_def)
qed

lemma ring_contents_push:
  "ring_ok r \<Longrightarrow> ring_contents (push_only r x) = take_last RING_CAPACITY (ring_contents r @ [x])"
proof -
  assume ok: "ring_ok r"
  then obtain xs where xs: "ring_holds r xs" "dr_capacity r = RING_CAPACITY"
      "dr_snapshot r = ring_read r"
    by (auto simp: ring_ok_def)
  then have "ring_holds (push_only r x) (xs @ [x])"
    by (simp add: ring_push_def holds_store)
  then have "ring_contents (push_only r x) = take_last RING_CAPACITY (xs @ [x])"
    using ring_ok_push [OF ok, of x] by (simp add: ring_ok_def contents_holds)
  then show ?thesis
    using xs by (simp add: contents_holds take_last_append_take_last)
qed

interpretation ring_log: bounded_log RING_CAPACITY ring_ok ring_contents push_only
proof unfold_locales
  show "0 < RING_CAPACITY" by (simp add: RING_CAPACITY_def)
next
  fix r x
  assume ok: "ring_ok r"
  then show "ring_ok (push_only r x)" by (rule ring_ok_push)
  show "ring_contents (push_only r x) = take_last RING_CAPACITY (ring_contents r @ [x])"
    using ok by (rule ring_contents_push)
  show "length (ring_contents r) \<le> RING_CAPACITY"
    using ok by (auto simp: ring_ok_def contents_holds)
qed

lemma holds_new: "new_ring c = Some r \<Longrightarrow> ring_holds r [] \<and> dr_snapshot r = ring_read r
    \<and> dr_capacity r = nat c \<and> dr_emits r = 0"
  by (auto simp: new_ring_def ring_holds_def ring_read_def split: if_splits)

lemma emits_pushes: "dr_emits (foldl push_only r xs) = dr_emits r + length xs"
  by (induction xs arbitrary: r)
     (simp_all add: ring_push_def ring_publish_def ring_emit_def ring_store_def)

lemma holds_push_onlys:
  "ring_holds r xs \<Longrightarrow> dr_snapshot r = ring_read r \<Longrightarrow>
     ring_holds (foldl push_only r ys) (xs @ ys)
     \<and> dr_snapshot (foldl push_only r ys) = ring_read (foldl push_only r ys)
     \<and> dr_capacity (foldl push_only r ys) = dr_capacity r"
proof (induction ys arbitrary: r xs)
  case Nil
  then show ?case by simp
next
  case (Cons y ys)
  have "ring_holds (push_only r y) (xs @ [y])"
    using Cons.prems by (simp add: ring_push_def holds_store)
  moreover have "dr_snapshot (push_only r y) = ring_read (push_only r y)"
    by (simp add: ring_push_def ring_publish_def ring_emit_def ring_read_def)
  ultimately show ?case
    using Cons.IH [of "push_only r y" "xs @ [y]"] by (simp add: ring_push_def)
qed

lemma store_all_spec:
  "store_all r xs = (foldl ring_store r xs,
     map (\<lambda>(n, x). stamp x n) (enumerate (dr_written r) xs))"
  by (induction xs arbitrary: r) (simp_all add: ring_store_def)

text \<open>A ring without what a notification changes.\<close>

definition bare :: "ring \<Rightarrow> ring" where
  "bare r = r\<lparr>dr_emits := 0, dr_snapshot := []\<rparr>"

lemma bare_store: "bare (ring_store r x) = ring_store (bare r) x"
  by (simp add: ring_store_def bare_def)

lemma bare_stores: "bare (foldl ring_store r xs) = foldl ring_store (bare r) xs"
  by (induction xs arbitrary: r) (simp_all add: bare_store)

lemma bare_publish [simp]: "bare (ring_publish r) = bare r"
  by (simp add: ring_publish_def ring_emit_def bare_def)

lemma bare_pushes: "bare (foldl push_only r xs) = foldl ring_store (bare r) xs"
proof (induction xs arbitrary: r)
  case Nil
  then show ?case by simp
next
  case (Cons x xs)
  have "bare (push_only r x) = ring_store (bare r) x"
    using bare_stores [of r "[x]"] by (simp add: ring_push_def)
  then show ?case by (simp add: Cons.IH)
qed

lemma read_publish: "ring_read (ring_publish r) = ring_read r"
  by (simp add: ring_publish_def ring_emit_def ring_read_def)

section \<open>Properties\<close>

text \<open>
  C12. The ring is the bounded log it promises to be, for every capacity its constructor accepts:
  after any number of pushes on a new ring the snapshot holds exactly the newest \<open>capacity\<close>
  records in order, each with the number of its write, the counts of kept and dropped records
  are those of the whole history, and every push notified the listeners once. Non-positive
  capacities are refused.
\<close>

theorem ring_keeps_the_newest:
  "case new_ring capacity of
     None \<Rightarrow> capacity \<le> 0
   | Some r \<Rightarrow> 0 < capacity \<and>
       (let t = foldl push_only r xs
        in dr_snapshot t = take_last (nat capacity) (stamped xs)
           \<and> ring_size t = min (length xs) (nat capacity)
           \<and> ring_dropped t = length xs - nat capacity
           \<and> dr_emits t = length xs)"
proof (cases "new_ring capacity")
  case None
  then show ?thesis by (simp add: new_ring_def split: if_splits)
next
  case (Some r)
  note new = holds_new [OF Some]
  then have "ring_holds (foldl push_only r xs) xs"
    "dr_snapshot (foldl push_only r xs) = ring_read (foldl push_only r xs)"
    "dr_capacity (foldl push_only r xs) = nat capacity"
    using holds_push_onlys [of r "[]" xs] by auto
  then show ?thesis
    using Some new emits_pushes [of r xs]
    by (auto simp: Let_def read_holds ring_size_def ring_dropped_def ring_holds_def new_ring_def
        split: if_splits)
qed

text \<open>
  \<open>pushAll\<close> is the pushes of its elements in order with a single notification: slots, cursor,
  count and snapshot are those of pushing one by one, and it returns the records those pushes
  would have returned.
\<close>

lemma pushAll_is_pushes:
  "(fst (ring_pushAll r xs))\<lparr>dr_emits := 0, dr_snapshot := []\<rparr>
     = (foldl push_only r xs)\<lparr>dr_emits := 0, dr_snapshot := []\<rparr>
   \<and> snd (ring_pushAll r xs) = map (\<lambda>(n, x). stamp x n) (enumerate (dr_written r) xs)
   \<and> (if xs = [] then fst (ring_pushAll r xs) = r
      else dr_snapshot (fst (ring_pushAll r xs)) = dr_snapshot (foldl push_only r xs)
           \<and> dr_emits (fst (ring_pushAll r xs)) = dr_emits r + 1)"
proof -
  let ?t = "fst (ring_pushAll r xs)" and ?u = "foldl push_only r xs"
  have t: "?t = (if xs = [] then r else ring_publish (foldl ring_store r xs))"
    by (simp add: ring_pushAll_def store_all_spec)
  have bare: "bare ?t = bare ?u"
    by (simp add: t bare_pushes bare_stores)
  have "dr_snapshot ?t = dr_snapshot ?u \<and> dr_emits ?t = dr_emits r + 1" if "xs \<noteq> []"
  proof -
    have "dr_snapshot ?u = ring_read ?u"
      using that by (cases xs rule: rev_cases) (simp_all add: ring_push_def read_publish)
    moreover have "ring_read ?u = ring_read (bare ?u)" "ring_read ?t = ring_read (bare ?t)"
      by (simp_all add: bare_def ring_read_def)
    moreover have "dr_snapshot ?t = ring_read ?t"
      using that by (simp add: t read_publish)
    moreover have "dr_emits (foldl ring_store q ys) = dr_emits q" for q ys
      by (induction ys arbitrary: q) (simp_all add: ring_store_def)
    ultimately show ?thesis
      using that bare by (simp add: t) (simp add: ring_publish_def ring_emit_def)
  qed
  then show ?thesis
    using bare by (simp add: bare_def t) (simp add: ring_pushAll_def store_all_spec)
qed

text \<open>
  A transition records what is new and only that: a state compared with itself records
  nothing, and when the only change is that fresh frames were appended to the log (and old
  ones fell out of it), exactly the frames still in the log that were not there before are
  recorded, in order, each with its own name, receive time and payload.
\<close>

lemma transition_records_new_frames:
  assumes "fst ` set new \<inter> fst ` set (vw_frames v) = {}"
  shows "recordsFromTransition (Some v) v at = []
    \<and> (let next = v\<lparr>vw_frames := take_last n (vw_frames v @ new)\<rparr>
       in recordsFromTransition (Some v) next at
            = map (\<lambda>(ref, frame). (record_input DK_frame (jf_name frame) (jf_receivedAt frame)
                 (vw_phase v)) \<lparr>di_jobId := vw_jobId v, di_detail := jf_data frame\<rparr>)
                (take_last n new))"
proof -
  have old: "filter (\<lambda>(ref, frame). ref \<notin> fst ` set (vw_frames v)) xs = []"
    if "set xs \<subseteq> set (vw_frames v)" for xs
    using that by (force simp: filter_empty_conv)
  have fresh: "filter (\<lambda>(ref, frame). ref \<notin> fst ` set (vw_frames v)) ys = ys"
    if "set ys \<subseteq> set new" for ys
  proof -
    have "fst y \<notin> fst ` set (vw_frames v)" if "y \<in> set ys" for y
      using assms \<open>set ys \<subseteq> set new\<close> that by (meson disjoint_iff imageI subsetD)
    then show ?thesis by (intro filter_True) (simp add: case_prod_unfold)
  qed
  have split: "take_last n (vw_frames v @ new) =
      drop (length (vw_frames v) + length new - n) (vw_frames v) @ take_last n new"
    by (simp add: take_last_def)
  have "filter (\<lambda>(ref, frame). ref \<notin> fst ` set (vw_frames v))
      (take_last n (vw_frames v @ new)) = take_last n new"
    unfolding split by (simp add: old fresh set_take_last set_drop_subset)
  then show ?thesis
    using old [of "vw_frames v"]
    by (simp add: recordsFromTransition_def frame_records_def Let_def split: option.split)
qed

definition example_view :: state_view where
  "example_view = \<lparr>vw_jobId = Some ''j'', vw_phase = Ph_live,
     vw_frames = [(0, example_frame ''job_started'' [] 1)], vw_terminal = None,
     vw_connection = Conn_open, vw_failure = None, vw_failureSource = None,
     vw_failureStatus = None, vw_failureMessage = None\<rparr>"

lemma transition_records_new_frames_witness:
  "map di_event (recordsFromTransition (Some example_view)
     (example_view\<lparr>vw_frames := take_last 200
        (vw_frames example_view @ [(1, example_frame ''node_completed'' [] 2)])\<rparr>) 3)
   = [''node_completed'']"
  using transition_records_new_frames [of "[(1, example_frame ''node_completed'' [] 2)]"
      example_view 3 200]
  by (simp add: example_view_def Let_def record_input_def example_frame_def)

end
