(* ===== verification/Diag_Redact.thy ===== *)
theory Diag_Redact
  imports Diag_Ring
begin

text \<open>
  \<open>web/lib/diagnostics/redact.ts\<close>: what leaves the browser when the reader copies the
  diagnostics. The regular expressions are written out as matchers; every one of them is
  deterministic, so that a greedy run is the only way to match. The word boundary is the one
  of the language: it looks at letters, digits and the underscore.
\<close>

section \<open>The vocabulary\<close>

definition REDACTED :: string where
  "REDACTED = ''[redacted]''"

definition PATH_ID :: string where
  "PATH_ID = ''{id}''"

definition MAX_VALUE_CHARS :: nat where
  "MAX_VALUE_CHARS = 200"

definition MAX_PROSE_WORDS :: nat where
  "MAX_PROSE_WORDS = 12"

definition TRUNCATED :: string where
  "TRUNCATED = CHR 0x85 # ''[truncated]''"

definition PATH_SEGMENT_VOCABULARY :: "string list" where
  "PATH_SEGMENT_VOCABULARY =
     [''api'', ''research'', ''conversations'', ''stream'', ''review'', ''export'', ''cancel'',
      ''report'', ''healthz'', ''readyz'', ''c'']"

definition REDACTED_KEY_PARTS :: "string list" where
  "REDACTED_KEY_PARTS =
     [''query'', ''question'', ''prompt'', ''sub_question'', ''subquestion'',
      ''report'', ''result'', ''content'', ''markdown'', ''answer'', ''summary'', ''abstract'',
      ''title'', ''text'', ''body'', ''plan'',
      ''header'', ''cookie'', ''referer'', ''referrer'', ''user-agent'', ''useragent'',
      ''authorization'', ''api_key'', ''apikey'', ''secret'', ''password'', ''credential'',
      ''session'', ''email'']"

definition EVIDENCE_KEY_PARTS :: "string list" where
  "EVIDENCE_KEY_PARTS = [''error'', ''reason'', ''message'', ''shape'']"

definition matchesKey :: "string \<Rightarrow> string list \<Rightarrow> bool" where
  "matchesKey key parts = list_ex (\<lambda>part. str_includes (to_lower key) part) parts"

section \<open>Matchers\<close>

definition letter :: "char \<Rightarrow> bool" where
  "letter c \<longleftrightarrow> (let n = of_char c :: nat in 65 \<le> n \<and> n \<le> 90 \<or> 97 \<le> n \<and> n \<le> 122)"

definition word_char :: "char \<Rightarrow> bool" where
  "word_char c \<longleftrightarrow> letter c \<or> digit_char c \<or> c = CHR ''_''"

text \<open>A matcher looks at the rest of the input, told whether the character before it is a word
  character, and answers how long its match is.\<close>

type_synonym matcher = "bool \<Rightarrow> string \<Rightarrow> nat option"

text \<open>\<open>[^\s"'<>)\]]\<close>.\<close>

definition url_char :: "char \<Rightarrow> bool" where
  "url_char c \<longleftrightarrow> \<not> js_space c
     \<and> c \<notin> {CHR 0x22, CHR 0x27, CHR ''<'', CHR ''>'', CHR '')'', CHR '']''}"

definition scheme_char :: "char \<Rightarrow> bool" where
  "scheme_char c \<longleftrightarrow> letter c \<or> digit_char c \<or> c \<in> {CHR ''+'', CHR ''.'', CHR ''-''}"

fun ABSOLUTE_URL :: matcher where
  "ABSOLUTE_URL inside [] = None"
| "ABSOLUTE_URL inside (c # cs) =
     (if inside \<or> \<not> letter c then None
      else let scheme = takeWhile scheme_char cs; rest = dropWhile scheme_char cs;
               tail = takeWhile url_char (drop 3 rest)
           in if starts_with ''://'' rest \<and> tail \<noteq> []
              then Some (1 + length scheme + 3 + length tail) else None)"

definition ABSOLUTE_PATH :: matcher where
  "ABSOLUTE_PATH inside s =
     (if starts_with ''/api/'' s then Some (5 + length (takeWhile url_char (drop 5 s)))
      else if starts_with ''/c/'' s then Some (3 + length (takeWhile url_char (drop 3 s)))
      else None)"

text \<open>\<open>s.replace(pattern, f)\<close> with the global flag, for a pattern without empty matches.\<close>

fun replace_all :: "matcher \<Rightarrow> (string \<Rightarrow> string) \<Rightarrow> bool \<Rightarrow> string \<Rightarrow> string" where
  "replace_all m f inside [] = []"
| "replace_all m f inside (c # cs) =
     (case m inside (c # cs) of
        None \<Rightarrow> c # replace_all m f (word_char c) cs
      | Some k \<Rightarrow>
          f (take (Suc (k - 1)) (c # cs))
            @ replace_all m f (word_char (last (take (Suc (k - 1)) (c # cs)))) (drop (k - 1) cs))"

fun prefix_rest :: "string \<Rightarrow> string \<Rightarrow> string option" where
  "prefix_rest [] s = Some s"
| "prefix_rest (p # ps) [] = None"
| "prefix_rest (p # ps) (c # cs) = (if p = lower_char c then prefix_rest ps cs else None)"

definition assigned :: "string \<Rightarrow> bool" where
  "assigned s \<longleftrightarrow> (case dropWhile js_space s of
      c # _ \<Rightarrow> c = CHR '':'' \<or> c = CHR ''='' | [] \<Rightarrow> False)"

definition ends_word :: "string \<Rightarrow> bool" where
  "ends_word s \<longleftrightarrow> (case s of c # _ \<Rightarrow> \<not> word_char c | [] \<Rightarrow> True)"

definition key_char :: "char \<Rightarrow> bool" where
  "key_char c \<longleftrightarrow> word_char c \<or> c = CHR ''-''"

text \<open>The five alternatives of \<open>CREDENTIAL_VALUE\<close>, each after a word boundary.\<close>

definition credential_here :: "string \<Rightarrow> bool" where
  "credential_here s \<longleftrightarrow>
     (case prefix_rest ''bearer'' s of
        Some (c # r) \<Rightarrow> js_space c \<and> dropWhile js_space r \<noteq> [] | _ \<Rightarrow> False)
   \<or> (case prefix_rest ''authorization'' s of Some r \<Rightarrow> assigned r | None \<Rightarrow> False)
   \<or> (case prefix_rest ''x-api-key'' s of Some r \<Rightarrow> ends_word r | None \<Rightarrow> False)
   \<or> list_ex (\<lambda>name. case prefix_rest name s of Some r \<Rightarrow> assigned r | None \<Rightarrow> False)
       [''api_key'', ''api-key'', ''apikey'']
   \<or> (case prefix_rest ''sk-'' s of
        Some r \<Rightarrow> 8 \<le> length (takeWhile key_char r) | None \<Rightarrow> False)"

fun CREDENTIAL_VALUE :: "bool \<Rightarrow> string \<Rightarrow> bool" where
  "CREDENTIAL_VALUE inside [] = False"
| "CREDENTIAL_VALUE inside (c # cs) \<longleftrightarrow>
     \<not> inside \<and> credential_here (c # cs) \<or> CREDENTIAL_VALUE (word_char c) cs"

section \<open>URLs to path templates\<close>

definition template_segment :: "string \<Rightarrow> string" where
  "template_segment segment =
     (if segment = [] then segment
      else if to_lower segment \<in> set PATH_SEGMENT_VOCABULARY then segment else PATH_ID)"

text \<open>\<open>path.slice(0, cut)\<close>: up to the first question mark or hash.\<close>

definition without_query :: "string \<Rightarrow> string" where
  "without_query path = takeWhile (\<lambda>c. c \<noteq> CHR 0x3F \<and> c \<noteq> CHR 0x23) path"

definition after_origin :: "string \<Rightarrow> string" where
  "after_origin input =
     (case index_of ''://'' input of
        None \<Rightarrow> input
      | Some schemeAt \<Rightarrow>
          let rest = drop (schemeAt + 3) input
          in case index_of ''/'' rest of None \<Rightarrow> ''/'' | Some k \<Rightarrow> drop k rest)"

definition pathTemplate :: "string \<Rightarrow> string" where
  "pathTemplate input =
     (let path = after_origin input
      in if \<not> starts_with ''/'' path then input
         else join ''/'' (map template_segment (split_on CHR ''/'' (without_query path))))"

definition scrubUrls :: "string \<Rightarrow> string" where
  "scrubUrls s =
     replace_all ABSOLUTE_PATH pathTemplate False
       (replace_all ABSOLUTE_URL pathTemplate False s)"

section \<open>Values\<close>

definition truncate_text :: "string \<Rightarrow> string" where
  "truncate_text s =
     (if length s \<le> MAX_VALUE_CHARS then s else take MAX_VALUE_CHARS s @ TRUNCATED)"

definition wordCount :: "string \<Rightarrow> nat" where
  "wordCount s = (let t = trim s in if t = [] then 0 else word_count t)"

definition redactString :: "string \<Rightarrow> bool \<Rightarrow> string" where
  "redactString s evidence =
     (let scrubbed = scrubUrls s
      in if CREDENTIAL_VALUE False scrubbed then REDACTED
         else if evidence then truncate_text scrubbed
         else if wordCount scrubbed > MAX_PROSE_WORDS then REDACTED
         else if length scrubbed > MAX_VALUE_CHARS then REDACTED
         else scrubbed)"

text \<open>The walk below the first level, and the walk of a value of a detail map.\<close>

definition redact_inner :: "string \<Rightarrow> json \<Rightarrow> json" where
  "redact_inner key v =
     (if matchesKey key REDACTED_KEY_PARTS then JStr REDACTED
      else case v of
        JNull \<Rightarrow> JNull
      | JNum n \<Rightarrow> JNum n
      | JBool b \<Rightarrow> JBool b
      | JStr s \<Rightarrow> JStr (redactString s (matchesKey key EVIDENCE_KEY_PARTS))
      | _ \<Rightarrow> JStr REDACTED)"

text \<open>\<open>out[key] = ...\<close> makes a key of the result, except \<open>__proto__\<close>: assigning that sets a prototype.\<close>

definition own_keys :: "jobj \<Rightarrow> jobj" where
  "own_keys m = filter (\<lambda>(k, _). k \<noteq> ''__proto__'') m"

definition redactValue :: "string \<Rightarrow> json \<Rightarrow> json" where
  "redactValue key v =
     (if matchesKey key REDACTED_KEY_PARTS then JStr REDACTED
      else case v of
        JObj m \<Rightarrow> JObj (map (\<lambda>(k, x). (k, redact_inner k x)) (own_keys m))
      | _ \<Rightarrow> redact_inner key v)"

definition redactDetail :: "jobj option \<Rightarrow> jobj option" where
  "redactDetail d = map_option (\<lambda>m. map (\<lambda>(k, x). (k, redactValue k x)) (own_keys m)) d"

definition redactRecord :: "diagnostic_record \<Rightarrow> diagnostic_record" where
  "redactRecord r =
     r\<lparr>di_event := redactString (di_event r) False,
       di_jobId := map_option (\<lambda>i. redactString i False) (di_jobId r),
       di_detail := redactDetail (di_detail r)\<rparr>"

record diagnostics_blob =
  db_capacity :: nat
  db_count :: nat
  db_dropped :: nat
  db_records :: "diagnostic_record list"

definition redactDiagnostics ::
  "diagnostic_record list \<Rightarrow> nat option \<Rightarrow> nat option \<Rightarrow> diagnostics_blob"
where
  "redactDiagnostics records capacity dropped =
     \<lparr>db_capacity = (case capacity of Some k \<Rightarrow> k | None \<Rightarrow> RING_CAPACITY),
      db_count = length records,
      db_dropped = (case dropped of Some k \<Rightarrow> k | None \<Rightarrow> 0),
      db_records = map redactRecord records\<rparr>"

section \<open>Laws of the path template\<close>

lemma template_segment_fixed [simp]: "template_segment (template_segment w) = template_segment w"
  by (simp add: template_segment_def)

lemma template_segment_free:
  "c \<in> {CHR ''/'', CHR 0x3F, CHR 0x23} \<Longrightarrow> c \<notin> set w \<Longrightarrow> c \<notin> set (template_segment w)"
  by (auto simp: template_segment_def PATH_ID_def)

lemma join_free:
  "(\<And>w. w \<in> set ws \<Longrightarrow> c \<notin> set w) \<Longrightarrow> c \<notin> set sep \<Longrightarrow> c \<notin> set (join sep ws)"
  by (induction sep ws rule: join.induct) auto

lemma split_on_set: "w \<in> set (split_on sep s) \<Longrightarrow> set w \<subseteq> set s"
proof (induction s arbitrary: w)
  case Nil
  then show ?case by simp
next
  case (Cons c cs)
  obtain v vs where v: "split_on sep cs = v # vs"
    by (cases "split_on sep cs") auto
  with Cons show ?case by (fastforce split: if_splits)
qed

lemma without_query_free:
  "c \<in> {CHR 0x3F, CHR 0x23} \<Longrightarrow> c \<notin> set (without_query s)"
  by (auto simp: without_query_def dest: set_takeWhileD)

lemma without_query_id:
  "CHR 0x3F \<notin> set s \<Longrightarrow> CHR 0x23 \<notin> set s \<Longrightarrow> without_query s = s"
  by (auto simp: without_query_def takeWhile_eq_all_conv)

lemma index_of_free: "p \<noteq> [] \<Longrightarrow> hd p \<notin> set s \<Longrightarrow> index_of p s = None"
proof (induction s)
  case Nil
  then show ?case by simp
next
  case (Cons c cs)
  then show ?case by (cases p) auto
qed

text \<open>The template segments, and that no colon survives in one.\<close>

definition template_segments :: "string \<Rightarrow> string list" where
  "template_segments input = map template_segment (split_on CHR ''/'' (without_query (after_origin input)))"

lemma vocabulary_letters: "w \<in> set PATH_SEGMENT_VOCABULARY \<Longrightarrow> CHR '':'' \<notin> set w"
  by (auto simp: PATH_SEGMENT_VOCABULARY_def)

lemma to_lower_colon: "CHR '':'' \<in> set w \<Longrightarrow> CHR '':'' \<in> set (to_lower w)"
proof -
  assume "CHR '':'' \<in> set w"
  moreover have "lower_char CHR '':'' = CHR '':''"
    by (simp add: lower_char_def)
  ultimately show ?thesis unfolding to_lower_def by (metis image_eqI list.set_map)
qed

lemma template_no_colon: "CHR '':'' \<notin> set (template_segment w)"
  using to_lower_colon [of w] vocabulary_letters [of "to_lower w"]
  by (auto simp: template_segment_def PATH_ID_def)

lemma template_join_fixed:
  assumes "ws \<noteq> []" and "\<And>w. w \<in> set ws \<Longrightarrow> CHR ''/'' \<notin> set w \<and> CHR 0x3F \<notin> set w \<and> CHR 0x23 \<notin> set w"
    and "starts_with ''/'' (join ''/'' (map template_segment ws))"
  shows "pathTemplate (join ''/'' (map template_segment ws)) = join ''/'' (map template_segment ws)"
proof -
  let ?t = "join ''/'' (map template_segment ws)"
  have "CHR '':'' \<notin> set ?t"
    by (rule join_free) (auto simp: template_no_colon)
  then have "after_origin ?t = ?t"
    by (simp add: after_origin_def index_of_free)
  moreover have "c \<notin> set ?t" if "c \<in> {CHR 0x3F, CHR 0x23}" for c
    by (rule join_free) (use that assms(2) template_segment_free [of c] in auto)
  moreover have "split_on CHR ''/'' ?t = map template_segment ws"
    using assms(1,2) by (intro split_on_join) (auto simp: template_segment_free)
  ultimately show ?thesis
    using assms(3) by (simp add: pathTemplate_def without_query_id comp_def)
qed

lemma after_origin_slash:
  "index_of ''://'' input \<noteq> None \<Longrightarrow> starts_with ''/'' (after_origin input)"
proof -
  have "index_of ''/'' s = Some k \<Longrightarrow> starts_with ''/'' (drop k s)" for s :: string and k
    by (induction s arbitrary: k) (auto split: if_splits)
  then show "index_of ''://'' input \<noteq> None \<Longrightarrow> starts_with ''/'' (after_origin input)"
    by (auto simp: after_origin_def Let_def simp del: drop_drop split: option.splits)
qed

lemma pathTemplate_segments:
  assumes "starts_with ''/'' (after_origin input)"
  shows "pathTemplate input = join ''/'' (template_segments input)"
    and "split_on CHR ''/'' (pathTemplate input) = template_segments input"
    and "starts_with ''/'' (pathTemplate input)"
proof -
  show join: "pathTemplate input = join ''/'' (template_segments input)"
    using assms by (simp add: pathTemplate_def template_segments_def)
  have free: "CHR ''/'' \<notin> set w" if "w \<in> set (template_segments input)" for w
    using that split_on_free by (auto simp: template_segments_def template_segment_free)
  show "split_on CHR ''/'' (pathTemplate input) = template_segments input"
    unfolding join by (rule split_on_join) (auto simp: free, simp add: template_segments_def)
  obtain r where r: "after_origin input = CHR ''/'' # r"
    using assms by (cases "after_origin input") auto
  obtain v vs where "split_on CHR ''/'' (without_query r) = v # vs"
    by (cases "split_on CHR ''/'' (without_query r)") auto
  with r have "template_segments input = [] # map template_segment (v # vs)"
    by (simp add: template_segments_def without_query_def template_segment_def)
  then show "starts_with ''/'' (pathTemplate input)"
    by (simp add: join)
qed

section \<open>Laws of the scrub\<close>

lemma replace_all_none:
  "(\<And>i t. m i t \<noteq> None \<Longrightarrow> CHR ''/'' \<in> set t) \<Longrightarrow> CHR ''/'' \<notin> set s
     \<Longrightarrow> replace_all m f inside s = s"
proof (induction s arbitrary: inside)
  case Nil
  then show ?case by simp
next
  case (Cons c cs)
  have "m inside (c # cs) = None"
    using Cons.prems by blast
  then show ?case using Cons by simp
qed

lemma url_has_slash: "ABSOLUTE_URL i t \<noteq> None \<Longrightarrow> CHR ''/'' \<in> set t"
proof -
  assume "ABSOLUTE_URL i t \<noteq> None"
  then obtain c cs where t: "t = c # cs" and "starts_with ''://'' (dropWhile scheme_char cs)"
    by (cases t) (auto simp: Let_def split: if_splits)
  then obtain u where "dropWhile scheme_char cs = ''://'' @ u"
    unfolding starts_with_iff by blast
  then have "CHR ''/'' \<in> set (dropWhile scheme_char cs)" by simp
  then show ?thesis unfolding t using set_dropWhileD by fastforce
qed

lemma path_has_slash: "ABSOLUTE_PATH i t \<noteq> None \<Longrightarrow> CHR ''/'' \<in> set t"
  by (cases t) (auto simp: ABSOLUTE_PATH_def split: if_splits)

lemma scrub_without_slash: "CHR ''/'' \<notin> set s \<Longrightarrow> scrubUrls s = s"
proof -
  assume s: "CHR ''/'' \<notin> set s"
  have "replace_all ABSOLUTE_URL pathTemplate False s = s"
    by (rule replace_all_none [OF url_has_slash s])
  moreover have "replace_all ABSOLUTE_PATH pathTemplate False s = s"
    by (rule replace_all_none [OF path_has_slash s])
  ultimately show ?thesis by (simp add: scrubUrls_def)
qed

section \<open>Laws of values\<close>

text \<open>What a string of the blob may be, under an evidence key and under any other.\<close>

definition safe_text :: "bool \<Rightarrow> string \<Rightarrow> bool" where
  "safe_text evidence s \<longleftrightarrow>
     s = REDACTED
     \<or> (if evidence then length s \<le> MAX_VALUE_CHARS + length TRUNCATED
        else length s \<le> MAX_VALUE_CHARS \<and> wordCount s \<le> MAX_PROSE_WORDS
             \<and> \<not> CREDENTIAL_VALUE False s)"

fun safe_leaf :: "string \<Rightarrow> json \<Rightarrow> bool" where
  "safe_leaf k (JStr s) =
     (if matchesKey k REDACTED_KEY_PARTS then s = REDACTED
      else safe_text (matchesKey k EVIDENCE_KEY_PARTS) s)"
| "safe_leaf k (JArr _) = False"
| "safe_leaf k (JObj _) = False"
| "safe_leaf k _ = (\<not> matchesKey k REDACTED_KEY_PARTS)"

fun safe_value :: "string \<Rightarrow> json \<Rightarrow> bool" where
  "safe_value k (JObj m) =
     (\<not> matchesKey k REDACTED_KEY_PARTS \<and> list_all (\<lambda>(k, x). safe_leaf k x) m)"
| "safe_value k v = safe_leaf k v"

lemma safe_redactString: "safe_text evidence (redactString s evidence)"
  by (simp add: safe_text_def redactString_def truncate_text_def Let_def)

lemma safe_REDACTED [simp]: "safe_text evidence REDACTED"
  by (simp add: safe_text_def)

lemma safe_redact_inner: "safe_leaf k (redact_inner k v)"
  by (cases v) (simp_all add: redact_inner_def safe_redactString)

lemma safe_redactValue: "safe_value k (redactValue k v)"
proof (cases v)
  case (JObj m)
  then show ?thesis
    by (simp add: redactValue_def list_all_iff safe_redact_inner case_prod_unfold)
qed (use safe_redact_inner [of k v] in \<open>auto simp: redactValue_def redact_inner_def\<close>)

lemma word_char_plain:
  "word_char x \<Longrightarrow> \<not> js_space x \<and> x \<noteq> CHR '':'' \<and> x \<noteq> CHR ''='' \<and> lower_char x \<noteq> CHR ''-''"
proof -
  assume x: "word_char x"
  then have "of_char (lower_char x) \<noteq> (45 :: nat)"
    by (auto simp: word_char_def letter_def digit_char_def lower_char_def Let_def)
  then have "lower_char x \<noteq> CHR ''-''" by auto
  then show ?thesis
    using x by (auto simp: word_char_def letter_def digit_char_def js_space_def Let_def)
qed

lemma prefix_rest_word:
  "prefix_rest p s = Some r \<Longrightarrow> list_all word_char s \<Longrightarrow> list_all word_char r \<and> CHR ''-'' \<notin> set p"
  by (induction p s rule: prefix_rest.induct) (auto split: if_splits dest: word_char_plain)

lemma not_assigned_word: "list_all word_char r \<Longrightarrow> \<not> assigned r"
proof (cases r)
  case (Cons c cs)
  then show "list_all word_char r \<Longrightarrow> \<not> assigned r"
    using word_char_plain [of c] by (simp add: assigned_def)
qed (simp add: assigned_def)

lemma no_credential_here: "list_all word_char s \<Longrightarrow> \<not> credential_here s"
proof -
  assume s: "list_all word_char s"
  have "prefix_rest p s = None" if "CHR ''-'' \<in> set p" for p
    using that s prefix_rest_word [of p s] by (cases "prefix_rest p s") auto
  moreover have "\<not> assigned r" if "prefix_rest p s = Some r" for p r
    using prefix_rest_word [OF that s] not_assigned_word by blast
  moreover have "\<not> js_space x" if "prefix_rest p s = Some (x # r)" for p x r
    using prefix_rest_word [OF that s] word_char_plain by simp
  ultimately show ?thesis
    by (auto simp: credential_here_def split: option.split list.split)
qed

lemma no_credential_in_word: "list_all word_char s \<Longrightarrow> \<not> CREDENTIAL_VALUE inside s"
  by (induction s arbitrary: inside) (simp_all add: no_credential_here)

lemma credential_in_word:
  "list_all word_char w \<Longrightarrow> CREDENTIAL_VALUE True (w @ s) = CREDENTIAL_VALUE True s"
  by (induction w) simp_all

section \<open>Properties\<close>

text \<open>
  A path template says nothing but the product's own words: of any input that carries a
  scheme or starts with a slash, every segment of the template is empty, one of the vocabulary
  or the placeholder, so no origin, query, fragment or id is in it; any other input is returned
  as it is; and templating twice changes nothing.
\<close>

lemma path_template_vocabulary:
  "(if str_includes s ''://'' \<or> starts_with ''/'' s
    then list_all (\<lambda>w. w = [] \<or> w = PATH_ID \<or> to_lower w \<in> set PATH_SEGMENT_VOCABULARY)
           (split_on CHR ''/'' (pathTemplate s))
    else pathTemplate s = s)
   \<and> pathTemplate (pathTemplate s) = pathTemplate s"
proof -
  have slash: "starts_with ''/'' (after_origin s)
      \<longleftrightarrow> str_includes s ''://'' \<or> starts_with ''/'' s"
    using after_origin_slash [of s]
    by (cases "index_of ''://'' s") (auto simp: after_origin_def str_includes_def)
  show ?thesis
  proof (cases "starts_with ''/'' (after_origin s)")
    case True
    have "list_all (\<lambda>w. w = [] \<or> w = PATH_ID \<or> to_lower w \<in> set PATH_SEGMENT_VOCABULARY)
        (template_segments s)"
      by (auto simp: template_segments_def list_all_iff template_segment_def)
    moreover have "pathTemplate (pathTemplate s) = pathTemplate s"
      unfolding pathTemplate_segments(1) [OF True] template_segments_def
    proof (rule template_join_fixed)
      fix w assume w: "w \<in> set (split_on CHR ''/'' (without_query (after_origin s)))"
      show "CHR ''/'' \<notin> set w \<and> CHR 0x3F \<notin> set w \<and> CHR 0x23 \<notin> set w"
        using split_on_free [OF w] split_on_set [OF w] without_query_free by blast
    qed (use pathTemplate_segments(1,3) [OF True] in \<open>simp_all add: template_segments_def\<close>)
    ultimately show ?thesis
      using True slash pathTemplate_segments(2) [OF True] by simp
  next
    case False
    then show ?thesis using slash by (auto simp: pathTemplate_def)
  qed
qed

text \<open>
  C18. What leaves the browser has a bounded shape: a redacted detail has the same keys in the same
  order (a key \<open>__proto__\<close> is dropped); a value under a denied key is the placeholder, whatever it was;
  every other value is
  a number, a boolean, \<open>null\<close>, a string that is short and without a credential shape (under an
  evidence key: at most the two hundred characters and the truncation mark), or one level of
  such values; and the event name of a record obeys the string rule.
\<close>

theorem redaction_shape:
  "(case redactDetail d of
      None \<Rightarrow> d = None
    | Some out \<Rightarrow>
        list_all2 (\<lambda>(k, v) (k', v'). k' = k \<and> safe_value k v')
          (case d of Some m \<Rightarrow> own_keys m | None \<Rightarrow> []) out)
   \<and> safe_text False (di_event (redactRecord r))
   \<and> length (db_records (redactDiagnostics rs c n)) = db_count (redactDiagnostics rs c n)"
proof -
  have "list_all2 (\<lambda>(k, v) (k', v'). k' = k \<and> safe_value k v') m
      (map (\<lambda>(k, x). (k, redactValue k x)) m)" for m
    by (induction m) (auto simp: safe_redactValue)
  then show ?thesis
    by (cases d) (simp_all add: redactDetail_def redactRecord_def safe_redactString
        redactDiagnostics_def)
qed

text \<open>
  The scrub misses what a word character precedes and what a quote cuts: a URL right after an
  underscore is copied with its host, user and query; the part of a URL after an apostrophe keeps
  its query; and an alphanumeric secret assigned to a variable whose name ends in \<open>_API_KEY\<close>
  is copied whole under an evidence key, because the underscore leaves no word boundary.
\<close>

lemma redaction_misses:
  assumes "list_all (\<lambda>c. letter c \<or> digit_char c) secret" and "length secret \<le> 186"
  shows "redactString (''ARXIV_API_KEY='' @ secret) True = ''ARXIV_API_KEY='' @ secret"
    and "redactString ''cache_https://user:pw@internal.host/x?key=abc'' False
      = ''cache_https://user:pw@internal.host/x?key=abc''"
    and "redactString (''https://internal.host/it'' @ [CHR 0x27] @ ''s?key=abc'') False
      = ''/{id}'' @ [CHR 0x27] @ ''s?key=abc''"
proof -
  have word: "list_all word_char secret"
    using assms(1) by (auto simp: list_all_iff word_char_def)
  have "CHR ''/'' \<notin> set secret"
    using assms(1) by (auto simp: list_all_iff letter_def digit_char_def Let_def)
  then have scrub: "scrubUrls (''ARXIV_API_KEY='' @ secret) = ''ARXIV_API_KEY='' @ secret"
    by (intro scrub_without_slash) simp
  have low: "lower_char CHR ''A'' = CHR ''a''" "lower_char CHR ''R'' = CHR ''r''"
    by code_simp+
  have "\<not> credential_here (''ARXIV_API_KEY='' @ secret)"
    by (simp add: credential_here_def low)
  moreover have "\<not> CREDENTIAL_VALUE True (''RXIV_API_KEY'' @ CHR ''='' # secret)"
    using no_credential_in_word [OF word]
    by (subst credential_in_word) (simp_all add: word_char_def letter_def)
  ultimately have "\<not> CREDENTIAL_VALUE False (''ARXIV_API_KEY='' @ secret)"
    by (simp add: word_char_def letter_def)
  then show "redactString (''ARXIV_API_KEY='' @ secret) True = ''ARXIV_API_KEY='' @ secret"
    using assms(2) unfolding redactString_def Let_def scrub truncate_text_def MAX_VALUE_CHARS_def
    by (simp del: CREDENTIAL_VALUE.simps)
  show "redactString ''cache_https://user:pw@internal.host/x?key=abc'' False
      = ''cache_https://user:pw@internal.host/x?key=abc''"
    by code_simp
  show "redactString (''https://internal.host/it'' @ [CHR 0x27] @ ''s?key=abc'') False
      = ''/{id}'' @ [CHR 0x27] @ ''s?key=abc''"
    by code_simp
qed

lemma redaction_misses_witness:
  "redactString (''ARXIV_API_KEY='' @ ''s3cr3t'') True = ''ARXIV_API_KEY='' @ ''s3cr3t''"
  by (rule redaction_misses(1)) (simp_all add: letter_def digit_char_def)

end
