(* ===== verification/Server_Pilot.thy ===== *)
theory Server_Pilot
  imports Interfaces
begin

text \<open>
  The credential seam of the proxy: \<open>web/lib/server/pilot.ts\<close> (the edge mapping),
  \<open>web/lib/server/principal.ts\<close> (whose key a request is proxied under) and
  \<open>web/lib/server/identity.ts\<close> with \<open>web/lib/identity.ts\<close> (whom the shell says the workspace
  belongs to). \<open>JSON.parse\<close> and the SHA-256 digest are parameters; request headers are a function
  from lower-case names; standard output is the list of the lines written to it.
\<close>

section \<open>Constants\<close>

definition PILOT_MODE_ON :: string where
  "PILOT_MODE_ON = ''on''"

definition PILOT_MODE_OFF :: string where
  "PILOT_MODE_OFF = ''off''"

definition PILOT_USER_HEADER :: string where
  "PILOT_USER_HEADER = ''x-pilot-user''"

definition PILOT_EDGE_KEY_HEADER :: string where
  "PILOT_EDGE_KEY_HEADER = ''x-pilot-edge-key''"

definition PILOT_EDGE_SECRET_MIN_LENGTH :: nat where
  "PILOT_EDGE_SECRET_MIN_LENGTH = 32"

definition PILOT_MAX_PRINCIPALS :: nat where
  "PILOT_MAX_PRINCIPALS = 5"

definition lower_alnum :: "char \<Rightarrow> bool" where
  "lower_alnum c \<longleftrightarrow> digit_char c \<or> (let n = of_char c :: nat in 97 \<le> n \<and> n \<le> 122)"

text \<open>\<open>/^[a-z0-9](?:[a-z0-9._-]{0,62}[a-z0-9])?$/\<close>: one character, or two ends around at most
  sixty-two.\<close>

definition PILOT_USERNAME_PATTERN :: "string \<Rightarrow> bool" where
  "PILOT_USERNAME_PATTERN s \<longleftrightarrow>
     s \<noteq> [] \<and> lower_alnum (hd s) \<and> lower_alnum (last s) \<and> length s \<le> 64
     \<and> list_all (\<lambda>c. lower_alnum c \<or> c \<in> {CHR ''.'', CHR ''_'', CHR ''-''}) s"

section \<open>Faults and configuration\<close>

datatype pilot_fault =
    mode_value_invalid | shared_key_also_set | edge_secret_missing | edge_secret_too_short
  | map_missing | map_unparseable | map_not_an_object | map_empty | map_too_large
  | map_username_invalid | map_entry_invalid | map_duplicate_api_key | map_duplicate_key_id
  | untrusted_topology | username_missing | username_invalid | unknown_username

fun fault_text :: "pilot_fault \<Rightarrow> string" where
  "fault_text mode_value_invalid = ''mode_value_invalid''"
| "fault_text shared_key_also_set = ''shared_key_also_set''"
| "fault_text edge_secret_missing = ''edge_secret_missing''"
| "fault_text edge_secret_too_short = ''edge_secret_too_short''"
| "fault_text map_missing = ''map_missing''"
| "fault_text map_unparseable = ''map_unparseable''"
| "fault_text map_not_an_object = ''map_not_an_object''"
| "fault_text map_empty = ''map_empty''"
| "fault_text map_too_large = ''map_too_large''"
| "fault_text map_username_invalid = ''map_username_invalid''"
| "fault_text map_entry_invalid = ''map_entry_invalid''"
| "fault_text map_duplicate_api_key = ''map_duplicate_api_key''"
| "fault_text map_duplicate_key_id = ''map_duplicate_key_id''"
| "fault_text untrusted_topology = ''untrusted_topology''"
| "fault_text username_missing = ''username_missing''"
| "fault_text username_invalid = ''username_invalid''"
| "fault_text unknown_username = ''unknown_username''"

record pilot_entry =
  pe_keyId :: string
  pe_apiKey :: string

datatype pilot_config =
    Pilot_off
  | Pilot_misconfigured pilot_fault
  | Pilot_on string "string \<rightharpoonup> pilot_entry"

record pilot_env =
  en_mode :: "string option"
  en_map :: "string option"
  en_edgeSecret :: "string option"

text \<open>\<open>x ?? ""\<close>.\<close>

definition or_blank :: "string option \<Rightarrow> string" where
  "or_blank x = (case x of Some s \<Rightarrow> s | None \<Rightarrow> [])"

text \<open>One entry of the map, trimmed; \<open>None\<close> for a shape the parser refuses.\<close>

definition read_entry :: "json \<Rightarrow> pilot_entry option" where
  "read_entry v =
     (case as_record v of
        None \<Rightarrow> None
      | Some m \<Rightarrow>
          (case (Option.bind (jprop m ''key_id'') as_string, Option.bind (jprop m ''api_key'') as_string) of
             (Some keyId, Some apiKey) \<Rightarrow>
               if trim keyId = [] \<or> trim apiKey = [] then None
               else Some \<lparr>pe_keyId = trim keyId, pe_apiKey = trim apiKey\<rparr>
           | _ \<Rightarrow> None))"

fun read_entries ::
  "jobj \<Rightarrow> (string \<rightharpoonup> pilot_entry) \<Rightarrow> string set \<Rightarrow> string set
     \<Rightarrow> pilot_fault + (string \<rightharpoonup> pilot_entry)"
where
  "read_entries [] principals seenApiKeys seenKeyIds = Inr principals"
| "read_entries ((username, v) # entries) principals seenApiKeys seenKeyIds =
     (if \<not> PILOT_USERNAME_PATTERN username then Inl map_username_invalid
      else case read_entry v of
        None \<Rightarrow> Inl map_entry_invalid
      | Some e \<Rightarrow>
          if pe_apiKey e \<in> seenApiKeys then Inl map_duplicate_api_key
          else if pe_keyId e \<in> seenKeyIds then Inl map_duplicate_key_id
          else read_entries entries (principals(username \<mapsto> e))
                 (insert (pe_apiKey e) seenApiKeys) (insert (pe_keyId e) seenKeyIds))"

definition read_map :: "(string \<Rightarrow> json option) \<Rightarrow> string \<Rightarrow> pilot_fault + (string \<rightharpoonup> pilot_entry)" where
  "read_map parse rawMap =
     (if rawMap = [] then Inl map_missing
      else case parse rawMap of
        None \<Rightarrow> Inl map_unparseable
      | Some parsed \<Rightarrow>
          (case as_record parsed of
             None \<Rightarrow> Inl map_not_an_object
           | Some entries \<Rightarrow>
               if length entries = 0 then Inl map_empty
               else if length entries > PILOT_MAX_PRINCIPALS then Inl map_too_large
               else read_entries entries Map.empty {} {}))"

definition readPilotConfig ::
  "(string \<Rightarrow> json option) \<Rightarrow> pilot_env \<Rightarrow> string option \<Rightarrow> pilot_config"
where
  "readPilotConfig parse env sharedApiKey =
     (let mode = trim (or_blank (en_mode env)); edgeSecret = trim (or_blank (en_edgeSecret env))
      in if mode = [] \<or> mode = PILOT_MODE_OFF then Pilot_off
         else if mode \<noteq> PILOT_MODE_ON then Pilot_misconfigured mode_value_invalid
         else if or_blank sharedApiKey \<noteq> [] then Pilot_misconfigured shared_key_also_set
         else if edgeSecret = [] then Pilot_misconfigured edge_secret_missing
         else if length edgeSecret < PILOT_EDGE_SECRET_MIN_LENGTH
         then Pilot_misconfigured edge_secret_too_short
         else case read_map parse (trim (or_blank (en_map env))) of
             Inl f \<Rightarrow> Pilot_misconfigured f
           | Inr principals \<Rightarrow> Pilot_on edgeSecret principals)"

section \<open>The resolver\<close>

type_synonym headers = "string \<Rightarrow> string option"

datatype pilot_resolution =
    Res_ok string pilot_entry
  | Res_fault pilot_fault "string option"

definition secretsMatch :: "(string \<Rightarrow> 'd) \<Rightarrow> string \<Rightarrow> string \<Rightarrow> bool" where
  "secretsMatch digest presented expected \<longleftrightarrow> digest presented = digest expected"

definition edge_vouches :: "(string \<Rightarrow> 'd) \<Rightarrow> string \<Rightarrow> headers \<Rightarrow> bool" where
  "edge_vouches digest edgeSecret h \<longleftrightarrow>
     (case h PILOT_EDGE_KEY_HEADER of
        None \<Rightarrow> False
      | Some presented \<Rightarrow> secretsMatch digest presented edgeSecret)"

fun resolvePilotPrincipal ::
  "(string \<Rightarrow> 'd) \<Rightarrow> pilot_config \<Rightarrow> headers \<Rightarrow> pilot_resolution"
where
  "resolvePilotPrincipal digest (Pilot_misconfigured f) h = Res_fault f None"
| "resolvePilotPrincipal digest Pilot_off h = Res_fault untrusted_topology None"
| "resolvePilotPrincipal digest (Pilot_on edgeSecret principals) h =
     (if \<not> edge_vouches digest edgeSecret h then Res_fault untrusted_topology None
      else case h PILOT_USER_HEADER of
        None \<Rightarrow> Res_fault username_missing None
      | Some rawUsername \<Rightarrow>
          if trim rawUsername = [] then Res_fault username_missing None
          else let username = to_lower (trim rawUsername)
               in if \<not> PILOT_USERNAME_PATTERN username then Res_fault username_invalid None
                  else case principals username of
                    None \<Rightarrow> Res_fault unknown_username (Some username)
                  | Some p \<Rightarrow> Res_ok username p)"

record pilot_log_record =
  pl_outcome :: string
  pl_username :: "string option"
  pl_keyId :: "string option"

definition formatPilotLogLine :: "pilot_log_record \<Rightarrow> string" where
  "formatPilotLogLine r =
     stringify (JObj
       ([(''event'', JStr ''pilot_principal''), (''outcome'', JStr (pl_outcome r))]
        @ (case pl_username r of Some u \<Rightarrow> [(''user'', JStr u)] | None \<Rightarrow> [])
        @ (case pl_keyId r of Some k \<Rightarrow> [(''key_id'', JStr k)] | None \<Rightarrow> [])))"

definition log_record :: "pilot_resolution \<Rightarrow> pilot_log_record" where
  "log_record r =
     (case r of
        Res_ok u p \<Rightarrow>
          \<lparr>pl_outcome = ''resolved'', pl_username = Some u, pl_keyId = Some (pe_keyId p)\<rparr>
      | Res_fault f u \<Rightarrow> \<lparr>pl_outcome = fault_text f, pl_username = u, pl_keyId = None\<rparr>)"

section \<open>The principal of a request\<close>

definition SHARED_PRINCIPAL_KEY_ID :: string where
  "SHARED_PRINCIPAL_KEY_ID = ''shared''"

text \<open>A resolution either yields a principal or none, or throws \<open>PrincipalUnresolvedError\<close>.\<close>

datatype principal_result = Principal "pilot_entry option" | Unresolved pilot_fault

record server_env =
  sv_pilot :: pilot_env
  sv_apiKey :: "string option"

record principal_state =
  ps_cache :: "((string \<times> string \<times> string \<times> string) \<times> pilot_config) option"
  ps_stdout :: "string list"

definition initial_principal_state :: principal_state where
  "initial_principal_state = \<lparr>ps_cache = None, ps_stdout = []\<rparr>"

definition cache_inputs :: "server_env \<Rightarrow> string \<times> string \<times> string \<times> string" where
  "cache_inputs env =
     (or_blank (en_mode (sv_pilot env)), or_blank (en_map (sv_pilot env)),
      or_blank (en_edgeSecret (sv_pilot env)), or_blank (sv_apiKey env))"

definition pilotConfig ::
  "(string \<Rightarrow> json option) \<Rightarrow> server_env \<Rightarrow> principal_state \<Rightarrow> principal_state \<times> pilot_config"
where
  "pilotConfig parse env s =
     (let inputs = cache_inputs env; (m, p, e, k) = inputs;
          fresh = readPilotConfig parse
            \<lparr>en_mode = Some m, en_map = Some p, en_edgeSecret = Some e\<rparr> (sv_apiKey env)
      in case ps_cache s of
           Some (old, config) \<Rightarrow>
             if old = inputs then (s, config)
             else (s\<lparr>ps_cache := Some (inputs, fresh)\<rparr>, fresh)
         | None \<Rightarrow> (s\<lparr>ps_cache := Some (inputs, fresh)\<rparr>, fresh))"

definition resolveUpstreamPrincipal ::
  "(string \<Rightarrow> 'd) \<Rightarrow> (string \<Rightarrow> json option) \<Rightarrow> server_env \<Rightarrow> headers \<Rightarrow> principal_state
     \<Rightarrow> principal_state \<times> principal_result"
where
  "resolveUpstreamPrincipal digest parse env h s =
     (let (s1, pilot) = pilotConfig parse env s
      in case pilot of
           Pilot_off \<Rightarrow>
             (s1, Principal
                (if or_blank (sv_apiKey env) = [] then None
                 else Some \<lparr>pe_keyId = SHARED_PRINCIPAL_KEY_ID,
                            pe_apiKey = or_blank (sv_apiKey env)\<rparr>))
         | _ \<Rightarrow>
             (let r = resolvePilotPrincipal digest pilot h;
                  s2 = s1\<lparr>ps_stdout := ps_stdout s1 @ [formatPilotLogLine (log_record r)]\<rparr>
              in (s2, case r of
                   Res_fault f _ \<Rightarrow> Unresolved f
                 | Res_ok u p \<Rightarrow> Principal (Some p))))"

section \<open>Whose workspace the shell shows\<close>

datatype workspace_identity = Id_shared | Id_pilot string | Id_unresolved

definition deriveWorkspaceIdentity ::
  "(string \<Rightarrow> 'd) \<Rightarrow> (string \<Rightarrow> json option) \<Rightarrow> pilot_env \<Rightarrow> headers option \<Rightarrow> workspace_identity"
where
  "deriveWorkspaceIdentity digest parse env h =
     (let config = readPilotConfig parse env None
      in case config of
           Pilot_off \<Rightarrow> Id_shared
         | Pilot_misconfigured _ \<Rightarrow> Id_unresolved
         | Pilot_on _ _ \<Rightarrow>
             (case h of
                None \<Rightarrow> Id_unresolved
              | Some hs \<Rightarrow>
                  (case resolvePilotPrincipal digest config hs of
                     Res_ok u p \<Rightarrow> Id_pilot u
                   | Res_fault _ _ \<Rightarrow> Id_unresolved)))"

section \<open>Laws of the configuration\<close>

text \<open>A map under construction: what was entered is well-formed, recorded and injective.\<close>

definition map_ok :: "(string \<rightharpoonup> pilot_entry) \<Rightarrow> string set \<Rightarrow> string set \<Rightarrow> bool" where
  "map_ok m A K \<longleftrightarrow>
     finite (dom m)
   \<and> (\<forall>u p. m u = Some p \<longrightarrow> PILOT_USERNAME_PATTERN u \<and> pe_apiKey p \<noteq> [] \<and> pe_keyId p \<noteq> []
        \<and> pe_apiKey p \<in> A \<and> pe_keyId p \<in> K)
   \<and> (\<forall>u v p q. m u = Some p \<longrightarrow> m v = Some q \<longrightarrow>
        pe_apiKey p = pe_apiKey q \<or> pe_keyId p = pe_keyId q \<longrightarrow> u = v)"

lemma map_ok_enter:
  "map_ok m A K \<Longrightarrow> PILOT_USERNAME_PATTERN u \<Longrightarrow> pe_apiKey e \<noteq> [] \<Longrightarrow> pe_keyId e \<noteq> []
     \<Longrightarrow> pe_apiKey e \<notin> A \<Longrightarrow> pe_keyId e \<notin> K
     \<Longrightarrow> map_ok (m(u \<mapsto> e)) (insert (pe_apiKey e) A) (insert (pe_keyId e) K)"
  unfolding map_ok_def by (auto split: if_splits) metis+

lemma read_entry_filled:
  "read_entry v = Some e \<Longrightarrow> pe_apiKey e \<noteq> [] \<and> pe_keyId e \<noteq> []"
  by (auto simp: read_entry_def split: option.splits if_splits)

lemma read_entries_ok:
  "read_entries es m A K = Inr m' \<Longrightarrow> map_ok m A K \<Longrightarrow>
     (\<exists>A' K'. map_ok m' A' K') \<and> dom m' = dom m \<union> fst ` set es"
proof (induction es arbitrary: m A K)
  case Nil
  then show ?case by auto
next
  case (Cons x es)
  obtain u v where x: "x = (u, v)" by (cases x)
  with Cons.prems obtain e where e: "PILOT_USERNAME_PATTERN u" "read_entry v = Some e"
      "pe_apiKey e \<notin> A" "pe_keyId e \<notin> K"
      "read_entries es (m(u \<mapsto> e)) (insert (pe_apiKey e) A) (insert (pe_keyId e) K) = Inr m'"
    by (auto split: if_splits option.splits)
  have "map_ok (m(u \<mapsto> e)) (insert (pe_apiKey e) A) (insert (pe_keyId e) K)"
    using e read_entry_filled [OF e(2)] Cons.prems by (intro map_ok_enter) auto
  from Cons.IH [OF e(5) this] x show ?case by auto
qed

lemma read_map_ok:
  assumes "read_map parse raw = Inr m"
  shows "(\<exists>A K. map_ok m A K) \<and> 1 \<le> card (dom m) \<and> card (dom m) \<le> PILOT_MAX_PRINCIPALS"
proof -
  obtain entries where es: "0 < length entries" "length entries \<le> PILOT_MAX_PRINCIPALS"
      "read_entries entries Map.empty {} {} = Inr m"
    using assms by (auto simp: read_map_def split: if_splits option.splits)
  have ok: "(\<exists>A K. map_ok m A K) \<and> dom m = fst ` set entries"
    using read_entries_ok [OF es(3)] by (simp add: map_ok_def)
  have "card (fst ` set entries) \<le> length entries"
    using card_image_le [of "set entries" fst] card_length [of entries] by simp
  moreover have "fst ` set entries \<noteq> {}" using es(1) by auto
  ultimately show ?thesis using ok es(2) by (auto simp: Suc_le_eq card_gt_0_iff)
qed

lemma or_blank_Some [simp]: "or_blank (Some s) = s"
  by (simp add: or_blank_def)

lemma config_depends_on_blanks:
  "readPilotConfig parse \<lparr>en_mode = Some (or_blank m), en_map = Some (or_blank p),
     en_edgeSecret = Some (or_blank e)\<rparr> (Some (or_blank k))
   = readPilotConfig parse \<lparr>en_mode = m, en_map = p, en_edgeSecret = e\<rparr> k"
  by (simp add: readPilotConfig_def Let_def)

lemma config_shared_blank:
  "or_blank k = or_blank k' \<Longrightarrow> readPilotConfig parse env k = readPilotConfig parse env k'"
  by (simp add: readPilotConfig_def Let_def)

lemma config_off:
  "readPilotConfig parse env k = Pilot_off
     \<longleftrightarrow> trim (or_blank (en_mode env)) \<in> {[], PILOT_MODE_OFF}"
  by (auto simp: readPilotConfig_def Let_def split: sum.split)

lemma config_on:
  "readPilotConfig parse env k = Pilot_on secret m \<Longrightarrow>
     or_blank k = [] \<and> PILOT_EDGE_SECRET_MIN_LENGTH \<le> length secret
     \<and> read_map parse (trim (or_blank (en_map env))) = Inr m
     \<and> readPilotConfig parse env None = Pilot_on secret m"
  by (auto simp: readPilotConfig_def or_blank_def Let_def split: if_splits sum.splits)

section \<open>Laws of the cache\<close>

definition cache_ok :: "(string \<Rightarrow> json option) \<Rightarrow> principal_state \<Rightarrow> bool" where
  "cache_ok parse s \<longleftrightarrow>
     (case ps_cache s of
        None \<Rightarrow> True
      | Some ((m, p, e, k), config) \<Rightarrow>
          config = readPilotConfig parse
            \<lparr>en_mode = Some m, en_map = Some p, en_edgeSecret = Some e\<rparr> (Some k))"

lemma pilotConfig_spec:
  assumes "cache_ok parse s"
  shows "snd (pilotConfig parse env s) = readPilotConfig parse (sv_pilot env) (sv_apiKey env)"
    and "cache_ok parse (fst (pilotConfig parse env s))"
    and "ps_stdout (fst (pilotConfig parse env s)) = ps_stdout s"
proof -
  obtain m p e where env: "sv_pilot env = \<lparr>en_mode = m, en_map = p, en_edgeSecret = e\<rparr>"
    by (cases "sv_pilot env")
  let ?k = "sv_apiKey env"
  have blank: "readPilotConfig parse q ?k = readPilotConfig parse q (Some (or_blank ?k))" for q
    by (rule config_shared_blank) (simp add: or_blank_def split: option.split)
  note same = config_depends_on_blanks [of parse m p e ?k]
  show "snd (pilotConfig parse env s) = readPilotConfig parse (sv_pilot env) ?k"
    using assms same blank
    by (auto simp: pilotConfig_def cache_inputs_def cache_ok_def env Let_def split: option.splits)
  show "cache_ok parse (fst (pilotConfig parse env s))"
    using assms blank
    by (auto simp: pilotConfig_def cache_inputs_def cache_ok_def env Let_def split: option.splits)
  show "ps_stdout (fst (pilotConfig parse env s)) = ps_stdout s"
    by (simp add: pilotConfig_def cache_inputs_def Let_def split: option.split)
qed

definition serve ::
  "(string \<Rightarrow> 'd) \<Rightarrow> (string \<Rightarrow> json option) \<Rightarrow> principal_state \<Rightarrow> server_env \<times> headers \<Rightarrow> principal_state"
where
  "serve digest parse s req = fst (resolveUpstreamPrincipal digest parse (fst req) (snd req) s)"

lemma resolve_spec:
  assumes "cache_ok parse s"
  shows "resolveUpstreamPrincipal digest parse env h s =
     (let s1 = fst (pilotConfig parse env s);
          config = readPilotConfig parse (sv_pilot env) (sv_apiKey env)
      in if config = Pilot_off
         then (s1, Principal (if or_blank (sv_apiKey env) = [] then None
                 else Some \<lparr>pe_keyId = SHARED_PRINCIPAL_KEY_ID,
                            pe_apiKey = or_blank (sv_apiKey env)\<rparr>))
         else (let r = resolvePilotPrincipal digest config h
               in (s1\<lparr>ps_stdout := ps_stdout s @ [formatPilotLogLine (log_record r)]\<rparr>,
                   case r of Res_fault f _ \<Rightarrow> Unresolved f | Res_ok u p \<Rightarrow> Principal (Some p))))"
  using pilotConfig_spec [OF assms, of env]
  by (cases "pilotConfig parse env s")
     (simp add: resolveUpstreamPrincipal_def Let_def split: pilot_config.split)

lemma cache_ok_stdout [simp]: "cache_ok parse (s\<lparr>ps_stdout := out\<rparr>) = cache_ok parse s"
  by (simp add: cache_ok_def)

lemma cache_ok_serve: "cache_ok parse s \<Longrightarrow> cache_ok parse (serve digest parse s req)"
  by (simp add: serve_def resolve_spec pilotConfig_spec(2) Let_def)

interpretation principal: reducer "serve digest parse" initial_principal_state "cache_ok parse"
  for digest parse
  by unfold_locales (simp_all add: cache_ok_serve, simp add: cache_ok_def initial_principal_state_def)

section \<open>Properties\<close>

text \<open>
  C15. A served pilot map is per person: whatever the environment holds, a configuration that is
  accepted has no shared key beside it, an edge secret of at least thirty-two characters and
  one to five well-formed usernames, each with its own non-empty API key and its own non-empty
  key id, so that no two pilots share either.
\<close>

theorem pilot_mapping_is_per_person:
  "case readPilotConfig parse env sharedApiKey of
     Pilot_on secret m \<Rightarrow>
       or_blank sharedApiKey = [] \<and> 32 \<le> length secret
       \<and> card (dom m) \<in> {1..5}
       \<and> dom m \<subseteq> {u. PILOT_USERNAME_PATTERN u}
       \<and> ran m \<subseteq> {p. pe_apiKey p \<noteq> [] \<and> pe_keyId p \<noteq> []}
       \<and> inj_on (pe_apiKey \<circ> the \<circ> m) (dom m)
       \<and> inj_on (pe_keyId \<circ> the \<circ> m) (dom m)
   | _ \<Rightarrow> True"
proof (cases "readPilotConfig parse env sharedApiKey")
  case (Pilot_on secret m)
  note on = config_on [OF Pilot_on]
  then obtain A K where ok: "map_ok m A K" and size: "1 \<le> card (dom m)" "card (dom m) \<le> 5"
    using read_map_ok [of parse "trim (or_blank (en_map env))" m]
    by (auto simp: PILOT_MAX_PRINCIPALS_def)
  have "dom m \<subseteq> {u. PILOT_USERNAME_PATTERN u}"
    using ok by (auto simp: map_ok_def)
  moreover have "ran m \<subseteq> {p. pe_apiKey p \<noteq> [] \<and> pe_keyId p \<noteq> []}"
    using ok by (auto simp: map_ok_def ran_def)
  moreover have "inj_on (pe_apiKey \<circ> the \<circ> m) (dom m)" "inj_on (pe_keyId \<circ> the \<circ> m) (dom m)"
    using ok unfolding map_ok_def inj_on_def by force+
  ultimately show ?thesis
    using on size by (simp add: Pilot_on PILOT_EDGE_SECRET_MIN_LENGTH_def)
qed simp_all

text \<open>
  C14. Pilot mode never falls back: after any history of requests, a request under a mode that is
  neither blank nor \<open>off\<close> is answered with exactly one log line and either a refusal or the
  principal the accepted map holds for the username in the header, which was read only because
  the edge's secret matched; it is never anonymous and never the shared key. With the mode off
  nothing is logged and the answer is the shared key, or none when it is blank.
\<close>

theorem never_the_shared_key:
  "let s = runs (serve digest parse) initial_principal_state reqs;
       (t, r) = resolveUpstreamPrincipal digest parse env h s
   in if trim (or_blank (en_mode (sv_pilot env))) \<in> {[], PILOT_MODE_OFF}
      then ps_stdout t = ps_stdout s
         \<and> r = Principal (if or_blank (sv_apiKey env) = [] then None
                 else Some \<lparr>pe_keyId = ''shared'', pe_apiKey = or_blank (sv_apiKey env)\<rparr>)
      else length (ps_stdout t) = Suc (length (ps_stdout s))
         \<and> (case r of
              Unresolved f \<Rightarrow> True
            | Principal None \<Rightarrow> False
            | Principal (Some p) \<Rightarrow>
                or_blank (sv_apiKey env) = []
                \<and> (case readPilotConfig parse (sv_pilot env) (sv_apiKey env) of
                     Pilot_on secret m \<Rightarrow>
                       edge_vouches digest secret h
                       \<and> m (to_lower (trim (or_blank (h PILOT_USER_HEADER)))) = Some p
                   | _ \<Rightarrow> False))"
proof -
  let ?s = "runs (serve digest parse) initial_principal_state reqs"
  let ?c = "readPilotConfig parse (sv_pilot env) (sv_apiKey env)"
  have ok: "cache_ok parse ?s" by (rule principal.inv_from_init)
  show ?thesis
  proof (cases ?c)
    case Pilot_off
    then show ?thesis
      using config_off [of parse "sv_pilot env" "sv_apiKey env"]
      by (simp add: resolve_spec [OF ok] pilotConfig_spec [OF ok] Let_def SHARED_PRINCIPAL_KEY_ID_def)
  next
    case (Pilot_misconfigured f)
    then show ?thesis
      using config_off [of parse "sv_pilot env" "sv_apiKey env"]
      by (simp add: resolve_spec [OF ok] pilotConfig_spec [OF ok] Let_def)
  next
    case (Pilot_on secret m)
    then show ?thesis
      using config_off [of parse "sv_pilot env" "sv_apiKey env"] config_on [OF Pilot_on]
      by (auto simp: resolve_spec [OF ok] pilotConfig_spec [OF ok] Let_def or_blank_def
          split: option.splits)
  qed
qed

text \<open>
  A header the edge did not vouch for is not evidence of anything: without the matching edge
  key a request under an accepted pilot configuration is refused as untrusted, with the same
  state and the same log line, whatever username it carries.
\<close>

lemma spoofed_username_is_inert:
  "case readPilotConfig parse (sv_pilot env) (sv_apiKey env) of
     Pilot_on secret m \<Rightarrow>
       edge_vouches digest secret h
       \<or> (let s = runs (serve digest parse) initial_principal_state reqs;
              answer = (\<lambda>user. resolveUpstreamPrincipal digest parse env
                          (h(PILOT_USER_HEADER := user)) s)
          in snd (answer user) = Unresolved untrusted_topology \<and> answer user = answer None)
   | _ \<Rightarrow> True"
proof (cases "readPilotConfig parse (sv_pilot env) (sv_apiKey env)")
  case (Pilot_on secret m)
  have ok: "cache_ok parse (runs (serve digest parse) initial_principal_state reqs)"
    by (rule principal.inv_from_init)
  have "edge_vouches digest secret (h(PILOT_USER_HEADER := user)) = edge_vouches digest secret h"
    for user
    by (simp add: edge_vouches_def PILOT_USER_HEADER_def PILOT_EDGE_KEY_HEADER_def)
  then show ?thesis
    by (simp add: Pilot_on resolve_spec [OF ok] Let_def)
qed simp_all

text \<open>
  The shell names whom the proxy serves: for a deployment without a shared key the identity
  derived from a request's headers is \<open>shared\<close>, the username or \<open>unresolved\<close> exactly as the
  proxy resolves that request to no key, to that username's principal or to a refusal. With a
  shared key beside an enabled map the proxy refuses every request while the shell still names
  the user the edge vouched for.
\<close>

lemma identity_agrees_with_principal:
  "let s = runs (serve digest parse) initial_principal_state reqs;
       answer = (\<lambda>key. snd (resolveUpstreamPrincipal digest parse
                    \<lparr>sv_pilot = env, sv_apiKey = key\<rparr> h s))
   in (case deriveWorkspaceIdentity digest parse env (Some h) of
         Id_shared \<Rightarrow> answer None = Principal None
       | Id_unresolved \<Rightarrow> (\<exists>f. answer None = Unresolved f)
       | Id_pilot u \<Rightarrow>
           (\<exists>secret m p. readPilotConfig parse env None = Pilot_on secret m
              \<and> m u = Some p \<and> answer None = Principal (Some p)
              \<and> answer (Some (c # key)) = Unresolved shared_key_also_set))"
proof -
  have ok: "cache_ok parse (runs (serve digest parse) initial_principal_state reqs)"
    by (rule principal.inv_from_init)
  show ?thesis
  proof (cases "readPilotConfig parse env None")
    case Pilot_off
    then show ?thesis
      by (simp add: deriveWorkspaceIdentity_def resolve_spec [OF ok] Let_def or_blank_def)
  next
    case (Pilot_misconfigured f)
    then show ?thesis
      by (simp add: deriveWorkspaceIdentity_def resolve_spec [OF ok] Let_def)
  next
    case (Pilot_on secret m)
    have "readPilotConfig parse env (Some (c # key)) = Pilot_misconfigured shared_key_also_set"
      using Pilot_on
      by (auto simp: readPilotConfig_def or_blank_def Let_def split: if_splits sum.splits)
    then show ?thesis
      using Pilot_on
      by (auto simp: deriveWorkspaceIdentity_def resolve_spec [OF ok] Let_def split: option.splits)
  qed
qed

end
