(* ===== verification/Api_Client.thy ===== *)
theory Api_Client
  imports Interfaces Api_Errors
begin

text \<open>
  \<open>web/lib/api/client.ts\<close>: the one request path and the calls that go through it. The network is
  a value of type \<open>net\<close>: what \<open>fetch\<close> settles with, the aborts that happen while it is pending,
  \<open>JSON.parse\<close> and \<open>navigator.onLine\<close>. A call yields what it sent, what it settled with and the
  abort link as it was left behind.
\<close>

section \<open>Encoding a path segment\<close>

text \<open>The code point of a character of the alphabet.\<close>

definition code_point :: "char \<Rightarrow> nat" where
  "code_point c =
     (let n = of_char c :: nat in
      case map_of
        [(128, 8364), (130, 8218), (131, 402), (132, 8222), (133, 8230), (134, 8224), (135, 8225),
         (136, 710), (137, 8240), (138, 352), (139, 8249), (140, 338), (142, 381), (145, 8216),
         (146, 8217), (147, 8220), (148, 8221), (149, 8226), (150, 8211), (151, 8212), (152, 732),
         (153, 8482), (154, 353), (155, 8250), (156, 339), (158, 382), (159, 376)] n of
        Some p \<Rightarrow> p | None \<Rightarrow> n)"

definition utf8 :: "nat \<Rightarrow> nat list" where
  "utf8 p =
     (if p < 128 then [p]
      else if p < 2048 then [192 + p div 64, 128 + p mod 64]
      else [224 + p div 4096, 128 + p div 64 mod 64, 128 + p mod 64])"

definition upper_hex :: "nat \<Rightarrow> char" where
  "upper_hex n = (if n < 10 then char_of (48 + n) else char_of (55 + n))"

definition percent :: "nat \<Rightarrow> string" where
  "percent b = [CHR ''%'', upper_hex (b div 16), upper_hex (b mod 16)]"

text \<open>The characters \<open>encodeURIComponent\<close> keeps.\<close>

definition uri_unreserved :: "char \<Rightarrow> bool" where
  "uri_unreserved c \<longleftrightarrow> (let n = of_char c :: nat in
     48 \<le> n \<and> n \<le> 57 \<or> 65 \<le> n \<and> n \<le> 90 \<or> 97 \<le> n \<and> n \<le> 122
     \<or> n \<in> {33, 39, 40, 41, 42, 45, 46, 95, 126})"

definition encode_char :: "char \<Rightarrow> string" where
  "encode_char c =
     (if uri_unreserved c then [c] else concat (map percent (utf8 (code_point c))))"

definition encodeURIComponent :: "string \<Rightarrow> string" where
  "encodeURIComponent s = concat (map encode_char s)"

section \<open>The abort link\<close>

definition API_BASE :: string where
  "API_BASE = ''/api''"

definition DEFAULT_READ_TIMEOUT_MS :: int where
  "DEFAULT_READ_TIMEOUT_MS = 15000"

text \<open>\<open>timeoutMs?: number | null\<close>.\<close>

datatype timeout_option = T_undefined | T_null | T_ms int

text \<open>A caller's signal is represented by whether it is aborted when the call starts.\<close>

record request_options =
  ro_signal :: "bool option"
  ro_timeoutMs :: timeout_option

record linked_abort =
  la_aborted :: bool
  la_timedOut :: bool
  la_cancelled :: bool
  la_timer :: bool
  la_listening :: bool

definition linkAbort :: "bool option \<Rightarrow> int option \<Rightarrow> linked_abort" where
  "linkAbort callerSignal timeoutMs =
     (let aborted = (callerSignal = Some True)
      in \<lparr>la_aborted = aborted, la_timedOut = False, la_cancelled = aborted,
          la_timer = ((case timeoutMs of Some t \<Rightarrow> t > 0 | None \<Rightarrow> False) \<and> \<not> aborted),
          la_listening = (callerSignal = Some False)\<rparr>)"

text \<open>The listener is registered with \<open>once\<close>; a timer fires at most once.\<close>

definition onCallerAbort :: "linked_abort \<Rightarrow> linked_abort" where
  "onCallerAbort l =
     (if la_listening l
      then l\<lparr>la_cancelled := True, la_aborted := True, la_listening := False\<rparr> else l)"

definition onTimer :: "linked_abort \<Rightarrow> linked_abort" where
  "onTimer l =
     (if la_timer l then l\<lparr>la_timedOut := True, la_aborted := True, la_timer := False\<rparr> else l)"

definition dispose :: "linked_abort \<Rightarrow> linked_abort" where
  "dispose l = l\<lparr>la_timer := False, la_listening := False\<rparr>"

datatype abort_event = Caller_aborts | Timer_fires

fun abort_step :: "linked_abort \<Rightarrow> abort_event \<Rightarrow> linked_abort" where
  "abort_step l Caller_aborts = onCallerAbort l"
| "abort_step l Timer_fires = onTimer l"

section \<open>The request path\<close>

record fetch_init =
  fi_url :: string
  fi_method :: string
  fi_json_headers :: bool
  fi_body :: "json option"

datatype fetch_outcome = Fetch_response http_response | Fetch_rejects thrown

record net =
  nt_parse :: "string \<Rightarrow> json option"
  nt_online :: bool
  nt_events :: "abort_event list"
  nt_outcome :: fetch_outcome

datatype call_result = Call_ok http_response | Call_error api_error

record api_call =
  ac_sent :: "fetch_init option"
  ac_result :: call_result
  ac_link :: linked_abort

definition resp_ok :: "http_response \<Rightarrow> bool" where
  "resp_ok r \<longleftrightarrow> 200 \<le> resp_status r \<and> resp_status r \<le> 299"

definition abortError :: thrown where
  "abortError = \<lparr>th_name = Some ''AbortError'', th_type_error = False, th_is_error = True,
     th_message = ''The operation was aborted.'', th_text = ''AbortError: The operation was aborted.''\<rparr>"

definition transportMessage :: "thrown \<Rightarrow> string \<Rightarrow> string" where
  "transportMessage e fallback =
     (if th_is_error e \<and> th_message e \<noteq> [] then th_message e else fallback)"

text \<open>\<open>options?.timeoutMs ?? defaultTimeoutMs\<close>: \<open>null\<close> is as good as nothing to \<open>??\<close>.\<close>

definition timeout_of :: "request_options option \<Rightarrow> int option \<Rightarrow> int option" where
  "timeout_of options defaultTimeoutMs =
     (case options of
        None \<Rightarrow> defaultTimeoutMs
      | Some opts \<Rightarrow> (case ro_timeoutMs opts of T_ms t \<Rightarrow> Some t | _ \<Rightarrow> defaultTimeoutMs))"

definition transport_error :: "net \<Rightarrow> thrown \<Rightarrow> linked_abort \<Rightarrow> api_error" where
  "transport_error n e l =
     (let failure = normalizeFailure (nt_parse n) (nt_online n) (Src_thrown e)
            \<lparr>nc_timedOut = Some (la_timedOut l), nc_cancelled = Some (la_cancelled l),
             nc_online = None, nc_body = None\<rparr>
      in ApiError 0 (transportMessage e (failure_message failure)) (Some failure))"

definition response_error :: "net \<Rightarrow> http_response \<Rightarrow> api_error" where
  "response_error n r =
     (let body = readErrorBody (nt_parse n) r
      in ApiError (resp_status r) (legacyDetailMessage r body)
           (Some (normalizeFailure (nt_parse n) (nt_online n) (Src_response r)
              \<lparr>nc_timedOut = None, nc_cancelled = None, nc_online = None,
               nc_body = Some body\<rparr>)))"

definition request ::
  "net \<Rightarrow> fetch_init \<Rightarrow> request_options option \<Rightarrow> int option \<Rightarrow> api_call"
where
  "request n init options defaultTimeoutMs =
     (let link = linkAbort (Option.bind options ro_signal) (timeout_of options defaultTimeoutMs)
      in if la_aborted link
         then \<lparr>ac_sent = None, ac_result = Call_error (transport_error n abortError link),
               ac_link = dispose link\<rparr>
         else let settled = runs abort_step link (nt_events n)
              in \<lparr>ac_sent = Some (init\<lparr>fi_url := API_BASE @ fi_url init\<rparr>),
                  ac_result =
                    (case nt_outcome n of
                       Fetch_rejects e \<Rightarrow> Call_error (transport_error n e settled)
                     | Fetch_response r \<Rightarrow>
                         if resp_ok r then Call_ok r else Call_error (response_error n r)),
                  ac_link = dispose settled\<rparr>)"

text \<open>\<open>response.json()\<close>: a body that cannot be read or parsed rejects with its own error.\<close>

datatype json_result = J_value json | J_api_error api_error | J_unreadable

definition json_of :: "net \<Rightarrow> api_call \<Rightarrow> json_result" where
  "json_of n c =
     (case ac_result c of
        Call_error e \<Rightarrow> J_api_error e
      | Call_ok r \<Rightarrow>
          (case Option.bind (resp_body r) (nt_parse n) of
             Some v \<Rightarrow> J_value v | None \<Rightarrow> J_unreadable))"

definition get_request :: "string \<Rightarrow> fetch_init" where
  "get_request path = \<lparr>fi_url = path, fi_method = ''GET'', fi_json_headers = False, fi_body = None\<rparr>"

definition post_request :: "string \<Rightarrow> json \<Rightarrow> fetch_init" where
  "post_request path body =
     \<lparr>fi_url = path, fi_method = ''POST'', fi_json_headers = True, fi_body = Some body\<rparr>"

definition delete_request :: "string \<Rightarrow> fetch_init" where
  "delete_request path =
     \<lparr>fi_url = path, fi_method = ''DELETE'', fi_json_headers = False, fi_body = None\<rparr>"

section \<open>Research\<close>

record submit_options =
  so_conversation_id :: "string option"
  so_hitl_bypass :: "bool option"

definition submitResearch ::
  "net \<Rightarrow> string \<Rightarrow> submit_options \<Rightarrow> request_options option \<Rightarrow> api_call \<times> json_result"
where
  "submitResearch n query opts options =
     (let body = JObj ([(''query'', JStr query)]
            @ (case so_conversation_id opts of
                 Some i \<Rightarrow> if i \<noteq> [] then [(''conversation_id'', JStr i)] else []
               | None \<Rightarrow> [])
            @ (if so_hitl_bypass opts = Some True then [(''hitl_bypass'', JBool True)] else []));
          c = request n (post_request ''/research'' body) options None
      in (c, json_of n c))"

definition getJob :: "net \<Rightarrow> string \<Rightarrow> request_options option \<Rightarrow> api_call \<times> json_result" where
  "getJob n jobId options =
     (let c = request n (get_request (''/research/'' @ encodeURIComponent jobId)) options
            (Some DEFAULT_READ_TIMEOUT_MS)
      in (c, json_of n c))"

definition reviewPlan ::
  "net \<Rightarrow> string \<Rightarrow> json \<Rightarrow> request_options option \<Rightarrow> api_call \<times> json_result"
where
  "reviewPlan n jobId body options =
     (let c = request n
            (post_request (''/research/'' @ encodeURIComponent jobId @ ''/review'') body) options None
      in (c, json_of n c))"

definition streamUrl :: "string \<Rightarrow> string" where
  "streamUrl jobId = API_BASE @ ''/research/'' @ encodeURIComponent jobId @ ''/stream''"

section \<open>Conversations\<close>

definition createConversation ::
  "net \<Rightarrow> string option \<Rightarrow> request_options option \<Rightarrow> api_call \<times> json_result"
where
  "createConversation n title options =
     (let body = (case title of
             Some t \<Rightarrow> if t \<noteq> [] then JObj [(''title'', JStr t)] else JObj []
           | None \<Rightarrow> JObj []);
          c = request n (post_request ''/conversations'' body) options None
      in (c, json_of n c))"

record list_options = request_options +
  lo_limit :: "int option"
  lo_offset :: "int option"

definition listQuery :: "list_options option \<Rightarrow> string" where
  "listQuery options =
     (let params =
            (case Option.bind options lo_limit of
               Some k \<Rightarrow> [''limit='' @ show_int k] | None \<Rightarrow> [])
          @ (case Option.bind options lo_offset of
               Some k \<Rightarrow> [''offset='' @ show_int k] | None \<Rightarrow> []);
          query = join ''&'' params
      in if query = [] then [] else CHR 0x3F # query)"

definition listConversations :: "net \<Rightarrow> list_options option \<Rightarrow> api_call \<times> json_result" where
  "listConversations n options =
     (let c = request n (get_request (''/conversations'' @ listQuery options))
            (map_option request_options.truncate options) (Some DEFAULT_READ_TIMEOUT_MS)
      in (c, json_of n c))"

definition getConversation ::
  "net \<Rightarrow> string \<Rightarrow> request_options option \<Rightarrow> api_call \<times> json_result"
where
  "getConversation n conversationId options =
     (let c = request n (get_request (''/conversations/'' @ encodeURIComponent conversationId))
            options (Some DEFAULT_READ_TIMEOUT_MS)
      in (c, json_of n c))"

definition deleteConversation :: "net \<Rightarrow> string \<Rightarrow> request_options option \<Rightarrow> api_call" where
  "deleteConversation n conversationId options =
     request n (delete_request (''/conversations/'' @ encodeURIComponent conversationId)) options None"

section \<open>Learning\<close>

definition listLearnPaths :: "net \<Rightarrow> request_options option \<Rightarrow> api_call \<times> json_result" where
  "listLearnPaths n options =
     (let c = request n (get_request ''/learn/paths'') options (Some DEFAULT_READ_TIMEOUT_MS)
      in (c, json_of n c))"

definition getLearnPath ::
  "net \<Rightarrow> string \<Rightarrow> request_options option \<Rightarrow> api_call \<times> json_result"
where
  "getLearnPath n pathId options =
     (let c = request n (get_request (''/learn/paths/'' @ encodeURIComponent pathId)) options
            (Some DEFAULT_READ_TIMEOUT_MS)
      in (c, json_of n c))"

definition getLearnerProgress :: "net \<Rightarrow> request_options option \<Rightarrow> api_call \<times> json_result" where
  "getLearnerProgress n options =
     (let c = request n (get_request ''/learn/progress'') options (Some DEFAULT_READ_TIMEOUT_MS)
      in (c, json_of n c))"

definition createLearnSession ::
  "net \<Rightarrow> json \<Rightarrow> request_options option \<Rightarrow> api_call \<times> json_result"
where
  "createLearnSession n body options =
     (let c = request n (post_request ''/learn/sessions'' body) options None
      in (c, json_of n c))"

definition getLearnSession ::
  "net \<Rightarrow> string \<Rightarrow> request_options option \<Rightarrow> api_call \<times> json_result"
where
  "getLearnSession n sessionId options =
     (let c = request n (get_request (''/learn/sessions/'' @ encodeURIComponent sessionId)) options
            (Some DEFAULT_READ_TIMEOUT_MS)
      in (c, json_of n c))"

definition submitLearnSessionTurn ::
  "net \<Rightarrow> string \<Rightarrow> json \<Rightarrow> request_options option \<Rightarrow> api_call \<times> json_result"
where
  "submitLearnSessionTurn n sessionId body options =
     (let c = request n
            (post_request (''/learn/sessions/'' @ encodeURIComponent sessionId @ ''/turn'') body)
            options None
      in (c, json_of n c))"

section \<open>Laws of the abort link\<close>

text \<open>The link is aborted exactly when one of its two flags says why.\<close>

definition link_ok :: "linked_abort \<Rightarrow> bool" where
  "link_ok l \<longleftrightarrow> la_aborted l = (la_timedOut l \<or> la_cancelled l)
     \<and> (la_timer l \<longrightarrow> \<not> la_timedOut l)"

lemma link_ok_linkAbort: "link_ok (linkAbort sig t)"
  by (simp add: link_ok_def linkAbort_def Let_def)

lemma link_ok_step: "link_ok l \<Longrightarrow> link_ok (abort_step l e)"
  by (cases e) (auto simp: link_ok_def onCallerAbort_def onTimer_def)

interpretation link: reducer abort_step "linkAbort sig t" link_ok for sig t
  by unfold_locales (simp_all add: link_ok_linkAbort link_ok_step)

lemma disposed_is_inert: "runs abort_step (dispose l) es = dispose l"
proof (induction es)
  case Nil
  then show ?case by simp
next
  case (Cons e es)
  have "abort_step (dispose l) e = dispose l"
    by (cases e) (simp_all add: dispose_def onCallerAbort_def onTimer_def)
  then show ?case using Cons by simp
qed

lemma flags_monotone:
  "(la_timedOut l \<longrightarrow> la_timedOut (runs abort_step l es))
   \<and> (la_cancelled l \<longrightarrow> la_cancelled (runs abort_step l es))"
proof (induction es arbitrary: l)
  case Nil
  then show ?case by simp
next
  case (Cons e es)
  have "(la_timedOut l \<longrightarrow> la_timedOut (abort_step l e))
      \<and> (la_cancelled l \<longrightarrow> la_cancelled (abort_step l e))"
    by (cases e) (simp_all add: onCallerAbort_def onTimer_def)
  then show ?case using Cons.IH [of "abort_step l e"] by auto
qed

lemma timer_fired:
  "la_timedOut (runs abort_step l es) \<longleftrightarrow> la_timedOut l \<or> la_timer l \<and> Timer_fires \<in> set es"
proof (induction es arbitrary: l)
  case Nil
  then show ?case by simp
next
  case (Cons e es)
  then show ?case by (cases e) (auto simp: onCallerAbort_def onTimer_def)
qed

lemma caller_aborted:
  "la_cancelled (runs abort_step l es)
     \<longleftrightarrow> la_cancelled l \<or> la_listening l \<and> Caller_aborts \<in> set es"
proof (induction es arbitrary: l)
  case Nil
  then show ?case by simp
next
  case (Cons e es)
  then show ?case by (cases e) (auto simp: onCallerAbort_def onTimer_def)
qed

lemma timer_armed:
  "la_timer (linkAbort sig t)
     \<longleftrightarrow> sig \<noteq> Some True \<and> (case t of Some ms \<Rightarrow> 0 < ms | None \<Rightarrow> False)"
  by (auto simp: linkAbort_def Let_def)

lemma link_without_signal_or_timer:
  "runs abort_step (linkAbort None None) es = linkAbort None None"
  using disposed_is_inert [of "linkAbort None None" es]
  by (simp add: dispose_def linkAbort_def)

lemma transport_kind:
  "ae_status (transport_error n e l) = 0
   \<and> failure_status (ae_failure (transport_error n e l)) = None
   \<and> (failure_kind (ae_failure (transport_error n e l)) = K_timeout
        \<longleftrightarrow> la_timedOut l \<or> th_name e = Some ''TimeoutError'')
   \<and> (failure_kind (ae_failure (transport_error n e l)) = K_cancelled
        \<longleftrightarrow> \<not> la_timedOut l \<and> th_name e \<noteq> Some ''TimeoutError''
            \<and> (la_cancelled l \<or> th_name e = Some ''AbortError''))"
  by (simp add: transport_error_def ApiError_def normalizeFailure_def fromTransport_def
      errorName_def Let_def)

lemma response_kind:
  "ae_status (response_error n r) = resp_status r
   \<and> failure_status (ae_failure (response_error n r)) = Some (resp_status r)
   \<and> failure_kind (ae_failure (response_error n r)) \<notin> {K_offline, K_timeout, K_cancelled}"
  using fromResponse_kind [of r]
  by (simp add: response_error_def ApiError_def normalizeFailure_def fromResponse_status Let_def)

lemma request_started:
  "Option.bind options ro_signal \<noteq> Some True \<Longrightarrow>
   request n init options d =
     (let settled = runs abort_step
            (linkAbort (Option.bind options ro_signal) (timeout_of options d)) (nt_events n)
      in \<lparr>ac_sent = Some (init\<lparr>fi_url := API_BASE @ fi_url init\<rparr>),
          ac_result = (case nt_outcome n of
               Fetch_rejects e \<Rightarrow> Call_error (transport_error n e settled)
             | Fetch_response r \<Rightarrow> if resp_ok r then Call_ok r else Call_error (response_error n r)),
          ac_link = dispose settled\<rparr>)"
  by (simp add: request_def linkAbort_def Let_def)

lemma request_aborted:
  "Option.bind options ro_signal = Some True \<Longrightarrow>
   request n init options d =
     (let link = linkAbort (Some True) (timeout_of options d)
      in \<lparr>ac_sent = None, ac_result = Call_error (transport_error n abortError link),
          ac_link = dispose link\<rparr>)"
  by (simp add: request_def linkAbort_def Let_def)

section \<open>Properties\<close>

text \<open>
  C17. What a request settles with, for every network and every interleaving of aborts: a call
  whose signal is already aborted sends nothing and is \<open>cancelled\<close>; otherwise the one request is
  sent, a response in the 200s is the result, any other response is an error with its status
  and no transport kind, and a rejection is an error without status that is \<open>timeout\<close> exactly
  when the armed timer fired (or the error is a \<open>TimeoutError\<close>) and otherwise \<open>cancelled\<close>
  exactly when the caller aborted (or the error is an \<open>AbortError\<close>). In every case the timer and
  the listener are gone afterwards, so that later aborts change nothing.
\<close>

theorem request_outcome:
  "let c = request n init options d;
       sig = Option.bind options ro_signal;
       armed = (case timeout_of options d of Some ms \<Rightarrow> 0 < ms | None \<Rightarrow> False)
   in runs abort_step (ac_link c) later = ac_link c
    \<and> (if sig = Some True
       then ac_sent c = None
         \<and> (case ac_result c of
              Call_ok r \<Rightarrow> False
            | Call_error e \<Rightarrow> ae_status e = 0 \<and> failure_kind (ae_failure e) = K_cancelled)
       else ac_sent c = Some (init\<lparr>fi_url := API_BASE @ fi_url init\<rparr>)
         \<and> (case ac_result c of
              Call_ok r \<Rightarrow> nt_outcome n = Fetch_response r \<and> resp_status r \<in> {200..299}
            | Call_error e \<Rightarrow>
                (case nt_outcome n of
                   Fetch_response r \<Rightarrow>
                     resp_status r \<notin> {200..299} \<and> ae_status e = resp_status r
                     \<and> failure_status (ae_failure e) = Some (resp_status r)
                     \<and> failure_kind (ae_failure e) \<notin> {K_offline, K_timeout, K_cancelled}
                 | Fetch_rejects x \<Rightarrow>
                     ae_status e = 0 \<and> failure_status (ae_failure e) = None
                     \<and> (failure_kind (ae_failure e) = K_timeout
                          \<longleftrightarrow> armed \<and> Timer_fires \<in> set (nt_events n)
                              \<or> th_name x = Some ''TimeoutError'')
                     \<and> (failure_kind (ae_failure e) = K_cancelled
                          \<longleftrightarrow> \<not> (armed \<and> Timer_fires \<in> set (nt_events n))
                              \<and> th_name x \<noteq> Some ''TimeoutError''
                              \<and> (sig \<noteq> None \<and> Caller_aborts \<in> set (nt_events n)
                                 \<or> th_name x = Some ''AbortError'')))))"
proof (cases "Option.bind options ro_signal = Some True")
  case True
  then show ?thesis
    by (simp add: request_aborted disposed_is_inert transport_kind Let_def)
       (simp add: linkAbort_def abortError_def Let_def)
next
  case False
  let ?sig = "Option.bind options ro_signal"
  let ?link = "linkAbort ?sig (timeout_of options d)"
  have flags: "\<not> la_timedOut ?link" "\<not> la_cancelled ?link" "la_listening ?link = (?sig \<noteq> None)"
    using False by (auto simp: linkAbort_def Let_def)
  show ?thesis
  proof (cases "nt_outcome n")
    case (Fetch_response r)
    then show ?thesis
      using False response_kind [of n r]
      by (simp add: request_started disposed_is_inert resp_ok_def Let_def)
  next
    case (Fetch_rejects x)
    then show ?thesis
      using False
      by (simp add: request_started disposed_is_inert transport_kind timer_fired caller_aborted
          timer_armed flags Let_def)
  qed
qed

text \<open>
  Work that may be billed or that destroys something is never cut off by the client: without
  an option of the caller's, the six writes settle the same whatever timers would fire, while
  each of the seven reads whose \<open>fetch\<close> is aborted by the fifteen-second timer is a \<open>timeout\<close>.
\<close>

lemma writes_wait_reads_time_out:
  "(\<forall>evs. let m = n\<lparr>nt_events := evs\<rparr> in
      submitResearch m q opts None = submitResearch (n\<lparr>nt_events := []\<rparr>) q opts None
    \<and> reviewPlan m i body None = reviewPlan (n\<lparr>nt_events := []\<rparr>) i body None
    \<and> createConversation m title None = createConversation (n\<lparr>nt_events := []\<rparr>) title None
    \<and> deleteConversation m i None = deleteConversation (n\<lparr>nt_events := []\<rparr>) i None
    \<and> createLearnSession m body None = createLearnSession (n\<lparr>nt_events := []\<rparr>) body None
    \<and> submitLearnSessionTurn m i body None
        = submitLearnSessionTurn (n\<lparr>nt_events := []\<rparr>) i body None)
   \<and> list_all (\<lambda>read. case ac_result (fst (read
          (n\<lparr>nt_events := [Timer_fires], nt_outcome := Fetch_rejects abortError\<rparr>))) of
          Call_ok r \<Rightarrow> False | Call_error e \<Rightarrow> failure_kind (ae_failure e) = K_timeout)
       [\<lambda>m. getJob m i None, \<lambda>m. listConversations m None, \<lambda>m. getConversation m i None,
        \<lambda>m. listLearnPaths m None, \<lambda>m. getLearnPath m i None, \<lambda>m. getLearnerProgress m None,
        \<lambda>m. getLearnSession m i None]"
proof
  have same: "request (n\<lparr>nt_events := evs\<rparr>) init None None
      = request (n\<lparr>nt_events := []\<rparr>) init None None" for evs init
    by (simp add: request_started timeout_of_def link_without_signal_or_timer transport_error_def
        response_error_def Let_def split: fetch_outcome.split)
  have json: "json_of (n\<lparr>nt_events := evs\<rparr>) c = json_of (n\<lparr>nt_events := []\<rparr>) c" for evs c
    by (cases "ac_result c") (simp_all add: json_of_def)
  show "\<forall>evs. let m = n\<lparr>nt_events := evs\<rparr> in
      submitResearch m q opts None = submitResearch (n\<lparr>nt_events := []\<rparr>) q opts None
    \<and> reviewPlan m i body None = reviewPlan (n\<lparr>nt_events := []\<rparr>) i body None
    \<and> createConversation m title None = createConversation (n\<lparr>nt_events := []\<rparr>) title None
    \<and> deleteConversation m i None = deleteConversation (n\<lparr>nt_events := []\<rparr>) i None
    \<and> createLearnSession m body None = createLearnSession (n\<lparr>nt_events := []\<rparr>) body None
    \<and> submitLearnSessionTurn m i body None
        = submitLearnSessionTurn (n\<lparr>nt_events := []\<rparr>) i body None"
  proof (rule allI)
    fix evs
    show "let m = n\<lparr>nt_events := evs\<rparr> in
      submitResearch m q opts None = submitResearch (n\<lparr>nt_events := []\<rparr>) q opts None
    \<and> reviewPlan m i body None = reviewPlan (n\<lparr>nt_events := []\<rparr>) i body None
    \<and> createConversation m title None = createConversation (n\<lparr>nt_events := []\<rparr>) title None
    \<and> deleteConversation m i None = deleteConversation (n\<lparr>nt_events := []\<rparr>) i None
    \<and> createLearnSession m body None = createLearnSession (n\<lparr>nt_events := []\<rparr>) body None
    \<and> submitLearnSessionTurn m i body None
        = submitLearnSessionTurn (n\<lparr>nt_events := []\<rparr>) i body None"
      unfolding submitResearch_def reviewPlan_def createConversation_def deleteConversation_def
        createLearnSession_def submitLearnSessionTurn_def Let_def same [of evs] json [of evs]
      by (intro conjI refl)
  qed
  have timeout: "case ac_result (request
        (n\<lparr>nt_events := [Timer_fires], nt_outcome := Fetch_rejects abortError\<rparr>) init None
        (Some DEFAULT_READ_TIMEOUT_MS)) of
      Call_ok r \<Rightarrow> False | Call_error e \<Rightarrow> failure_kind (ae_failure e) = K_timeout" for init
    by (simp add: request_started transport_kind timeout_of_def DEFAULT_READ_TIMEOUT_MS_def
        linkAbort_def onTimer_def Let_def)
  show "list_all (\<lambda>read. case ac_result (fst (read
          (n\<lparr>nt_events := [Timer_fires], nt_outcome := Fetch_rejects abortError\<rparr>))) of
          Call_ok r \<Rightarrow> False | Call_error e \<Rightarrow> failure_kind (ae_failure e) = K_timeout)
       [\<lambda>m. getJob m i None, \<lambda>m. listConversations m None, \<lambda>m. getConversation m i None,
        \<lambda>m. listLearnPaths m None, \<lambda>m. getLearnPath m i None, \<lambda>m. getLearnerProgress m None,
        \<lambda>m. getLearnSession m i None]"
    using timeout
    by (simp add: getJob_def listConversations_def getConversation_def listLearnPaths_def
        getLearnPath_def getLearnerProgress_def getLearnSession_def Let_def)
qed

text \<open>
  \<open>timeoutMs: null\<close> does not disable the default ceiling: a call with \<open>null\<close> is the call with
  no \<open>timeoutMs\<close> at all, so a read that asked for no ceiling is still cut off by the timer; what
  does disable it is zero.
\<close>

lemma null_timeout_is_the_default:
  "request n init (Some \<lparr>ro_signal = sig, ro_timeoutMs = T_null\<rparr>) d
     = request n init (Some \<lparr>ro_signal = sig, ro_timeoutMs = T_undefined\<rparr>) d
   \<and> (case ac_result (fst (getJob
          (n\<lparr>nt_events := [Timer_fires], nt_outcome := Fetch_rejects abortError\<rparr>) i
          (Some \<lparr>ro_signal = None, ro_timeoutMs = T_null\<rparr>))) of
        Call_ok r \<Rightarrow> False | Call_error e \<Rightarrow> failure_kind (ae_failure e) = K_timeout)
   \<and> (case ac_result (fst (getJob
          (n\<lparr>nt_events := [Timer_fires], nt_outcome := Fetch_rejects abortError\<rparr>) i
          (Some \<lparr>ro_signal = None, ro_timeoutMs = T_ms 0\<rparr>))) of
        Call_ok r \<Rightarrow> False | Call_error e \<Rightarrow> failure_kind (ae_failure e) = K_cancelled)"
  by (simp add: request_def getJob_def transport_kind timeout_of_def DEFAULT_READ_TIMEOUT_MS_def
      linkAbort_def onTimer_def abortError_def Let_def)

section \<open>Ids in paths\<close>

text \<open>The characters of an encoded segment: the unreserved ones and the percent sign.\<close>

definition segment_char :: "char \<Rightarrow> bool" where
  "segment_char c \<longleftrightarrow> uri_unreserved c \<or> c = CHR ''%''"

lemma upper_hex_unreserved: "n < 16 \<Longrightarrow> uri_unreserved (upper_hex n)"
  by (auto simp: upper_hex_def uri_unreserved_def Let_def)

lemma percent_segment: "b < 256 \<Longrightarrow> list_all segment_char (percent b)"
  using upper_hex_unreserved [of "b div 16"] upper_hex_unreserved [of "b mod 16"]
  by (simp add: percent_def segment_char_def)

lemma code_point_bound: "code_point c < 65536"
proof -
  have "(of_char c :: nat) < 65536"
    by (rule less_trans [of _ 256]) simp_all
  then show ?thesis
    by (simp add: code_point_def Let_def split: option.split if_splits)
qed

lemma utf8_bytes: "p < 65536 \<Longrightarrow> list_all (\<lambda>b. b < 256) (utf8 p)"
proof -
  assume p: "p < 65536"
  have m: "x mod 64 < 64" for x :: nat
    by simp
  have "p div 4096 < 16" "p < 2048 \<Longrightarrow> p div 64 < 32"
    using p by (simp_all add: less_mult_imp_div_less)
  then have "224 + p div 4096 < 256" "p < 2048 \<Longrightarrow> 192 + p div 64 < 256"
      "128 + p mod 64 < 256" "128 + p div 64 mod 64 < 256"
    using m [of p] m [of "p div 64"] by linarith+
  then show ?thesis by (simp add: utf8_def)
qed

lemma encode_char_segment: "list_all segment_char (encode_char c)"
proof (cases "uri_unreserved c")
  case True
  then show ?thesis by (simp add: encode_char_def segment_char_def)
next
  case False
  have "list_all segment_char (concat (map percent bs))" if "list_all (\<lambda>b. b < 256) bs" for bs
    using that by (induction bs) (simp_all add: percent_segment)
  then show ?thesis
    using False utf8_bytes [OF code_point_bound] by (simp add: encode_char_def)
qed

lemma encoded_segment: "list_all segment_char (encodeURIComponent s)"
  using encode_char_segment by (induction s) (simp_all add: encodeURIComponent_def)

lemma segment_char_free:
  "list_all segment_char s \<Longrightarrow> \<not> segment_char c \<Longrightarrow> c \<notin> set s"
  by (auto simp: list_all_iff)

text \<open>
  An id stays one segment of the path, whatever characters it holds: the stream URL of a job
  and the path of its read split at their slashes into the fixed segments and the encoded id,
  which holds no slash, question mark or hash; ids of unreserved characters are sent as they are.
\<close>

lemma ids_stay_one_segment:
  "split_on CHR ''/'' (streamUrl i) = ['''', ''api'', ''research'', encodeURIComponent i, ''stream'']
   \<and> map_option (split_on CHR ''/'' \<circ> fi_url) (ac_sent (fst (getJob n i None)))
       = Some ['''', ''api'', ''research'', encodeURIComponent i]
   \<and> set (encodeURIComponent i) \<inter> {CHR ''/'', CHR 0x3F, CHR 0x23} = {}
   \<and> encodeURIComponent (filter uri_unreserved i) = filter uri_unreserved i"
proof -
  have bad: "\<not> segment_char CHR ''/''" "\<not> segment_char CHR 0x3F" "\<not> segment_char CHR 0x23"
    by code_simp+
  note free = segment_char_free [OF encoded_segment]
  have same: "encodeURIComponent (filter uri_unreserved i) = filter uri_unreserved i"
    by (induction i) (simp_all add: encodeURIComponent_def encode_char_def)
  show ?thesis
    using bad free [OF bad(1)] free [OF bad(2)] free [OF bad(3)] same
    by (simp add: streamUrl_def API_BASE_def getJob_def request_started get_request_def
        split_on_append split_on_single Let_def)
qed

end
