(* ===== verification/Server_Proxy.thy ===== *)
theory Server_Proxy
  imports Server_Pilot Api_Client
begin

text \<open>
  The same-origin proxy: \<open>web/app/api/[...path]/route.ts\<close> with its request log
  \<open>web/lib/server/proxyLog.ts\<close>, and the per-request content security policy of
  \<open>web/lib/server/csp.ts\<close> and \<open>web/middleware.ts\<close>. The \<open>URL\<close> constructor is a parameter; what
  \<open>fetch\<close> answers and what happens to the streamed body afterwards are inputs.
\<close>

section \<open>The log line\<close>

definition LITERAL_SEGMENTS :: "string list" where
  "LITERAL_SEGMENTS =
     [''conversations'', ''export'', ''healthz'', ''learn'', ''paths'', ''profile'', ''progress'',
      ''research'', ''review'', ''sessions'', ''stream'', ''turn'']"

definition REDACTED_SEGMENT :: string where
  "REDACTED_SEGMENT = ''{id}''"

definition proxy_pathTemplate :: "string list \<Rightarrow> string" where
  "proxy_pathTemplate segments =
     CHR ''/'' # join ''/''
       (map (\<lambda>s. if s \<in> set LITERAL_SEGMENTS then s else REDACTED_SEGMENT) segments)"

datatype proxy_outcome = PO_misconfigured | PO_upstream_unavailable | PO_principal_unresolved

fun outcome_text :: "proxy_outcome \<Rightarrow> string" where
  "outcome_text PO_misconfigured = ''misconfigured''"
| "outcome_text PO_upstream_unavailable = ''upstream_unavailable''"
| "outcome_text PO_principal_unresolved = ''principal_unresolved''"

record proxy_log_record =
  lg_method :: string
  lg_pathTemplate :: string
  lg_status :: int
  lg_durationMs :: int
  lg_bytes :: nat
  lg_outcome :: "proxy_outcome option"

definition formatProxyLogLine :: "proxy_log_record \<Rightarrow> string" where
  "formatProxyLogLine r =
     stringify (JObj
       ([(''event'', JStr ''api_proxy_request''), (''method'', JStr (lg_method r)),
         (''path'', JStr (lg_pathTemplate r)), (''status'', JNum (JInt (lg_status r))),
         (''duration_ms'', JNum (JInt (lg_durationMs r))),
         (''bytes'', JNum (JInt (int (lg_bytes r))))]
        @ (case lg_outcome r of
             Some x \<Rightarrow> [(''outcome'', JStr (outcome_text x))] | None \<Rightarrow> [])))"

section \<open>Counting the streamed bytes\<close>

text \<open>What happens to the body on its way: a chunk passes, the pipe closes or fails, or the
  browser's request is aborted. \<open>bc_calls\<close> are the calls of \<open>done\<close>.\<close>

datatype stream_event = Chunk nat | Pipe_closed | Pipe_failed | Client_aborted

record byte_counter =
  bc_bytes :: nat
  bc_settled :: bool
  bc_calls :: "nat list"

definition settle :: "byte_counter \<Rightarrow> byte_counter" where
  "settle c =
     (if bc_settled c then c
      else c\<lparr>bc_settled := True, bc_calls := bc_calls c @ [bc_bytes c]\<rparr>)"

fun count_step :: "byte_counter \<Rightarrow> stream_event \<Rightarrow> byte_counter" where
  "count_step c (Chunk n) = c\<lparr>bc_bytes := bc_bytes c + n\<rparr>"
| "count_step c Pipe_closed = settle c"
| "count_step c Pipe_failed = settle c"
| "count_step c Client_aborted = settle c"

definition new_counter :: byte_counter where
  "new_counter = \<lparr>bc_bytes = 0, bc_settled = False, bc_calls = []\<rparr>"

definition countStreamedBytes :: "bool \<Rightarrow> stream_event list \<Rightarrow> byte_counter" where
  "countStreamedBytes hasBody events =
     (if \<not> hasBody then settle new_counter else runs count_step new_counter events)"

section \<open>The upstream address\<close>

record base_url =
  bu_protocol :: string
  bu_username :: string
  bu_password :: string
  bu_href :: string

record upstream_url =
  up_path :: string
  up_base :: string
  up_search :: string

definition ends_with_slash :: "string \<Rightarrow> bool" where
  "ends_with_slash s \<longleftrightarrow> s \<noteq> [] \<and> last s = CHR ''/''"

text \<open>\<open>url\<close> is the constructor on one argument; the result is what it is called with for the
  relative reference, and the query that is then set.\<close>

definition buildUpstreamUrl ::
  "(string \<Rightarrow> base_url option) \<Rightarrow> string option \<Rightarrow> string \<Rightarrow> string list \<Rightarrow> upstream_url option"
where
  "buildUpstreamUrl url internalBase search path =
     (case url (case internalBase of Some b \<Rightarrow> b | None \<Rightarrow> ''http://localhost:8000'') of
        None \<Rightarrow> None
      | Some base \<Rightarrow>
          if bu_protocol base \<notin> {''http:'', ''https:''} then None
          else if bu_username base \<noteq> [] \<or> bu_password base \<noteq> [] then None
          else Some \<lparr>up_path = join ''/'' (map encodeURIComponent path),
                     up_base = (if ends_with_slash (bu_href base) then bu_href base
                                else bu_href base @ ''/''),
                     up_search = search\<rparr>)"

section \<open>The request\<close>

definition REQUEST_HEADERS :: "string list" where
  "REQUEST_HEADERS = [''accept'', ''content-type'', ''last-event-id'']"

definition RESPONSE_HEADERS :: "string list" where
  "RESPONSE_HEADERS =
     [''cache-control'', ''content-disposition'', ''content-type'', ''retry-after'',
      ''www-authenticate'', ''x-accel-buffering'']"

definition allowed :: "string list \<Rightarrow> headers \<Rightarrow> headers" where
  "allowed names h = (\<lambda>n. if n \<in> set names then h n else None)"

text \<open>A browser request; the body is \<open>None\<close> when reading it rejects, the path when the route
  parameters do.\<close>

record browser_request =
  br_method :: string
  br_headers :: headers
  br_search :: string
  br_path :: "string list option"
  br_body :: "string option"

record upstream_request =
  ur_url :: upstream_url
  ur_method :: string
  ur_headers :: headers
  ur_body :: "string option"

record upstream_response =
  us_status :: int
  us_headers :: headers
  us_hasBody :: bool

record proxy_env =
  px_url :: "string \<Rightarrow> base_url option"
  px_internalBase :: "string option"
  px_server :: server_env
  px_parse :: "string \<Rightarrow> json option"

datatype proxy_response =
    Local_answer int string
  | Streamed int headers
  | Handler_throws

record proxy_result =
  pr_sent :: "upstream_request option"
  pr_response :: proxy_response
  pr_log :: "proxy_log_record list"

definition proxy_log :: "browser_request \<Rightarrow> string list \<Rightarrow> int \<Rightarrow> int \<Rightarrow> nat \<Rightarrow> proxy_outcome option
    \<Rightarrow> proxy_log_record"
where
  "proxy_log req segments durationMs status bytes outcome =
     \<lparr>lg_method = br_method req, lg_pathTemplate = proxy_pathTemplate segments, lg_status = status,
      lg_durationMs = durationMs, lg_bytes = bytes, lg_outcome = outcome\<rparr>"

text \<open>
  The value \<open>Headers.set\<close> stores: without the white space around it; one with a NUL or a line break
  inside is refused with a \<open>TypeError\<close> (so is a character beyond U+00FF, which the alphabet lacks).
\<close>

definition http_space :: "char \<Rightarrow> bool" where
  "http_space c \<longleftrightarrow> c \<in> {CHR 0x09, CHR 0x0A, CHR 0x0D, CHR 0x20}"

definition header_value :: "string \<Rightarrow> string option" where
  "header_value v =
     (let w = rev (dropWhile http_space (rev (dropWhile http_space v)))
      in if list_ex (\<lambda>c. c \<in> {CHR 0x00, CHR 0x0A, CHR 0x0D}) w then None else Some w)"

text \<open>\<open>proxyRequest\<close>: \<open>upstream\<close> is what \<open>fetch\<close> settles with (\<open>None\<close> when it rejects), \<open>events\<close>
  what happens to the streamed body, \<open>durationMs\<close> the time between entry and the log line.\<close>

definition proxyRequest ::
  "(string \<Rightarrow> 'd) \<Rightarrow> proxy_env \<Rightarrow> browser_request \<Rightarrow> upstream_response option
     \<Rightarrow> stream_event list \<Rightarrow> int \<Rightarrow> principal_state \<Rightarrow> principal_state \<times> proxy_result"
where
  "proxyRequest digest px req upstream events durationMs s =
     (let segments = (case br_path req of Some p \<Rightarrow> p | None \<Rightarrow> []);
          address = Option.bind (br_path req)
            (buildUpstreamUrl (px_url px) (px_internalBase px) (br_search req))
      in case address of
        None \<Rightarrow>
          (s, \<lparr>pr_sent = None, pr_response = Local_answer 503 ''api_proxy_misconfigured'',
               pr_log = [proxy_log req segments durationMs 503 0 (Some PO_misconfigured)]\<rparr>)
      | Some url \<Rightarrow>
          (case resolveUpstreamPrincipal digest (px_parse px) (px_server px) (br_headers req) s of
             (t, Unresolved f) \<Rightarrow>
               (t, \<lparr>pr_sent = None, pr_response = Local_answer 503 ''pilot_principal_unresolved'',
                    pr_log = [proxy_log req segments durationMs 503 0
                                (Some PO_principal_unresolved)]\<rparr>)
           | (t, Principal cred) \<Rightarrow>
               (let hs = allowed REQUEST_HEADERS (br_headers req);
                    refused = (case cred of
                             Some p \<Rightarrow> header_value (pe_apiKey p) = None | None \<Rightarrow> False);
                    hs' = (case cred of
                             Some p \<Rightarrow> hs(''x-api-key'' := header_value (pe_apiKey p)) | None \<Rightarrow> hs);
                    hasBody = (br_method req \<noteq> ''GET'' \<and> br_method req \<noteq> ''HEAD'')
                in if refused \<or> hasBody \<and> br_body req = None
                   then (t, \<lparr>pr_sent = None, pr_response = Handler_throws, pr_log = []\<rparr>)
                   else let sent = Some \<lparr>ur_url = url, ur_method = br_method req, ur_headers = hs',
                                         ur_body = (if hasBody then br_body req else None)\<rparr>
                        in case upstream of
                          None \<Rightarrow>
                            (t, \<lparr>pr_sent = sent,
                                 pr_response = Local_answer 502 ''api_upstream_unavailable'',
                                 pr_log = [proxy_log req segments durationMs 502 0
                                             (Some PO_upstream_unavailable)]\<rparr>)
                        | Some r \<Rightarrow>
                            (t, \<lparr>pr_sent = sent,
                                 pr_response = Streamed (us_status r)
                                   (allowed RESPONSE_HEADERS (us_headers r)),
                                 pr_log = map (\<lambda>bytes. proxy_log req segments durationMs
                                              (us_status r) bytes None)
                                   (bc_calls (countStreamedBytes (us_hasBody r) events))\<rparr>))))"

section \<open>The content security policy\<close>

datatype csp_mode = Csp_enforce | Csp_report_only | Csp_off

definition NONCE_HEADER :: string where
  "NONCE_HEADER = ''x-nonce''"

definition CSP_HEADER :: string where
  "CSP_HEADER = ''content-security-policy''"

definition CSP_REPORT_ONLY_HEADER :: string where
  "CSP_REPORT_ONLY_HEADER = ''content-security-policy-report-only''"

definition quoted :: "string \<Rightarrow> string" where
  "quoted s = CHR 0x27 # s @ [CHR 0x27]"

text \<open>A directive: its name and its value, where \<open>{nonce}\<close> stands for the nonce of the request.\<close>

definition DIRECTIVES :: "(string \<times> string) list" where
  "DIRECTIVES =
     [(''default-src'', quoted ''self''),
      (''script-src'', quoted ''self'' @ '' '' @ quoted ''nonce-{nonce}'' @ '' ''
          @ quoted ''strict-dynamic''),
      (''style-src'', quoted ''self''),
      (''style-src-attr'', quoted ''unsafe-inline''),
      (''img-src'', quoted ''self'' @ '' data:''),
      (''font-src'', quoted ''self''),
      (''connect-src'', quoted ''self''),
      (''frame-ancestors'', quoted ''none''),
      (''base-uri'', quoted ''none''),
      (''object-src'', quoted ''none''),
      (''form-action'', quoted ''self'')]"

text \<open>\<open>s.replace(p, r)\<close> with a string pattern, for a replacement without a dollar sign.\<close>

definition replace_first :: "string \<Rightarrow> string \<Rightarrow> string \<Rightarrow> string" where
  "replace_first s p r =
     (case index_of p s of None \<Rightarrow> s | Some k \<Rightarrow> take k s @ r @ drop (k + length p) s)"

definition buildCspPolicy :: "string \<Rightarrow> string" where
  "buildCspPolicy nonce =
     join ''; '' (map (\<lambda>(name, v). name @ '' '' @ replace_first v ''{nonce}'' nonce) DIRECTIVES)"

definition cspDirectiveNames :: "string list" where
  "cspDirectiveNames = map fst DIRECTIVES"

fun cspHeaderName :: "csp_mode \<Rightarrow> string option" where
  "cspHeaderName Csp_enforce = Some CSP_HEADER"
| "cspHeaderName Csp_report_only = Some CSP_REPORT_ONLY_HEADER"
| "cspHeaderName Csp_off = None"

definition cspModeFor :: "(string \<Rightarrow> string option) \<Rightarrow> csp_mode" where
  "cspModeFor env =
     (if env ''CSP_MODE'' = Some ''report-only'' then Csp_report_only
      else if env ''CSP_MODE'' = Some ''enforce'' then Csp_enforce
      else if env ''CSP_MODE'' = Some ''off'' then Csp_off
      else if env ''NODE_ENV'' = Some ''development'' then Csp_off else Csp_enforce)"

text \<open>\<open>btoa\<close>, and the nonce of sixteen random bytes.\<close>

definition base64_char :: "nat \<Rightarrow> char" where
  "base64_char n =
     (if n < 26 then char_of (65 + n) else if n < 52 then char_of (71 + n)
      else if n < 62 then char_of (n - 4) else if n = 62 then CHR ''+'' else CHR ''/'')"

fun btoa :: "nat list \<Rightarrow> string" where
  "btoa [] = []"
| "btoa [a] = [base64_char (a div 4), base64_char (a mod 4 * 16), CHR ''='', CHR ''='']"
| "btoa [a, b] = [base64_char (a div 4), base64_char (a mod 4 * 16 + b div 16),
                  base64_char (b mod 16 * 4), CHR ''='']"
| "btoa (a # b # c # bs) =
     base64_char (a div 4) # base64_char (a mod 4 * 16 + b div 16)
     # base64_char (b mod 16 * 4 + c div 64) # base64_char (c mod 64) # btoa bs"

definition createNonce :: "nat list \<Rightarrow> string" where
  "createNonce random = btoa random"

text \<open>What the middleware passes on: the request headers the renderer sees, and the headers it
  sets on the response.\<close>

definition middleware ::
  "(string \<Rightarrow> string option) \<Rightarrow> nat list \<Rightarrow> headers \<Rightarrow> headers \<times> headers"
where
  "middleware env random h =
     (case cspHeaderName (cspModeFor env) of
        None \<Rightarrow> (h, Map.empty)
      | Some headerName \<Rightarrow>
          let nonce = createNonce random; policy = buildCspPolicy nonce
          in (h(NONCE_HEADER \<mapsto> nonce, headerName \<mapsto> policy), [headerName \<mapsto> policy]))"

section \<open>Laws\<close>

definition is_chunk :: "stream_event \<Rightarrow> bool" where
  "is_chunk e \<longleftrightarrow> (case e of Chunk _ \<Rightarrow> True | _ \<Rightarrow> False)"

fun chunk_size :: "stream_event \<Rightarrow> nat" where
  "chunk_size (Chunk n) = n"
| "chunk_size _ = 0"

lemma settled_is_final: "bc_settled c \<Longrightarrow> bc_calls (runs count_step c es) = bc_calls c"
proof (induction es arbitrary: c)
  case Nil
  then show ?case by simp
next
  case (Cons e es)
  have "bc_settled (count_step c e) \<and> bc_calls (count_step c e) = bc_calls c"
    using Cons.prems by (cases e) (simp_all add: settle_def)
  then show ?case using Cons.IH [of "count_step c e"] by simp
qed

lemma counter_calls:
  "\<not> bc_settled c \<Longrightarrow> bc_calls (runs count_step c es) =
     bc_calls c @ (if list_all is_chunk es then []
       else [bc_bytes c + sum_list (map chunk_size (takeWhile is_chunk es))])"
proof (induction es arbitrary: c)
  case Nil
  then show ?case by simp
next
  case (Cons e es)
  show ?case
  proof (cases e)
    case (Chunk n)
    then show ?thesis
      using Cons.IH [of "count_step c e"] Cons.prems by (simp add: is_chunk_def)
  qed (use Cons.prems in \<open>simp_all add: is_chunk_def settle_def settled_is_final\<close>)
qed

text \<open>A counter calls \<open>done\<close> at most once, and never before it settled.\<close>

definition counter_ok :: "byte_counter \<Rightarrow> bool" where
  "counter_ok c \<longleftrightarrow> length (bc_calls c) = (if bc_settled c then 1 else 0)"

interpretation counter: reducer count_step new_counter counter_ok
proof
  show "counter_ok new_counter"
    by (simp add: counter_ok_def new_counter_def)
  show "counter_ok (count_step c e)" if "counter_ok c" for c e
    using that by (cases e) (simp_all add: counter_ok_def settle_def)
qed

lemma counted_bytes:
  "bc_calls (countStreamedBytes hasBody es) =
     (if \<not> hasBody then [0] else if list_all is_chunk es then []
      else [sum_list (map chunk_size (takeWhile is_chunk es))])"
  by (simp add: countStreamedBytes_def settle_def new_counter_def counter_calls)

lemma done_at_most_once: "length (bc_calls (countStreamedBytes hasBody es)) \<le> 1"
  using counter.inv_from_init [of es]
  by (simp add: countStreamedBytes_def settle_def new_counter_def counter_ok_def)

lemma resolution_reads_two_headers:
  "h PILOT_EDGE_KEY_HEADER = h' PILOT_EDGE_KEY_HEADER \<Longrightarrow> h PILOT_USER_HEADER = h' PILOT_USER_HEADER
     \<Longrightarrow> resolvePilotPrincipal digest c h = resolvePilotPrincipal digest c h'"
  by (cases c) (simp_all add: edge_vouches_def)

lemma principal_reads_two_headers:
  "h PILOT_EDGE_KEY_HEADER = h' PILOT_EDGE_KEY_HEADER \<Longrightarrow> h PILOT_USER_HEADER = h' PILOT_USER_HEADER
     \<Longrightarrow> resolveUpstreamPrincipal digest parse env h s
       = resolveUpstreamPrincipal digest parse env h' s"
proof -
  assume h: "h PILOT_EDGE_KEY_HEADER = h' PILOT_EDGE_KEY_HEADER"
      "h PILOT_USER_HEADER = h' PILOT_USER_HEADER"
  show ?thesis
    unfolding resolveUpstreamPrincipal_def resolution_reads_two_headers [OF h] ..
qed

lemma other_headers_kept:
  "n \<notin> {PILOT_EDGE_KEY_HEADER, PILOT_USER_HEADER}
     \<Longrightarrow> resolveUpstreamPrincipal digest parse env (h(n := v)) s
       = resolveUpstreamPrincipal digest parse env h s"
  by (rule principal_reads_two_headers) auto

lemma template_segments_known:
  "split_on CHR ''/'' (proxy_pathTemplate segs) =
     (if segs = [] then [[], []]
      else [] # map (\<lambda>s. if s \<in> set LITERAL_SEGMENTS then s else REDACTED_SEGMENT) segs)"
proof -
  have "CHR ''/'' \<notin> set w" if "w \<in> set LITERAL_SEGMENTS \<or> w = REDACTED_SEGMENT" for w
    using that by (auto simp: LITERAL_SEGMENTS_def REDACTED_SEGMENT_def)
  then show ?thesis
    by (cases "segs = []") (auto simp: proxy_pathTemplate_def intro!: split_on_join)
qed

lemma index_of_skip: "p \<noteq> [] \<Longrightarrow> hd p \<notin> set s \<Longrightarrow>
  index_of p (s @ p @ t) = Some (length s)"
proof (induction s)
  case Nil
  then show ?case
  proof (cases "p @ t")
    case (Cons c cs)
    then have "starts_with p (c # cs)" using starts_with_append [of p t] by simp
    then show ?thesis using Cons Nil by simp
  qed simp
next
  case (Cons c cs)
  then show ?case by (cases p) auto
qed

section \<open>Properties\<close>

text \<open>
  C16. The proxy is a credential boundary: whatever the browser sends, an upstream request carries
  of its headers exactly the three allowed ones, and its \<open>X-API-Key\<close> is the one of the principal
  this request resolved to, as a header stores it, or absent when it resolved to none (a key that no
  header can carry is sent nowhere: the handler throws); an \<open>X-API-Key\<close> of the browser's changes nothing at all;
  and what is streamed back has the upstream's status and of its headers exactly the six
  allowed ones, so no cookie is ever set.
\<close>

theorem proxy_is_a_credential_boundary:
  "let (t, r) = proxyRequest digest px req upstream events d s;
       resolved = snd (resolveUpstreamPrincipal digest (px_parse px) (px_server px) (br_headers req) s)
   in (case pr_sent r of
         None \<Rightarrow> True
       | Some u \<Rightarrow>
           (\<forall>n. ur_headers u n =
              (if n = ''x-api-key''
               then (case resolved of
                       Principal (Some p) \<Rightarrow> header_value (pe_apiKey p) | _ \<Rightarrow> None)
               else if n \<in> {''accept'', ''content-type'', ''last-event-id''} then br_headers req n
               else None))
           \<and> (case resolved of
                Unresolved f \<Rightarrow> False
              | Principal c \<Rightarrow> (case c of None \<Rightarrow> True | Some p \<Rightarrow> header_value (pe_apiKey p) \<noteq> None)))
    \<and> (case pr_response r of
         Streamed status hs \<Rightarrow>
           map_option us_status upstream = Some status
           \<and> map_option (\<lambda>u. allowed RESPONSE_HEADERS (us_headers u)) upstream = Some hs
           \<and> hs ''set-cookie'' = None
       | _ \<Rightarrow> True)
    \<and> proxyRequest digest px (req\<lparr>br_headers := (br_headers req)(''x-api-key'' := key)\<rparr>)
        upstream events d s = (t, r)"
proof -
  have other: "resolveUpstreamPrincipal digest parse env (h(''x-api-key'' := key)) q
      = resolveUpstreamPrincipal digest parse env h q" for parse env h q
    by (rule other_headers_kept) (simp add: PILOT_EDGE_KEY_HEADER_def PILOT_USER_HEADER_def)
  have same: "allowed REQUEST_HEADERS (h(''x-api-key'' := key)) = allowed REQUEST_HEADERS h" for h
    by (auto simp: allowed_def REQUEST_HEADERS_def)
  have "proxyRequest digest px (req\<lparr>br_headers := (br_headers req)(''x-api-key'' := key)\<rparr>)
      upstream events d s = proxyRequest digest px req upstream events d s"
    by (simp add: proxyRequest_def proxy_log_def Let_def other same
        cong: option.case_cong prod.case_cong principal_result.case_cong if_cong)
  moreover have "allowed RESPONSE_HEADERS h ''set-cookie'' = None" for h
    by (simp add: allowed_def RESPONSE_HEADERS_def)
  ultimately show ?thesis
    by (auto simp: proxyRequest_def Let_def allowed_def REQUEST_HEADERS_def
        split: option.split prod.split principal_result.split)
qed

text \<open>
  One log line per proxied request, without an id in it: a local answer is logged with its own
  status and no bytes; a response with a body is logged exactly once, when the pipe closes or
  fails or the browser aborts, with the bytes that had passed by then, and a bodiless one at
  once. The path in the line consists of contract words and placeholders only. The exception is
  a request whose body cannot be read, or a principal's key that no header can carry: the handler
  throws and no line is written.
\<close>

lemma one_log_line_per_request:
  "let (t, r) = proxyRequest digest px req upstream events d s;
       segments = (case br_path req of Some p \<Rightarrow> p | None \<Rightarrow> []);
       line = proxy_log req segments d
   in (case pr_response r of
         Local_answer status text \<Rightarrow> (\<exists>x. pr_log r = [line status 0 (Some x)])
       | Streamed status hs \<Rightarrow>
           pr_log r =
             (if map_option us_hasBody upstream = Some False then [line status 0 None]
              else if list_all is_chunk events then []
              else [line status (sum_list (map chunk_size (takeWhile is_chunk events))) None])
       | Handler_throws \<Rightarrow> pr_log r = []
           \<and> (br_body req = None
              \<or> (case snd (resolveUpstreamPrincipal digest (px_parse px) (px_server px) (br_headers req) s) of
                   Principal (Some p) \<Rightarrow> header_value (pe_apiKey p) = None | _ \<Rightarrow> False)))
    \<and> list_all (\<lambda>l. list_all (\<lambda>w. w = [] \<or> w = ''{id}'' \<or> w \<in> set LITERAL_SEGMENTS)
         (split_on CHR ''/'' (lg_pathTemplate l))) (pr_log r)"
proof -
  have words: "list_all (\<lambda>w. w = [] \<or> w = ''{id}'' \<or> w \<in> set LITERAL_SEGMENTS)
      (split_on CHR ''/'' (proxy_pathTemplate segs))" for segs
    by (auto simp: template_segments_known list_all_iff REDACTED_SEGMENT_def)
  then have line: "list_all (\<lambda>w. w = [] \<or> w = ''{id}'' \<or> w \<in> set LITERAL_SEGMENTS)
      (split_on CHR ''/'' (lg_pathTemplate (proxy_log req segs d st b x)))" for segs st b x
    by (simp add: proxy_log_def)
  show ?thesis
    by (auto simp: proxyRequest_def Let_def line counted_bytes
        split: option.split prod.split principal_result.split)
qed

lemma buildCspPolicy_text:
  "buildCspPolicy nonce =
     ''default-src '' @ quoted ''self'' @ ''; script-src '' @ quoted ''self'' @ '' ''
     @ quoted (''nonce-'' @ nonce) @ '' '' @ quoted ''strict-dynamic''
     @ ''; style-src '' @ quoted ''self'' @ ''; style-src-attr '' @ quoted ''unsafe-inline''
     @ ''; img-src '' @ quoted ''self'' @ '' data:; font-src '' @ quoted ''self''
     @ ''; connect-src '' @ quoted ''self'' @ ''; frame-ancestors '' @ quoted ''none''
     @ ''; base-uri '' @ quoted ''none'' @ ''; object-src '' @ quoted ''none''
     @ ''; form-action '' @ quoted ''self''"
  by (simp add: buildCspPolicy_def DIRECTIVES_def replace_first_def quoted_def)

end
