(* ===== verification/Copy_Errors.thy ===== *)
theory Copy_Errors
  imports Plan_Schema Copy_Trace
begin

text \<open>
  The failure half of the copy dictionary, \<open>web/lib/copy/errors.ts\<close>: what a surface says about a
  failed request (\<open>ApiFailure\<close>) and about a failed run (\<open>error_type\<close>). \<open>null\<close> and \<open>undefined\<close>
  are both \<open>None\<close>; the empty string is tested for where the source tests for it.
\<close>

section \<open>Failures of a request\<close>

datatype status_severity = Sev_info | Sev_review | Sev_live | Sev_warning | Sev_critical

fun SEVERITY_WORD :: "status_severity \<Rightarrow> string" where
  "SEVERITY_WORD Sev_info = ''Note''"
| "SEVERITY_WORD Sev_review = ''Review''"
| "SEVERITY_WORD Sev_live = ''Live''"
| "SEVERITY_WORD Sev_warning = ''Attention''"
| "SEVERITY_WORD Sev_critical = ''Failed''"

record failure_copy =
  cp_severity :: status_severity
  cp_word :: string
  cp_sentence :: string
  cp_recovery :: string

definition failure_entry ::
  "status_severity \<Rightarrow> string \<Rightarrow> string \<Rightarrow> string \<Rightarrow> failure_copy"
where
  "failure_entry severity word sentence recovery =
     \<lparr>cp_severity = severity, cp_word = word, cp_sentence = sentence, cp_recovery = recovery\<rparr>"

fun FAILURE_COPY :: "api_failure_kind \<Rightarrow> failure_copy" where
  "FAILURE_COPY K_unauthorized =
     failure_entry Sev_critical ''Not accepted''
       ''This deployment is not accepting requests from this server.''
       (''An operator has to fix the deployment'' @ [CHR 0x27] @ ''s API key. There is nothing on this page to change.'')"
| "FAILURE_COPY K_not_found =
     failure_entry Sev_info ''Not available''
       ''That record is not available.''
       ''It may never have existed, or it may belong to another principal. The API answers the same way for both.''"
| "FAILURE_COPY K_conflict =
     failure_entry Sev_warning ''Already resolved''
       ''This action is no longer available for this run.''
       ''Reload to see where the run actually got to.''"
| "FAILURE_COPY K_rate_limited =
     failure_entry Sev_warning ''Rate limited''
       ''This workspace has used its hourly research budget.''
       ''Wait for the window to reset, then ask again.''"
| "FAILURE_COPY K_validation =
     failure_entry Sev_warning ''Needs a change''
       ''The server rejected this as invalid.''
       ''Fix the highlighted field and send it again.''"
| "FAILURE_COPY K_upstream_unavailable =
     failure_entry Sev_critical ''Unreachable''
       ''The research service is not reachable.''
       ''Nothing was started. Try again once it answers.''"
| "FAILURE_COPY K_proxy_misconfigured =
     failure_entry Sev_critical ''Misconfigured''
       ''This site cannot reach the research service, because its own server is missing the settings it needs.''
       ''An operator has to fix the deployment. Retrying will not help.''"
| "FAILURE_COPY K_server_error =
     failure_entry Sev_critical ''Server error''
       ''The server could not complete this request.''
       ''Try again. If it keeps happening, copy the diagnostics into an issue.''"
| "FAILURE_COPY K_offline =
     failure_entry Sev_warning ''No connection''
       ''The server could not be reached from this browser.''
       ''Check the connection, then try again by hand.''"
| "FAILURE_COPY K_timeout =
     failure_entry Sev_warning ''No answer''
       ''The server did not answer in time, so the request was dropped.''
       ''Try again by hand. Nothing is retried for you.''"
| "FAILURE_COPY K_cancelled =
     failure_entry Sev_info ''Cancelled''
       ''The request was cancelled before it finished.''
       ''Ask again when you are ready.''"
| "FAILURE_COPY K_unknown =
     failure_entry Sev_critical ''Unexpected''
       ''Something went wrong that this page does not recognise.''
       ''Copy the diagnostics into an issue; they carry the raw response.''"

fun JOB_STATUS_WORD :: "job_status \<Rightarrow> string" where
  "JOB_STATUS_WORD St_pending = ''queued''"
| "JOB_STATUS_WORD St_running = ''running''"
| "JOB_STATUS_WORD St_pending_review = ''waiting for your review''"
| "JOB_STATUS_WORD St_awaiting_learner = ''waiting for your response''"
| "JOB_STATUS_WORD St_succeeded = ''complete''"
| "JOB_STATUS_WORD St_failed = ''failed''"
| "JOB_STATUS_WORD St_cancelled = ''cancelled''"

definition JOB_STATUSES :: "job_status list" where
  "JOB_STATUSES = [St_pending, St_running, St_pending_review, St_awaiting_learner, St_succeeded,
     St_failed, St_cancelled]"

text \<open>\<open>Math.trunc(Math.abs(x))\<close>: a fraction prints an exponent only when it is below one.\<close>

fun trunc_abs :: "jnum \<Rightarrow> nat" where
  "trunc_abs (JInt i) = nat \<bar>i\<bar>"
| "trunc_abs (JFrac t) =
     (if CHR ''e'' \<in> set t then 0
      else digits_value 0 (case t of c # cs \<Rightarrow> if c = CHR ''-'' then cs else t | [] \<Rightarrow> []))"

definition failure_groupDigits :: "jnum \<Rightarrow> string" where
  "failure_groupDigits v = commas (show_nat (trunc_abs v))"

text \<open>\<open>Math.ceil(n / d)\<close> of an integer.\<close>

definition ceil_div :: "int \<Rightarrow> int \<Rightarrow> int" where
  "ceil_div n d = (n + d - 1) div d"

definition about :: "int \<Rightarrow> string \<Rightarrow> string" where
  "about n u = ''about '' @ show_int n @ '' '' @ u @ (if n = 1 then [] else ''s'')"

definition retryAfterPhrase :: "int \<Rightarrow> string" where
  "retryAfterPhrase retryAfterSec =
     (let seconds = max 1 retryAfterSec
      in if seconds < 60 then about seconds ''second''
         else let minutes = ceil_div seconds 60
              in if minutes < 60 then about minutes ''minute''
                 else about (ceil_div minutes 60) ''hour'')"

definition rateLimitCeiling :: "jnum \<Rightarrow> string" where
  "rateLimitCeiling limitPerHour =
     ''This key allows '' @ failure_groupDigits limitPerHour @ '' request''
       @ (if limitPerHour = JInt 1 then [] else ''s'') @ '' an hour.''"

definition rateLimitRecovery :: "int \<Rightarrow> jnum option \<Rightarrow> string" where
  "rateLimitRecovery retryAfterSec limitPerHour =
     (let wait = ''Try again in '' @ retryAfterPhrase retryAfterSec @ ''.''
      in case limitPerHour of None \<Rightarrow> wait | Some n \<Rightarrow> wait @ '' '' @ rateLimitCeiling n)"

definition validationRecovery :: "field_issue list \<Rightarrow> string" where
  "validationRecovery flds =
     (case filter (\<lambda>f. fi_path f \<noteq> []) flds of
        [] \<Rightarrow> cp_recovery (FAILURE_COPY K_validation)
      | [only] \<Rightarrow> fi_path only @ '': '' @ fi_message only @ ''.''
      | named \<Rightarrow> show_nat (length named) @ '' fields need a change: ''
                   @ join '', '' (map fi_path named) @ ''.'')"

definition status_word :: "string \<Rightarrow> string" where
  "status_word wire =
     (case map_of (map (\<lambda>s. (status_text s, JOB_STATUS_WORD s)) JOB_STATUSES) wire of
        Some w \<Rightarrow> w | None \<Rightarrow> NOT_REPORTED)"

definition describeFailure :: "api_failure \<Rightarrow> failure_copy" where
  "describeFailure flr =
     (let base = FAILURE_COPY (failure_kind flr)
      in case flr of
           AF_rate_limited c wait limit \<Rightarrow> base\<lparr>cp_recovery := rateLimitRecovery wait limit\<rparr>
         | AF_validation c flds \<Rightarrow> base\<lparr>cp_recovery := validationRecovery flds\<rparr>
         | AF_conflict c (Some state) \<Rightarrow>
             base\<lparr>cp_sentence := ''This action is no longer available: the run'' @ [CHR 0x27]
                    @ ''s status is '' @ status_word state @ ''.''\<rparr>
         | _ \<Rightarrow> base)"

section \<open>Failures of a run\<close>

record error_type_copy =
  ec_sentence :: string
  ec_recovery :: string

definition error_entry :: "string \<Rightarrow> string \<Rightarrow> error_type_copy" where
  "error_entry sentence recovery = \<lparr>ec_sentence = sentence, ec_recovery = recovery\<rparr>"

definition ERROR_TYPE_COPY :: "(string \<times> error_type_copy) list" where
  "ERROR_TYPE_COPY =
     [(''hitl_timeout'', error_entry
         ''The plan was not reviewed in time, so the run stopped.''
         ''Ask again to start a new run.''),
      (''session_turn_timeout'', error_entry
         ''The session was waiting for an answer for too long, so it ended.''
         ''Start the session again to carry on from where it stopped.''),
      (''session_cost_cap_refused'', error_entry
         ''The session reached its cost limit before another tutor response.''
         ''Start the session again to continue from the work already recorded.''),
      (''cost_budget_exceeded'', error_entry
         (''The run reached this workspace'' @ [CHR 0x27] @ ''s cost limit.'')
         ''Ask again with a narrower plan.''),
      (''timeout'', error_entry
         ''The run took longer than this workspace allows.''
         ''Ask again with a narrower plan.''),
      (''orphaned'', error_entry
         ''The run was interrupted by a server restart and could not be resumed safely.''
         ''Ask again to start a new run.''),
      (''internal_dead_letter'', error_entry
         ''The run could not be started after several attempts, so it was stopped.''
         ''Ask again with a different question, or copy the diagnostics into an issue.''),
      (''not_found_papers'', error_entry
         ''No matching arXiv papers were found for these queries.''
         ''Ask again and edit the arXiv queries at review.''),
      (''upstream_arxiv'', error_entry
         ''arXiv could not be reached.''
         ''Ask again later.''),
      (''upstream_paper_read'', error_entry
         ''Papers were found but none could be read.''
         ''Ask again and edit the arXiv queries.''),
      (''upstream_model'', error_entry
         ''The model provider could not be reached.''
         ''Ask again in a few minutes.''),
      (''upstream_model_output'', error_entry
         ''The briefing could not be assembled from what was read.''
         ''Ask again to start a new run.''),
      (''cancelled_job'', error_entry
         ''The run was stopped before it finished.''
         ''Ask again to start a new run.''),
      (''internal_unexpected'', error_entry
         ''The run stopped because of a fault on the server.''
         ''Ask again. If it keeps happening, copy the diagnostics into an issue.'')]"

definition MAPPED_ERROR_TYPES :: "string list" where
  "MAPPED_ERROR_TYPES = map fst ERROR_TYPE_COPY"

definition UNMAPPED_ERROR_TYPE_COPY :: error_type_copy where
  "UNMAPPED_ERROR_TYPE_COPY =
     error_entry ''The run failed.'' ''Ask again to start a new run.''"

record error_type_description = error_type_copy +
  ed_errorType :: "string option"
  ed_rawError :: "string option"
  ed_mapped :: bool
  ed_showRawError :: bool

text \<open>\<open>typeof x === "string" && x !== "" ? x : null\<close>.\<close>

definition present :: "string option \<Rightarrow> string option" where
  "present x = (if x = Some [] then None else x)"

definition describeErrorType :: "string option \<Rightarrow> string option \<Rightarrow> error_type_description" where
  "describeErrorType errorType error =
     (let raw = present errorType; rawError = present error
      in case Option.bind raw (map_of ERROR_TYPE_COPY) of
           Some copy \<Rightarrow>
             error_type_copy.extend copy
               \<lparr>ed_errorType = raw, ed_rawError = rawError, ed_mapped = True,
                ed_showRawError = False\<rparr>
         | None \<Rightarrow>
             error_type_copy.extend UNMAPPED_ERROR_TYPE_COPY
               \<lparr>ed_errorType = raw, ed_rawError = rawError, ed_mapped = False,
                ed_showRawError = True\<rparr>)"

record raw_evidence_row =
  re_label :: string
  re_value :: string
  re_present :: bool

definition evidence_row :: "string \<Rightarrow> string option \<Rightarrow> raw_evidence_row" where
  "evidence_row label x =
     \<lparr>re_label = label, re_value = (case present x of Some s \<Rightarrow> s | None \<Rightarrow> NOT_REPORTED),
      re_present = (present x \<noteq> None)\<rparr>"

definition rawErrorEvidence :: "string option \<Rightarrow> string option \<Rightarrow> raw_evidence_row list" where
  "rawErrorEvidence errorType error =
     [evidence_row ''error_type'' errorType, evidence_row ''error'' error]"

section \<open>Laws\<close>

lemma ceil_div_bounds:
  "0 < d \<Longrightarrow> n \<le> d * ceil_div n d \<and> d * ceil_div n d < n + d"
proof -
  assume d: "0 < d"
  have "d * ((n + d - 1) div d) = n + d - 1 - (n + d - 1) mod d"
    by (simp add: minus_mod_eq_mult_div)
  moreover have "0 \<le> (n + d - 1) mod d" "(n + d - 1) mod d < d"
    using d by simp_all
  ultimately show ?thesis by (simp add: ceil_div_def)
qed

lemma status_word_known:
  "status_word wire \<in> insert NOT_REPORTED (JOB_STATUS_WORD ` UNIV)"
  by (auto simp: status_word_def dest!: map_of_SomeD split: option.split)

lemma status_word_text: "status_word (status_text s) = JOB_STATUS_WORD s"
  by (cases s) (simp_all add: status_word_def JOB_STATUSES_def)

section \<open>Properties\<close>

text \<open>
  No backend text reaches a primary sentence. What a surface says about a failed request is
  one of the twelve sentences of the dictionary, chosen by the kind alone, or the conflict
  sentence around one of the seven status words or the qualifier; severity and word depend on
  the kind only. What it says about a failed run is one of the mapped sentences or the generic
  one, while the raw strings are handed on verbatim, and exactly an unmapped run shows them.
\<close>

lemma copy_never_quotes_the_backend:
  "cp_severity (describeFailure f) = cp_severity (FAILURE_COPY (failure_kind f))
   \<and> cp_word (describeFailure f) = cp_word (FAILURE_COPY (failure_kind f))
   \<and> cp_sentence (describeFailure f)
       \<in> insert (cp_sentence (FAILURE_COPY (failure_kind f)))
          ((\<lambda>w. ''This action is no longer available: the run'' @ [CHR 0x27] @ ''s status is ''
                  @ w @ ''.'') ` insert ''not reported'' (range JOB_STATUS_WORD))
   \<and> (let d = describeErrorType errorType error
      in ec_sentence d \<in> insert ''The run failed.'' (ec_sentence ` snd ` set ERROR_TYPE_COPY)
       \<and> ed_errorType d = (if errorType = Some [] then None else errorType)
       \<and> ed_rawError d = (if error = Some [] then None else error)
       \<and> ed_mapped d = (case errorType of
            Some c \<Rightarrow> c \<in> set MAPPED_ERROR_TYPES | None \<Rightarrow> False)
       \<and> ed_showRawError d = (\<not> ed_mapped d))"
proof -
  have keys: "c \<in> set MAPPED_ERROR_TYPES \<longleftrightarrow> map_of ERROR_TYPE_COPY c \<noteq> None" for c
    by (simp add: MAPPED_ERROR_TYPES_def map_of_eq_None_iff)
  have empty: "[] \<notin> set MAPPED_ERROR_TYPES"
    by (simp add: MAPPED_ERROR_TYPES_def ERROR_TYPE_COPY_def)
  have sentence: "ec_sentence c \<in> ec_sentence ` snd ` set ERROR_TYPE_COPY"
    if "map_of ERROR_TYPE_COPY k = Some c" for k c
    using map_of_SomeD [OF that] by force
  have failure: "cp_severity (describeFailure f) = cp_severity (FAILURE_COPY (failure_kind f))
      \<and> cp_word (describeFailure f) = cp_word (FAILURE_COPY (failure_kind f))
      \<and> cp_sentence (describeFailure f)
       \<in> insert (cp_sentence (FAILURE_COPY (failure_kind f)))
          ((\<lambda>w. ''This action is no longer available: the run'' @ [CHR 0x27] @ ''s status is ''
                  @ w @ ''.'') ` insert ''not reported'' (range JOB_STATUS_WORD))"
    using status_word_known
    by (auto simp: describeFailure_def Let_def NOT_REPORTED_def simp del: FAILURE_COPY.simps
        split: api_failure.split option.split)
  have run: "let d = describeErrorType errorType error
      in ec_sentence d \<in> insert ''The run failed.'' (ec_sentence ` snd ` set ERROR_TYPE_COPY)
       \<and> ed_errorType d = (if errorType = Some [] then None else errorType)
       \<and> ed_rawError d = (if error = Some [] then None else error)
       \<and> ed_mapped d = (case errorType of
            Some c \<Rightarrow> c \<in> set MAPPED_ERROR_TYPES | None \<Rightarrow> False)
       \<and> ed_showRawError d = (\<not> ed_mapped d)"
  proof (cases "Option.bind (present errorType) (map_of ERROR_TYPE_COPY)")
    case None
    then show ?thesis
      using empty keys
      by (auto simp: describeErrorType_def Let_def present_def UNMAPPED_ERROR_TYPE_COPY_def
          error_entry_def error_type_copy.defs split: option.split if_splits)
  next
    case (Some c)
    then obtain k where "present errorType = Some k" "map_of ERROR_TYPE_COPY k = Some c"
      by (cases "present errorType") auto
    then show ?thesis
      using sentence [of k c] keys [of k]
      by (auto simp: describeErrorType_def Let_def present_def error_type_copy.defs
          split: option.split if_splits)
  qed
  show ?thesis using failure run by blast
qed

text \<open>
  The wait a rate-limited reader is told is never shorter than the header's and is the least
  such number of whole units: seconds below a minute, else minutes below an hour, else hours;
  and it is at least one.
\<close>

lemma retry_phrase_rounds_up:
  "\<exists>n u secs. retryAfterPhrase s = about n u
     \<and> (u, secs) \<in> {(''second'', 1), (''minute'', 60), (''hour'', 3600)}
     \<and> 1 \<le> n \<and> s \<le> n * secs \<and> (n - 1) * secs < max 1 s \<and> (u = ''hour'' \<or> n < 60)"
proof -
  let ?s = "max 1 s" and ?m = "ceil_div (max 1 s) 60" and ?h = "ceil_div (ceil_div (max 1 s) 60) 60"
  have m: "?s \<le> 60 * ?m" "60 * ?m < ?s + 60" and h: "?m \<le> 60 * ?h" "60 * ?h < ?m + 60"
    using ceil_div_bounds [of 60 ?s] ceil_div_bounds [of 60 ?m] by simp_all
  consider "?s < 60" | "60 \<le> ?s" "?m < 60" | "60 \<le> ?s" "60 \<le> ?m" by linarith
  then show ?thesis
  proof cases
    case 1
    then show ?thesis
      by - (rule exI [of _ ?s], rule exI [of _ "''second''"], rule exI [of _ 1],
           simp add: retryAfterPhrase_def Let_def)
  next
    case 2
    with m show ?thesis
      by - (rule exI [of _ ?m], rule exI [of _ "''minute''"], rule exI [of _ 60],
           simp add: retryAfterPhrase_def Let_def, linarith?)
  next
    case 3
    with m h show ?thesis
      by - (rule exI [of _ ?h], rule exI [of _ "''hour''"], rule exI [of _ 3600],
           simp add: retryAfterPhrase_def Let_def, linarith?)
  qed
qed

end
