(* ===== verification/Query_Cache.thy ===== *)
theory Query_Cache
  imports Complex_Main "HOL-Library.Sublist" Job_Hook Api_Client
begin

text \<open>
  The query layer: \<open>web/lib/queries/keys.ts\<close>, \<open>client.ts\<close>, \<open>job.ts\<close> and the cache half of
  \<open>conversations.ts\<close>. What the hooks hand to the query library (keys, the retry rule, the
  defaults, the updaters) is defined here; the library itself is a parameter: the records
  \<open>infinite_lib\<close> and \<open>query_client\<close> hold the calls the code makes of it, and \<open>infinite_docs\<close> and
  \<open>query_client_docs\<close> what its documentation promises of them.
\<close>

section \<open>Keys\<close>

definition PRINCIPAL :: string where
  "PRINCIPAL = ''shared''"

definition QUERY_RESOURCES :: "string list" where
  "QUERY_RESOURCES = [''conversations'', ''jobs'', ''learnPaths'', ''learnProgress'']"

text \<open>A key is an array of strings; the last place of a list key is the object \<open>{ limit }\<close>.\<close>

datatype key_part = KP string | KP_limit int

type_synonym key = "key_part list"

datatype read_key =
    Conversations_all | Conversations_lists | Conversations_list int | Conversations_details
  | Conversations_detail string
  | Jobs_all | Jobs_details | Jobs_detail string
  | LearnPaths_all | LearnPaths_list | LearnPaths_details | LearnPaths_detail string
  | LearnProgress_all | LearnProgress_summary

fun queryKeys :: "read_key \<Rightarrow> key" where
  "queryKeys Conversations_all = [KP ''conversations'', KP PRINCIPAL]"
| "queryKeys Conversations_lists = [KP ''conversations'', KP PRINCIPAL, KP ''list'']"
| "queryKeys (Conversations_list limit) =
     [KP ''conversations'', KP PRINCIPAL, KP ''list'', KP_limit limit]"
| "queryKeys Conversations_details = [KP ''conversations'', KP PRINCIPAL, KP ''detail'']"
| "queryKeys (Conversations_detail conversationId) =
     [KP ''conversations'', KP PRINCIPAL, KP ''detail'', KP conversationId]"
| "queryKeys Jobs_all = [KP ''jobs'', KP PRINCIPAL]"
| "queryKeys Jobs_details = [KP ''jobs'', KP PRINCIPAL, KP ''detail'']"
| "queryKeys (Jobs_detail job) = [KP ''jobs'', KP PRINCIPAL, KP ''detail'', KP job]"
| "queryKeys LearnPaths_all = [KP ''learnPaths'', KP PRINCIPAL]"
| "queryKeys LearnPaths_list = [KP ''learnPaths'', KP PRINCIPAL, KP ''list'']"
| "queryKeys LearnPaths_details = [KP ''learnPaths'', KP PRINCIPAL, KP ''detail'']"
| "queryKeys (LearnPaths_detail pathId) =
     [KP ''learnPaths'', KP PRINCIPAL, KP ''detail'', KP pathId]"
| "queryKeys LearnProgress_all = [KP ''learnProgress'', KP PRINCIPAL]"
| "queryKeys LearnProgress_summary = [KP ''learnProgress'', KP PRINCIPAL, KP ''summary'']"

datatype write_key = Conversations_create | Conversations_delete | Jobs_review

fun mutationKeys :: "write_key \<Rightarrow> key" where
  "mutationKeys Conversations_create = [KP ''conversations'', KP PRINCIPAL, KP ''create'']"
| "mutationKeys Conversations_delete = [KP ''conversations'', KP PRINCIPAL, KP ''delete'']"
| "mutationKeys Jobs_review = [KP ''jobs'', KP PRINCIPAL, KP ''review'']"

section \<open>The client\<close>

definition RETRYABLE_READ_FAILURES :: "api_failure_kind list" where
  "RETRYABLE_READ_FAILURES = [K_offline, K_timeout, K_upstream_unavailable, K_server_error]"

definition MAX_READ_RETRIES :: nat where
  "MAX_READ_RETRIES = 2"

definition MAX_RETRY_DELAY_MS :: int where
  "MAX_RETRY_DELAY_MS = 8000"

definition DEFAULT_STALE_TIME_MS :: int where
  "DEFAULT_STALE_TIME_MS = 30000"

definition DEFAULT_GC_TIME_MS :: int where
  "DEFAULT_GC_TIME_MS = 5 * 60000"

fun shouldRetryRead :: "nat \<Rightarrow> rejection \<Rightarrow> bool" where
  "shouldRetryRead failureCount (Rej_api e) \<longleftrightarrow>
     failureCount < MAX_READ_RETRIES
     \<and> failure_kind (ae_failure e) \<in> set RETRYABLE_READ_FAILURES"
| "shouldRetryRead failureCount (Rej_other e) \<longleftrightarrow> False"

definition readRetryDelayMs :: "nat \<Rightarrow> int" where
  "readRetryDelayMs attemptIndex = min (1000 * 2 ^ attemptIndex) MAX_RETRY_DELAY_MS"

text \<open>An options object is a map of its members; \<open>{...a, ...b}\<close> is \<open>a ++ b\<close>.\<close>

datatype option_value =
    OV_bool bool | OV_num int | OV_text string
  | OV_retry "nat \<Rightarrow> rejection \<Rightarrow> bool" | OV_delay "nat \<Rightarrow> int"

type_synonym options = "string \<Rightarrow> option_value option"

record default_options =
  do_queries :: "options option"
  do_mutations :: "options option"
  do_rest :: options

record client_config =
  cc_defaultOptions :: "default_options option"
  cc_rest :: options

definition QUERY_CLIENT_DEFAULTS :: default_options where
  "QUERY_CLIENT_DEFAULTS =
     \<lparr>do_queries = Some
        [''staleTime'' \<mapsto> OV_num DEFAULT_STALE_TIME_MS, ''gcTime'' \<mapsto> OV_num DEFAULT_GC_TIME_MS,
         ''retry'' \<mapsto> OV_retry shouldRetryRead, ''retryDelay'' \<mapsto> OV_delay readRetryDelayMs,
         ''refetchOnWindowFocus'' \<mapsto> OV_bool False, ''refetchOnReconnect'' \<mapsto> OV_bool True,
         ''networkMode'' \<mapsto> OV_text ''online''],
      do_mutations = Some [''retry'' \<mapsto> OV_bool False, ''networkMode'' \<mapsto> OV_text ''always''],
      do_rest = Map.empty\<rparr>"

definition members :: "options option \<Rightarrow> options" where
  "members opts = (case opts of Some m \<Rightarrow> m | None \<Rightarrow> Map.empty)"

text \<open>The configuration \<open>new QueryClient\<close> is called with.\<close>

definition createQueryClient :: "client_config \<Rightarrow> client_config" where
  "createQueryClient overrides =
     (let own = (case cc_defaultOptions overrides of
            Some d \<Rightarrow> d
          | None \<Rightarrow> \<lparr>do_queries = None, do_mutations = None, do_rest = Map.empty\<rparr>)
      in overrides\<lparr>cc_defaultOptions := Some
           \<lparr>do_queries = Some (members (do_queries QUERY_CLIENT_DEFAULTS) ++ members (do_queries own)),
            do_mutations = Some (members (do_mutations QUERY_CLIENT_DEFAULTS)
              ++ members (do_mutations own)
              ++ [''retry'' \<mapsto> OV_bool False, ''networkMode'' \<mapsto> OV_text ''always'']),
            do_rest = do_rest QUERY_CLIENT_DEFAULTS ++ do_rest own\<rparr>\<rparr>)"

section \<open>The job poll\<close>

definition query_TERMINAL_JOB_STATUSES :: "job_status list" where
  "query_TERMINAL_JOB_STATUSES = [St_succeeded, St_failed, St_cancelled]"

definition query_isTerminalJobStatus :: "job_status \<Rightarrow> bool" where
  "query_isTerminalJobStatus status \<longleftrightarrow> status \<in> set query_TERMINAL_JOB_STATUSES"

definition JOB_POLL_INTERVAL_MS :: int where
  "JOB_POLL_INTERVAL_MS = 20000"

definition JOB_POLL_SLOW_INTERVAL_MS :: int where
  "JOB_POLL_SLOW_INTERVAL_MS = 60000"

definition JOB_POLL_BACKOFF_AFTER :: nat where
  "JOB_POLL_BACKOFF_AFTER = 5"

definition jobPollIntervalMs :: "nat \<Rightarrow> int" where
  "jobPollIntervalMs polls =
     (if polls \<ge> JOB_POLL_BACKOFF_AFTER then JOB_POLL_SLOW_INTERVAL_MS
      else JOB_POLL_INTERVAL_MS)"

text \<open>The data of a query carries its identity (a number), which is what \<open>===\<close> compares.\<close>

record poll_tracker =
  pt_seen :: "nat option"
  pt_polls :: nat

definition jobRefetchInterval ::
  "(nat \<times> job_detail) option \<Rightarrow> poll_tracker \<Rightarrow> int option \<times> poll_tracker"
where
  "jobRefetchInterval data tracker =
     (case data of
        None \<Rightarrow> (Some JOB_POLL_INTERVAL_MS, tracker)
      | Some (ref, d) \<Rightarrow>
          if query_isTerminalJobStatus (jd_status d) then (None, tracker)
          else let t = (if pt_seen tracker = Some ref
                        then tracker\<lparr>pt_polls := pt_polls tracker + 1\<rparr>
                        else \<lparr>pt_seen = Some ref, pt_polls = 0\<rparr>)
               in (Some (jobPollIntervalMs (pt_polls t)), t))"

text \<open>What \<open>useQuery\<close> is called with: the key, whether it is enabled, whether it polls.\<close>

record query_config =
  qy_key :: key
  qy_enabled :: bool
  qy_polls :: bool

definition useJobDetail :: "string option \<Rightarrow> bool option \<Rightarrow> bool option \<Rightarrow> query_config" where
  "useJobDetail job poll enabled =
     \<lparr>qy_key = queryKeys (Jobs_detail (case job of Some j \<Rightarrow> j | None \<Rightarrow> [])),
      qy_enabled = (job \<noteq> None \<and> (case enabled of Some b \<Rightarrow> b | None \<Rightarrow> True)),
      qy_polls = (poll = Some True)\<rparr>"

section \<open>The review mutation\<close>

datatype review_outcome = RO_accepted json | RO_stale api_failure

text \<open>The field \<open>resumed\<close> of the union: the literal \<open>false\<close> on both branches.\<close>

fun ro_resumed :: "review_outcome \<Rightarrow> bool" where
  "ro_resumed (RO_accepted response) = False"
| "ro_resumed (RO_stale f) = False"

fun isStaleReview :: "review_outcome \<Rightarrow> bool" where
  "isStaleReview (RO_stale f) = True"
| "isStaleReview (RO_accepted response) = False"

text \<open>The mutation function of \<open>useReviewPlan\<close>: \<open>Inl\<close> is what it throws on.\<close>

definition useReviewPlan :: "net \<Rightarrow> string \<Rightarrow> json \<Rightarrow> json_result + review_outcome" where
  "useReviewPlan n job body =
     (case snd (reviewPlan n job body None) of
        J_value response \<Rightarrow> Inr (RO_accepted response)
      | J_api_error e \<Rightarrow>
          if failure_kind (ae_failure e) = K_conflict then Inr (RO_stale (ae_failure e))
          else Inl (J_api_error e)
      | J_unreadable \<Rightarrow> Inl J_unreadable)"

section \<open>Pages of conversations\<close>

record list_item =
  li_conversation_id :: string
  li_title :: string
  li_created_at :: jnum
  li_updated_at :: jnum

definition CONVERSATION_PAGE_SIZE :: int where
  "CONVERSATION_PAGE_SIZE = 50"

definition MAX_CONVERSATION_PAGE_SIZE :: int where
  "MAX_CONVERSATION_PAGE_SIZE = 200"

text \<open>A number of the language: a finite one is a rational.\<close>

datatype js_number = Not_a_number | Infinite bool | Finite rat

definition js_trunc :: "rat \<Rightarrow> int" where
  "js_trunc x = (if 0 \<le> x then \<lfloor>x\<rfloor> else \<lceil>x\<rceil>)"

fun clampConversationPageSize :: "js_number \<Rightarrow> int" where
  "clampConversationPageSize (Finite x) = min (max (js_trunc x) 1) MAX_CONVERSATION_PAGE_SIZE"
| "clampConversationPageSize Not_a_number = CONVERSATION_PAGE_SIZE"
| "clampConversationPageSize (Infinite positive) = CONVERSATION_PAGE_SIZE"

definition fetchConversationPage :: "net \<Rightarrow> int \<Rightarrow> int \<Rightarrow> bool option \<Rightarrow> api_call \<times> json_result" where
  "fetchConversationPage n limit offset signal =
     listConversations n (Some \<lparr>ro_signal = signal, ro_timeoutMs = T_undefined,
       lo_limit = Some limit, lo_offset = Some offset\<rparr>)"

text \<open>\<open>InfiniteData\<close>: the pages and the parameter each was fetched with.\<close>

record conversation_pages =
  pg_pages :: "list_item list list"
  pg_params :: "int list"

definition getNextPageParam :: "int \<Rightarrow> list_item list \<Rightarrow> int \<Rightarrow> int option" where
  "getNextPageParam limit lastPage lastPageParam =
     (if int (length lastPage) < limit then None else Some (lastPageParam + limit))"

text \<open>The calls of an infinite query that the hook makes, for its \<open>getNextPageParam\<close> and its
  query function.\<close>

record infinite_lib =
  il_hasNextPage :: "(list_item list \<Rightarrow> int \<Rightarrow> int option) \<Rightarrow> conversation_pages option \<Rightarrow> bool"
  il_fetchNextPage :: "(list_item list \<Rightarrow> int \<Rightarrow> int option) \<Rightarrow> (int \<Rightarrow> list_item list)
    \<Rightarrow> conversation_pages \<Rightarrow> conversation_pages"

definition infinite_docs :: "infinite_lib \<Rightarrow> bool" where
  "infinite_docs lib \<longleftrightarrow>
     (\<forall>next. \<not> il_hasNextPage lib next None)
   \<and> (\<forall>next ps p qs q. il_hasNextPage lib next (Some \<lparr>pg_pages = ps @ [p], pg_params = qs @ [q]\<rparr>)
        \<longleftrightarrow> next p q \<noteq> None)
   \<and> (\<forall>next fetch ps p qs q r. next p q = Some r \<longrightarrow>
        il_fetchNextPage lib next fetch \<lparr>pg_pages = ps @ [p], pg_params = qs @ [q]\<rparr>
          = \<lparr>pg_pages = ps @ [p, fetch r], pg_params = qs @ [q, r]\<rparr>)"

definition listed :: "conversation_pages option \<Rightarrow> list_item list" where
  "listed data = (case data of Some d \<Rightarrow> concat (pg_pages d) | None \<Rightarrow> [])"

definition canLoadMore :: "infinite_lib \<Rightarrow> int \<Rightarrow> conversation_pages option \<Rightarrow> bool" where
  "canLoadMore lib limit data = il_hasNextPage lib (getNextPageParam limit) data"

text \<open>\<open>loadMore\<close>, called while no page is being fetched, and what the page it asks for leaves.\<close>

definition loadMore ::
  "infinite_lib \<Rightarrow> int \<Rightarrow> (int \<Rightarrow> list_item list) \<Rightarrow> bool \<Rightarrow> conversation_pages \<Rightarrow> conversation_pages"
where
  "loadMore lib limit fetch isFetchingNextPage data =
     (if canLoadMore lib limit (Some data) \<and> \<not> isFetchingNextPage
      then il_fetchNextPage lib (getNextPageParam limit) fetch data else data)"

definition firstPage :: "(int \<Rightarrow> list_item list) \<Rightarrow> conversation_pages" where
  "firstPage fetch = \<lparr>pg_pages = [fetch 0], pg_params = [0]\<rparr>"

section \<open>Writes to the cache\<close>

record job_summary =
  js_job_id :: string
  js_ordinal :: int
  js_query :: string
  js_report :: string
  js_created_at :: jnum

record conversation_detail =
  cd_conversation_id :: string
  cd_title :: string
  cd_created_at :: jnum
  cd_updated_at :: jnum
  cd_jobs :: "job_summary list"

datatype cached = Cached_pages conversation_pages | Cached_detail conversation_detail

record 'c query_client =
  qc_getQueriesData :: "'c \<Rightarrow> key \<Rightarrow> (key \<times> cached option) list"
  qc_getQueryData :: "'c \<Rightarrow> key \<Rightarrow> cached option"
  qc_setQueryData :: "'c \<Rightarrow> key \<Rightarrow> cached option \<Rightarrow> 'c"
  qc_setQueriesData :: "'c \<Rightarrow> key \<Rightarrow> (cached option \<Rightarrow> cached option) \<Rightarrow> 'c"
  qc_removeQueries :: "'c \<Rightarrow> key \<Rightarrow> 'c"
  qc_cancelQueries :: "'c \<Rightarrow> key \<Rightarrow> 'c"
  qc_invalidateQueries :: "'c \<Rightarrow> key \<Rightarrow> 'c"

definition useConversationDetail :: "string option \<Rightarrow> query_config" where
  "useConversationDetail conversationId =
     \<lparr>qy_key = queryKeys (Conversations_detail
        (case conversationId of Some c \<Rightarrow> c | None \<Rightarrow> [])),
      qy_enabled = (conversationId \<noteq> None), qy_polls = False\<rparr>"

definition create_onSuccess :: "'c query_client \<Rightarrow> 'c \<Rightarrow> conversation_detail \<Rightarrow> 'c" where
  "create_onSuccess qc c created =
     qc_invalidateQueries qc
       (qc_setQueryData qc c (queryKeys (Conversations_detail (cd_conversation_id created)))
         (Some (Cached_detail created)))
       (queryKeys Conversations_lists)"

text \<open>The updater of the optimistic delete.\<close>

definition drop_row :: "string \<Rightarrow> conversation_pages \<Rightarrow> conversation_pages" where
  "drop_row conversationId d =
     d\<lparr>pg_pages := map (filter (\<lambda>row. li_conversation_id row \<noteq> conversationId)) (pg_pages d)\<rparr>"

fun without_row :: "string \<Rightarrow> cached option \<Rightarrow> cached option" where
  "without_row conversationId (Some (Cached_pages d)) =
     Some (Cached_pages (drop_row conversationId d))"
| "without_row conversationId data = data"

record delete_context =
  dc_lists :: "(key \<times> cached option) list"
  dc_detail :: "cached option"

definition delete_onMutate :: "'c query_client \<Rightarrow> 'c \<Rightarrow> string \<Rightarrow> 'c \<times> delete_context" where
  "delete_onMutate qc c conversationId =
     (let c1 = qc_cancelQueries qc c (queryKeys Conversations_all);
          lists = qc_getQueriesData qc c1 (queryKeys Conversations_lists);
          detailKey = queryKeys (Conversations_detail conversationId);
          saved = qc_getQueryData qc c1 detailKey;
          c2 = qc_setQueriesData qc c1 (queryKeys Conversations_lists) (without_row conversationId);
          c3 = qc_removeQueries qc c2 detailKey
      in (c3, \<lparr>dc_lists = lists, dc_detail = saved\<rparr>))"

definition delete_onError ::
  "'c query_client \<Rightarrow> 'c \<Rightarrow> string \<Rightarrow> delete_context option \<Rightarrow> 'c"
where
  "delete_onError qc c conversationId ctx =
     (case ctx of
        None \<Rightarrow> c
      | Some x \<Rightarrow>
          (let c1 = foldl (\<lambda>c (key, pages). qc_setQueryData qc c key pages) c (dc_lists x)
           in if dc_detail x \<noteq> None
              then qc_setQueryData qc c1 (queryKeys (Conversations_detail conversationId))
                     (dc_detail x)
              else c1))"

definition delete_onSettled :: "'c query_client \<Rightarrow> 'c \<Rightarrow> 'c" where
  "delete_onSettled qc c = qc_invalidateQueries qc c (queryKeys Conversations_all)"

text \<open>
  What the library documents: a filter key addresses the queries whose keys it is a prefix of; a
  data updater that answers \<open>undefined\<close> changes nothing; cancelling and invalidating leave the
  data alone (a refetch that follows is a later event).
\<close>

definition query_client_docs :: "'c query_client \<Rightarrow> bool" where
  "query_client_docs qc \<longleftrightarrow>
     (\<forall>c f k v. (k, v) \<in> set (qc_getQueriesData qc c f)
        \<longrightarrow> prefix f k \<and> v = qc_getQueryData qc c k)
   \<and> (\<forall>c f k. prefix f k \<longrightarrow> qc_getQueryData qc c k \<noteq> None
        \<longrightarrow> (k, qc_getQueryData qc c k) \<in> set (qc_getQueriesData qc c f))
   \<and> (\<forall>c f. distinct (map fst (qc_getQueriesData qc c f)))
   \<and> (\<forall>c k v k'. qc_getQueryData qc (qc_setQueryData qc c k v) k'
        = (if k' = k \<and> v \<noteq> None then v else qc_getQueryData qc c k'))
   \<and> (\<forall>c f u k. u None = None \<longrightarrow> qc_getQueryData qc (qc_setQueriesData qc c f u) k
        = (if prefix f k \<and> u (qc_getQueryData qc c k) \<noteq> None
           then u (qc_getQueryData qc c k) else qc_getQueryData qc c k))
   \<and> (\<forall>c f k. qc_getQueryData qc (qc_removeQueries qc c f) k
        = (if prefix f k then None else qc_getQueryData qc c k))
   \<and> (\<forall>c f k. qc_getQueryData qc (qc_cancelQueries qc c f) k = qc_getQueryData qc c k)
   \<and> (\<forall>c f k. qc_getQueryData qc (qc_invalidateQueries qc c f) k = qc_getQueryData qc c k)"

end
