(* ===== verification/Query_Laws.thy ===== *)
theory Query_Laws
  imports Query_Cache
begin

text \<open>
  Laws and properties of the query layer: how keys address each other, what is retried and what
  never is, what a review ends as, that loading page after page reads every thread once, and what
  an optimistic delete leaves in the cache, failed or overlapping with another.
\<close>

section \<open>Keys and the client\<close>

lemmas key_simps = PRINCIPAL_def QUERY_RESOURCES_def

text \<open>What a key addresses: itself, its resource as a whole, or the list or detail family.\<close>

fun covers :: "read_key \<Rightarrow> read_key \<Rightarrow> bool" where
  "covers Conversations_all k = (case k of
      Conversations_all \<Rightarrow> True | Conversations_lists \<Rightarrow> True | Conversations_list _ \<Rightarrow> True
    | Conversations_details \<Rightarrow> True | Conversations_detail _ \<Rightarrow> True | _ \<Rightarrow> False)"
| "covers Conversations_lists k = (case k of
      Conversations_lists \<Rightarrow> True | Conversations_list _ \<Rightarrow> True | _ \<Rightarrow> False)"
| "covers Conversations_details k = (case k of
      Conversations_details \<Rightarrow> True | Conversations_detail _ \<Rightarrow> True | _ \<Rightarrow> False)"
| "covers Jobs_all k = (case k of
      Jobs_all \<Rightarrow> True | Jobs_details \<Rightarrow> True | Jobs_detail _ \<Rightarrow> True | _ \<Rightarrow> False)"
| "covers Jobs_details k = (case k of Jobs_details \<Rightarrow> True | Jobs_detail _ \<Rightarrow> True | _ \<Rightarrow> False)"
| "covers LearnPaths_all k = (case k of
      LearnPaths_all \<Rightarrow> True | LearnPaths_list \<Rightarrow> True | LearnPaths_details \<Rightarrow> True
    | LearnPaths_detail _ \<Rightarrow> True | _ \<Rightarrow> False)"
| "covers LearnPaths_details k = (case k of
      LearnPaths_details \<Rightarrow> True | LearnPaths_detail _ \<Rightarrow> True | _ \<Rightarrow> False)"
| "covers LearnProgress_all k = (case k of
      LearnProgress_all \<Rightarrow> True | LearnProgress_summary \<Rightarrow> True | _ \<Rightarrow> False)"
| "covers j k = (j = k)"

lemma prefix_queryKeys: "prefix (queryKeys j) (queryKeys k) \<longleftrightarrow> covers j k"
  by (cases j; cases k) (auto simp: PRINCIPAL_def)

text \<open>
  Every cache key is its resource, the principal, and the rest; no two reads share a key and
  no write has the key of a read; and a key used as a filter addresses exactly what its name
  says: one detail or one list addresses only itself, the list and detail roots their family,
  \<open>all\<close> the resource, and never another resource.
\<close>

lemma keys_address_their_resource:
  "(\<exists>resource \<in> set QUERY_RESOURCES. \<exists>rest. queryKeys j = KP resource # KP PRINCIPAL # rest)
   \<and> (queryKeys j = queryKeys k) = (j = k)
   \<and> queryKeys j \<noteq> mutationKeys w
   \<and> (prefix (queryKeys j) (queryKeys k) \<longleftrightarrow>
        j = k
      \<or> (case j of
           Conversations_all \<Rightarrow> hd (queryKeys k) = KP ''conversations''
         | Jobs_all \<Rightarrow> hd (queryKeys k) = KP ''jobs''
         | LearnPaths_all \<Rightarrow> hd (queryKeys k) = KP ''learnPaths''
         | LearnProgress_all \<Rightarrow> hd (queryKeys k) = KP ''learnProgress''
         | Conversations_lists \<Rightarrow> (\<exists>limit. k = Conversations_list limit)
         | Conversations_details \<Rightarrow> (\<exists>c. k = Conversations_detail c)
         | Jobs_details \<Rightarrow> (\<exists>job. k = Jobs_detail job)
         | LearnPaths_details \<Rightarrow> (\<exists>p. k = LearnPaths_detail p)
         | _ \<Rightarrow> False))"
proof (intro conjI)
  show "\<exists>resource \<in> set QUERY_RESOURCES. \<exists>rest. queryKeys j = KP resource # KP PRINCIPAL # rest"
    by (cases j) (auto simp: QUERY_RESOURCES_def)
  show "(queryKeys j = queryKeys k) = (j = k)"
    by (cases j; cases k) auto
  show "queryKeys j \<noteq> mutationKeys w"
    by (cases j; cases w) auto
qed (cases j; cases k; auto simp: prefix_queryKeys PRINCIPAL_def)

text \<open>
  Writes are never replayed: whatever options a caller overrides, the client it builds
  neither retries a mutation nor pauses it while offline; every other mutation option and every
  read option is the caller's where the caller gave one and the default elsewhere.
\<close>

lemma writes_are_never_replayed:
  "\<exists>d q m. cc_defaultOptions (createQueryClient overrides) = Some d
     \<and> do_queries d = Some q \<and> do_mutations d = Some m
     \<and> m ''retry'' = Some (OV_bool False) \<and> m ''networkMode'' = Some (OV_text ''always'')
     \<and> (let own = (\<lambda>part k. Option.bind (Option.bind (cc_defaultOptions overrides) part)
                     (\<lambda>opts. opts k))
        in (\<forall>k. k \<in> {''retry'', ''networkMode''} \<or> m k = own do_mutations k)
         \<and> q ''retry'' = (case own do_queries ''retry'' of
                            Some v \<Rightarrow> Some v | None \<Rightarrow> Some (OV_retry shouldRetryRead))
         \<and> q ''retryDelay'' = (case own do_queries ''retryDelay'' of
                            Some v \<Rightarrow> Some v | None \<Rightarrow> Some (OV_delay readRetryDelayMs)))
     \<and> cc_rest (createQueryClient overrides) = cc_rest overrides"
  by (cases "cc_defaultOptions overrides")
     (auto simp: createQueryClient_def QUERY_CLIENT_DEFAULTS_def members_def Let_def map_add_def
       split: option.splits)

section \<open>What is retried\<close>

lemma retried_response:
  "failure_kind (fromResponse r body) \<in> set RETRYABLE_READ_FAILURES
     \<longleftrightarrow> resp_status r \<ge> 500 \<and> resp_status r \<noteq> 503"
  by (auto simp: fromResponse_def conflict_failure_def RETRYABLE_READ_FAILURES_def Let_def
      split: option.split)

lemma retried_transport:
  "failure_kind (fromTransport nav e ctx) \<in> set RETRYABLE_READ_FAILURES
     \<longleftrightarrow> nc_timedOut ctx = Some True \<or> errorName e = Some ''TimeoutError''
       \<or> nc_cancelled ctx \<noteq> Some True \<and> errorName e \<noteq> Some ''AbortError'' \<and> th_type_error e"
  by (auto simp: fromTransport_def RETRYABLE_READ_FAILURES_def Let_def)

text \<open>
  Which reads are tried again: of the errors a request can end with, exactly an answer of
  500 or above other than the proxy's own 503, a timeout, and an unreachable network are, each
  at most twice, after one and after two seconds; a request answered below 500, rate limited or
  cancelled by its caller is not, and neither is an answer that cannot be read.
\<close>

lemma read_retry_policy:
  "(case ac_result (request n init opts allowed_ms) of
      Call_ok r \<Rightarrow> True
    | Call_error e \<Rightarrow>
        shouldRetryRead k (Rej_api e) \<longleftrightarrow> k < 2
        \<and> (let link = linkAbort (Option.bind opts ro_signal) (timeout_of opts allowed_ms);
               settled = runs abort_step link (nt_events n)
           in \<not> la_aborted link
            \<and> (case nt_outcome n of
                 Fetch_response r \<Rightarrow> resp_status r \<ge> 500 \<and> resp_status r \<noteq> 503
               | Fetch_rejects t \<Rightarrow>
                   la_timedOut settled \<or> errorName t = Some ''TimeoutError''
                 \<or> \<not> la_cancelled settled \<and> errorName t \<noteq> Some ''AbortError''
                   \<and> th_type_error t)))
   \<and> \<not> shouldRetryRead k (Rej_other t)
   \<and> readRetryDelayMs 0 = 1000 \<and> readRetryDelayMs 1 = 2000
   \<and> readRetryDelayMs k \<le> readRetryDelayMs (Suc k) \<and> readRetryDelayMs k \<le> 8000"
proof (intro conjI)
  let ?link = "linkAbort (Option.bind opts ro_signal) (timeout_of opts allowed_ms)"
  have pre: "la_cancelled ?link \<and> \<not> la_timedOut ?link" if "la_aborted ?link"
    using that by (simp add: linkAbort_def Let_def)
  show "case ac_result (request n init opts allowed_ms) of
      Call_ok r \<Rightarrow> True
    | Call_error e \<Rightarrow>
        shouldRetryRead k (Rej_api e) \<longleftrightarrow> k < 2
        \<and> (let link = ?link; settled = runs abort_step link (nt_events n)
           in \<not> la_aborted link
            \<and> (case nt_outcome n of
                 Fetch_response r \<Rightarrow> resp_status r \<ge> 500 \<and> resp_status r \<noteq> 503
               | Fetch_rejects t \<Rightarrow>
                   la_timedOut settled \<or> errorName t = Some ''TimeoutError''
                 \<or> \<not> la_cancelled settled \<and> errorName t \<noteq> Some ''AbortError''
                   \<and> th_type_error t))"
  proof (cases "la_aborted ?link")
    case True
    then show ?thesis using pre
      by (simp add: request_def Let_def transport_error_def ApiError_def normalizeFailure_def
          retried_transport MAX_READ_RETRIES_def abortError_def errorName_def)
  next
    case False
    then show ?thesis
      by (auto simp: request_def Let_def transport_error_def response_error_def ApiError_def
          normalizeFailure_def retried_transport retried_response MAX_READ_RETRIES_def
          split: fetch_outcome.splits)
  qed
  have "(2::int) ^ k \<ge> 1" by simp
  then show "readRetryDelayMs k \<le> readRetryDelayMs (Suc k)"
    by (simp add: readRetryDelayMs_def MAX_RETRY_DELAY_MS_def min_def)
qed (simp_all add: readRetryDelayMs_def MAX_RETRY_DELAY_MS_def)

text \<open>
  What a review ends as: a stale outcome exactly when the server answered 409, an accepted
  one exactly for a readable answer of 2xx, every other failure is thrown on, and no outcome
  says that the run resumed.
\<close>

lemma review_conflict_is_stale:
  "(case useReviewPlan n job body of
      Inr (RO_stale f) \<Rightarrow> failure_kind f = K_conflict
        \<and> (\<exists>r. nt_outcome n = Fetch_response r \<and> resp_status r = 409)
    | Inr (RO_accepted v) \<Rightarrow> (\<exists>r. nt_outcome n = Fetch_response r \<and> resp_ok r
        \<and> Option.bind (resp_body r) (nt_parse n) = Some v)
    | Inl failed \<Rightarrow>
        (case nt_outcome n of
           Fetch_rejects e \<Rightarrow> True
         | Fetch_response r \<Rightarrow> resp_status r \<noteq> 409
             \<and> (resp_ok r \<longrightarrow> Option.bind (resp_body r) (nt_parse n) = None)))
   \<and> \<not> ro_resumed outcome"
proof (intro conjI)
  have conflict: "failure_kind (fromResponse r b) = K_conflict \<longleftrightarrow> resp_status r = 409" for r b
    by (auto simp: fromResponse_def conflict_failure_def Let_def split: option.split)
  have never: "failure_kind (fromTransport nav e ctx) \<noteq> K_conflict" for nav e ctx
    by (simp add: fromTransport_def Let_def)
  show "case useReviewPlan n job body of
      Inr (RO_stale f) \<Rightarrow> failure_kind f = K_conflict
        \<and> (\<exists>r. nt_outcome n = Fetch_response r \<and> resp_status r = 409)
    | Inr (RO_accepted v) \<Rightarrow> (\<exists>r. nt_outcome n = Fetch_response r \<and> resp_ok r
        \<and> Option.bind (resp_body r) (nt_parse n) = Some v)
    | Inl failed \<Rightarrow>
        (case nt_outcome n of
           Fetch_rejects e \<Rightarrow> True
         | Fetch_response r \<Rightarrow> resp_status r \<noteq> 409
             \<and> (resp_ok r \<longrightarrow> Option.bind (resp_body r) (nt_parse n) = None))"
    by (auto simp: useReviewPlan_def reviewPlan_def json_of_def request_def Let_def linkAbort_def
        timeout_of_def transport_error_def response_error_def ApiError_def normalizeFailure_def
        conflict never resp_ok_def
        split: fetch_outcome.splits option.splits)
  show "\<not> ro_resumed outcome" by (cases outcome) simp_all
qed

text \<open>A network that answers with this status and a body that does not parse.\<close>

definition review_net :: "int \<Rightarrow> net" where
  "review_net status =
     \<lparr>nt_parse = (\<lambda>_. None), nt_online = True, nt_events = [],
      nt_outcome = Fetch_response \<lparr>resp_status = status, resp_statusText = [],
        resp_header = (\<lambda>_. None), resp_body = Some ''x''\<rparr>\<rparr>"

lemma review_conflict_is_stale_witness:
  "(case useReviewPlan (review_net 409) ''j'' JNull of
      Inr (RO_stale f) \<Rightarrow> failure_kind f = K_conflict | _ \<Rightarrow> False)
   \<and> useReviewPlan (review_net 200) ''j'' JNull = Inl J_unreadable
   \<and> Option.bind (Some ''x'') (nt_parse (review_net 200)) = None"
proof -
  have stale: "\<exists>f. useReviewPlan (review_net 409) ''j'' JNull = Inr (RO_stale f)"
    by (simp add: useReviewPlan_def reviewPlan_def json_of_def request_def Let_def linkAbort_def
        timeout_of_def response_error_def ApiError_def normalizeFailure_def resp_ok_def
        review_net_def fromResponse_def conflict_failure_def post_request_def split: option.split)
  have unreadable: "useReviewPlan (review_net 200) ''j'' JNull = Inl J_unreadable"
    by (simp add: useReviewPlan_def reviewPlan_def json_of_def request_def Let_def linkAbort_def
        timeout_of_def resp_ok_def review_net_def post_request_def)
  show ?thesis
    using review_conflict_is_stale [of "review_net 409" "''j''" JNull "RO_stale f" for f]
      review_conflict_is_stale [of "review_net 200" "''j''" JNull "RO_stale f" for f]
      stale unreadable
    by (auto simp: review_net_def resp_ok_def)
qed

section \<open>Two polls\<close>

text \<open>The poll of the query layer backs off as the provider's does and stops where the machine
  counts a run as over.\<close>

lemma polls_agree:
  "jobPollIntervalMs (unchangedPolls s) = pollIntervalFor s DEFAULT_POLL"
  "query_isTerminalJobStatus status = isTerminalJobStatus status"
  by (simp_all add: jobPollIntervalMs_def pollIntervalFor_def DEFAULT_POLL_def
      JOB_POLL_INTERVAL_MS_def JOB_POLL_SLOW_INTERVAL_MS_def JOB_POLL_BACKOFF_AFTER_def
      query_isTerminalJobStatus_def query_TERMINAL_JOB_STATUSES_def isTerminalJobStatus_def
      TERMINAL_JOB_STATUSES_def)

section \<open>Loading page after page\<close>

lemma clamp_bounds: "1 \<le> clampConversationPageSize x \<and> clampConversationPageSize x \<le> 200"
  by (cases x) (auto simp: MAX_CONVERSATION_PAGE_SIZE_def CONVERSATION_PAGE_SIZE_def)

text \<open>The state after \<open>k\<close> loads of pages of a list that does not change meanwhile.\<close>

definition loaded :: "nat \<Rightarrow> list_item list \<Rightarrow> nat \<Rightarrow> conversation_pages" where
  "loaded l rows k =
     \<lparr>pg_pages = map (\<lambda>i. take l (drop (i * l) rows)) [0..<Suc k],
      pg_params = map (\<lambda>i. int (i * l)) [0..<Suc k]\<rparr>"

lemma concat_slices: "concat (map (\<lambda>i. take l (drop (i * l) rows)) [0..<k]) = take (k * l) rows"
proof (induction k)
  case (Suc k)
  have "take (k * l) rows @ take l (drop (k * l) rows) = take (k * l + l) rows"
    by (simp add: take_add)
  with Suc show ?case by (simp add: add.commute)
qed simp

lemma listed_loaded: "listed (Some (loaded l rows k)) = take (Suc k * l) rows"
  using concat_slices [of l rows "Suc k"] by (simp add: listed_def loaded_def)

lemma next_of_loaded:
  "0 < l \<Longrightarrow> getNextPageParam (int l) (take l (drop (k * l) rows)) (int (k * l))
     = (if Suc k * l \<le> length rows then Some (int (Suc k * l)) else None)"
  by (auto simp: getNextPageParam_def)

lemma more_iff:
  "infinite_docs lib \<Longrightarrow> 0 < l \<Longrightarrow>
     canLoadMore lib (int l) (Some (loaded l rows k)) \<longleftrightarrow> Suc k * l \<le> length rows"
  using next_of_loaded [of l k rows]
  by (simp add: canLoadMore_def infinite_docs_def loaded_def)

lemma loadMore_step:
  assumes docs: "infinite_docs lib" and "0 < l"
    and page: "\<And>i. fetch (int i) = take l (drop i rows)"
  shows "loadMore lib (int l) fetch False (loaded l rows k)
    = (if Suc k * l \<le> length rows then loaded l rows (Suc k) else loaded l rows k)"
proof (cases "Suc k * l \<le> length rows")
  case True
  then have "getNextPageParam (int l) (take l (drop (k * l) rows)) (int (k * l))
      = Some (int (Suc k * l))"
    using next_of_loaded [OF \<open>0 < l\<close>] by simp
  then show ?thesis
    using docs page [of "Suc k * l"] more_iff [OF docs \<open>0 < l\<close>] True
    by (simp add: loadMore_def infinite_docs_def loaded_def algebra_simps)
next
  case False
  then show ?thesis
    using more_iff [OF docs \<open>0 < l\<close>] by (simp add: loadMore_def)
qed

lemma loadMore_iterate:
  assumes docs: "infinite_docs lib" and l: "0 < l"
    and page: "\<And>i. fetch (int i) = take l (drop i rows)"
  shows "((loadMore lib (int l) fetch False) ^^ k) (firstPage fetch)
    = loaded l rows (min k (length rows div l))"
proof (induction k)
  case 0
  show ?case using page [of 0] by (simp add: firstPage_def loaded_def)
next
  case (Suc k)
  have "Suc m * l \<le> length rows \<longleftrightarrow> m < length rows div l" for m
    using less_eq_div_iff_mult_less_eq [OF l, of "Suc m" "length rows"] by (simp add: Suc_le_eq)
  with Suc loadMore_step [OF docs l page] show ?case
    by (auto simp: min_def Suc_le_eq not_le less_Suc_eq)
qed

text \<open>
  C21. Loading page after page reads every thread once: for any requested page size (also a
  fractional, an infinite or no number, which is clamped to between 1 and 200) and a list that
  does not change, the rows shown after \<open>k\<close> loads are a prefix of the list, the control is offered
  until a page comes back short and then never, and after \<open>length rows div limit\<close> loads all rows
  are shown, each once and in order.
\<close>

theorem loading_reads_every_thread_once:
  assumes docs: "infinite_docs lib"
    and page: "\<And>i. fetch (int i) = take (nat (clampConversationPageSize asked)) (drop i rows)"
  shows "let limit = clampConversationPageSize asked;
             state = \<lambda>k. Some (((loadMore lib limit fetch False) ^^ k) (firstPage fetch))
         in listed (state k) = take ((k + 1) * nat limit) rows
          \<and> (canLoadMore lib limit (state k) \<longleftrightarrow> (k + 1) * nat limit \<le> length rows)
          \<and> (length rows div nat limit \<le> k
               \<longrightarrow> listed (state k) = rows \<and> \<not> canLoadMore lib limit (state k))"
proof -
  define l where "l = nat (clampConversationPageSize asked)"
  have l: "0 < l" and limit: "clampConversationPageSize asked = int l"
    using clamp_bounds [of asked] by (simp_all add: l_def)
  have page': "\<And>i. fetch (int i) = take l (drop i rows)"
    using page by (simp add: l_def)
  define d where "d = length rows div l"
  have bound: "Suc m * l \<le> length rows \<longleftrightarrow> m < d" for m
    using less_eq_div_iff_mult_less_eq [OF l, of "Suc m" "length rows"] by (simp add: Suc_le_eq d_def)
  have st: "((loadMore lib (int l) fetch False) ^^ k) (firstPage fetch) = loaded l rows (min k d)"
    using loadMore_iterate [OF docs l page'] by (simp add: d_def)
  have all: "length rows \<le> Suc d * l" using bound [of d] by simp
  have listed: "listed (Some (loaded l rows (min k d))) = take (Suc k * l) rows"
  proof (cases "k \<le> d")
    case False
    then have "Suc d * l \<le> Suc k * l" by simp
    then have "length rows \<le> Suc k * l" using all by linarith
    with False all show ?thesis by (simp add: listed_loaded min_def)
  qed (simp add: listed_loaded min_def)
  have more: "canLoadMore lib (int l) (Some (loaded l rows (min k d))) \<longleftrightarrow> Suc k * l \<le> length rows"
    using more_iff [OF docs l, of rows "min k d"] bound [of "min k d"] bound [of k] by auto
  have "listed (Some (loaded l rows (min k d))) = rows
      \<and> \<not> canLoadMore lib (int l) (Some (loaded l rows (min k d)))" if "d \<le> k"
  proof -
    have "\<not> Suc k * l \<le> length rows" using bound [of k] that by auto
    then show ?thesis unfolding listed more by simp
  qed
  then show ?thesis
    using listed more by (simp add: limit st Let_def d_def)
qed

definition example_lib :: infinite_lib where
  "example_lib =
     \<lparr>il_hasNextPage = (\<lambda>next data. case data of
          None \<Rightarrow> False
        | Some d \<Rightarrow> pg_pages d \<noteq> [] \<and> next (last (pg_pages d)) (last (pg_params d)) \<noteq> None),
      il_fetchNextPage = (\<lambda>next fetch d.
        case next (last (pg_pages d)) (last (pg_params d)) of
          None \<Rightarrow> d
        | Some r \<Rightarrow> \<lparr>pg_pages = pg_pages d @ [fetch r], pg_params = pg_params d @ [r]\<rparr>)\<rparr>"

lemma example_lib_docs: "infinite_docs example_lib"
  by (simp add: infinite_docs_def example_lib_def)

definition example_row :: "string \<Rightarrow> list_item" where
  "example_row c = \<lparr>li_conversation_id = c, li_title = [],
     li_created_at = JInt 0, li_updated_at = JInt 0\<rparr>"

definition example_rows :: "nat \<Rightarrow> list_item list" where
  "example_rows n = map (\<lambda>i. example_row (replicate (Suc i) CHR ''x'')) [0..<n]"

theorem loading_reads_every_thread_once_witness:
  "let fetch = (\<lambda>i. take 2 (drop (nat i) (example_rows 5)));
       state = Some (((loadMore example_lib 2 fetch False) ^^ 2) (firstPage fetch))
   in listed state = example_rows 5 \<and> \<not> canLoadMore example_lib 2 state"
  using loading_reads_every_thread_once [of example_lib
      "\<lambda>i. take 2 (drop (nat i) (example_rows 5))" "Finite 2" "example_rows 5" 2]
  by (simp add: example_lib_docs Let_def js_trunc_def MAX_CONVERSATION_PAGE_SIZE_def
      example_rows_def)

section \<open>The optimistic delete\<close>

lemma docs_queries:
  assumes "query_client_docs qc"
  shows "(k, v) \<in> set (qc_getQueriesData qc c f) \<Longrightarrow> prefix f k \<and> v = qc_getQueryData qc c k"
    and "prefix f k \<Longrightarrow> qc_getQueryData qc c k \<noteq> None \<Longrightarrow>
          (k, qc_getQueryData qc c k) \<in> set (qc_getQueriesData qc c f)"
    and "distinct (map fst (qc_getQueriesData qc c f))"
  using assms unfolding query_client_docs_def by (elim conjE; fast)+

lemma docs_data:
  assumes "query_client_docs qc"
  shows "qc_getQueryData qc (qc_setQueryData qc c k v) k'
      = (if k' = k \<and> v \<noteq> None then v else qc_getQueryData qc c k')"
    and "u None = None \<Longrightarrow> qc_getQueryData qc (qc_setQueriesData qc c f u) k
      = (if prefix f k \<and> u (qc_getQueryData qc c k) \<noteq> None
         then u (qc_getQueryData qc c k) else qc_getQueryData qc c k)"
    and "qc_getQueryData qc (qc_removeQueries qc c f) k
      = (if prefix f k then None else qc_getQueryData qc c k)"
    and "qc_getQueryData qc (qc_cancelQueries qc c f) k = qc_getQueryData qc c k"
    and "qc_getQueryData qc (qc_invalidateQueries qc c f) k = qc_getQueryData qc c k"
  using assms unfolding query_client_docs_def by (elim conjE; simp)+

lemma without_row_None [simp]: "without_row conv d = None \<longleftrightarrow> d = None"
  by (cases "(conv, d)" rule: without_row.cases) simp_all

text \<open>What the optimistic write leaves.\<close>

lemma after_onMutate:
  assumes docs: "query_client_docs qc"
  shows "qc_getQueryData qc (fst (delete_onMutate qc c conv)) (queryKeys k)
    = (if covers Conversations_lists k then without_row conv (qc_getQueryData qc c (queryKeys k))
       else if k = Conversations_detail conv then None
       else qc_getQueryData qc c (queryKeys k))"
proof -
  have "prefix (queryKeys (Conversations_detail conv)) (queryKeys k) \<longleftrightarrow> k = Conversations_detail conv"
    by (simp only: prefix_queryKeys) auto
  then show ?thesis
    by (simp add: delete_onMutate_def Let_def docs_data [OF docs] prefix_queryKeys
        del: queryKeys.simps covers.simps) auto
qed

lemma context_of_onMutate:
  assumes docs: "query_client_docs qc"
  shows "dc_detail (snd (delete_onMutate qc c conv))
      = qc_getQueryData qc c (queryKeys (Conversations_detail conv))"
    and "distinct (map fst (dc_lists (snd (delete_onMutate qc c conv))))"
    and "map_of (dc_lists (snd (delete_onMutate qc c conv))) (queryKeys k) = Some v \<Longrightarrow>
      covers Conversations_lists k \<and> v = qc_getQueryData qc c (queryKeys k)"
    and "covers Conversations_lists k \<Longrightarrow> qc_getQueryData qc c (queryKeys k) \<noteq> None \<Longrightarrow>
      map_of (dc_lists (snd (delete_onMutate qc c conv))) (queryKeys k)
        = Some (qc_getQueryData qc c (queryKeys k))"
proof -
  define c1 where "c1 = qc_cancelQueries qc c (queryKeys Conversations_all)"
  let ?ls = "qc_getQueriesData qc c1 (queryKeys Conversations_lists)"
  have lists: "dc_lists (snd (delete_onMutate qc c conv)) = ?ls"
    by (simp add: delete_onMutate_def Let_def c1_def)
  have data: "qc_getQueryData qc c1 k = qc_getQueryData qc c k" for k
    by (simp add: c1_def docs_data(4) [OF docs])
  show "dc_detail (snd (delete_onMutate qc c conv))
      = qc_getQueryData qc c (queryKeys (Conversations_detail conv))"
    by (simp add: delete_onMutate_def Let_def docs_data(4) [OF docs])
  show d: "distinct (map fst (dc_lists (snd (delete_onMutate qc c conv))))"
    unfolding lists by (rule docs_queries(3) [OF docs])
  show "covers Conversations_lists k \<and> v = qc_getQueryData qc c (queryKeys k)"
    if "map_of (dc_lists (snd (delete_onMutate qc c conv))) (queryKeys k) = Some v"
    using docs_queries(1) [OF docs map_of_SomeD [OF that [unfolded lists]]]
    by (simp only: prefix_queryKeys data)
  show "map_of (dc_lists (snd (delete_onMutate qc c conv))) (queryKeys k)
        = Some (qc_getQueryData qc c (queryKeys k))"
    if "covers Conversations_lists k" "qc_getQueryData qc c (queryKeys k) \<noteq> None"
  proof (rule map_of_is_SomeI [OF d])
    show "(queryKeys k, qc_getQueryData qc c (queryKeys k))
        \<in> set (dc_lists (snd (delete_onMutate qc c conv)))"
      unfolding lists data [symmetric]
      by (rule docs_queries(2) [OF docs]) (use that in \<open>simp_all add: prefix_queryKeys data del: queryKeys.simps covers.simps\<close>)
  qed
qed

lemma restore_lists:
  assumes docs: "query_client_docs qc"
  shows "distinct (map fst xs) \<Longrightarrow>
    qc_getQueryData qc (foldl (\<lambda>c (key, pages). qc_setQueryData qc c key pages) c xs) k
      = (case map_of xs k of Some (Some v) \<Rightarrow> Some v | _ \<Rightarrow> qc_getQueryData qc c k)"
proof (induction xs arbitrary: c)
  case (Cons x xs)
  obtain k0 v0 where x: "x = (k0, v0)" by (cases x)
  have "map_of xs k0 = None"
    using Cons.prems by (simp add: x map_of_eq_None_iff)
  then show ?case
    using Cons by (auto simp: x docs_data(1) [OF docs] split: option.splits)
qed simp

text \<open>What restoring a context leaves, in whatever cache it is restored.\<close>

lemma after_onError:
  assumes docs: "query_client_docs qc"
  shows "qc_getQueryData qc
      (delete_onError qc c' conv (Some (snd (delete_onMutate qc c conv)))) (queryKeys k)
    = (let original = qc_getQueryData qc c (queryKeys k)
       in if (covers Conversations_lists k \<or> k = Conversations_detail conv) \<and> original \<noteq> None
          then original else qc_getQueryData qc c' (queryKeys k))"
proof -
  let ?x = "snd (delete_onMutate qc c conv)"
  let ?c1 = "foldl (\<lambda>c (key, pages). qc_setQueryData qc c key pages) c' (dc_lists ?x)"
  note ctx = context_of_onMutate [OF docs]
  have lists: "qc_getQueryData qc ?c1 (queryKeys k)
      = (if covers Conversations_lists k \<and> qc_getQueryData qc c (queryKeys k) \<noteq> None
         then qc_getQueryData qc c (queryKeys k) else qc_getQueryData qc c' (queryKeys k))"
  proof (cases "map_of (dc_lists ?x) (queryKeys k)")
    case None
    then have "\<not> (covers Conversations_lists k \<and> qc_getQueryData qc c (queryKeys k) \<noteq> None)"
      using ctx(4) [of k c conv] by (metis option.distinct(1))
    then show ?thesis
      unfolding restore_lists [OF docs ctx(2)] None by (simp only: option.case if_False)
  next
    case (Some v)
    then show ?thesis
      unfolding restore_lists [OF docs ctx(2)] Some using ctx(3) [OF Some]
      by (simp split: option.splits del: queryKeys.simps covers.simps)
  qed
  have same: "queryKeys k = queryKeys (Conversations_detail conv) \<longleftrightarrow> k = Conversations_detail conv"
    by (cases k) auto
  show ?thesis
    by (simp add: delete_onError_def Let_def ctx(1) docs_data(1) [OF docs] lists same
        del: queryKeys.simps covers.simps) auto
qed

text \<open>A client over association lists that keeps the documentation, for the witnesses.\<close>

definition updated :: "key \<Rightarrow> (cached option \<Rightarrow> cached option) \<Rightarrow> key \<Rightarrow> cached \<Rightarrow> cached" where
  "updated f u k x = (if prefix f k then (case u (Some x) of Some y \<Rightarrow> y | None \<Rightarrow> x) else x)"

definition example_client :: "(key \<times> cached) list query_client" where
  "example_client =
     \<lparr>qc_getQueriesData = (\<lambda>c f. map (\<lambda>k. (k, map_of c k)) (filter (prefix f) (remdups (map fst c)))),
      qc_getQueryData = map_of,
      qc_setQueryData = (\<lambda>c k v. case v of None \<Rightarrow> c | Some x \<Rightarrow> (k, x) # c),
      qc_setQueriesData = (\<lambda>c f u. map (\<lambda>(k, x). (k, updated f u k x)) c),
      qc_removeQueries = (\<lambda>c f. filter (\<lambda>(k, x). \<not> prefix f k) c),
      qc_cancelQueries = (\<lambda>c f. c),
      qc_invalidateQueries = (\<lambda>c f. c)\<rparr>"

lemma map_of_updated:
  "map_of (map (\<lambda>(k, x). (k, h k x)) c) k = map_option (h k) (map_of c k)"
  by (induction c) auto

lemma map_of_removed: "map_of (filter (\<lambda>(k, x). \<not> p k) c) k = (if p k then None else map_of c k)"
  by (induction c) auto

lemma example_client_docs: "query_client_docs example_client"
proof -
  have "map_of (map (\<lambda>(k, x). (k, updated f u k x)) c) k
      = (if prefix f k \<and> u (map_of c k) \<noteq> None then u (map_of c k) else map_of c k)"
    if "u None = None" for f k c u
    unfolding map_of_updated updated_def using that
    by (cases "map_of c k") (auto split: option.split)
  moreover have "k \<in> fst ` set c" if "map_of c k = Some v" for k v and c :: "(key \<times> cached) list"
    using map_of_SomeD [OF that] by force
  ultimately show ?thesis
    by (auto simp: query_client_docs_def example_client_def map_of_removed comp_def
        split: option.splits)
qed

text \<open>
  A failed delete puts everything back: between the optimistic write and the answer the row
  is in no cached page, the thread's detail is gone and nothing else has changed; after the
  rollback every read of every key is what it was before.
\<close>

lemma failed_delete_restores:
  assumes "query_client_docs qc"
  shows "let (c1, ctx) = delete_onMutate qc c conv;
             c2 = delete_onSettled qc (delete_onError qc c1 conv (Some ctx))
         in (\<forall>limit. qc_getQueryData qc c1 (queryKeys (Conversations_list limit))
               = without_row conv (qc_getQueryData qc c (queryKeys (Conversations_list limit))))
          \<and> qc_getQueryData qc c1 (queryKeys (Conversations_detail conv)) = None
          \<and> (\<forall>other. other \<noteq> conv \<longrightarrow>
               qc_getQueryData qc c1 (queryKeys (Conversations_detail other))
                 = qc_getQueryData qc c (queryKeys (Conversations_detail other)))
          \<and> (\<forall>k. qc_getQueryData qc c2 (queryKeys k) = qc_getQueryData qc c (queryKeys k))"
proof -
  obtain c1 ctx where m: "delete_onMutate qc c conv = (c1, ctx)"
    by (cases "delete_onMutate qc c conv")
  have seen: "qc_getQueryData qc c1 (queryKeys k)
      = (if covers Conversations_lists k then without_row conv (qc_getQueryData qc c (queryKeys k))
         else if k = Conversations_detail conv then None
         else qc_getQueryData qc c (queryKeys k))" for k
    using after_onMutate [OF assms, of c conv k] by (simp only: m fst_conv)
  have restored: "qc_getQueryData qc (delete_onError qc c1 conv (Some ctx)) (queryKeys k)
      = qc_getQueryData qc c (queryKeys k)" for k
    using after_onError [OF assms, of c1 conv c k]
    by (simp add: m seen Let_def del: queryKeys.simps covers.simps split: if_splits)
  show ?thesis
    by (simp add: m seen restored delete_onSettled_def docs_data(5) [OF assms] del: queryKeys.simps)
qed

definition example_cache :: "(key \<times> cached) list" where
  "example_cache = [(queryKeys (Conversations_list 2),
     Cached_pages \<lparr>pg_pages = [example_rows 2], pg_params = [0]\<rparr>)]"

lemma failed_delete_restores_witness:
  "let (c1, ctx) = delete_onMutate example_client example_cache ''xx''
   in qc_getQueryData example_client
        (delete_onSettled example_client (delete_onError example_client c1 ''xx'' (Some ctx)))
        (queryKeys (Conversations_list 2))
      = Some (Cached_pages \<lparr>pg_pages = [example_rows 2], pg_params = [0]\<rparr>)"
  using failed_delete_restores [OF example_client_docs, of example_cache "''xx''"]
  by (auto simp: Let_def example_cache_def example_client_def simp del: queryKeys.simps
      split: prod.splits)

text \<open>
  Overlapping deletes lose a thread: when two threads are being deleted and both requests
  fail, the first rollback brings the second row back while its delete is still pending, and the
  second rollback removes the first row again, although its thread was never deleted; only a
  later successful refetch repairs the lists.
\<close>

lemma overlapping_deletes_lose_a_thread:
  assumes "query_client_docs qc"
  shows "let (c1, first) = delete_onMutate qc c a;
             (c2, second) = delete_onMutate qc c1 b;
             c3 = delete_onError qc c2 a (Some first);
             c4 = delete_onError qc c3 b (Some second);
             list = (\<lambda>cache. qc_getQueryData qc cache (queryKeys (Conversations_list limit)))
         in list c2 = without_row b (without_row a (list c))
          \<and> list c3 = list c
          \<and> list c4 = without_row a (list c)"
proof -
  obtain c1 x where m1: "delete_onMutate qc c a = (c1, x)"
    by (cases "delete_onMutate qc c a")
  obtain c2 y where m2: "delete_onMutate qc c1 b = (c2, y)"
    by (cases "delete_onMutate qc c1 b")
  let ?k = "Conversations_list limit"
  have c1: "qc_getQueryData qc c1 (queryKeys ?k) = without_row a (qc_getQueryData qc c (queryKeys ?k))"
    using after_onMutate [OF assms, of c a ?k] by (simp add: m1 del: queryKeys.simps)
  have c2: "qc_getQueryData qc c2 (queryKeys ?k) = without_row b (qc_getQueryData qc c1 (queryKeys ?k))"
    using after_onMutate [OF assms, of c1 b ?k] by (simp add: m2 del: queryKeys.simps)
  have c3: "qc_getQueryData qc (delete_onError qc c2 a (Some x)) (queryKeys ?k)
      = qc_getQueryData qc c (queryKeys ?k)"
    using after_onError [OF assms, of c2 a c ?k]
    by (simp add: m1 c2 c1 Let_def del: queryKeys.simps split: if_splits)
  have "qc_getQueryData qc (delete_onError qc (delete_onError qc c2 a (Some x)) b (Some y)) (queryKeys ?k)
      = without_row a (qc_getQueryData qc c (queryKeys ?k))"
    using after_onError [OF assms, of "delete_onError qc c2 a (Some x)" b c1 ?k]
    by (simp add: m2 c3 c1 Let_def del: queryKeys.simps split: if_splits)
  then show ?thesis
    by (simp add: m1 m2 c1 c2 c3 del: queryKeys.simps)
qed

lemma overlapping_deletes_lose_a_thread_witness:
  "let (c1, first) = delete_onMutate example_client example_cache ''x'';
       (c2, second) = delete_onMutate example_client c1 ''xx'';
       c4 = delete_onError example_client
              (delete_onError example_client c2 ''x'' (Some first)) ''xx'' (Some second)
   in qc_getQueryData example_client c4 (queryKeys (Conversations_list 2))
        = Some (Cached_pages \<lparr>pg_pages = [[example_row ''xx'']], pg_params = [0]\<rparr>)"
proof -
  have "example_rows 2 = [example_row ''x'', example_row ''xx'']"
    by (simp add: example_rows_def upt_rec)
  then have "without_row ''x'' (qc_getQueryData example_client example_cache
      (queryKeys (Conversations_list 2)))
    = Some (Cached_pages \<lparr>pg_pages = [[example_row ''xx'']], pg_params = [0]\<rparr>)"
    by (simp add: example_cache_def example_client_def drop_row_def example_row_def)
  then show ?thesis
    using overlapping_deletes_lose_a_thread
      [OF example_client_docs, of example_cache "''x''" "''xx''" 2]
    by (simp add: Let_def split: prod.splits del: queryKeys.simps)
qed

text \<open>
  Deleting a row of a full last page hides the rest: where more rows were offered before the
  optimistic write, none are offered after it until the list is refetched, since the page now
  looks short.
\<close>

lemma delete_hides_load_more:
  assumes "infinite_docs lib" and "int (length p) = limit" and "row \<in> set p"
  shows "canLoadMore lib limit (Some \<lparr>pg_pages = ps @ [p], pg_params = qs @ [q]\<rparr>)
    \<and> \<not> canLoadMore lib limit (Some
        (drop_row (li_conversation_id row) \<lparr>pg_pages = ps @ [p], pg_params = qs @ [q]\<rparr>))"
proof -
  have "length (filter (\<lambda>r. li_conversation_id r \<noteq> li_conversation_id row) p) < length p"
    using assms(3) by (rule length_filter_less) simp
  then show ?thesis
    using assms(1,2) by (simp add: canLoadMore_def infinite_docs_def drop_row_def
        getNextPageParam_def)
qed

lemma delete_hides_load_more_witness:
  "canLoadMore example_lib 2 (Some \<lparr>pg_pages = [example_rows 2], pg_params = [0]\<rparr>)"
  using delete_hides_load_more [of example_lib "example_rows 2" 2 "hd (example_rows 2)" "[]" "[]" 0]
  by (simp add: example_lib_docs example_rows_def upt_rec)

end
