(* ===== verification/Thread_View.thy ===== *)
theory Thread_View
  imports Query_Cache Job_Properties
begin

text \<open>
  What a thread's page decides: \<open>web/lib/report/briefings.ts\<close> (which briefing is on screen), the
  turns of \<open>web/lib/queries/conversations.ts\<close>, the renderer loader of \<open>web/lib/report/renderer.ts\<close>
  with the hook over it, and the decisions of \<open>web/components/features/ThreadTimeline.tsx\<close> and
  \<open>ActiveRunPanel.tsx\<close>: which turns are open, which frame is painted, what the run row holds,
  what is announced, and when the address is written. The markup they return is left out.
\<close>

section \<open>Turns\<close>

record conversation_turn =
  ct_jobId :: string
  ct_ordinal :: int
  ct_question :: string
  ct_report :: string
  ct_createdAt :: jnum

definition conversationTurns :: "conversation_detail option \<Rightarrow> conversation_turn list" where
  "conversationTurns d =
     (case d of
        None \<Rightarrow> []
      | Some thread \<Rightarrow> sort_key ct_ordinal
          (map (\<lambda>job. \<lparr>ct_jobId = js_job_id job, ct_ordinal = js_ordinal job,
             ct_question = js_query job, ct_report = js_report job,
             ct_createdAt = js_created_at job\<rparr>) (cd_jobs thread)))"

section \<open>Briefings\<close>

record briefing_failure =
  bf_errorType :: "string option"
  bf_error :: "string option"

record history_turn =
  ht_jobId :: string
  ht_ordinal :: int
  ht_question :: string
  ht_markdown :: string

record current_run =
  cu_jobId :: string
  cu_question :: string
  cu_markdown :: string
  cu_failure :: "briefing_failure option"

record briefing =
  br_jobId :: string
  br_ordinal :: int
  br_question :: string
  br_markdown :: string
  br_live :: bool
  br_failure :: "briefing_failure option"

definition history_briefing :: "history_turn \<Rightarrow> briefing" where
  "history_briefing turn =
     \<lparr>br_jobId = ht_jobId turn, br_ordinal = ht_ordinal turn, br_question = ht_question turn,
      br_markdown = ht_markdown turn, br_live = False, br_failure = None\<rparr>"

text \<open>\<open>xs.findIndex(p)\<close>, \<open>None\<close> for \<open>-1\<close>.\<close>

fun find_index :: "('a \<Rightarrow> bool) \<Rightarrow> 'a list \<Rightarrow> nat option" where
  "find_index p [] = None"
| "find_index p (x # xs) = (if p x then Some 0 else map_option Suc (find_index p xs))"

definition merged :: "briefing \<Rightarrow> current_run \<Rightarrow> briefing" where
  "merged found cur =
     found\<lparr>br_question := (if cu_question cur = [] then br_question found else cu_question cur),
           br_markdown := (if cu_markdown cur = [] then br_markdown found else cu_markdown cur),
           br_live := True, br_failure := cu_failure cur\<rparr>"

definition selectBriefings :: "history_turn list \<Rightarrow> current_run option \<Rightarrow> briefing list" where
  "selectBriefings turns current =
     (let ordered = sort_key ht_ordinal turns;
          briefings = map history_briefing ordered
      in case current of
           None \<Rightarrow> briefings
         | Some cur \<Rightarrow>
             (case find_index (\<lambda>entry. br_jobId entry = cu_jobId cur) briefings of
                Some i \<Rightarrow> briefings[i := merged (briefings ! i) cur]
              | None \<Rightarrow>
                  let lastOrdinal = (if briefings = [] then 0 else br_ordinal (last briefings))
                  in briefings @ [\<lparr>br_jobId = cu_jobId cur, br_ordinal = lastOrdinal + 1,
                       br_question = cu_question cur, br_markdown = cu_markdown cur,
                       br_live = True, br_failure = cu_failure cur\<rparr>]))"

definition currentRunOf :: "job_state \<Rightarrow> current_run option" where
  "currentRunOf s =
     (case jobId s of
        None \<Rightarrow> None
      | Some job \<Rightarrow> Some
          \<lparr>cu_jobId = job,
           cu_question = (case detail s of Some d \<Rightarrow> jd_query d | None \<Rightarrow> []),
           cu_markdown = (case Option.bind (detail s) jd_result of Some r \<Rightarrow> r | None \<Rightarrow> []),
           cu_failure = (case detail s of
               Some d \<Rightarrow> if jd_status d = St_failed
                         then Some \<lparr>bf_errorType = jd_error_type d, bf_error = jd_error d\<rparr>
                         else None
             | None \<Rightarrow> None)\<rparr>)"

definition history_of :: "conversation_turn list \<Rightarrow> history_turn list" where
  "history_of turns =
     map (\<lambda>turn. \<lparr>ht_jobId = ct_jobId turn, ht_ordinal = ct_ordinal turn,
        ht_question = ct_question turn, ht_markdown = ct_report turn\<rparr>) turns"

section \<open>The run panel\<close>

datatype plan_status = PS_editing | PS_submitting | PS_cancelling | PS_resolving | PS_stale

datatype stale_cause = Cause_hitl_timeout | Cause_resolved_elsewhere

definition is_conflict :: "job_state \<Rightarrow> bool" where
  "is_conflict s \<longleftrightarrow>
     failureSource s = Some FS_review \<and> map_option failure_kind (failure s) = Some K_conflict"

definition planStatusOf :: "job_state \<Rightarrow> plan_status" where
  "planStatusOf s =
     (if phase s = Ph_resolving then PS_resolving
      else if map_option rv_inFlight (review s) = Some True
      then (if map_option rv_action (review s) = Some Cancel then PS_cancelling else PS_submitting)
      else if is_conflict s then PS_stale
      else PS_editing)"

definition reviewFailureOf :: "job_state \<Rightarrow> api_failure option" where
  "reviewFailureOf s = (if failureSource s = Some FS_review then failure s else None)"

definition reviewIssuesOf :: "job_state \<Rightarrow> field_issue list" where
  "reviewIssuesOf s =
     (case reviewFailureOf s of Some (AF_validation c flds) \<Rightarrow> flds | _ \<Rightarrow> [])"

definition staleCauseOf :: "job_state \<Rightarrow> stale_cause" where
  "staleCauseOf s =
     (if Option.bind (detail s) jd_error_type = Some ''hitl_timeout''
      then Cause_hitl_timeout else Cause_resolved_elsewhere)"

definition hasActiveRun :: "job_state \<Rightarrow> bool" where
  "hasActiveRun s \<longleftrightarrow> \<not> (jobId s = None \<and> phase s = Ph_idle)"

definition isReviewPause :: "job_state \<Rightarrow> bool" where
  "isReviewPause s \<longleftrightarrow>
     (phase s = Ph_awaiting_review \<or> phase s = Ph_resolving \<or> planStatusOf s = PS_stale)
     \<and> plan s \<noteq> None"

definition isRunUnread :: "job_state \<Rightarrow> bool" where
  "isRunUnread s \<longleftrightarrow> phase s = Ph_attaching \<and> detail s = None"

text \<open>The plan the editor is mounted with, and the failure the panel announces itself.\<close>

definition panel_plan :: "job_state \<Rightarrow> json option" where
  "panel_plan s = (if isReviewPause s then plan s else None)"

definition announced :: "job_state \<Rightarrow> api_failure option" where
  "announced s =
     (if phase s = Ph_submit_failed then failure s
      else if panel_plan s = None then reviewFailureOf s else None)"

text \<open>One commit of the effect that writes the address: the id it remembers as written, and what
  it writes.\<close>

definition runHref :: "string \<Rightarrow> string \<Rightarrow> string" where
  "runHref conversationId job =
     ''/c/'' @ encodeURIComponent conversationId @ ''?job='' @ encodeURIComponent job"

definition sync_url ::
  "string \<Rightarrow> string option \<Rightarrow> string option \<Rightarrow> string option \<Rightarrow> string option \<times> string option"
where
  "sync_url conversationId adoptJobId job synced =
     (case job of
        None \<Rightarrow> (synced, None)
      | Some j \<Rightarrow> if adoptJobId = Some j \<or> synced = Some j then (synced, None)
                   else (Some j, Some (runHref conversationId j)))"

section \<open>The Markdown pipeline\<close>

text \<open>The module's promise: not asked for, in flight, resolved, rejected.\<close>

datatype import_state = Import_none | Import_pending | Import_loaded | Import_failed

definition loadReportRenderer :: "import_state \<Rightarrow> import_state" where
  "loadReportRenderer m = (if m = Import_none then Import_pending else m)"

definition loadedReportRenderer :: "import_state \<Rightarrow> bool" where
  "loadedReportRenderer m \<longleftrightarrow> m = Import_loaded"

record report_pipeline =
  rp_renderer :: bool
  rp_settled :: bool

definition PIPELINE_PENDING :: report_pipeline where
  "PIPELINE_PENDING = \<lparr>rp_renderer = False, rp_settled = False\<rparr>"

text \<open>The state of one \<open>useReportPipeline\<close>, the dependencies its effect last ran with, and
  whether a subscription of that run is still live.\<close>

record pipeline_hook =
  ph_import :: import_state
  ph_pipeline :: report_pipeline
  ph_deps :: "(bool \<times> bool) option"
  ph_live :: bool

definition pipeline_mount :: "import_state \<Rightarrow> pipeline_hook" where
  "pipeline_mount m =
     \<lparr>ph_import = m,
      ph_pipeline = (if loadedReportRenderer m then \<lparr>rp_renderer = True, rp_settled = True\<rparr>
                     else PIPELINE_PENDING),
      ph_deps = None, ph_live = False\<rparr>"

datatype pipeline_event = Pipe_commit bool | Pipe_import bool | Pipe_deliver

text \<open>A commit runs the effect when its dependencies changed, after the cleanup of the last run;
  the import settles once; its callbacks reach the subscription that is live.\<close>

fun pipeline_step :: "pipeline_hook \<Rightarrow> pipeline_event \<Rightarrow> pipeline_hook" where
  "pipeline_step h (Pipe_commit needed) =
     (let deps = (needed, rp_settled (ph_pipeline h))
      in if ph_deps h = Some deps then h
         else if \<not> needed \<or> rp_settled (ph_pipeline h)
         then h\<lparr>ph_deps := Some deps, ph_live := False\<rparr>
         else h\<lparr>ph_deps := Some deps, ph_live := True,
                ph_import := loadReportRenderer (ph_import h)\<rparr>)"
| "pipeline_step h (Pipe_import ok) =
     (if ph_import h = Import_pending
      then h\<lparr>ph_import := (if ok then Import_loaded else Import_failed)\<rparr> else h)"
| "pipeline_step h Pipe_deliver =
     (if ph_live h \<and> ph_import h \<in> {Import_loaded, Import_failed}
      then h\<lparr>ph_pipeline := \<lparr>rp_renderer = loadedReportRenderer (ph_import h), rp_settled = True\<rparr>,
             ph_live := False\<rparr>
      else h)"

definition useReportPipeline :: "pipeline_hook \<Rightarrow> bool \<Rightarrow> report_pipeline" where
  "useReportPipeline h needed = (if needed then ph_pipeline h else PIPELINE_PENDING)"

definition useReportRenderer :: "pipeline_hook \<Rightarrow> bool \<Rightarrow> bool" where
  "useReportRenderer h expanded = rp_renderer (useReportPipeline h expanded)"

section \<open>The timeline\<close>

record timeline =
  tl_toggled :: "string set"
  tl_painted :: bool

definition toggle :: "timeline \<Rightarrow> string \<Rightarrow> timeline" where
  "toggle t job =
     t\<lparr>tl_toggled := (if job \<in> tl_toggled t then tl_toggled t - {job}
                      else insert job (tl_toggled t))\<rparr>"

definition newest_of :: "briefing list \<Rightarrow> string option" where
  "newest_of briefings = (if briefings = [] then None else Some (br_jobId (last briefings)))"

definition isOpen :: "timeline \<Rightarrow> string option \<Rightarrow> string \<Rightarrow> bool" where
  "isOpen t newest job =
     (if job \<in> tl_toggled t then Some job \<noteq> newest else Some job = newest)"

definition needs_briefing :: "timeline \<Rightarrow> briefing list \<Rightarrow> bool" where
  "needs_briefing t briefings =
     (case find (\<lambda>b. isOpen t (newest_of briefings) (br_jobId b)) briefings of
        None \<Rightarrow> False | Some b \<Rightarrow> trim (br_markdown b) \<noteq> [])"

datatype run_row = Row_review | Row_attached | Row_none

definition run_row_of :: "job_state \<Rightarrow> run_row" where
  "run_row_of s =
     (if isReviewPause s then Row_review else if hasActiveRun s then Row_attached else Row_none)"

datatype frame =
    Frame_not_found | Frame_loading | Frame_load_error | Frame_held
  | Frame_loaded "(briefing \<times> bool) list" run_row

text \<open>What a render reads: the query's error, data and pending flag, the machine, the pipeline.\<close>

record timeline_input =
  ti_error :: "rejection option"
  ti_detail :: "conversation_detail option"
  ti_pending :: bool
  ti_state :: job_state
  ti_pipeline :: pipeline_hook

definition thread_briefings :: "timeline_input \<Rightarrow> briefing list" where
  "thread_briefings i =
     selectBriefings (history_of (conversationTurns (ti_detail i))) (currentRunOf (ti_state i))"

definition ThreadTimeline :: "timeline \<Rightarrow> timeline_input \<Rightarrow> frame \<times> timeline" where
  "ThreadTimeline t i =
     (let briefings = thread_briefings i;
          newest = newest_of briefings;
          holdForRun = (\<not> tl_painted t \<and> isRunUnread (ti_state i));
          needsBriefing = needs_briefing t briefings;
          pipeline = useReportPipeline (ti_pipeline i) needsBriefing;
          holdForBriefing = (\<not> tl_painted t \<and> needsBriefing \<and> \<not> rp_settled pipeline);
          notFound = (case ti_error i of Some (Rej_api e) \<Rightarrow> ae_status e = 404 | _ \<Rightarrow> False)
      in if notFound then (Frame_not_found, t)
         else if ti_detail i = None
         then (if ti_pending i then (Frame_loading, t) else (Frame_load_error, t))
         else if holdForRun \<or> holdForBriefing then (Frame_held, t)
         else (Frame_loaded (map (\<lambda>b. (b, isOpen t newest (br_jobId b))) briefings)
                 (run_row_of (ti_state i)),
               t\<lparr>tl_painted := True\<rparr>))"

text \<open>The job one turn reads for its metrics: none while collapsed, none when live.\<close>

definition retained_read :: "bool \<Rightarrow> briefing \<Rightarrow> string option" where
  "retained_read expanded b = (if expanded \<and> \<not> br_live b then Some (br_jobId b) else None)"

end
