(* ===== verification/Thread_Laws.thy ===== *)
theory Thread_Laws
  imports Thread_View
begin

text \<open>
  Laws and properties of a thread's page: one briefing per run, when the review editor is on
  screen and what its stale banner can say, which turns are open, when the loaded frame is
  painted, and when the Markdown module is imported.
\<close>

section \<open>One briefing per run\<close>

lemma find_index_None: "find_index p xs = None \<longleftrightarrow> (\<forall>x \<in> set xs. \<not> p x)"
  by (induction xs) auto

lemma find_index_Some: "find_index p xs = Some i \<Longrightarrow> i < length xs \<and> p (xs ! i)"
  by (induction xs arbitrary: i) (auto split: if_splits)

lemma merged_simps [simp]:
  "br_jobId (merged b cur) = br_jobId b" "br_ordinal (merged b cur) = br_ordinal b"
  "br_live (merged b cur)" "br_failure (merged b cur) = cu_failure cur"
  by (simp_all add: merged_def)

lemma history_briefing_simps [simp]:
  "br_jobId (history_briefing t) = ht_jobId t" "br_ordinal (history_briefing t) = ht_ordinal t"
  "\<not> br_live (history_briefing t)" "br_failure (history_briefing t) = None"
  by (simp_all add: history_briefing_def)

lemma map_update_same: "f y = f (xs ! i) \<Longrightarrow> map f (xs[i := y]) = map f xs"
  by (metis list_update_id map_update)

lemma sorted_map_last: "sorted (map f xs) \<Longrightarrow> x \<in> set xs \<Longrightarrow> f x \<le> f (last xs)"
  by (induction xs) auto

lemma filter_update_one:
  "i < length xs \<Longrightarrow> p y \<Longrightarrow> (\<And>x. x \<in> set xs \<Longrightarrow> \<not> p x) \<Longrightarrow> filter p (xs[i := y]) = [y]"
proof (induction xs arbitrary: i)
  case (Cons x xs)
  then have "filter p xs = []" "\<not> p x" by (auto simp: filter_empty_conv)
  with Cons show ?case by (cases i) auto
qed simp

text \<open>
  A run has one briefing: with a current run the briefings are those of the history in
  ordinal order, the current run among them in its place when history has it and last when it
  has not, ordinals stay in order, exactly one entry is live, it is the current run's and carries
  its failure, and no id is shown twice unless the history itself repeats it.
\<close>

lemma current_run_has_one_briefing:
  "let ids = map ht_jobId (sort_key ht_ordinal turns);
       briefings = selectBriefings turns (Some cur)
   in map br_jobId briefings
        = (if cu_jobId cur \<in> set ids then ids else ids @ [cu_jobId cur])
    \<and> sorted (map br_ordinal briefings)
    \<and> map br_jobId (filter br_live briefings) = [cu_jobId cur]
    \<and> map br_failure (filter br_live briefings) = [cu_failure cur]
    \<and> (distinct (map br_jobId briefings) \<longleftrightarrow> distinct (map ht_jobId turns))"
proof -
  let ?ordered = "sort_key ht_ordinal turns"
  let ?history = "map history_briefing ?ordered"
  let ?here = "\<lambda>entry. br_jobId entry = cu_jobId cur"
  have ids: "map br_jobId ?history = map ht_jobId ?ordered" by simp
  have ords: "sorted (map br_ordinal ?history)" by (simp add: comp_def)
  have dist: "distinct (map ht_jobId ?ordered) \<longleftrightarrow> distinct (map ht_jobId turns)"
    using distinct_map [of ht_jobId turns] by (simp add: distinct_map)
  show ?thesis
  proof (cases "find_index ?here ?history")
    case None
    then have new: "cu_jobId cur \<notin> set (map ht_jobId ?ordered)"
      by (auto simp: find_index_None)
    define h where "h = ?history"
    have "br_ordinal b \<le> (if h = [] then 0 else br_ordinal (last h)) + 1" if "b \<in> set h" for b
    proof -
      have "br_ordinal b \<le> br_ordinal (last h)"
        using sorted_map_last [of br_ordinal h b] ords that by (simp only: h_def)
      moreover have "h \<noteq> []" using that by auto
      ultimately show ?thesis by simp
    qed
    then have "sorted (map br_ordinal (selectBriefings turns (Some cur)))"
      using ords unfolding selectBriefings_def Let_def None option.case unfolding h_def [symmetric]
      by (simp add: sorted_append)
    then show ?thesis
      using new dist
      by (simp add: selectBriefings_def Let_def None comp_def filter_empty_conv)
  next
    case (Some i)
    then have i: "i < length ?history" "?here (?history ! i)"
      using find_index_Some [OF Some] by blast+
    then have old: "cu_jobId cur \<in> set (map ht_jobId ?ordered)"
      using nth_mem [OF i(1)] by (metis ids image_eqI list.set_map)
    have out: "selectBriefings turns (Some cur) = ?history[i := merged (?history ! i) cur]"
      by (simp only: selectBriefings_def Let_def Some option.case)
    have "filter br_live (?history[i := merged (?history ! i) cur]) = [merged (?history ! i) cur]"
      by (rule filter_update_one [OF i(1)]) auto
    then show ?thesis
      using old dist ords i(2)
      by (simp only: out map_update_same merged_simps ids Let_def if_True list.map)
  qed
qed

section \<open>The stale banner\<close>

definition terminal_detail :: "job_state \<Rightarrow> bool" where
  "terminal_detail s \<longleftrightarrow> (case detail s of Some d \<Rightarrow> isTerminalJobStatus (jd_status d) | None \<Rightarrow> False)"

text \<open>A finished run's record is held only once the run is over, and never beside a conflict.\<close>

definition read_inv :: "job_state \<Rightarrow> bool" where
  "read_inv s \<longleftrightarrow>
     (terminal_detail s \<longrightarrow> phase s \<in> {Ph_settled, Ph_unavailable} \<and> \<not> is_conflict s)"

lemma read_inv_adopt: "read_inv (adoptDetail s d src)"
  by (simp add: read_inv_def adoptDetail_def Let_def terminal_detail_def is_conflict_def cleared_def)

lemma stale_conflict: "planStatusOf s = PS_stale \<Longrightarrow> is_conflict s"
  by (simp add: planStatusOf_def split: if_splits)

lemma adopt_conflict: "\<not> is_conflict (adoptDetail s d src)"
  by (simp add: adoptDetail_def Let_def is_conflict_def cleared_def)

lemma read_inv_connection [simp]: "read_inv (s\<lparr>connection := c\<rparr>) = read_inv s"
  by (simp add: read_inv_def terminal_detail_def is_conflict_def)

lemma read_inv_kept:
  "read_inv s \<Longrightarrow> detail t = detail s \<Longrightarrow> failureSource t = failureSource s \<Longrightarrow>
     failure t = failure s \<Longrightarrow> phase t = phase s \<or> \<not> terminal_detail s \<Longrightarrow> read_inv t"
  by (auto simp: read_inv_def terminal_detail_def is_conflict_def)

lemma noteFrame_keeps [simp]:
  "detail (noteFrame s f) = detail s" "failureSource (noteFrame s f) = failureSource s"
  "failure (noteFrame s f) = failure s"
  by (simp_all add: handler_defs Let_def)

lemma observe_keeps [simp]:
  "detail (observeCheckpoint s f) = detail s"
  "failureSource (observeCheckpoint s f) = failureSource s"
  "failure (observeCheckpoint s f) = failure s"
  by (simp_all add: observeCheckpoint_def Let_def split: option.split)

lemma read_inv_step: "read_inv s \<Longrightarrow> read_inv (jobReducer s e)"
  unfolding jobReducer_def
  by (cases "phase s"; cases e;
      simp add: read_inv_adopt IGNORE_def awaitingLearner_row_def Let_def;
      simp add: read_inv_def terminal_detail_def is_conflict_def Let_def signalTerminal_def
        narrateInterruption_def withFrame_def freshRun_def initialJobState_def cleared_def
        beginConnection_def toUnavailable_def with_failure_def logFrame_def terminalFrame_def
        split: option.split;
      auto split: option.splits)

interpretation shown: reducer jobReducer initialJobState read_inv
  by unfold_locales
     (simp add: read_inv_def terminal_detail_def initialJobState_def, rule read_inv_step)

text \<open>
  What the review editor shows after a conflict: a 409 keeps the editor on screen with its
  plan and marks it stale; but while it is stale the run has never been read as over, in any run
  of the machine: the first read that answers ends the stale state, so the cause of the banner is
  never taken from the refetched record of a run that timed out.
\<close>

lemma stale_banner_precedes_the_refetch:
  "(let s = runs jobReducer initialJobState es
    in planStatusOf s = PS_stale \<longrightarrow>
         (case detail s of Some d \<Rightarrow> \<not> isTerminalJobStatus (jd_status d) | None \<Rightarrow> True))
   \<and> planStatusOf (adoptDetail s d src) \<noteq> PS_stale
   \<and> (phase s = Ph_awaiting_review \<and> failure_kind f = K_conflict \<longrightarrow>
        (let t = jobReducer s (Ev_review_conflict (Some f) message status now)
         in planStatusOf t = PS_stale \<and> panel_plan t = plan s \<and> detail t = detail s))"
proof (intro conjI)
  have over: "planStatusOf r = PS_stale \<longrightarrow>
      (case detail r of Some d \<Rightarrow> \<not> isTerminalJobStatus (jd_status d) | None \<Rightarrow> True)"
    if "read_inv r" for r
  proof
    assume "planStatusOf r = PS_stale"
    from stale_conflict [OF this]
    show "case detail r of Some d \<Rightarrow> \<not> isTerminalJobStatus (jd_status d) | None \<Rightarrow> True"
      using that by (cases "detail r") (simp_all add: read_inv_def terminal_detail_def)
  qed
  show "let s = runs jobReducer initialJobState es
    in planStatusOf s = PS_stale \<longrightarrow>
         (case detail s of Some d \<Rightarrow> \<not> isTerminalJobStatus (jd_status d) | None \<Rightarrow> True)"
    unfolding Let_def by (rule over [OF shown.inv_from_init])
  show "planStatusOf (adoptDetail s d src) \<noteq> PS_stale"
    using stale_conflict adopt_conflict by blast
  show "phase s = Ph_awaiting_review \<and> failure_kind f = K_conflict \<longrightarrow>
        (let t = jobReducer s (Ev_review_conflict (Some f) message status now)
         in planStatusOf t = PS_stale \<and> panel_plan t = plan s \<and> detail t = detail s)"
    by (auto simp: jobReducer_def with_failure_def planStatusOf_def panel_plan_def
        isReviewPause_def is_conflict_def Let_def)
qed

section \<open>Open turns\<close>

text \<open>
  Toggling a turn changes that turn and no other; and when a new run becomes the newest turn
  it opens by itself, the older turns keep what the reader chose, except the one that was newest
  before: closed by the reader it opens, and left open it closes.
\<close>

lemma arrival_flips_the_previous_newest:
  "isOpen (toggle t job) newest j = (if j = job then \<not> isOpen t newest j else isOpen t newest j)
   \<and> (isOpen t (Some next) j \<longleftrightarrow>
        (if j = next then next \<notin> tl_toggled t
         else if newest = Some j then \<not> isOpen t newest j
         else isOpen t newest j))"
proof
  show "isOpen (toggle t job) newest j = (if j = job then \<not> isOpen t newest j else isOpen t newest j)"
    by (cases "job \<in> tl_toggled t"; cases "j = job"; simp add: isOpen_def toggle_def)
  show "isOpen t (Some next) j \<longleftrightarrow>
        (if j = next then next \<notin> tl_toggled t
         else if newest = Some j then \<not> isOpen t newest j
         else isOpen t newest j)"
    by (cases "j \<in> tl_toggled t"; cases "newest = Some j"; simp add: isOpen_def; auto)
qed

section \<open>The painted frame\<close>

definition pipe_inv :: "pipeline_hook \<Rightarrow> bool" where
  "pipe_inv h \<longleftrightarrow>
     (ph_live h \<longrightarrow> ph_deps h = Some (True, False) \<and> \<not> rp_settled (ph_pipeline h)
        \<and> ph_import h \<noteq> Import_none)
   \<and> (ph_deps h = Some (True, False) \<longrightarrow> ph_live h \<or> rp_settled (ph_pipeline h))
   \<and> (rp_renderer (ph_pipeline h) \<longrightarrow> ph_import h = Import_loaded \<and> rp_settled (ph_pipeline h))
   \<and> (rp_settled (ph_pipeline h) \<and> \<not> rp_renderer (ph_pipeline h) \<longrightarrow> ph_import h = Import_failed)"

lemma pipe_inv_mount: "pipe_inv (pipeline_mount m)"
  by (simp add: pipe_inv_def pipeline_mount_def loadedReportRenderer_def PIPELINE_PENDING_def)

lemma pipe_inv_step: "pipe_inv h \<Longrightarrow> pipe_inv (pipeline_step h e)"
proof (cases e)
  case (Pipe_commit needed)
  then show "pipe_inv h \<Longrightarrow> ?thesis"
    by (cases needed; cases "rp_settled (ph_pipeline h)"; cases "ph_import h";
        simp add: pipe_inv_def Let_def loadReportRenderer_def; auto)
next
  case (Pipe_import ok)
  then show "pipe_inv h \<Longrightarrow> ?thesis"
    by (cases "ph_import h"; simp add: pipe_inv_def; auto)
next
  case Pipe_deliver
  then show "pipe_inv h \<Longrightarrow> ?thesis"
    by (cases "ph_import h"; simp add: pipe_inv_def loadedReportRenderer_def; auto)
qed

interpretation pipe: reducer pipeline_step "pipeline_mount m" pipe_inv for m
  by unfold_locales (rule pipe_inv_mount, rule pipe_inv_step)

lemma settled_kept:
  "rp_settled (ph_pipeline h) \<Longrightarrow> rp_settled (ph_pipeline (pipeline_step h e))"
  by (cases e) (simp_all add: Let_def)

lemma commit_waits:
  "pipe_inv h \<Longrightarrow> \<not> rp_settled (ph_pipeline h) \<Longrightarrow>
     ph_live (pipeline_step h (Pipe_commit True))
   \<and> ph_import (pipeline_step h (Pipe_commit True)) \<noteq> Import_none
   \<and> \<not> rp_settled (ph_pipeline (pipeline_step h (Pipe_commit True)))"
  by (auto simp: pipe_inv_def Let_def loadReportRenderer_def)

lemma delivered:
  "ph_live h \<Longrightarrow> ph_import h \<noteq> Import_none \<Longrightarrow>
     rp_settled (ph_pipeline (pipeline_step (pipeline_step h (Pipe_import ok)) Pipe_deliver))"
  by (cases "ph_import h") simp_all

lemma pipeline_settles:
  assumes "pipe_inv h"
  shows "rp_settled (ph_pipeline (runs pipeline_step h [Pipe_commit True, Pipe_import ok, Pipe_deliver]))"
proof (cases "rp_settled (ph_pipeline h)")
  case True
  then show ?thesis
    by (simp only: runs_Cons runs_Nil) (intro settled_kept)
next
  case False
  show ?thesis
    using commit_waits [OF assms False]
    by (simp only: runs_Cons runs_Nil) (intro delivered; blast)
qed

text \<open>A module that was never asked for stays so while nothing needs it.\<close>

lemma never_needed:
  "Pipe_commit True \<notin> set es \<Longrightarrow> ph_import h = Import_none \<Longrightarrow> \<not> ph_live h \<Longrightarrow>
     ph_import (runs pipeline_step h es) = Import_none"
proof (induction es arbitrary: h)
  case (Cons e es)
  have "ph_import (pipeline_step h e) = Import_none \<and> \<not> ph_live (pipeline_step h e)"
  proof (cases e)
    case (Pipe_commit b)
    with Cons.prems show ?thesis by (auto simp: Let_def)
  qed (use Cons.prems in auto)
  with Cons show ?case by simp
qed simp

text \<open>
  A collapsed turn never parses: while no commit needs the pipeline the Markdown module is
  never imported; whatever happened before, once a turn needs it, its import has settled and the
  callbacks have run, the pipeline is settled; and it then offers a renderer exactly when the
  import loaded, and offers none to a turn that is collapsed.
\<close>

lemma pipeline_loads_on_demand:
  "(Pipe_commit True \<notin> set es \<longrightarrow>
      ph_import (runs pipeline_step (pipeline_mount Import_none) es) = Import_none)
   \<and> (let h = runs pipeline_step (pipeline_mount m)
                (es @ [Pipe_commit True, Pipe_import ok, Pipe_deliver])
      in rp_settled (useReportPipeline h True)
       \<and> (useReportRenderer h True \<longleftrightarrow> ph_import h = Import_loaded)
       \<and> \<not> useReportRenderer h False)"
proof (intro conjI impI)
  show "ph_import (runs pipeline_step (pipeline_mount Import_none) es) = Import_none"
    if "Pipe_commit True \<notin> set es"
    by (rule never_needed [OF that]) (simp_all add: pipeline_mount_def loadedReportRenderer_def)
  define h where "h = runs pipeline_step (pipeline_mount m)
      (es @ [Pipe_commit True, Pipe_import ok, Pipe_deliver])"
  have "rp_settled (ph_pipeline h)"
    unfolding h_def runs_append by (rule pipeline_settles [OF pipe.inv_from_init])
  moreover have "pipe_inv h"
    unfolding h_def by (rule pipe.inv_from_init)
  ultimately show "let h = runs pipeline_step (pipeline_mount m)
                (es @ [Pipe_commit True, Pipe_import ok, Pipe_deliver])
      in rp_settled (useReportPipeline h True)
       \<and> (useReportRenderer h True \<longleftrightarrow> ph_import h = Import_loaded)
       \<and> \<not> useReportRenderer h False"
    unfolding h_def [symmetric] Let_def
    by (auto simp: useReportRenderer_def useReportPipeline_def pipe_inv_def PIPELINE_PENDING_def)
qed

lemma pipeline_loads_on_demand_witness:
  "ph_import (runs pipeline_step (pipeline_mount Import_none)
     [Pipe_commit False, Pipe_import True]) = Import_none"
  using pipeline_loads_on_demand [of "[Pipe_commit False, Pipe_import True]"] by simp

definition shows_missing :: "timeline_input \<Rightarrow> bool" where
  "shows_missing i \<longleftrightarrow> (case ti_error i of Some (Rej_api e) \<Rightarrow> ae_status e = 404 | _ \<Rightarrow> False)"

text \<open>
  When the thread is painted: the loaded frame is shown exactly when the thread was read and
  is not a 404 and either it was painted before or nothing provisional would be painted (the run
  has been read, and a briefing that is open can be rendered or has failed to load); once painted
  it stays until the thread is gone; it shows every briefing once; and its run row makes room for
  the editor exactly when the editor is mounted.
\<close>

lemma loaded_frame_when_ready:
  "case ThreadTimeline t i of (frame, t') \<Rightarrow>
     (case frame of
        Frame_loaded shown row \<Rightarrow>
          \<not> shows_missing i \<and> ti_detail i \<noteq> None \<and> tl_painted t'
          \<and> (tl_painted t \<or> \<not> isRunUnread (ti_state i)
               \<and> (needs_briefing t (thread_briefings i) \<longrightarrow> rp_settled (ph_pipeline (ti_pipeline i))))
          \<and> map fst shown = thread_briefings i
          \<and> (row = Row_review \<longleftrightarrow> panel_plan (ti_state i) \<noteq> None)
      | _ \<Rightarrow> t' = t
          \<and> (shows_missing i \<or> ti_detail i = None
             \<or> \<not> tl_painted t \<and> (isRunUnread (ti_state i)
                 \<or> needs_briefing t (thread_briefings i)
                   \<and> \<not> rp_settled (ph_pipeline (ti_pipeline i)))))
   \<and> tl_toggled t' = tl_toggled t"
proof -
  have missing: "(case ti_error i of Some (Rej_api e) \<Rightarrow> ae_status e = 404 | _ \<Rightarrow> False) = shows_missing i"
    by (simp add: shows_missing_def)
  have row: "run_row_of (ti_state i) = Row_review \<longleftrightarrow> panel_plan (ti_state i) \<noteq> None"
    by (simp add: run_row_of_def panel_plan_def isReviewPause_def)
  have pipe: "rp_settled (useReportPipeline (ti_pipeline i) True) = rp_settled (ph_pipeline (ti_pipeline i))"
    by (simp add: useReportPipeline_def)
  show ?thesis
    unfolding ThreadTimeline_def Let_def missing
    by (cases "shows_missing i"; cases "ti_detail i"; cases "tl_painted t";
        cases "needs_briefing t (thread_briefings i)"; cases "isRunUnread (ti_state i)";
        simp add: row pipe comp_def; cases "rp_settled (ph_pipeline (ti_pipeline i))";
        simp add: row comp_def)
qed

definition example_thread :: conversation_detail where
  "example_thread = \<lparr>cd_conversation_id = ''c'', cd_title = ''t'', cd_created_at = JInt 0,
     cd_updated_at = JInt 0, cd_jobs = [\<lparr>js_job_id = ''j'', js_ordinal = 1, js_query = ''q'',
       js_report = ''r'', js_created_at = JInt 0\<rparr>]\<rparr>"

definition example_input :: "pipeline_event list \<Rightarrow> timeline_input" where
  "example_input es = \<lparr>ti_error = None, ti_detail = Some example_thread, ti_pending = False,
     ti_state = initialJobState,
     ti_pipeline = runs pipeline_step (pipeline_mount Import_none) es\<rparr>"

lemma loaded_frame_when_ready_witness:
  "case ThreadTimeline \<lparr>tl_toggled = {}, tl_painted = False\<rparr>
          (example_input [Pipe_commit True, Pipe_import True, Pipe_deliver]) of
     (Frame_loaded shown row, t') \<Rightarrow> map (br_jobId \<circ> fst) shown = [''j''] \<and> tl_painted t'
   | (_, t') \<Rightarrow> False"
proof -
  let ?t = "\<lparr>tl_toggled = {}, tl_painted = False\<rparr>"
  let ?i = "example_input [Pipe_commit True, Pipe_import True, Pipe_deliver]"
  have "map br_jobId (thread_briefings ?i) = [''j'']"
    by (simp add: thread_briefings_def example_input_def example_thread_def conversationTurns_def
        history_of_def selectBriefings_def currentRunOf_def initialJobState_def)
  moreover have "\<not> isRunUnread (ti_state ?i)" "\<not> shows_missing ?i" "ti_detail ?i \<noteq> None"
    by (simp_all add: isRunUnread_def shows_missing_def example_input_def initialJobState_def)
  moreover have "rp_settled (ph_pipeline (ti_pipeline ?i))"
    unfolding example_input_def timeline_input.select_convs
    by (rule pipeline_settles [OF pipe_inv_mount])
  ultimately show ?thesis
    using loaded_frame_when_ready [of ?t ?i]
    by (auto split: prod.splits frame.splits simp flip: map_map)
qed

section \<open>The address\<close>

text \<open>The panel writes a job's address at most once in a row and never the adopted one.\<close>

lemma sync_url_writes:
  "sync_url c adopt job synced = (synced', Some href) \<Longrightarrow>
     \<exists>j. job = Some j \<and> adopt \<noteq> Some j \<and> synced \<noteq> Some j \<and> synced' = Some j \<and> href = runHref c j"
  by (auto simp: sync_url_def split: option.splits if_splits)

text \<open>But the memory is one id deep: a run that is left and returned to is written again.\<close>

lemma sync_url_again:
  "a \<noteq> b \<Longrightarrow>
     (let (s1, w1) = sync_url c None (Some a) None;
          (s2, w2) = sync_url c (Some a) (Some b) s1;
          (s3, w3) = sync_url c (Some b) (Some a) s2
      in w1 = Some (runHref c a) \<and> w2 = Some (runHref c b) \<and> w3 = Some (runHref c a))"
  by (simp add: sync_url_def)

section \<open>A conflict, run to the stale banner\<close>

definition conflict_run :: "job_event list" where
  "conflict_run =
     [Ev_attach_requested ''j'' True 1,
      Ev_detail_resolved ((example_detail ''j'' St_pending_review)\<lparr>jd_plan := Some (JObj [])\<rparr>) DS_attach 2,
      Ev_review_requested Approve 3,
      Ev_review_conflict (Some (AF_conflict \<lparr>fc_message = [], fc_raw = RawUndefined,
        fc_requestId = None\<rparr> None)) ''409'' (Some 409) 4]"

lemma conflict_run_stale:
  "planStatusOf (runs jobReducer initialJobState conflict_run) = PS_stale"
  "detail (runs jobReducer initialJobState conflict_run)
     = Some ((example_detail ''j'' St_pending_review)\<lparr>jd_plan := Some (JObj [])\<rparr>)"
  by (simp_all add: conflict_run_def jobReducer_def handler_defs adoptDetail_def Let_def
      example_detail_def isTerminalJobStatus_def TERMINAL_JOB_STATUSES_def planStatusOf_def
      is_conflict_def)

lemma stale_banner_precedes_the_refetch_witness:
  "case detail (runs jobReducer initialJobState conflict_run) of
     Some d \<Rightarrow> jd_status d = St_pending_review \<and> \<not> isTerminalJobStatus (jd_status d) | None \<Rightarrow> False"
  using stale_banner_precedes_the_refetch [of conflict_run]
  by (simp add: conflict_run_stale example_detail_def)

end
