(* ===== verification/Composer.thy ===== *)
theory Composer
  imports Copy_Errors Thread_View
begin

text \<open>
  Asking a question: the composer's copy (\<open>web/lib/copy/composer.ts\<close>), the guard of
  \<open>web/components/features/QueryComposer.tsx\<close>, and the landing page's attempt in
  \<open>LandingComposer.tsx\<close>: the thread that is created first, the submission into it and the
  hand-off. Calls and their answers are appended to \<open>ld_log\<close>; the environment presses the
  button, answers a call or commits a render, in any order. \<open>submit\<close> is the provider's.
\<close>

section \<open>Copy\<close>

definition MAX_QUERY_LEN :: nat where
  "MAX_QUERY_LEN = 8000"

definition composer_groupDigits :: "nat \<Rightarrow> string" where
  "composer_groupDigits v = commas (show_nat v)"

definition queryCounter :: "nat \<Rightarrow> string" where
  "queryCounter len =
     composer_groupDigits len @ '' / '' @ composer_groupDigits MAX_QUERY_LEN"

definition queryOverLimit :: "nat \<Rightarrow> string" where
  "queryOverLimit len =
     (let over = len - MAX_QUERY_LEN
      in composer_groupDigits over @ '' character'' @ (if over = 1 then [] else ''s'')
           @ '' over the limit. Shorten the question to send it.'')"

definition COMPOSER_emptyQuestion :: string where
  "COMPOSER_emptyQuestion = ''Type a question first. Nothing is sent until you do.''"

section \<open>The composer\<close>

record composer_props =
  qp_pending :: bool
  qp_unreachable :: "api_failure option"

definition is_over :: "string \<Rightarrow> bool" where
  "is_over text \<longleftrightarrow> length text > MAX_QUERY_LEN"

text \<open>\<open>Math.floor(MAX_QUERY_LEN * NEAR_LIMIT_RATIO)\<close>, with the ratio \<open>0.9\<close>.\<close>

definition is_near :: "string \<Rightarrow> bool" where
  "is_near text \<longleftrightarrow> \<not> is_over text \<and> length text \<ge> MAX_QUERY_LEN * 9 div 10"

definition refusal_reason :: "composer_props \<Rightarrow> string \<Rightarrow> string option" where
  "refusal_reason p text =
     (case qp_unreachable p of
        Some f \<Rightarrow> Some (cp_sentence (describeFailure f))
      | None \<Rightarrow> if is_over text then Some (queryOverLimit (length text))
                 else if trim text = [] then Some COMPOSER_emptyQuestion
                 else None)"

definition refuses :: "composer_props \<Rightarrow> string \<Rightarrow> bool" where
  "refuses p text \<longleftrightarrow> qp_pending p \<or> refusal_reason p text \<noteq> None"

text \<open>The question \<open>onSubmit\<close> is called with; \<open>inFlight\<close> is the composer's own guard.\<close>

definition trySubmit :: "bool \<Rightarrow> composer_props \<Rightarrow> string \<Rightarrow> string option" where
  "trySubmit inFlight p text =
     (let question = trim text
      in if inFlight then None
         else if qp_pending p \<or> qp_unreachable p \<noteq> None then None
         else if question = [] \<or> length question > MAX_QUERY_LEN then None
         else Some question)"

section \<open>The landing page\<close>

definition handoffHref :: "string \<Rightarrow> string \<Rightarrow> string" where
  "handoffHref conversationId job =
     ''/c/'' @ encodeURIComponent conversationId @ ''?job='' @ encodeURIComponent job"

definition threadHref :: "string \<Rightarrow> string" where
  "threadHref conversationId = ''/c/'' @ encodeURIComponent conversationId"

fun asFailure :: "rejection \<Rightarrow> api_failure" where
  "asFailure (Rej_api e) = ae_failure e"
| "asFailure (Rej_other e) =
     AF_unknown \<lparr>fc_message = [], fc_raw = RawThrown e, fc_requestId = None\<rparr> None"

definition UNNORMALIZED_SUBMIT_FAILURE :: api_failure where
  "UNNORMALIZED_SUBMIT_FAILURE =
     AF_unknown \<lparr>fc_message = [], fc_raw = RawValue JNull, fc_requestId = None\<rparr> None"

datatype landing_effect =
    Call_createThread | Answer_thread string | Answer_thread_failed
  | Call_submit string string | Answer_submit | Call_handoff string

text \<open>Where the one running attempt waits: nowhere, for the thread, for the submission.\<close>

datatype attempt = No_attempt | Awaiting_thread string | Awaiting_submit

record landing =
  ld_inFlight :: bool
  ld_busy :: bool
  ld_attempt :: attempt
  ld_reusable :: "string option"
  ld_threadId :: "string option"
  ld_threadFailure :: "api_failure option"
  ld_creating :: bool
  ld_handedOff :: "string option"
  ld_log :: "landing_effect list"

definition landing_init :: landing where
  "landing_init = \<lparr>ld_inFlight = False, ld_busy = False, ld_attempt = No_attempt,
     ld_reusable = None, ld_threadId = None, ld_threadFailure = None, ld_creating = False,
     ld_handedOff = None, ld_log = []\<rparr>"

definition landing_call :: "landing_effect \<Rightarrow> landing \<Rightarrow> landing" where
  "landing_call x l = l\<lparr>ld_log := ld_log l @ [x]\<rparr>"

text \<open>The attempt after the thread is known.\<close>

definition submit_into :: "string \<Rightarrow> string \<Rightarrow> landing \<Rightarrow> landing" where
  "submit_into question conversationId l =
     (landing_call (Call_submit question conversationId) l)\<lparr>ld_attempt := Awaiting_submit\<rparr>"

definition landing_handleSubmit :: "string \<Rightarrow> landing \<Rightarrow> landing" where
  "landing_handleSubmit question l =
     (if ld_busy l then l
      else let l1 = l\<lparr>ld_busy := True, ld_creating := True, ld_threadFailure := None\<rparr>
           in case ld_reusable l1 of
                None \<Rightarrow> (landing_call Call_createThread l1)\<lparr>ld_attempt := Awaiting_thread question\<rparr>
              | Some c \<Rightarrow> submit_into question c l1)"

datatype landing_event =
    Press composer_props string
  | Thread_answers string | Thread_fails rejection
  | Submit_settles
  | Landing_commit "string option"

text \<open>The promise of the handler settles with its last line, and the composer's guard with it.\<close>

fun landing_step :: "landing \<Rightarrow> landing_event \<Rightarrow> landing" where
  "landing_step l (Press p text) =
     (case trySubmit (ld_inFlight l) p text of
        None \<Rightarrow> l
      | Some question \<Rightarrow>
          (let l1 = landing_handleSubmit question (l\<lparr>ld_inFlight := True\<rparr>)
           in if ld_attempt l1 = No_attempt then l1\<lparr>ld_inFlight := False\<rparr> else l1))"
| "landing_step l (Thread_answers conversationId) =
     (case ld_attempt l of
        Awaiting_thread question \<Rightarrow>
          submit_into question conversationId
            ((landing_call (Answer_thread conversationId) l)
               \<lparr>ld_reusable := Some conversationId, ld_threadId := Some conversationId\<rparr>)
      | _ \<Rightarrow> l)"
| "landing_step l (Thread_fails e) =
     (case ld_attempt l of
        Awaiting_thread question \<Rightarrow>
          (landing_call Answer_thread_failed l)\<lparr>ld_threadFailure := Some (asFailure e),
            ld_creating := False, ld_busy := False, ld_inFlight := False,
            ld_attempt := No_attempt\<rparr>
      | _ \<Rightarrow> l)"
| "landing_step l Submit_settles =
     (case ld_attempt l of
        Awaiting_submit \<Rightarrow>
          (landing_call Answer_submit l)\<lparr>ld_creating := False, ld_busy := False,
            ld_inFlight := False, ld_attempt := No_attempt\<rparr>
      | _ \<Rightarrow> l)"
| "landing_step l (Landing_commit acceptedJobId) =
     (case (acceptedJobId, ld_threadId l) of
        (Some job, Some conversationId) \<Rightarrow>
          if ld_handedOff l = Some job then l
          else (landing_call (Call_handoff (handoffHref conversationId job)) l)
                 \<lparr>ld_handedOff := Some job\<rparr>
      | _ \<Rightarrow> l)"

text \<open>What the page passes to the composer.\<close>

definition landing_pending :: "landing \<Rightarrow> job_state \<Rightarrow> bool" where
  "landing_pending l s \<longleftrightarrow> ld_creating l \<or> phase s = Ph_submitting \<or> jobId s \<noteq> None"

definition landing_failure :: "landing \<Rightarrow> job_state \<Rightarrow> api_failure option" where
  "landing_failure l s =
     (if phase s = Ph_submit_failed
      then Some (case failure s of Some f \<Rightarrow> f | None \<Rightarrow> UNNORMALIZED_SUBMIT_FAILURE)
      else ld_threadFailure l)"

definition landing_orphan :: "landing \<Rightarrow> job_state \<Rightarrow> string option" where
  "landing_orphan l s =
     (if phase s = Ph_submit_failed then map_option threadHref (ld_threadId l) else None)"

section \<open>Laws\<close>

definition calls_of :: "landing_effect \<Rightarrow> landing_effect list \<Rightarrow> nat" where
  "calls_of x calls = length (filter ((=) x) calls)"

definition submits_of :: "landing_effect list \<Rightarrow> (string \<times> string) list" where
  "submits_of calls = List.map_filter (\<lambda>x. case x of Call_submit q c \<Rightarrow> Some (q, c) | _ \<Rightarrow> None) calls"

definition handoffs_of :: "landing_effect list \<Rightarrow> string list" where
  "handoffs_of calls = List.map_filter (\<lambda>x. case x of Call_handoff h \<Rightarrow> Some h | _ \<Rightarrow> None) calls"

lemma calls_simps [simp]:
  "calls_of x [] = 0" "calls_of x (y # ys) = (if x = y then 1 else 0) + calls_of x ys"
  "calls_of x (xs @ ys) = calls_of x xs + calls_of x ys"
  "submits_of [] = []"
  "submits_of (y # ys) = (case y of Call_submit q c \<Rightarrow> [(q, c)] | _ \<Rightarrow> []) @ submits_of ys"
  "submits_of (xs @ ys) = submits_of xs @ submits_of ys"
  "handoffs_of [] = []"
  "handoffs_of (y # ys) = (case y of Call_handoff h \<Rightarrow> [h] | _ \<Rightarrow> []) @ handoffs_of ys"
  "handoffs_of (xs @ ys) = handoffs_of xs @ handoffs_of ys"
  by (simp_all add: calls_of_def submits_of_def handoffs_of_def map_filter_def
      split: landing_effect.split)

definition landing_inv :: "landing \<Rightarrow> bool" where
  "landing_inv l \<longleftrightarrow>
     (ld_busy l \<longleftrightarrow> ld_attempt l \<noteq> No_attempt) \<and> (ld_inFlight l \<longleftrightarrow> ld_busy l)
   \<and> ld_threadId l = ld_reusable l
   \<and> (\<forall>q. ld_attempt l = Awaiting_thread q \<longrightarrow> ld_reusable l = None)
   \<and> calls_of Call_createThread (ld_log l)
       = calls_of Answer_thread_failed (ld_log l)
         + (if ld_reusable l = None \<and> \<not> (\<exists>q. ld_attempt l = Awaiting_thread q) then 0 else 1)
   \<and> length (submits_of (ld_log l))
       = calls_of Answer_submit (ld_log l) + (if ld_attempt l = Awaiting_submit then 1 else 0)
   \<and> (\<forall>x \<in> set (submits_of (ld_log l)). ld_reusable l = Some (snd x))
   \<and> (\<forall>h \<in> set (handoffs_of (ld_log l)). \<exists>c j. ld_reusable l = Some c \<and> h = handoffHref c j)"

lemma landing_inv_init: "landing_inv landing_init"
  by (simp add: landing_inv_def landing_init_def)

lemmas landing_defs = landing_inv_def landing_call_def submit_into_def landing_handleSubmit_def Let_def

lemma landing_inv_step: "landing_inv l \<Longrightarrow> landing_inv (landing_step l e)"
proof (cases e)
  case (Press p typed)
  assume inv: "landing_inv l"
  show ?thesis
  proof (cases "trySubmit (ld_inFlight l) p typed")
    case None
    then show ?thesis using inv by (simp add: Press)
  next
    case (Some question)
    then have "\<not> ld_inFlight l" by (simp add: trySubmit_def Let_def split: if_splits)
    then have "\<not> ld_busy l" "ld_attempt l = No_attempt"
      using inv by (auto simp: landing_inv_def)
    then show ?thesis using inv Some
      by (cases "ld_reusable l") (auto simp: Press landing_defs)
  qed
next
  case (Thread_answers conversationId)
  assume "landing_inv l"
  then show ?thesis
    by (cases "ld_attempt l") (auto simp: Thread_answers landing_defs)
next
  case (Thread_fails r)
  assume "landing_inv l"
  then show ?thesis
    by (cases "ld_attempt l") (auto simp: Thread_fails landing_defs)
next
  case Submit_settles
  assume "landing_inv l"
  then show ?thesis
    by (cases "ld_attempt l") (auto simp: Submit_settles landing_defs)
next
  case (Landing_commit accepted)
  assume "landing_inv l"
  then show ?thesis
    by (auto simp: Landing_commit landing_defs split: option.split)
qed

interpretation landing: reducer landing_step landing_init landing_inv
  by unfold_locales (rule landing_inv_init, rule landing_inv_step)

section \<open>Properties\<close>

text \<open>
  When the composer sends: exactly a trimmed, non-empty question of at most 8000 characters,
  when nothing is in flight, pending or unreachable; and the one case where the control says it
  refuses and still sends is a text that is over the limit only by the white space around it.
\<close>

lemma composer_sends_what_it_should:
  "(trySubmit inFlight p text = Some q \<longleftrightarrow>
      \<not> inFlight \<and> \<not> qp_pending p \<and> qp_unreachable p = None
      \<and> q = trim text \<and> q \<noteq> [] \<and> length q \<le> 8000)
   \<and> (refuses p text \<and> trySubmit False p text \<noteq> None \<longleftrightarrow>
      \<not> qp_pending p \<and> qp_unreachable p = None
      \<and> 8000 < length text \<and> trim text \<noteq> [] \<and> length (trim text) \<le> 8000)
   \<and> (is_near text \<longleftrightarrow> 7200 \<le> length text \<and> length text \<le> 8000)"
  by (cases "qp_unreachable p")
     (auto simp: trySubmit_def refuses_def refusal_reason_def is_over_def is_near_def
       MAX_QUERY_LEN_def Let_def)

text \<open>
  C19. A landing page makes one thread and never two submissions at once: whatever is pressed,
  answered, failed and committed in whatever order, at most one more thread is created than
  creations have failed, at most one more submission is sent than have settled, every submission
  goes into the one thread that was created, and every hand-off names that thread.
\<close>

theorem landing_one_thread_one_submission:
  "let l = runs landing_step landing_init es; calls = ld_log l
   in calls_of Call_createThread calls \<le> calls_of Answer_thread_failed calls + 1
    \<and> length (submits_of calls) \<le> calls_of Answer_submit calls + 1
    \<and> (\<forall>x \<in> set (submits_of calls). ld_threadId l = Some (snd x))
    \<and> (\<forall>h \<in> set (handoffs_of calls). \<exists>c j. ld_threadId l = Some c \<and> h = handoffHref c j)"
proof -
  have "landing_inv (runs landing_step landing_init es)" by (rule landing.inv_from_init)
  then show ?thesis by (simp add: landing_inv_def Let_def)
qed

theorem landing_one_thread_one_submission_witness:
  "let p = \<lparr>qp_pending = False, qp_unreachable = None\<rparr>;
       l = runs landing_step landing_init
             [Press p ''a'', Thread_answers ''c'', Press p ''a'', Submit_settles, Press p ''a'']
   in submits_of (ld_log l) = [(''a'', ''c''), (''a'', ''c'')]
    \<and> (\<forall>x \<in> set (submits_of (ld_log l)). ld_threadId l = Some (snd x))"
proof -
  let ?p = "\<lparr>qp_pending = False, qp_unreachable = None\<rparr>"
  let ?es = "[Press ?p ''a'', Thread_answers ''c'', Press ?p ''a'', Submit_settles, Press ?p ''a'']"
  have "trim ''a'' = ''a''" by (simp add: trim_def js_space_def)
  then have "submits_of (ld_log (runs landing_step landing_init ?es)) = [(''a'', ''c''), (''a'', ''c'')]"
    by (simp add: landing_init_def trySubmit_def landing_call_def submit_into_def
        landing_handleSubmit_def MAX_QUERY_LEN_def Let_def submits_of_def map_filter_def)
  then show ?thesis
    using landing_one_thread_one_submission [of ?es] by (simp add: Let_def)
qed

end
