(* ===== verification/Plan_Editor.thy ===== *)
theory Plan_Editor
  imports Copy_Errors Thread_View Interfaces
begin

text \<open>
  The plan editor: \<open>web/components/patterns/PlanEditor.tsx\<close> (the surface: banners, status line, the
  re-read on a conflict, the mounting of the form) and \<open>PlanEditorFields.tsx\<close> (the form: rows,
  server errors, focus, submission). The form library is a parameter, the record \<open>form_lib\<close> of the
  calls the code makes of it; \<open>form_docs\<close> is what its documentation promises. Its submit handler
  validates and calls back in one step. What the editor does to its caller and to the focus is
  appended to \<open>pe_log\<close>; markup is left out.
\<close>

section \<open>Copy\<close>

definition PLAN_status :: string where
  "PLAN_status = ''Waiting for your review. The run is paused and not spending. ''
     @ ''If it is not reviewed, it stops on its own.''"

definition PLAN_sending :: string where
  "PLAN_sending = ''Sending your decision'' @ [CHR 0x85]"

definition PLAN_resolving :: string where
  "PLAN_resolving = ''Sent and waiting. Nothing here has moved yet; this surface updates when ''
     @ ''the next event or read arrives.''"

definition PLAN_emptyPlan :: string where
  "PLAN_emptyPlan = ''Saved edits need at least one sub-question and at least one arXiv query.''"

definition PLAN_approve :: string where
  "PLAN_approve = ''Approve plan''"

definition PLAN_revise :: string where
  "PLAN_revise = ''Save edits and approve''"

definition PLAN_conflict :: string where
  "PLAN_conflict = ''This plan was already resolved somewhere else, so this page is out of date.''"

definition PLAN_conflictRecovery :: string where
  "PLAN_conflictRecovery = ''Reload to see where the run actually got to.''"

section \<open>The surface\<close>

record editor_props =
  ep_plan :: plan_body
  ep_status :: plan_status
  ep_initialDraft :: "plan_draft option"
  ep_issues :: "field_issue list"
  ep_staleCause :: stale_cause
  ep_failure :: "api_failure option"

text \<open>The issues that a failure brings, as the run panel passes them.\<close>

definition fields_named :: "api_failure option \<Rightarrow> field_issue list" where
  "fields_named fault = (case fault of Some (AF_validation c flds) \<Rightarrow> flds | _ \<Rightarrow> [])"

text \<open>The key of the form. \<open>JSON.stringify\<close> of the two lists separates what the pair separates.\<close>

definition planKey :: "plan_body \<Rightarrow> string list option \<times> string list option" where
  "planKey p = (pl_sub_questions p, pl_search_queries p)"

definition fallbackRows :: "editor_props \<Rightarrow> nat \<times> nat" where
  "fallbackRows p =
     (length (case ep_initialDraft p of Some d \<Rightarrow> subQuestions d
              | None \<Rightarrow> or_empty (pl_sub_questions (ep_plan p))),
      length (case ep_initialDraft p of Some d \<Rightarrow> searchQueries d
              | None \<Rightarrow> or_empty (pl_search_queries (ep_plan p))))"

definition failed_review :: "editor_props \<Rightarrow> failure_copy option" where
  "failed_review p =
     (case ep_failure p of
        None \<Rightarrow> None
      | Some f \<Rightarrow>
          if ep_status p = PS_stale
             \<or> (case f of AF_validation c flds \<Rightarrow> length flds > 0 | _ \<Rightarrow> False)
          then None else Some (describeFailure f))"

definition statusLine :: "editor_props \<Rightarrow> string option" where
  "statusLine p =
     (if ep_status p = PS_stale then None
      else if ep_status p = PS_resolving then Some PLAN_resolving
      else if ep_status p = PS_submitting \<or> ep_status p = PS_cancelling then Some PLAN_sending
      else Some PLAN_status)"

text \<open>The banner of a conflict: its sentence and its recovery.\<close>

definition stale_banner :: "editor_props \<Rightarrow> (string \<times> string) option" where
  "stale_banner p =
     (let timedOut = ep_staleCause p = Cause_hitl_timeout;
          timeout = describeErrorType (Some ''hitl_timeout'') None
      in if ep_status p = PS_stale
         then Some (if timedOut then ec_sentence timeout else PLAN_conflict,
                    if timedOut then ec_recovery timeout else PLAN_conflictRecovery)
         else None)"

section \<open>The form library\<close>

fun values_list :: "plan_form_values \<Rightarrow> plan_list_key \<Rightarrow> string list" where
  "values_list v PL_subQuestions = fv_subQuestions v"
| "values_list v PL_searchQueries = fv_searchQueries v"

fun with_values :: "plan_form_values \<Rightarrow> plan_list_key \<Rightarrow> string list \<Rightarrow> plan_form_values" where
  "with_values v PL_subQuestions xs = v\<lparr>fv_subQuestions := xs\<rparr>"
| "with_values v PL_searchQueries xs = v\<lparr>fv_searchQueries := xs\<rparr>"

record 'f form_lib =
  fm_useForm :: "plan_form_values \<Rightarrow> 'f"
  fm_values :: "'f \<Rightarrow> plan_form_values"
  fm_onChange :: "'f \<Rightarrow> plan_list_key \<Rightarrow> nat \<Rightarrow> string \<Rightarrow> 'f"
  fm_append :: "'f \<Rightarrow> plan_list_key \<Rightarrow> string \<Rightarrow> 'f"
  fm_remove :: "'f \<Rightarrow> plan_list_key \<Rightarrow> nat \<Rightarrow> 'f"
  fm_setError :: "'f \<Rightarrow> plan_list_key \<Rightarrow> nat \<Rightarrow> string \<Rightarrow> 'f"
  fm_error :: "'f \<Rightarrow> plan_list_key \<Rightarrow> nat \<Rightarrow> string option"
  fm_handleSubmit :: "(plan_form_values \<Rightarrow> plan_form_values option \<times> plan_form_errors) \<Rightarrow> 'f
    \<Rightarrow> 'f \<times> (plan_form_values + plan_form_errors)"

text \<open>
  What is documented: a form starts with its default values; a change, an append and a removal
  do that to the list; an error set by hand is on its field and moves no value; a submission
  runs the resolver on the values and calls the valid handler with what it returns or the
  invalid one with its errors.
\<close>

definition form_docs :: "'f form_lib \<Rightarrow> bool" where
  "form_docs lib \<longleftrightarrow>
     (\<forall>v. fm_values lib (fm_useForm lib v) = v)
   \<and> (\<forall>f k i x. fm_values lib (fm_onChange lib f k i x)
        = with_values (fm_values lib f) k ((values_list (fm_values lib f) k)[i := x]))
   \<and> (\<forall>f k x. fm_values lib (fm_append lib f k x)
        = with_values (fm_values lib f) k (values_list (fm_values lib f) k @ [x]))
   \<and> (\<forall>f k i. fm_values lib (fm_remove lib f k i)
        = with_values (fm_values lib f) k
            (let xs = values_list (fm_values lib f) k in take i xs @ drop (Suc i) xs))
   \<and> (\<forall>f k i m. fm_values lib (fm_setError lib f k i m) = fm_values lib f)
   \<and> (\<forall>f k i m k' i'. fm_error lib (fm_setError lib f k i m) k' i'
        = (if k' = k \<and> i' = i then Some m else fm_error lib f k' i'))
   \<and> (\<forall>r f. fm_values lib (fst (fm_handleSubmit lib r f)) = fm_values lib f)
   \<and> (\<forall>r f. snd (fm_handleSubmit lib r f)
        = (case r (fm_values lib f) of (Some v, _) \<Rightarrow> Inl v | (None, e) \<Rightarrow> Inr e))"

section \<open>The fields\<close>

record 'f plan_fields =
  pf_form :: 'f
  pf_applied :: "field_issue list option"
  pf_serverNote :: "string option"
  pf_formNote :: "string option"
  pf_pendingFocus :: "(plan_list_key \<times> nat) option"

datatype editor_effect =
    Did_review review_request
  | Did_focus_row plan_list_key nat
  | Did_focus_add plan_list_key
  | Did_refetch

definition fields_mount :: "'f form_lib \<Rightarrow> editor_props \<Rightarrow> 'f plan_fields" where
  "fields_mount lib p =
     \<lparr>pf_form = fm_useForm lib (draftToValues
        (case ep_initialDraft p of Some d \<Rightarrow> d | None \<Rightarrow> planToDraft (ep_plan p))),
      pf_applied = None, pf_serverNote = None, pf_formNote = None, pf_pendingFocus = None\<rparr>"

definition fields_draft :: "'f form_lib \<Rightarrow> 'f plan_fields \<Rightarrow> plan_draft" where
  "fields_draft lib g = valuesToDraft (as_partial (fm_values lib (pf_form g)))"

definition fields_note :: "'f plan_fields \<Rightarrow> string option" where
  "fields_note g = (if pf_formNote g = None then pf_serverNote g else pf_formNote g)"

definition primary_label :: "'f form_lib \<Rightarrow> editor_props \<Rightarrow> 'f plan_fields \<Rightarrow> string" where
  "primary_label lib p g =
     (if isEdited (ep_plan p) (fields_draft lib g) then PLAN_revise else PLAN_approve)"

text \<open>The effect that puts a 422 on its rows; it compares with the issues it applied last. An error on
  a list the form does not have is on no row.\<close>

fun set_row_error :: "'f form_lib \<Rightarrow> 'f \<Rightarrow> mapped_field_issue lookup \<Rightarrow> 'f" where
  "set_row_error lib f (Own row) = fm_setError lib f (mf_list row) (mf_index row) (mf_message row)"
| "set_row_error lib f _ = f"

definition apply_issues :: "'f form_lib \<Rightarrow> field_issue list \<Rightarrow> 'f plan_fields \<Rightarrow> 'f plan_fields" where
  "apply_issues lib issues g =
     (if pf_applied g = Some issues then g
      else let (rows, unmapped) = mapFieldIssues issues
           in g\<lparr>pf_applied := Some issues,
                pf_form := foldl (set_row_error lib) (pf_form g) rows,
                pf_serverNote := (if unmapped = [] then None
                                  else Some (join '' '' (map fi_message unmapped)))\<rparr>)"

text \<open>What a row shows: an error on a row that is not there is not on screen.\<close>

definition row_error :: "'f form_lib \<Rightarrow> 'f plan_fields \<Rightarrow> plan_list_key \<Rightarrow> nat \<Rightarrow> string option" where
  "row_error lib g k i =
     (if i < length (values_list (fm_values lib (pf_form g)) k) then fm_error lib (pf_form g) k i else None)"

text \<open>The effect that moves the focus after a removal.\<close>

definition move_focus :: "'f form_lib \<Rightarrow> 'f plan_fields \<Rightarrow> 'f plan_fields \<times> editor_effect list" where
  "move_focus lib g =
     (case pf_pendingFocus g of
        None \<Rightarrow> (g, [])
      | Some (list, index) \<Rightarrow>
          (let remaining = length (values_list (fm_values lib (pf_form g)) list)
           in (g\<lparr>pf_pendingFocus := None\<rparr>,
               [if remaining = 0 then Did_focus_add list
                else Did_focus_row list (min index (remaining - 1))])))"

definition removeRow :: "'f form_lib \<Rightarrow> plan_list_key \<Rightarrow> nat \<Rightarrow> 'f plan_fields \<Rightarrow> 'f plan_fields" where
  "removeRow lib list index g =
     g\<lparr>pf_form := fm_remove lib (pf_form g) list index, pf_pendingFocus := Some (list, index),
       pf_formNote := None\<rparr>"

definition addRow :: "'f form_lib \<Rightarrow> plan_list_key \<Rightarrow> 'f plan_fields \<Rightarrow> 'f plan_fields" where
  "addRow lib list g = g\<lparr>pf_form := fm_append lib (pf_form g) list [], pf_formNote := None\<rparr>"

definition fields_submit ::
  "plan_body \<Rightarrow> plan_form_values \<Rightarrow> 'f plan_fields \<Rightarrow> 'f plan_fields \<times> editor_effect list"
where
  "fields_submit original formValues g =
     (case reviewRequestFor original (valuesToDraft (as_partial formValues)) of
        Sub_refused _ _ \<Rightarrow> (g\<lparr>pf_formNote := Some PLAN_emptyPlan\<rparr>, [])
      | Sub_ok decision \<Rightarrow> (g\<lparr>pf_formNote := None\<rparr>, [Did_review decision]))"

text \<open>The first list that has a marked row; a list whose error is its own has none.\<close>

definition focusFirstError :: "plan_form_values \<Rightarrow> plan_form_errors \<Rightarrow> editor_effect list" where
  "focusFirstError v formErrors =
     take 1 (List.map_filter
       (\<lambda>list. case formErrors list of
          None \<Rightarrow> None
        | Some e \<Rightarrow>
            map_option (Did_focus_row list)
              (find (\<lambda>i. le_rows e i \<noteq> None) [0..<length (values_list v list)]))
       [PL_subQuestions, PL_searchQueries])"

definition handle_submit ::
  "'f form_lib \<Rightarrow> plan_body \<Rightarrow> 'f plan_fields \<Rightarrow> 'f plan_fields \<times> editor_effect list"
where
  "handle_submit lib original g =
     (let (form, outcome) = fm_handleSubmit lib planResolver (pf_form g);
          h = g\<lparr>pf_form := form\<rparr>
      in case outcome of
           Inl formValues \<Rightarrow> fields_submit original formValues h
         | Inr formErrors \<Rightarrow> (h, focusFirstError (fm_values lib form) formErrors))"

section \<open>The editor\<close>

text \<open>The props of the last commit, the key and state of the mounted form, the guard of the
  re-read.\<close>

record 'f plan_editor =
  pe_props :: editor_props
  pe_key :: "string list option \<times> string list option"
  pe_fields :: "'f plan_fields option"
  pe_refetched :: bool
  pe_log :: "editor_effect list"

definition editor_init :: "editor_props \<Rightarrow> 'f plan_editor" where
  "editor_init p =
     \<lparr>pe_props = p, pe_key = planKey (ep_plan p), pe_fields = None, pe_refetched = False,
      pe_log = []\<rparr>"

text \<open>
  A commit with new props; \<open>loaded\<close> says that the form's module has arrived. The form is kept
  while its key is, mounted anew otherwise, and not rendered at all on a conflict. The effects of
  the form run before the editor's own.
\<close>

definition mounted_fields ::
  "'f form_lib \<Rightarrow> editor_props \<Rightarrow> bool \<Rightarrow> 'f plan_editor \<Rightarrow> 'f plan_fields option"
where
  "mounted_fields lib p loaded s =
     (if ep_status p = PS_stale then None
      else if pe_fields s \<noteq> None \<and> pe_key s = planKey (ep_plan p) then pe_fields s
      else if loaded then Some (fields_mount lib p) else None)"

definition editor_commit ::
  "'f form_lib \<Rightarrow> editor_props \<Rightarrow> bool \<Rightarrow> 'f plan_editor \<Rightarrow> 'f plan_editor"
where
  "editor_commit lib p loaded s =
     (let (fields, moves) =
            (case mounted_fields lib p loaded s of
               None \<Rightarrow> (None, [])
             | Some g \<Rightarrow> map_prod Some id (move_focus lib (apply_issues lib (ep_issues p) g)));
          stale = (ep_status p = PS_stale);
          reread = (if stale \<and> \<not> pe_refetched s then [Did_refetch] else [])
      in s\<lparr>pe_props := p, pe_key := planKey (ep_plan p), pe_fields := fields,
           pe_refetched := stale, pe_log := pe_log s @ moves @ reread\<rparr>)"

definition interactive :: "editor_props \<Rightarrow> bool" where
  "interactive p \<longleftrightarrow> ep_status p = PS_editing"

definition fields_inFlight :: "editor_props \<Rightarrow> bool" where
  "fields_inFlight p \<longleftrightarrow> ep_status p \<in> {PS_submitting, PS_cancelling, PS_resolving}"

datatype editor_event =
    Ed_commit editor_props bool
  | Ed_change plan_list_key nat string
  | Ed_add plan_list_key
  | Ed_remove plan_list_key nat
  | Ed_submit
  | Ed_cancel

text \<open>A control of a form that is not on screen cannot be used.\<close>

fun editor_step :: "'f form_lib \<Rightarrow> 'f plan_editor \<Rightarrow> editor_event \<Rightarrow> 'f plan_editor" where
  "editor_step lib s (Ed_commit p loaded) = editor_commit lib p loaded s"
| "editor_step lib s e =
     (case pe_fields s of
        None \<Rightarrow> s
      | Some g \<Rightarrow>
          (let p = pe_props s in
           case e of
             Ed_change list i x \<Rightarrow>
               if interactive p \<and> i < length (values_list (fm_values lib (pf_form g)) list)
               then s\<lparr>pe_fields := Some (g\<lparr>pf_form := fm_onChange lib (pf_form g) list i x\<rparr>)\<rparr>
               else s
           | Ed_add list \<Rightarrow>
               if interactive p \<and> \<not> isListFull (fields_draft lib g) list
               then s\<lparr>pe_fields := Some (addRow lib list g)\<rparr> else s
           | Ed_remove list i \<Rightarrow>
               if interactive p \<and> i < length (values_list (fm_values lib (pf_form g)) list)
               then s\<lparr>pe_fields := Some (removeRow lib list i g)\<rparr> else s
           | Ed_submit \<Rightarrow>
               if fields_inFlight p then s
               else (let (h, effects) = handle_submit lib (ep_plan p) g
                     in s\<lparr>pe_fields := Some h, pe_log := pe_log s @ effects\<rparr>)
           | Ed_cancel \<Rightarrow>
               if interactive p then s\<lparr>pe_log := pe_log s @ [Did_review cancelRequest]\<rparr> else s
           | _ \<Rightarrow> s))"

end
