(* ===== verification/Plan_Editor_Laws.thy ===== *)
theory Plan_Editor_Laws
  imports Plan_Editor
begin

text \<open>
  Laws and properties of the plan editor: what a press sends and when, how often a conflict reads
  the run again and what it does to the working copy, where a rejection is explained, and which
  row a server's complaint is put on.
\<close>

section \<open>The form\<close>

lemma draft_of_values:
  "valuesToDraft (as_partial v) = \<lparr>subQuestions = fv_subQuestions v, searchQueries = fv_searchQueries v\<rparr>"
  by (simp add: valuesToDraft_def as_partial_def or_empty_def row_value_def comp_def)

lemma draft_list_fields [simp]:
  "draft_list (fields_draft lib g) k = values_list (fm_values lib (pf_form g)) k"
  by (cases k) (simp_all add: fields_draft_def draft_of_values)

lemma values_of_default: "form_docs lib \<Longrightarrow> fm_values lib (fm_useForm lib v) = v"
  by (simp add: form_docs_def)

lemma values_of_error: "form_docs lib \<Longrightarrow> fm_values lib (fm_setError lib f k i m) = fm_values lib f"
  by (simp add: form_docs_def)

lemma values_of_submit: "form_docs lib \<Longrightarrow> fm_values lib (fst (fm_handleSubmit lib r f)) = fm_values lib f"
  by (simp add: form_docs_def)

lemma outcome_of_submit:
  "form_docs lib \<Longrightarrow> snd (fm_handleSubmit lib r f)
     = (case r (fm_values lib f) of (Some v, _) \<Rightarrow> Inl v | (None, e) \<Rightarrow> Inr e)"
  by (simp add: form_docs_def)

lemma error_of_error:
  "form_docs lib \<Longrightarrow> fm_error lib (fm_setError lib f k i m) k' i'
     = (if k' = k \<and> i' = i then Some m else fm_error lib f k' i')"
  by (simp add: form_docs_def)

definition mark_rows :: "'f form_lib \<Rightarrow> 'f \<Rightarrow> mapped_field_issue lookup list \<Rightarrow> 'f" where
  "mark_rows lib f rows = foldl (set_row_error lib) f rows"

text \<open>The last message for a row.\<close>

definition message_for :: "field_issue list \<Rightarrow> plan_list_key \<Rightarrow> nat \<Rightarrow> string option" where
  "message_for issues k i =
     (let found = filter (\<lambda>m. case m of Own row \<Rightarrow> mf_list row = k \<and> mf_index row = i | _ \<Rightarrow> False)
            (map mapFieldIssue issues)
      in if found = [] then None else (case last found of Own row \<Rightarrow> Some (mf_message row) | _ \<Rightarrow> None))"

lemma message_for_simps [simp]:
  "message_for [] k i = None"
  "message_for (issues @ [issue]) k i =
     (case mapFieldIssue issue of
        Own row \<Rightarrow> if mf_list row = k \<and> mf_index row = i then Some (mf_message row) else message_for issues k i
      | _ \<Rightarrow> message_for issues k i)"
  by (auto simp: message_for_def Let_def split: lookup.split)

lemma values_of_mark: "form_docs lib \<Longrightarrow> fm_values lib (set_row_error lib f m) = fm_values lib f"
  by (cases m) (simp_all add: values_of_error)

lemma values_of_marks: "form_docs lib \<Longrightarrow> fm_values lib (mark_rows lib f rows) = fm_values lib f"
  by (induction rows arbitrary: f) (simp_all add: mark_rows_def values_of_mark)

lemma marked_rows:
  assumes "form_docs lib"
  shows "fm_error lib (mark_rows lib f (filter (\<lambda>m. m \<noteq> Absent) (map mapFieldIssue issues))) k i
    = (case message_for issues k i of Some m \<Rightarrow> Some m | None \<Rightarrow> fm_error lib f k i)"
proof (induction issues rule: rev_induct)
  case (snoc issue issues)
  then show ?case
    using error_of_error [OF assms]
    by (cases "mapFieldIssue issue") (auto simp: mark_rows_def split: option.split)
qed (simp add: mark_rows_def)

lemma apply_issues_form:
  "pf_form (apply_issues lib issues g) = (if pf_applied g = Some issues then pf_form g
     else mark_rows lib (pf_form g) (filter (\<lambda>m. m \<noteq> Absent) (map mapFieldIssue issues)))"
  by (simp add: apply_issues_def mark_rows_def mapFieldIssues_partition)

lemma apply_issues_note:
  "pf_serverNote (apply_issues lib issues g) = (if pf_applied g = Some issues then pf_serverNote g
     else let rest = filter (\<lambda>i. mapFieldIssue i = Absent) issues
          in if rest = [] then None else Some (join '' '' (map fi_message rest)))"
  by (simp add: apply_issues_def mapFieldIssues_partition Let_def)

lemma apply_issues_formNote [simp]: "pf_formNote (apply_issues lib issues g) = pf_formNote g"
  by (simp add: apply_issues_def split: prod.split)

lemma move_focus_fields [simp]:
  "pf_form (fst (move_focus lib g)) = pf_form g"
  "pf_serverNote (fst (move_focus lib g)) = pf_serverNote g"
  "pf_formNote (fst (move_focus lib g)) = pf_formNote g"
  by (simp_all add: move_focus_def Let_def split: option.split)

lemma join_mentions: "x \<in> set xs \<Longrightarrow> \<exists>pre post. join sep xs = pre @ x @ post"
proof (induction sep xs rule: join.induct)
  case (2 sep y)
  then have "join sep [y] = [] @ x @ []" by simp
  then show ?case by blast
next
  case (3 sep y z zs)
  show ?case
  proof (cases "x = y")
    case True
    then have "join sep (y # z # zs) = [] @ x @ (sep @ join sep (z # zs))" by simp
    then show ?thesis by blast
  next
    case False
    then obtain pre post where "join sep (z # zs) = pre @ x @ post" using 3 by auto
    then have "join sep (y # z # zs) = (y @ sep @ pre) @ x @ post" by simp
    then show ?thesis by blast
  qed
qed simp

section \<open>What is sent and read\<close>

definition reviews_of :: "editor_effect list \<Rightarrow> review_request list" where
  "reviews_of effects = List.map_filter (\<lambda>x. case x of Did_review r \<Rightarrow> Some r | _ \<Rightarrow> None) effects"

definition refetches_of :: "editor_effect list \<Rightarrow> nat" where
  "refetches_of effects = length (filter ((=) Did_refetch) effects)"

lemma effects_simps [simp]:
  "reviews_of [] = []" "reviews_of (x # xs) = (case x of Did_review r \<Rightarrow> [r] | _ \<Rightarrow> []) @ reviews_of xs"
  "reviews_of (xs @ ys) = reviews_of xs @ reviews_of ys"
  "refetches_of [] = 0" "refetches_of (x # xs) = (if x = Did_refetch then 1 else 0) + refetches_of xs"
  "refetches_of (xs @ ys) = refetches_of xs + refetches_of ys"
  by (auto simp: reviews_of_def refetches_of_def map_filter_def split: editor_effect.split)

definition is_focus :: "editor_effect \<Rightarrow> bool" where
  "is_focus x = (case x of Did_focus_row k i \<Rightarrow> True | Did_focus_add k \<Rightarrow> True | _ \<Rightarrow> False)"

lemma only_focus: "list_all is_focus xs \<Longrightarrow> reviews_of xs = [] \<and> refetches_of xs = 0"
  by (induction xs) (auto simp: is_focus_def split: editor_effect.splits)

lemma focusFirstError_focus: "list_all is_focus (focusFirstError v e)"
  by (auto simp: focusFirstError_def list_all_iff in_set_map_filter is_focus_def
      split: option.splits dest!: in_set_takeD)

lemma move_focus_focus: "list_all is_focus (snd (move_focus lib g))"
  by (auto simp: move_focus_def is_focus_def Let_def split: option.split)

lemmas focus_effects [simp] =
  only_focus [OF focusFirstError_focus] only_focus [OF move_focus_focus]

lemma submit_refetches [simp]: "refetches_of (snd (handle_submit lib original g)) = 0"
  by (auto simp: handle_submit_def fields_submit_def Let_def split: prod.split sum.split
      plan_submission.split)

definition stale_props :: "editor_props \<Rightarrow> bool" where
  "stale_props p \<longleftrightarrow> ep_status p = PS_stale"

text \<open>How often a sequence of moves enters the conflict state.\<close>

fun stale_entries :: "bool \<Rightarrow> editor_event list \<Rightarrow> nat" where
  "stale_entries was [] = 0"
| "stale_entries was (Ed_commit p loaded # es) =
     (if stale_props p \<and> \<not> was then 1 else 0) + stale_entries (stale_props p) es"
| "stale_entries was (e # es) = stale_entries was es"

lemma commit_simps [simp]:
  "pe_props (editor_commit lib p loaded s) = p"
  "pe_key (editor_commit lib p loaded s) = planKey (ep_plan p)"
  "pe_refetched (editor_commit lib p loaded s) = stale_props p"
  "pe_fields (editor_commit lib p loaded s) =
     map_option (\<lambda>g. fst (move_focus lib (apply_issues lib (ep_issues p) g)))
       (mounted_fields lib p loaded s)"
  "pe_log (editor_commit lib p loaded s) =
     pe_log s @ (case mounted_fields lib p loaded s of None \<Rightarrow> []
       | Some g \<Rightarrow> snd (move_focus lib (apply_issues lib (ep_issues p) g)))
     @ (if stale_props p \<and> \<not> pe_refetched s then [Did_refetch] else [])"
  by (cases "mounted_fields lib p loaded s";
      simp add: editor_commit_def stale_props_def map_prod_def split_def Let_def)+

definition editor_inv :: "'f plan_editor \<Rightarrow> bool" where
  "editor_inv s \<longleftrightarrow> (pe_fields s = None \<or> \<not> stale_props (pe_props s))"

lemma other_moves:
  assumes "\<And>p loaded. e \<noteq> Ed_commit p loaded"
  shows "pe_props (editor_step lib s e) = pe_props s"
    and "pe_fields (editor_step lib s e) = None \<longleftrightarrow> pe_fields s = None"
    and "pe_refetched (editor_step lib s e) = pe_refetched s"
    and "refetches_of (pe_log (editor_step lib s e)) = refetches_of (pe_log s)"
    and "stale_entries was (e # es) = stale_entries was es"
  using assms submit_refetches [of lib "ep_plan (pe_props s)" "the (pe_fields s)"]
  by (cases e; cases "pe_fields s"; auto simp: Let_def split_def simp del: submit_refetches)+

lemma editor_inv_step: "editor_inv s \<Longrightarrow> editor_inv (editor_step lib s e)"
proof (cases "\<exists>p loaded. e = Ed_commit p loaded")
  case True
  then show ?thesis
    by (auto simp: editor_inv_def mounted_fields_def stale_props_def)
next
  case False
  assume "editor_inv s"
  then show ?thesis using False by (simp add: editor_inv_def other_moves)
qed

interpretation editor: reducer "editor_step lib" "editor_init p" editor_inv for lib p
  by unfold_locales (simp add: editor_inv_def editor_init_def, rule editor_inv_step)

lemma refetch_count:
  "refetches_of (pe_log (runs (editor_step lib) s es))
     = refetches_of (pe_log s) + stale_entries (pe_refetched s) es"
proof (induction es arbitrary: s)
  case (Cons e es)
  show ?case
  proof (cases "\<exists>p loaded. e = Ed_commit p loaded")
    case True
    then show ?thesis by (auto simp: Cons split: option.split)
  next
    case False
    then show ?thesis by (simp add: Cons other_moves)
  qed
qed simp

section \<open>Submitting\<close>

lemma resolver_of: "planResolver v = (let d = valuesToDraft (as_partial v) in
    if within_bounds d then (Some v, \<lambda>_. None) else (None, planFormErrors (planIssues d)))"
  by (simp add: planResolver_def Let_def planIssues_empty)

lemma refused_bounds:
  "(\<exists>is. reviewRequestFor original d = Sub_refused Refused_bounds is) \<longleftrightarrow> \<not> within_bounds d"
  by (simp add: reviewRequestFor_def Let_def planIssues_empty)

lemma submit_decision:
  assumes "form_docs lib"
  shows "reviews_of (snd (handle_submit lib original g)) =
      (case reviewRequestFor original (fields_draft lib g) of Sub_ok r \<Rightarrow> [r] | _ \<Rightarrow> [])"
    and "pf_formNote (fst (handle_submit lib original g)) =
      (case reviewRequestFor original (fields_draft lib g) of
         Sub_ok r \<Rightarrow> None | Sub_refused Refused_empty_plan is \<Rightarrow> Some PLAN_emptyPlan
       | Sub_refused Refused_bounds is \<Rightarrow> pf_formNote g)"
proof -
  let ?d = "fields_draft lib g"
  have outcome: "snd (fm_handleSubmit lib planResolver (pf_form g)) =
      (if within_bounds ?d then Inl (fm_values lib (pf_form g))
       else Inr (planFormErrors (planIssues ?d)))"
    by (simp add: outcome_of_submit [OF assms] resolver_of Let_def fields_draft_def)
  show "reviews_of (snd (handle_submit lib original g)) =
      (case reviewRequestFor original ?d of Sub_ok r \<Rightarrow> [r] | _ \<Rightarrow> [])"
    using outcome refused_bounds [of original ?d]
    by (auto simp: handle_submit_def fields_submit_def split_def Let_def fields_draft_def
        split: plan_submission.split plan_refusal.split)
  show "pf_formNote (fst (handle_submit lib original g)) =
      (case reviewRequestFor original ?d of
         Sub_ok r \<Rightarrow> None | Sub_refused Refused_empty_plan is \<Rightarrow> Some PLAN_emptyPlan
       | Sub_refused Refused_bounds is \<Rightarrow> pf_formNote g)"
    using outcome refused_bounds [of original ?d]
    by (auto simp: handle_submit_def fields_submit_def split_def Let_def fields_draft_def
        split: plan_submission.split plan_refusal.split)
qed

text \<open>A form library of values and hand-set errors, as documented.\<close>

definition example_form :: "(plan_form_values \<times> (plan_list_key \<Rightarrow> nat \<Rightarrow> string option)) form_lib" where
  "example_form =
     \<lparr>fm_useForm = (\<lambda>v. (v, \<lambda>k i. None)), fm_values = fst,
      fm_onChange = (\<lambda>f k i x. (with_values (fst f) k ((values_list (fst f) k)[i := x]), snd f)),
      fm_append = (\<lambda>f k x. (with_values (fst f) k (values_list (fst f) k @ [x]), snd f)),
      fm_remove = (\<lambda>f k i. (with_values (fst f) k
        (take i (values_list (fst f) k) @ drop (Suc i) (values_list (fst f) k)), snd f)),
      fm_setError = (\<lambda>f k i m. (fst f, (snd f)(k := (snd f k)(i \<mapsto> m)))),
      fm_error = snd,
      fm_handleSubmit = (\<lambda>r f. (f, case r (fst f) of (Some v, _) \<Rightarrow> Inl v | (None, e) \<Rightarrow> Inr e))\<rparr>"

lemma example_form_docs: "form_docs example_form"
  by (auto simp: form_docs_def example_form_def Let_def)

definition example_plan :: plan_body where
  "example_plan = \<lparr>pl_sub_questions = Some [''a'', ''b''], pl_search_queries = Some [''q'']\<rparr>"

definition example_props :: "plan_status \<Rightarrow> editor_props" where
  "example_props status =
     \<lparr>ep_plan = example_plan, ep_status = status, ep_initialDraft = None, ep_issues = [],
      ep_staleCause = Cause_resolved_elsewhere, ep_failure = None\<rparr>"

text \<open>
  C29. What a press in the plan editor sends, in every state the editor can reach: cancel sends a
  cancel request and the primary control sends what the rows on screen decide, and both only
  while the editor is editing; nothing else sends anything. A refusal that reaches the handler
  is the empty plan, which is said; a draft out of bounds is stopped by the form before it.
\<close>

theorem plan_editor_sends:
  assumes "form_docs lib" and s: "s = runs (editor_step lib) (editor_init p0) es"
  shows "reviews_of (pe_log (editor_step lib s e)) = reviews_of (pe_log s) @
     (case (pe_fields s, e) of
        (Some g, Ed_cancel) \<Rightarrow>
          if ep_status (pe_props s) = PS_editing then [cancelRequest] else []
      | (Some g, Ed_submit) \<Rightarrow>
          if ep_status (pe_props s) = PS_editing
          then (case reviewRequestFor (ep_plan (pe_props s)) (fields_draft lib g) of
                  Sub_ok r \<Rightarrow> [r] | _ \<Rightarrow> [])
          else []
      | _ \<Rightarrow> [])
   \<and> (case (pe_fields s, e) of
        (Some g, Ed_submit) \<Rightarrow>
          ep_status (pe_props s) = PS_editing \<longrightarrow>
          map_option pf_formNote (pe_fields (editor_step lib s Ed_submit)) =
            Some (case reviewRequestFor (ep_plan (pe_props s)) (fields_draft lib g) of
               Sub_ok r \<Rightarrow> None | Sub_refused Refused_empty_plan is \<Rightarrow> Some PLAN_emptyPlan
             | Sub_refused Refused_bounds is \<Rightarrow> pf_formNote g)
      | _ \<Rightarrow> True)"
proof -
  have "editor_inv s" unfolding s by (rule editor.inv_from_init)
  then have idle: "pe_fields s = None \<or> \<not> fields_inFlight (pe_props s) = (ep_status (pe_props s) = PS_editing)"
    by (cases "ep_status (pe_props s)")
       (auto simp: editor_inv_def stale_props_def fields_inFlight_def)
  show ?thesis
    using idle submit_decision [OF assms(1)]
    by (cases e; cases "pe_fields s")
       (auto simp: Let_def split_def interactive_def split: option.split)
qed

theorem plan_editor_sends_witness:
  "reviews_of (pe_log (runs (editor_step example_form) (editor_init (example_props PS_editing))
      [Ed_commit (example_props PS_editing) True, Ed_cancel])) = [cancelRequest]"
proof -
  let ?s = "runs (editor_step example_form) (editor_init (example_props PS_editing))
      [Ed_commit (example_props PS_editing) True]"
  have "pe_fields ?s \<noteq> None" "pe_props ?s = example_props PS_editing" "reviews_of (pe_log ?s) = []"
    by (simp_all add: mounted_fields_def editor_init_def example_props_def stale_props_def)
  then show ?thesis
    using plan_editor_sends [OF example_form_docs refl, of "example_props PS_editing"
        "[Ed_commit (example_props PS_editing) True]" Ed_cancel]
    by (auto simp: example_props_def)
qed

section \<open>A conflict\<close>

definition only_stale :: "editor_event list \<Rightarrow> bool" where
  "only_stale es = list_all (\<lambda>e. case e of Ed_commit p loaded \<Rightarrow> stale_props p | _ \<Rightarrow> True) es"

lemma stale_runs:
  assumes "only_stale es" "pe_fields s = None"
  shows "pe_fields (runs (editor_step lib) s es) = None
    \<and> reviews_of (pe_log (runs (editor_step lib) s es)) = reviews_of (pe_log s)"
  using assms
proof (induction es arbitrary: s)
  case (Cons e es)
  have "pe_fields (editor_step lib s e) = None
      \<and> reviews_of (pe_log (editor_step lib s e)) = reviews_of (pe_log s)"
    using Cons.prems
    by (cases e) (auto simp: only_stale_def mounted_fields_def stale_props_def)
  then show ?case using Cons.IH Cons.prems by (simp add: only_stale_def)
qed simp

lemma mounted_values:
  assumes "form_docs lib" "ep_initialDraft p = None"
  shows "fields_draft lib (fst (move_focus lib (apply_issues lib issues (fields_mount lib p))))
    = planToDraft (ep_plan p)"
  by (simp add: fields_draft_def fields_mount_def apply_issues_form assms
      values_of_marks values_of_default draft_of_values draftToValues_def)

text \<open>
  What a conflict costs: over any run the editor reads the job again exactly once per entry
  into the conflict state; while it lasts nothing can be sent; and when it is over, the rows on
  screen are the server's plan: whatever was typed before the conflict is gone.
\<close>

lemma conflict_discards_the_draft:
  assumes "form_docs lib" "only_stale es" "stale_props conflicted"
    and resumed: "\<not> stale_props p" "ep_initialDraft p = None"
    and s_def: "s = runs (editor_step lib) (editor_init p0) (before @ Ed_commit conflicted loaded # es)"
  shows "refetches_of (pe_log s) = stale_entries False (before @ Ed_commit conflicted loaded # es)
    \<and> reviews_of (pe_log s) = reviews_of (pe_log (runs (editor_step lib) (editor_init p0) before))
    \<and> map_option (fields_draft lib) (pe_fields (editor_step lib s (Ed_commit p True)))
        = Some (planToDraft (ep_plan p))"
proof -
  let ?b = "runs (editor_step lib) (editor_init p0) before"
  let ?c = "editor_commit lib conflicted loaded ?b"
  have none: "pe_fields ?c = None" and kept: "reviews_of (pe_log ?c) = reviews_of (pe_log ?b)"
    using assms(3) by (simp_all add: mounted_fields_def stale_props_def)
  have s: "s = runs (editor_step lib) ?c es" by (simp add: s_def)
  note after = stale_runs [OF assms(2) none, of lib, folded s]
  have "refetches_of (pe_log s) = stale_entries False (before @ Ed_commit conflicted loaded # es)"
    unfolding s_def by (subst refetch_count) (simp add: editor_init_def)
  moreover have "map_option (fields_draft lib) (pe_fields (editor_step lib s (Ed_commit p True)))
      = Some (planToDraft (ep_plan p))"
    using after resumed
    by (simp add: mounted_fields_def stale_props_def mounted_values [OF assms(1)])
  ultimately show ?thesis using after kept by simp
qed

lemma conflict_discards_the_draft_witness:
  "let s = runs (editor_step example_form) (editor_init (example_props PS_editing))
        ([Ed_commit (example_props PS_editing) True, Ed_change PL_searchQueries 0 ''mine'']
           @ Ed_commit (example_props PS_stale) True # [])
   in refetches_of (pe_log s) = 1
    \<and> map_option (fields_draft example_form)
        (pe_fields (editor_step example_form s (Ed_commit (example_props PS_editing) True)))
      = Some \<lparr>subQuestions = [''a'', ''b''], searchQueries = [''q'']\<rparr>"
  using conflict_discards_the_draft [OF example_form_docs, of "[]" "example_props PS_stale"
      "example_props PS_editing" _ "example_props PS_editing"
      "[Ed_commit (example_props PS_editing) True, Ed_change PL_searchQueries 0 ''mine'']" True,
      OF _ _ _ _ refl]
  by (simp add: only_stale_def stale_props_def example_props_def example_plan_def planToDraft_def
      or_empty_def Let_def del: runs_append editor_step.simps)

section \<open>Where a rejection is explained\<close>

text \<open>
  C30. What the editor says of a rejected review, for the failure a commit brings and the issues the
  run panel passes with it. By a banner: a conflict has its own; any other failure has the banner of
  its kind, except a validation failure that names fields, which has none; and an error that was not
  normalised (no failure) has none either, so nothing says it. By the form, when it is on screen and
  these issues are new to it: each row that is on screen shows the last message mapped to it, and
  what it showed before if there is none; the note under the form is the reader's own, if there is
  one, and otherwise the messages that no row takes. Issues that were applied before, by a commit
  with the same ones, change nothing again; and without the form (a conflict, or its module has not
  arrived) they are not shown.
\<close>

theorem rejected_review_is_explained:
  assumes "form_docs lib" "ep_issues p = fields_named (ep_failure p)"
  shows "let q = editor_commit lib p loaded s;
             unmapped = map fi_message (filter (\<lambda>i. mapFieldIssue i = Absent) (ep_issues p))
    in (failed_review p, stale_banner p \<noteq> None) =
         (if ep_status p = PS_stale then (None, True)
          else case ep_failure p of
            None \<Rightarrow> (None, False)
          | Some f \<Rightarrow> (if ep_issues p = [] then Some (describeFailure f) else None, False))
     \<and> (case mounted_fields lib p loaded s of
          None \<Rightarrow> pe_fields q = None
        | Some g \<Rightarrow>
            (\<exists>h. pe_fields q = Some h
             \<and> (if pf_applied g = Some (ep_issues p)
                then row_error lib h = row_error lib g \<and> fields_note h = fields_note g
                else (\<forall>k i. row_error lib h k i =
                        (if i < length (values_list (fm_values lib (pf_form g)) k)
                         then (case message_for (ep_issues p) k i of
                                 Some m \<Rightarrow> Some m | None \<Rightarrow> row_error lib g k i)
                         else None))
                   \<and> fields_note h =
                        (if pf_formNote g \<noteq> None then pf_formNote g
                         else if unmapped = [] then None else Some (join '' '' unmapped)))))"
proof -
  have banners: "(failed_review p, stale_banner p \<noteq> None) =
         (if ep_status p = PS_stale then (None, True)
          else case ep_failure p of
            None \<Rightarrow> (None, False)
          | Some f \<Rightarrow> (if ep_issues p = [] then Some (describeFailure f) else None, False))"
    by (simp add: failed_review_def stale_banner_def Let_def assms(2) fields_named_def
        split: option.split api_failure.split)
  have form: "\<exists>h. pe_fields (editor_commit lib p loaded s) = Some h
      \<and> h = fst (move_focus lib (apply_issues lib (ep_issues p) g))"
    if "mounted_fields lib p loaded s = Some g" for g
    using that by simp
  have rows: "row_error lib (fst (move_focus lib (apply_issues lib (ep_issues p) g))) k i =
      (if pf_applied g = Some (ep_issues p) then row_error lib g k i
       else if i < length (values_list (fm_values lib (pf_form g)) k)
         then (case message_for (ep_issues p) k i of Some m \<Rightarrow> Some m | None \<Rightarrow> row_error lib g k i)
         else None)" for g k i
    by (auto simp: row_error_def apply_issues_form values_of_marks [OF assms(1)] marked_rows [OF assms(1)]
        split: option.split)
  have noted: "fields_note (fst (move_focus lib (apply_issues lib (ep_issues p) g))) =
      (if pf_applied g = Some (ep_issues p) then fields_note g
       else if pf_formNote g \<noteq> None then pf_formNote g
       else let unmapped = map fi_message (filter (\<lambda>i. mapFieldIssue i = Absent) (ep_issues p))
         in if unmapped = [] then None else Some (join '' '' unmapped))" for g
    by (simp add: fields_note_def apply_issues_note Let_def)
  have same: "pf_applied g = Some (ep_issues p)
      \<Longrightarrow> row_error lib (fst (move_focus lib (apply_issues lib (ep_issues p) g))) = row_error lib g" for g
    by (intro ext) (simp add: rows)
  show ?thesis
  proof (cases "mounted_fields lib p loaded s")
    case None
    then show ?thesis using banners by (simp add: Let_def)
  next
    case (Some g)
    let ?h = "fst (move_focus lib (apply_issues lib (ep_issues p) g))"
    show ?thesis
      unfolding Let_def Some option.case
    proof (intro conjI banners exI [of _ ?h])
      show "pe_fields (editor_commit lib p loaded s) = Some ?h" using form [OF Some] by blast
    qed (use rows [of g] noted [of g] same [of g] in
        \<open>cases "pf_applied g = Some (ep_issues p)"; simp add: Let_def\<close>)
  qed
qed

text \<open>A 422 that names a row of the plan and a field the editor has no row for.\<close>

definition rejected_props :: editor_props where
  "rejected_props =
     (let issues = [\<lparr>fi_path = ''plan.sub_questions.1'', fi_message = ''m'', fi_type = None\<rparr>,
                    \<lparr>fi_path = ''plan'', fi_message = ''n'', fi_type = None\<rparr>]
      in (example_props PS_editing)
           \<lparr>ep_issues := issues,
             ep_failure := Some (AF_validation \<lparr>fc_message = ''x'', fc_raw = RawUndefined,
               fc_requestId = None\<rparr> issues)\<rparr>)"

theorem rejected_review_is_explained_witness:
  "\<exists>h. pe_fields (editor_commit example_form rejected_props True (editor_init rejected_props)) = Some h
     \<and> row_error example_form h PL_subQuestions 1 = Some ''m'' \<and> fields_note h = Some ''n''"
proof -
  let ?s = "editor_init rejected_props :: (plan_form_values \<times> (plan_list_key \<Rightarrow> nat \<Rightarrow> string option)) plan_editor"
  have mounted: "mounted_fields example_form rejected_props True ?s
      = Some (fields_mount example_form rejected_props)"
    by (simp add: mounted_fields_def editor_init_def rejected_props_def example_props_def Let_def)
  have passed: "ep_issues rejected_props = fields_named (ep_failure rejected_props)"
    by (simp add: rejected_props_def fields_named_def Let_def)
  have mapped: "mapFieldIssue \<lparr>fi_path = ''plan.sub_questions.1'', fi_message = ''m'', fi_type = None\<rparr>
        = Own \<lparr>mf_list = PL_subQuestions, mf_index = 1, mf_message = ''m'', mf_type = None\<rparr>"
      "mapFieldIssue \<lparr>fi_path = ''plan'', fi_message = ''n'', fi_type = None\<rparr> = Absent"
    by (simp_all add: mapFieldIssue_def WIRE_TO_LIST_def lookup_def digit_char_def)
  have message: "message_for (ep_issues rejected_props) PL_subQuestions 1 = Some ''m''"
    using mapped by (simp add: message_for_def rejected_props_def Let_def)
  have unmapped: "map fi_message (filter (\<lambda>i. mapFieldIssue i = Absent) (ep_issues rejected_props)) = [''n'']"
    using mapped by (simp add: rejected_props_def Let_def)
  have fresh: "pf_applied (fields_mount example_form rejected_props) \<noteq> Some (ep_issues rejected_props)"
      "pf_formNote (fields_mount example_form rejected_props) = None"
      "1 < length (values_list (fm_values example_form (pf_form (fields_mount example_form rejected_props)))
          PL_subQuestions)"
    by (simp_all add: fields_mount_def rejected_props_def example_props_def example_form_def example_plan_def
        planToDraft_def draftToValues_def or_empty_def Let_def)
  obtain h where h: "pe_fields (editor_commit example_form rejected_props True ?s) = Some h"
      "row_error example_form h PL_subQuestions 1 = Some ''m''" "fields_note h = Some ''n''"
    using rejected_review_is_explained [OF example_form_docs passed, of True ?s,
        unfolded Let_def mounted option.case unmapped if_not_P [OF fresh(1)], THEN conjunct2] fresh(2,3) message
    by auto
  then show ?thesis by blast
qed

section \<open>The row of a complaint\<close>

lemma rows_without_gaps:
  "(\<forall>i < length (filter P xs). xs ! i = filter P xs ! i)
     \<longleftrightarrow> (\<forall>b < length xs. P (xs ! b) \<longrightarrow> (\<forall>a < b. P (xs ! a)))"
proof (induction xs)
  case (Cons x xs)
  show ?case
  proof (cases "P x")
    case True
    have "(\<forall>b < length (x # xs). P ((x # xs) ! b) \<longrightarrow> (\<forall>a < b. P ((x # xs) ! a)))
        \<longleftrightarrow> (\<forall>b < length xs. P (xs ! b) \<longrightarrow> (\<forall>a < b. P (xs ! a)))"
      using True by (auto simp: All_less_Suc2 nth_Cons split: nat.splits)
    then show ?thesis using True Cons by (simp add: All_less_Suc2)
  next
    case False
    have "(\<forall>i < length (filter P xs). (x # xs) ! i = filter P xs ! i) \<longleftrightarrow> filter P xs = []"
    proof
      assume all: "\<forall>i < length (filter P xs). (x # xs) ! i = filter P xs ! i"
      show "filter P xs = []"
      proof (rule ccontr)
        assume "filter P xs \<noteq> []"
        then have "x = filter P xs ! 0" "filter P xs ! 0 \<in> set (filter P xs)"
          using all nth_mem [of 0 "filter P xs"] by (auto simp del: nth_mem)
        then have "x \<in> set (filter P xs)" by (simp only:)
        then show False using False by simp
      qed
    qed simp
    moreover have "(\<forall>b < length (x # xs). P ((x # xs) ! b) \<longrightarrow> (\<forall>a < b. P ((x # xs) ! a)))
        \<longleftrightarrow> filter P xs = []"
      using False by (auto simp: All_less_Suc2 filter_empty_conv all_set_conv_all_nth)
    ultimately show ?thesis using False by simp
  qed
qed simp

text \<open>
  C31. The row a complaint lands on: the server counts the entries it was sent, from which the blank
  rows were dropped, and the editor puts its message on the row of that number. That row holds
  the entry complained about, for every entry, exactly when no blank row stands before a filled
  one; otherwise some message is put on another row than the one it is about.
\<close>

theorem complaint_row:
  fixes d :: plan_draft
  defines "sent k \<equiv> plan_list (draftToPlan d) k" and "rows k \<equiv> draft_list d k"
  shows "(\<exists>row. mapFieldIssue
       \<lparr>fi_path = join ''.'' [''plan'', ps_wire (PLAN_LIST_SPECS k), show_nat i],
        fi_message = message, fi_type = ty\<rparr> = Own row \<and> mf_list row = k \<and> mf_index row = i)
   \<and> ((\<forall>i < length (sent k). rows k ! i = sent k ! i)
       \<longleftrightarrow> (\<forall>b < length (rows k). filled (rows k ! b) \<longrightarrow> (\<forall>a < b. filled (rows k ! a))))"
  using field_issue_roundtrip [of k i message ty "[]"] rows_without_gaps [of filled "draft_list d k"]
  by (simp add: sent_def rows_def del: join.simps)

theorem complaint_row_witness:
  "let d = \<lparr>subQuestions = [''a'', [], ''b''], searchQueries = [''q'']\<rparr>
   in \<not> (\<forall>i < length (plan_list (draftToPlan d) PL_subQuestions).
          draft_list d PL_subQuestions ! i = plan_list (draftToPlan d) PL_subQuestions ! i)"
proof -
  let ?d = "\<lparr>subQuestions = [''a'', [], ''b''], searchQueries = [''q'']\<rparr>"
  have "filled (draft_list ?d PL_subQuestions ! 2)" "\<not> filled (draft_list ?d PL_subQuestions ! 1)"
    by (simp_all add: filled_def trim_def js_space_def)
  moreover have "2 < length (draft_list ?d PL_subQuestions)" "(1::nat) < 2" by simp_all
  ultimately show ?thesis
    using complaint_row [of PL_subQuestions 1 "''m''" None ?d] unfolding Let_def by blast
qed

end
