(* ===== verification/Uri_Decode.thy ===== *)
theory Uri_Decode
  imports Api_Client
begin

text \<open>
  The language's \<open>decodeURIComponent\<close>, the inverse of \<open>encodeURIComponent\<close> of \<open>Api_Client\<close>: percent
  octets are read as UTF-8, \<open>None\<close> is a thrown \<open>URIError\<close>. An octet sequence of a character outside
  the alphabet (every sequence of four octets is one) has no value here either.
\<close>

definition hex_value :: "char \<Rightarrow> nat option" where
  "hex_value c =
     (let n = of_char c :: nat in
      if 48 \<le> n \<and> n \<le> 57 then Some (n - 48)
      else if 65 \<le> n \<and> n \<le> 70 then Some (n - 55)
      else if 97 \<le> n \<and> n \<le> 102 then Some (n - 87)
      else None)"

text \<open>One percent octet and the rest of the text.\<close>

fun read_octet :: "string \<Rightarrow> (nat \<times> string) option" where
  "read_octet (p # a # b # r) =
     (if p = CHR ''%''
      then (case (hex_value a, hex_value b) of
              (Some x, Some y) \<Rightarrow> Some (16 * x + y, r) | _ \<Rightarrow> None)
      else None)"
| "read_octet _ = None"

text \<open>A continuation octet: its six bits.\<close>

definition read_continuation :: "string \<Rightarrow> (nat \<times> string) option" where
  "read_continuation s =
     (case read_octet s of
        Some (b, r) \<Rightarrow> if 128 \<le> b \<and> b < 192 then Some (b - 128, r) else None
      | None \<Rightarrow> None)"

text \<open>The character of the alphabet at a code point.\<close>

definition point_char :: "nat \<Rightarrow> char option" where
  "point_char p =
     (case map_of
        [(8364, 128), (8218, 130), (402, 131), (8222, 132), (8230, 133), (8224, 134), (8225, 135),
         (710, 136), (8240, 137), (352, 138), (8249, 139), (338, 140), (381, 142), (8216, 145),
         (8217, 146), (8220, 147), (8221, 148), (8226, 149), (8211, 150), (8212, 151), (732, 152),
         (8482, 153), (353, 154), (8250, 155), (339, 156), (382, 158), (376, 159)] p of
        Some n \<Rightarrow> Some (char_of (n :: nat))
      | None \<Rightarrow> if p < 256 \<and> code_point (char_of p) = p then Some (char_of p) else None)"

text \<open>The character at the head of the text and the rest; overlong sequences are refused.\<close>

definition read_char :: "string \<Rightarrow> (char \<times> string) option" where
  "read_char s =
     (case read_octet s of
        None \<Rightarrow> None
      | Some (b, r) \<Rightarrow>
          if b < 128 then Some (char_of b, r)
          else if 192 \<le> b \<and> b < 224
          then (case read_continuation r of
                  Some (x, r1) \<Rightarrow>
                    let p = 64 * (b - 192) + x
                    in if p < 128 then None else map_option (\<lambda>c. (c, r1)) (point_char p)
                | None \<Rightarrow> None)
          else if 224 \<le> b \<and> b < 240
          then (case read_continuation r of
                  Some (x, r1) \<Rightarrow>
                    (case read_continuation r1 of
                       Some (y, r2) \<Rightarrow>
                         let p = 4096 * (b - 224) + 64 * x + y
                         in if p < 2048 then None else map_option (\<lambda>c. (c, r2)) (point_char p)
                     | None \<Rightarrow> None)
                | None \<Rightarrow> None)
          else None)"

lemma octet_shorter: "read_octet s = Some (b, r) \<Longrightarrow> length r < length s"
  by (cases s rule: read_octet.cases) (auto split: if_splits option.splits)

lemma continuation_shorter: "read_continuation s = Some (x, r) \<Longrightarrow> length r < length s"
  by (auto simp: read_continuation_def split: option.splits if_splits dest: octet_shorter)

lemma read_char_shorter: "read_char s = Some (c, r) \<Longrightarrow> length r < length s"
  by (auto simp: read_char_def Let_def split: option.splits if_splits
      dest!: octet_shorter continuation_shorter)

function decodeURIComponent :: "string \<Rightarrow> string option" where
  "decodeURIComponent [] = Some []"
| "decodeURIComponent (c # s) =
     (if c \<noteq> CHR ''%'' then map_option (Cons c) (decodeURIComponent s)
      else case read_char (c # s) of
             None \<Rightarrow> None
           | Some (d, r) \<Rightarrow> map_option (Cons d) (decodeURIComponent r))"
  by pat_completeness auto
termination
  by (relation "measure length") (auto dest: read_char_shorter)

section \<open>The round trip\<close>

lemma hex_upper_hex: "n < 16 \<Longrightarrow> hex_value (upper_hex n) = Some n"
  by (auto simp: hex_value_def upper_hex_def Let_def)

lemma octet_percent: "b < 256 \<Longrightarrow> read_octet (percent b @ s) = Some (b, s)"
  using hex_upper_hex [of "b div 16"] hex_upper_hex [of "b mod 16"]
  by (simp add: percent_def)

lemma continuation_percent:
  "x < 64 \<Longrightarrow> read_continuation (percent (128 + x) @ s) = Some (x, s)"
  by (simp add: read_continuation_def octet_percent)

lemma point_char_code_point: "point_char (code_point c) = Some c"
proof -
  define n where "n = (of_char c :: nat)"
  have n: "n < 256" and c: "char_of n = c" by (simp_all add: n_def)
  show ?thesis
  proof (cases "code_point c = n")
    case True
    then show ?thesis using n c by (simp add: point_char_def)
  next
    case False
    let ?t = "[(128, 8364), (130, 8218), (131, 402), (132, 8222), (133, 8230), (134, 8224),
         (135, 8225), (136, 710), (137, 8240), (138, 352), (139, 8249), (140, 338), (142, 381),
         (145, 8216), (146, 8217), (147, 8220), (148, 8221), (149, 8226), (150, 8211), (151, 8212),
         (152, 732), (153, 8482), (154, 353), (155, 8250), (156, 339), (158, 382), (159, 376)]
         :: (nat \<times> nat) list"
    have point: "code_point c = (case map_of ?t n of Some p \<Rightarrow> p | None \<Rightarrow> n)"
      by (simp only: code_point_def n_def Let_def)
    have pair: "(n, code_point c) \<in> set ?t"
    proof (cases "map_of ?t n")
      case None
      then show ?thesis using False point by (simp only: option.case)
    next
      case (Some p)
      then show ?thesis using map_of_SomeD [OF Some] point by (simp only: option.case)
    qed
    let ?u = "[(8364, 128), (8218, 130), (402, 131), (8222, 132), (8230, 133), (8224, 134),
         (8225, 135), (710, 136), (8240, 137), (352, 138), (8249, 139), (338, 140), (381, 142),
         (8216, 145), (8217, 146), (8220, 147), (8221, 148), (8226, 149), (8211, 150), (8212, 151),
         (732, 152), (8482, 153), (353, 154), (8250, 155), (339, 156), (382, 158), (376, 159)]
         :: (nat \<times> nat) list"
    have swap: "?u = map prod.swap ?t" by (simp only: list.map prod.swap_def fst_conv snd_conv)
    have "(code_point c, n) \<in> set ?u"
      unfolding swap using imageI [OF pair, of prod.swap]
      by (simp only: set_map prod.swap_def fst_conv snd_conv)
    moreover have "distinct (map fst ?u)" by simp
    ultimately have "map_of ?u (code_point c) = Some n" by (simp only: map_of_is_SomeI)
    then show ?thesis by (simp only: point_char_def option.case c)
  qed
qed

lemma code_point_ascii: "code_point c < 128 \<Longrightarrow> char_of (code_point c) = c"
  using point_char_code_point [of c]
  by (auto simp: point_char_def split: if_splits)

lemma read_char_utf8:
  "read_char (concat (map percent (utf8 (code_point c))) @ s) = Some (c, s)"
proof -
  let ?p = "code_point c"
  have bound: "?p < 65536" by (rule code_point_bound)
  consider "?p < 128" | "128 \<le> ?p" "?p < 2048" | "2048 \<le> ?p" by linarith
  then show ?thesis
  proof cases
    case 1
    then show ?thesis by (simp add: utf8_def read_char_def octet_percent code_point_ascii)
  next
    case 2
    have "?p div 64 < 32" using 2 by (simp add: less_mult_imp_div_less)
    then have "192 + ?p div 64 < 224" by simp
    then show ?thesis
      using 2 continuation_percent [of "?p mod 64"]
      by (simp add: utf8_def read_char_def octet_percent Let_def point_char_code_point)
  next
    case 3
    have "?p div 4096 < 16" using bound by (simp add: less_mult_imp_div_less)
    moreover have "4096 * (?p div 4096) + 64 * (?p div 64 mod 64) + ?p mod 64 = ?p"
    proof -
      have "?p div 4096 = ?p div 64 div 64" by (simp add: div_mult2_eq [symmetric])
      moreover have "64 * (?p div 64 div 64) + ?p div 64 mod 64 = ?p div 64"
        "64 * (?p div 64) + ?p mod 64 = ?p" by (rule mult_div_mod_eq)+
      ultimately show ?thesis by linarith
    qed
    ultimately show ?thesis
      using 3 continuation_percent [of "?p mod 64"] continuation_percent [of "?p div 64 mod 64"]
      by (simp add: utf8_def read_char_def octet_percent Let_def point_char_code_point)
  qed
qed

lemma utf8_percent: "\<exists>s. concat (map percent (utf8 p)) = CHR ''%'' # s"
  by (simp add: utf8_def percent_def)

lemma decode_encode_char:
  "decodeURIComponent (encode_char c @ s) = map_option (Cons c) (decodeURIComponent s)"
proof (cases "uri_unreserved c")
  case True
  moreover have "\<not> uri_unreserved CHR ''%''" by code_simp
  ultimately show ?thesis by (auto simp: encode_char_def)
next
  case False
  obtain t where t: "concat (map percent (utf8 (code_point c))) = CHR ''%'' # t"
    using utf8_percent by blast
  have "read_char (CHR ''%'' # t @ s) = Some (c, s)"
    using read_char_utf8 [of c s] by (simp add: t)
  then show ?thesis using False by (simp add: encode_char_def t)
qed

lemma decode_encode: "decodeURIComponent (encodeURIComponent s) = Some s"
  by (induction s) (simp_all add: encodeURIComponent_def decode_encode_char)

end
