(* ===== verification/Thread_Rail.thy ===== *)
theory Thread_Rail
  imports Uri_Decode Interfaces
begin

text \<open>
  The thread rail: the copy of \<open>web/lib/copy/threads.ts\<close>, the rows, states and focus of
  \<open>web/components/patterns/ThreadList.tsx\<close>, the state of \<open>web/components/features/ThreadRail.tsx\<close>
  (which thread is about to be deleted, what an answer to the deletion does) and the route reading
  of \<open>web/components/app/ThreadRailBridge.tsx\<close>. The list query and the deletion are the query
  layer's; which rows it has is what a commit brings. A press reaches the handlers of the last render,
  so what the confirmation reads (its thread, the route, whether it is busy) is what was rendered. What the rail asks for, where it navigates
  and what it focuses is appended to \<open>rl_log\<close>.
\<close>

section \<open>Copy\<close>

definition turnCount :: "int \<Rightarrow> string" where
  "turnCount count =
     (let n = max 0 count
      in if n = 0 then ''No turns yet''
         else show_int n @ '' turn'' @ (if n = 1 then [] else ''s''))"

definition turnLabel :: "int \<Rightarrow> string" where
  "turnLabel ordinal = ''Turn '' @ show_int (max 1 ordinal)"

record delete_dialog_copy =
  dd_heading :: string
  dd_body :: string
  dd_confirm :: string
  dd_cancel :: string
  dd_pending :: string
  dd_close :: string

definition deleteDialog :: "string \<Rightarrow> delete_dialog_copy" where
  "deleteDialog title =
     (let named = trim title
      in \<lparr>dd_heading = (if named = [] then ''Delete this thread?''
                        else ''Delete '' @ [CHR 0x93] @ named @ [CHR 0x94] @ ''?''),
          dd_body = ''This removes the thread and its briefings from this workspace. ''
            @ ''Run records are kept separately and expire on their own schedule.'',
          dd_confirm = ''Delete thread'', dd_cancel = ''Cancel'',
          dd_pending = ''Deleting'' @ [CHR 0x85], dd_close = ''Close without deleting''\<rparr>)"

section \<open>Routes and rows\<close>

record thread_summary =
  ts_id :: string
  ts_title :: string

text \<open>The thread a path names: \<open>/c/<id>\<close>, decoded where it can be.\<close>

definition activeConversationIdFrom :: "string option \<Rightarrow> string option" where
  "activeConversationIdFrom pathname =
     (let path = (case pathname of Some p \<Rightarrow> p | None \<Rightarrow> [])
      in if starts_with ''/c/'' path
         then (let segment = takeWhile (\<lambda>c. c \<noteq> CHR ''/'') (drop 3 path)
               in if segment = [] then None
                  else case decodeURIComponent segment of
                         Some i \<Rightarrow> Some i | None \<Rightarrow> Some segment)
         else None)"

text \<open>\<open>Boolean(x)\<close> of a string or nothing.\<close>

definition has_text :: "string option \<Rightarrow> bool" where
  "has_text x \<longleftrightarrow> x \<noteq> None \<and> x \<noteq> Some []"

definition threadRowHref :: "string \<Rightarrow> string option \<Rightarrow> string option \<Rightarrow> string" where
  "threadRowHref conversationId activeConversationId attachedJobId =
     (let base = ''/c/'' @ encodeURIComponent conversationId
      in if \<not> has_text attachedJobId \<or> Some conversationId \<noteq> activeConversationId then base
         else base @ ''?job='' @ encodeURIComponent (the attachedJobId))"

definition threadMenuLabel :: "string \<Rightarrow> string" where
  "threadMenuLabel title =
     (let named = trim title
      in if named = [] then ''Thread actions'' else ''Thread actions: '' @ named)"

record row_view =
  rw_id :: string
  rw_href :: string
  rw_active :: bool
  rw_live :: bool

definition row_view_of :: "string option \<Rightarrow> string option \<Rightarrow> thread_summary \<Rightarrow> row_view" where
  "row_view_of activeConversationId attachedJobId thread =
     (let active = (Some (ts_id thread) = activeConversationId)
      in \<lparr>rw_id = ts_id thread,
          rw_href = threadRowHref (ts_id thread) activeConversationId attachedJobId,
          rw_active = active, rw_live = (active \<and> has_text attachedJobId)\<rparr>)"

datatype rail_notice = Notice_read_failed | Notice_delete_failed

text \<open>Only a failed read has a retry.\<close>

definition rail_notice_of :: "bool \<Rightarrow> bool \<Rightarrow> rail_notice option" where
  "rail_notice_of isError deleteFailed =
     (if isError then Some Notice_read_failed
      else if deleteFailed then Some Notice_delete_failed else None)"

datatype rail_state = Rail_loading | Rail_empty | Rail_list | Rail_error

definition railState :: "bool \<Rightarrow> rail_notice option \<Rightarrow> nat \<Rightarrow> rail_state" where
  "railState loading notice count =
     (if loading then Rail_loading
      else if notice = Some Notice_read_failed \<and> count = 0 then Rail_error
      else if count = 0 then Rail_empty
      else Rail_list)"

section \<open>The rail's state\<close>

datatype rail_effect =
    Rail_delete string
  | Rail_answered
  | Rail_navigate string
  | Rail_refetch
  | Rail_loadMore
  | Rail_focus_row string
  | Rail_focus_new

text \<open>
  The state of the component (\<open>rl_active\<close> its prop, \<open>rl_pendingDelete\<close>, \<open>rl_deleteFailed\<close>) and what the
  last render made of it: the thread its dialog asks about, the route its handlers captured and
  whether the accepting control is busy. \<open>rl_flights\<close> are the deletions that have not been answered,
  numbered as they were asked for, each with the route its callbacks captured; \<open>useMutation\<close> observes
  the last one only. \<open>rl_rows\<close> are the rows on screen, each with the number of its element: a row
  that leaves the screen and comes back is a new element. \<open>rl_opener\<close> is the overflow button that
  opened the dialog.
\<close>

record rail =
  rl_active :: "string option"
  rl_pendingDelete :: "thread_summary option"
  rl_deleteFailed :: bool
  rl_dialog :: "thread_summary option"
  rl_route :: "string option"
  rl_busy :: bool
  rl_flights :: "(nat \<times> string \<times> string option) list"
  rl_calls :: nat
  rl_rows :: "(string \<times> nat) list"
  rl_next :: nat
  rl_opener :: "(string \<times> nat) option"
  rl_wasOpen :: bool
  rl_log :: "rail_effect list"

definition rail_init :: "string option \<Rightarrow> rail" where
  "rail_init active =
     \<lparr>rl_active = active, rl_pendingDelete = None, rl_deleteFailed = False, rl_dialog = None,
      rl_route = active, rl_busy = False, rl_flights = [], rl_calls = 0,
      rl_rows = [], rl_next = 0, rl_opener = None, rl_wasOpen = False, rl_log = []\<rparr>"

definition rail_call :: "rail_effect \<Rightarrow> rail \<Rightarrow> rail" where
  "rail_call x r = r\<lparr>rl_log := rl_log r @ [x]\<rparr>"

definition startDelete :: "thread_summary \<Rightarrow> rail \<Rightarrow> rail" where
  "startDelete thread r = r\<lparr>rl_deleteFailed := False, rl_pendingDelete := Some thread\<rparr>"

text \<open>The handler of the last render; it has no guard of its own.\<close>

definition confirmDelete :: "rail \<Rightarrow> rail" where
  "confirmDelete r =
     (case rl_dialog r of
        None \<Rightarrow> r
      | Some target \<Rightarrow>
          rail_call (Rail_delete (ts_id target))
            (r\<lparr>rl_deleteFailed := False, rl_calls := rl_calls r + 1,
               rl_flights := rl_flights r @ [(rl_calls r, ts_id target, rl_route r)]\<rparr>))"

text \<open>
  \<open>remove.isPending\<close>: the last deletion asked for has not been answered. The callbacks given to
  \<open>mutate\<close> run for that one only.
\<close>

definition last_call :: "rail \<Rightarrow> nat \<Rightarrow> bool" where
  "last_call r i \<longleftrightarrow> Suc i = rl_calls r"

definition isPending :: "rail \<Rightarrow> bool" where
  "isPending r \<longleftrightarrow> list_ex (\<lambda>(i, _). last_call r i) (rl_flights r)"

definition rail_answered :: "nat \<Rightarrow> rail \<Rightarrow> rail" where
  "rail_answered i r =
     rail_call Rail_answered (r\<lparr>rl_flights := filter (\<lambda>(j, _). j \<noteq> i) (rl_flights r)\<rparr>)"

definition delete_succeeds :: "nat \<Rightarrow> rail \<Rightarrow> rail" where
  "delete_succeeds i r =
     (case map_of (rl_flights r) i of
        None \<Rightarrow> r
      | Some (target, activeConversationId) \<Rightarrow>
          if \<not> last_call r i then rail_answered i r
          else (let r1 = (rail_answered i r)\<lparr>rl_pendingDelete := None\<rparr>
                in if Some target = activeConversationId then rail_call (Rail_navigate ''/'') r1 else r1))"

definition delete_fails :: "nat \<Rightarrow> rail \<Rightarrow> rail" where
  "delete_fails i r =
     (case map_of (rl_flights r) i of
        None \<Rightarrow> r
      | Some _ \<Rightarrow>
          if \<not> last_call r i then rail_answered i r
          else (rail_answered i r)\<lparr>rl_pendingDelete := None, rl_deleteFailed := True\<rparr>)"

text \<open>The elements of the rows after a commit: those that stay keep theirs.\<close>

definition place_rows :: "(string \<times> nat) list \<Rightarrow> nat \<Rightarrow> string list \<Rightarrow> (string \<times> nat) list" where
  "place_rows old fresh ids =
     map (\<lambda>(k, i). (i, case map_of old i of Some n \<Rightarrow> n | None \<Rightarrow> fresh + k)) (enumerate 0 ids)"

text \<open>The effect that restores the focus when the confirmation closes.\<close>

definition restore_focus :: "rail \<Rightarrow> rail" where
  "restore_focus r =
     (let confirmOpen = (rl_pendingDelete r \<noteq> None);
          r1 = (case rl_pendingDelete r of
                  Some t \<Rightarrow>
                    if \<not> rl_wasOpen r
                    then r\<lparr>rl_opener := map_option (\<lambda>n. (ts_id t, n)) (map_of (rl_rows r) (ts_id t))\<rparr>
                    else r
                | None \<Rightarrow>
                    if rl_wasOpen r
                    then (rail_call
                            (case rl_opener r of
                               Some (i, n) \<Rightarrow> if (i, n) \<in> set (rl_rows r) then Rail_focus_row i
                                               else Rail_focus_new
                             | None \<Rightarrow> Rail_focus_new) r)\<lparr>rl_opener := None\<rparr>
                    else r)
      in r1\<lparr>rl_wasOpen := confirmOpen\<rparr>)"

definition rail_commit :: "string list \<Rightarrow> rail \<Rightarrow> rail" where
  "rail_commit ids r =
     restore_focus (r\<lparr>rl_dialog := rl_pendingDelete r, rl_route := rl_active r, rl_busy := isPending r,
                      rl_rows := place_rows (rl_rows r) (rl_next r) ids,
                      rl_next := rl_next r + length ids\<rparr>)"

text \<open>\<open>Rl_confirm\<close> is a press on the accepting control of the dialog on screen, which refuses it when it
  was rendered busy.\<close>

datatype rail_event =
    Rl_start thread_summary
  | Rl_cancel
  | Rl_confirm
  | Rl_succeeds nat
  | Rl_fails nat
  | Rl_route "string option"
  | Rl_load_more
  | Rl_retry
  | Rl_commit "string list"

fun rail_step :: "rail \<Rightarrow> rail_event \<Rightarrow> rail" where
  "rail_step r (Rl_start thread) = startDelete thread r"
| "rail_step r Rl_cancel = r\<lparr>rl_pendingDelete := None\<rparr>"
| "rail_step r Rl_confirm = (if rl_busy r then r else confirmDelete r)"
| "rail_step r (Rl_succeeds i) = delete_succeeds i r"
| "rail_step r (Rl_fails i) = delete_fails i r"
| "rail_step r (Rl_route active) = r\<lparr>rl_active := active\<rparr>"
| "rail_step r Rl_load_more = rail_call Rail_loadMore (r\<lparr>rl_deleteFailed := False\<rparr>)"
| "rail_step r Rl_retry = rail_call Rail_refetch (r\<lparr>rl_deleteFailed := False\<rparr>)"
| "rail_step r (Rl_commit ids) = rail_commit ids r"

lemmas rail_defs = rail_call_def startDelete_def confirmDelete_def delete_succeeds_def
  delete_fails_def rail_answered_def restore_focus_def rail_commit_def Let_def

section \<open>Laws\<close>

definition deletes_of :: "rail_effect list \<Rightarrow> string list" where
  "deletes_of calls = List.map_filter (\<lambda>x. case x of Rail_delete i \<Rightarrow> Some i | _ \<Rightarrow> None) calls"

definition answers_of :: "rail_effect list \<Rightarrow> nat" where
  "answers_of calls = length (filter ((=) Rail_answered) calls)"

lemma rail_log_simps [simp]:
  "deletes_of [] = []"
  "deletes_of (x # xs) = (case x of Rail_delete i \<Rightarrow> [i] | _ \<Rightarrow> []) @ deletes_of xs"
  "deletes_of (xs @ ys) = deletes_of xs @ deletes_of ys"
  "answers_of [] = 0" "answers_of (x # xs) = (if x = Rail_answered then 1 else 0) + answers_of xs"
  "answers_of (xs @ ys) = answers_of xs + answers_of ys"
  by (auto simp: deletes_of_def answers_of_def map_filter_def split: rail_effect.split)

lemma fst_place_rows: "fst ` set (place_rows old fresh ids) = set ids"
proof -
  have "map fst (place_rows old fresh ids) = map snd (enumerate 0 ids)"
    by (simp add: place_rows_def split_def comp_def)
  then have "map fst (place_rows old fresh ids) = ids" by simp
  then show ?thesis by (metis set_map)
qed

lemma placed_first:
  "map_of (place_rows old fresh (i # ids)) i = Some (case map_of old i of Some n \<Rightarrow> n | None \<Rightarrow> fresh)"
  by (cases "map_of old i") (simp_all add: place_rows_def)

lemma placed_nowhere: "i \<notin> set ids \<Longrightarrow> map_of (place_rows old fresh ids) i = None"
  by (simp add: map_of_eq_None_iff fst_place_rows)

lemmas map_of_place_rows = placed_first placed_nowhere

lemma in_place_rows:
  "i \<notin> set ids \<Longrightarrow> (i, n) \<in> set (place_rows old fresh (i # ids))
     \<longleftrightarrow> n = (case map_of old i of Some m \<Rightarrow> m | None \<Rightarrow> fresh)"
  by (cases "map_of old i") (auto simp: place_rows_def in_set_enumerate_eq)

text \<open>Every deletion that was asked for is in flight or has been answered, once.\<close>

definition rail_inv :: "rail \<Rightarrow> bool" where
  "rail_inv r \<longleftrightarrow>
     length (deletes_of (rl_log r)) = answers_of (rl_log r) + length (rl_flights r)
   \<and> length (deletes_of (rl_log r)) = rl_calls r
   \<and> distinct (map fst (rl_flights r))
   \<and> (\<forall>(i, t, a) \<in> set (rl_flights r). i < rl_calls r \<and> deletes_of (rl_log r) ! i = t)"

lemma answered_length:
  "distinct (map fst xs) \<Longrightarrow> map_of xs i = Some y
     \<Longrightarrow> length xs = Suc (length (filter (\<lambda>(j, _). j \<noteq> i) xs))"
proof (induction xs)
  case (Cons x xs)
  show ?case
  proof (cases "fst x = i")
    case True
    then have "filter (\<lambda>(j, _). j \<noteq> i) xs = xs"
      using Cons.prems(1) by (auto simp: filter_id_conv image_iff)
    then show ?thesis using True by (cases x) simp
  qed (use Cons in \<open>cases x; auto\<close>)
qed simp

lemma rail_inv_init: "rail_inv (rail_init active)"
  by (simp add: rail_inv_def rail_init_def)

text \<open>The moves in terms of the deletions in flight and the log.\<close>

lemma rail_inv_same:
  "rail_inv r \<Longrightarrow> rl_flights g = rl_flights r \<Longrightarrow> rl_calls g = rl_calls r \<Longrightarrow>
   deletes_of (rl_log g) = deletes_of (rl_log r) \<Longrightarrow> answers_of (rl_log g) = answers_of (rl_log r) \<Longrightarrow>
   rail_inv g"
  by (simp add: rail_inv_def)

lemma rail_inv_answered:
  assumes "rail_inv r" "map_of (rl_flights r) i = Some y"
    "rl_flights g = filter (\<lambda>(j, _). j \<noteq> i) (rl_flights r)" "rl_calls g = rl_calls r"
    "deletes_of (rl_log g) = deletes_of (rl_log r)" "answers_of (rl_log g) = Suc (answers_of (rl_log r))"
  shows "rail_inv g"
  using assms answered_length [OF _ assms(2)]
  by (auto simp: rail_inv_def intro: distinct_map_filter)

lemma rail_inv_confirm: "rail_inv r \<Longrightarrow> rail_inv (confirmDelete r)"
  by (auto simp: rail_inv_def confirmDelete_def rail_call_def nth_append split: option.split)

lemma rail_inv_step: "rail_inv r \<Longrightarrow> rail_inv (rail_step r e)"
proof (cases e)
  case (Rl_succeeds i)
  assume "rail_inv r"
  with Rl_succeeds show ?thesis
    by (cases "map_of (rl_flights r) i")
      (auto simp: delete_succeeds_def rail_answered_def rail_call_def Let_def
        intro: rail_inv_answered [of r i])
next
  case (Rl_fails i)
  assume "rail_inv r"
  with Rl_fails show ?thesis
    by (cases "map_of (rl_flights r) i")
      (auto simp: delete_fails_def rail_answered_def rail_call_def intro: rail_inv_answered [of r i])
next
  case (Rl_commit ids)
  assume "rail_inv r"
  with Rl_commit show ?thesis
    by (auto simp: rail_commit_def restore_focus_def rail_call_def Let_def
        intro: rail_inv_same [of r] split: option.split)
qed (auto simp: startDelete_def rail_call_def rail_inv_confirm intro: rail_inv_same [of r])

interpretation rail: reducer rail_step "rail_init active" rail_inv for active
  by unfold_locales (rule rail_inv_init, rule rail_inv_step)

text \<open>Presses on the accepting control with a render between any two of them.\<close>

fun spaced_from :: "bool \<Rightarrow> rail_event list \<Rightarrow> bool" where
  "spaced_from fresh [] = True"
| "spaced_from fresh (Rl_confirm # es) = (fresh \<and> spaced_from False es)"
| "spaced_from fresh (Rl_commit ids # es) = spaced_from True es"
| "spaced_from fresh (e # es) = spaced_from fresh es"

abbreviation spaced :: "rail_event list \<Rightarrow> bool" where
  "spaced \<equiv> spaced_from True"

text \<open>Then the busy control is enough: while a press can come, a deletion in flight is the last one,
  and it was rendered.\<close>

definition one_flight :: "bool \<Rightarrow> rail \<Rightarrow> bool" where
  "one_flight fresh r \<longleftrightarrow>
     length (rl_flights r) \<le> 1 \<and> (rl_flights r \<noteq> [] \<longrightarrow> isPending r)
   \<and> (fresh \<longrightarrow> rl_flights r \<noteq> [] \<longrightarrow> rl_busy r)"

fun spaced_after :: "bool \<Rightarrow> rail_event \<Rightarrow> bool" where
  "spaced_after fresh Rl_confirm = False"
| "spaced_after fresh (Rl_commit ids) = True"
| "spaced_after fresh _ = fresh"

lemma spaced_step:
  "spaced_from fresh (e # es) \<Longrightarrow> spaced_from (spaced_after fresh e) es \<and> (e = Rl_confirm \<longrightarrow> fresh)"
  by (cases e) simp_all

lemma one_flight_step:
  assumes "one_flight fresh r" "e = Rl_confirm \<longrightarrow> fresh"
  shows "one_flight (spaced_after fresh e) (rail_step r e)"
proof (cases "rl_flights r")
  case Nil
  then show ?thesis
    using assms
    by (cases e) (auto simp: one_flight_def isPending_def last_call_def rail_defs split: option.splits)
next
  case (Cons x xs)
  then have x: "xs = []" "isPending r" "fresh \<longrightarrow> rl_busy r" using assms(1) by (auto simp: one_flight_def)
  obtain j t a where j: "x = (j, t, a)" by (cases x)
  show ?thesis
    using assms Cons x j
    by (cases e)
      (auto simp: one_flight_def isPending_def last_call_def rail_defs split: option.splits)
qed

lemma one_flight_runs:
  "one_flight fresh r \<Longrightarrow> spaced_from fresh es \<Longrightarrow> length (rl_flights (runs rail_step r es)) \<le> 1"
proof (induction es arbitrary: fresh r)
  case (Cons e es)
  then show ?case using one_flight_step spaced_step by fastforce
qed (simp add: one_flight_def)

section \<open>Properties\<close>

text \<open>
  C32. A row leads to its thread and keeps its run: the path of the row's link names the row's
  thread, whatever characters its id has; a run is attached to the row of the thread it belongs
  to and to no other; and at most one row of a list without repeated ids is marked live.
\<close>

theorem row_href_roundtrip:
  assumes "i \<noteq> []" "distinct (map ts_id threads)"
  shows "activeConversationIdFrom (Some (takeWhile (\<lambda>c. c \<noteq> CHR 0x3F) (threadRowHref i active job))) = Some i
    \<and> (CHR 0x3F \<in> set (threadRowHref i active job) \<longleftrightarrow> has_text job \<and> active = Some i)
    \<and> length (filter rw_live (map (row_view_of active job) threads)) \<le> 1"
proof -
  let ?e = "encodeURIComponent i"
  have bad: "\<not> segment_char CHR ''/''" "\<not> segment_char CHR 0x3F" by code_simp+
  note free = segment_char_free [OF encoded_segment]
  have encoded: "CHR ''/'' \<notin> set ?e" "CHR 0x3F \<notin> set ?e"
    using free [OF bad(1)] free [OF bad(2)] by blast+
  have "?e \<noteq> []" using assms(1) decode_encode [of i] by auto
  have path: "takeWhile (\<lambda>c. c \<noteq> CHR 0x3F) (threadRowHref i active job) = ''/c/'' @ ?e"
    using encoded(2)
    by (auto simp: threadRowHref_def Let_def takeWhile_append takeWhile_eq_all_conv)
  have segment: "takeWhile (\<lambda>c. c \<noteq> CHR ''/'') (drop 3 (''/c/'' @ ?e)) = ?e"
    using encoded(1) by (auto simp: takeWhile_eq_all_conv)
  have rooted: "starts_with ''/c/'' (''/c/'' @ ?e)" by simp
  have "activeConversationIdFrom (Some (takeWhile (\<lambda>c. c \<noteq> CHR 0x3F) (threadRowHref i active job))) = Some i"
    unfolding path activeConversationIdFrom_def Let_def option.case segment decode_encode
    using rooted \<open>?e \<noteq> []\<close> by (simp del: append.simps)
  moreover have "CHR 0x3F \<in> set (threadRowHref i active job) \<longleftrightarrow> has_text job \<and> active = Some i"
    using encoded(2) by (auto simp: threadRowHref_def Let_def)
  moreover have "length (filter rw_live (map (row_view_of active job) threads)) \<le> 1"
  proof -
    have "length (filter rw_live (map (row_view_of active job) threads))
        \<le> length (filter (\<lambda>x. Some x = active) (map ts_id threads))"
      by (induction threads) (auto simp: row_view_of_def Let_def)
    also have "\<dots> \<le> 1"
    proof (cases active)
      case (Some a)
      have "filter (\<lambda>x. x = a) xs = (if a \<in> set xs then [a] else [])" if "distinct xs" for xs
        using that by (induction xs) auto
      then show ?thesis using assms(2) Some by simp
    qed simp
    finally show ?thesis .
  qed
  ultimately show ?thesis by blast
qed

theorem row_href_roundtrip_witness:
  "activeConversationIdFrom (Some (takeWhile (\<lambda>c. c \<noteq> CHR 0x3F)
      (threadRowHref ''a/b'' (Some ''a/b'') (Some ''j'')))) = Some ''a/b''"
  using row_href_roundtrip [of "''a/b''" "[]" "Some ''a/b''" "Some ''j''"] by simp

text \<open>
  C33. Deleting, over every order of presses, answers, navigations and renders. A deletion is asked
  for exactly by a press on the accepting control of the dialog on screen while that was not
  rendered busy, for the thread the dialog asks about; a retry reads the list again and deletes
  nothing. Every deletion asked for is in flight or has been answered, and when a render stands
  between any two presses at most one is in flight (the handler itself has no guard). The answer to
  the last deletion closes whatever dialog is open, also one that another thread opened meanwhile,
  and leads to the start page exactly when the deleted thread was on the route that was on screen
  when it was confirmed, wherever the reader is by then. The answer to an earlier one changes
  nothing on the page, and one that is not in flight nothing at all.
\<close>

theorem delete_answer_is_blind:
  "let r = runs rail_step (rail_init active) es in
     deletes_of (rl_log (rail_step r e)) = deletes_of (rl_log r) @
       (case (e, rl_dialog r, rl_busy r) of
          (Rl_confirm, Some t, False) \<Rightarrow> [ts_id t] | _ \<Rightarrow> [])
   \<and> length (deletes_of (rl_log r)) = answers_of (rl_log r) + length (rl_flights r)
   \<and> (spaced es \<longrightarrow> length (rl_flights r) \<le> 1)
   \<and> (case map_of (rl_flights r) i of
        None \<Rightarrow> rail_step r (Rl_succeeds i) = r \<and> rail_step r (Rl_fails i) = r
      | Some (target, route) \<Rightarrow>
          deletes_of (rl_log r) ! i = target
        \<and> (if Suc i = length (deletes_of (rl_log r))
           then rl_pendingDelete (rail_step r (Rl_succeeds i)) = None
              \<and> rl_pendingDelete (rail_step r (Rl_fails i)) = None
              \<and> rl_deleteFailed (rail_step r (Rl_fails i))
              \<and> rl_log (rail_step r (Rl_succeeds i)) = rl_log r @ Rail_answered #
                  (if route = Some target then [Rail_navigate ''/''] else [])
           else rail_step r (Rl_succeeds i) = rail_answered i r
              \<and> rail_step r (Rl_fails i) = rail_answered i r))"
proof -
  let ?r = "runs rail_step (rail_init active) es"
  have inv: "rail_inv ?r" by (rule rail.inv_from_init)
  have asked: "deletes_of (rl_log (rail_step ?r e)) = deletes_of (rl_log ?r) @
       (case (e, rl_dialog ?r, rl_busy ?r) of
          (Rl_confirm, Some t, False) \<Rightarrow> [ts_id t] | _ \<Rightarrow> [])"
    by (cases e) (auto simp: rail_defs split: option.split bool.split)
  have spaced: "spaced es \<Longrightarrow> length (rl_flights ?r) \<le> 1"
    by (rule one_flight_runs) (simp add: one_flight_def rail_init_def)
  have known: "map_of (rl_flights ?r) i = Some (t, a) \<Longrightarrow> deletes_of (rl_log ?r) ! i = t" for t a
    using inv map_of_SomeD [of "rl_flights ?r" i "(t, a)"] by (auto simp: rail_inv_def)
  show ?thesis
    using asked spaced inv known
    by (auto simp: Let_def rail_inv_def delete_succeeds_def delete_fails_def last_call_def
        rail_answered_def rail_call_def split: option.split)
qed

theorem delete_answer_is_blind_witness:
  "length (rl_flights (runs rail_step (rail_init None)
     [Rl_commit [''a''], Rl_start \<lparr>ts_id = ''a'', ts_title = ''t''\<rparr>, Rl_commit [''a''], Rl_confirm,
      Rl_commit [], Rl_confirm])) \<le> 1"
  using delete_answer_is_blind [of None "[Rl_commit [''a''], Rl_start \<lparr>ts_id = ''a'', ts_title = ''t''\<rparr>,
      Rl_commit [''a''], Rl_confirm, Rl_commit [], Rl_confirm]"]
  by (simp only: Let_def spaced_from.simps)

text \<open>Two presses on the accepting control before the page is rendered again delete twice.\<close>

lemma two_presses_delete_twice:
  "deletes_of (rl_log (runs rail_step (rail_init active)
     [Rl_start t, Rl_commit ids, Rl_confirm, Rl_confirm])) = [ts_id t, ts_id t]"
  by (simp add: rail_defs rail_init_def isPending_def split: option.split)

text \<open>
  Where the focus goes when a confirmation closes: back to the row's button after a cancel; to
  the first control of the rail after a deletion that failed, although the row is in the list
  again, because the row that comes back is a new element.
\<close>

lemma failed_delete_loses_the_row:
  fixes t :: thread_summary and others :: "string list"
  assumes "ts_id t \<notin> set others"
  defines "opened \<equiv> [Rl_commit (ts_id t # others), Rl_start t, Rl_commit (ts_id t # others)]"
  shows "last (rl_log (runs rail_step (rail_init active)
            (opened @ [Rl_cancel, Rl_commit (ts_id t # others)]))) = Rail_focus_row (ts_id t)
    \<and> last (rl_log (runs rail_step (rail_init active)
            (opened @ [Rl_confirm, Rl_commit others, Rl_fails 0, Rl_commit (ts_id t # others)])))
        = Rail_focus_new"
proof -
  show ?thesis
    using assms(1)
    by (simp add: opened_def rail_defs rail_init_def map_of_place_rows in_place_rows isPending_def
      last_call_def)
qed

lemma failed_delete_loses_the_row_witness:
  "last (rl_log (runs rail_step (rail_init None)
      ([Rl_commit [''a'', ''b''], Rl_start \<lparr>ts_id = ''a'', ts_title = ''t''\<rparr>, Rl_commit [''a'', ''b'']]
       @ [Rl_confirm, Rl_commit [''b''], Rl_fails 0, Rl_commit [''a'', ''b'']]))) = Rail_focus_new"
  using failed_delete_loses_the_row [of "\<lparr>ts_id = ''a'', ts_title = ''t''\<rparr>" "[''b'']" None]
  by (simp del: runs_Cons runs_append)

end
