(* ===== verification/Shell.thy ===== *)
theory Shell
  imports Server_Pilot Interfaces
begin

text \<open>
  The workbench shell: the rail's mode, its collapse preference and its drawer in
  \<open>web/components/app/WorkbenchShell.tsx\<close> with \<open>web/components/features/ThreadDrawer.tsx\<close>; the theme,
  from the script of \<open>web/lib/tokens.ts\<close> that runs before the first paint to the control of
  \<open>web/components/patterns/ThemeToggle.tsx\<close>; and the workspace indicator of
  \<open>web/lib/copy/threads.ts\<close>. Storage, media queries and the system's theme are the environment's.
  A dialog renders its children while it is open.
\<close>

section \<open>The workspace indicator\<close>

definition workspaceIndicator :: "workspace_identity \<Rightarrow> string \<times> string" where
  "workspaceIndicator identity =
     (case identity of
        Id_pilot username \<Rightarrow>
          (''Pilot workspace'',
           ''The edge authenticated this request as '' @ username
             @ ''. Threads, guided sessions, the learner profile and the ledger belong to that ''
             @ ''principal alone; the paper and embedding caches are shared with the other pilots.'')
      | Id_unresolved \<Rightarrow>
          (''Principal not resolved'',
           ''The edge that authenticates each request did not vouch for this one, so this page ''
             @ ''cannot say whose workspace it is. Requests are refused until it can. Ask the ''
             @ ''operator who issued your credential.'')
      | Id_shared \<Rightarrow>
          (''Shared workspace'',
           ''Everyone with access to this deployment sees these threads. There are no separate ''
             @ ''accounts.''))"

section \<open>Browser storage\<close>

text \<open>One key: what is stored, and whether reading or writing throws.\<close>

record browser_storage =
  bs_item :: "string option"
  bs_unreadable :: bool
  bs_unwritable :: bool

definition getItem :: "browser_storage \<Rightarrow> string option option" where
  "getItem b = (if bs_unreadable b then None else Some (bs_item b))"

definition setItem :: "string \<Rightarrow> browser_storage \<Rightarrow> browser_storage" where
  "setItem x b = (if bs_unwritable b then b else b\<lparr>bs_item := Some x\<rparr>)"

section \<open>The rail\<close>

datatype rail_mode = Mode_drawer | Mode_compact | Mode_expanded

text \<open>Whether the two media queries match, where there is a window to ask.\<close>

definition readRailMode :: "(bool \<times> bool) option \<Rightarrow> rail_mode" where
  "readRailMode media =
     (case media of
        None \<Rightarrow> Mode_expanded
      | Some (compact, expanded) \<Rightarrow>
          if expanded then Mode_expanded else if compact then Mode_compact else Mode_drawer)"

definition readRailCollapsed :: "browser_storage \<Rightarrow> bool" where
  "readRailCollapsed b = (case getItem b of Some x \<Rightarrow> x = Some ''1'' | None \<Rightarrow> False)"

definition writeRailCollapsed :: "bool \<Rightarrow> browser_storage \<Rightarrow> browser_storage" where
  "writeRailCollapsed collapsed b = setItem (if collapsed then ''1'' else ''0'') b"

definition toggleCollapsed :: "browser_storage \<Rightarrow> browser_storage" where
  "toggleCollapsed b = writeRailCollapsed (\<not> readRailCollapsed b) b"

datatype drawer_trigger = Header_button | Strip_button

text \<open>The drawer's two flags, the control that opened it, the flag of the focus effect, and the
  controls the shell focused.\<close>

record shell =
  sh_mode :: rail_mode
  sh_storage :: browser_storage
  sh_drawerOpen :: bool
  sh_drawerRequested :: bool
  sh_trigger :: "drawer_trigger option"
  sh_wasOpen :: bool
  sh_focused :: "drawer_trigger list"

definition shell_init :: "rail_mode \<Rightarrow> browser_storage \<Rightarrow> shell" where
  "shell_init mode b =
     \<lparr>sh_mode = mode, sh_storage = b, sh_drawerOpen = False, sh_drawerRequested = False,
      sh_trigger = None, sh_wasOpen = False, sh_focused = []\<rparr>"

definition collapsed :: "shell \<Rightarrow> bool" where
  "collapsed s = (if sh_mode s = Mode_expanded then readRailCollapsed (sh_storage s) else True)"

definition drawerVisible :: "shell \<Rightarrow> bool" where
  "drawerVisible s \<longleftrightarrow> sh_drawerOpen s \<and> sh_mode s \<noteq> Mode_expanded"

definition railInPlace :: "shell \<Rightarrow> bool" where
  "railInPlace s \<longleftrightarrow> sh_mode s \<noteq> Mode_drawer \<and> \<not> collapsed s"

definition railInDrawer :: "shell \<Rightarrow> bool" where
  "railInDrawer s \<longleftrightarrow> sh_drawerRequested s \<and> drawerVisible s"

text \<open>
  The strip's button exists in the compact mode only; the header's is hidden from the compact mode
  up. A click inside the drawer closes it when it lands on a link.
\<close>

datatype shell_event =
    Sh_resize rail_mode
  | Sh_open drawer_trigger
  | Sh_drawer_change bool
  | Sh_drawer_click bool
  | Sh_toggle
  | Sh_commit

fun shell_step :: "shell \<Rightarrow> shell_event \<Rightarrow> shell" where
  "shell_step s (Sh_resize mode) = s\<lparr>sh_mode := mode\<rparr>"
| "shell_step s (Sh_open trigger) =
     (if sh_mode s = (case trigger of Header_button \<Rightarrow> Mode_drawer | Strip_button \<Rightarrow> Mode_compact)
      then s\<lparr>sh_trigger := Some trigger, sh_drawerRequested := True, sh_drawerOpen := True\<rparr>
      else s)"
| "shell_step s (Sh_drawer_change open) =
     (if drawerVisible s then s\<lparr>sh_drawerOpen := open\<rparr> else s)"
| "shell_step s (Sh_drawer_click onLink) =
     (if drawerVisible s \<and> onLink then s\<lparr>sh_drawerOpen := False\<rparr> else s)"
| "shell_step s Sh_toggle =
     (if sh_mode s = Mode_expanded
      then s\<lparr>sh_storage := toggleCollapsed (sh_storage s)\<rparr> else s)"
| "shell_step s Sh_commit =
     (let visible = drawerVisible s
      in (if sh_wasOpen s \<and> \<not> visible
          then s\<lparr>sh_focused := sh_focused s @ (case sh_trigger s of Some t \<Rightarrow> [t] | None \<Rightarrow> [])\<rparr>
          else s)\<lparr>sh_wasOpen := visible\<rparr>)"

section \<open>The theme\<close>

datatype theme_preference = Pref_light | Pref_dark | Pref_system

fun pref_text :: "theme_preference \<Rightarrow> string" where
  "pref_text Pref_light = ''light''"
| "pref_text Pref_dark = ''dark''"
| "pref_text Pref_system = ''system''"

definition THEME_PREFERENCES :: "theme_preference list" where
  "THEME_PREFERENCES = [Pref_light, Pref_dark, Pref_system]"

definition isThemePreference :: "string option \<Rightarrow> theme_preference option" where
  "isThemePreference x = find (\<lambda>p. x = Some (pref_text p)) THEME_PREFERENCES"

text \<open>
  The document: its two attributes, the key's storage, whether the system is dark, the listener of
  the script, the control's effect (its last dependency, and whether its listener is on), the radio
  that was clicked before the control was there, and whether it is there.
\<close>

record theme_page =
  tp_theme :: "theme_preference option"
  tp_preference :: "string option"
  tp_storage :: browser_storage
  tp_dark :: bool
  tp_script_listens :: bool
  tp_effect :: "theme_preference option"
  tp_toggle_listens :: bool
  tp_clicked :: "string option"
  tp_hydrated :: bool

definition theme_load :: "browser_storage \<Rightarrow> bool \<Rightarrow> theme_page" where
  "theme_load b dark =
     \<lparr>tp_theme = None, tp_preference = None, tp_storage = b, tp_dark = dark,
      tp_script_listens = False, tp_effect = None, tp_toggle_listens = False,
      tp_clicked = None, tp_hydrated = False\<rparr>"

definition resolve_theme :: "theme_page \<Rightarrow> theme_preference \<Rightarrow> theme_preference" where
  "resolve_theme d p =
     (if p \<noteq> Pref_system then p else if tp_dark d then Pref_dark else Pref_light)"

text \<open>The script: a read that throws leaves the document as it is.\<close>

definition themeInitScript :: "theme_page \<Rightarrow> theme_page" where
  "themeInitScript d =
     (case getItem (tp_storage d) of
        None \<Rightarrow> d
      | Some s \<Rightarrow>
          (let p = (case isThemePreference s of Some p \<Rightarrow> p | None \<Rightarrow> Pref_system)
           in d\<lparr>tp_theme := Some (resolve_theme d p), tp_preference := Some (pref_text p),
                tp_script_listens := (p = Pref_system)\<rparr>))"

definition readThemePreference :: "theme_page \<Rightarrow> theme_preference" where
  "readThemePreference d =
     (case isThemePreference (tp_preference d) of Some p \<Rightarrow> p | None \<Rightarrow> Pref_system)"

definition setThemePreference :: "theme_preference \<Rightarrow> theme_page \<Rightarrow> theme_page" where
  "setThemePreference p d =
     d\<lparr>tp_theme := Some (resolve_theme d p), tp_preference := Some (pref_text p),
       tp_storage := setItem (pref_text p) (tp_storage d)\<rparr>"

text \<open>The effect that follows the system, run when the rendered preference changed; its listener is
  the \<open>apply\<close> of the run.\<close>

definition system_effect :: "theme_preference \<Rightarrow> theme_page \<Rightarrow> theme_page" where
  "system_effect rendered d =
     (if tp_effect d = Some rendered then d
      else if rendered = Pref_system
      then d\<lparr>tp_effect := Some rendered, tp_theme := Some (resolve_theme d Pref_system),
             tp_toggle_listens := True\<rparr>
      else d\<lparr>tp_effect := Some rendered, tp_toggle_listens := False\<rparr>)"

text \<open>The effect of the first commit: a choice made before the control was there.\<close>

definition adopt_effect :: "theme_page \<Rightarrow> theme_page" where
  "adopt_effect d =
     (case isThemePreference (tp_clicked d) of
        None \<Rightarrow> d
      | Some chosen \<Rightarrow>
          if chosen = readThemePreference d \<or> chosen = Pref_system then d
          else setThemePreference chosen d)"

text \<open>The first commit renders the server's preference, every later one the document's.\<close>

datatype theme_event =
    Th_click theme_preference
  | Th_hydrate
  | Th_commit
  | Th_choose theme_preference
  | Th_system bool

fun theme_step :: "theme_page \<Rightarrow> theme_event \<Rightarrow> theme_page" where
  "theme_step d (Th_click p) =
     (if tp_hydrated d then d else d\<lparr>tp_clicked := Some (pref_text p)\<rparr>)"
| "theme_step d Th_hydrate =
     (if tp_hydrated d then d
      else (adopt_effect (system_effect Pref_system d))\<lparr>tp_hydrated := True\<rparr>)"
| "theme_step d Th_commit =
     (if tp_hydrated d then system_effect (readThemePreference d) d else d)"
| "theme_step d (Th_choose p) = (if tp_hydrated d then setThemePreference p d else d)"
| "theme_step d (Th_system dark) =
     (let d1 = d\<lparr>tp_dark := dark\<rparr>
      in if tp_dark d \<noteq> dark \<and> (tp_script_listens d \<or> tp_toggle_listens d)
         then d1\<lparr>tp_theme := Some (resolve_theme d1 Pref_system)\<rparr> else d1)"

section \<open>Laws of the theme\<close>

lemma isThemePreference_text [simp]: "isThemePreference (Some (pref_text p)) = Some p"
  by (cases p) (simp_all add: isThemePreference_def THEME_PREFERENCES_def)

lemmas isThemePreference_words [simp] =
  isThemePreference_text [of Pref_light, simplified] isThemePreference_text [of Pref_dark, simplified]
  isThemePreference_text [of Pref_system, simplified]

lemma isThemePreference_None [simp]: "isThemePreference None = None"
  by (simp add: isThemePreference_def THEME_PREFERENCES_def)

lemma resolve_fields [simp]:
  "resolve_theme (d\<lparr>tp_theme := t\<rparr>) p = resolve_theme d p"
  "resolve_theme (d\<lparr>tp_preference := q\<rparr>) p = resolve_theme d p"
  by (simp_all add: resolve_theme_def)

lemma read_set [simp]: "readThemePreference (setThemePreference p d) = p"
  by (simp add: readThemePreference_def setThemePreference_def)

lemmas theme_defs = themeInitScript_def system_effect_def adopt_effect_def setThemePreference_def
  readThemePreference_def resolve_theme_def theme_load_def getItem_def setItem_def Let_def

text \<open>While the listener of the script is on, the system's theme wins on its every change.\<close>

lemma script_listener_stays:
  "tp_script_listens d \<Longrightarrow> tp_script_listens (runs theme_step d es)"
proof (induction es arbitrary: d)
  case (Cons e es)
  have "tp_script_listens (theme_step d e)"
    using Cons.prems by (cases e) (auto simp: theme_defs split: option.split)
  then show ?case using Cons.IH by simp
qed simp

section \<open>Properties\<close>

text \<open>
  A choice of theme lasts: wherever storage can be written and read, what was chosen last is
  what the next load's script paints and what its control shows, before anything else runs; where
  storage throws, the document is left to the stylesheet.
\<close>

lemma theme_choice_roundtrip:
  "let d = setThemePreference p page;
       next_load = themeInitScript (theme_load (tp_storage d) dark)
   in (if bs_unreadable (tp_storage page)
       then tp_theme next_load = None \<and> tp_preference next_load = None
       else \<not> bs_unwritable (tp_storage page) \<longrightarrow>
         readThemePreference next_load = p
         \<and> tp_theme next_load = Some (resolve_theme next_load p)
         \<and> tp_script_listens next_load = (p = Pref_system))"
  by (simp add: theme_defs)

lemma theme_choice_roundtrip_witness:
  "readThemePreference (themeInitScript (theme_load (tp_storage (setThemePreference Pref_dark
      (theme_load \<lparr>bs_item = None, bs_unreadable = False, bs_unwritable = False\<rparr> False))) False)) = Pref_dark"
  using theme_choice_roundtrip [of Pref_dark
      "theme_load \<lparr>bs_item = None, bs_unreadable = False, bs_unwritable = False\<rparr> False" False]
  by (simp add: theme_load_def Let_def)

text \<open>
  An explicit theme does not hold. A stored light or dark is painted by the script and painted
  over with the system's theme as soon as the control is there, and stays so although the control
  shows the stored one; and on a page that was loaded under the system preference, a theme
  chosen explicitly is replaced by the system's on the next change of it, while the preference
  still names the choice: the listener of the script is never taken off.
\<close>

lemma explicit_theme_is_overwritten:
  fixes b :: browser_storage and dark :: bool
  assumes "\<not> bs_unreadable b"
  defines "loaded \<equiv> themeInitScript (theme_load b dark)"
  defines "shown \<equiv> runs theme_step loaded [Th_hydrate, Th_commit]"
  shows "(case isThemePreference (bs_item b) of
      Some p \<Rightarrow>
        if p = Pref_system then True
        else tp_theme loaded = Some p \<and> readThemePreference shown = p
          \<and> tp_theme shown = Some (if dark then Pref_dark else Pref_light)
    | None \<Rightarrow> tp_script_listens loaded)
   \<and> (tp_script_listens loaded \<longrightarrow>
       (let d = runs theme_step loaded (es @ [Th_choose p, Th_commit]);
            d1 = theme_step d (Th_system (\<not> tp_dark d))
        in tp_hydrated (runs theme_step loaded es) \<longrightarrow>
           readThemePreference d1 = p
         \<and> tp_theme d1 = Some (if tp_dark d then Pref_light else Pref_dark)))"
proof (intro conjI impI)
  show "case isThemePreference (bs_item b) of
      Some p \<Rightarrow>
        if p = Pref_system then True
        else tp_theme loaded = Some p \<and> readThemePreference shown = p
          \<and> tp_theme shown = Some (if dark then Pref_dark else Pref_light)
    | None \<Rightarrow> tp_script_listens loaded"
    using assms(1)
    by (auto simp: shown_def loaded_def theme_defs split: option.split)
next
  assume "tp_script_listens loaded"
  then have on: "tp_script_listens (runs theme_step loaded es)" by (rule script_listener_stays)
  show "let d = runs theme_step loaded (es @ [Th_choose p, Th_commit]);
            d1 = theme_step d (Th_system (\<not> tp_dark d))
        in tp_hydrated (runs theme_step loaded es) \<longrightarrow>
           readThemePreference d1 = p
         \<and> tp_theme d1 = Some (if tp_dark d then Pref_light else Pref_dark)"
    using on by (auto simp: theme_defs split: option.split)
qed

lemma explicit_theme_is_overwritten_witness:
  "let b = \<lparr>bs_item = None, bs_unreadable = False, bs_unwritable = False\<rparr>;
       loaded = themeInitScript (theme_load b False);
       d = runs theme_step loaded ([Th_hydrate, Th_commit] @ [Th_choose Pref_light, Th_commit])
   in tp_theme (theme_step d (Th_system True)) = Some Pref_dark
    \<and> readThemePreference (theme_step d (Th_system True)) = Pref_light"
proof -
  let ?b = "\<lparr>bs_item = None, bs_unreadable = False, bs_unwritable = False\<rparr>"
  let ?l = "themeInitScript (theme_load ?b False)"
  have "tp_script_listens ?l" "tp_hydrated (runs theme_step ?l [Th_hydrate, Th_commit])"
    "\<not> tp_dark (runs theme_step ?l ([Th_hydrate, Th_commit] @ [Th_choose Pref_light, Th_commit]))"
    by (simp_all add: theme_defs)
  then show ?thesis
    using explicit_theme_is_overwritten [of ?b False "[Th_hydrate, Th_commit]" Pref_light]
    by (simp add: Let_def del: runs_Cons runs_append theme_step.simps)
qed

section \<open>Laws of the rail\<close>

definition shell_inv :: "shell \<Rightarrow> bool" where
  "shell_inv s \<longleftrightarrow>
     (sh_drawerOpen s \<longrightarrow> sh_drawerRequested s \<and> sh_trigger s \<noteq> None)
   \<and> (sh_wasOpen s \<longrightarrow> sh_trigger s \<noteq> None)"

lemma shell_inv_step: "shell_inv s \<Longrightarrow> shell_inv (shell_step s e)"
  by (cases e) (auto simp: shell_inv_def drawerVisible_def Let_def split: option.splits)

interpretation shell: reducer shell_step "shell_init mode b" shell_inv for mode b
  by unfold_locales (simp add: shell_inv_def shell_init_def, rule shell_inv_step)

text \<open>
  The list of threads is mounted at most once, in the rail or in the drawer, at every width
  and over every order of resizes, presses and commits, and it is mounted exactly in an expanded
  rail that is not collapsed or in a visible drawer; whenever a commit finds the drawer gone the
  focus goes to the control that opened it.
\<close>

lemma one_list_of_threads:
  "let s = runs shell_step (shell_init mode b) es
   in \<not> (railInPlace s \<and> railInDrawer s)
    \<and> (railInPlace s \<longleftrightarrow> sh_mode s = Mode_expanded \<and> \<not> readRailCollapsed (sh_storage s))
    \<and> (railInDrawer s \<longleftrightarrow> drawerVisible s)
    \<and> length (sh_focused (shell_step s Sh_commit))
        = length (sh_focused s) + (if sh_wasOpen s \<and> \<not> drawerVisible s then 1 else 0)"
proof -
  let ?s = "runs shell_step (shell_init mode b) es"
  have "shell_inv ?s" by (rule shell.inv_from_init)
  then show ?thesis
    by (auto simp: shell_inv_def railInPlace_def railInDrawer_def drawerVisible_def collapsed_def
        Let_def)
qed

text \<open>
  The collapse control: where storage works each press flips the rail. Where reading throws, or
  writing does and nothing is stored, no number of presses ever collapses it, because the rail
  reads the preference back from the storage that could not take it.
\<close>

lemma collapse_needs_storage:
  "readRailCollapsed ((toggleCollapsed ^^ n) b) =
     (if bs_unreadable b then False
      else if bs_unwritable b then bs_item b = Some ''1''
      else if n = 0 then bs_item b = Some ''1''
      else (bs_item b = Some ''1'') = even n)"
proof (cases "bs_unreadable b \<or> bs_unwritable b")
  case True
  have "let c = (toggleCollapsed ^^ n) b in
      bs_unreadable c = bs_unreadable b \<and> bs_unwritable c = bs_unwritable b
      \<and> (bs_unwritable b \<longrightarrow> bs_item c = bs_item b)"
    by (induction n) (simp_all add: toggleCollapsed_def writeRailCollapsed_def setItem_def Let_def)
  then show ?thesis
    using True by (auto simp: readRailCollapsed_def getItem_def Let_def)
next
  case False
  have "bs_unreadable ((toggleCollapsed ^^ n) b) = False
      \<and> bs_unwritable ((toggleCollapsed ^^ n) b) = False
      \<and> readRailCollapsed ((toggleCollapsed ^^ n) b) = ((bs_item b = Some ''1'') = even n)"
    using False
    by (induction n) (auto simp: toggleCollapsed_def writeRailCollapsed_def setItem_def
        readRailCollapsed_def getItem_def)
  then show ?thesis using False by simp
qed

text \<open>A drawer that was open when the window grew is open again when it shrinks; and a click inside
  it that lands on no link leaves it over the page.\<close>

lemma drawer_comes_back:
  "drawerVisible (runs shell_step (shell_init Mode_drawer b)
     [Sh_open Header_button, Sh_commit, Sh_resize Mode_expanded, Sh_commit, Sh_resize Mode_drawer])"
  "drawerVisible (runs shell_step (shell_init Mode_drawer b)
     [Sh_open Header_button, Sh_commit, Sh_drawer_click False])"
  by (simp_all add: shell_init_def drawerVisible_def Let_def)

end
