(* ===== verification/Report_View.thy ===== *)
theory Report_View
  imports Copy_Errors Thread_View Interfaces
begin

text \<open>
  The briefing on screen: \<open>web/components/patterns/ReportReader.tsx\<close> (the headings read off what was
  rendered, the ordinals of tables and code blocks, what is shown of a run that failed),
  \<open>SectionRail.tsx\<close>, the copy of \<open>web/lib/copy/report.ts\<close>, and the export control of
  \<open>ExportDisclosure.tsx\<close> with its keys and focus. The rendered \<open>h2\<close> and \<open>h3\<close> are a list of levels and
  texts in document order; the elements' own ids do not enter.
\<close>

section \<open>Copy\<close>

definition tableRegionLabel :: "int \<Rightarrow> string" where
  "tableRegionLabel position = ''Table '' @ show_int (max 1 position) @ '' in this briefing''"

definition codeRegionLabel :: "int \<Rightarrow> string" where
  "codeRegionLabel position = ''Code block '' @ show_int (max 1 position) @ '' in this briefing''"

section \<open>Headings\<close>

definition slug_char :: "char \<Rightarrow> bool" where
  "slug_char c \<longleftrightarrow> (let n = of_char c :: nat in 97 \<le> n \<and> n \<le> 122 \<or> 48 \<le> n \<and> n \<le> 57)"

text \<open>Every run of other characters becomes one dash.\<close>

fun dashed :: "bool \<Rightarrow> string \<Rightarrow> string" where
  "dashed inRun [] = []"
| "dashed inRun (c # cs) =
     (if slug_char c then c # dashed False cs
      else if inRun then dashed True cs else CHR ''-'' # dashed True cs)"

definition trim_dashes :: "string \<Rightarrow> string" where
  "trim_dashes s =
     rev (dropWhile (\<lambda>c. c = CHR ''-'') (rev (dropWhile (\<lambda>c. c = CHR ''-'') s)))"

definition headingSlug :: "string \<Rightarrow> string" where
  "headingSlug text =
     (let slug = trim_dashes (dashed False (to_lower text))
      in if slug = [] then ''section'' else slug)"

record report_heading =
  rh_id :: string
  rh_text :: string
  rh_level :: nat

text \<open>The id of the \<open>seen\<close>-th heading with this slug.\<close>

definition heading_id :: "string \<Rightarrow> nat \<Rightarrow> string" where
  "heading_id base seen = (if seen = 1 then base else base @ ''-'' @ show_nat seen)"

fun read_headings :: "(string \<Rightarrow> nat) \<Rightarrow> (nat \<times> string) list \<Rightarrow> report_heading list" where
  "read_headings used [] = []"
| "read_headings used ((level, textContent) # elements) =
     (let text = trim textContent
      in if text = [] then read_headings used elements
         else let base = headingSlug text; seen = used base + 1
              in \<lparr>rh_id = heading_id base seen, rh_text = text, rh_level = level\<rparr>
                 # read_headings (used(base := seen)) elements)"

definition readHeadings :: "(nat \<times> string) list \<Rightarrow> report_heading list" where
  "readHeadings elements = read_headings (\<lambda>_. 0) elements"

definition headingKey :: "report_heading list \<Rightarrow> string" where
  "headingKey headings =
     join [CHR 0x0A] (map (\<lambda>h. show_nat (rh_level h) @ '':'' @ rh_id h @ '':'' @ rh_text h) headings)"

text \<open>The layout effect: the list on screen is replaced only when its key changed.\<close>

definition next_headings :: "report_heading list \<Rightarrow> (nat \<times> string) list option \<Rightarrow> report_heading list" where
  "next_headings previous rendered =
     (let next = (case rendered of None \<Rightarrow> [] | Some elements \<Rightarrow> readHeadings elements)
      in if headingKey previous = headingKey next then previous else next)"

text \<open>The rail's links: the fragment, the text and whether it is the current one; none, no rail.\<close>

definition SectionRail :: "report_heading list \<Rightarrow> string option \<Rightarrow> (string \<times> string \<times> bool) list option" where
  "SectionRail headings activeId =
     (if headings = [] then None
      else Some (map (\<lambda>h. (CHR 0x23 # rh_id h, rh_text h, activeId = Some (rh_id h))) headings))"

section \<open>Ordinals\<close>

text \<open>One call of the counter for a rendered node.\<close>

definition ordinal_call :: "('n \<times> nat) list \<Rightarrow> 'n \<Rightarrow> nat \<times> ('n \<times> nat) list" where
  "ordinal_call seen node =
     (case map_of seen node of
        Some n \<Rightarrow> (n, seen)
      | None \<Rightarrow> (length seen + 1, seen @ [(node, length seen + 1)]))"

fun ordinals :: "('n \<times> nat) list \<Rightarrow> 'n list \<Rightarrow> nat list" where
  "ordinals seen [] = []"
| "ordinals seen (node # nodes) =
     (let (n, seen') = ordinal_call seen node in n # ordinals seen' nodes)"

section \<open>The reader\<close>

datatype reader_body = Body_note string | Body_loading | Body_article string

record reader_banner =
  rb_word :: "string option"
  rb_sentence :: string
  rb_recovery :: "string list"
  rb_evidence :: "raw_evidence_row list"
  rb_note :: "string option"

record reader_view =
  rd_partial :: bool
  rd_banner :: "reader_banner option"
  rd_body :: reader_body

definition REPORT_partial :: string where
  "REPORT_partial = ''Partial briefing from a run that failed.''"

definition REPORT_partialDetail :: string where
  "REPORT_partialDetail = ''This is what the run had written when it stopped. ''
     @ ''It is kept because it was already paid for.''"

definition ReportReader :: "string \<Rightarrow> bool \<Rightarrow> briefing_failure option \<Rightarrow> reader_view" where
  "ReportReader markdown renderer fault =
     (let body = trim markdown; hasBriefing = (body \<noteq> []);
          described = map_option (\<lambda>f. describeErrorType (bf_errorType f) (bf_error f)) fault
      in \<lparr>rd_partial = (hasBriefing \<and> described \<noteq> None),
          rd_banner = (case (described, fault) of
              (Some d, Some f) \<Rightarrow> Some
                \<lparr>rb_word = (if hasBriefing then Some ''Partial'' else None),
                 rb_sentence = (if hasBriefing then REPORT_partial else ec_sentence d),
                 rb_recovery = (if hasBriefing then [ec_sentence d, ec_recovery d]
                                else [ec_recovery d]),
                 rb_evidence = rawErrorEvidence (bf_errorType f) (bf_error f),
                 rb_note = (if hasBriefing then Some REPORT_partialDetail else None)\<rparr>
            | _ \<Rightarrow> None),
          rd_body = (if \<not> hasBriefing
              then Body_note (if described = None
                then ''No briefing yet. One is written when the run finishes.''
                else ''This run stopped before a briefing was written.'')
              else if \<not> renderer then Body_loading else Body_article body)\<rparr>)"

section \<open>Exporting\<close>

datatype export_format = Format_md | Format_pdf | Format_docx

definition EXPORT_FORMATS :: "export_format list" where
  "EXPORT_FORMATS = [Format_md, Format_pdf, Format_docx]"

fun format_text :: "export_format \<Rightarrow> string" where
  "format_text Format_md = ''md''"
| "format_text Format_pdf = ''pdf''"
| "format_text Format_docx = ''docx''"

definition EXPORT_PROXY_BASE :: string where
  "EXPORT_PROXY_BASE = ''/api''"

definition exportHref :: "string \<Rightarrow> export_format \<Rightarrow> string" where
  "exportHref job f =
     EXPORT_PROXY_BASE @ ''/research/'' @ encodeURIComponent job @ ''/export?format='' @ format_text f"

text \<open>What is rendered: the refusal, nothing, or the control with its links.\<close>

datatype export_view = Export_refusal | Export_absent | Export_control "string list"

definition ExportDisclosure :: "string \<Rightarrow> bool \<Rightarrow> bool \<Rightarrow> export_view" where
  "ExportDisclosure job hasBriefing refused =
     (if refused then Export_refusal
      else if \<not> hasBriefing then Export_absent
      else Export_control (map (exportHref job) EXPORT_FORMATS))"

datatype export_focus = On_trigger | On_link nat | On_nothing

text \<open>The control: whether it is open, where the focus is, what its caller was told.\<close>

record export_control =
  xp_open :: bool
  xp_focus :: export_focus
  xp_told :: "bool list"

definition change_open :: "bool \<Rightarrow> export_control \<Rightarrow> export_control" where
  "change_open next x = x\<lparr>xp_open := next, xp_told := xp_told x @ [next]\<rparr>"

definition arrow_key :: "bool \<Rightarrow> export_control \<Rightarrow> export_control" where
  "arrow_key down x =
     (let links = length EXPORT_FORMATS;
          entered = (if down then On_link 0 else On_link (links - 1))
      in if links = 0 then x
         else if \<not> xp_open x then (change_open True x)\<lparr>xp_focus := entered\<rparr>
         else case xp_focus x of
                On_link current \<Rightarrow>
                  x\<lparr>xp_focus := On_link (nat ((int current + (if down then 1 else - 1) + int links)
                                        mod int links))\<rparr>
              | _ \<Rightarrow> x\<lparr>xp_focus := entered\<rparr>)"

text \<open>A key reaches the control while the focus is in it; a link can take the focus while the panel
  is open.\<close>

datatype export_event = Key_escape | Key_arrow bool | Press_trigger | Focus_moves export_focus

fun export_step :: "export_control \<Rightarrow> export_event \<Rightarrow> export_control" where
  "export_step x Key_escape =
     (if xp_focus x \<noteq> On_nothing \<and> xp_open x
      then (change_open False x)\<lparr>xp_focus := On_trigger\<rparr> else x)"
| "export_step x (Key_arrow down) = (if xp_focus x \<noteq> On_nothing then arrow_key down x else x)"
| "export_step x Press_trigger = (change_open (\<not> xp_open x) x)\<lparr>xp_focus := On_trigger\<rparr>"
| "export_step x (Focus_moves f) =
     (case f of
        On_link i \<Rightarrow> if xp_open x \<and> i < length EXPORT_FORMATS then x\<lparr>xp_focus := f\<rparr> else x
      | _ \<Rightarrow> x\<lparr>xp_focus := f\<rparr>)"

definition export_init :: "bool \<Rightarrow> export_control" where
  "export_init defaultOpen = \<lparr>xp_open = defaultOpen, xp_focus = On_nothing, xp_told = []\<rparr>"

section \<open>Laws of the headings\<close>

text \<open>The slugs of the headings, in order, and the slug and count each id is made of.\<close>

definition slugs :: "(nat \<times> string) list \<Rightarrow> string list" where
  "slugs elements = map headingSlug (filter (\<lambda>t. t \<noteq> []) (map (trim \<circ> snd) elements))"

fun numbered :: "(string \<Rightarrow> nat) \<Rightarrow> string list \<Rightarrow> (string \<times> nat) list" where
  "numbered used [] = []"
| "numbered used (b # bs) = (b, used b + 1) # numbered (used(b := used b + 1)) bs"

lemma ids_numbered:
  "map rh_id (read_headings used elements) = map (\<lambda>(b, n). heading_id b n) (numbered used (slugs elements))"
proof (induction elements arbitrary: used)
  case (Cons e elements)
  then show ?case
    by (cases e) (auto simp: slugs_def Let_def simp del: fun_upd_apply)
qed (simp add: slugs_def)

lemma set_numbered:
  "set (numbered used bs) = {(b, n). used b < n \<and> n \<le> used b + count_list bs b}"
proof (induction bs arbitrary: used)
  case (Cons b bs)
  show ?case by (simp only: numbered.simps list.set Cons) (auto split: if_splits)
qed simp

lemma distinct_numbered: "distinct (numbered used bs)"
proof (induction bs arbitrary: used)
  case (Cons b bs)
  show ?case by (simp only: numbered.simps distinct.simps Cons set_numbered) auto
qed simp

lemma dash_free_show_nat: "CHR ''-'' \<notin> set (show_nat n)"
  using digits_show_nat [of "CHR ''-''" n] by (auto simp: digit_char_def)

lemma show_nat_inj: "show_nat m = show_nat n \<Longrightarrow> m = n"
  by (metis digits_value_show_nat)

lemma dash_split:
  assumes "a @ CHR ''-'' # x = b @ CHR ''-'' # y" "CHR ''-'' \<notin> set x" "CHR ''-'' \<notin> set y"
  shows "a = b \<and> x = y"
  using assms(1)
proof (induction a arbitrary: b)
  case Nil
  then show ?case using assms(2) by (cases b) auto
next
  case (Cons c a)
  show ?case
  proof (cases b)
    case Nil
    then have "y = a @ CHR ''-'' # x" using Cons.prems by simp
    then show ?thesis using assms(3) by simp
  next
    case (Cons d b')
    then show ?thesis using Cons.IH Cons.prems by simp
  qed
qed

lemma heading_id_clash:
  assumes "1 \<le> m" "1 \<le> n" "(a, m) \<noteq> (b, n)" "heading_id a m = heading_id b n"
  shows "2 \<le> m \<and> n = 1 \<and> b = a @ ''-'' @ show_nat m \<or> 2 \<le> n \<and> m = 1 \<and> a = b @ ''-'' @ show_nat n"
proof (cases "m = 1 \<or> n = 1")
  case True
  then show ?thesis using assms by (auto simp: heading_id_def split: if_splits)
next
  case False
  then have "a @ CHR ''-'' # show_nat m = b @ CHR ''-'' # show_nat n"
    using assms(4) by (simp add: heading_id_def del: show_nat.simps)
  then have "a = b \<and> show_nat m = show_nat n" using dash_split dash_free_show_nat by blast
  then show ?thesis using assms(3) show_nat_inj by blast
qed

lemma rendered_texts:
  "map rh_text (readHeadings elements) = filter (\<lambda>t. t \<noteq> []) (map (trim \<circ> snd) elements)"
proof -
  have "map rh_text (read_headings used els) = filter (\<lambda>t. t \<noteq> []) (map (trim \<circ> snd) els)" for used els
  proof (induction els arbitrary: used)
    case (Cons e els)
    then show ?case by (cases e) (auto simp: Let_def simp del: fun_upd_apply)
  qed simp
  then show ?thesis by (simp add: readHeadings_def)
qed

text \<open>Two of the ids clash exactly when a slug is another slug with a number used for it.\<close>

lemma ids_injective:
  "inj_on (\<lambda>(b, n). heading_id b n) {(b, n). 0 < n \<and> n \<le> count_list bs b}
     \<longleftrightarrow> \<not> (\<exists>b n. 2 \<le> n \<and> n \<le> count_list bs b \<and> b @ ''-'' @ show_nat n \<in> set bs)"
  (is "inj_on ?f ?S \<longleftrightarrow> \<not> ?clash")
proof
  assume inj: "inj_on ?f ?S"
  show "\<not> ?clash"
  proof
    assume ?clash
    then obtain b n where b: "2 \<le> n" "n \<le> count_list bs b" "b @ ''-'' @ show_nat n \<in> set bs" by blast
    then have "(b, n) \<in> ?S" "(b @ ''-'' @ show_nat n, 1) \<in> ?S"
      by (auto simp: Suc_le_eq count_list_0_iff simp flip: neq0_conv)
    moreover have "?f (b, n) = ?f (b @ ''-'' @ show_nat n, 1)"
      using b(1) by (simp add: heading_id_def)
    ultimately have "(b, n) = (b @ ''-'' @ show_nat n, 1 :: nat)" using inj by (blast dest: inj_onD)
    then show False by simp
  qed
next
  assume free: "\<not> ?clash"
  show "inj_on ?f ?S"
  proof (rule inj_onI)
    fix x y assume x: "x \<in> ?S" and y: "y \<in> ?S" and same: "?f x = ?f y"
    obtain a m b n where xy: "x = (a, m)" "y = (b, n)" by (cases x; cases y)
    have here: "c \<in> set bs" if "(c, 1) \<in> ?S" for c
      using that by (auto intro: ccontr simp: count_list_0_iff)
    show "x = y"
    proof (rule ccontr)
      assume "x \<noteq> y"
      then have "(a, m) \<noteq> (b, n)" "heading_id a m = heading_id b n" "1 \<le> m" "1 \<le> n"
        using same x y by (simp_all add: xy)
      then consider "2 \<le> m" "n = 1" "b = a @ ''-'' @ show_nat m" | "2 \<le> n" "m = 1" "a = b @ ''-'' @ show_nat n"
        using heading_id_clash by blast
      then show False
      proof cases
        case 1
        then have "b \<in> set bs" "m \<le> count_list bs a" using here x y by (simp_all add: xy)
        then show False using free 1 by blast
      next
        case 2
        then have "a \<in> set bs" "n \<le> count_list bs b" using here x y by (simp_all add: xy)
        then show False using free 2 by blast
      qed
    qed
  qed
qed

section \<open>Properties\<close>

text \<open>
  C34. The fragments of the headings. Every heading with a text is listed in document order with that
  text; the ids are the slugs, the \<open>n\<close>-th heading of a slug with the suffix \<open>n\<close> from the second
  on; and they are unique exactly when no heading's own slug is the slug of an earlier kind
  with a number that is used for it: two sections called \<open>A\<close> and one called \<open>A 2\<close> share an id.
\<close>

theorem heading_ids_unique:
  "map rh_text (readHeadings elements) = filter (\<lambda>t. t \<noteq> []) (map (trim \<circ> snd) elements)
   \<and> map rh_id (readHeadings elements)
       = map (\<lambda>(b, n). heading_id b n) (numbered (\<lambda>_. 0) (slugs elements))
   \<and> (distinct (map rh_id (readHeadings elements)) \<longleftrightarrow>
       \<not> (\<exists>b n. 2 \<le> n \<and> n \<le> count_list (slugs elements) b
              \<and> b @ ''-'' @ show_nat n \<in> set (slugs elements)))"
proof -
  have ids: "map rh_id (readHeadings elements)
      = map (\<lambda>(b, n). heading_id b n) (numbered (\<lambda>_. 0) (slugs elements))"
    by (simp add: readHeadings_def ids_numbered)
  have "set (numbered (\<lambda>_. 0) (slugs elements))
      = {(b, n). 0 < n \<and> n \<le> count_list (slugs elements) b}"
    by (simp add: set_numbered)
  then have "distinct (map rh_id (readHeadings elements)) \<longleftrightarrow>
      inj_on (\<lambda>(b, n). heading_id b n) {(b, n). 0 < n \<and> n \<le> count_list (slugs elements) b}"
    by (simp only: ids distinct_map distinct_numbered simp_thms)
  then show ?thesis by (simp only: rendered_texts ids ids_injective simp_thms)
qed

lemma three_sections:
  "map rh_id (readHeadings [(2, ''A''), (2, ''A''), (2, ''A 2'')]) = [''a'', ''a-2'', ''a-2'']"
  by code_simp

text \<open>
  A counter called twice for every node, as a doubled render does, answers what it answers once, and
  the nodes of a list without repetition get 1, 2, and so on.
\<close>

lemma ordinals_once: "ordinals seen (node # node # nodes) = (let os = ordinals seen (node # nodes)
    in hd os # os)"
proof (cases "map_of seen node")
  case None
  then have "map_of (seen @ [(node, length seen + 1)]) node = Some (length seen + 1)"
    by (simp add: map_add_def)
  then show ?thesis using None by (simp add: ordinal_call_def Let_def)
next
  case (Some n)
  then show ?thesis by (simp add: ordinal_call_def Let_def)
qed

lemma ordinals_distinct:
  "distinct nodes \<Longrightarrow> set nodes \<inter> fst ` set seen = {} \<Longrightarrow>
     ordinals seen nodes = [length seen + 1..<length seen + 1 + length nodes]"
proof (induction nodes arbitrary: seen)
  case (Cons node nodes)
  then have "map_of seen node = None" by (simp add: map_of_eq_None_iff)
  moreover have "set nodes \<inter> fst ` set (seen @ [(node, length seen + 1)]) = {}"
    using Cons.prems by auto
  moreover have "[Suc (length seen)..<Suc (Suc (length seen + length nodes))]
      = Suc (length seen) # [Suc (Suc (length seen))..<Suc (Suc (length seen + length nodes))]"
    by (rule upt_conv_Cons) simp
  ultimately show ?case
    using Cons.IH [of "seen @ [(node, length seen + 1)]"] Cons.prems
    by (simp add: ordinal_call_def Let_def)
qed simp

text \<open>
  A briefing that was paid for is shown: whatever the run came to, a text that is not blank is
  the article as soon as the renderer is there; what a failed run says stands above it; a
  failure is announced exactly when there is one, with what the backend sent as its evidence;
  and the rail of sections is there exactly when something was rendered as a heading.
\<close>

lemma briefing_is_shown:
  "(rd_body (ReportReader markdown renderer fault) = Body_article (trim markdown)
       \<longleftrightarrow> trim markdown \<noteq> [] \<and> renderer)
   \<and> (rd_body (ReportReader markdown renderer fault) = Body_loading
       \<longleftrightarrow> trim markdown \<noteq> [] \<and> \<not> renderer)
   \<and> (rd_banner (ReportReader markdown renderer fault) = None \<longleftrightarrow> fault = None)
   \<and> (rd_partial (ReportReader markdown renderer fault) \<longleftrightarrow> trim markdown \<noteq> [] \<and> fault \<noteq> None)
   \<and> (case (fault, rd_banner (ReportReader markdown renderer fault)) of
        (Some f, Some b) \<Rightarrow>
          ec_sentence (describeErrorType (bf_errorType f) (bf_error f)) \<in> set (rb_sentence b # rb_recovery b)
          \<and> rb_evidence b = rawErrorEvidence (bf_errorType f) (bf_error f)
      | _ \<Rightarrow> fault = None)
   \<and> (SectionRail (readHeadings elements) activeId = None \<longleftrightarrow> slugs elements = [])"
proof -
  have "readHeadings elements = [] \<longleftrightarrow> slugs elements = []"
    unfolding slugs_def by (metis rendered_texts list.map_disc_iff)
  then show ?thesis
    by (cases fault) (auto simp: ReportReader_def SectionRail_def Let_def)
qed

section \<open>The export control\<close>

definition export_inv :: "bool \<Rightarrow> export_control \<Rightarrow> bool" where
  "export_inv start x \<longleftrightarrow>
     (case xp_focus x of On_link i \<Rightarrow> xp_open x \<and> i < 3 | _ \<Rightarrow> True)
   \<and> xp_open x = last (start # xp_told x) \<and> successively (\<noteq>) (start # xp_told x)"

lemma told_once:
  "successively (\<noteq>) (a # bs) \<Longrightarrow> c \<noteq> last (a # bs) \<Longrightarrow> successively (\<noteq>) (a # bs @ [c])"
  by (induction bs arbitrary: a) (auto split: if_splits)

lemma three_formats [simp]: "length EXPORT_FORMATS = 3"
  by (simp add: EXPORT_FORMATS_def)

lemma next_link_bound: "nat ((int i + d + 3) mod 3) < 3"
  by (simp add: nat_less_iff)

lemma arrow_simps:
  "\<not> xp_open x \<Longrightarrow> arrow_key down x
     = (change_open True x)\<lparr>xp_focus := On_link (if down then 0 else 2)\<rparr>"
  "xp_open x \<Longrightarrow> xp_focus x = On_link i \<Longrightarrow> arrow_key down x
     = x\<lparr>xp_focus := On_link (nat ((int i + (if down then 1 else - 1) + 3) mod 3))\<rparr>"
  "xp_open x \<Longrightarrow> xp_focus x = On_trigger \<Longrightarrow> arrow_key down x
     = x\<lparr>xp_focus := On_link (if down then 0 else 2)\<rparr>"
  by (simp_all add: arrow_key_def Let_def)

lemma export_inv_told:
  assumes "export_inv start x" "b \<noteq> xp_open x" "f = On_trigger \<or> b \<and> (\<exists>i < 3. f = On_link i)"
  shows "export_inv start ((change_open b x)\<lparr>xp_focus := f\<rparr>)"
proof -
  have "successively (\<noteq>) (start # xp_told x @ [b])"
    using assms told_once [of start "xp_told x" b] by (simp add: export_inv_def)
  then show ?thesis using assms(3) by (auto simp: export_inv_def change_open_def)
qed

lemma export_inv_moved:
  assumes "export_inv start x" "(\<forall>i. f \<noteq> On_link i) \<or> xp_open x \<and> (\<exists>i < 3. f = On_link i)"
  shows "export_inv start (x\<lparr>xp_focus := f\<rparr>)"
  using assms by (cases f) (auto simp: export_inv_def)

lemma export_inv_step:
  assumes "export_inv start x"
  shows "export_inv start (export_step x e)"
proof (cases e)
  case Key_escape
  then show ?thesis using assms export_inv_told [OF assms, of False On_trigger] by auto
next
  case (Key_arrow down)
  let ?edge = "On_link (if down then 0 else 2)"
  show ?thesis
  proof (cases "xp_open x")
    case False
    then show ?thesis
      using Key_arrow assms export_inv_told [OF assms, of True ?edge] by (simp add: arrow_simps)
  next
    case True
    then show ?thesis
      using Key_arrow assms export_inv_moved [OF assms, of ?edge]
        export_inv_moved [OF assms, of "On_link (nat ((int i + (if down then 1 else - 1) + 3) mod 3))" for i]
        next_link_bound
      by (cases "xp_focus x") (simp_all add: arrow_simps)
  qed
next
  case Press_trigger
  then show ?thesis using export_inv_told [OF assms, of "\<not> xp_open x" On_trigger] by simp
next
  case (Focus_moves f)
  then show ?thesis using assms export_inv_moved [OF assms, of f] by (cases f) auto
qed

interpretation export: reducer export_step "export_init start" "export_inv start" for start
  by unfold_locales (simp add: export_inv_def export_init_def, rule export_inv_step)

text \<open>
  The export control under every sequence of keys, presses and moves of the focus: a link has
  the focus only while the panel is open; the caller is told of every opening and closing and of
  nothing else, so that what it heard last is what is on screen; escape closes and gives the
  focus to the trigger; and the arrows go round the three links in both directions.
\<close>

lemma export_keys:
  "let x = runs export_step (export_init start) es; y = export_step x Key_escape in
     (case xp_focus x of On_link i \<Rightarrow> xp_open x \<and> i < length EXPORT_FORMATS | _ \<Rightarrow> True)
   \<and> xp_open x = last (start # xp_told x) \<and> successively (\<noteq>) (start # xp_told x)
   \<and> (xp_focus x = On_nothing \<or> (if xp_open x then \<not> xp_open y \<and> xp_focus y = On_trigger else y = x))
   \<and> (case xp_focus x of
        On_link i \<Rightarrow>
          runs export_step x [Key_arrow True, Key_arrow False] = x
          \<and> runs export_step x [Key_arrow False, Key_arrow True] = x
          \<and> runs export_step x [Key_arrow True, Key_arrow True, Key_arrow True] = x
      | _ \<Rightarrow> True)"
proof -
  let ?x = "runs export_step (export_init start) es"
  have inv: "export_inv start ?x" by (rule export.inv_from_init)
  have round: "runs export_step x [Key_arrow True, Key_arrow False] = x
      \<and> runs export_step x [Key_arrow False, Key_arrow True] = x
      \<and> runs export_step x [Key_arrow True, Key_arrow True, Key_arrow True] = x"
    if "xp_focus x = On_link i" "xp_open x" "i < 3" for x i
  proof -
    have "x\<lparr>xp_focus := On_link i\<rparr> = x" using that(1) by (simp add: export_control.equality)
    moreover have "i = 0 \<or> i = 1 \<or> i = 2" using that(3) by auto
    ultimately show ?thesis
      using that(1,2) by (auto simp: arrow_simps)
  qed
  have escape: "xp_focus x = On_nothing \<or> (if xp_open x
      then \<not> xp_open (export_step x Key_escape) \<and> xp_focus (export_step x Key_escape) = On_trigger
      else export_step x Key_escape = x)" for x
    by (simp add: change_open_def)
  have told: "xp_open ?x = last (start # xp_told ?x)" "successively (\<noteq>) (start # xp_told ?x)"
    and focus: "case xp_focus ?x of On_link i \<Rightarrow> xp_open ?x \<and> i < 3 | _ \<Rightarrow> True"
    using iffD1 [OF export_inv_def inv] by blast+
  have keys: "case xp_focus ?x of
        On_link i \<Rightarrow>
          runs export_step ?x [Key_arrow True, Key_arrow False] = ?x
          \<and> runs export_step ?x [Key_arrow False, Key_arrow True] = ?x
          \<and> runs export_step ?x [Key_arrow True, Key_arrow True, Key_arrow True] = ?x
      | _ \<Rightarrow> True"
    using focus round [of ?x] by (auto simp del: runs_Cons split: export_focus.splits)
  show ?thesis
    unfolding Let_def three_formats using told focus keys escape by blast
qed

end
