(* ===== verification/Diag_Recorder.thy ===== *)
theory Diag_Recorder
  imports Diag_Ring
begin

text \<open>
  Filling the ring: the recorder of \<open>web/lib/diagnostics/useDiagnostics.ts\<close> over the store seam of
  \<open>web/lib/job/provider.tsx\<close>, and the flag and loader of \<open>web/lib/diagnostics/vitals.ts\<close>. The state a
  render commits is what the provider publishes; states are compared by reference, which the
  references in a \<open>state_view\<close> stand for. \<open>URLSearchParams\<close> is the parameter \<open>get\<close>.
\<close>

section \<open>The recorder\<close>

text \<open>The provider's snapshot, the recorder's last one, whether it is subscribed, and the ring.\<close>

record recorder =
  rc_snapshot :: state_view
  rc_previous :: "state_view option"
  rc_subscribed :: bool
  rc_ring :: ring

definition recorder_init :: "state_view \<Rightarrow> ring \<Rightarrow> recorder" where
  "recorder_init v r =
     \<lparr>rc_snapshot = v, rc_previous = None, rc_subscribed = False, rc_ring = r\<rparr>"

definition observe :: "int \<Rightarrow> recorder \<Rightarrow> recorder" where
  "observe now x =
     (let next = rc_snapshot x
      in if rc_previous x = Some next then x
         else x\<lparr>rc_ring := fst (ring_pushAll (rc_ring x)
                  (recordsFromTransition (rc_previous x) next now)),
                rc_previous := Some next\<rparr>)"

datatype recorder_event =
    Rec_subscribe
  | Rec_unsubscribe
  | Rec_commit state_view int

text \<open>The provider's effect runs when the rendered state is another one than it published.\<close>

fun recorder_step :: "recorder \<Rightarrow> recorder_event \<Rightarrow> recorder" where
  "recorder_step x Rec_subscribe =
     x\<lparr>rc_previous := Some (rc_snapshot x), rc_subscribed := True\<rparr>"
| "recorder_step x Rec_unsubscribe = x\<lparr>rc_subscribed := False\<rparr>"
| "recorder_step x (Rec_commit state now) =
     (if state = rc_snapshot x then x
      else let y = x\<lparr>rc_snapshot := state\<rparr> in if rc_subscribed y then observe now y else y)"

section \<open>Vitals\<close>

text \<open>\<open>?debug=perf\<close>; the search string of the location, or none outside a browser.\<close>

definition isPerfDebugEnabled :: "(string \<Rightarrow> string \<Rightarrow> string option) \<Rightarrow> string option \<Rightarrow> bool" where
  "isPerfDebugEnabled get search =
     (case search of
        None \<Rightarrow> False
      | Some s \<Rightarrow>
          s \<noteq> [] \<and> get (if starts_with [CHR 0x3F] s then drop 1 s else s) ''debug'' = Some ''perf'')"

definition readDebugPerf :: "(string \<Rightarrow> string \<Rightarrow> string option) \<Rightarrow> string option \<Rightarrow> bool" where
  "readDebugPerf get location = isPerfDebugEnabled get location"

text \<open>The effect of \<open>useWebVitals\<close>: its guard and how often the library was loaded.\<close>

definition useWebVitals :: "bool \<Rightarrow> bool \<times> nat \<Rightarrow> bool \<times> nat" where
  "useWebVitals enabled s =
     (let (started, loads) = s
      in if \<not> enabled \<or> started then (started, loads) else (True, loads + 1))"

section \<open>Laws\<close>

text \<open>What a run of states, each with the time it was observed at, should leave in the ring.\<close>

fun run_records :: "state_view \<Rightarrow> (state_view \<times> int) list \<Rightarrow> diagnostic_input list" where
  "run_records v [] = []"
| "run_records v ((w, now) # ws) = recordsFromTransition (Some v) w now @ run_records w ws"

lemma same_state_records_nothing: "recordsFromTransition (Some v) v now = []"
  using transition_records_new_frames [of "[]" v now 0] by simp

definition ring_is :: "nat \<Rightarrow> diagnostic_input list \<Rightarrow> ring \<Rightarrow> bool" where
  "ring_is c xs r \<longleftrightarrow> ring_holds r xs \<and> dr_snapshot r = ring_read r \<and> dr_capacity r = c"

lemma ring_is_contents: "ring_is c xs r \<Longrightarrow> ring_contents r = take_last c xs"
  by (auto simp: ring_is_def contents_holds)

lemma ring_is_pushAll:
  assumes "ring_is c xs r"
  shows "ring_is c (xs @ ys) (fst (ring_pushAll r ys))"
proof (cases "ys = []")
  case True
  then show ?thesis using assms by (simp add: ring_pushAll_def)
next
  case False
  have capacity: "dr_capacity (foldl ring_store r ys) = dr_capacity r"
    by (induction ys arbitrary: r) simp_all
  show ?thesis
    using False assms capacity holds_pushes [of r xs ys]
    by (simp add: ring_pushAll_def store_all_spec ring_is_def read_publish)
qed

lemma recorder_runs:
  assumes "ring_is c xs (rc_ring x)" "rc_subscribed x" "rc_previous x = Some (rc_snapshot x)"
  shows "ring_is c (xs @ run_records (rc_snapshot x) ws)
    (rc_ring (runs recorder_step x (map (\<lambda>(w, now). Rec_commit w now) ws)))"
  using assms
proof (induction ws arbitrary: x xs)
  case Nil
  then show ?case by simp
next
  case (Cons e ws)
  obtain w now where e: "e = (w, now)" by (cases e)
  let ?ys = "recordsFromTransition (Some (rc_snapshot x)) w now"
  let ?y = "recorder_step x (Rec_commit w now)"
  have "ring_is c (xs @ ?ys) (rc_ring ?y) \<and> rc_subscribed ?y
      \<and> rc_previous ?y = Some (rc_snapshot ?y) \<and> rc_snapshot ?y = w"
    using Cons.prems ring_is_pushAll [OF Cons.prems(1), of ?ys]
    by (auto simp: observe_def Let_def same_state_records_nothing)
  then show ?case using Cons.IH [of "xs @ ?ys" ?y] by (simp add: e)
qed

section \<open>Properties\<close>

text \<open>
  C35. The ring remembers what was rendered: with the recorder subscribed on a new ring of any
  accepted capacity, after any sequence of commits the ring holds exactly the newest records of
  the transitions between successive committed states, however often a state was committed
  again. It is what was committed that counts: a state that is left again within one batch of
  dispatches leaves no record, although its transition would have been one.
\<close>

theorem recorder_keeps_the_run:
  "case new_ring capacity of
     None \<Rightarrow> capacity \<le> 0
   | Some r \<Rightarrow>
       (let x = runs recorder_step (recorder_init v r)
                  (Rec_subscribe # map (\<lambda>(w, now). Rec_commit w now) ws)
        in ring_contents (rc_ring x) = take_last (nat capacity) (run_records v ws))
     \<and> run_records v [(v, now)] = []
     \<and> (phase_text (vw_phase w) = phase_text (vw_phase v)
         \<or> (\<exists>record \<in> set (run_records v [(w, now), (v, now)]).
              di_kind record = DK_transition \<and> di_event record = phase_text (vw_phase w)))"
proof (cases "new_ring capacity")
  case None
  then show ?thesis by (simp add: new_ring_def split: if_splits)
next
  case (Some r)
  let ?x = "recorder_step (recorder_init v r) Rec_subscribe"
  have "ring_is (nat capacity) [] (rc_ring ?x)" "rc_subscribed ?x"
    "rc_previous ?x = Some (rc_snapshot ?x)"
    using holds_new [OF Some] by (simp_all add: ring_is_def recorder_init_def)
  then have "ring_is (nat capacity) (run_records v ws)
      (rc_ring (runs recorder_step ?x (map (\<lambda>(w, now). Rec_commit w now) ws)))"
    using recorder_runs [of "nat capacity" "[]" ?x ws] by (simp add: recorder_init_def)
  moreover have "\<exists>record \<in> set (run_records v [(w, now), (v, now)]).
      di_kind record = DK_transition \<and> di_event record = phase_text (vw_phase w)"
    if "phase_text (vw_phase w) \<noteq> phase_text (vw_phase v)"
  proof -
    have "vw_phase v \<noteq> vw_phase w" using that by auto
    then have "(record_input DK_transition (phase_text (vw_phase w)) now (vw_phase w))
        \<lparr>di_jobId := vw_jobId w, di_from := Some (phase_text (vw_phase v))\<rparr>
      \<in> set (recordsFromTransition (Some v) w now)"
      by (simp add: recordsFromTransition_def Let_def)
    then show ?thesis by (auto simp: record_input_def intro!: bexI)
  qed
  ultimately show ?thesis
    using Some ring_is_contents by (auto simp: same_state_records_nothing)
qed

text \<open>
  The library is loaded at most once; and the reader of the flag that the server and the first
  render in the browser share does not answer the same in both: outside a browser it is off.
\<close>

lemma vitals_once: "snd ((useWebVitals True ^^ n) (False, 0)) \<le> 1"
proof -
  have "(useWebVitals True ^^ n) (False, 0) = (n \<noteq> 0, if n = 0 then 0 else 1)"
    by (induction n) (simp_all add: useWebVitals_def)
  then show ?thesis by simp
qed

lemma flag_differs_at_hydration:
  "readDebugPerf (\<lambda>s name. if s = ''debug=perf'' \<and> name = ''debug'' then Some ''perf'' else None)
      (Some (CHR 0x3F # ''debug=perf''))
   \<and> \<not> readDebugPerf get None"
  by (simp add: readDebugPerf_def isPerfDebugEnabled_def)

end
