(* ===== verification/JS_Date.thy ===== *)
theory JS_Date
  imports JS_Base
begin

text \<open>
  The part of JavaScript's \<open>Date\<close> the sources print with: \<open>toISOString\<close> of a whole number of
  milliseconds since the epoch, as the language standard defines it, and a reader for the clock
  it ends with. The laws give the bounds of the calendar for the years 0 to 9999 and read the
  clock back.
\<close>

section \<open>Definitions\<close>

text \<open>
  \<open>Date.prototype.toISOString\<close> of the proleptic Gregorian calendar: the year, month and day of a
  day number, counted from 1970-01-01.
\<close>

definition civil_from_days :: "int \<Rightarrow> int \<times> int \<times> int" where
  "civil_from_days days =
     (let z = days + 719468; era = z div 146097; doe = z mod 146097;
          yoe = (doe - doe div 1460 + doe div 36524 - doe div 146096) div 365;
          doy = doe - (365 * yoe + yoe div 4 - yoe div 100);
          mp = (5 * doy + 2) div 153;
          m = (if mp < 10 then mp + 3 else mp - 9)
      in (yoe + era * 400 + (if m \<le> 2 then 1 else 0), m, doy - (153 * mp + 2) div 5 + 1))"

definition pad_digits :: "nat \<Rightarrow> int \<Rightarrow> string" where
  "pad_digits width n =
     (let s = show_nat (nat n) in replicate (width - length s) CHR ''0'' @ s)"

definition year_text :: "int \<Rightarrow> string" where
  "year_text y =
     (if 0 \<le> y \<and> y \<le> 9999 then pad_digits 4 y
      else (if y < 0 then CHR ''-'' else CHR ''+'') # pad_digits 6 \<bar>y\<bar>)"

definition clock_text :: "int \<Rightarrow> string" where
  "clock_text ms =
     pad_digits 2 (ms div 3600000) @ '':'' @ pad_digits 2 (ms div 60000 mod 60) @ '':''
     @ pad_digits 2 (ms div 1000 mod 60) @ ''.'' @ pad_digits 3 (ms mod 1000)"

definition toISOString :: "int \<Rightarrow> string" where
  "toISOString at =
     (let (y, m, d) = civil_from_days (at div 86400000)
      in year_text y @ ''-'' @ pad_digits 2 m @ ''-'' @ pad_digits 2 d @ ''T''
         @ clock_text (at mod 86400000) @ ''Z'')"

section \<open>The calendar\<close>

lemma div_between: "0 < k \<Longrightarrow> k * (n div k) \<le> n \<and> n < k * (n div k) + (k :: int)"
  using pos_mod_bound [of k n] pos_mod_sign [of k n] div_mult_mod_eq [of n k]
  by (smt (verit) mult.commute)

lemma month_and_day:
  fixes doy :: int
  assumes "- 30 \<le> doy" "doy \<le> 400"
  defines "mp \<equiv> (5 * doy + 2) div 153"
  shows "- 1 \<le> mp \<and> mp \<le> 13 \<and> 1 \<le> doy - (153 * mp + 2) div 5 + 1
    \<and> doy - (153 * mp + 2) div 5 + 1 \<le> 31"
proof -
  have "153 * mp \<le> 5 * doy + 2 \<and> 5 * doy + 2 < 153 * mp + 153"
    unfolding mp_def by (rule div_between) simp
  moreover have "5 * ((153 * mp + 2) div 5) \<le> 153 * mp + 2 \<and> 153 * mp + 2 < 5 * ((153 * mp + 2) div 5) + 5"
    by (rule div_between) simp
  ultimately show ?thesis using assms(1,2) by linarith
qed

lemma year_of_era:
  fixes doe :: int
  assumes doe: "0 \<le> doe" "doe < 146097"
  defines "y \<equiv> (doe - doe div 1460 + doe div 36524 - doe div 146096) div 365"
  shows "0 \<le> y \<and> y \<le> 399 \<and> (145731 \<le> doe \<longleftrightarrow> y = 399)
    \<and> - 30 \<le> doe - (365 * y + y div 4 - y div 100) \<and> doe - (365 * y + y div 4 - y div 100) \<le> 400"
proof -
  define a b c where "a = doe div 1460" and "b = doe div 36524" and "c = doe div 146096"
  have a: "1460 * a \<le> doe" "doe < 1460 * a + 1460"
    and b: "36524 * b \<le> doe" "doe < 36524 * b + 36524"
    and c: "146096 * c \<le> doe" "doe < 146096 * c + 146096"
    using div_between [of 1460 doe] div_between [of 36524 doe] div_between [of 146096 doe]
    by (simp_all add: a_def b_def c_def)
  have y: "365 * y \<le> doe - a + b - c" "doe - a + b - c < 365 * y + 365"
    using div_between [of 365 "doe - a + b - c"] by (simp_all add: y_def a_def b_def c_def)
  have q: "4 * (y div 4) \<le> y" "y < 4 * (y div 4) + 4"
    and h: "100 * (y div 100) \<le> y" "y < 100 * (y div 100) + 100"
    using div_between [of 4 y] div_between [of 100 y] by simp_all
  have small: "0 \<le> a" "a \<le> 100" "0 \<le> b" "b \<le> 4" "0 \<le> c" "c \<le> 1" using a b c doe by linarith+
  have low: "0 \<le> y" using a b c y small by linarith
  have last_year: "145635 \<le> doe - a + b - c \<longleftrightarrow> 145731 \<le> doe"
  proof (cases "doe < 146000")
    case True
    then have "a \<le> 99" "b \<le> 3" "c = 0" using a b c small by linarith+
    then show ?thesis using a b True by (cases "doe < 144540") linarith+
  next
    case False
    then show ?thesis using small by linarith
  qed
  have top: "doe - a + b - c < 146000"
  proof (cases "doe < 146000")
    case True
    then have "b \<le> 3" using b by linarith
    then show ?thesis using a True small by (cases "doe < 144540") linarith+
  next
    case False
    then have "100 \<le> a" using a by linarith
    moreover have "doe \<le> 146095 \<or> 1 \<le> c" using c by linarith
    ultimately show ?thesis using doe(2) small by (elim disjE) linarith+
  qed
  have "y \<le> 399" using y top by linarith
  moreover have "145731 \<le> doe \<longleftrightarrow> y = 399" using y last_year \<open>y \<le> 399\<close> by linarith
  moreover have "- 30 \<le> doe - (365 * y + y div 4 - y div 100)"
    using a y q h small low by linarith
  moreover have "doe - (365 * y + y div 4 - y div 100) \<le> 400"
    using a y q h small \<open>y \<le> 399\<close> by linarith
  ultimately show ?thesis using low by blast
qed

lemma civil_bounds:
  assumes "- 719528 \<le> days" "days \<le> 2932896"
  shows "case civil_from_days days of
     (y, m, d) \<Rightarrow> 0 \<le> y \<and> y \<le> 9999 \<and> 1 \<le> m \<and> m \<le> 16 \<and> 1 \<le> d \<and> d \<le> 31"
proof -
  define era doe where "era = (days + 719468) div 146097" and "doe = (days + 719468) mod 146097"
  have doe: "0 \<le> doe" "doe < 146097" by (simp_all add: doe_def)
  have days: "days + 719468 = 146097 * era + doe" by (simp add: era_def doe_def)
  define y where "y = (doe - doe div 1460 + doe div 36524 - doe div 146096) div 365"
  define doy where "doy = doe - (365 * y + y div 4 - y div 100)"
  define mp where "mp = (5 * doy + 2) div 153"
  note year = year_of_era [OF doe, folded y_def, folded doy_def]
  have mp: "153 * mp \<le> 5 * doy + 2" "5 * doy + 2 < 153 * mp + 153"
    using div_between [of 153 "5 * doy + 2"] by (simp_all add: mp_def)
  have month: "- 1 \<le> mp" "mp \<le> 13" "1 \<le> doy - (153 * mp + 2) div 5 + 1"
      "doy - (153 * mp + 2) div 5 + 1 \<le> 31"
    using month_and_day [of doy] year by (simp_all add: mp_def)
  have eras: "- 1 \<le> era" "era \<le> 24" using assms days doe by linarith+
  have last: "y = 399 \<Longrightarrow> doy = doe - 145731" by (simp add: doy_def)
  have first_era: "y = 399 \<and> 10 \<le> mp \<and> mp \<le> 11" if "era = - 1"
  proof -
    have "146037 \<le> doe" using assms(1) days that by linarith
    then show ?thesis using last year doe(2) mp by auto
  qed
  have last_era: "y < 399 \<or> 0 \<le> mp \<and> mp \<le> 9" if "era = 24"
  proof (cases "y = 399")
    case True
    moreover have "doe \<le> 146036" using assms(2) days that by linarith
    ultimately show ?thesis using last year mp by auto
  qed (use year in auto)
  let ?m = "if mp < 10 then mp + 3 else mp - 9"
  have civil: "civil_from_days days
      = (y + era * 400 + (if ?m \<le> 2 then 1 else 0), ?m, doy - (153 * mp + 2) div 5 + 1)"
    by (simp only: civil_from_days_def Let_def era_def doe_def y_def doy_def mp_def)
  have "0 \<le> y + era * 400 + (if ?m \<le> 2 then 1 else 0)"
  proof (cases "era = - 1")
    case True
    then show ?thesis using first_era by simp
  next
    case False
    then have "0 \<le> era" using eras by simp
    then show ?thesis using year by simp
  qed
  moreover have "y + era * 400 + (if ?m \<le> 2 then 1 else 0) \<le> 9999"
    using last_era eras year by (cases "era = 24") auto
  moreover have "1 \<le> ?m" "?m \<le> 16" using month(1,2) by auto
  ultimately show ?thesis using month(3,4) by (simp only: civil prod.case)
qed


section \<open>The clock\<close>

definition clock_digits :: "string \<Rightarrow> nat" where
  "clock_digits s = foldl (\<lambda>n c. 10 * n + (of_char c - 48)) 0 s"

definition clock_value :: "string \<Rightarrow> int" where
  "clock_value s =
     int (clock_digits (take 2 s)) * 3600000 + int (clock_digits (take 2 (drop 3 s))) * 60000
   + int (clock_digits (take 2 (drop 6 s))) * 1000 + int (clock_digits (drop 9 s))"

lemma clock_digits_show_nat: "clock_digits (show_nat n) = n"
proof (induction n rule: show_nat.induct)
  case (1 n)
  then show ?case
    by (cases "n < 10") (simp_all add: clock_digits_def show_nat.simps [of n])
qed

lemma clock_digits_zeros: "clock_digits (replicate k CHR ''0'' @ s) = clock_digits s"
  by (induction k) (simp_all add: clock_digits_def)

lemma length_show_nat: "n < 10 ^ w \<Longrightarrow> 0 < w \<Longrightarrow> length (show_nat n) \<le> w"
proof (induction n arbitrary: w rule: show_nat.induct)
  case (1 n)
  show ?case
  proof (cases "n < 10")
    case True
    then show ?thesis using 1(3) by (simp add: show_nat.simps [of n])
  next
    case False
    then obtain v where v: "w = Suc v" "0 < v"
      using 1(2,3) by (cases w; cases "w - 1") auto
    then have "n div 10 < 10 ^ v" using 1(2) by (simp add: div_less_iff_less_mult mult.commute)
    then show ?thesis
      using 1(1) [OF False _ v(2)] False v(1) by (simp add: show_nat.simps [of n])
  qed
qed

lemma pad_clock_digits: "0 \<le> n \<Longrightarrow> int (clock_digits (pad_digits w n)) = n"
  by (simp add: pad_digits_def Let_def clock_digits_zeros clock_digits_show_nat)

lemma pad_digits_length: "0 < w \<Longrightarrow> nat n < 10 ^ w \<Longrightarrow> length (pad_digits w n) = w"
  using length_show_nat [of "nat n" w] by (simp add: pad_digits_def Let_def)

lemma pad_lengths:
  "n < 100 \<Longrightarrow> length (pad_digits 2 n) = 2" "n < 1000 \<Longrightarrow> length (pad_digits 3 n) = 3"
  "n < 10000 \<Longrightarrow> length (pad_digits 4 n) = 4"
  by (simp_all add: pad_digits_length nat_less_iff)

lemma clock_parts:
  fixes ms :: int
  assumes "0 \<le> ms" "ms < 86400000"
  shows "ms div 3600000 < 24" "0 \<le> ms div 3600000"
    "ms div 3600000 * 3600000 + ms div 60000 mod 60 * 60000 + ms div 1000 mod 60 * 1000 + ms mod 1000 = ms"
proof -
  show "ms div 3600000 < 24" "0 \<le> ms div 3600000" using assms by simp_all
  have "ms div 60000 = 60 * (ms div 3600000) + ms div 60000 mod 60"
    by (simp add: div_mult2_eq [symmetric] zdiv_zmult2_eq [of 60 ms 60000, simplified])
  moreover have "ms div 1000 = 60 * (ms div 60000) + ms div 1000 mod 60"
    by (simp add: zdiv_zmult2_eq [of 60 ms 1000, simplified])
  moreover have "ms = 1000 * (ms div 1000) + ms mod 1000" by simp
  ultimately show "ms div 3600000 * 3600000 + ms div 60000 mod 60 * 60000 + ms div 1000 mod 60 * 1000 + ms mod 1000 = ms"
    by linarith
qed

lemma clock_value_parts:
  assumes "length a = 2" "length b = 2" "length c = 2"
  shows "clock_value (a @ '':'' @ b @ '':'' @ c @ ''.'' @ d)
    = int (clock_digits a) * 3600000 + int (clock_digits b) * 60000 + int (clock_digits c) * 1000
      + int (clock_digits d)"
  by (simp add: clock_value_def assms)

lemma clock_reads_back:
  assumes "0 \<le> ms" "ms < 86400000"
  shows "length (clock_text ms) = 12 \<and> clock_value (clock_text ms) = ms"
proof -
  note parts = clock_parts [OF assms]
  have small: "ms div 3600000 < 100" "ms div 60000 mod 60 < 100" "ms div 1000 mod 60 < 100"
      "ms mod 1000 < 1000"
    using parts(1) pos_mod_bound [of 60 "ms div 60000"] pos_mod_bound [of 60 "ms div 1000"]
      pos_mod_bound [of 1000 ms]
    by linarith+
  note lens = pad_lengths(1) [OF small(1)] pad_lengths(1) [OF small(2)] pad_lengths(1) [OF small(3)]
    pad_lengths(2) [OF small(4)]
  have "clock_value (clock_text ms) = ms"
    unfolding clock_text_def clock_value_parts [OF lens(1,2,3)]
    by (simp only: pad_clock_digits parts(2,3) pos_mod_sign zero_less_numeral)
  then show ?thesis by (simp only: clock_text_def length_append lens list.size) simp
qed

end
