(* ===== verification/Diag_Panel.thy ===== *)
theory Diag_Panel
  imports Diag_Redact Copy_Errors JS_Date
begin

text \<open>
  The diagnostics disclosure, \<open>web/components/patterns/Diagnostics.tsx\<close> with its copy
  (\<open>web/lib/copy/diagnostics.ts\<close>): the formatting of a record, the rows and lines of the panel,
  the control that copies the redacted blob, and the text the clipboard receives
  (\<open>diagnosticsJson\<close> of \<open>web/lib/diagnostics/redact.ts\<close>). A timestamp is a whole number of
  milliseconds, as the callers pass; \<open>undefined\<close> is \<open>None\<close>. The markup is left out.
\<close>

section \<open>Times\<close>

text \<open>A \<open>Date\<close> reaches \<open>8.64e15\<close> milliseconds around the epoch, and is no time beyond.\<close>

definition formatRecordTime :: "int \<Rightarrow> string" where
  "formatRecordTime at =
     (if \<bar>at\<bar> > 8640000000000000 then NOT_REPORTED
      else take 12 (drop 11 (toISOString at)))"

section \<open>Values\<close>

fun formatDetailValue :: "json option \<Rightarrow> string" where
  "formatDetailValue None = ''undefined''"
| "formatDetailValue (Some (JStr s)) = s"
| "formatDetailValue (Some (JNum n)) = show_num n"
| "formatDetailValue (Some (JBool b)) = (if b then ''true'' else ''false'')"
| "formatDetailValue (Some JNull) = ''null''"
| "formatDetailValue (Some v) = stringify v"

definition detailPairs :: "diagnostic_record \<Rightarrow> (string \<times> string) list" where
  "detailPairs r =
     (case di_from r of None \<Rightarrow> [] | Some v \<Rightarrow> [(''from'', v)])
   @ (case di_failureKind r of None \<Rightarrow> [] | Some v \<Rightarrow> [(''failure_kind'', v)])
   @ concat (map (\<lambda>(key, v).
       case (key = ''state_delta'', v) of
         (True, JObj m) \<Rightarrow> map (\<lambda>(inner, x). (inner, formatDetailValue (Some x))) m
       | _ \<Rightarrow> [(key, formatDetailValue (Some v))])
       (case di_detail r of None \<Rightarrow> [] | Some m \<Rightarrow> m))"

definition DIAGNOSTICS_VITALS_rating :: "(string \<times> string) list" where
  "DIAGNOSTICS_VITALS_rating =
     [(''good'', ''good''), (''needs-improvement'', ''needs improvement''), (''poor'', ''poor'')]"

definition DIAGNOSTICS_VITALS_metric :: "(string \<times> string) list" where
  "DIAGNOSTICS_VITALS_metric =
     [(''LCP'', ''Largest contentful paint''), (''INP'', ''Interaction to next paint''),
      (''CLS'', ''Cumulative layout shift'')]"

definition ratingWord :: "json option \<Rightarrow> string" where
  "ratingWord rating =
     (case Option.bind rating as_string of
        None \<Rightarrow> NOT_REPORTED
      | Some w \<Rightarrow> (case map_of DIAGNOSTICS_VITALS_rating w of Some t \<Rightarrow> t | None \<Rightarrow> w))"

definition metricWord :: "string \<Rightarrow> string" where
  "metricWord name =
     (case map_of DIAGNOSTICS_VITALS_metric name of Some t \<Rightarrow> t | None \<Rightarrow> name)"

fun DIAGNOSTICS_KIND_LABEL :: "diagnostic_kind \<Rightarrow> string" where
  "DIAGNOSTICS_KIND_LABEL DK_frame = ''frame''"
| "DIAGNOSTICS_KIND_LABEL DK_transition = ''transition''"
| "DIAGNOSTICS_KIND_LABEL DK_connection = ''connection''"
| "DIAGNOSTICS_KIND_LABEL DK_terminal = ''terminal''"
| "DIAGNOSTICS_KIND_LABEL DK_failure = ''failure''"
| "DIAGNOSTICS_KIND_LABEL DK_vital = ''web vital''"

definition diagnosticsRetained :: "nat \<Rightarrow> nat \<Rightarrow> string" where
  "diagnosticsRetained n capacity =
     show_nat n @ '' '' @ (if n = 1 then ''record'' else ''records'')
     @ '' held in memory. The last '' @ show_nat capacity
     @ '' are kept, and a reload clears them.''"

definition diagnosticsDropped :: "nat \<Rightarrow> string option" where
  "diagnosticsDropped dropped =
     (if dropped = 0 then None
      else Some (show_nat dropped @ '' older '' @ (if dropped = 1 then ''record'' else ''records'')
                 @ '' fell off the end of the buffer.''))"

section \<open>The blob\<close>

fun kind_name :: "diagnostic_kind \<Rightarrow> string" where
  "kind_name DK_frame = ''frame''"
| "kind_name DK_transition = ''transition''"
| "kind_name DK_connection = ''connection''"
| "kind_name DK_terminal = ''terminal''"
| "kind_name DK_failure = ''failure''"
| "kind_name DK_vital = ''vital''"

definition record_json :: "diagnostic_record \<Rightarrow> json" where
  "record_json r = JObj
     [(''seq'', JNum (JInt (int (di_seq r)))), (''at'', JNum (JInt (di_at r))),
      (''kind'', JStr (kind_name (di_kind r))), (''event'', JStr (di_event r)),
      (''jobId'', jopt JStr (di_jobId r)), (''phase'', JStr (phase_text (di_phase r))),
      (''from'', jopt JStr (di_from r)), (''failureKind'', jopt JStr (di_failureKind r)),
      (''detail'', jopt JObj (di_detail r))]"

definition blob_json :: "diagnostics_blob \<Rightarrow> json" where
  "blob_json b = JObj
     [(''schema'', JStr ''arxiv-research-agent/diagnostics''), (''version'', JNum (JInt 1)),
      (''capacity'', JNum (JInt (int (db_capacity b)))),
      (''count'', JNum (JInt (int (db_count b)))),
      (''dropped'', JNum (JInt (int (db_dropped b)))),
      (''records'', JArr (map record_json (db_records b)))]"

text \<open>\<open>JSON.stringify(v, null, 2)\<close>; the number is the indentation of the line \<open>v\<close> is on.\<close>

definition line_at :: "nat \<Rightarrow> string" where
  "line_at n = CHR 0x0A # replicate n CHR 0x20"

fun pretty :: "nat \<Rightarrow> json \<Rightarrow> string"
  and pretty_items :: "nat \<Rightarrow> json list \<Rightarrow> string list"
  and pretty_members :: "nat \<Rightarrow> (string \<times> json) list \<Rightarrow> string list" where
  "pretty n JNull = ''null''"
| "pretty n (JBool b) = (if b then ''true'' else ''false'')"
| "pretty n (JNum k) = show_num k"
| "pretty n (JStr s) = quote_text s"
| "pretty n (JArr xs) =
     (if xs = [] then ''[]''
      else ''['' @ join '','' (pretty_items (n + 2) xs) @ line_at n @ '']'')"
| "pretty n (JObj m) =
     (if m = [] then ''{}''
      else ''{'' @ join '','' (pretty_members (n + 2) m) @ line_at n @ ''}'')"
| "pretty_items n [] = []"
| "pretty_items n (x # xs) = (line_at n @ pretty n x) # pretty_items n xs"
| "pretty_members n [] = []"
| "pretty_members n ((k, v) # m) =
     (line_at n @ quote_text k @ '': '' @ pretty n v) # pretty_members n m"

definition diagnosticsJson :: "diagnostic_record list \<Rightarrow> nat option \<Rightarrow> nat option \<Rightarrow> string" where
  "diagnosticsJson records capacity dropped =
     pretty 0 (blob_json (redactDiagnostics records capacity dropped))"

section \<open>The panel\<close>

record panel_props =
  pp_records :: "diagnostic_record list"
  pp_capacity :: "nat option"
  pp_dropped :: "nat option"
  pp_showVitals :: bool
  pp_evidence :: "raw_evidence_row list"

text \<open>A row of the table: the key of the record, its time, kind, event and pairs.\<close>

record frame_row =
  fr_seq :: nat
  fr_time :: string
  fr_kind :: string
  fr_event :: string
  fr_pairs :: "(string \<times> string) list"

record panel_view =
  pv_retained :: string
  pv_dropped :: "string option"
  pv_evidence :: "raw_evidence_row list"
  pv_count :: nat
  pv_rows :: "string + frame_row list"
  pv_vitals :: "(string + (string \<times> string \<times> string) list) option"

definition frame_row_of :: "diagnostic_record \<Rightarrow> frame_row" where
  "frame_row_of r =
     \<lparr>fr_seq = di_seq r, fr_time = formatRecordTime (di_at r),
      fr_kind = DIAGNOSTICS_KIND_LABEL (di_kind r), fr_event = di_event r,
      fr_pairs = detailPairs r\<rparr>"

definition detail_at :: "diagnostic_record \<Rightarrow> string \<Rightarrow> json option" where
  "detail_at r key = Option.bind (di_detail r) (\<lambda>m. jprop m key)"

definition vital_row :: "diagnostic_record \<Rightarrow> string \<times> string \<times> string" where
  "vital_row r =
     (metricWord (di_event r),
      formatDetailValue (detail_at r ''value'')
      @ (case detail_at r ''unit'' of
           None \<Rightarrow> [] | Some JNull \<Rightarrow> [] | Some v \<Rightarrow> formatDetailValue (Some v)),
      ratingWord (detail_at r ''rating''))"

definition Diagnostics :: "panel_props \<Rightarrow> panel_view" where
  "Diagnostics p =
     (let shown = filter (\<lambda>r. di_kind r \<noteq> DK_vital) (pp_records p);
          vitals = filter (\<lambda>r. di_kind r = DK_vital) (pp_records p)
      in \<lparr>pv_retained = diagnosticsRetained (length (pp_records p))
             (case pp_capacity p of Some k \<Rightarrow> k | None \<Rightarrow> RING_CAPACITY),
          pv_dropped = diagnosticsDropped (case pp_dropped p of Some k \<Rightarrow> k | None \<Rightarrow> 0),
          pv_evidence = pp_evidence p,
          pv_count = length (pp_records p),
          pv_rows = (if shown = [] then Inl ''No frames have been received on this connection.''
             else Inr (map frame_row_of shown)),
          pv_vitals = (if \<not> pp_showVitals p then None
             else Some (if vitals = [] then Inl ''No web vitals have been reported yet.''
                        else Inr (map vital_row vitals)))\<rparr>)"

text \<open>What the run panel passes: the snapshot of the ring and the debug flag.\<close>

definition run_diagnostics :: "ring \<Rightarrow> bool \<Rightarrow> panel_props" where
  "run_diagnostics r perf =
     \<lparr>pp_records = dr_snapshot r, pp_capacity = None, pp_dropped = None, pp_showVitals = perf,
      pp_evidence = []\<rparr>"

section \<open>The copy control\<close>

datatype copy_state = Copy_idle | Copy_busy | Copy_done | Copy_failed

fun COPY_MESSAGE :: "copy_state \<Rightarrow> string" where
  "COPY_MESSAGE Copy_done = ''Copied to the clipboard.''"
| "COPY_MESSAGE Copy_failed =
     ''Copying to the clipboard failed. Select the rows and copy them by hand.''"
| "COPY_MESSAGE _ =
     ''Copies the last 200 frames and the raw error strings to the clipboard. ''
     @ ''No question text, no briefing text, no headers and no keys, ''
     @ ''and nothing is sent anywhere.''"

text \<open>
  A call of \<open>handleCopy\<close> waits for the redactor's module with the props of the render it was
  pressed in, then for the write of its text. A press is rendered before the next event, so the
  busy button refuses it.
\<close>

datatype copy_call = Await_module panel_props | Await_write string

record copy_control =
  cc_state :: copy_state
  cc_calls :: "copy_call list"
  cc_written :: "string list"

definition copy_init :: copy_control where
  "copy_init = \<lparr>cc_state = Copy_idle, cc_calls = [], cc_written = []\<rparr>"

definition handleCopy :: "panel_props \<Rightarrow> copy_control \<Rightarrow> copy_control" where
  "handleCopy p c = c\<lparr>cc_state := Copy_busy, cc_calls := cc_calls c @ [Await_module p]\<rparr>"

text \<open>
  The module answers with whether a write could be begun (the import resolved and there is a
  clipboard), the write with whether it was done; the number picks the call that answers.
\<close>

datatype copy_event = Press_copy panel_props | Module_answers nat bool | Write_answers nat bool

definition copied_text :: "panel_props \<Rightarrow> string" where
  "copied_text p = diagnosticsJson (pp_records p)
     (Some (case pp_capacity p of Some k \<Rightarrow> k | None \<Rightarrow> RING_CAPACITY))
     (Some (case pp_dropped p of Some k \<Rightarrow> k | None \<Rightarrow> 0))"

definition drop_call :: "nat \<Rightarrow> copy_call list \<Rightarrow> copy_call list" where
  "drop_call i cs = take i cs @ drop (Suc i) cs"

fun copy_step :: "copy_control \<Rightarrow> copy_event \<Rightarrow> copy_control" where
  "copy_step c (Press_copy p) = (if cc_state c = Copy_busy then c else handleCopy p c)"
| "copy_step c (Module_answers i ok) =
     (if i < length (cc_calls c) then
        (case cc_calls c ! i of
           Await_module p \<Rightarrow>
             if ok then
               c\<lparr>cc_calls := (cc_calls c)[i := Await_write (copied_text p)],
                 cc_written := cc_written c @ [copied_text p]\<rparr>
             else c\<lparr>cc_state := Copy_failed, cc_calls := drop_call i (cc_calls c)\<rparr>
         | Await_write t \<Rightarrow> c)
      else c)"
| "copy_step c (Write_answers i ok) =
     (if i < length (cc_calls c) then
        (case cc_calls c ! i of
           Await_write t \<Rightarrow> c\<lparr>cc_state := (if ok then Copy_done else Copy_failed),
                             cc_calls := drop_call i (cc_calls c)\<rparr>
         | Await_module p \<Rightarrow> c)
      else c)"

text \<open>The label of the button, whether it is busy, and the line beside it.\<close>

definition copy_view :: "copy_control \<Rightarrow> string \<times> bool \<times> string" where
  "copy_view c =
     (if cc_state c = Copy_busy then ''Copying'' @ [CHR 0x85] else ''Copy diagnostics'',
      cc_state c = Copy_busy, COPY_MESSAGE (cc_state c))"

section \<open>Laws of the formatting\<close>

lemma formatted_time:
  assumes "- 62167219200000 \<le> at" "at < 253402300800000"
  shows "formatRecordTime at = clock_text (at mod 86400000)"
proof -
  obtain y m d where civil: "civil_from_days (at div 86400000) = (y, m, d)"
    by (cases "civil_from_days (at div 86400000)")
  have "- 719528 \<le> at div 86400000" "at div 86400000 \<le> 2932896" using assms by linarith+
  then have bounds: "0 \<le> y" "y \<le> 9999" "1 \<le> m" "m \<le> 16" "1 \<le> d" "d \<le> 31"
    using civil_bounds [of "at div 86400000"] civil by auto
  have lens: "length (pad_digits 4 y) = 4" "length (pad_digits 2 m) = 2" "length (pad_digits 2 d) = 2"
    using bounds by (simp_all add: pad_lengths)
  have "length (clock_text (at mod 86400000)) = 12"
    using clock_reads_back [of "at mod 86400000"] by simp
  moreover have "\<not> 8640000000000000 < \<bar>at\<bar>" using assms by linarith
  moreover have "toISOString at = pad_digits 4 y @ ''-'' @ pad_digits 2 m @ ''-'' @ pad_digits 2 d
      @ ''T'' @ clock_text (at mod 86400000) @ ''Z''"
    using bounds by (simp add: toISOString_def civil year_text_def)
  ultimately show ?thesis by (simp add: formatRecordTime_def lens)
qed

text \<open>
  The time of a record is its clock in UTC: from the year 0 to the year 9999 the twelve characters
  read back as the milliseconds since midnight, and what is no time says so. Beyond the
  year 9999 the slice starts inside the date, since \<open>toISOString\<close> writes six digits and a sign.
\<close>

lemma record_time_reads_back:
  "if 8640000000000000 < \<bar>at\<bar> then formatRecordTime at = NOT_REPORTED
   else if - 62167219200000 \<le> at \<and> at < 253402300800000
   then length (formatRecordTime at) = 12 \<and> clock_value (formatRecordTime at) = at mod 86400000
   else True"
proof (cases "8640000000000000 < \<bar>at\<bar>")
  case False
  then show ?thesis
    using formatted_time [of at] clock_reads_back [of "at mod 86400000"] by simp
qed (simp add: formatRecordTime_def)

lemma record_time_of_year_10000: "formatRecordTime 253402300800000 = ''01T00:00:00.''"
proof -
  have "civil_from_days 2932897 = (10000, 1, 1)"
    by code_simp
  moreover have digits: "char_of (48 :: nat) = CHR ''0''" "char_of (49 :: nat) = CHR ''1''"
    "replicate 2 CHR ''0'' = ''00''"
    by (code_simp, code_simp, simp add: numeral_2_eq_2)
  have "pad_digits 6 10000 = ''010000''" "pad_digits 2 1 = ''01''"
      "pad_digits 2 0 = ''00''" "pad_digits 3 0 = ''000''"
    by (simp_all add: pad_digits_def Let_def digits show_nat.simps [of 10000] show_nat.simps [of 1000]
        show_nat.simps [of 100] show_nat.simps [of 10] show_nat.simps [of "Suc 0"]
        show_nat.simps [of 0])
  with calculation have "toISOString 253402300800000 = ''+010000-01-01T00:00:00.000Z''"
    by (simp add: toISOString_def year_text_def clock_text_def)
  then show ?thesis by (simp add: formatRecordTime_def)
qed

text \<open>The React keys of the pairs: a key of the delta may repeat one of the payload.\<close>

lemma pair_keys_repeat:
  "map fst (detailPairs (r\<lparr>di_from := None, di_failureKind := None,
      di_detail := Some [(''node'', JStr ''reader''),
        (''state_delta'', JObj [(''node'', JStr ''reader'')])]\<rparr>)) = [''node'', ''node'']"
  by (simp add: detailPairs_def)

section \<open>Laws of the copy control\<close>

text \<open>
  The control is busy exactly while its one call is on its way, every text in hand was pressed
  for, and a control that says it is done has handed one over.
\<close>

definition copy_inv :: "copy_control \<Rightarrow> bool" where
  "copy_inv c \<longleftrightarrow> length (cc_calls c) = (if cc_state c = Copy_busy then 1 else 0)
     \<and> (\<forall>t. Await_write t \<in> set (cc_calls c) \<longrightarrow> t \<in> set (cc_written c))
     \<and> (cc_state c = Copy_done \<longrightarrow> cc_written c \<noteq> [])"

definition copied_from :: "panel_props set \<Rightarrow> copy_control \<Rightarrow> bool" where
  "copied_from ps c \<longleftrightarrow> set (cc_written c) \<subseteq> copied_text ` ps
     \<and> (\<forall>p. Await_module p \<in> set (cc_calls c) \<longrightarrow> p \<in> ps)"

lemma one_call:
  "copy_inv c \<Longrightarrow> i < length (cc_calls c) \<Longrightarrow> i = 0 \<and> cc_calls c = [hd (cc_calls c)]"
  by (cases "cc_calls c") (auto simp: copy_inv_def split: if_splits)

lemma copy_inv_step: "copy_inv c \<Longrightarrow> copy_inv (copy_step c e)"
proof (cases e)
  case (Press_copy p)
  assume "copy_inv c"
  then show ?thesis using Press_copy by (auto simp: copy_inv_def handleCopy_def)
next
  case (Module_answers i ok)
  assume inv: "copy_inv c"
  then show ?thesis
    using Module_answers one_call [OF inv, of i]
    by (cases "hd (cc_calls c)") (auto simp: copy_inv_def Let_def drop_call_def split: copy_call.splits)
next
  case (Write_answers i ok)
  assume inv: "copy_inv c"
  then show ?thesis
    using Write_answers one_call [OF inv, of i]
    by (cases "hd (cc_calls c)") (auto simp: copy_inv_def drop_call_def split: copy_call.splits)
qed

interpretation copying: reducer copy_step copy_init copy_inv
  by unfold_locales (simp add: copy_inv_def copy_init_def, rule copy_inv_step)

lemma copied_from_step:
  assumes "copied_from ps c" "\<And>p. e = Press_copy p \<Longrightarrow> p \<in> ps"
  shows "copied_from ps (copy_step c e)"
proof (cases e)
  case (Press_copy p)
  then show ?thesis using assms by (auto simp: copied_from_def handleCopy_def)
next
  case (Module_answers i ok)
  moreover have "p \<in> ps" if "i < length (cc_calls c)" "cc_calls c ! i = Await_module p" for p
    using assms(1) nth_mem [OF that(1)] that(2) by (simp add: copied_from_def)
  ultimately show ?thesis
    using assms(1)
    by (auto simp: copied_from_def drop_call_def
        dest!: in_set_takeD in_set_dropD dest: set_update_subset_insert [THEN subsetD]
        split: copy_call.splits)
next
  case (Write_answers i ok)
  then show ?thesis
    using assms(1)
    by (auto simp: copied_from_def drop_call_def dest!: in_set_takeD in_set_dropD
        split: copy_call.splits)
qed

lemma copied_from_runs:
  "copied_from ps c \<Longrightarrow> {p. Press_copy p \<in> set es} \<subseteq> ps \<Longrightarrow> copied_from ps (runs copy_step c es)"
proof (induction es arbitrary: c)
  case (Cons e es)
  then have "copied_from ps (copy_step c e)" by (intro copied_from_step) auto
  then show ?case using Cons by auto
qed simp

text \<open>
  Over every interleaving of presses and answers: at most one copy is on its way and the button
  refuses a press exactly then; what was handed to the clipboard is the redacted text of the
  records shown at a press; and the control says it is done only when it handed one over.
\<close>

lemma copies_what_was_shown:
  "let c = runs copy_step copy_init es
   in length (cc_calls c) = (if cc_state c = Copy_busy then 1 else 0)
    \<and> (copy_step c (Press_copy p) = c) = (cc_state c = Copy_busy)
    \<and> set (cc_written c) \<subseteq> copied_text ` {p. Press_copy p \<in> set es}
    \<and> (cc_state c = Copy_done \<longrightarrow> cc_written c \<noteq> [])"
proof -
  let ?c = "runs copy_step copy_init es"
  have "copy_inv ?c" by (rule copying.inv_from_init)
  moreover have "copied_from {p. Press_copy p \<in> set es} ?c"
    by (rule copied_from_runs) (simp_all add: copied_from_def copy_init_def)
  moreover have "handleCopy p ?c \<noteq> ?c"
    by (auto simp: handleCopy_def dest!: arg_cong [where f = "\<lambda>c. length (cc_calls c)"])
  ultimately show ?thesis by (simp add: Let_def copy_inv_def copied_from_def)
qed

section \<open>The panel over the ring\<close>

text \<open>
  C13. What the disclosure of a run shows and copies, after any records were pushed on a new
  ring: the newest \<open>RING_CAPACITY\<close> records in order, the vitals apart, each under its own time,
  kind, name and pairs, and the copied text is those records, redacted. How many older records
  the ring has dropped is passed to neither: the panel never says it, and the blob says 0.
\<close>

theorem panel_shows_the_ring:
  "case new_ring (int RING_CAPACITY) of
     None \<Rightarrow> False
   | Some start \<Rightarrow>
       let r = foldl push_only start xs; p = run_diagnostics r perf; v = Diagnostics p;
           kept = take_last RING_CAPACITY (stamped xs);
           shown = filter (\<lambda>x. di_kind x \<noteq> DK_vital) kept
       in pv_count v = min (length xs) RING_CAPACITY
        \<and> pv_rows v = (if shown = [] then Inl ''No frames have been received on this connection.''
                       else Inr (map frame_row_of shown))
        \<and> pv_dropped v = None
        \<and> copied_text p = pretty 0 (blob_json
            \<lparr>db_capacity = RING_CAPACITY, db_count = min (length xs) RING_CAPACITY,
             db_dropped = 0, db_records = map redactRecord kept\<rparr>)
        \<and> ring_dropped r = length xs - RING_CAPACITY"
proof -
  obtain start where start: "new_ring (int RING_CAPACITY) = Some start"
    by (simp add: new_ring_def RING_CAPACITY_def)
  note new = holds_new [OF start]
  let ?r = "foldl push_only start xs"
  have r: "ring_holds ?r xs" "dr_snapshot ?r = ring_read ?r" "dr_capacity ?r = RING_CAPACITY"
    using holds_push_onlys [of start "[]" xs] new by simp_all
  then have kept: "dr_snapshot ?r = take_last RING_CAPACITY (stamped xs)"
    by (simp add: read_holds)
  have "dr_written ?r = length xs" using r(1) by (simp add: ring_holds_def)
  then show ?thesis
    by (simp add: start Let_def Diagnostics_def run_diagnostics_def kept diagnosticsDropped_def
        min.commute [of RING_CAPACITY "length xs"]
        copied_text_def diagnosticsJson_def redactDiagnostics_def ring_dropped_def r(3))
qed

end
