(* ===== verification/Run_Surfaces.thy ===== *)
theory Run_Surfaces
  imports Spine Thread_Laws Plan_Editor Composer Report_View Thread_Rail
begin

text \<open>
  What the thread page puts on screen around a run: the status badge and the banner with its
  \<open>role="alert"\<close> rule (\<open>web/components/primitives/StatusBadge.tsx\<close>,
  \<open>web/components/patterns/StatusBanner.tsx\<close>), the banners every surface of the product renders,
  the run panel (\<open>web/components/features/ActiveRunPanel.tsx\<close>) beside the follow-up composer
  (\<open>web/components/features/ThreadTimeline.tsx\<close>), and the trace spine with its checkpoint
  ledger (\<open>web/components/patterns/TraceSpine.tsx\<close>, \<open>CheckpointLedger.tsx\<close>). A component that
  throws while it renders is an \<open>Inl\<close>. Class names are modelled where they decide what is
  visible; ids, other class names and the DOM are left out.
\<close>

section \<open>Marks, roles and badges\<close>

datatype mark_shape =
    Mark_circle | Mark_ring | Mark_diamond | Mark_triangle | Mark_square | Mark_slashed_square
  | Mark_hollow_square | Mark_dashed_square | Mark_dashed_rule

datatype status_role = Role_primary | Role_review | Role_signature | Role_critical

fun STATUS_SEVERITY_ROLE :: "status_severity \<Rightarrow> status_role" where
  "STATUS_SEVERITY_ROLE Sev_info = Role_primary"
| "STATUS_SEVERITY_ROLE Sev_review = Role_review"
| "STATUS_SEVERITY_ROLE Sev_live = Role_signature"
| "STATUS_SEVERITY_ROLE Sev_warning = Role_review"
| "STATUS_SEVERITY_ROLE Sev_critical = Role_critical"

fun SEVERITY_MARK :: "status_severity \<Rightarrow> mark_shape" where
  "SEVERITY_MARK Sev_info = Mark_circle"
| "SEVERITY_MARK Sev_review = Mark_diamond"
| "SEVERITY_MARK Sev_live = Mark_ring"
| "SEVERITY_MARK Sev_warning = Mark_triangle"
| "SEVERITY_MARK Sev_critical = Mark_slashed_square"

datatype render_fault = Fault_no_word | Fault_alert_severity status_severity

record badge_view =
  bg_severity :: status_severity
  bg_role :: status_role
  bg_mark :: mark_shape
  bg_pulsing :: bool
  bg_word :: string

text \<open>The word is a React node; every caller passes a string, so \<open>null\<close> is \<open>None\<close>.\<close>

definition StatusBadge ::
  "status_severity \<Rightarrow> string option \<Rightarrow> mark_shape option \<Rightarrow> bool \<Rightarrow> render_fault + badge_view"
where
  "StatusBadge severity word mark ambient =
     (case word of
        None \<Rightarrow> Inl Fault_no_word
      | Some w \<Rightarrow>
          if w = [] then Inl Fault_no_word
          else Inr \<lparr>bg_severity = severity, bg_role = STATUS_SEVERITY_ROLE severity,
                    bg_mark = (case mark of Some m \<Rightarrow> m | None \<Rightarrow> SEVERITY_MARK severity),
                    bg_pulsing = (ambient \<and> severity = Sev_live), bg_word = w\<rparr>)"

section \<open>The banner\<close>

definition ALERT_SEVERITIES :: "status_severity list" where
  "ALERT_SEVERITIES = [Sev_warning, Sev_critical]"

text \<open>
  The texts of the recovery line, of the actions and of the children stand for these nodes; an
  absent node is the empty list.
\<close>

record banner_props =
  bp_severity :: status_severity
  bp_sentence :: string
  bp_word :: "string option"
  bp_recovery :: "string list"
  bp_evidence :: "raw_evidence_row list"
  bp_actions :: "string list"
  bp_mark :: "mark_shape option"
  bp_userTriggered :: bool
  bp_children :: "string list"

definition banner :: "status_severity \<Rightarrow> string \<Rightarrow> banner_props" where
  "banner severity sentence =
     \<lparr>bp_severity = severity, bp_sentence = sentence, bp_word = None, bp_recovery = [],
      bp_evidence = [], bp_actions = [], bp_mark = None, bp_userTriggered = False,
      bp_children = []\<rparr>"

record banner_view =
  bv_alert :: bool
  bv_role :: status_role
  bv_badge :: badge_view
  bv_sentence :: string
  bv_recovery :: "string list"
  bv_evidence :: "raw_evidence_row list"
  bv_actions :: "string list"
  bv_children :: "string list"

definition StatusBanner :: "banner_props \<Rightarrow> render_fault + banner_view" where
  "StatusBanner p =
     (if bp_userTriggered p \<and> bp_severity p \<notin> set ALERT_SEVERITIES
      then Inl (Fault_alert_severity (bp_severity p))
      else case StatusBadge (bp_severity p)
             (Some (case bp_word p of Some w \<Rightarrow> w | None \<Rightarrow> SEVERITY_WORD (bp_severity p)))
             (Some (case bp_mark p of Some m \<Rightarrow> m | None \<Rightarrow> SEVERITY_MARK (bp_severity p))) False of
          Inl e \<Rightarrow> Inl e
        | Inr b \<Rightarrow> Inr
            \<lparr>bv_alert = bp_userTriggered p, bv_role = STATUS_SEVERITY_ROLE (bp_severity p),
             bv_badge = b, bv_sentence = bp_sentence p, bv_recovery = bp_recovery p,
             bv_evidence = bp_evidence p, bv_actions = bp_actions p,
             bv_children = bp_children p\<rparr>)"

section \<open>The banners of the product\<close>

text \<open>\<open>describeFailure\<close>'s four strings, announced exactly when the severity may be.\<close>

definition failure_banner :: "failure_copy \<Rightarrow> banner_props" where
  "failure_banner c =
     (banner (cp_severity c) (cp_sentence c))
       \<lparr>bp_word := Some (cp_word c), bp_recovery := [cp_recovery c],
        bp_userTriggered := (cp_severity c \<in> set ALERT_SEVERITIES)\<rparr>"

definition editor_banners :: "editor_props \<Rightarrow> banner_props list" where
  "editor_banners p =
     (case failed_review p of None \<Rightarrow> [] | Some c \<Rightarrow> [failure_banner c])
   @ (case stale_banner p of
        None \<Rightarrow> []
      | Some (sentence, recovery) \<Rightarrow>
          [(banner Sev_warning sentence)
             \<lparr>bp_userTriggered := True, bp_recovery := [recovery],
              bp_actions := [''Check where the run got to'']\<rparr>])"

definition composer_banner :: "api_failure option \<Rightarrow> string option \<Rightarrow> banner_props option" where
  "composer_banner fault orphanThreadHref =
     map_option (\<lambda>f. (failure_banner (describeFailure f))
         \<lparr>bp_actions := (if orphanThreadHref = None then [] else [''Open the empty thread'']),
          bp_children := [''The question is still in the box.'',
              ''Nothing was sent again on its own '' @ [CHR 0x97]
                @ '' asking again starts a new billable run.'']
            @ (if orphanThreadHref = None then []
               else [''An empty thread was created before this failed.''])\<rparr>) fault"

fun rail_banner :: "rail_notice \<Rightarrow> banner_props" where
  "rail_banner Notice_read_failed =
     (banner Sev_critical ''The research service is not reachable.'')
       \<lparr>bp_userTriggered := True,
        bp_recovery := [''Retry loading the list. Nothing is sent again on its own.''],
        bp_actions := [''Retry'']\<rparr>"
| "rail_banner Notice_delete_failed =
     (banner Sev_critical ''That thread was not deleted. It is back in the list.'')
       \<lparr>bp_userTriggered := True\<rparr>"

definition load_error_banner :: banner_props where
  "load_error_banner =
     (banner Sev_critical ''The research service did not answer for this thread.'')
       \<lparr>bp_recovery := [''Read it again. Nothing is sent again on its own.''],
        bp_actions := [''Retry'']\<rparr>"

definition briefing_banner :: "reader_banner \<Rightarrow> banner_props" where
  "briefing_banner r =
     (banner Sev_critical (rb_sentence r))
       \<lparr>bp_word := rb_word r, bp_recovery := rb_recovery r, bp_evidence := rb_evidence r,
        bp_children := (case rb_note r of None \<Rightarrow> [] | Some n \<Rightarrow> [n])\<rparr>"

section \<open>The run panel and the follow-up composer\<close>

text \<open>
  The plan editor reads the plan of the machine as a \<open>plan_body\<close>; that reading of the JSON is
  the argument \<open>as_plan\<close>.
\<close>

record run_panel =
  rn_noRun :: bool
  rn_spine :: "spine_inputs option"
  rn_askAgain :: bool
  rn_banner :: "banner_props option"
  rn_editor :: "editor_props option"
  rn_diagnostics :: bool

definition ActiveRunPanel :: "(json \<Rightarrow> plan_body) \<Rightarrow> job_state \<Rightarrow> run_panel" where
  "ActiveRunPanel as_plan s =
     (let idle = (jobId s = None \<and> phase s = Ph_idle)
      in \<lparr>rn_noRun = idle,
          rn_spine = (if idle then None else spineInputs s None),
          rn_askAgain = (phase s = Ph_unavailable),
          rn_banner = map_option
            (\<lambda>f. (failure_banner (describeFailure f))
               \<lparr>bp_evidence := rawErrorEvidence None (failureMessage s)\<rparr>) (announced s),
          rn_editor = map_option
            (\<lambda>p. \<lparr>ep_plan = as_plan p, ep_status = planStatusOf s, ep_initialDraft = None,
                  ep_issues = reviewIssuesOf s, ep_staleCause = staleCauseOf s,
                  ep_failure = reviewFailureOf s\<rparr>) (panel_plan s),
          rn_diagnostics = (\<not> idle)\<rparr>)"

definition panel_banners :: "(json \<Rightarrow> plan_body) \<Rightarrow> job_state \<Rightarrow> banner_props list" where
  "panel_banners as_plan s =
     (let p = ActiveRunPanel as_plan s
      in (case rn_banner p of None \<Rightarrow> [] | Some b \<Rightarrow> [b])
       @ (case rn_editor p of None \<Rightarrow> [] | Some e \<Rightarrow> editor_banners e))"

definition FollowUpComposer :: "job_state \<Rightarrow> bool \<times> api_failure option" where
  "FollowUpComposer s =
     (phase s = Ph_submitting, if phase s = Ph_submit_failed then failure s else None)"

text \<open>
  The banners of the loaded thread page, in the order of the document: the run panel's, those of the
  turns, the composer's. \<open>turns\<close> are the turns of the timeline (\<open>Frame_loaded\<close>), each with whether it is
  open; an open one is read by \<open>ReportReader\<close>, whose banner is that of a failed run. \<open>renderer\<close> says for
  which turns the Markdown module has arrived. The thread rail beside the page has its own
  (\<open>rail_banner\<close>).
\<close>

definition turn_banners :: "(briefing \<Rightarrow> bool) \<Rightarrow> (briefing \<times> bool) list \<Rightarrow> banner_props list" where
  "turn_banners renderer turns =
     concat (map (\<lambda>(b, expanded).
       if expanded
       then (case rd_banner (ReportReader (br_markdown b) (renderer b) (br_failure b)) of
               None \<Rightarrow> [] | Some r \<Rightarrow> [briefing_banner r])
       else []) turns)"

definition composer_banners :: "job_state \<Rightarrow> banner_props list" where
  "composer_banners s =
     (case composer_banner (snd (FollowUpComposer s)) None of None \<Rightarrow> [] | Some b \<Rightarrow> [b])"

definition page_banners ::
  "(json \<Rightarrow> plan_body) \<Rightarrow> (briefing \<Rightarrow> bool) \<Rightarrow> (briefing \<times> bool) list \<Rightarrow> job_state \<Rightarrow> banner_props list"
where
  "page_banners as_plan renderer turns s =
     panel_banners as_plan s @ turn_banners renderer turns @ composer_banners s"

section \<open>The trace spine\<close>

fun SEGMENT_MARK :: "segment_status \<Rightarrow> mark_shape" where
  "SEGMENT_MARK Seg_observed = Mark_circle"
| "SEGMENT_MARK Seg_live = Mark_ring"
| "SEGMENT_MARK Seg_not_observed = Mark_dashed_rule"
| "SEGMENT_MARK Seg_awaiting_review = Mark_diamond"
| "SEGMENT_MARK Seg_complete = Mark_square"
| "SEGMENT_MARK Seg_failed = Mark_slashed_square"
| "SEGMENT_MARK Seg_cancelled = Mark_hollow_square"
| "SEGMENT_MARK Seg_unavailable = Mark_dashed_square"

fun SEGMENT_TONE :: "segment_status \<Rightarrow> string" where
  "SEGMENT_TONE Seg_observed = ''text-signature-text''"
| "SEGMENT_TONE Seg_live = ''text-signature-text''"
| "SEGMENT_TONE Seg_not_observed = ''text-ink-faint''"
| "SEGMENT_TONE Seg_awaiting_review = ''text-review-text''"
| "SEGMENT_TONE Seg_complete = ''text-signature-text''"
| "SEGMENT_TONE Seg_failed = ''text-critical-text''"
| "SEGMENT_TONE Seg_cancelled = ''text-ink-muted''"
| "SEGMENT_TONE Seg_unavailable = ''text-ink-faint''"

definition SPINE_LEGEND :: "(mark_shape \<times> string) list" where
  "SPINE_LEGEND =
     [(Mark_circle, ''observed on this connection''), (Mark_dashed_rule, ''not observed''),
      (Mark_diamond, ''waiting for your review''), (Mark_square, ''complete''),
      (Mark_hollow_square, ''cancelled''), (Mark_dashed_square, ''no longer available'')]"

text \<open>A row of the ledger is what is said and what is shown; the flag is \<open>data-current\<close>.\<close>

datatype ledger_view =
  Ledger_absent | Ledger_sentence string | Ledger_rows bool "(string \<times> string) list"

definition CheckpointLedger :: "observed_checkpoint list \<Rightarrow> bool \<Rightarrow> bool \<Rightarrow> ledger_view" where
  "CheckpointLedger checkpoints hidden current =
     (if checkpoints = [] then
        (if hidden then Ledger_absent else Ledger_sentence (checkpointCount 0 @ ''.''))
      else Ledger_rows current
        (map (\<lambda>c. (observedCheckpoint (Some (oc_node c)), checkpointName (Some (oc_node c))))
           checkpoints))"

record segment_view =
  sv_name :: string
  sv_status :: segment_status
  sv_said :: string
  sv_word :: string
  sv_mark :: mark_shape
  sv_tone :: string

datatype legend_mode = Legend_open | Legend_disclosure | Legend_none

text \<open>The slot of the live badge: whether its box is only reserved, and the badge.\<close>

record status_row =
  sr_announcement :: string
  sr_detail :: "(string \<times> string) option"
  sr_badge :: "(bool \<times> (render_fault + badge_view)) option"

record spine_view =
  tv_state :: "spine_state option"
  tv_live :: bool
  tv_segments :: "segment_view list"
  tv_ledger :: ledger_view
  tv_void_current :: bool
  tv_void_word :: bool
  tv_status :: "status_row option"
  tv_legend :: "(bool \<times> (mark_shape \<times> string) list) option"

definition segment_view_of :: "spine_segment \<Rightarrow> segment_view" where
  "segment_view_of g =
     \<lparr>sv_name = sg_name g, sv_status = sg_status g, sv_said = segmentLabel (sg_name g) (sg_word g),
      sv_word = sg_word g, sv_mark = SEGMENT_MARK (sg_status g),
      sv_tone = SEGMENT_TONE (sg_status g)\<rparr>"

definition inert_segments :: "spine_segment list" where
  "inert_segments =
     map (\<lambda>name. \<lparr>sg_name = name, sg_status = Seg_not_observed,
                   sg_word = SEGMENT_WORD Seg_not_observed\<rparr>) SPINE_SEGMENTS"

definition status_row_of :: "spine_model \<Rightarrow> status_row" where
  "status_row_of m =
     \<lparr>sr_announcement = sm_announcement m,
      sr_detail = map_option (\<lambda>d. (sm_separator m, d)) (sm_detail m),
      sr_badge =
        (if sm_live m \<or> socketExpected (sm_id m)
         then Some (\<not> sm_live m,
                StatusBadge Sev_live (Some (SEGMENT_WORD Seg_live)) None (sm_live m))
         else None)\<rparr>"

definition TraceSpine :: "spine_inputs option \<Rightarrow> legend_mode \<Rightarrow> spine_view" where
  "TraceSpine inputs legend =
     (let model = map_option describeSpine inputs;
          segments = (case model of Some m \<Rightarrow> sm_segments m | None \<Rightarrow> inert_segments);
          current = (case model of Some m \<Rightarrow> sm_current m | None \<Rightarrow> False)
      in \<lparr>tv_state = map_option sm_id model,
          tv_live = (case model of Some m \<Rightarrow> sm_live m | None \<Rightarrow> False),
          tv_segments = map segment_view_of segments,
          tv_ledger = (case model of
              Some m \<Rightarrow> CheckpointLedger (sm_ledger m) True (sm_current m)
            | None \<Rightarrow> Ledger_absent),
          tv_void_current = current,
          tv_void_word = (sg_status (segments ! RUN_INDEX) \<noteq> Seg_not_observed),
          tv_status = map_option status_row_of model,
          tv_legend = (case legend of
              Legend_none \<Rightarrow> None
            | Legend_open \<Rightarrow> Some (False, SPINE_LEGEND)
            | Legend_disclosure \<Rightarrow> Some (True, SPINE_LEGEND))\<rparr>)"

section \<open>Invariants of the machine the surfaces rely on\<close>

text \<open>A submission starts from nothing, and a failed one has only its own failure.\<close>

definition submit_inv :: "job_state \<Rightarrow> bool" where
  "submit_inv s \<longleftrightarrow>
     (phase s = Ph_submitting \<longrightarrow> plan s = None \<and> failureSource s = None)
   \<and> (phase s = Ph_submit_failed \<longrightarrow> plan s = None \<and> failureSource s = Some FS_submit)"

lemma adopted_phase: "phase (adoptDetail s d src) \<notin> {Ph_submitting, Ph_submit_failed}"
  using phase_adoptDetail [of s d src] by auto

lemma submit_inv_step: "submit_inv s \<Longrightarrow> submit_inv (jobReducer s e)"
  unfolding jobReducer_def
  by (cases "phase s"; cases e;
      simp add: submit_inv_def handler_defs Let_def adopted_phase [simplified]
      split: option.split)

interpretation submitted: reducer jobReducer initialJobState submit_inv
  by unfold_locales (simp add: submit_inv_def initialJobState_def, rule submit_inv_step)

section \<open>What the page announces\<close>

lemma described_word: "cp_word (describeFailure f) \<noteq> []"
proof -
  have "cp_word (describeFailure f) = cp_word (FAILURE_COPY (failure_kind f))"
    by (simp add: describeFailure_def Let_def split: api_failure.split option.split)
  then show ?thesis by (cases "failure_kind f") (simp_all add: failure_entry_def)
qed

lemma banner_renders:
  assumes "bp_userTriggered b \<longleftrightarrow> bp_severity b \<in> set ALERT_SEVERITIES" "bp_word b \<noteq> Some []"
  shows "\<exists>v. StatusBanner b = Inr v \<and> bv_alert v = (bp_severity b \<in> set ALERT_SEVERITIES)
    \<and> bv_sentence v = bp_sentence b"
proof -
  have word: "(case bp_word b of Some w \<Rightarrow> w | None \<Rightarrow> SEVERITY_WORD (bp_severity b)) \<noteq> []"
    using assms(2) by (cases "bp_word b"; cases "bp_severity b") simp_all
  show ?thesis
    using assms(1) word by (simp add: StatusBanner_def StatusBadge_def)
qed

lemmas failure_banner_simps = failure_banner_def banner_def

lemma editor_banners_one: "length (editor_banners p) \<le> 1"
  by (cases "ep_failure p")
     (simp_all add: editor_banners_def failed_review_def stale_banner_def Let_def)

lemma panel_editor:
  "rn_editor (ActiveRunPanel as_plan s) = None \<longleftrightarrow> panel_plan s = None"
  by (simp add: ActiveRunPanel_def Let_def)

text \<open>The panel passes the editor the issues of the failure it passes.\<close>

lemma panel_passes:
  "rn_editor (ActiveRunPanel as_plan s) = Some p \<Longrightarrow> ep_issues p = fields_named (ep_failure p)"
  by (auto simp: ActiveRunPanel_def Let_def fields_named_def reviewIssuesOf_def)

lemma panel_banners_one:
  assumes "submit_inv s"
  shows "length (panel_banners as_plan s) \<le> 1"
proof (cases "panel_plan s")
  case None
  then show ?thesis
    by (simp add: panel_banners_def ActiveRunPanel_def Let_def split: option.split)
next
  case (Some p)
  then have "phase s \<noteq> Ph_submit_failed"
    using assms by (auto simp: submit_inv_def panel_plan_def isReviewPause_def split: if_splits)
  then have "announced s = None" using Some by (simp add: announced_def)
  then show ?thesis
    using Some by (simp add: panel_banners_def ActiveRunPanel_def Let_def editor_banners_one [simplified])
qed

lemma machine_banner_ok:
  assumes "b \<in> set (panel_banners as_plan s @ composer_banners s)"
  shows "(bp_userTriggered b \<longleftrightarrow> bp_severity b \<in> set ALERT_SEVERITIES) \<and> bp_word b \<noteq> Some []"
  using assms
  by (auto simp: composer_banners_def panel_banners_def ActiveRunPanel_def Let_def editor_banners_def
      composer_banner_def failure_banner_simps described_word failed_review_def stale_banner_def
      ALERT_SEVERITIES_def split: option.splits if_splits)

text \<open>How a banner comes out: it renders, with its sentence, and is an alert or is not.\<close>

definition shown_as :: "bool \<Rightarrow> banner_props \<Rightarrow> bool" where
  "shown_as alert b \<longleftrightarrow>
     (case StatusBanner b of Inl e \<Rightarrow> False
      | Inr v \<Rightarrow> bv_sentence v = bp_sentence b \<and> bv_alert v = alert)"

lemma briefing_banner_shown:
  "rd_banner (ReportReader markdown renderer fault) = Some r \<Longrightarrow> shown_as False (briefing_banner r)"
  by (auto simp: shown_as_def StatusBanner_def StatusBadge_def banner_def ALERT_SEVERITIES_def
      briefing_banner_def ReportReader_def Let_def split: option.splits if_splits)

lemma turn_banners_shown: "list_all (shown_as False) (turn_banners renderer turns)"
proof (induction turns)
  case (Cons x turns)
  obtain b expanded where x: "x = (b, expanded)" by (cases x)
  show ?case
    using Cons briefing_banner_shown [of "br_markdown b" "renderer b" "br_failure b"]
    by (auto simp: turn_banners_def x split: option.split)
qed (simp add: turn_banners_def)

text \<open>One for every open turn whose run failed.\<close>

lemma turn_banners_count:
  "length (turn_banners renderer turns) = length (filter (\<lambda>(b, expanded). expanded \<and> br_failure b \<noteq> None) turns)"
proof (induction turns)
  case (Cons x turns)
  obtain b expanded where x: "x = (b, expanded)" by (cases x)
  have "rd_banner (ReportReader (br_markdown b) (renderer b) (br_failure b)) = None \<longleftrightarrow> br_failure b = None"
    by (cases "br_failure b") (simp_all add: ReportReader_def Let_def)
  then show ?case
    using Cons by (auto simp: turn_banners_def x split: option.split)
qed (simp add: turn_banners_def)

lemma submit_failed_page:
  assumes "submit_inv s" "phase s = Ph_submit_failed"
  shows "map bp_sentence (panel_banners as_plan s)
      = (case failure s of None \<Rightarrow> [] | Some f \<Rightarrow> [cp_sentence (describeFailure f)])"
    and "map bp_sentence (composer_banners s)
      = (case failure s of None \<Rightarrow> [] | Some f \<Rightarrow> [cp_sentence (describeFailure f)])"
proof -
  have "panel_plan s = None"
    using assms by (simp add: submit_inv_def panel_plan_def isReviewPause_def)
  then show "map bp_sentence (panel_banners as_plan s)
      = (case failure s of None \<Rightarrow> [] | Some f \<Rightarrow> [cp_sentence (describeFailure f)])"
    using assms(2)
    by (cases "failure s")
       (simp_all add: panel_banners_def ActiveRunPanel_def Let_def announced_def failure_banner_simps)
  show "map bp_sentence (composer_banners s)
      = (case failure s of None \<Rightarrow> [] | Some f \<Rightarrow> [cp_sentence (describeFailure f)])"
    using assms(2)
    by (cases "failure s")
       (simp_all add: composer_banners_def FollowUpComposer_def composer_banner_def failure_banner_simps)
qed

text \<open>When the panel says nothing of a failed review.\<close>

definition review_unsaid :: "job_state \<Rightarrow> bool" where
  "review_unsaid s \<longleftrightarrow>
     (case failure s of
        Some f \<Rightarrow> panel_plan s \<noteq> None \<and> reviewIssuesOf s \<noteq> [] \<and> planStatusOf s \<noteq> PS_stale
      | None \<Rightarrow> panel_plan s = None \<or> planStatusOf s \<noteq> PS_stale)"

lemma review_failure_shown:
  assumes "submit_inv s" "failureSource s = Some FS_review"
  shows "panel_banners as_plan s = [] \<longleftrightarrow> review_unsaid s"
proof -
  have phase: "phase s \<noteq> Ph_submit_failed" using assms by (auto simp: submit_inv_def)
  show ?thesis
  proof (cases "panel_plan s")
    case None
    then show ?thesis
      using phase assms(2)
      by (cases "failure s")
        (simp_all add: review_unsaid_def panel_banners_def ActiveRunPanel_def Let_def announced_def
          reviewFailureOf_def)
  next
    case (Some p)
    then have panel: "panel_banners as_plan s = editor_banners (the (rn_editor (ActiveRunPanel as_plan s)))"
      using phase by (simp add: panel_banners_def ActiveRunPanel_def Let_def announced_def)
    show ?thesis
    proof (cases "failure s")
      case None
      then show ?thesis
        using Some assms(2) unfolding panel
        by (simp add: review_unsaid_def ActiveRunPanel_def Let_def editor_banners_def failed_review_def
            stale_banner_def reviewFailureOf_def)
    next
      case (Some f)
      then show ?thesis
        using \<open>panel_plan s = Some p\<close> assms(2) unfolding panel
        by (cases f)
          (auto simp: review_unsaid_def ActiveRunPanel_def Let_def editor_banners_def failed_review_def
            stale_banner_def reviewFailureOf_def reviewIssuesOf_def)
    qed
  qed
qed

text \<open>
  C7. What the loaded thread page announces in every run of the machine and with any turns in the
  timeline. No banner of it throws. One of the run panel or of the composer is a \<open>role="alert"\<close> exactly
  when its severity is a failure, and there is one at most in the panel, the editor in it included;
  the banner of a failed run is shown by every open turn that has one, and is no alert. After a
  failed submission the panel and the composer both show the failure, with the same sentence, or
  neither shows anything, when the error was not normalised; otherwise the composer shows none. And
  after a failed review the panel is silent in exactly these cases: the failure is one whose fields
  are handed to the rows of the editor, or the error was not normalised and no conflict is shown, and
  then nothing on the page says that the review failed.
\<close>

theorem page_announces:
  "let s = runs jobReducer initialJobState es;
       panel = panel_banners as_plan s; inTurns = turn_banners renderer turns; below = composer_banners s
   in page_banners as_plan renderer turns s = panel @ inTurns @ below
    \<and> list_all (\<lambda>b. shown_as (bp_severity b \<in> set ALERT_SEVERITIES) b) (panel @ below)
    \<and> list_all (shown_as False) inTurns
    \<and> length panel \<le> 1
    \<and> length inTurns = length (filter (\<lambda>(b, expanded). expanded \<and> br_failure b \<noteq> None) turns)
    \<and> (if phase s = Ph_submit_failed
       then map bp_sentence panel = map bp_sentence below
          \<and> map bp_sentence below
              = (case failure s of None \<Rightarrow> [] | Some f \<Rightarrow> [cp_sentence (describeFailure f)])
       else below = [])
    \<and> (if failureSource s = Some FS_review then panel = [] \<longleftrightarrow> review_unsaid s else True)"
proof -
  let ?s = "runs jobReducer initialJobState es"
  have inv: "submit_inv ?s" by (rule submitted.inv_from_init)
  have "list_all (\<lambda>b. shown_as (bp_severity b \<in> set ALERT_SEVERITIES) b)
      (panel_banners as_plan ?s @ composer_banners ?s)"
    unfolding list_all_iff
  proof
    fix b assume "b \<in> set (panel_banners as_plan ?s @ composer_banners ?s)"
    then show "shown_as (bp_severity b \<in> set ALERT_SEVERITIES) b"
      using machine_banner_ok [of b as_plan ?s] banner_renders [of b] by (auto simp: shown_as_def)
  qed
  moreover have "composer_banners ?s = []" if "phase ?s \<noteq> Ph_submit_failed"
    using that by (simp add: composer_banners_def FollowUpComposer_def composer_banner_def)
  ultimately show ?thesis
    using submit_failed_page [OF inv] panel_banners_one [OF inv] review_failure_shown [OF inv]
      turn_banners_shown turn_banners_count
    by (simp add: Let_def page_banners_def)
qed

text \<open>
  Both halves happen: a rejected submission is announced twice by the page, and one whose
  rejection is not an \<open>ApiError\<close> (an answer whose body cannot be read) leaves no banner at all,
  while the landing page falls back to a sentence for it. A review that is rejected so is not
  announced either, although the plan and the editor are on screen.
\<close>

definition rejected_run :: "api_failure option \<Rightarrow> job_event list" where
  "rejected_run fault =
     [Ev_submit_requested ''1'' ''question'' (Some ''c'') 0,
      Ev_submit_rejected ''1'' fault ''m'' None 1]"

lemma alerts_of_a_rejected_submission:
  "let s = runs jobReducer initialJobState (rejected_run (Some f)); bs = page_banners as_plan renderer [] s
   in length bs = 2 \<and> bp_sentence (bs ! 0) = bp_sentence (bs ! 1)
      \<and> bp_severity (bs ! 0) = bp_severity (bs ! 1)"
  "page_banners as_plan renderer [] (runs jobReducer initialJobState (rejected_run None)) = []"
  "landing_failure l (runs jobReducer initialJobState (rejected_run None)) \<noteq> None"
  by (simp_all add: rejected_run_def jobReducer_def handler_defs Let_def page_banners_def
      panel_banners_def turn_banners_def composer_banners_def ActiveRunPanel_def announced_def
      panel_plan_def isReviewPause_def FollowUpComposer_def composer_banner_def failure_banner_simps
      landing_failure_def)

lemma unnormalised_review_is_silent:
  assumes "phase s = Ph_awaiting_review" "plan s \<noteq> None"
    and "t = jobReducer (jobReducer s (Ev_review_requested action at1))
      (Ev_review_rejected None message None at2)"
  shows "panel_plan t \<noteq> None \<and> failureSource t = Some FS_review \<and> panel_banners as_plan t = []"
  using assms
  by (auto simp: jobReducer_def handler_defs Let_def panel_plan_def isReviewPause_def
      panel_banners_def ActiveRunPanel_def announced_def editor_banners_def failed_review_def
      stale_banner_def reviewFailureOf_def planStatusOf_def is_conflict_def)

text \<open>The other banners of the product render as well.\<close>

lemma other_banners_render:
  "\<exists>v. StatusBanner (rail_banner n) = Inr v \<and> bv_alert v"
  "\<exists>v. StatusBanner load_error_banner = Inr v \<and> \<not> bv_alert v"
  by (cases n; simp add: StatusBanner_def StatusBadge_def banner_def ALERT_SEVERITIES_def)
     (simp add: StatusBanner_def StatusBadge_def banner_def load_error_banner_def)

section \<open>What the spine shows\<close>

lemma socket_states:
  assumes "job_inv s" "read_inv s" "spineInputs s now = Some inp" "connection s = Conn_open"
  shows "socketExpected (spineStateId inp)"
proof -
  have phases: "phase s \<notin> closed_phases" using assms(1,4) by (auto simp: job_inv_def)
  then have terminal: "\<not> terminal_detail s" using assms(2) by (auto simp: read_inv_def closed_phases_def)
  have status: "si_status inp = statusOf s" using assms(3) by (auto simp: spineInputs_def Let_def split: if_splits)
  have "statusOf s = SS_null \<or> (\<exists>st. statusOf s = SS_job st \<and> \<not> isTerminalJobStatus st)"
    using phases terminal
    by (auto simp: statusOf_def closed_phases_def terminal_detail_def split: option.splits)
  then show ?thesis
    by (auto simp: spineStateId_def Let_def status socketExpected_def SOCKET_EXPECTED_def
        STREAMING_def isTerminalJobStatus_def TERMINAL_JOB_STATUSES_def)
qed

lemma marks_are_words: "SEGMENT_MARK a = SEGMENT_MARK b \<longleftrightarrow> SEGMENT_WORD a = SEGMENT_WORD b"
  by (cases a; cases b) simp_all

lemma live_of_inputs:
  "spineInputs s now = Some inp \<Longrightarrow> sm_live (describeSpine inp) = (connection s = Conn_open)"
  by (auto simp: spineInputs_def describeSpine_def Let_def connectionOf_def split: if_splits)

lemma segment_names [simp]: "map sg_name (segmentsFor i inp) = SPINE_SEGMENTS"
  by (simp add: segmentsFor_def SPINE_SEGMENTS_def Let_def)

lemma segment_words: "g \<in> set (segmentsFor i inp) \<Longrightarrow> sg_word g = SEGMENT_WORD (sg_status g)"
  by (auto simp: segmentsFor_def Let_def)

lemma model_fields [simp]:
  "sm_id (describeSpine inp) = spineStateId inp"
  "sm_segments (describeSpine inp) = segmentsFor (spineStateId inp) inp"
  "sm_ledger (describeSpine inp) = ob_checkpoints (si_observation inp)"
  "sm_current (describeSpine inp) = ob_current (si_observation inp)"
  by (simp_all add: describeSpine_def Let_def)

lemma input_fields:
  assumes "spineInputs s now = Some inp"
  shows "ob_checkpoints (si_observation inp) = observed s"
    "ob_current (si_observation inp) = checkpointIsCurrent s"
  using assms by (auto simp: spineInputs_def Let_def split: if_splits)

lemma spine_segments:
  "map sv_name (tv_segments (TraceSpine inputs legend)) = SPINE_SEGMENTS"
  "list_all (\<lambda>g. list_all (\<lambda>h. (sv_mark g = sv_mark h) = (sv_word g = sv_word h))
     (tv_segments (TraceSpine inputs legend))) (tv_segments (TraceSpine inputs legend))"
proof -
  define shown where
    "shown = (case inputs of Some inp \<Rightarrow> sm_segments (describeSpine inp) | None \<Rightarrow> inert_segments)"
  have segments: "tv_segments (TraceSpine inputs legend) = map segment_view_of shown"
    by (cases inputs) (simp_all add: TraceSpine_def Let_def shown_def)
  have "map sg_name shown = SPINE_SEGMENTS"
    by (cases inputs) (simp_all add: shown_def inert_segments_def comp_def)
  then show "map sv_name (tv_segments (TraceSpine inputs legend)) = SPINE_SEGMENTS"
    by (simp add: segments segment_view_of_def comp_def)
  have "g \<in> set shown \<Longrightarrow> sg_word g = SEGMENT_WORD (sg_status g)" for g
    by (cases inputs) (auto simp: shown_def inert_segments_def segment_words)
  then show "list_all (\<lambda>g. list_all (\<lambda>h. (sv_mark g = sv_mark h) = (sv_word g = sv_word h))
     (tv_segments (TraceSpine inputs legend))) (tv_segments (TraceSpine inputs legend))"
    by (auto simp: segments list_all_iff segment_view_of_def marks_are_words)
qed

text \<open>
  C11. What the spine shows in every run of the machine: the four segments in order, where two
  marks are equal exactly when their words are; exactly the checkpoints observed on this
  connection, each under the label that arrived; and the live badge in a box that is there
  whenever the state expects a socket, and in no other state, visible and pulsing exactly while
  the connection is open: the box does not come and go with the socket.
\<close>

theorem spine_badge_is_reserved:
  "let s = runs jobReducer initialJobState es; v = TraceSpine (spineInputs s now) legend;
       open_now = (connection s = Conn_open)
   in map sv_name (tv_segments v) = SPINE_SEGMENTS
    \<and> list_all (\<lambda>g. list_all (\<lambda>h. (sv_mark g = sv_mark h) = (sv_word g = sv_word h))
        (tv_segments v)) (tv_segments v)
    \<and> (case spineInputs s now of
         None \<Rightarrow> tv_status v = None \<and> tv_ledger v = Ledger_absent \<and> \<not> tv_live v
       | Some inp \<Rightarrow>
           tv_live v = open_now
         \<and> tv_ledger v = (if observed s = [] then Ledger_absent
             else Ledger_rows (checkpointIsCurrent s)
               (map (\<lambda>c. (''observed '' @ checkpointName (Some (oc_node c)),
                           checkpointName (Some (oc_node c)))) (observed s)))
         \<and> map_option sr_badge (tv_status v) = Some
             (if socketExpected (spineStateId inp)
              then Some (\<not> open_now, Inr \<lparr>bg_severity = Sev_live, bg_role = Role_signature,
                     bg_mark = Mark_ring, bg_pulsing = open_now, bg_word = ''Live''\<rparr>)
              else None))"
proof -
  let ?s = "runs jobReducer initialJobState es"
  have expected: "connection ?s = Conn_open \<Longrightarrow> socketExpected (spineStateId inp)"
    if "spineInputs ?s now = Some inp" for inp
    using that by (intro socket_states [OF job.inv_from_init shown.inv_from_init])
  show ?thesis
  proof (cases "spineInputs ?s now")
    case None
    then show ?thesis using spine_segments [of None legend] by (simp add: TraceSpine_def Let_def)
  next
    case (Some inp)
    then show ?thesis
      using expected [OF Some] spine_segments [of "Some inp" legend]
      by (auto simp: TraceSpine_def Let_def CheckpointLedger_def observedCheckpoint_def
          status_row_of_def StatusBadge_def input_fields [OF Some] live_of_inputs [OF Some])
  qed
qed

end
