(* ===== verification/Run_Metrics.thy ===== *)
theory Run_Metrics
  imports Thread_View
begin

text \<open>
  The numbers of a run: the strip under a briefing
  (\<open>web/components/patterns/MetricsStrip.tsx\<close> with \<open>web/lib/copy/metrics.ts\<close>), which turn
  shows one (\<open>TimelineTurn\<close> in \<open>web/components/features/ThreadTimeline.tsx\<close>), and the line of a
  completed run in \<open>web/lib/copy/run.ts\<close>. \<open>Number.prototype.toFixed\<close> is the parameter \<open>fixed\<close>
  (the number of places first): it rounds a double, and nothing here depends on how.
\<close>

section \<open>Reading the numbers\<close>

text \<open>What a field of a response can be: \<open>undefined\<close>, \<open>null\<close>, a finite number, or another one.\<close>

datatype metric_source = Src_undefined | Src_null | Src_number jnum | Src_not_finite

record run_metrics_source =
  rs_iterations :: metric_source
  rs_quality_score :: metric_source
  rs_cost_usd :: metric_source
  rs_llm_calls :: metric_source
  rs_elapsed_sec :: metric_source

record run_metrics =
  rm_iterations :: "jnum option"
  rm_qualityScore :: "jnum option"
  rm_costUsd :: "jnum option"
  rm_llmCalls :: "jnum option"
  rm_elapsedSec :: "jnum option"

fun finite_metric :: "metric_source \<Rightarrow> jnum option" where
  "finite_metric (Src_number n) = Some n"
| "finite_metric _ = None"

definition readRunMetrics :: "run_metrics_source \<Rightarrow> run_metrics" where
  "readRunMetrics d =
     \<lparr>rm_iterations = finite_metric (rs_iterations d),
      rm_qualityScore = finite_metric (rs_quality_score d),
      rm_costUsd = finite_metric (rs_cost_usd d),
      rm_llmCalls = finite_metric (rs_llm_calls d),
      rm_elapsedSec = finite_metric (rs_elapsed_sec d)\<rparr>"

text \<open>The fields of a job record as the strip reads them: each is there, a number or \<open>null\<close>.\<close>

definition metric_of :: "jnum option \<Rightarrow> metric_source" where
  "metric_of v = (case v of Some n \<Rightarrow> Src_number n | None \<Rightarrow> Src_null)"

definition detail_metrics :: "job_detail \<Rightarrow> run_metrics_source" where
  "detail_metrics d =
     \<lparr>rs_iterations = metric_of (jd_iterations d), rs_quality_score = metric_of (jd_quality_score d),
      rs_cost_usd = metric_of (jd_cost_usd d), rs_llm_calls = metric_of (jd_llm_calls d),
      rs_elapsed_sec = metric_of (jd_elapsed_sec d)\<rparr>"

section \<open>Formats\<close>

definition formatCount :: "jnum \<Rightarrow> string" where
  "formatCount v = show_num v"

definition formatScore :: "(nat \<Rightarrow> jnum \<Rightarrow> string) \<Rightarrow> jnum \<Rightarrow> string" where
  "formatScore fixed v = fixed 2 v"

definition formatCost :: "(nat \<Rightarrow> jnum \<Rightarrow> string) \<Rightarrow> jnum \<Rightarrow> string" where
  "formatCost fixed v = CHR ''$'' # fixed 4 v"

definition formatDuration :: "(nat \<Rightarrow> jnum \<Rightarrow> string) \<Rightarrow> jnum \<Rightarrow> string" where
  "formatDuration fixed v = fixed 1 v @ ''s''"

text \<open>Key, label, reader and format, in the order of the strip.\<close>

definition FIELDS ::
  "(nat \<Rightarrow> jnum \<Rightarrow> string)
     \<Rightarrow> (string \<times> string \<times> (run_metrics \<Rightarrow> jnum option) \<times> (jnum \<Rightarrow> string)) list"
where
  "FIELDS fixed =
     [(''iterations'', ''Iterations'', rm_iterations, formatCount),
      (''qualityScore'', ''Quality score'', rm_qualityScore, formatScore fixed),
      (''costUsd'', ''Cost'', rm_costUsd, formatCost fixed),
      (''llmCalls'', ''LLM calls'', rm_llmCalls, formatCount),
      (''elapsedSec'', ''Duration'', rm_elapsedSec, formatDuration fixed)]"

section \<open>The strip\<close>

datatype metric_cell = Cell_reported string | Cell_absent string string

record metrics_strip =
  ms_absent :: bool
  ms_cells :: "(string \<times> string \<times> metric_cell) list"
  ms_note :: "string option"

definition METRICS_absent :: string where
  "METRICS_absent = [CHR 0x97]"

definition METRICS_absentNote :: string where
  "METRICS_absentNote = ''A dash means the run did not report that number.''"

definition MetricsStrip :: "(nat \<Rightarrow> jnum \<Rightarrow> string) \<Rightarrow> run_metrics \<Rightarrow> metrics_strip" where
  "MetricsStrip fixed m =
     (let hasAbsent = list_ex (\<lambda>(key, label, get, format). get m = None) (FIELDS fixed)
      in \<lparr>ms_absent = hasAbsent,
          ms_cells = map (\<lambda>(key, label, get, format).
              (key, label, case get m of
                 None \<Rightarrow> Cell_absent METRICS_absent NOT_REPORTED
               | Some v \<Rightarrow> Cell_reported (format v))) (FIELDS fixed),
          ms_note = (if hasAbsent then Some METRICS_absentNote else None)\<rparr>)"

text \<open>
  A turn's strip: the record of the machine for the live turn, the one read for an expanded
  turn otherwise, and none while neither is there or the turn is collapsed.
\<close>

definition turn_strip ::
  "(nat \<Rightarrow> jnum \<Rightarrow> string) \<Rightarrow> bool \<Rightarrow> job_state \<Rightarrow> (string \<Rightarrow> job_detail option) \<Rightarrow> briefing
     \<Rightarrow> metrics_strip option"
where
  "turn_strip fixed expanded s jobs b =
     (let watched = (if br_live b then detail s else None);
          retained = Option.bind (retained_read expanded b) jobs;
          metrics = (case watched of Some d \<Rightarrow> Some d | None \<Rightarrow> retained)
      in if expanded
         then map_option (\<lambda>d. MetricsStrip fixed (readRunMetrics (detail_metrics d))) metrics
         else None)"

section \<open>The line of a completed run\<close>

definition completedStatusLine ::
  "(nat \<Rightarrow> jnum \<Rightarrow> string) \<Rightarrow> jnum option \<Rightarrow> jnum option \<Rightarrow> jnum option \<Rightarrow> jnum option \<Rightarrow> string"
where
  "completedStatusLine fixed elapsedSec qualityScore costUsd llmCalls =
     join ('' '' @ [CHR 0xB7] @ '' '')
       ([case elapsedSec of
           None \<Rightarrow> ''Complete '' @ [CHR 0xB7] @ '' duration '' @ NOT_REPORTED
         | Some v \<Rightarrow> ''Complete in '' @ fixed 1 v @ '' s'']
        @ (case qualityScore of None \<Rightarrow> [] | Some v \<Rightarrow> [''quality '' @ fixed 2 v])
        @ (case costUsd of None \<Rightarrow> [] | Some v \<Rightarrow> [CHR ''$'' # fixed 4 v])
        @ (case llmCalls of None \<Rightarrow> []
           | Some v \<Rightarrow> [show_num v @ '' call'' @ (if v = JInt 1 then '''' else ''s'')]))"

section \<open>Laws\<close>

text \<open>
  Five cells in a fixed order; a cell is a dash exactly when its number was not reported as a
  finite one, and the note that explains the dash is there exactly when a dash is.
\<close>

lemma metrics_strip_cells:
  "let v = MetricsStrip fixed (readRunMetrics d)
   in map fst (ms_cells v) = [''iterations'', ''qualityScore'', ''costUsd'', ''llmCalls'', ''elapsedSec'']
    \<and> (ms_note v \<noteq> None) = (\<exists>(key, label, cell) \<in> set (ms_cells v). \<exists>a r. cell = Cell_absent a r)
    \<and> list_all2 (\<lambda>src (key, label, cell). (\<exists>n. src = Src_number n) = (\<exists>t. cell = Cell_reported t))
        [rs_iterations d, rs_quality_score d, rs_cost_usd d, rs_llm_calls d, rs_elapsed_sec d]
        (ms_cells v)"
proof -
  have shape: "(\<exists>n. src = Src_number n) = (finite_metric src \<noteq> None)" for src
    by (cases src) simp_all
  show ?thesis
    by (auto simp: MetricsStrip_def FIELDS_def readRunMetrics_def Let_def shape
        split: option.splits)
qed

text \<open>
  Whose numbers a turn shows: the live turn's are the machine's record, another turn's are the
  record read under its own id, and a collapsed turn reads and shows none.
\<close>

lemma turn_numbers:
  "turn_strip fixed expanded s jobs b =
     (if \<not> expanded then None
      else map_option (\<lambda>d. MetricsStrip fixed (readRunMetrics (detail_metrics d)))
        (if br_live b then detail s else jobs (br_jobId b)))"
  by (simp add: turn_strip_def retained_read_def Let_def split: option.split)

end
