(* ===== verification/Stable_Sort.thy ===== *)
theory Stable_Sort
  imports JS_Base "HOL-Library.Multiset"
begin

text \<open>
  \<open>Array.prototype.sort\<close> with a comparator, as a stable insertion sort: \<open>le x y\<close> is true where the
  comparator answers at most zero. For a comparator that is a total preorder the result of a
  stable sort is unique, so that this is what every conforming engine answers.
\<close>

fun insert_by :: "('a \<Rightarrow> 'a \<Rightarrow> bool) \<Rightarrow> 'a \<Rightarrow> 'a list \<Rightarrow> 'a list" where
  "insert_by le x [] = [x]"
| "insert_by le x (y # ys) = (if le x y then x # y # ys else y # insert_by le x ys)"

definition sort_by :: "('a \<Rightarrow> 'a \<Rightarrow> bool) \<Rightarrow> 'a list \<Rightarrow> 'a list" where
  "sort_by le xs = foldr (insert_by le) xs []"

lemma sort_by_Nil [simp]: "sort_by le [] = []"
  by (simp add: sort_by_def)

lemma sort_by_Cons [simp]: "sort_by le (x # xs) = insert_by le x (sort_by le xs)"
  by (simp add: sort_by_def)

lemma mset_insert_by [simp]: "mset (insert_by le x xs) = add_mset x (mset xs)"
  by (induction xs) auto

lemma mset_sort_by [simp]: "mset (sort_by le xs) = mset xs"
  by (induction xs) simp_all

lemma set_insert_by [simp]: "set (insert_by le x xs) = insert x (set xs)"
  by (induction xs) auto

lemma set_sort_by [simp]: "set (sort_by le xs) = set xs"
  by (induction xs) simp_all

lemma length_sort_by [simp]: "length (sort_by le xs) = length xs"
  by (metis mset_sort_by size_mset)

lemma sort_by_empty [simp]: "sort_by le xs = [] \<longleftrightarrow> xs = []"
  by (metis length_0_conv length_sort_by)

text \<open>What a comparator owes on the values at hand: any two compare, and \<open>at most\<close> is transitive.\<close>

definition comparator_on :: "'a set \<Rightarrow> ('a \<Rightarrow> 'a \<Rightarrow> bool) \<Rightarrow> bool" where
  "comparator_on A le \<longleftrightarrow>
     (\<forall>x\<in>A. \<forall>y\<in>A. le x y \<or> le y x)
   \<and> (\<forall>x\<in>A. \<forall>y\<in>A. \<forall>z\<in>A. le x y \<longrightarrow> le y z \<longrightarrow> le x z)"

text \<open>It answers zero for equal values only.\<close>

definition separates_on :: "'a set \<Rightarrow> ('a \<Rightarrow> 'a \<Rightarrow> bool) \<Rightarrow> bool" where
  "separates_on A le \<longleftrightarrow> (\<forall>x\<in>A. \<forall>y\<in>A. le x y \<longrightarrow> le y x \<longrightarrow> x = y)"

lemma comparator_on_subset: "comparator_on B le \<Longrightarrow> A \<subseteq> B \<Longrightarrow> comparator_on A le"
  unfolding comparator_on_def by (meson subsetD)

lemma separates_on_subset: "separates_on B le \<Longrightarrow> A \<subseteq> B \<Longrightarrow> separates_on A le"
  unfolding separates_on_def by (meson subsetD)

lemma sorted_insert_by:
  assumes "comparator_on A le" "sorted_wrt le xs" "x \<in> A" "set xs \<subseteq> A"
  shows "sorted_wrt le (insert_by le x xs)"
  using assms(2,4)
proof (induction xs)
  case (Cons y ys)
  show ?case
  proof (cases "le x y")
    case True
    moreover have "le y z" "y \<in> A" "z \<in> A" if "z \<in> set ys" for z
      using that Cons.prems by auto
    ultimately have "le x z" if "z \<in> set ys" for z
      using that assms(1,3) unfolding comparator_on_def by blast
    then show ?thesis using True Cons.prems by simp
  next
    case False
    then have "le y x" using assms(1,3) Cons.prems by (auto simp: comparator_on_def)
    then show ?thesis using False Cons by simp
  qed
qed simp

lemma sorted_sort_by:
  assumes "comparator_on A le" "set xs \<subseteq> A"
  shows "sorted_wrt le (sort_by le xs)"
  using assms(2)
proof (induction xs)
  case (Cons x xs)
  then have "sorted_wrt le (sort_by le xs)" "x \<in> A" "set (sort_by le xs) \<subseteq> A" by auto
  then show ?case by (simp only: sort_by_Cons sorted_insert_by [OF assms(1)])
qed simp

lemma filter_insert_by:
  assumes "\<And>y. P y \<Longrightarrow> le x y"
  shows "filter P (insert_by le x xs) = (if P x then x # filter P xs else filter P xs)"
  using assms by (induction xs) auto

text \<open>Stability: the elements of a class of equals keep their order.\<close>

lemma sort_by_stable:
  assumes "\<And>x y. P x \<Longrightarrow> P y \<Longrightarrow> le x y"
  shows "filter P (sort_by le xs) = filter P xs"
proof (induction xs)
  case (Cons x xs)
  have "filter P (insert_by le x ys) = (if P x then x # filter P ys else filter P ys)" for ys
    using assms by (cases "P x") (auto simp: filter_insert_by, induction ys, auto)
  then show ?case using Cons by simp
qed simp

end
