(* ===== verification/Learn_Ledger.thy ===== *)
theory Learn_Ledger
  imports Stable_Sort JS_Lookup
begin

text \<open>
  The learner's record: the sentences of \<open>web/lib/copy/ledger.ts\<close>, the rows, the count of what is
  withheld and the page of \<open>web/components/patterns/LedgerView.tsx\<close>, and the three states of
  \<open>web/components/features/LedgerSurface.tsx\<close>. \<open>localeCompare\<close> is the parameter \<open>le\<close> (true where it
  answers at most zero).
\<close>

section \<open>Copy\<close>

definition LEDGER_observed :: string where
  "LEDGER_observed = ''Observed''"

definition LEDGER_notObserved :: string where
  "LEDGER_notObserved = ''Not yet observed''"

definition LEDGER_notObservedBody :: string where
  "LEDGER_notObservedBody = ''No assessment event has been recorded against this path. That is an ''
     @ ''absence in the record, not a result.''"

definition LEDGER_emptyBody :: string where
  "LEDGER_emptyBody = ''Nothing has been recorded on this deployment. When a guided session ''
     @ ''ends, it appears here with the events behind it.''"

definition EVIDENCE_KIND_LABEL :: "(string \<times> string) list" where
  "EVIDENCE_KIND_LABEL =
     [(''assessment'', ''Explain-back recorded''), (''artifact_produced'', ''Briefing produced''),
      (''session_completed'', ''Session recorded''), (''review_item'', ''Review recorded''),
      (''plan_approved'', ''Path approved''), (''replan'', ''Path revised'')]"

definition EVIDENCE_KIND_FALLBACK :: string where
  "EVIDENCE_KIND_FALLBACK = ''Recorded event''"

definition evidenceKindLabel :: "string \<Rightarrow> string lookup" where
  "evidenceKindLabel kind = lookup_or EVIDENCE_KIND_LABEL kind EVIDENCE_KIND_FALLBACK"

text \<open>Four digits, a dash, two digits, a dash, two digits.\<close>

definition day_pattern :: "string \<Rightarrow> bool" where
  "day_pattern s \<longleftrightarrow>
     length s = 10
   \<and> list_all (\<lambda>(i, c). if i = 4 \<or> i = 7 then c = CHR ''-'' else digit_char c) (enumerate 0 s)"

definition recordedOn :: "string \<Rightarrow> string option" where
  "recordedOn ts = (if day_pattern (take 10 ts) then Some (''Recorded '' @ take 10 ts) else None)"

definition foldedFrom :: "int \<Rightarrow> string" where
  "foldedFrom n =
     (if n = 0 then ''Folded from no recorded events.''
      else ''Folded from '' @ show_int n @ '' recorded event''
             @ (if n = 1 then [] else ''s'') @ ''.'')"

definition assessmentCount :: "int \<Rightarrow> string" where
  "assessmentCount n =
     show_int n @ '' assessment'' @ (if n = 1 then [] else ''s'') @ '' recorded''"

definition scheduleFigure :: "string \<Rightarrow> string" where
  "scheduleFigure label = ''Schedule '' @ [CHR 0xB7] @ '' '' @ label"

definition withheldEvidence :: "nat \<Rightarrow> string option" where
  "withheldEvidence n =
     (if n = 0 then None
      else Some (show_nat n @ '' recorded event'' @ (if n = 1 then '' is'' else ''s are'')
        @ '' not listed here: '' @ (if n = 1 then ''it carries'' else ''they carry'')
        @ '' no evidence reference.''))"

section \<open>The record on the wire\<close>

record progress_evidence =
  pe_event_id :: string
  pe_kind :: string
  pe_evidence_ref :: "string option"
  pe_path_id :: "string option"
  pe_ts :: string

record progress_schedule =
  ps_path_id :: string
  ps_schedule_label :: string
  ps_assessments_recorded :: int
  ps_event_ids :: "string list"

record progress_summary =
  su_event_count :: int
  su_assessments :: "progress_evidence list"
  su_artifacts :: "progress_evidence list"
  su_schedule_progress :: "progress_schedule list"

section \<open>Rows\<close>

record evidence_row =
  er_eventId :: string
  er_kind :: string
  er_evidenceRef :: string
  er_pathId :: "string option"
  er_ts :: string
  er_eventIds :: "string list"

record schedule_row =
  sr_pathId :: string
  sr_label :: string
  sr_assessmentsRecorded :: int
  sr_eventIds :: "string list"

definition sourceEvents :: "progress_summary \<Rightarrow> progress_evidence list" where
  "sourceEvents summary = su_assessments summary @ su_artifacts summary"

definition hasEvidence :: "progress_evidence \<Rightarrow> bool" where
  "hasEvidence event = (case pe_evidence_ref event of Some r \<Rightarrow> trim r \<noteq> [] | None \<Rightarrow> False)"

definition evidence_row_of :: "progress_evidence \<Rightarrow> evidence_row" where
  "evidence_row_of event =
     \<lparr>er_eventId = pe_event_id event, er_kind = pe_kind event,
      er_evidenceRef = the (pe_evidence_ref event), er_pathId = pe_path_id event,
      er_ts = pe_ts event, er_eventIds = [pe_event_id event]\<rparr>"

definition newest_first :: "(string \<Rightarrow> string \<Rightarrow> bool) \<Rightarrow> evidence_row \<Rightarrow> evidence_row \<Rightarrow> bool" where
  "newest_first le left right =
     (if er_ts left = er_ts right then le (er_eventId left) (er_eventId right)
      else le (er_ts right) (er_ts left))"

definition evidenceRows :: "(string \<Rightarrow> string \<Rightarrow> bool) \<Rightarrow> progress_summary \<Rightarrow> evidence_row list" where
  "evidenceRows le summary =
     sort_by (newest_first le) (map evidence_row_of (filter hasEvidence (sourceEvents summary)))"

definition withheldCount :: "progress_summary \<Rightarrow> nat" where
  "withheldCount summary = length (filter (\<lambda>e. \<not> hasEvidence e) (sourceEvents summary))"

definition schedule_row_of :: "progress_evidence list \<Rightarrow> progress_schedule \<Rightarrow> schedule_row" where
  "schedule_row_of events entry =
     \<lparr>sr_pathId = ps_path_id entry, sr_label = ps_schedule_label entry,
      sr_assessmentsRecorded = ps_assessments_recorded entry,
      sr_eventIds = ps_event_ids entry
        @ map pe_event_id (filter (\<lambda>e. pe_path_id e = Some (ps_path_id entry)) events)\<rparr>"

definition scheduleRows :: "progress_summary \<Rightarrow> schedule_row list" where
  "scheduleRows summary =
     filter (\<lambda>row. length (sr_eventIds row) > 0)
       (map (schedule_row_of (sourceEvents summary)) (su_schedule_progress summary))"

section \<open>The page\<close>

text \<open>An evidence row: its label, its day, the path, the reference. A schedule row: whether it is
  marked observed, the figure and the sentence under it.\<close>

record ledger_page =
  lp_folded :: string
  lp_empty :: bool
  lp_evidence :: "(string lookup \<times> string option \<times> string option \<times> string) list"
  lp_schedule :: "(string \<times> string \<times> string) list"
  lp_withheld :: "string option"

definition EvidenceRow :: "evidence_row \<Rightarrow> string lookup \<times> string option \<times> string option \<times> string" where
  "EvidenceRow row =
     (evidenceKindLabel (er_kind row), recordedOn (er_ts row), er_pathId row, er_evidenceRef row)"

definition ScheduleRow :: "schedule_row \<Rightarrow> string \<times> string \<times> string" where
  "ScheduleRow row =
     (let observed = sr_assessmentsRecorded row > 0
      in (if observed then LEDGER_observed else LEDGER_notObserved, scheduleFigure (sr_label row),
          if observed then assessmentCount (sr_assessmentsRecorded row) else LEDGER_notObservedBody))"

definition LedgerView :: "(string \<Rightarrow> string \<Rightarrow> bool) \<Rightarrow> progress_summary \<Rightarrow> ledger_page" where
  "LedgerView le summary =
     (let evidence = evidenceRows le summary; schedule = scheduleRows summary
      in \<lparr>lp_folded = foldedFrom (su_event_count summary),
          lp_empty = (length evidence = 0 \<and> length schedule = 0),
          lp_evidence = map EvidenceRow evidence, lp_schedule = map ScheduleRow schedule,
          lp_withheld = withheldEvidence (withheldCount summary)\<rparr>)"

text \<open>A read of the query layer, and the surface over it.\<close>

datatype 'a read_state = Read_pending | Read_failed | Read_done 'a

datatype ledger_surface = Surface_loading | Surface_unavailable | Surface_record ledger_page

fun LedgerSurface ::
  "(string \<Rightarrow> string \<Rightarrow> bool) \<Rightarrow> progress_summary read_state \<Rightarrow> ledger_surface"
where
  "LedgerSurface le Read_pending = Surface_loading"
| "LedgerSurface le Read_failed = Surface_unavailable"
| "LedgerSurface le (Read_done summary) = Surface_record (LedgerView le summary)"

section \<open>Laws\<close>

lemma mset_evidenceRows:
  "mset (evidenceRows le s) = image_mset evidence_row_of (mset (filter hasEvidence (sourceEvents s)))"
  by (simp add: evidenceRows_def)

lemma set_evidenceRows:
  "set (evidenceRows le s) = evidence_row_of ` {e \<in> set (sourceEvents s). hasEvidence e}"
  by (simp add: evidenceRows_def)

lemma row_of_fields [simp]:
  "er_eventId (evidence_row_of e) = pe_event_id e" "er_ts (evidence_row_of e) = pe_ts e"
  by (simp_all add: evidence_row_of_def)

text \<open>Where the comparison is one, and separates the timestamps, the rows' comparison is one.\<close>

lemma newest_first_comparator:
  assumes "comparator_on (pe_ts ` E \<union> pe_event_id ` E) le" "separates_on (pe_ts ` E) le"
  shows "comparator_on (evidence_row_of ` E) (newest_first le)"
proof -
  have total: "le a b \<or> le b a" if "a \<in> pe_ts ` E \<union> pe_event_id ` E" "b \<in> pe_ts ` E \<union> pe_event_id ` E" for a b
    using assms(1) that unfolding comparator_on_def by blast
  have trans: "le a b \<Longrightarrow> le b c \<Longrightarrow> le a c"
    if "a \<in> pe_ts ` E \<union> pe_event_id ` E" "b \<in> pe_ts ` E \<union> pe_event_id ` E" "c \<in> pe_ts ` E \<union> pe_event_id ` E"
    for a b c
    using assms(1) that unfolding comparator_on_def by blast
  have same: "le a b \<Longrightarrow> le b a \<Longrightarrow> a = b" if "a \<in> pe_ts ` E" "b \<in> pe_ts ` E" for a b
    using assms(2) that unfolding separates_on_def by blast
  have "newest_first le x z"
    if mem: "x \<in> evidence_row_of ` E" "y \<in> evidence_row_of ` E" "z \<in> evidence_row_of ` E"
      and le: "newest_first le x y" "newest_first le y z" for x y z
  proof -
    obtain a b c where e: "a \<in> E" "b \<in> E" "c \<in> E" "x = evidence_row_of a" "y = evidence_row_of b"
        "z = evidence_row_of c"
      using mem by blast
    show ?thesis
      using le trans [of "pe_event_id a" "pe_event_id b" "pe_event_id c"]
        trans [of "pe_ts c" "pe_ts b" "pe_ts a"] same [of "pe_ts a" "pe_ts b"] e
      by (auto simp: newest_first_def split: if_splits)
  qed
  moreover have "newest_first le x y \<or> newest_first le y x"
    if mem: "x \<in> evidence_row_of ` E" "y \<in> evidence_row_of ` E" for x y
  proof -
    obtain a b where e: "a \<in> E" "b \<in> E" "x = evidence_row_of a" "y = evidence_row_of b"
      using mem by blast
    then have "pe_ts a \<in> pe_ts ` E \<union> pe_event_id ` E" "pe_ts b \<in> pe_ts ` E \<union> pe_event_id ` E"
      "pe_event_id a \<in> pe_ts ` E \<union> pe_event_id ` E" "pe_event_id b \<in> pe_ts ` E \<union> pe_event_id ` E"
      by auto
    then have "le (pe_ts a) (pe_ts b) \<or> le (pe_ts b) (pe_ts a)"
      "le (pe_event_id a) (pe_event_id b) \<or> le (pe_event_id b) (pe_event_id a)"
      using total by blast+
    then show ?thesis by (auto simp: newest_first_def e)
  qed
  ultimately show ?thesis unfolding comparator_on_def by blast
qed

lemma day_of_record: "recordedOn ts = Some x \<Longrightarrow> \<exists>rest. ts = drop 9 x @ rest \<and> length (drop 9 x) = 10"
  by (auto simp: recordedOn_def day_pattern_def split: if_splits intro!: exI [of _ "drop 10 ts"])

text \<open>A kind that names a member of every object is rendered as that member, not as the fallback.\<close>

lemma kind_labels:
  "evidenceKindLabel kind
     \<in> insert Inherited (Own ` insert EVIDENCE_KIND_FALLBACK (snd ` set EVIDENCE_KIND_LABEL))"
  "evidenceKindLabel ''constructor'' = Inherited"
  unfolding evidenceKindLabel_def
  by (rule lookup_or_cases) (simp add: lookup_or_inherited OBJECT_PROTOTYPE_def EVIDENCE_KIND_LABEL_def)

section \<open>Properties\<close>

text \<open>
  No line without a record, and no record silently dropped: every line of the log is one event
  of the summary with a reference that is not blank, every such event is one line, and what is
  left out is counted; the lines stand newest first, for every comparison that orders the
  timestamps and ids at hand; every schedule row names the events of its path and is never
  without one. The page calls the record empty, with the sentence that nothing was recorded,
  also when events were recorded and all of them are withheld: then it says both.
\<close>

lemma ledger_shows_the_record:
  fixes s :: progress_summary and le :: "string \<Rightarrow> string \<Rightarrow> bool"
  defines "events \<equiv> sourceEvents s" and "rows \<equiv> evidenceRows le s"
  assumes order: "comparator_on (pe_ts ` set events \<union> pe_event_id ` set events) le"
    "separates_on (pe_ts ` set events) le"
  shows "sorted_wrt (newest_first le) rows
    \<and> mset (map er_eventId rows) + mset (map pe_event_id (filter (\<lambda>e. \<not> hasEvidence e) events))
        = mset (map pe_event_id events)
    \<and> withheldCount s + length rows = length events
    \<and> list_all (\<lambda>row. \<exists>e \<in> set events. pe_evidence_ref e = Some (er_evidenceRef row)
         \<and> trim (er_evidenceRef row) \<noteq> [] \<and> er_eventIds row = [pe_event_id e]) rows
    \<and> list_all (\<lambda>row. sr_eventIds row \<noteq> []
         \<and> pe_event_id ` {e \<in> set events. pe_path_id e = Some (sr_pathId row)} \<subseteq> set (sr_eventIds row))
         (scheduleRows s)
    \<and> (lp_empty (LedgerView le s) \<and> lp_withheld (LedgerView le s) \<noteq> None
        \<longleftrightarrow> events \<noteq> [] \<and> filter hasEvidence events = [] \<and> scheduleRows s = [])"
proof -
  let ?E = "{e \<in> set events. hasEvidence e}"
  have "comparator_on (pe_ts ` ?E \<union> pe_event_id ` ?E) le"
    by (rule comparator_on_subset [OF order(1)]) auto
  moreover have "separates_on (pe_ts ` ?E) le"
    by (rule separates_on_subset [OF order(2)]) auto
  ultimately have sorted: "sorted_wrt (newest_first le) rows"
    unfolding rows_def evidenceRows_def
    by (intro sorted_sort_by [OF newest_first_comparator]) (auto simp: events_def)
  have "mset (map er_eventId rows) = image_mset pe_event_id (mset (filter hasEvidence events))"
    by (simp add: rows_def mset_evidenceRows events_def image_mset.compositionality comp_def)
  then have every: "mset (map er_eventId rows)
        + mset (map pe_event_id (filter (\<lambda>e. \<not> hasEvidence e) events)) = mset (map pe_event_id events)"
    by (metis image_mset_union mset_filter mset_map multiset_partition)
  have counted: "withheldCount s + length rows = length events"
    using sum_length_filter_compl [of hasEvidence events]
    by (simp add: withheldCount_def rows_def evidenceRows_def events_def)
  have backed: "list_all (\<lambda>row. \<exists>e \<in> set events. pe_evidence_ref e = Some (er_evidenceRef row)
         \<and> trim (er_evidenceRef row) \<noteq> [] \<and> er_eventIds row = [pe_event_id e]) rows"
    by (auto simp: list_all_iff rows_def set_evidenceRows evidence_row_of_def hasEvidence_def events_def
        split: option.splits)
  have schedule: "list_all (\<lambda>row. sr_eventIds row \<noteq> []
         \<and> pe_event_id ` {e \<in> set events. pe_path_id e = Some (sr_pathId row)} \<subseteq> set (sr_eventIds row))
         (scheduleRows s)"
    by (auto simp: list_all_iff scheduleRows_def schedule_row_of_def events_def)
  have "lp_empty (LedgerView le s) \<and> lp_withheld (LedgerView le s) \<noteq> None
        \<longleftrightarrow> events \<noteq> [] \<and> filter hasEvidence events = [] \<and> scheduleRows s = []"
    using counted by (auto simp: LedgerView_def Let_def withheldEvidence_def rows_def events_def
        evidenceRows_def withheldCount_def)
  then show ?thesis using sorted every counted backed schedule by blast
qed

lemma ledger_shows_the_record_witness:
  "let e = \<lparr>pe_event_id = ''e'', pe_kind = ''assessment'', pe_evidence_ref = None,
        pe_path_id = None, pe_ts = ''2026-01-01''\<rparr>;
       s = \<lparr>su_event_count = 1, su_assessments = [e], su_artifacts = [], su_schedule_progress = []\<rparr>
   in lp_empty (LedgerView (\<lambda>a b. length a \<le> length b) s)
    \<and> lp_withheld (LedgerView (\<lambda>a b. length a \<le> length b) s) \<noteq> None"
  using ledger_shows_the_record [of "\<lparr>su_event_count = 1, su_assessments =
        [\<lparr>pe_event_id = ''e'', pe_kind = ''assessment'', pe_evidence_ref = None, pe_path_id = None,
          pe_ts = ''2026-01-01''\<rparr>], su_artifacts = [], su_schedule_progress = []\<rparr>"
      "\<lambda>a b. length a \<le> length b"]
  by (simp add: sourceEvents_def comparator_on_def separates_on_def hasEvidence_def scheduleRows_def)

end
