(* ===== verification/Learn_Path.thy ===== *)
theory Learn_Path
  imports Api_Client Interfaces JS_Lookup "HOL-Library.List_Lexorder" "HOL-Library.Char_ord"
begin

text \<open>
  A reading path and starting a session on it: the refusal copy of \<open>web/lib/copy/learn.ts\<close>, the
  positions and start controls of \<open>web/components/patterns/PathView.tsx\<close>, and the request, the guard
  and the answers of \<open>web/components/features/PathDetailSurface.tsx\<close>. A press goes through the guard
  of the rendered button and then through the handler; what was rendered last is \<open>pp_rendered\<close>.
  Strings compare by their code units, as the library's order on lists of characters does.
\<close>

section \<open>Copy\<close>

definition LEARN_startRefusedDisabled :: string where
  "LEARN_startRefusedDisabled = ''This deployment is not running guided sessions. Nothing was ''
     @ ''started and nothing was recorded.''"

definition LEARN_startRefusedPrincipal :: string where
  "LEARN_startRefusedPrincipal = ''A guided session belongs to one reader, and the service holds no ''
     @ ''learner profile for the credential it received. Nothing was started.''"

definition LEARN_startRefusedContent :: string where
  "LEARN_startRefusedContent = ''The service is not serving this paper as a guided session; its ''
     @ ''briefing companion is not published here. Nothing was started.''"

definition LEARN_startRefusedRateLimited :: string where
  "LEARN_startRefusedRateLimited = ''The service is refusing new work from this credential for now. ''
     @ ''Nothing was started; try again shortly.''"

definition LEARN_startRefusedUnreachable :: string where
  "LEARN_startRefusedUnreachable =
     ''The research service could not be reached, so nothing was started.''"

definition LEARN_startRefusedGeneric :: string where
  "LEARN_startRefusedGeneric = ''The service did not start a session. Nothing was recorded.''"

definition START_REFUSAL_SENTENCE :: "(string \<times> string) list" where
  "START_REFUSAL_SENTENCE =
     [(''session_loop_disabled'', LEARN_startRefusedDisabled),
      (''session_loop_requires_auth'', LEARN_startRefusedPrincipal),
      (''learner_profile_required'', LEARN_startRefusedPrincipal),
      (''learn_content_invalid'', LEARN_startRefusedContent),
      (''learn_path_not_found'', LEARN_startRefusedContent),
      (''learn_resource_not_found'', LEARN_startRefusedContent),
      (''briefing_companion_required'', LEARN_startRefusedContent)]"

text \<open>The \<open>detail\<close> of what a failure carries, when it is a string.\<close>

definition detailCode :: "raw_value \<Rightarrow> string" where
  "detailCode raw = (case Option.bind (readDetail raw) as_string of Some d \<Rightarrow> d | None \<Rightarrow> [])"

text \<open>The message is the sentence, or the inherited member a code happens to name.\<close>

record session_start_refusal =
  ss_message :: "string lookup"
  ss_detail :: "string option"

definition describeSessionStart :: "api_failure option \<Rightarrow> session_start_refusal" where
  "describeSessionStart fault =
     (case fault of
        None \<Rightarrow> \<lparr>ss_message = Own LEARN_startRefusedGeneric, ss_detail = None\<rparr>
      | Some f \<Rightarrow>
          (let code = detailCode (fc_raw (failure_common_of f));
               mapped = lookup START_REFUSAL_SENTENCE code
           in if mapped \<noteq> Absent then \<lparr>ss_message = mapped, ss_detail = None\<rparr>
              else if failure_kind f = K_rate_limited
              then \<lparr>ss_message = Own LEARN_startRefusedRateLimited, ss_detail = None\<rparr>
              else if failure_kind f = K_offline \<or> failure_kind f = K_timeout
              then \<lparr>ss_message = Own LEARN_startRefusedUnreachable, ss_detail = None\<rparr>
              else \<lparr>ss_message = Own LEARN_startRefusedGeneric,
                    ss_detail = (if code = [] then None else Some code)\<rparr>))"

section \<open>The path\<close>

record learn_entry =
  le_resource_id :: string
  le_est_minutes :: jnum
  le_briefing_markdown :: "string option"
  le_canonical_url :: string

record observation =
  ob_path_id :: string
  ob_resource_id :: string
  ob_last_observed_at :: string

record path_start_refusal = session_start_refusal +
  rf_resourceId :: string

text \<open>\<open>new Map(pairs)\<close>: the last pair of a key stands.\<close>

definition byResource :: "observation list \<Rightarrow> string \<Rightarrow> observation option" where
  "byResource obs = map_of (rev (map (\<lambda>x. (ob_resource_id x, x)) obs))"

definition latestObservedAt :: "observation list \<Rightarrow> string option" where
  "latestObservedAt obs =
     foldl (\<lambda>latest x. case latest of
              None \<Rightarrow> Some (ob_last_observed_at x)
            | Some l \<Rightarrow> if ob_last_observed_at x > l then Some (ob_last_observed_at x) else latest)
       None obs"

datatype position_label = Current_position | Observed | Not_observed

record start_action =
  sa_busy :: bool
  sa_unavailable :: bool
  sa_refusal :: "path_start_refusal option"

record entry_card =
  en_resource_id :: string
  en_position :: position_label
  en_briefing :: bool
  en_start :: start_action

definition StartAction ::
  "string option \<Rightarrow> path_start_refusal option \<Rightarrow> learn_entry \<Rightarrow> start_action"
where
  "StartAction startingResourceId startRefusal entry =
     \<lparr>sa_busy = (startingResourceId = Some (le_resource_id entry)),
      sa_unavailable =
        (startingResourceId \<noteq> None \<and> startingResourceId \<noteq> Some (le_resource_id entry)),
      sa_refusal = (case startRefusal of
          Some r \<Rightarrow> if rf_resourceId r = le_resource_id entry then Some r else None
        | None \<Rightarrow> None)\<rparr>"

definition position_of :: "observation list \<Rightarrow> string \<Rightarrow> position_label" where
  "position_of obs resource =
     (case byResource obs resource of
        None \<Rightarrow> Not_observed
      | Some x \<Rightarrow>
          if Some (ob_last_observed_at x) = latestObservedAt obs then Current_position else Observed)"

definition EntryCard ::
  "observation list \<Rightarrow> string option \<Rightarrow> path_start_refusal option \<Rightarrow> learn_entry \<Rightarrow> entry_card"
where
  "EntryCard obs startingResourceId startRefusal entry =
     \<lparr>en_resource_id = le_resource_id entry, en_position = position_of obs (le_resource_id entry),
      en_briefing = (le_briefing_markdown entry \<noteq> None \<and> le_briefing_markdown entry \<noteq> Some []),
      en_start = StartAction startingResourceId startRefusal entry\<rparr>"

definition PathView ::
  "string \<Rightarrow> learn_entry list \<Rightarrow> observation list \<Rightarrow> string option \<Rightarrow> path_start_refusal option
   \<Rightarrow> bool \<times> entry_card list"
where
  "PathView path entries observations startingResourceId startRefusal =
     (let pathObservations = filter (\<lambda>x. ob_path_id x = path) observations
      in (length pathObservations = 0,
          map (EntryCard pathObservations startingResourceId startRefusal) entries))"

definition resourceObservationsFromEvents ::
  "observation list option \<Rightarrow> string \<Rightarrow> observation list"
where
  "resourceObservationsFromEvents progress path =
     (case progress of Some obs \<Rightarrow> filter (\<lambda>x. ob_path_id x = path) obs | None \<Rightarrow> [])"

section \<open>Starting\<close>

definition SESSION_MINUTES_MIN :: int where
  "SESSION_MINUTES_MIN = 5"

definition SESSION_MINUTES_MAX :: int where
  "SESSION_MINUTES_MAX = 180"

definition sessionCreateRequest :: "string \<Rightarrow> learn_entry \<Rightarrow> json" where
  "sessionCreateRequest path entry =
     (let usable = (case le_est_minutes entry of
            JInt m \<Rightarrow> SESSION_MINUTES_MIN \<le> m \<and> m \<le> SESSION_MINUTES_MAX | JFrac t \<Rightarrow> False)
      in JObj ([(''path_id'', JStr path), (''resource_id'', JStr (le_resource_id entry))]
           @ (if usable then [(''available_minutes'', JNum (le_est_minutes entry))] else [])))"

datatype post_state = Post_pending | Post_accepted | Post_failed

record start_post =
  po_entry :: learn_entry
  po_body :: json
  po_state :: post_state

text \<open>The page: its two states, the guard's ref, what was rendered of the first, the requests and
  the routes it pushed.\<close>

record path_page =
  pp_path :: string
  pp_starting :: "string option"
  pp_refusal :: "path_start_refusal option"
  pp_startInFlight :: bool
  pp_rendered :: "string option"
  pp_posts :: "start_post list"
  pp_pushed :: "string list"

definition path_init :: "string \<Rightarrow> path_page" where
  "path_init path =
     \<lparr>pp_path = path, pp_starting = None, pp_refusal = None, pp_startInFlight = False,
      pp_rendered = None, pp_posts = [], pp_pushed = []\<rparr>"

definition startSession :: "learn_entry \<Rightarrow> path_page \<Rightarrow> path_page" where
  "startSession entry s =
     (if pp_startInFlight s then s
      else s\<lparr>pp_startInFlight := True, pp_refusal := None,
             pp_starting := Some (le_resource_id entry),
             pp_posts := pp_posts s @ [\<lparr>po_entry = entry,
               po_body = sessionCreateRequest (pp_path s) entry, po_state = Post_pending\<rparr>]\<rparr>)"

definition post_pending :: "path_page \<Rightarrow> nat \<Rightarrow> bool" where
  "post_pending s i \<longleftrightarrow> i < length (pp_posts s) \<and> po_state (pp_posts s ! i) = Post_pending"

definition answer_post :: "nat \<Rightarrow> post_state \<Rightarrow> path_page \<Rightarrow> path_page" where
  "answer_post i x s = s\<lparr>pp_posts := (pp_posts s)[i := (pp_posts s ! i)\<lparr>po_state := x\<rparr>]\<rparr>"

text \<open>An accepted start leaves the guard up; the error is the client's own, or another.\<close>

definition start_accepted :: "nat \<Rightarrow> string \<Rightarrow> path_page \<Rightarrow> path_page" where
  "start_accepted i session s =
     (if post_pending s i
      then (answer_post i Post_accepted s)
        \<lparr>pp_pushed := pp_pushed s @ [''/learn/sessions/'' @ encodeURIComponent session]\<rparr>
      else s)"

definition start_failed :: "nat \<Rightarrow> api_failure option \<Rightarrow> path_page \<Rightarrow> path_page" where
  "start_failed i e s =
     (if post_pending s i
      then (answer_post i Post_failed s)
        \<lparr>pp_startInFlight := False, pp_starting := None,
         pp_refusal := Some (session_start_refusal.extend (describeSessionStart e)
           \<lparr>rf_resourceId = le_resource_id (po_entry (pp_posts s ! i))\<rparr>)\<rparr>
      else s)"

datatype path_event =
    Pp_press learn_entry
  | Pp_commit
  | Pp_accepts nat string
  | Pp_fails nat "api_failure option"

fun path_step :: "path_page \<Rightarrow> path_event \<Rightarrow> path_page" where
  "path_step s (Pp_press entry) =
     (let button = StartAction (pp_rendered s) (pp_refusal s) entry
      in if sa_busy button \<or> sa_unavailable button then s else startSession entry s)"
| "path_step s Pp_commit = s\<lparr>pp_rendered := pp_starting s\<rparr>"
| "path_step s (Pp_accepts i session) = start_accepted i session s"
| "path_step s (Pp_fails i e) = start_failed i e s"

section \<open>Laws of the page\<close>

definition accepted_posts :: "path_page \<Rightarrow> nat" where
  "accepted_posts s = length (filter (\<lambda>p. po_state p = Post_accepted) (pp_posts s))"

text \<open>Every request but the last has failed, and the guard is up exactly while the last has not.\<close>

definition path_inv :: "path_page \<Rightarrow> bool" where
  "path_inv s \<longleftrightarrow>
     list_all (\<lambda>p. po_state p = Post_failed) (butlast (pp_posts s))
   \<and> (pp_startInFlight s \<longleftrightarrow> pp_posts s \<noteq> [] \<and> po_state (last (pp_posts s)) \<noteq> Post_failed)
   \<and> (if pp_startInFlight s
      then pp_starting s = Some (le_resource_id (po_entry (last (pp_posts s)))) \<and> pp_refusal s = None
      else pp_starting s = None)
   \<and> list_all (\<lambda>p. po_body p = sessionCreateRequest (pp_path s) (po_entry p)) (pp_posts s)
   \<and> length (pp_pushed s) = accepted_posts s
   \<and> (case pp_refusal s of None \<Rightarrow> True
      | Some r \<Rightarrow> pp_posts s \<noteq> []
          \<and> rf_resourceId r = le_resource_id (po_entry (last (pp_posts s))))"

lemma pending_is_last:
  assumes "path_inv s" "post_pending s i"
  obtains ps p where "pp_posts s = ps @ [p]" "i = length ps" "po_state p = Post_pending"
    "list_all (\<lambda>p. po_state p = Post_failed) ps" "pp_startInFlight s"
proof -
  have i: "i < length (pp_posts s)" "po_state (pp_posts s ! i) = Post_pending"
    using assms(2) by (simp_all add: post_pending_def)
  then obtain ps p where ps: "pp_posts s = ps @ [p]" by (cases "pp_posts s" rule: rev_cases) auto
  have failed: "list_all (\<lambda>p. po_state p = Post_failed) ps"
    using assms(1) ps by (simp add: path_inv_def)
  have "i = length ps"
  proof (rule ccontr)
    assume "i \<noteq> length ps"
    then have "i < length ps" using i(1) ps by simp
    then have "po_state (ps ! i) = Post_failed" using failed by (simp add: list_all_length)
    then show False using i(2) ps \<open>i < length ps\<close> by (simp add: nth_append)
  qed
  then show thesis using that ps failed i(2) assms(1) by (simp add: path_inv_def)
qed

lemma no_accepted: "list_all (\<lambda>p. po_state p = Post_failed) ps \<Longrightarrow>
    filter (\<lambda>p. po_state p = Post_accepted) ps = [] \<and> filter (\<lambda>p. po_state p = Post_pending) ps = []"
  by (induction ps) auto

lemma path_inv_init: "path_inv (path_init path)"
  by (simp add: path_inv_def path_init_def accepted_posts_def)

lemma path_inv_start:
  assumes "path_inv s"
  shows "path_inv (startSession entry s)"
proof (cases "pp_startInFlight s")
  case False
  have "list_all (\<lambda>p. po_state p = Post_failed) (pp_posts s)"
    using assms False by (cases "pp_posts s" rule: rev_cases) (auto simp: path_inv_def)
  then show ?thesis
    using assms False by (simp add: path_inv_def startSession_def accepted_posts_def)
qed (simp add: startSession_def assms)

lemma path_inv_accepted: "path_inv s \<Longrightarrow> path_inv (start_accepted i session s)"
proof (cases "post_pending s i")
  case True
  assume inv: "path_inv s"
  obtain ps p where "pp_posts s = ps @ [p]" "i = length ps" "po_state p = Post_pending"
    "list_all (\<lambda>p. po_state p = Post_failed) ps" "pp_startInFlight s"
    using pending_is_last [OF inv True] .
  then show ?thesis
    using inv True no_accepted [of ps]
    by (auto simp: path_inv_def start_accepted_def answer_post_def accepted_posts_def)
qed (simp add: start_accepted_def)

lemma path_inv_failed: "path_inv s \<Longrightarrow> path_inv (start_failed i e s)"
proof (cases "post_pending s i")
  case True
  assume inv: "path_inv s"
  obtain ps p where "pp_posts s = ps @ [p]" "i = length ps" "po_state p = Post_pending"
    "list_all (\<lambda>p. po_state p = Post_failed) ps" "pp_startInFlight s"
    using pending_is_last [OF inv True] .
  then show ?thesis
    using inv True no_accepted [of ps]
    by (auto simp: path_inv_def start_failed_def answer_post_def accepted_posts_def
        session_start_refusal.extend_def)
qed (simp add: start_failed_def)

lemma path_inv_step: "path_inv s \<Longrightarrow> path_inv (path_step s e)"
proof (cases e)
  case Pp_commit
  assume "path_inv s"
  then show ?thesis
    by (cases "pp_refusal s"; cases "pp_startInFlight s")
       (simp_all add: Pp_commit path_inv_def accepted_posts_def)
qed (auto simp: Let_def path_inv_start path_inv_accepted path_inv_failed)

interpretation path: reducer path_step "path_init p" path_inv for p
  by unfold_locales (rule path_inv_init, rule path_inv_step)

lemma path_of_run [simp]: "pp_path (runs path_step s es) = pp_path s"
proof (induction es arbitrary: s)
  case (Cons e es)
  have "pp_path (path_step s e) = pp_path s"
    by (cases e) (simp_all add: startSession_def start_accepted_def start_failed_def answer_post_def Let_def)
  then show ?case using Cons by simp
qed simp

lemmas refusal_sentences =
  LEARN_startRefusedDisabled_def LEARN_startRefusedPrincipal_def LEARN_startRefusedContent_def
  LEARN_startRefusedRateLimited_def LEARN_startRefusedUnreachable_def
  LEARN_startRefusedGeneric_def

lemma refusal_sentences_apart:
  "distinct [LEARN_startRefusedDisabled, LEARN_startRefusedPrincipal, LEARN_startRefusedContent,
     LEARN_startRefusedRateLimited, LEARN_startRefusedUnreachable, LEARN_startRefusedGeneric]"
  by (simp add: refusal_sentences)

lemma mapped_sentences: "snd ` set START_REFUSAL_SENTENCE
    = {LEARN_startRefusedDisabled, LEARN_startRefusedPrincipal, LEARN_startRefusedContent}"
  by (auto simp: START_REFUSAL_SENTENCE_def)

section \<open>Properties\<close>

lemma requests_carry_the_entry:
  assumes "path_inv (runs path_step (path_init path) es)"
  shows "list_all (\<lambda>p. case po_body p of
        JObj m \<Rightarrow> jprop m ''path_id'' = Some (JStr path)
          \<and> jprop m ''resource_id'' = Some (JStr (le_resource_id (po_entry p)))
          \<and> jprop m ''available_minutes'' =
              (case le_est_minutes (po_entry p) of
                 JInt n \<Rightarrow> if 5 \<le> n \<and> n \<le> 180 then Some (JNum (JInt n)) else None
               | JFrac x \<Rightarrow> None)
      | _ \<Rightarrow> False) (pp_posts (runs path_step (path_init path) es))"
    (is "list_all ?carries _")
proof -
  have "?carries p" if "po_body p = sessionCreateRequest path (po_entry p)" for p
    by (cases "le_est_minutes (po_entry p)")
       (simp_all add: that sessionCreateRequest_def SESSION_MINUTES_MIN_def SESSION_MINUTES_MAX_def)
  moreover have "list_all (\<lambda>p. po_body p = sessionCreateRequest path (po_entry p))
      (pp_posts (runs path_step (path_init path) es))"
    using assms by (simp add: path_inv_def path_init_def)
  ultimately show ?thesis unfolding list_all_iff by blast
qed

text \<open>
  C10. Starting costs one session: over every order of presses, renders and answers, also of two
  presses before the first is rendered, all requests but the last have failed, at most one is in
  flight, and once one was accepted no press ever sends another; every accepted one pushes one
  route; a refusal on screen names the entry of the last request, which has failed; and every
  request carries the path, its entry, and the minutes of the entry exactly when they are whole
  and within the bounds the service accepts.
\<close>

theorem one_session_per_start:
  "let s = runs path_step (path_init path) es in
     length (filter (\<lambda>p. po_state p \<noteq> Post_failed) (pp_posts s)) \<le> 1
   \<and> list_all (\<lambda>p. po_state p = Post_failed) (butlast (pp_posts s))
   \<and> length (pp_pushed s) = accepted_posts s
   \<and> (accepted_posts s = 0 \<or> pp_posts (path_step s (Pp_press entry)) = pp_posts s)
   \<and> (case pp_refusal s of None \<Rightarrow> True
      | Some r \<Rightarrow> po_state (last (pp_posts s)) = Post_failed
          \<and> rf_resourceId r = le_resource_id (po_entry (last (pp_posts s))))
   \<and> list_all (\<lambda>p. case po_body p of
        JObj m \<Rightarrow> jprop m ''path_id'' = Some (JStr path)
          \<and> jprop m ''resource_id'' = Some (JStr (le_resource_id (po_entry p)))
          \<and> jprop m ''available_minutes'' =
              (case le_est_minutes (po_entry p) of
                 JInt n \<Rightarrow> if 5 \<le> n \<and> n \<le> 180 then Some (JNum (JInt n)) else None
               | JFrac x \<Rightarrow> None)
      | _ \<Rightarrow> False) (pp_posts s)"
proof -
  let ?s = "runs path_step (path_init path) es"
  have inv: "path_inv ?s" by (rule path.inv_from_init)
  have few: "length (filter (\<lambda>p. po_state p \<noteq> Post_failed) (pp_posts ?s)) \<le> 1"
    using inv by (cases "pp_posts ?s" rule: rev_cases)
      (auto simp: path_inv_def list_all_iff filter_empty_conv)
  have guard: "accepted_posts ?s = 0 \<or> pp_startInFlight ?s"
    using inv no_accepted by (cases "pp_posts ?s" rule: rev_cases)
      (auto simp: path_inv_def accepted_posts_def)
  have refusal: "case pp_refusal ?s of None \<Rightarrow> True
      | Some r \<Rightarrow> po_state (last (pp_posts ?s)) = Post_failed
          \<and> rf_resourceId r = le_resource_id (po_entry (last (pp_posts ?s)))"
    using inv by (cases "pp_refusal ?s") (auto simp: path_inv_def split: if_splits)
  have pressed: "accepted_posts ?s = 0 \<or> pp_posts (path_step ?s (Pp_press entry)) = pp_posts ?s"
    using guard by (auto simp: startSession_def Let_def)
  show ?thesis
    using inv few pressed refusal requests_carry_the_entry [OF inv] unfolding Let_def path_inv_def
    by blast
qed

text \<open>
  What a refused start says: the sentence is one of the dictionary's six, except that a failure
  whose \<open>detail\<close> names a member of \<open>Object.prototype\<close> is told that inherited member, which is no
  string; the service's own word is shown exactly when it is not empty and the sentence is the
  generic one; and \<open>could not be reached\<close> is said only of an offline or timed out request.
\<close>

lemma start_refusal_copy:
  "let r = describeSessionStart fault;
       code = (case fault of None \<Rightarrow> [] | Some f \<Rightarrow> detailCode (fc_raw (failure_common_of f)))
   in ss_message r \<in> insert Inherited (Own ` {LEARN_startRefusedDisabled,
        LEARN_startRefusedPrincipal, LEARN_startRefusedContent, LEARN_startRefusedRateLimited,
        LEARN_startRefusedUnreachable, LEARN_startRefusedGeneric})
    \<and> (ss_message r = Inherited \<longleftrightarrow> code \<in> set OBJECT_PROTOTYPE)
    \<and> ss_detail r = (if ss_message r = Own LEARN_startRefusedGeneric \<and> code \<noteq> [] then Some code
        else None)
    \<and> (ss_message r = Own LEARN_startRefusedUnreachable \<longleftrightarrow>
        code \<notin> set OBJECT_PROTOTYPE \<union> fst ` set START_REFUSAL_SENTENCE
        \<and> (case fault of None \<Rightarrow> False | Some f \<Rightarrow> failure_kind f \<in> {K_offline, K_timeout}))"
proof (cases fault)
  case None
  then show ?thesis
    by (simp add: describeSessionStart_def OBJECT_PROTOTYPE_def LEARN_startRefusedGeneric_def
        LEARN_startRefusedUnreachable_def)
next
  case (Some f)
  define code where "code = detailCode (fc_raw (failure_common_of f))"
  consider (own) m where "lookup START_REFUSAL_SENTENCE code = Own m"
      "m \<in> snd ` set START_REFUSAL_SENTENCE" "code \<in> fst ` set START_REFUSAL_SENTENCE"
    | (inherited) "lookup START_REFUSAL_SENTENCE code = Inherited" "code \<in> set OBJECT_PROTOTYPE"
        "code \<notin> fst ` set START_REFUSAL_SENTENCE"
    | (absent) "lookup START_REFUSAL_SENTENCE code = Absent" "code \<notin> set OBJECT_PROTOTYPE"
        "code \<notin> fst ` set START_REFUSAL_SENTENCE"
    using lookup_found [of code START_REFUSAL_SENTENCE] lookup_missing [of code START_REFUSAL_SENTENCE]
    by (cases "code \<in> fst ` set START_REFUSAL_SENTENCE"; cases "code \<in> set OBJECT_PROTOTYPE") auto
  then show ?thesis
  proof cases
    case own
    then have "code \<notin> set OBJECT_PROTOTYPE"
      by (auto simp: START_REFUSAL_SENTENCE_def OBJECT_PROTOTYPE_def)
    moreover obtain m where "lookup START_REFUSAL_SENTENCE code = Own m"
        "m \<in> {LEARN_startRefusedDisabled, LEARN_startRefusedPrincipal, LEARN_startRefusedContent}"
      using own mapped_sentences by blast
    moreover from this have "m \<noteq> LEARN_startRefusedUnreachable" "m \<noteq> LEARN_startRefusedGeneric"
      using refusal_sentences_apart by auto
    ultimately show ?thesis
      using own(3) by (auto simp: Some Let_def describeSessionStart_def simp flip: code_def)
  next
    case inherited
    then show ?thesis by (simp add: Some Let_def describeSessionStart_def flip: code_def)
  next
    case absent
    then show ?thesis
      using refusal_sentences_apart
      by (simp add: Some Let_def describeSessionStart_def eq_commute flip: code_def)
  qed
qed

section \<open>Positions\<close>

lemma latest_step:
  "(if l < t then Some t else Some l) = Some (max l t)" for l t :: string
  by (auto simp: max_def)

lemma latest_from:
  "foldl (\<lambda>latest x. case latest of
              None \<Rightarrow> Some (ob_last_observed_at x)
            | Some l \<Rightarrow> if ob_last_observed_at x > l then Some (ob_last_observed_at x) else latest)
       (Some l) obs = Some (Max (insert l (ob_last_observed_at ` set obs)))"
proof (induction obs arbitrary: l)
  case (Cons x obs)
  have "Max (insert (max l (ob_last_observed_at x)) (ob_last_observed_at ` set obs))
      = Max (insert l (ob_last_observed_at ` set (x # obs)))"
    by (cases "obs = []") (simp_all add: ac_simps)
  then show ?case
    using Cons [of "max l (ob_last_observed_at x)"]
    by (simp only: foldl_Cons option.case latest_step)
qed simp

lemma latest_observed:
  assumes "x \<in> set obs"
  shows "Some (ob_last_observed_at x) = latestObservedAt obs
    \<longleftrightarrow> list_all (\<lambda>y. ob_last_observed_at y \<le> ob_last_observed_at x) obs"
proof -
  have ne: "obs \<noteq> []" using assms by auto
  have "latestObservedAt obs = Some (Max (ob_last_observed_at ` set obs))"
    using ne by (cases obs) (simp_all add: latestObservedAt_def latest_from)
  moreover have "Max (ob_last_observed_at ` set obs) = ob_last_observed_at x
      \<longleftrightarrow> list_all (\<lambda>y. ob_last_observed_at y \<le> ob_last_observed_at x) obs"
    using assms by (subst Max_eq_iff) (auto simp: list_all_iff)
  ultimately show ?thesis by auto
qed

lemma byResource_last:
  "byResource obs r = (case filter (\<lambda>x. ob_resource_id x = r) obs of
      [] \<Rightarrow> None | ys \<Rightarrow> Some (last ys))"
proof (induction obs rule: rev_induct)
  case (snoc x obs)
  then show ?case
    by (cases "filter (\<lambda>x. ob_resource_id x = r) obs") (auto simp: byResource_def)
qed (simp add: byResource_def)

text \<open>
  Positions come from recorded observations only: an entry is not observed exactly when no
  observation of this path names it, and is the current one exactly when no observation of this
  path is newer than its last; several entries may be current at once, and observations of other
  paths change nothing. While a start is outstanding its own control is busy and every other is
  unavailable, and a refusal is shown on its own entry only.
\<close>

lemma positions_are_observed:
  "let mine = filter (\<lambda>x. ob_path_id x = path) obs;
       (silent, cards) = PathView path entries obs starting refused
   in (silent \<longleftrightarrow> mine = [])
    \<and> map en_resource_id cards = map le_resource_id entries
    \<and> list_all (\<lambda>c. en_position c =
        (let own = filter (\<lambda>x. ob_resource_id x = en_resource_id c) mine
         in if own = [] then Not_observed
            else if list_all (\<lambda>y. ob_last_observed_at y \<le> ob_last_observed_at (last own)) mine
            then Current_position else Observed)) cards
    \<and> list_all (\<lambda>c. (sa_busy (en_start c) \<longleftrightarrow> starting = Some (en_resource_id c))
        \<and> (sa_busy (en_start c) \<or> sa_unavailable (en_start c) \<longleftrightarrow> starting \<noteq> None)
        \<and> (sa_refusal (en_start c) \<noteq> None \<longleftrightarrow>
            map_option rf_resourceId refused = Some (en_resource_id c))) cards
    \<and> PathView path entries mine starting refused = (silent, cards)"
proof -
  define mine where "mine = filter (\<lambda>x. ob_path_id x = path) obs"
  have pos: "position_of mine r =
        (let own = filter (\<lambda>x. ob_resource_id x = r) mine
         in if own = [] then Not_observed
            else if list_all (\<lambda>y. ob_last_observed_at y \<le> ob_last_observed_at (last own)) mine
            then Current_position else Observed)" for r
  proof (cases "filter (\<lambda>x. ob_resource_id x = r) mine")
    case Nil
    then show ?thesis by (simp add: position_of_def byResource_last)
  next
    case (Cons y ys)
    then have "last (y # ys) \<in> set mine"
      using last_in_set [of "y # ys"] by (metis filter_is_subset list.distinct(1) subsetD)
    then show ?thesis
      using latest_observed [of "last (y # ys)" mine]
      by (simp only: position_of_def byResource_last Cons Let_def) simp
  qed
  have twice: "filter (\<lambda>x. ob_path_id x = path) mine = mine" by (simp add: mine_def)
  have start: "(sa_busy (StartAction starting refused e) \<longleftrightarrow> starting = Some (le_resource_id e))
        \<and> (starting = Some (le_resource_id e) \<or> sa_unavailable (StartAction starting refused e)
            \<longleftrightarrow> starting \<noteq> None)
        \<and> (sa_refusal (StartAction starting refused e) \<noteq> None \<longleftrightarrow>
            map_option rf_resourceId refused = Some (le_resource_id e))" for e
    by (cases refused) (auto simp: StartAction_def)
  have view: "PathView path entries obs starting refused
      = (mine = [], map (EntryCard mine starting refused) entries)"
    "PathView path entries mine starting refused
      = (mine = [], map (EntryCard mine starting refused) entries)"
    by (simp_all only: PathView_def twice Let_def flip: mine_def) simp_all
  have card: "en_position (EntryCard mine starting refused e) = position_of mine (le_resource_id e)"
    "en_start (EntryCard mine starting refused e) = StartAction starting refused e"
    "en_resource_id (EntryCard mine starting refused e) = le_resource_id e" for e
    by (simp_all add: EntryCard_def)
  show ?thesis
    unfolding view Let_def prod.case
    using start pos [unfolded Let_def]
    by (simp add: list_all_iff card comp_def view flip: mine_def)
qed

end
