(* ===== verification/Learn_Session.thy ===== *)
theory Learn_Session
  imports Job_Machine Learn_Path
begin

text \<open>
  One guided reading session: \<open>web/components/patterns/GuidedSessionView.tsx\<close> and the reads, the
  turn guard and the effects of \<open>web/components/features/SessionDetailSurface.tsx\<close>. The job machine
  is \<open>Job_Machine\<close>'s; what the stream hook is asked for is a log of calls, and its dispatches and
  the answers of reads and submissions are events. Handlers see the props of the last commit.
\<close>

section \<open>The session record\<close>

record guided_session = session_detail +
  gs_path_id :: string
  gs_resource_id :: string
  gs_turn :: "jobj option"
  gs_transcript :: "(string \<times> string) list"
  gs_transcript_status :: string
  gs_assessment_status :: string
  gs_cost_cap_status :: string
  gs_cost_cap_message :: "string option"

record session_turn_view =
  tv_turnNumber :: jnum
  tv_kind :: string
  tv_prompt :: string
  tv_feedback :: string

definition readSessionTurn :: "jobj option \<Rightarrow> session_turn_view option" where
  "readSessionTurn turn =
     (case turn of
        None \<Rightarrow> None
      | Some m \<Rightarrow>
          (case (Option.bind (jprop m ''turn_number'') as_number,
                 Option.bind (jprop m ''kind'') as_string,
                 Option.bind (jprop m ''prompt'') as_string) of
             (Some n, Some kind, Some prompt) \<Rightarrow>
               Some \<lparr>tv_turnNumber = n, tv_kind = kind, tv_prompt = prompt,
                     tv_feedback = (case Option.bind (jprop m ''feedback'') as_string of
                       Some text \<Rightarrow> text | None \<Rightarrow> [])\<rparr>
           | _ \<Rightarrow> None))"

section \<open>The view\<close>

datatype cost_cap = Cap_refused | Cap_degraded

datatype assessment_fact = Fact_unassessed | Fact_recorded_ungraded

datatype note_label = Tutor_label | Learner_label

text \<open>The reply field and the two buttons, which share \<open>disabled\<close> and \<open>busy\<close>.\<close>

record turn_form =
  tf_kind :: string
  tf_prompt :: string
  tf_feedback :: "string option"
  tf_value :: string
  tf_error :: "string option"
  tf_disabled :: bool
  tf_busy :: bool

datatype session_margin = Margin_form turn_form | Margin_empty_turn | Margin_closed

record guided_view =
  gv_back :: string
  gv_title :: string
  gv_paper :: "string option"
  gv_reconnecting :: bool
  gv_restored :: bool
  gv_transcript_unavailable :: bool
  gv_cap :: "(cost_cap \<times> string option) option"
  gv_passage :: "string option"
  gv_notes :: "(note_label \<times> string) list"
  gv_margin :: session_margin
  gv_working :: bool
  gv_complete :: "(string option \<times> assessment_fact option) option"
  gv_stopped :: bool

text \<open>\<open>{x ? <p>{x}</p> : null}\<close>.\<close>

definition shown_text :: "string option \<Rightarrow> string option" where
  "shown_text x = (if x = Some [] then None else x)"

definition CostCap :: "guided_session \<Rightarrow> (cost_cap \<times> string option) option" where
  "CostCap session =
     (if gs_cost_cap_status session = [] then None
      else Some (if gs_cost_cap_status session = ''refused'' then Cap_refused else Cap_degraded,
                 shown_text (gs_cost_cap_message session)))"

definition AssessmentFact :: "guided_session \<Rightarrow> assessment_fact option" where
  "AssessmentFact session =
     (if gs_assessment_status session = ''unassessed'' then Some Fact_unassessed
      else if gs_assessment_status session = ''recorded_ungraded'' then Some Fact_recorded_ungraded
      else None)"

record session_props =
  sp_session :: "guided_session option"
  sp_phase :: job_phase
  sp_connection :: connection_phase
  sp_response :: string
  sp_submitting :: bool
  sp_restored :: bool
  sp_submitError :: "string option"

definition session_awaiting :: "guided_session \<Rightarrow> job_phase \<Rightarrow> bool" where
  "session_awaiting session machinePhase \<longleftrightarrow>
     sd_status session = St_awaiting_learner \<and> machinePhase = Ph_awaiting_learner"

definition GuidedSessionView ::
  "guided_session \<Rightarrow> learn_entry option \<Rightarrow> session_props \<Rightarrow> guided_view"
where
  "GuidedSessionView session entry p =
     (let turn = readSessionTurn (gs_turn session);
          awaiting = session_awaiting session (sp_phase p);
          settled = sd_status session \<in> {St_succeeded, St_failed, St_cancelled};
          working = \<not> settled \<and> \<not> awaiting
      in \<lparr>gv_back = ''/learn/paths/'' @ encodeURIComponent (gs_path_id session),
          gv_title = sd_title session,
          gv_paper = map_option le_canonical_url entry,
          gv_reconnecting = (sp_connection p = Conn_reconnecting),
          gv_restored = sp_restored p,
          gv_transcript_unavailable = (gs_transcript_status session = ''unavailable''),
          gv_cap = CostCap session,
          gv_passage = shown_text (Option.bind entry le_briefing_markdown),
          gv_notes = map (\<lambda>(role, text).
            (if role = ''tutor'' then Tutor_label else Learner_label, text)) (gs_transcript session),
          gv_margin =
            (if awaiting
             then (case turn of
                 Some t \<Rightarrow> Margin_form
                   \<lparr>tf_kind = tv_kind t, tf_prompt = tv_prompt t,
                    tf_feedback = shown_text (Some (tv_feedback t)), tf_value = sp_response p,
                    tf_error = sp_submitError p,
                    tf_disabled = (trim (sp_response p) = [] \<or> length (sp_response p) > 2000),
                    tf_busy = sp_submitting p\<rparr>
               | None \<Rightarrow> Margin_empty_turn)
             else Margin_closed),
          gv_working = working,
          gv_complete = (if sd_status session = St_succeeded
             then Some (shown_text (sd_result session), AssessmentFact session) else None),
          gv_stopped = (sd_status session = St_failed \<or> sd_status session = St_cancelled)\<rparr>)"

datatype session_surface = Guided_unavailable | Guided_loading | Guided_view guided_view

text \<open>The entry the session reads, of the path when it was read.\<close>

definition session_entry :: "learn_entry list option \<Rightarrow> guided_session \<Rightarrow> learn_entry option" where
  "session_entry entries session =
     Option.bind entries (find (\<lambda>e. le_resource_id e = gs_resource_id session))"

definition SessionDetailSurface ::
  "learn_entry list option \<Rightarrow> session_props \<Rightarrow> session_surface"
where
  "SessionDetailSurface entries p =
     (if sp_phase p = Ph_unavailable then Guided_unavailable
      else case sp_session p of
          None \<Rightarrow> Guided_loading
        | Some session \<Rightarrow> Guided_view (GuidedSessionView session (session_entry entries session) p))"

section \<open>The page\<close>

datatype hook_call = Call_attach string | Call_refresh | Call_reset

record turn_post =
  tp_session_id :: string
  tp_message :: string
  tp_end_session :: bool
  tp_turn :: "jnum option"
  tp_state :: post_state

record session_page =
  gp_sessionId :: string
  gp_session :: "guided_session option"
  gp_response :: string
  gp_submitting :: bool
  gp_submitError :: "string option"
  gp_firstRead :: bool
  gp_restored :: bool
  gp_pendingTurn :: "jnum option"
  gp_turnInFlight :: bool
  gp_machine :: job_state
  gp_shown :: session_props
  gp_newest :: "(string \<times> int) option"
  gp_calls :: "hook_call list"
  gp_posts :: "turn_post list"

definition live_props :: "session_page \<Rightarrow> session_props" where
  "live_props s =
     \<lparr>sp_session = gp_session s, sp_phase = phase (gp_machine s),
      sp_connection = connection (gp_machine s), sp_response = gp_response s,
      sp_submitting = gp_submitting s, sp_restored = gp_restored s,
      sp_submitError = gp_submitError s\<rparr>"

text \<open>Mounted: rendered once, then attached by the first effect; no frame has arrived.\<close>

definition session_init :: "string \<Rightarrow> session_page" where
  "session_init i =
     \<lparr>gp_sessionId = i, gp_session = None, gp_response = [], gp_submitting = False,
      gp_submitError = None, gp_firstRead = True, gp_restored = False, gp_pendingTurn = None,
      gp_turnInFlight = False, gp_machine = initialJobState,
      gp_shown = \<lparr>sp_session = None, sp_phase = Ph_idle, sp_connection = Conn_closed,
        sp_response = [], sp_submitting = False, sp_restored = False, sp_submitError = None\<rparr>,
      gp_newest = None, gp_calls = [Call_attach i], gp_posts = []\<rparr>"

text \<open>\<open>turnNumber > 1\<close>; a number that is not whole prints as \<open>0.\<close> and digits, with a sign or with \<open>e-\<close> below 1.\<close>

fun above_one :: "jnum \<Rightarrow> bool" where
  "above_one (JInt n) \<longleftrightarrow> n > 1"
| "above_one (JFrac x) \<longleftrightarrow> take 1 x \<noteq> ''-'' \<and> take 2 x \<noteq> ''0.'' \<and> CHR ''e'' \<notin> set x"

definition turn_moved :: "guided_session \<Rightarrow> jnum \<Rightarrow> bool" where
  "turn_moved d pending \<longleftrightarrow>
     sd_status d \<noteq> St_awaiting_learner
   \<or> map_option tv_turnNumber (readSessionTurn (gs_turn d)) \<noteq> Some pending"

definition readSessionAsJob :: "guided_session \<Rightarrow> session_page \<Rightarrow> session_page \<times> job_detail" where
  "readSessionAsJob d s =
     (let turn = readSessionTurn (gs_turn d);
          s1 = (if gp_firstRead s
                then s\<lparr>gp_restored := (gs_transcript d \<noteq> []
                         \<or> (case turn of Some t \<Rightarrow> above_one (tv_turnNumber t) | None \<Rightarrow> False)),
                       gp_firstRead := False\<rparr>
                else s);
          s2 = (case gp_pendingTurn s1 of
                  None \<Rightarrow> s1
                | Some pending \<Rightarrow>
                    if turn_moved d pending
                    then s1\<lparr>gp_pendingTurn := None, gp_turnInFlight := False,
                            gp_submitting := False\<rparr>
                    else s1)
      in (s2\<lparr>gp_session := Some d\<rparr>, sessionAsJobDetail (session_detail.truncate d)))"

definition submitTurn :: "bool \<Rightarrow> session_page \<Rightarrow> session_page" where
  "submitTurn endSession s =
     (let p = gp_shown s
      in case sp_session p of
           None \<Rightarrow> s
         | Some session \<Rightarrow>
             if gp_turnInFlight s \<or> sp_submitting p \<or> trim (sp_response p) = [] then s
             else let turn = map_option tv_turnNumber (readSessionTurn (gs_turn session))
               in s\<lparr>gp_turnInFlight := True, gp_submitError := None, gp_submitting := True,
                    gp_pendingTurn := turn,
                    gp_posts := gp_posts s @ [\<lparr>tp_session_id = sd_session_id session,
                      tp_message = trim (sp_response p), tp_end_session = endSession,
                      tp_turn = turn, tp_state = Post_pending\<rparr>]\<rparr>)"

definition turn_pending :: "session_page \<Rightarrow> nat \<Rightarrow> bool" where
  "turn_pending s i \<longleftrightarrow> i < length (gp_posts s) \<and> tp_state (gp_posts s ! i) = Post_pending"

definition answer_turn :: "nat \<Rightarrow> post_state \<Rightarrow> session_page \<Rightarrow> session_page" where
  "answer_turn i x s = s\<lparr>gp_posts := (gp_posts s)[i := (gp_posts s ! i)\<lparr>tp_state := x\<rparr>]\<rparr>"

definition turn_accepted :: "nat \<Rightarrow> session_page \<Rightarrow> session_page" where
  "turn_accepted i s =
     (if turn_pending s i then (answer_turn i Post_accepted s)\<lparr>gp_response := []\<rparr> else s)"

definition LEARN_failedBody :: string where
  "LEARN_failedBody = ''Your saved reading margin remains visible when available. The service did ''
     @ ''not claim completion.''"

definition turn_failed :: "nat \<Rightarrow> api_failure option \<Rightarrow> session_page \<Rightarrow> session_page" where
  "turn_failed i e s =
     (if turn_pending s i
      then (answer_turn i Post_failed s)
        \<lparr>gp_pendingTurn := None, gp_turnInFlight := False, gp_submitting := False,
         gp_submitError := Some (case e of
             Some f \<Rightarrow> fc_message (failure_common_of f) | None \<Rightarrow> LEARN_failedBody)\<rparr>
      else s)"

text \<open>A commit, and the effect on the newest frame: it runs when the frame's name or time is not
  that of the last commit.\<close>

definition newest_frame :: "job_state \<Rightarrow> (string \<times> int) option" where
  "newest_frame m =
     (if frames m = [] then None
      else Some (jf_name (last (frames m)), jf_receivedAt (last (frames m))))"

definition commit_page :: "session_page \<Rightarrow> session_page" where
  "commit_page s =
     (let newest = newest_frame (gp_machine s);
          changed = (newest \<noteq> gp_newest s);
          asked = changed \<and> map_option fst newest = Some ''turn_ready''
      in s\<lparr>gp_shown := live_props s, gp_newest := newest,
           gp_calls := gp_calls s @ (if asked then [Call_refresh] else [])\<rparr>)"

definition retry_session :: "session_page \<Rightarrow> session_page" where
  "retry_session s =
     s\<lparr>gp_firstRead := True, gp_calls := gp_calls s @ [Call_reset, Call_attach (gp_sessionId s)]\<rparr>"

datatype session_event =
    Gs_read guided_session
  | Gs_machine job_event
  | Gs_commit
  | Gs_type string
  | Gs_press bool
  | Gs_accepts nat
  | Gs_fails nat "api_failure option"
  | Gs_retry

text \<open>A reader acts on what is rendered; the path's entries do not reach the form.\<close>

definition rendered_form :: "session_page \<Rightarrow> turn_form option" where
  "rendered_form s =
     (case SessionDetailSurface None (gp_shown s) of
        Guided_view v \<Rightarrow> (case gv_margin v of Margin_form f \<Rightarrow> Some f | _ \<Rightarrow> None)
      | _ \<Rightarrow> None)"

fun session_step :: "session_page \<Rightarrow> session_event \<Rightarrow> session_page" where
  "session_step s (Gs_read d) = fst (readSessionAsJob d s)"
| "session_step s (Gs_machine e) = s\<lparr>gp_machine := jobReducer (gp_machine s) e\<rparr>"
| "session_step s Gs_commit = commit_page s"
| "session_step s (Gs_type x) =
     (case rendered_form s of
        Some f \<Rightarrow> if tf_busy f then s else s\<lparr>gp_response := x\<rparr>
      | None \<Rightarrow> s)"
| "session_step s (Gs_press endSession) =
     (case rendered_form s of
        Some f \<Rightarrow> if tf_disabled f \<or> tf_busy f then s else submitTurn endSession s
      | None \<Rightarrow> s)"
| "session_step s (Gs_accepts i) = turn_accepted i s"
| "session_step s (Gs_fails i e) = turn_failed i e s"
| "session_step s Gs_retry =
     (if SessionDetailSurface None (gp_shown s) = Guided_unavailable then retry_session s else s)"

end
