(* ===== verification/Session_Laws.thy ===== *)
theory Session_Laws
  imports Learn_Session Job_Laws
begin

text \<open>
  Laws of the guided session page: the turn guard and its invariant over every interleaving of
  reads, machine events, commits, presses and answers; what reaches the composer; and the read that
  follows a \<open>turn_ready\<close> frame.
\<close>

section \<open>The form\<close>

lemma form_rendered:
  assumes "rendered_form s = Some f"
  obtains session t where "sp_session (gp_shown s) = Some session"
    "readSessionTurn (gs_turn session) = Some t" "sd_status session = St_awaiting_learner"
    "sp_phase (gp_shown s) = Ph_awaiting_learner"
    "tf_disabled f \<longleftrightarrow> trim (sp_response (gp_shown s)) = [] \<or> length (sp_response (gp_shown s)) > 2000"
    "tf_busy f = sp_submitting (gp_shown s)"
proof -
  obtain session where session: "sp_session (gp_shown s) = Some session"
    "gv_margin (GuidedSessionView session None (gp_shown s)) = Margin_form f"
    using assms
    by (auto simp: rendered_form_def SessionDetailSurface_def session_entry_def
        split: option.splits session_margin.splits if_splits)
  then obtain t where "readSessionTurn (gs_turn session) = Some t"
    by (cases "readSessionTurn (gs_turn session)")
       (auto simp: GuidedSessionView_def Let_def split: if_splits)
  then show thesis
    using session that by (auto simp: GuidedSessionView_def Let_def session_awaiting_def
        split: if_splits)
qed

section \<open>The guard\<close>

definition session_inv :: "session_page \<Rightarrow> bool" where
  "session_inv s \<longleftrightarrow>
     (gp_turnInFlight s \<longleftrightarrow> gp_pendingTurn s \<noteq> None)
   \<and> (gp_submitting s \<longleftrightarrow> gp_turnInFlight s)
   \<and> list_all (\<lambda>p. tp_message p \<noteq> [] \<and> length (tp_message p) \<le> 2000 \<and> tp_turn p \<noteq> None) (gp_posts s)"

definition guard_law :: "session_page \<Rightarrow> session_event \<Rightarrow> bool" where
  "guard_law s e \<longleftrightarrow>
     (let t = session_step s e
      in length (gp_posts t)
           = length (gp_posts s) + (if \<not> gp_turnInFlight s \<and> gp_turnInFlight t then 1 else 0)
       \<and> (if gp_turnInFlight s \<and> \<not> gp_turnInFlight t
          then (case e of
                  Gs_fails j x \<Rightarrow> turn_pending s j
                | Gs_read d \<Rightarrow> turn_moved d (the (gp_pendingTurn s))
                | _ \<Rightarrow> False)
          else True))"

lemma read_cases:
  "fst (readSessionAsJob d s) =
     (let r = (if gp_firstRead s
               then gs_transcript d \<noteq> []
                 \<or> (case readSessionTurn (gs_turn d) of
                      Some t \<Rightarrow> above_one (tv_turnNumber t) | None \<Rightarrow> False)
               else gp_restored s)
      in if (case gp_pendingTurn s of None \<Rightarrow> False | Some n \<Rightarrow> turn_moved d n)
         then s\<lparr>gp_session := Some d, gp_restored := r, gp_firstRead := False,
                gp_pendingTurn := None, gp_turnInFlight := False, gp_submitting := False\<rparr>
         else s\<lparr>gp_session := Some d, gp_restored := r, gp_firstRead := False\<rparr>)"
  by (cases "gp_pendingTurn s") (simp_all add: readSessionAsJob_def Let_def)

lemma list_all_answer:
  assumes "list_all P ps" "i < length ps" "\<And>p. P p \<Longrightarrow> P (p\<lparr>tp_state := x\<rparr>)"
  shows "list_all P (ps[i := (ps ! i)\<lparr>tp_state := x\<rparr>])"
  using assms by (auto simp: list_all_length nth_list_update)

text \<open>What a press that is heard does.\<close>

definition send_turn :: "bool \<Rightarrow> guided_session \<Rightarrow> session_turn_view \<Rightarrow> session_page \<Rightarrow> session_page" where
  "send_turn b session t s =
     s\<lparr>gp_turnInFlight := True, gp_submitError := None, gp_submitting := True,
       gp_pendingTurn := Some (tv_turnNumber t),
       gp_posts := gp_posts s @ [\<lparr>tp_session_id = sd_session_id session,
         tp_message = trim (sp_response (gp_shown s)), tp_end_session = b,
         tp_turn = Some (tv_turnNumber t), tp_state = Post_pending\<rparr>]\<rparr>"

lemma press_cases:
  assumes "session_step s (Gs_press b) \<noteq> s"
  obtains session t where "sp_session (gp_shown s) = Some session"
    "readSessionTurn (gs_turn session) = Some t" "\<not> gp_turnInFlight s"
    "trim (sp_response (gp_shown s)) \<noteq> []" "length (trim (sp_response (gp_shown s))) \<le> 2000"
    "session_step s (Gs_press b) = send_turn b session t s"
proof -
  obtain f where f: "rendered_form s = Some f" "\<not> tf_disabled f" "\<not> tf_busy f"
      "session_step s (Gs_press b) = submitTurn b s"
    using assms by (auto split: option.splits if_splits)
  obtain session t where st: "sp_session (gp_shown s) = Some session"
      "readSessionTurn (gs_turn session) = Some t"
      "trim (sp_response (gp_shown s)) \<noteq> []" "length (sp_response (gp_shown s)) \<le> 2000"
      "\<not> sp_submitting (gp_shown s)"
    using form_rendered [OF f(1)] f(2,3) by (metis not_less)
  moreover have "\<not> gp_turnInFlight s"
    using assms f(4) st by (auto simp: submitTurn_def Let_def)
  moreover have "length (trim (sp_response (gp_shown s))) \<le> 2000"
    using length_trim [of "sp_response (gp_shown s)"] st(4) by linarith
  ultimately show thesis
    using that f(4) by (simp add: submitTurn_def send_turn_def Let_def del: session_step.simps)
qed

lemma session_inv_init: "session_inv (session_init i)"
  by (simp add: session_inv_def session_init_def)

lemma session_inv_step: "session_inv s \<Longrightarrow> session_inv (session_step s e)"
proof (cases e)
  case (Gs_read d)
  assume "session_inv s"
  then show ?thesis
    by (cases "gp_pendingTurn s") (auto simp: Gs_read session_inv_def read_cases Let_def)
next
  case (Gs_press b)
  assume inv: "session_inv s"
  show ?thesis
  proof (cases "session_step s (Gs_press b) = s")
    case False
    obtain session t where press: "\<not> gp_turnInFlight s"
        "trim (sp_response (gp_shown s)) \<noteq> []" "length (trim (sp_response (gp_shown s))) \<le> 2000"
        "session_step s (Gs_press b) = send_turn b session t s"
      by (rule press_cases [OF False])
    then show ?thesis using inv unfolding Gs_press by (simp add: press session_inv_def send_turn_def del: session_step.simps)
  qed (simp only: Gs_press inv)
next
  case (Gs_accepts i)
  assume "session_inv s"
  then show ?thesis
    by (auto simp: Gs_accepts session_inv_def turn_accepted_def turn_pending_def answer_turn_def
        intro!: list_all_answer)
next
  case (Gs_fails i x)
  assume "session_inv s"
  then show ?thesis
    by (auto simp: Gs_fails session_inv_def turn_failed_def turn_pending_def answer_turn_def
        intro!: list_all_answer)
qed (auto simp: session_inv_def commit_page_def retry_session_def Let_def split: option.split)

interpretation guided: reducer session_step "session_init i" session_inv for i
  by unfold_locales (rule session_inv_init, rule session_inv_step)

lemma guard_law: "session_inv s \<Longrightarrow> guard_law s e"
proof (cases e)
  case (Gs_read d)
  assume "session_inv s"
  then show ?thesis
    by (cases "gp_pendingTurn s")
       (auto simp: Gs_read guard_law_def session_inv_def read_cases Let_def)
next
  case (Gs_press b)
  show ?thesis
  proof (cases "session_step s (Gs_press b) = s")
    case False
    obtain session t where press: "\<not> gp_turnInFlight s"
        "trim (sp_response (gp_shown s)) \<noteq> []" "length (trim (sp_response (gp_shown s))) \<le> 2000"
        "session_step s (Gs_press b) = send_turn b session t s"
      by (rule press_cases [OF False])
    then show ?thesis unfolding Gs_press guard_law_def Let_def by (simp add: press send_turn_def del: session_step.simps)
  qed (simp add: guard_law_def Gs_press Let_def)
qed (auto simp: guard_law_def turn_accepted_def turn_failed_def turn_pending_def answer_turn_def
    commit_page_def retry_session_def Let_def split: option.split)

text \<open>
  C8. The turn guard, over every order of reads, machine events, commits, presses and answers: the
  guard is up exactly while a turn is pending and the controls say so; a request is sent exactly
  when the guard goes up, one at a time, with a message of 1 to 2000 characters answering a turn
  that could be read; and nothing takes the guard down but the failure of a pending request or a
  read that shows another turn or status. In particular an accepted request does not.
\<close>

theorem turn_guard:
  "let s = runs session_step (session_init i) es; t = session_step s e
   in (gp_turnInFlight s \<longleftrightarrow> gp_pendingTurn s \<noteq> None)
    \<and> (gp_submitting s \<longleftrightarrow> gp_turnInFlight s)
    \<and> list_all (\<lambda>p. tp_message p \<noteq> [] \<and> length (tp_message p) \<le> 2000 \<and> tp_turn p \<noteq> None)
        (gp_posts s)
    \<and> length (gp_posts t)
        = length (gp_posts s) + (if \<not> gp_turnInFlight s \<and> gp_turnInFlight t then 1 else 0)
    \<and> (if gp_turnInFlight s \<and> \<not> gp_turnInFlight t
       then (case e of
               Gs_fails j x \<Rightarrow> turn_pending s j
             | Gs_read d \<Rightarrow> turn_moved d (the (gp_pendingTurn s))
             | _ \<Rightarrow> False)
       else True)"
  using guided.inv_from_init [of i es] guard_law [OF guided.inv_from_init [of i es], of e]
  by (simp add: session_inv_def guard_law_def Let_def)

section \<open>While the service has not moved\<close>

definition still_at :: "jnum \<Rightarrow> session_page \<Rightarrow> bool" where
  "still_at n s \<longleftrightarrow>
     (case gp_session s of Some d \<Rightarrow> \<not> turn_moved d n | None \<Rightarrow> True)
   \<and> (case sp_session (gp_shown s) of Some d \<Rightarrow> \<not> turn_moved d n | None \<Rightarrow> True)
   \<and> list_all (\<lambda>p. tp_turn p = Some n) (gp_posts s)
   \<and> list_all (\<lambda>p. tp_state p = Post_failed) (butlast (gp_posts s))
   \<and> (gp_turnInFlight s \<longleftrightarrow> gp_posts s \<noteq> [] \<and> tp_state (last (gp_posts s)) \<noteq> Post_failed)
   \<and> (gp_pendingTurn s = (if gp_turnInFlight s then Some n else None))"

lemma turn_pending_is_last:
  assumes "list_all (\<lambda>p. tp_state p = Post_failed) (butlast (gp_posts s))" "turn_pending s i"
  obtains ps p where "gp_posts s = ps @ [p]" "i = length ps" "tp_state p = Post_pending"
proof -
  have i: "i < length (gp_posts s)" "tp_state (gp_posts s ! i) = Post_pending"
    using assms(2) by (simp_all add: turn_pending_def)
  then obtain ps p where ps: "gp_posts s = ps @ [p]" by (cases "gp_posts s" rule: rev_cases) auto
  have "\<not> i < length ps"
    using assms(1) i(2) by (auto simp: ps nth_append list_all_length)
  then have "i = length ps" using i(1) ps by simp
  then show thesis using that ps i(2) by simp
qed

lemma still_read:
  assumes "still_at n s" "\<not> turn_moved d n"
  shows "still_at n (session_step s (Gs_read d))"
  using assms by (simp add: still_at_def read_cases Let_def)

lemma still_press:
  assumes "still_at n s"
  shows "still_at n (session_step s (Gs_press b))"
proof (cases "session_step s (Gs_press b) = s")
  case False
  obtain session t where press: "sp_session (gp_shown s) = Some session"
      "readSessionTurn (gs_turn session) = Some t" "\<not> gp_turnInFlight s"
      "session_step s (Gs_press b) = send_turn b session t s"
    by (rule press_cases [OF False])
  have "tv_turnNumber t = n"
    using assms press(1,2) by (simp add: still_at_def turn_moved_def)
  moreover have "list_all (\<lambda>p. tp_state p = Post_failed) (gp_posts s)"
    using assms press(3) by (cases "gp_posts s" rule: rev_cases) (simp_all add: still_at_def)
  ultimately show ?thesis
    using assms press(3) by (simp add: press(4) send_turn_def still_at_def del: session_step.simps)
qed (simp only: assms)

lemma still_answer:
  assumes "still_at n s"
  shows "still_at n (turn_accepted i s) \<and> still_at n (turn_failed i e s)"
proof (cases "turn_pending s i")
  case True
  obtain ps p where "gp_posts s = ps @ [p]" "i = length ps" "tp_state p = Post_pending"
    using turn_pending_is_last [OF _ True] assms by (metis still_at_def)
  then show ?thesis
    using assms True by (simp add: still_at_def turn_accepted_def turn_failed_def answer_turn_def)
qed (simp add: turn_accepted_def turn_failed_def assms)

lemma still_step:
  assumes "still_at n s" "case e of Gs_read d \<Rightarrow> \<not> turn_moved d n | _ \<Rightarrow> True"
  shows "still_at n (session_step s e)"
proof (cases e)
  case (Gs_read d)
  then show ?thesis using still_read assms by simp
next
  case (Gs_press b)
  then show ?thesis using still_press assms by blast
next
  case (Gs_type x)
  then show ?thesis using assms(1)
    by (cases "rendered_form s") (simp_all add: still_at_def)
next
  case Gs_commit
  then show ?thesis using assms(1) by (simp add: still_at_def commit_page_def live_props_def Let_def)
next
  case Gs_retry
  then show ?thesis using assms(1) by (simp add: still_at_def retry_session_def)
next
  case (Gs_machine m)
  then show ?thesis using assms(1) by (simp add: still_at_def)
qed (use still_answer assms(1) in simp_all)

lemma still_runs:
  "still_at n s \<Longrightarrow> list_all (\<lambda>e. case e of Gs_read d \<Rightarrow> \<not> turn_moved d n | _ \<Rightarrow> True) es
    \<Longrightarrow> still_at n (runs session_step s es)"
  by (induction es arbitrary: s) (simp_all add: still_step)

text \<open>
  C9. At most one reply per prompt: as long as every read shows the same turn, still awaiting the
  learner, at most one request that has not failed is ever sent, whatever is typed, pressed,
  rendered, answered or retried and whatever the machine hears; every request answers that turn,
  and the guard is up exactly while there is one.
\<close>

theorem one_turn_until_it_moves:
  assumes "list_all (\<lambda>e. case e of
      Gs_read d \<Rightarrow> sd_status d = St_awaiting_learner
        \<and> map_option tv_turnNumber (readSessionTurn (gs_turn d)) = Some n
    | _ \<Rightarrow> True) es"
  shows "let s = runs session_step (session_init i) es
    in length (filter (\<lambda>p. tp_state p \<noteq> Post_failed) (gp_posts s)) = (if gp_turnInFlight s then 1 else 0)
     \<and> list_all (\<lambda>p. tp_turn p = Some n) (gp_posts s)"
proof -
  have "still_at n (session_init i)" by (simp add: still_at_def session_init_def)
  moreover have "list_all (\<lambda>e. case e of Gs_read d \<Rightarrow> \<not> turn_moved d n | _ \<Rightarrow> True) es"
    using assms by (auto simp: list_all_iff turn_moved_def split: session_event.splits)
  ultimately have still: "still_at n (runs session_step (session_init i) es)" by (rule still_runs)
  then show ?thesis
    by (cases "gp_posts (runs session_step (session_init i) es)" rule: rev_cases)
       (auto simp: still_at_def Let_def list_all_iff filter_empty_conv)
qed

section \<open>Concrete runs\<close>

definition snapshot :: "job_status \<Rightarrow> int \<Rightarrow> guided_session" where
  "snapshot status n =
     \<lparr>sd_session_id = ''s'', sd_status = status, sd_title = ''t'', sd_created_at = JInt 0,
      sd_started_at = None, sd_completed_at = None, sd_elapsed_sec = None, sd_result = None,
      sd_error = None, sd_error_type = None, sd_cost_usd = None, sd_llm_calls = None,
      gs_path_id = ''p'', gs_resource_id = ''r'',
      gs_turn = Some [(''turn_number'', JNum (JInt n)), (''kind'', JStr ''explain''),
                      (''prompt'', JStr ''why'')],
      gs_transcript = [], gs_transcript_status = ''available'', gs_assessment_status = [],
      gs_cost_cap_status = [], gs_cost_cap_message = None\<rparr>"

definition opened :: "int \<Rightarrow> session_event list" where
  "opened n =
     [Gs_machine (Ev_attach_requested ''s'' False 0), Gs_read (snapshot St_awaiting_learner n),
      Gs_machine (Ev_detail_resolved
        (sessionAsJobDetail (session_detail.truncate (snapshot St_awaiting_learner n))) DS_attach 1),
      Gs_commit, Gs_type ''so'', Gs_commit]"

lemmas session_eval = opened_def snapshot_def session_init_def sessionAsJobDetail_def
  session_detail.truncate_def runs_def readSessionAsJob_def readSessionTurn_def turn_moved_def
  commit_page_def live_props_def newest_frame_def rendered_form_def SessionDetailSurface_def
  GuidedSessionView_def session_awaiting_def submitTurn_def session_entry_def shown_text_def

theorem one_turn_until_it_moves_witness:
  "let es = opened 2 @ [Gs_press False, Gs_press False, Gs_accepts 0, Gs_press True,
       Gs_read (snapshot St_awaiting_learner 2), Gs_commit, Gs_press False];
     s = runs session_step (session_init ''s'') es
   in length (filter (\<lambda>p. tp_state p \<noteq> Post_failed) (gp_posts s)) = (if gp_turnInFlight s then 1 else 0)
    \<and> list_all (\<lambda>p. tp_turn p = Some (JInt 2)) (gp_posts s)"
  unfolding Let_def
  by (rule one_turn_until_it_moves [unfolded Let_def])
     (simp add: opened_def snapshot_def readSessionTurn_def)

text \<open>
  Two replies to one prompt in flight: the reader answers turn 2, and before the request is
  answered a read that was issued at turn 1 arrives. It shows another turn, so it takes the guard
  down and renders the old turn with the text still in the field, and the next press sends the same
  reply again.
\<close>

lemma stale_read_sends_twice:
  "let s = runs session_step (session_init ''s'')
       (opened 2 @ [Gs_press False, Gs_commit, Gs_read (snapshot St_awaiting_learner 1), Gs_commit,
        Gs_press False])
   in map tp_message (gp_posts s) = [''so'', ''so'']
    \<and> map tp_state (gp_posts s) = [Post_pending, Post_pending]
    \<and> map tp_turn (gp_posts s) = [Some (JInt 2), Some (JInt 1)]"
  by code_simp

section \<open>What is rendered\<close>

lemma turn_readable:
  "readSessionTurn turn = Some t \<longleftrightarrow>
     (\<exists>m. turn = Some m \<and> jprop m ''turn_number'' = Some (JNum (tv_turnNumber t))
        \<and> jprop m ''kind'' = Some (JStr (tv_kind t)) \<and> jprop m ''prompt'' = Some (JStr (tv_prompt t))
        \<and> tv_feedback t = (case Option.bind (jprop m ''feedback'') as_string of
            Some text \<Rightarrow> text | None \<Rightarrow> []))"
proof -
  have number: "Option.bind x as_number = Some n \<longleftrightarrow> x = Some (JNum n)" for x n
    by (cases x; cases "the x") auto
  have str: "Option.bind x as_string = Some n \<longleftrightarrow> x = Some (JStr n)" for x n
    by (cases x; cases "the x") auto
  show ?thesis
    by (cases turn; cases t)
       (auto simp: readSessionTurn_def number str split: option.split_asm option.splits)
qed

text \<open>
  The composer opens only when both authorities agree: the form is shown exactly when the
  record and the machine both await the learner and the turn has a number, a kind and a prompt, and
  then shows that turn; of the open margin, the working note, the completion and the stop exactly
  one is on the page; and a result or an assessment is claimed only of a session that succeeded.
\<close>

lemma composer_needs_both:
  "let v = GuidedSessionView session entry p;
       both = (sd_status session = St_awaiting_learner \<and> sp_phase p = Ph_awaiting_learner)
   in (gv_margin v \<noteq> Margin_closed \<longleftrightarrow> both)
    \<and> (case gv_margin v of
         Margin_form f \<Rightarrow> (case gs_turn session of
             Some m \<Rightarrow> jprop m ''prompt'' = Some (JStr (tf_prompt f))
               \<and> jprop m ''kind'' = Some (JStr (tf_kind f)) \<and> jprop m ''turn_number'' \<noteq> None
               \<and> tf_feedback f \<noteq> Some [] \<and> tf_busy f = sp_submitting p
           | None \<Rightarrow> False)
       | Margin_empty_turn \<Rightarrow> (case gs_turn session of
             Some m \<Rightarrow> Option.bind (jprop m ''turn_number'') as_number = None
               \<or> Option.bind (jprop m ''kind'') as_string = None
               \<or> Option.bind (jprop m ''prompt'') as_string = None
           | None \<Rightarrow> True)
       | Margin_closed \<Rightarrow> True)
    \<and> length (filter id [gv_margin v \<noteq> Margin_closed, gv_working v, gv_complete v \<noteq> None,
        gv_stopped v]) = 1
    \<and> (gv_complete v \<noteq> None \<longleftrightarrow> sd_status session = St_succeeded)
    \<and> (gv_stopped v \<longleftrightarrow> sd_status session \<in> {St_failed, St_cancelled})
    \<and> map snd (gv_notes v) = map snd (gs_transcript session)"
proof -
  have margin: "(case gv_margin (GuidedSessionView session entry p) of
         Margin_form f \<Rightarrow> (case gs_turn session of
             Some m \<Rightarrow> jprop m ''prompt'' = Some (JStr (tf_prompt f))
               \<and> jprop m ''kind'' = Some (JStr (tf_kind f)) \<and> jprop m ''turn_number'' \<noteq> None
               \<and> tf_feedback f \<noteq> Some [] \<and> tf_busy f = sp_submitting p
           | None \<Rightarrow> False)
       | Margin_empty_turn \<Rightarrow> (case gs_turn session of
             Some m \<Rightarrow> Option.bind (jprop m ''turn_number'') as_number = None
               \<or> Option.bind (jprop m ''kind'') as_string = None
               \<or> Option.bind (jprop m ''prompt'') as_string = None
           | None \<Rightarrow> True)
       | Margin_closed \<Rightarrow> True)"
  proof (cases "readSessionTurn (gs_turn session)")
    case None
    then show ?thesis
      by (simp add: GuidedSessionView_def Let_def readSessionTurn_def split: option.splits)
  next
    case (Some t)
    then show ?thesis
      using turn_readable [of "gs_turn session" t]
      by (auto simp: GuidedSessionView_def Let_def shown_text_def)
  qed
  have said: "map snd (gv_notes (GuidedSessionView session entry p)) = map snd (gs_transcript session)"
    by (simp add: GuidedSessionView_def Let_def comp_def case_prod_beta)
  show ?thesis
    using margin said
    by (cases "sd_status session"; cases "sp_phase p = Ph_awaiting_learner";
        cases "readSessionTurn (gs_turn session)")
       (simp_all add: Let_def GuidedSessionView_def session_awaiting_def)
qed

section \<open>The read after a turn\<close>

lemma last_noted: "frames (noteFrame m f) \<noteq> [] \<and> last (frames (noteFrame m f)) = f"
  by (simp add: noteFrame_def withFrame_def Let_def take_last_def MAX_FRAMES_def)

definition hears_turns :: "job_phase \<Rightarrow> bool" where
  "hears_turns p \<longleftrightarrow>
     p \<in> {Ph_attaching, Ph_live, Ph_awaiting_review, Ph_awaiting_learner, Ph_resolving}"

lemma turn_heard:
  assumes "hears_turns (phase m)"
  shows "jobReducer m (Ev_turn_ready f) = turnFrame m (Ev_turn_ready f)"
  using assms by (auto simp: hears_turns_def jobReducer_def awaitingLearner_row_def)

lemma checkpoint_heard:
  assumes "phase m = Ph_awaiting_learner"
  shows "newest_frame (jobReducer m (Ev_node_completed g)) = Some (jf_name g, jf_receivedAt g)"
    and "phase (jobReducer m (Ev_node_completed g)) = Ph_awaiting_learner"
proof -
  have "jobReducer m (Ev_node_completed g) = observeCheckpoint (noteFrame m g) g"
    using assms by (simp add: jobReducer_def awaitingLearner_row_def)
  moreover have "frames (observeCheckpoint m' g) = frames m'" "phase (observeCheckpoint m' g) = phase m'"
      for m' by (simp_all add: observeCheckpoint_def Let_def split: option.split)
  moreover have "phase (noteFrame m g) = phase m"
    by (simp add: noteFrame_def withFrame_def ensureOpen_def beginConnection_def Let_def)
  ultimately show "newest_frame (jobReducer m (Ev_node_completed g)) = Some (jf_name g, jf_receivedAt g)"
    and "phase (jobReducer m (Ev_node_completed g)) = Ph_awaiting_learner"
    using last_noted [of m g] assms by (simp_all add: newest_frame_def)
qed

text \<open>
  C36. A ready turn is read: when the machine of a listening page hears \<open>turn_ready\<close> and the page
  renders, exactly one more read is asked for, the composer's phase is the learner's, and rendering
  again asks for none. When another frame arrives before that render, though, the newest frame is
  no longer the turn, and no read is asked for.
\<close>

theorem turn_ready_is_read:
  assumes "hears_turns (phase (gp_machine s))" "jf_name f = ''turn_ready''"
    "gp_newest s \<noteq> Some (''turn_ready'', jf_receivedAt f)"
    "jf_name g \<noteq> ''turn_ready''"
  shows "let t = runs session_step s [Gs_machine (Ev_turn_ready f), Gs_commit];
             lost = runs session_step s
               [Gs_machine (Ev_turn_ready f), Gs_machine (Ev_node_completed g), Gs_commit]
    in gp_calls t = gp_calls s @ [Call_refresh] \<and> sp_phase (gp_shown t) = Ph_awaiting_learner
     \<and> gp_calls (session_step t Gs_commit) = gp_calls t
     \<and> gp_calls lost = gp_calls s \<and> sp_phase (gp_shown lost) = Ph_awaiting_learner"
proof -
  let ?m = "jobReducer (gp_machine s) (Ev_turn_ready f)"
  have m: "newest_frame ?m = Some (''turn_ready'', jf_receivedAt f)" "phase ?m = Ph_awaiting_learner"
    using last_noted [of "gp_machine s" f] assms(2)
    by (simp_all add: turn_heard [OF assms(1)] newest_frame_def)
  have k: "newest_frame (jobReducer ?m (Ev_node_completed g)) = Some (jf_name g, jf_receivedAt g)"
    "phase (jobReducer ?m (Ev_node_completed g)) = Ph_awaiting_learner"
    by (rule checkpoint_heard [OF m(2)])+
  show ?thesis
    using assms(3,4) by (auto simp: commit_page_def live_props_def m k Let_def)
qed

theorem turn_ready_is_read_witness:
  "let s = runs session_step (session_init ''s'') (opened 1);
       f = \<lparr>jf_name = ''turn_ready'', jf_data = None, jf_receivedAt = 5\<rparr>;
       g = \<lparr>jf_name = ''node_completed'', jf_data = None, jf_receivedAt = 6\<rparr>;
       t = runs session_step s [Gs_machine (Ev_turn_ready f), Gs_commit];
       lost = runs session_step s
               [Gs_machine (Ev_turn_ready f), Gs_machine (Ev_node_completed g), Gs_commit]
    in gp_calls t = gp_calls s @ [Call_refresh] \<and> sp_phase (gp_shown t) = Ph_awaiting_learner
     \<and> gp_calls (session_step t Gs_commit) = gp_calls t
     \<and> gp_calls lost = gp_calls s \<and> sp_phase (gp_shown lost) = Ph_awaiting_learner"
proof -
  have "phase (gp_machine (runs session_step (session_init ''s'') (opened 1))) = Ph_awaiting_learner
      \<and> gp_newest (runs session_step (session_init ''s'') (opened 1)) = None"
    by code_simp
  then show ?thesis
    unfolding Let_def
    by (intro turn_ready_is_read [unfolded Let_def]) (simp_all add: hears_turns_def)
qed

end
