(* ===== verification/Audit_Gate.thy ===== *)
theory Audit_Gate
  imports Stable_Sort
begin

text \<open>
  The dependency audit gate, \<open>web/scripts/audit-gate.mjs\<close>: reading an \<open>npm audit\<close> report, the
  exceptions file and the verdict. A report's \<open>vulnerabilities\<close> are its entries in order;
  \<open>localeCompare\<close> is the parameter \<open>le\<close> (true where it answers at most zero). Here the
  reports and the parsed exceptions file are inputs; \<open>Audit_Report\<close> has the runs of npm and \<open>main\<close>.
\<close>

section \<open>Reports\<close>

text \<open>An entry of \<open>via\<close>: a package name, an advisory object with what is read of it, or neither.\<close>

datatype via = Via_name string | Via_advisory "int option" "string option" | Via_other

record vulnerability =
  vu_severity :: string
  vu_isDirect :: bool
  vu_nodes :: "string list"
  vu_via :: "via list"

type_synonym audit_report = "(string \<times> vulnerability) list"

definition BLOCKING_SEVERITIES :: "string list" where
  "BLOCKING_SEVERITIES = [''high'', ''critical'']"

definition MIN_JUSTIFICATION :: nat where
  "MIN_JUSTIFICATION = 20"

definition REQUIRED_FIELDS :: "string list" where
  "REQUIRED_FIELDS = [''package'', ''advisories'', ''path'', ''justification'', ''date'']"

definition EXCEPTIONS_PATH :: string where
  "EXCEPTIONS_PATH = ''web/audit-exceptions.json''"

text \<open>\<open>report.vulnerabilities?.[name]?.via ?? []\<close>.\<close>

definition vias :: "audit_report \<Rightarrow> string \<Rightarrow> via list" where
  "vias report name = (case map_of report name of Some v \<Rightarrow> vu_via v | None \<Rightarrow> [])"

text \<open>The loop over \<open>via\<close>, with the recursive call inlined: \<open>seen\<close> is the set that every call
  shares, so it is threaded through.\<close>

function (sequential) walk_vias ::
  "audit_report \<Rightarrow> via list \<Rightarrow> string set \<Rightarrow> int set \<times> string set"
where
  "walk_vias report [] seen = ({}, seen)"
| "walk_vias report (Via_name n # vs) seen =
     (if n \<in> seen then walk_vias report vs seen
      else let (ids, seen1) = walk_vias report (vias report n) (insert n seen);
               (rest, seen2) = walk_vias report vs seen1
           in (ids \<union> rest, seen2))"
| "walk_vias report (Via_advisory (Some source) title # vs) seen =
     (let (rest, seen1) = walk_vias report vs seen in (insert source rest, seen1))"
| "walk_vias report (v # vs) seen = walk_vias report vs seen"
  by pat_completeness auto

lemma walk_grows:
  "walk_vias_dom (report, vs, seen) \<Longrightarrow> seen \<subseteq> snd (walk_vias report vs seen)"
proof (induction report vs seen rule: walk_vias.pinduct)
  case (2 report n vs seen)
  then show ?case
    by (cases "walk_vias report (vias report n) (insert n seen)")
       (auto simp: walk_vias.psimps Let_def split: prod.split, blast)
qed (auto simp: walk_vias.psimps Let_def split: prod.split)

definition unseen :: "audit_report \<Rightarrow> string set \<Rightarrow> nat" where
  "unseen report seen = card (fst ` set report - seen)"

lemma unseen_mono: "seen \<subseteq> seen' \<Longrightarrow> unseen report seen' \<le> unseen report seen"
  unfolding unseen_def by (rule card_mono) auto

lemma unseen_insert:
  "n \<in> fst ` set report \<Longrightarrow> n \<notin> seen \<Longrightarrow> unseen report (insert n seen) < unseen report seen"
  unfolding unseen_def by (rule psubset_card_mono) auto

lemma vias_unknown: "n \<notin> fst ` set report \<Longrightarrow> vias report n = []"
  by (simp add: vias_def map_of_eq_None_iff [THEN iffD2])

termination walk_vias
proof (relation "measures [\<lambda>(r, vs, seen). unseen r seen, \<lambda>(r, vs, seen). length vs]")
  fix report n vs and seen :: "string set"
  assume n: "n \<notin> seen"
  have "unseen report (insert n seen) \<le> unseen report seen"
    by (rule unseen_mono) auto
  moreover have "n \<in> fst ` set report \<or> vias report n = []"
    using vias_unknown by blast
  ultimately show "((report, vias report n, insert n seen), report, Via_name n # vs, seen)
      \<in> measures [\<lambda>(r, vs, seen). unseen r seen, \<lambda>(r, vs, seen). length vs]"
    using unseen_insert [of n report seen] n by auto
next
  fix report n vs and seen :: "string set" and x ids seen1
  assume n: "n \<notin> seen" "x = walk_vias report (vias report n) (insert n seen)" "(ids, seen1) = x"
    and dom: "walk_vias_dom (report, vias report n, insert n seen)"
  have "seen \<subseteq> seen1"
    using walk_grows [OF dom] n by (metis insert_subset snd_conv)
  then show "((report, vs, seen1), report, Via_name n # vs, seen)
      \<in> measures [\<lambda>(r, vs, seen). unseen r seen, \<lambda>(r, vs, seen). length vs]"
    using unseen_mono [of seen seen1 report] by auto
qed simp_all

definition advisoryIdsOf :: "audit_report \<Rightarrow> string \<Rightarrow> int set" where
  "advisoryIdsOf report name = fst (walk_vias report (vias report name) {name})"

record finding =
  fn_package :: string
  fn_severity :: string
  fn_isDirect :: bool
  fn_nodes :: "string list"
  fn_advisories :: "int list"
  fn_titles :: "string list"

definition via_title :: "via \<Rightarrow> string option" where
  "via_title v = (case v of Via_advisory s (Some t) \<Rightarrow> if t \<noteq> [] then Some t else None | _ \<Rightarrow> None)"

definition finding_of :: "audit_report \<Rightarrow> string \<times> vulnerability \<Rightarrow> finding" where
  "finding_of report = (\<lambda>(name, v).
     \<lparr>fn_package = name, fn_severity = vu_severity v, fn_isDirect = vu_isDirect v,
      fn_nodes = vu_nodes v, fn_advisories = sorted_list_of_set (advisoryIdsOf report name),
      fn_titles = List.map_filter via_title (vu_via v)\<rparr>)"

definition is_blocking :: "string \<times> vulnerability \<Rightarrow> bool" where
  "is_blocking e \<longleftrightarrow> vu_severity (snd e) \<in> set BLOCKING_SEVERITIES"

definition blockingFindings :: "(string \<Rightarrow> string \<Rightarrow> bool) \<Rightarrow> audit_report \<Rightarrow> finding list" where
  "blockingFindings le report =
     sort_by (\<lambda>a b. le (fn_package a) (fn_package b))
       (map (finding_of report) (filter is_blocking report))"

section \<open>The exceptions file\<close>

record audit_exception =
  ex_package :: string
  ex_advisories :: "int list"
  ex_path :: string
  ex_date :: string
  ex_owner :: "string option"
  ex_severity :: "string option"
  ex_justification :: string

text \<open>Why the file is refused, with the index of the entry.\<close>

datatype exceptions_error =
    Not_an_object | Exceptions_not_an_array | Entry_not_an_object nat | Field_missing nat string
  | Package_empty nat | Listed_twice nat string | Advisories_invalid nat string
  | Path_empty nat string | Path_ends_elsewhere nat string string | Date_invalid nat string
  | Justification_missing nat string

definition DATE :: "string \<Rightarrow> bool" where
  "DATE s \<longleftrightarrow>
     length s = 10 \<and> s ! 4 = CHR ''-'' \<and> s ! 7 = CHR ''-''
     \<and> list_all (\<lambda>k. digit_char (s ! k)) [0, 1, 2, 3, 5, 6, 8, 9]"

fun as_integer :: "json \<Rightarrow> int option" where
  "as_integer (JNum (JInt i)) = Some i"
| "as_integer _ = None"

text \<open>A non-empty array of integers.\<close>

fun integers :: "json list \<Rightarrow> int list option" where
  "integers [] = Some []"
| "integers (x # xs) =
     (case (as_integer x, integers xs) of (Some i, Some is) \<Rightarrow> Some (i # is) | _ \<Rightarrow> None)"

definition advisory_list :: "json option \<Rightarrow> int list option" where
  "advisory_list v =
     (case Option.bind v as_array of
        None \<Rightarrow> None
      | Some xs \<Rightarrow> if length xs = 0 then None else integers xs)"

definition string_at :: "jobj \<Rightarrow> string \<Rightarrow> string option" where
  "string_at m k = Option.bind (jprop m k) as_string"

definition missing_field :: "jobj \<Rightarrow> string option" where
  "missing_field m = find (\<lambda>k. jprop m k = None) REQUIRED_FIELDS"

definition parse_entry ::
  "string set \<Rightarrow> nat \<Rightarrow> json \<Rightarrow> exceptions_error + audit_exception"
where
  "parse_entry seen index v =
     (case as_record v of
        None \<Rightarrow> Inl (Entry_not_an_object index)
      | Some m \<Rightarrow>
     (case missing_field m of
        Some k \<Rightarrow> Inl (Field_missing index k)
      | None \<Rightarrow>
     (case string_at m ''package'' of
        None \<Rightarrow> Inl (Package_empty index)
      | Some name \<Rightarrow>
          if trim name = [] then Inl (Package_empty index)
          else if name \<in> seen then Inl (Listed_twice index name)
          else
     (case advisory_list (jprop m ''advisories'') of
        None \<Rightarrow> Inl (Advisories_invalid index name)
      | Some ids \<Rightarrow>
     (case string_at m ''path'' of
        None \<Rightarrow> Inl (Path_empty index name)
      | Some path \<Rightarrow>
          if trim path = [] then Inl (Path_empty index name)
          else let end = trim (last (split_on CHR ''>'' path)) in
          if end \<noteq> name then Inl (Path_ends_elsewhere index end name)
          else
     (case string_at m ''date'' of
        None \<Rightarrow> Inl (Date_invalid index name)
      | Some date \<Rightarrow>
          if \<not> DATE date then Inl (Date_invalid index name)
          else
     (case string_at m ''justification'' of
        None \<Rightarrow> Inl (Justification_missing index name)
      | Some why \<Rightarrow>
          if length (trim why) < MIN_JUSTIFICATION then Inl (Justification_missing index name)
          else Inr \<lparr>ex_package = name, ex_advisories = sort ids, ex_path = path, ex_date = date,
                    ex_owner = string_at m ''owner'', ex_severity = string_at m ''severity'',
                    ex_justification = trim why\<rparr>)))))))"

fun parse_entries ::
  "string set \<Rightarrow> nat \<Rightarrow> json list \<Rightarrow> exceptions_error + audit_exception list"
where
  "parse_entries seen index [] = Inr []"
| "parse_entries seen index (v # vs) =
     (case parse_entry seen index v of
        Inl e \<Rightarrow> Inl e
      | Inr x \<Rightarrow>
          (case parse_entries (insert (ex_package x) seen) (Suc index) vs of
             Inl e \<Rightarrow> Inl e
           | Inr xs \<Rightarrow> Inr (x # xs)))"

definition parseExceptions :: "json \<Rightarrow> exceptions_error + audit_exception list" where
  "parseExceptions raw =
     (case as_record raw of
        None \<Rightarrow> Inl Not_an_object
      | Some m \<Rightarrow>
          (case Option.bind (jprop m ''exceptions'') as_array of
             None \<Rightarrow> Inl Exceptions_not_an_array
           | Some xs \<Rightarrow> parse_entries {} 0 xs))"

definition sameIds :: "int list \<Rightarrow> int list \<Rightarrow> bool" where
  "sameIds a b \<longleftrightarrow> length a = length b \<and> list_all (\<lambda>(x, y). x = y) (zip a b)"

section \<open>The verdict\<close>

record full_verdict =
  fv_findings :: "finding list"
  fv_accepted :: "(finding \<times> audit_exception) list"
  fv_unlisted :: "(finding \<times> audit_exception option) list"
  fv_stale :: "audit_exception list"
  fv_ok :: bool

text \<open>\<open>new Map(exceptions.map(...))\<close>: the last entry of a package wins.\<close>

definition by_package :: "audit_exception list \<Rightarrow> string \<Rightarrow> audit_exception option" where
  "by_package exceptions = map_of (map (\<lambda>x. (ex_package x, x)) (rev exceptions))"

definition accepts :: "audit_exception list \<Rightarrow> finding \<Rightarrow> bool" where
  "accepts exceptions f =
     (case by_package exceptions (fn_package f) of
        Some x \<Rightarrow> sameIds (ex_advisories x) (fn_advisories f) | None \<Rightarrow> False)"

definition evaluateFullTree ::
  "(string \<Rightarrow> string \<Rightarrow> bool) \<Rightarrow> audit_report \<Rightarrow> audit_exception list \<Rightarrow> full_verdict"
where
  "evaluateFullTree le report exceptions =
     (let findings = blockingFindings le report;
          hits = filter (accepts exceptions) findings;
          accepted = map (\<lambda>f. (f, the (by_package exceptions (fn_package f)))) hits;
          unlisted = map (\<lambda>f. (f, by_package exceptions (fn_package f)))
                       (filter (\<lambda>f. \<not> accepts exceptions f) findings);
          matched = (ex_package \<circ> snd) ` set accepted;
          stale = filter (\<lambda>x. ex_package x \<notin> matched) exceptions
      in \<lparr>fv_findings = findings, fv_accepted = accepted, fv_unlisted = unlisted, fv_stale = stale,
          fv_ok = (length unlisted = 0 \<and> length stale = 0)\<rparr>)"

definition evaluateProduction ::
  "(string \<Rightarrow> string \<Rightarrow> bool) \<Rightarrow> audit_report \<Rightarrow> finding list \<times> bool"
where
  "evaluateProduction le report =
     (let findings = blockingFindings le report in (findings, length findings = 0))"

text \<open>\<open>run\<close> and the exit status of \<open>main\<close>: \<open>None\<close> when reading the exceptions file throws.\<close>

definition audit_run ::
  "(string \<Rightarrow> string \<Rightarrow> bool) \<Rightarrow> json \<Rightarrow> audit_report \<Rightarrow> audit_report \<Rightarrow> bool option"
where
  "audit_run le raw productionReport fullReport =
     (case parseExceptions raw of
        Inl e \<Rightarrow> None
      | Inr exceptions \<Rightarrow>
          Some (snd (evaluateProduction le productionReport)
                \<and> fv_ok (evaluateFullTree le fullReport exceptions)))"

definition audit_main ::
  "(string \<Rightarrow> string \<Rightarrow> bool) \<Rightarrow> string list \<Rightarrow> json \<Rightarrow> audit_report \<Rightarrow> audit_report \<Rightarrow> int option"
where
  "audit_main le argv raw productionReport fullReport =
     (if length argv > 0 then Some 2
      else map_option (\<lambda>ok. if ok then 0 else 1) (audit_run le raw productionReport fullReport))"

section \<open>Laws of the walk\<close>

definition names :: "via list \<Rightarrow> string set" where
  "names vs = {n. Via_name n \<in> set vs}"

definition sources :: "via list \<Rightarrow> int set" where
  "sources vs = {k. \<exists>t. Via_advisory (Some k) t \<in> set vs}"

definition rests_on :: "audit_report \<Rightarrow> (string \<times> string) set" where
  "rests_on report = {(a, b). b \<in> names (vias report a)}"

lemma names_simps [simp]:
  "names [] = {}" "names (Via_name n # vs) = insert n (names vs)"
  "names (Via_advisory s t # vs) = names vs" "names (Via_other # vs) = names vs"
  by (auto simp: names_def)

lemma sources_simps [simp]:
  "sources [] = {}" "sources (Via_name n # vs) = sources vs" "sources (Via_other # vs) = sources vs"
  "sources (Via_advisory None t # vs) = sources vs"
  "sources (Via_advisory (Some k) t # vs) = insert k (sources vs)"
  by (auto simp: sources_def)

text \<open>What one walk does: it adds \<open>seen' - seen\<close>, closed under the names below it and reachable
  from the names of the list, and collects the sources of the list and of what it added.\<close>

definition walked :: "audit_report \<Rightarrow> via list \<Rightarrow> string set \<Rightarrow> int set \<times> string set \<Rightarrow> bool" where
  "walked report vs seen = (\<lambda>(ids, seen').
     seen \<subseteq> seen' \<and> names vs \<subseteq> seen'
   \<and> (\<forall>x \<in> seen' - seen. names (vias report x) \<subseteq> seen')
   \<and> (\<forall>x \<in> seen' - seen. \<exists>n \<in> names vs. (n, x) \<in> (rests_on report)\<^sup>*)
   \<and> ids = sources vs \<union> (\<Union>x \<in> seen' - seen. sources (vias report x)))"

lemma walked_name:
  assumes n: "n \<notin> seen"
    and below: "walked report (vias report n) (insert n seen) (ids, seen1)"
    and after: "walked report vs seen1 (rest, seen2)"
  shows "walked report (Via_name n # vs) seen (ids \<union> rest, seen2)"
proof -
  have b: "insert n seen \<subseteq> seen1" "names (vias report n) \<subseteq> seen1"
      "\<And>x. x \<in> seen1 - insert n seen \<Longrightarrow> names (vias report x) \<subseteq> seen1"
      "\<And>x. x \<in> seen1 - insert n seen \<Longrightarrow>
         \<exists>m \<in> names (vias report n). (m, x) \<in> (rests_on report)\<^sup>*"
      "ids = sources (vias report n) \<union> (\<Union>x \<in> seen1 - insert n seen. sources (vias report x))"
    using below by (simp_all add: walked_def)
  have a: "seen1 \<subseteq> seen2" "names vs \<subseteq> seen2"
      "\<And>x. x \<in> seen2 - seen1 \<Longrightarrow> names (vias report x) \<subseteq> seen2"
      "\<And>x. x \<in> seen2 - seen1 \<Longrightarrow> \<exists>m \<in> names vs. (m, x) \<in> (rests_on report)\<^sup>*"
      "rest = sources vs \<union> (\<Union>x \<in> seen2 - seen1. sources (vias report x))"
    using after by (simp_all add: walked_def)
  have new: "seen2 - seen = insert n ((seen1 - insert n seen) \<union> (seen2 - seen1))"
    using n a(1) b(1) by blast
  have reach: "(n, x) \<in> (rests_on report)\<^sup>*" if x: "x \<in> seen1 - insert n seen" for x
  proof -
    obtain m where "m \<in> names (vias report n)" and y: "(m, x) \<in> (rests_on report)\<^sup>*"
      using b(4) [OF x] by blast
    then have "(n, m) \<in> rests_on report"
      by (simp add: rests_on_def)
    then show ?thesis using y by (rule converse_rtrancl_into_rtrancl)
  qed
  have "names (vias report x) \<subseteq> seen2" if "x \<in> seen2 - seen" for x
    using that a(1,3) b(2,3) unfolding new by blast
  moreover have "\<exists>m \<in> insert n (names vs). (m, x) \<in> (rests_on report)\<^sup>*" if "x \<in> seen2 - seen" for x
    using that a(4) reach unfolding new by blast
  moreover have "ids \<union> rest = sources vs \<union> (\<Union>x \<in> seen2 - seen. sources (vias report x))"
    unfolding new a(5) b(5) by blast
  moreover have "seen \<subseteq> seen2" and "insert n (names vs) \<subseteq> seen2"
    using a(1,2) b(1) by blast+
  ultimately show ?thesis
    unfolding walked_def split names_simps(2) sources_simps(2) by blast
qed

lemma walk_spec: "walked report vs seen (walk_vias report vs seen)"
proof (induction report vs seen rule: walk_vias.induct)
  case (1 report seen)
  then show ?case by (simp add: walked_def)
next
  case (2 report n vs seen)
  show ?case
  proof (cases "n \<in> seen")
    case True
    then show ?thesis using "2.IH"(1) by (auto simp: walked_def split: prod.splits)
  next
    case False
    obtain ids seen1 where below: "walk_vias report (vias report n) (insert n seen) = (ids, seen1)"
      by (cases "walk_vias report (vias report n) (insert n seen)")
    obtain rest seen2 where after: "walk_vias report vs seen1 = (rest, seen2)"
      by (cases "walk_vias report vs seen1")
    have "walked report (vias report n) (insert n seen) (ids, seen1)"
      using "2.IH"(2) [OF False] below by simp
    moreover have "walked report vs seen1 (rest, seen2)"
      using "2.IH"(3) [OF False] below after by simp
    ultimately show ?thesis
      using walked_name [OF False] False below after by simp
  qed
next
  case (3 report source title vs seen)
  then show ?case by (auto simp: walked_def split: prod.splits)
qed (auto simp: walked_def split: prod.splits)

lemma walk_finite: "finite (fst (walk_vias report vs seen))"
  by (induction report vs seen rule: walk_vias.induct) (auto split: prod.split)

section \<open>Laws of the verdict\<close>

lemma set_blockingFindings:
  "set (blockingFindings le report) = finding_of report ` {e \<in> set report. is_blocking e}"
  by (simp add: blockingFindings_def)

lemma sameIds_eq: "sameIds a b \<longleftrightarrow> a = b"
  by (auto simp: sameIds_def list_all_iff list_eq_iff_zip_eq)

definition signed :: "audit_exception \<Rightarrow> bool" where
  "signed x \<longleftrightarrow>
     trim (ex_package x) \<noteq> [] \<and> ex_advisories x \<noteq> [] \<and> sorted (ex_advisories x)
   \<and> trim (last (split_on CHR ''>'' (ex_path x))) = ex_package x
   \<and> DATE (ex_date x) \<and> MIN_JUSTIFICATION \<le> length (ex_justification x)"

lemma integers_length: "integers xs = Some is \<Longrightarrow> length is = length xs"
  by (induction xs arbitrary: "is") (auto split: option.splits)

lemma advisory_list_filled: "advisory_list v = Some ids \<Longrightarrow> ids \<noteq> []"
  using integers_length by (force simp: advisory_list_def split: option.splits if_splits)

lemma sort_Nil: "sort xs = [] \<longleftrightarrow> xs = []" for xs :: "int list"
  by (metis set_empty set_sort)

lemma parse_entry_signed:
  "parse_entry seen index v = Inr x \<Longrightarrow> signed x \<and> ex_package x \<notin> seen"
  using advisory_list_filled
  by (auto simp: parse_entry_def signed_def Let_def sort_Nil
      split: option.splits if_splits)

lemma parse_entries_signed:
  "parse_entries seen index vs = Inr xs \<Longrightarrow>
     list_all signed xs \<and> distinct (map ex_package xs) \<and> ex_package ` set xs \<inter> seen = {}"
proof (induction vs arbitrary: seen index xs)
  case Nil
  then show ?case by simp
next
  case (Cons v vs)
  then obtain x ys where x: "parse_entry seen index v = Inr x" "xs = x # ys"
      and ys: "parse_entries (insert (ex_package x) seen) (Suc index) vs = Inr ys"
    by (auto split: sum.splits)
  with Cons.IH [OF ys] parse_entry_signed [OF x(1)] show ?case by auto
qed

lemma parse_signed:
  "parseExceptions raw = Inr xs \<Longrightarrow> list_all signed xs \<and> distinct (map ex_package xs)"
  using parse_entries_signed by (auto simp: parseExceptions_def split: option.splits)

lemma by_package_iff:
  "distinct (map ex_package xs) \<Longrightarrow>
     by_package xs p = Some x \<longleftrightarrow> x \<in> set xs \<and> ex_package x = p"
proof -
  let ?m = "map (\<lambda>x. (ex_package x, x)) (rev xs)"
  assume "distinct (map ex_package xs)"
  then have "distinct (map fst ?m)"
    by (simp add: comp_def rev_map [symmetric])
  then have "map_of ?m p = Some x \<longleftrightarrow> (p, x) \<in> set ?m"
    by (rule map_of_eq_Some_iff)
  then show ?thesis by (auto simp: by_package_def)
qed

definition excepted :: "audit_exception list \<Rightarrow> (string \<times> int list) set" where
  "excepted xs = (\<lambda>x. (ex_package x, ex_advisories x)) ` set xs"

definition reported :: "audit_report \<Rightarrow> (string \<times> int list) set" where
  "reported report =
     (\<lambda>e. (fst e, sorted_list_of_set (advisoryIdsOf report (fst e))))
       ` {e \<in> set report. is_blocking e}"

lemma reported_findings:
  "reported report = (\<lambda>f. (fn_package f, fn_advisories f)) ` set (blockingFindings le report)"
  by (force simp: reported_def set_blockingFindings finding_of_def image_image)

lemma accepts_iff:
  "distinct (map ex_package xs) \<Longrightarrow>
     accepts xs f \<longleftrightarrow> (fn_package f, fn_advisories f) \<in> excepted xs"
proof -
  assume d: "distinct (map ex_package xs)"
  show ?thesis
  proof (cases "by_package xs (fn_package f)")
    case None
    then have "fn_package f \<notin> ex_package ` set xs"
      using by_package_iff [OF d, of "fn_package f"] by fastforce
    then show ?thesis using None by (auto simp: accepts_def excepted_def)
  next
    case (Some x)
    then have x: "x \<in> set xs" "ex_package x = fn_package f"
      using by_package_iff [OF d] by simp_all
    have only: "y = x" if "y \<in> set xs" "ex_package y = fn_package f" for y
      using that by_package_iff [OF d, of "fn_package f" y] Some by simp
    have "(fn_package f, fn_advisories f) \<in> excepted xs \<longleftrightarrow> ex_advisories x = fn_advisories f"
    proof
      assume "(fn_package f, fn_advisories f) \<in> excepted xs"
      then obtain y where "(fn_package f, fn_advisories f) = (ex_package y, ex_advisories y)" "y \<in> set xs"
        unfolding excepted_def by (rule imageE)
      then have "y \<in> set xs" "ex_package y = fn_package f" "ex_advisories y = fn_advisories f"
        by simp_all
      then show "ex_advisories x = fn_advisories f" using only by blast
    next
      assume "ex_advisories x = fn_advisories f"
      then show "(fn_package f, fn_advisories f) \<in> excepted xs"
        unfolding excepted_def using x by (intro image_eqI [of _ _ x]) simp_all
    qed
    then show ?thesis
      using Some by (simp add: accepts_def sameIds_eq)
  qed
qed

lemma verdict_exact:
  assumes d: "distinct (map ex_package xs)"
  shows "fv_ok (evaluateFullTree le report xs) \<longleftrightarrow> reported report = excepted xs"
proof -
  let ?fs = "blockingFindings le report"
  let ?hits = "filter (accepts xs) ?fs"
  have hit: "ex_package (the (by_package xs (fn_package f))) = fn_package f" if "accepts xs f" for f
    using that by_package_iff [OF d, of "fn_package f"]
    by (cases "by_package xs (fn_package f)") (auto simp: accepts_def)
  have "filter (\<lambda>f. \<not> accepts xs f) ?fs = [] \<longleftrightarrow> reported report \<subseteq> excepted xs"
    by (auto simp: filter_empty_conv reported_findings [of _ le] accepts_iff [OF d])
  moreover have "(\<forall>x \<in> set xs. ex_package x \<in> fn_package ` set ?hits)
      \<longleftrightarrow> excepted xs \<subseteq> reported report"
  proof
    assume all: "\<forall>x \<in> set xs. ex_package x \<in> fn_package ` set ?hits"
    show "excepted xs \<subseteq> reported report"
    proof
      fix p assume "p \<in> excepted xs"
      then obtain x where x: "x \<in> set xs" "p = (ex_package x, ex_advisories x)"
        by (auto simp: excepted_def)
      then obtain f where f: "f \<in> set ?fs" "accepts xs f" "fn_package f = ex_package x"
        using all by auto
      then have "by_package xs (fn_package f) = Some x"
        using by_package_iff [OF d] x by simp
      then have "p = (fn_package f, fn_advisories f)"
        using f x by (simp add: accepts_def sameIds_eq)
      then show "p \<in> reported report"
        unfolding reported_findings [of _ le] using f(1) by (rule image_eqI)
    qed
  next
    assume sub: "excepted xs \<subseteq> reported report"
    show "\<forall>x \<in> set xs. ex_package x \<in> fn_package ` set ?hits"
    proof
      fix x assume "x \<in> set xs"
      then have "(ex_package x, ex_advisories x) \<in> excepted xs"
        by (auto simp: excepted_def)
      moreover then obtain f where
        "f \<in> set ?fs" "(ex_package x, ex_advisories x) = (fn_package f, fn_advisories f)"
        using sub by (auto simp: reported_findings [of _ le])
      ultimately show "ex_package x \<in> fn_package ` set ?hits"
        by (auto simp: accepts_iff [OF d])
    qed
  qed
  moreover have "(ex_package \<circ> snd) ` set (map (\<lambda>f. (f, the (by_package xs (fn_package f)))) ?hits)
      = fn_package ` set ?hits"
    using hit by (force simp: image_image)
  ultimately show ?thesis
    by (auto simp: evaluateFullTree_def Let_def filter_empty_conv)
qed

section \<open>Properties\<close>

lemma walked_reaches:
  assumes spec: "walked report (vias report name) {name} (ids, seen)"
  shows "seen = {x. (name, x) \<in> (rests_on report)\<^sup>*}"
proof -
  have "x \<in> seen" if "(name, x) \<in> (rests_on report)\<^sup>*" for x
    using that
  proof (induction rule: rtrancl_induct)
    case base
    then show ?case using spec by (simp add: walked_def)
  next
    case (step y z)
    then show ?case using spec by (auto simp: walked_def rests_on_def)
  qed
  moreover have "(name, x) \<in> (rests_on report)\<^sup>*" if "x \<in> seen" for x
  proof (cases "x = name")
    case False
    then have "x \<in> seen - {name}" using that by simp
    moreover have "\<forall>x \<in> seen - {name}. \<exists>n \<in> names (vias report name). (n, x) \<in> (rests_on report)\<^sup>*"
      using spec by (simp add: walked_def)
    ultimately obtain n where n: "n \<in> names (vias report name)" "(n, x) \<in> (rests_on report)\<^sup>*"
      by (drule_tac bspec) (assumption, elim bexE)
    then have "(name, n) \<in> rests_on report" by (simp add: rests_on_def)
    then show ?thesis using n(2) by (rule converse_rtrancl_into_rtrancl)
  qed simp
  ultimately show ?thesis by blast
qed

lemma walked_collects:
  assumes "walked report (vias report name) {name} (ids, seen)"
  shows "ids = (\<Union>x \<in> seen. sources (vias report x))"
proof -
  have "ids = sources (vias report name) \<union> (\<Union>x \<in> seen - {name}. sources (vias report x))"
      and "name \<in> seen"
    using assms by (simp_all add: walked_def)
  moreover from this(2) have "seen = insert name (seen - {name})" by (rule insert_Diff [symmetric])
  then have "(\<Union>x \<in> seen. sources (vias report x))
      = sources (vias report name) \<union> (\<Union>x \<in> seen - {name}. sources (vias report x))"
    by (metis UN_insert)
  ultimately show ?thesis by (simp only:)
qed

text \<open>
  C22. The walk over a report ends and finds everything: the advisory ids of a package are exactly
  the sources of the advisory objects of every package it rests on, directly or through any
  chain of names, cycles included.
\<close>

theorem advisory_ids_are_the_reachable_sources:
  "advisoryIdsOf report name =
     {k. \<exists>m t. (name, m) \<in> {(a, b). Via_name b \<in> set (vias report a)}\<^sup>*
        \<and> Via_advisory (Some k) t \<in> set (vias report m)}"
proof -
  obtain ids seen where w: "walk_vias report (vias report name) {name} = (ids, seen)"
    by (cases "walk_vias report (vias report name) {name}")
  have spec: "walked report (vias report name) {name} (ids, seen)"
    using walk_spec [of report "vias report name" "{name}"] w by simp
  have "advisoryIdsOf report name = ids"
    by (simp add: advisoryIdsOf_def w)
  also have "\<dots> = (\<Union>x \<in> {x. (name, x) \<in> (rests_on report)\<^sup>*}. sources (vias report x))"
    using walked_collects [OF spec] by (simp only: walked_reaches [OF spec])
  also have "\<dots> = {k. \<exists>m t. (name, m) \<in> (rests_on report)\<^sup>*
      \<and> Via_advisory (Some k) t \<in> set (vias report m)}"
    by (auto simp: sources_def)
  also have "rests_on report = {(a, b). Via_name b \<in> set (vias report a)}"
    by (simp add: rests_on_def names_def)
  finally show ?thesis .
qed

text \<open>
  C23. The gate is exact: the check exits with zero exactly when it was given no argument, the
  exceptions file is well-formed, the production tree has no blocking entry at all, and the
  blocking packages of the full tree with their advisory ids are the excepted ones: nothing
  unlisted and nothing stale.
\<close>

theorem gate_is_exact:
  "audit_main le argv raw productionReport fullReport = Some 0
   \<longleftrightarrow> argv = [] \<and> \<not> list_ex is_blocking productionReport
     \<and> (\<exists>xs. parseExceptions raw = Inr xs
         \<and> (\<lambda>e. (fst e, sorted_list_of_set (advisoryIdsOf fullReport (fst e))))
              ` {e \<in> set fullReport. is_blocking e}
           = (\<lambda>x. (ex_package x, ex_advisories x)) ` set xs)"
proof (cases "parseExceptions raw")
  case (Inl e)
  then show ?thesis by (simp add: audit_main_def audit_run_def)
next
  case (Inr xs)
  have "blockingFindings le productionReport = [] \<longleftrightarrow> \<not> list_ex is_blocking productionReport"
    using set_blockingFindings [of le productionReport]
    by (auto simp: list_ex_iff simp flip: set_empty)
  then show ?thesis
    using parse_signed [OF Inr] verdict_exact [of xs le fullReport]
    by (simp add: audit_main_def audit_run_def evaluateProduction_def Let_def Inr reported_def
        excepted_def)
qed

text \<open>
  C27. Every accepted exception is signed: an exceptions file that parses lists each package once,
  each entry with a non-empty sorted list of advisory ids, a path that ends at the package, a
  date in the form year, month, day and a justification of at least twenty characters.
\<close>

theorem exceptions_are_signed:
  "case parseExceptions raw of
     Inl e \<Rightarrow> True
   | Inr xs \<Rightarrow> distinct (map ex_package xs)
       \<and> list_all (\<lambda>x. ex_advisories x \<noteq> [] \<and> sorted (ex_advisories x)
           \<and> trim (last (split_on CHR ''>'' (ex_path x))) = ex_package x
           \<and> DATE (ex_date x) \<and> 20 \<le> length (ex_justification x)) xs"
proof (cases "parseExceptions raw")
  case (Inr xs)
  then show ?thesis
    using parse_signed [OF Inr] by (simp add: list_all_iff signed_def MIN_JUSTIFICATION_def)
qed simp

end
