(* ===== verification/Ops_Gates.thy ===== *)
theory Ops_Gates
  imports Audit_Gate
begin

text \<open>
  Two more gates that the operators run: the container's health check,
  \<open>web/scripts/healthcheck.mjs\<close>, and the route budgets, \<open>web/scripts/route-budgets.mjs\<close>. The
  events of the HTTP request, \<open>JSON.parse\<close> and the build's manifests and file sizes are inputs;
  file paths are posix paths without trailing or repeated slashes. The report and the
  console lines of the budgets are in \<open>Budget_Report\<close>.
\<close>

section \<open>The health check\<close>

definition HEALTHY_STATUS :: int where
  "HEALTHY_STATUS = 200"

datatype health_report = HR_ok | HR_degraded | HR_unknown | HR_unreachable

fun health_word :: "health_report \<Rightarrow> string" where
  "health_word HR_ok = ''ok''"
| "health_word HR_degraded = ''degraded''"
| "health_word HR_unknown = ''unknown''"
| "health_word HR_unreachable = ''unreachable''"

record probe_result =
  pb_error :: "string option"
  pb_statusCode :: "int option"
  pb_body :: "string option"

record health_verdict =
  hv_exitCode :: int
  hv_report :: health_report
  hv_status :: "string option"
  hv_dependencies :: json
  hv_line :: string

text \<open>Property access on a parsed value that is an object (an array has neither property).\<close>

fun prop_of :: "json \<Rightarrow> string \<Rightarrow> json option" where
  "prop_of (JObj m) k = jprop m k"
| "prop_of _ k = None"

fun is_object :: "json \<Rightarrow> bool" where
  "is_object (JObj m) = True"
| "is_object (JArr xs) = True"
| "is_object _ = False"

fun values_of :: "json \<Rightarrow> json list" where
  "values_of (JObj m) = map snd m"
| "values_of (JArr xs) = xs"
| "values_of _ = []"

definition read_health :: "json option \<Rightarrow> health_report \<times> string option \<times> json" where
  "read_health parsed =
     (case parsed of
        None \<Rightarrow> (HR_unknown, None, JObj [])
      | Some v \<Rightarrow>
          if is_object v then
            (let status = Option.bind (prop_of v ''status'') as_string;
                 dependencies = (case prop_of v ''dependencies'' of
                     Some d \<Rightarrow> if is_object d then d else JObj [] | None \<Rightarrow> JObj []);
                 allUp = list_all (\<lambda>x. x = JStr ''ok'') (values_of dependencies)
             in (if status = Some ''ok'' \<and> allUp then HR_ok
                 else if status \<noteq> None then HR_degraded else HR_unknown,
                 status, dependencies))
          else (HR_unknown, None, JObj []))"

definition classify :: "(string \<Rightarrow> json option) \<Rightarrow> probe_result \<Rightarrow> health_verdict" where
  "classify parse result =
     (case (pb_error result, pb_statusCode result) of
        (None, Some code) \<Rightarrow>
          (let (report, status, dependencies) =
                 read_health (parse (case pb_body result of Some b \<Rightarrow> b | None \<Rightarrow> []))
           in \<lparr>hv_exitCode = (if code = HEALTHY_STATUS then 0 else 1),
               hv_report = report, hv_status = status, hv_dependencies = dependencies,
               hv_line = stringify (JObj
                 [(''event'', JStr ''web_healthcheck''), (''http_status'', JNum (JInt code)),
                  (''report'', JStr (health_word report)), (''status'', jopt JStr status),
                  (''dependencies'', dependencies)])\<rparr>)
      | (error, _) \<Rightarrow>
          \<lparr>hv_exitCode = 1, hv_report = HR_unreachable, hv_status = None,
           hv_dependencies = JObj [],
           hv_line = stringify (JObj
             [(''event'', JStr ''web_healthcheck''),
              (''report'', JStr (health_word HR_unreachable)),
              (''error'', JStr (case error of Some e \<Rightarrow> e | None \<Rightarrow> ''no response''))])\<rparr>)"

text \<open>What the request reports: the response's head, chunks of its body, its end, an error (a
  timeout is one), or that the connection closed.\<close>

datatype http_event = Http_response int | Http_data string | Http_end | Http_error string | Http_close

record probe_state =
  ps_code :: "int option"
  ps_body :: string
  ps_result :: "probe_result option"

definition probe_settle :: "probe_state \<Rightarrow> probe_result \<Rightarrow> probe_state" where
  "probe_settle s r = (if ps_result s = None then s\<lparr>ps_result := Some r\<rparr> else s)"

fun probe_step :: "probe_state \<Rightarrow> http_event \<Rightarrow> probe_state" where
  "probe_step s (Http_response code) = s\<lparr>ps_code := Some code\<rparr>"
| "probe_step s (Http_data chunk) =
     (if length (ps_body s) < 8192 then s\<lparr>ps_body := ps_body s @ chunk\<rparr> else s)"
| "probe_step s Http_end =
     probe_settle s \<lparr>pb_error = None, pb_statusCode = ps_code s, pb_body = Some (ps_body s)\<rparr>"
| "probe_step s (Http_error message) =
     probe_settle s \<lparr>pb_error = Some message, pb_statusCode = None, pb_body = None\<rparr>"
| "probe_step s Http_close = s"

definition probe :: "http_event list \<Rightarrow> probe_result option" where
  "probe es = ps_result (foldl probe_step \<lparr>ps_code = None, ps_body = [], ps_result = None\<rparr> es)"

text \<open>The exit code and output of the process: a promise that never settles leaves the event loop
  empty, and the process ends with nothing written and the default code, zero.\<close>

definition health_main :: "(string \<Rightarrow> json option) \<Rightarrow> http_event list \<Rightarrow> int \<times> string list" where
  "health_main parse es =
     (case probe es of
        None \<Rightarrow> (0, [])
      | Some r \<Rightarrow> (hv_exitCode (classify parse r), [hv_line (classify parse r)]))"

section \<open>Budgets\<close>

datatype row_kind =
    Route_first_load_js | Shared_first_load_js | Emitted_css | Self_hosted_fonts
  | External_total_transferred_js | Derived_total_first_load

datatype enforcement = Gated | External | Reported

fun row_kind_of :: "string \<Rightarrow> row_kind option" where
  "row_kind_of k =
     (if k = ''route-first-load-js'' then Some Route_first_load_js
      else if k = ''shared-first-load-js'' then Some Shared_first_load_js
      else if k = ''emitted-css'' then Some Emitted_css
      else if k = ''self-hosted-fonts'' then Some Self_hosted_fonts
      else if k = ''external-total-transferred-js'' then Some External_total_transferred_js
      else if k = ''derived-total-first-load'' then Some Derived_total_first_load
      else None)"

fun enforcement_of :: "string \<Rightarrow> enforcement option" where
  "enforcement_of e =
     (if e = ''gated'' then Some Gated else if e = ''external'' then Some External
      else if e = ''reported'' then Some Reported else None)"

text \<open>A row as the file has it; a missing text is \<open>None\<close>, and so is a baseline of \<open>null\<close>.\<close>

record raw_row =
  rr_id :: "string option"
  rr_kind :: string
  rr_enforcement :: string
  rr_budgetBytes :: json
  rr_baselineBytes :: "json option"
  rr_route :: string
  rr_derivedFrom :: "string list"

record budget_row =
  bw_id :: string
  bw_kind :: row_kind
  bw_enforcement :: enforcement
  bw_budget :: nat
  bw_baseline :: "nat option"
  bw_route :: string
  bw_derivedFrom :: "string list"

datatype budget_error =
    BE_no_rows | BE_row_id | BE_kind string | BE_enforcement string | BE_bytes string
  | BE_unknown_route string | BE_unknown_row string

fun parseBudgetBytes :: "json \<Rightarrow> nat option" where
  "parseBudgetBytes (JNum (JInt i)) = (if i < 0 then None else Some (nat i))"
| "parseBudgetBytes _ = None"

definition load_row :: "string set \<Rightarrow> raw_row \<Rightarrow> budget_error + budget_row" where
  "load_row seen row =
     (case rr_id row of
        None \<Rightarrow> Inl BE_row_id
      | Some i \<Rightarrow>
          if i = [] \<or> i \<in> seen then Inl BE_row_id
          else (case row_kind_of (rr_kind row) of
             None \<Rightarrow> Inl (BE_kind i)
           | Some kind \<Rightarrow> (case enforcement_of (rr_enforcement row) of
               None \<Rightarrow> Inl (BE_enforcement i)
             | Some enforcement \<Rightarrow> (case parseBudgetBytes (rr_budgetBytes row) of
                 None \<Rightarrow> Inl (BE_bytes i)
               | Some budget \<Rightarrow>
                   (let loaded = (\<lambda>baseline. \<lparr>bw_id = i, bw_kind = kind,
                            bw_enforcement = enforcement, bw_budget = budget,
                            bw_baseline = baseline, bw_route = rr_route row,
                            bw_derivedFrom = rr_derivedFrom row\<rparr>)
                    in case rr_baselineBytes row of
                         None \<Rightarrow> Inr (loaded None)
                       | Some b \<Rightarrow> (case parseBudgetBytes b of
                           None \<Rightarrow> Inl (BE_bytes i)
                         | Some n \<Rightarrow> Inr (loaded (Some n))))))))"

fun load_rows :: "string set \<Rightarrow> raw_row list \<Rightarrow> budget_error + budget_row list" where
  "load_rows seen [] = Inr []"
| "load_rows seen (row # rows) =
     (case load_row seen row of
        Inl e \<Rightarrow> Inl e
      | Inr r \<Rightarrow> (case load_rows (insert (bw_id r) seen) rows of
          Inl e \<Rightarrow> Inl e | Inr rs \<Rightarrow> Inr (r # rs)))"

definition loadBudgets :: "raw_row list option \<Rightarrow> budget_error + budget_row list" where
  "loadBudgets rows =
     (case rows of
        None \<Rightarrow> Inl BE_no_rows
      | Some rs \<Rightarrow> if rs = [] then Inl BE_no_rows else load_rows {} rs)"

section \<open>Which files a route loads\<close>

definition posix_basename :: "string \<Rightarrow> string" where
  "posix_basename s = last (split_on CHR ''/'' s)"

definition posix_dirname :: "string \<Rightarrow> string" where
  "posix_dirname s =
     (let ws = butlast (split_on CHR ''/'' s); d = join ''/'' ws
      in if ws = [] then ''.'' else if d = [] then ''/'' else d)"

definition segment_names :: "string list" where
  "segment_names =
     [''page'', ''layout'', ''template'', ''default'', ''error'', ''global-error'', ''not-found'',
      ''loading'', ''forbidden'', ''unauthorized'']"

definition script_extensions :: "string list" where
  "script_extensions =
     concat (map (\<lambda>m. concat (map (\<lambda>l. map (\<lambda>x. m @ l @ ''s'' @ x) [[], ''x'']) [''j'', ''t'']))
       [[], ''c'', ''m''])"

definition APP_SEGMENT_FILE :: "string \<Rightarrow> bool" where
  "APP_SEGMENT_FILE base \<longleftrightarrow>
     list_ex (\<lambda>n. list_ex (\<lambda>e. base = n @ ''.'' @ e) script_extensions) segment_names"

definition isOnRouteSegmentPath :: "string \<Rightarrow> string \<Rightarrow> bool" where
  "isOnRouteSegmentPath modulePath entryKey \<longleftrightarrow>
     (if \<not> starts_with ''app/'' modulePath then True
      else let entryDir = posix_dirname (''app'' @ entryKey);
               moduleDir = posix_dirname modulePath;
               base = posix_basename modulePath
           in if \<not> APP_SEGMENT_FILE base then False
              else if \<not> (entryDir = moduleDir \<or> starts_with (moduleDir @ ''/'') entryDir) then False
              else if starts_with ''page.'' base \<and> moduleDir \<noteq> entryDir then False
              else True)"

text \<open>\<open>decode\<close> is \<open>decodeURIComponent\<close>; a chunk that is a number (an id) is \<open>None\<close>.\<close>

definition ends_with :: "string \<Rightarrow> string \<Rightarrow> bool" where
  "ends_with p s \<longleftrightarrow> starts_with (rev p) (rev s)"

definition chunkPathsOf :: "(string \<Rightarrow> string) \<Rightarrow> string option list \<Rightarrow> string list" where
  "chunkPathsOf decode chunks =
     map decode (filter (\<lambda>c. str_includes c ''static/chunks/'' \<and> ends_with ''.js'' c)
       (List.map_filter id chunks))"

text \<open>What is read of the build: the two manifests, and per entry the client modules with their
  chunks, the paths already relative to the web directory.\<close>

record build =
  bd_rootMainFiles :: "string list"
  bd_polyfillFiles :: "string list"
  bd_appRoutes :: "(string \<times> string) list"
  bd_modules :: "string \<Rightarrow> (string \<times> string option list) list option"
  bd_gzip :: "string \<Rightarrow> nat"
  bd_css :: "string list"
  bd_fonts :: "nat list"

definition sharedFirstLoadFiles :: "build \<Rightarrow> string list" where
  "sharedFirstLoadFiles b =
     filter (\<lambda>f. f \<notin> set (bd_polyfillFiles b)) (bd_rootMainFiles b)"

definition module_chunks ::
  "(string \<Rightarrow> string) \<Rightarrow> build \<Rightarrow> string \<Rightarrow> (string \<times> string option list) list \<Rightarrow> string list"
where
  "module_chunks decode b entryKey modules =
     concat (map (\<lambda>(rel, chunks).
       if ends_with ''.css'' rel \<or> \<not> isOnRouteSegmentPath rel entryKey then []
       else filter (\<lambda>c. c \<notin> set (bd_polyfillFiles b)) (chunkPathsOf decode chunks)) modules)"

text \<open>The set of files, in the order of insertion (only its sum is used).\<close>

definition routeFirstLoadFiles ::
  "(string \<Rightarrow> string) \<Rightarrow> build \<Rightarrow> string \<Rightarrow> budget_error + string list"
where
  "routeFirstLoadFiles decode b route =
     (case find (\<lambda>e. snd e = route) (bd_appRoutes b) of
        None \<Rightarrow> Inl (BE_unknown_route route)
      | Some (entryKey, _) \<Rightarrow>
          (case bd_modules b entryKey of
             None \<Rightarrow> Inl (BE_unknown_route route)
           | Some modules \<Rightarrow> Inr (rev (remdups (rev
               (sharedFirstLoadFiles b @ module_chunks decode b entryKey modules))))))"

definition sumFiles :: "build \<Rightarrow> string list \<Rightarrow> nat" where
  "sumFiles b files = sum_list (map (bd_gzip b) files)"

section \<open>Measuring and evaluating\<close>

record measurement =
  me_row :: budget_row
  me_bytes :: "nat option"

fun derived_total :: "measurement list \<Rightarrow> string list \<Rightarrow> budget_error + nat" where
  "derived_total measured [] = Inr 0"
| "derived_total measured (i # is) =
     (case find (\<lambda>m. bw_id (me_row m) = i) (rev measured) of
        None \<Rightarrow> Inl (BE_unknown_row i)
      | Some m \<Rightarrow> (case derived_total measured is of
          Inl e \<Rightarrow> Inl e
        | Inr n \<Rightarrow> Inr ((case me_bytes m of Some k \<Rightarrow> k | None \<Rightarrow> 0) + n)))"

definition measure_row ::
  "(string \<Rightarrow> string) \<Rightarrow> build \<Rightarrow> measurement list \<Rightarrow> budget_row \<Rightarrow> budget_error + nat option"
where
  "measure_row decode b measured row =
     (case bw_kind row of
        Route_first_load_js \<Rightarrow>
          (case routeFirstLoadFiles decode b (bw_route row) of
             Inl e \<Rightarrow> Inl e | Inr files \<Rightarrow> Inr (Some (sumFiles b files)))
      | Shared_first_load_js \<Rightarrow> Inr (Some (sumFiles b (sharedFirstLoadFiles b)))
      | Emitted_css \<Rightarrow> Inr (Some (sumFiles b (bd_css b)))
      | Self_hosted_fonts \<Rightarrow> Inr (Some (sum_list (bd_fonts b)))
      | External_total_transferred_js \<Rightarrow> Inr None
      | Derived_total_first_load \<Rightarrow>
          (case derived_total measured (bw_derivedFrom row) of
             Inl e \<Rightarrow> Inl e | Inr n \<Rightarrow> Inr (Some n)))"

fun measure_rows ::
  "(string \<Rightarrow> string) \<Rightarrow> build \<Rightarrow> measurement list \<Rightarrow> budget_row list
     \<Rightarrow> budget_error + measurement list"
where
  "measure_rows decode b measured [] = Inr measured"
| "measure_rows decode b measured (row # rows) =
     (case measure_row decode b measured row of
        Inl e \<Rightarrow> Inl e
      | Inr n \<Rightarrow>
          measure_rows decode b (measured @ [\<lparr>me_row = row, me_bytes = n\<rparr>]) rows)"

datatype row_status = Status_external | Status_reported | Status_breach | Status_pass

record evaluated =
  ev_measurement :: measurement
  ev_headroom :: "int option"
  ev_baselineDelta :: "int option"
  ev_baselineExact :: "bool option"
  ev_status :: row_status
  ev_breached :: bool

definition evaluate_row :: "measurement \<Rightarrow> evaluated" where
  "evaluate_row m =
     (let row = me_row m;
          breached = (bw_enforcement row = Gated
            \<and> (case me_bytes m of Some n \<Rightarrow> n > bw_budget row | None \<Rightarrow> False))
      in \<lparr>ev_measurement = m,
          ev_headroom = map_option (\<lambda>n. int (bw_budget row) - int n) (me_bytes m),
          ev_baselineDelta = (case (me_bytes m, bw_baseline row) of
              (Some n, Some k) \<Rightarrow> Some (int n - int k) | _ \<Rightarrow> None),
          ev_baselineExact = (case (me_bytes m, bw_baseline row) of
              (Some n, Some k) \<Rightarrow> Some (n = k) | _ \<Rightarrow> None),
          ev_status = (if bw_enforcement row = External then Status_external
                       else if bw_enforcement row = Reported then Status_reported
                       else if breached then Status_breach else Status_pass),
          ev_breached = breached\<rparr>)"

definition evaluate :: "measurement list \<Rightarrow> evaluated list \<times> bool" where
  "evaluate ms = (let rows = map evaluate_row ms in (rows, list_ex ev_breached rows))"

text \<open>The exit code; an error is thrown out of the script, whose process then ends with one.\<close>

definition budgets_main ::
  "string list \<Rightarrow> (string \<Rightarrow> string) \<Rightarrow> build \<Rightarrow> raw_row list option \<Rightarrow> int"
where
  "budgets_main argv decode b rows =
     (if argv \<noteq> [] then 2
      else case loadBudgets rows of
             Inl e \<Rightarrow> 1
           | Inr budget_rows \<Rightarrow>
               (case measure_rows decode b [] budget_rows of
                  Inl e \<Rightarrow> 1
                | Inr ms \<Rightarrow> if snd (evaluate ms) then 1 else 0))"

section \<open>Laws and properties\<close>

fun settles :: "http_event \<Rightarrow> bool" where
  "settles Http_end = True"
| "settles (Http_error m) = True"
| "settles _ = False"

lemma probe_unsettled:
  "ps_result (foldl probe_step s es) = None \<longleftrightarrow> ps_result s = None \<and> \<not> list_ex settles es"
proof (induction es arbitrary: s)
  case (Cons e es)
  then show ?case by (cases e) (auto simp: probe_settle_def)
qed simp

lemma classify_exit:
  "hv_exitCode (classify parse r) = (if pb_error r = None \<and> pb_statusCode r = Some 200 then 0 else 1)"
  by (simp add: classify_def HEALTHY_STATUS_def split: option.split prod.split)

text \<open>
  C28. What the health check exits with: for an answer that ended, zero exactly for the status 200,
  whatever the body says; for an error, one; and for a connection that closes without either,
  zero, with nothing written.
\<close>

theorem health_check_exit:
  "fst (health_main parse es) =
     (case probe es of
        None \<Rightarrow> 0
      | Some r \<Rightarrow> if pb_error r = None \<and> pb_statusCode r = Some 200 then 0 else 1)
   \<and> (probe es = None \<longleftrightarrow> \<not> list_ex settles es)
   \<and> health_main parse [Http_response code, Http_data chunk, Http_close] = (0, [])
   \<and> fst (health_main parse [Http_response code, Http_data chunk, Http_end])
       = (if code = 200 then 0 else 1)"
proof (intro conjI)
  show "probe es = None \<longleftrightarrow> \<not> list_ex settles es"
    by (simp add: probe_def probe_unsettled)
qed (simp_all add: health_main_def classify_exit probe_def probe_settle_def split: option.split)

text \<open>
  What the health check reports: \<open>ok\<close> exactly for a body that parses to an object whose status
  is the word and whose dependencies, if it names any, are all up; any other status is
  \<open>degraded\<close>, no status is \<open>unknown\<close>, and the exit code does not depend on it.
\<close>

lemma health_report_reads_the_body:
  "let v = classify parse \<lparr>pb_error = None, pb_statusCode = Some code, pb_body = Some body\<rparr>;
       status = Option.bind (Option.bind (parse body) (\<lambda>x. prop_of x ''status'')) as_string
   in hv_status v = status
    \<and> (hv_report v = HR_ok \<longleftrightarrow>
         status = Some ''ok'' \<and> list_all (\<lambda>x. x = JStr ''ok'') (values_of (hv_dependencies v)))
    \<and> (hv_report v = HR_unknown \<longleftrightarrow> status = None)
    \<and> hv_report v \<noteq> HR_unreachable
    \<and> hv_exitCode v = (if code = 200 then 0 else 1)"
proof (cases "parse body")
  case None
  then show ?thesis
    by (simp add: classify_def read_health_def HEALTHY_STATUS_def Let_def)
next
  case (Some x)
  then show ?thesis
    by (cases x) (simp_all add: classify_def read_health_def HEALTHY_STATUS_def Let_def)
qed

lemma measure_rows_row:
  "measure_rows decode b done rows = Inr ms \<Longrightarrow>
     map me_row ms = map me_row done @ rows
   \<and> (\<forall>m \<in> set ms. m \<in> set done \<or>
        (me_bytes m = None \<longleftrightarrow> bw_kind (me_row m) = External_total_transferred_js))"
proof (induction rows arbitrary: "done")
  case (Cons row rows)
  then obtain n where n: "measure_row decode b done row = Inr n"
      and rest: "measure_rows decode b (done @ [\<lparr>me_row = row, me_bytes = n\<rparr>]) rows = Inr ms"
    by (auto split: sum.splits)
  have "n = None \<longleftrightarrow> bw_kind row = External_total_transferred_js"
    using n by (auto simp: measure_row_def split: row_kind.splits sum.splits)
  with Cons.IH [OF rest] show ?case by auto
qed simp

lemma evaluate_breached:
  "snd (evaluate ms) \<longleftrightarrow> list_ex (\<lambda>m. bw_enforcement (me_row m) = Gated
     \<and> (case me_bytes m of Some n \<Rightarrow> bw_budget (me_row m) < n | None \<Rightarrow> False)) ms"
  by (simp add: evaluate_def evaluate_row_def Let_def list_ex_iff)

text \<open>
  When the budget check passes: exactly without arguments, for a budgets file that loads and a
  build in which every row can be measured, when no gated row is over its budget. Every row is
  measured except those of the external kind, so a gated row of that kind can never fail.
\<close>

lemma budget_gate_is_exact:
  "budgets_main argv decode b rows = 0 \<longleftrightarrow>
     argv = []
   \<and> (\<exists>rs ms. loadBudgets rows = Inr rs \<and> measure_rows decode b [] rs = Inr ms
       \<and> map me_row ms = rs
       \<and> list_all (\<lambda>m. (me_bytes m = None) = (bw_kind (me_row m) = External_total_transferred_js)) ms
       \<and> \<not> list_ex (\<lambda>m. bw_enforcement (me_row m) = Gated
             \<and> (case me_bytes m of Some n \<Rightarrow> bw_budget (me_row m) < n | None \<Rightarrow> False)) ms)"
proof (cases "loadBudgets rows")
  case (Inl e)
  then show ?thesis by (simp add: budgets_main_def)
next
  case (Inr rs)
  show ?thesis
  proof (cases "measure_rows decode b [] rs")
    case (Inl e)
    then show ?thesis using Inr by (simp add: budgets_main_def)
  next
    case measured: (Inr ms)
    then show ?thesis
      using Inr measure_rows_row [OF measured]
      by (auto simp: budgets_main_def evaluate_breached list_all_iff)
  qed
qed

end
