(* ===== verification/JS_Number.thy ===== *)
theory JS_Number
  imports Complex_Main JS_Date Plan_Schema
begin

text \<open>
  How the scripts print numbers: \<open>toFixed\<close> of a rational, as the language standard defines it below
  \<open>10 ^ 21\<close>, with a reader of the text it prints, \<open>Math.round\<close>, and \<open>toLocaleString("en-US")\<close> of an integer. A
  double is the rational it stands for; rounding inside arithmetic is not modelled.
\<close>

section \<open>Definitions\<close>

text \<open>The integer \<open>n\<close> for which \<open>n / 10 ^ f\<close> is closest to the number, the larger of two.\<close>

definition fixed_digits :: "nat \<Rightarrow> rat \<Rightarrow> nat" where
  "fixed_digits f x = nat \<lfloor>\<bar>x\<bar> * 10 ^ f + 1 / 2\<rfloor>"

definition to_fixed :: "nat \<Rightarrow> rat \<Rightarrow> string" where
  "to_fixed f x =
     (let s = pad_digits (Suc f) (int (fixed_digits f x)); k = length s - f
      in (if x < 0 then ''-'' else []) @ take k s @ (if f = 0 then [] else CHR ''.'' # drop k s))"

definition fixed_value :: "nat \<Rightarrow> rat \<Rightarrow> rat" where
  "fixed_value f x = (if x < 0 then - 1 else 1) * (of_nat (fixed_digits f x) / 10 ^ f)"

text \<open>\<open>Math.round\<close>: a half goes up.\<close>

definition js_round :: "rat \<Rightarrow> int" where
  "js_round x = \<lfloor>x + 1 / 2\<rfloor>"

text \<open>The number a decimal text stands for.\<close>

definition decimal_value :: "string \<Rightarrow> rat" where
  "decimal_value s =
     (let t = (if starts_with ''-'' s then tl s else s);
          whole = takeWhile (\<lambda>c. c \<noteq> CHR ''.'') t;
          places = drop (Suc (length whole)) t
      in (if starts_with ''-'' s then - 1 else 1)
           * (of_nat (clock_digits (whole @ places)) / 10 ^ length places))"

definition locale_int :: "int \<Rightarrow> string" where
  "locale_int n = (if n < 0 then ''-'' else []) @ commas (show_nat (nat \<bar>n\<bar>))"

section \<open>Laws\<close>

lemma js_round_near: "\<bar>of_int (js_round x) - x\<bar> \<le> 1 / 2"
  unfolding js_round_def by linarith

lemma js_round_zero: "js_round 0 = 0"
  by (simp add: js_round_def floor_eq_iff)

lemma fixed_value_near: "\<bar>fixed_value f x - x\<bar> \<le> 1 / (2 * 10 ^ f)"
proof -
  let ?y = "\<bar>x\<bar> * 10 ^ f"
  have n: "of_nat (fixed_digits f x) = (of_int \<lfloor>?y + 1 / 2\<rfloor> :: rat)"
    by (simp add: fixed_digits_def of_nat_nat add_nonneg_nonneg)
  have "of_int \<lfloor>?y + 1 / 2\<rfloor> \<le> ?y + 1 / 2" "?y + 1 / 2 < of_int \<lfloor>?y + 1 / 2\<rfloor> + 1"
    by linarith+
  then have "\<bar>of_nat (fixed_digits f x) - ?y\<bar> \<le> (1 / 2 :: rat)" unfolding n by linarith
  then have "\<bar>of_nat (fixed_digits f x) - ?y\<bar> / 10 ^ f \<le> (1 / 2 :: rat) / 10 ^ f"
    by (rule divide_right_mono) simp
  also have "\<bar>of_nat (fixed_digits f x) - ?y\<bar> / 10 ^ f
      = \<bar>of_nat (fixed_digits f x) / 10 ^ f - \<bar>x\<bar>\<bar>"
  proof -
    have "of_nat (fixed_digits f x) / 10 ^ f - \<bar>x\<bar> = (of_nat (fixed_digits f x) - ?y) / 10 ^ f"
      by (simp add: diff_divide_distrib)
    then show ?thesis by (simp only: abs_divide) simp
  qed
  finally have "\<bar>of_nat (fixed_digits f x) / 10 ^ f - \<bar>x\<bar>\<bar> \<le> (1 / 2 :: rat) / 10 ^ f" .
  then show ?thesis by (auto simp: fixed_value_def abs_if split: if_splits)
qed

lemma digits_pad: "c \<in> set (pad_digits w n) \<Longrightarrow> c \<noteq> CHR ''.'' \<and> c \<noteq> CHR ''-''"
  using digits_of_show_nat [of "nat n"]
  by (auto simp: pad_digits_def Let_def list_all_iff digit_char_def)

lemma pad_not_Nil: "0 < w \<Longrightarrow> pad_digits w n \<noteq> [] \<and> w \<le> length (pad_digits w n)"
  by (simp add: pad_digits_def Let_def)

lemma decimal_value_sign:
  assumes "\<not> starts_with ''-'' t" "takeWhile (\<lambda>c. c \<noteq> CHR ''.'') t = whole"
    and "drop (Suc (length whole)) t = places"
  shows "decimal_value ((if neg then ''-'' else []) @ t)
    = (if neg then - 1 else 1) * (of_nat (clock_digits (whole @ places)) / 10 ^ length places)"
  using assms by (simp add: decimal_value_def Let_def del: length_drop)

text \<open>The text \<open>toFixed\<close> prints is read back as the rounded number.\<close>

lemma to_fixed_reads_back: "decimal_value (to_fixed f x) = fixed_value f x"
proof -
  let ?s = "pad_digits (Suc f) (int (fixed_digits f x))"
  let ?t = "take (length ?s - f) ?s @ (if f = 0 then [] else CHR ''.'' # drop (length ?s - f) ?s)"
  have f: "Suc f \<le> length ?s" using pad_not_Nil [of "Suc f"] by simp
  have dots: "takeWhile (\<lambda>c. c \<noteq> CHR ''.'') ?t = take (length ?s - f) ?s"
    using digits_pad by (cases "f = 0") (auto simp: takeWhile_eq_all_conv takeWhile_append
      dest!: in_set_takeD)
  have places: "drop (Suc (length (take (length ?s - f) ?s))) ?t = drop (length ?s - f) ?s"
    by (cases "f = 0") simp_all
  have minus: "\<not> starts_with ''-'' ?t"
  proof -
    obtain c cs where s: "?s = c # cs" using f by (cases ?s) auto
    obtain k where k: "length ?s - f = Suc k" using f by (cases "length ?s - f") auto
    have "c \<noteq> CHR ''-''" using digits_pad [of c "Suc f"] s by (metis list.set_intros(1))
    then show ?thesis using k s by simp
  qed
  have digits: "clock_digits ?s = fixed_digits f x"
    using pad_clock_digits [of "int (fixed_digits f x)" "Suc f"] by simp
  have len: "length (drop (length ?s - f) ?s) = f" using f by simp
  have printed: "to_fixed f x = (if x < 0 then ''-'' else []) @ ?t" by (simp add: to_fixed_def Let_def)
  show ?thesis
    unfolding printed decimal_value_sign [OF minus dots places] append_take_drop_id digits len
    by (simp add: fixed_value_def)
qed

lemma fixed_value_exact: "0 \<le> n \<Longrightarrow> fixed_value f (of_int n) = of_int n"
proof -
  assume n: "0 \<le> n"
  have "of_int n * 10 ^ f + 1 / 2 = (of_int (n * 10 ^ f) + 1 / 2 :: rat)" by simp
  then have "\<lfloor>of_int n * 10 ^ f + 1 / 2 :: rat\<rfloor> = n * 10 ^ f" by linarith
  then show ?thesis using n by (simp add: fixed_value_def fixed_digits_def of_nat_nat)
qed

lemma fixed_text:
  "fixed_digits f x = n \<Longrightarrow> pad_digits (Suc f) (int n) = s \<Longrightarrow> 0 < f
    \<Longrightarrow> to_fixed f x
        = (if x < 0 then ''-'' else []) @ take (length s - f) s @ CHR ''.'' # drop (length s - f) s"
  by (simp add: to_fixed_def Let_def)

lemma fixed_values:
  "to_fixed 2 (12345 / 1000) = ''12.35''" "to_fixed 2 (- 1 / 1000) = ''-0.00''"
proof -
  have "fixed_digits 2 (12345 / 1000) = 1235" "fixed_digits 2 (- 1 / 1000) = 0"
    by (simp_all add: fixed_digits_def)
  moreover have "pad_digits (Suc 2) (int 1235) = ''1235''" "pad_digits (Suc 2) (int 0) = ''000''"
    by code_simp+
  ultimately show "to_fixed 2 (12345 / 1000) = ''12.35''" "to_fixed 2 (- 1 / 1000) = ''-0.00''"
    by (simp_all add: fixed_text)
qed

end
