(* ===== verification/Budget_Report.thy ===== *)
theory Budget_Report
  imports Ops_Gates JS_Number Stable_Sort Uri_Decode "HOL-Library.List_Lexorder" "HOL-Library.Char_ord"
begin

text \<open>
  The report of the route budgets (\<open>web/scripts/route-budgets.mjs\<close>): the files under the build, the
  comparison of a route's files with the scripts of its prerendered HTML, the tables of
  \<open>renderReport\<close> and what \<open>main\<close> prints. A table is the list of its rows, a row the list of its cells;
  the fixed prose between the tables and behind the first line of the breach message is left out.
  The minus sign U+2212 is outside the alphabet and has a code that is free in it, \<open>CHR 0x81\<close>.
\<close>

section \<open>The files of a directory\<close>

datatype dir_entry = File string | Dir string "dir_entry list"

text \<open>\<open>walk\<close>, with the path of the directory; \<open>None\<close> below is a directory that does not exist.\<close>

fun walk :: "string \<Rightarrow> dir_entry list \<Rightarrow> string list" where
  "walk path [] = []"
| "walk path (File name # es) = (path @ ''/'' @ name) # walk path es"
| "walk path (Dir name sub # es) = walk (path @ ''/'' @ name) sub @ walk path es"

definition sorted_texts :: "string list \<Rightarrow> string list" where
  "sorted_texts = sort_by (\<le>)"

definition emittedCssFiles :: "dir_entry list option \<Rightarrow> string list" where
  "emittedCssFiles css =
     (case css of
        None \<Rightarrow> []
      | Some es \<Rightarrow> sorted_texts (filter (ends_with ''.css'') (walk ''static/css'' es)))"

definition selfHostedFontFiles :: "dir_entry list option \<Rightarrow> dir_entry list option \<Rightarrow> string list" where
  "selfHostedFontFiles media public =
     sorted_texts (filter (\<lambda>f. ends_with ''.woff2'' (to_lower f))
       ((case media of None \<Rightarrow> [] | Some es \<Rightarrow> walk ''.next/static/media'' es)
        @ (case public of None \<Rightarrow> [] | Some es \<Rightarrow> walk ''public'' es)))"

section \<open>The scripts of a page\<close>

text \<open>
  \<open>/<script[^>]*\ssrc="\/_next\/([^"]+)"/g\<close>. The run before the attribute is greedy, so the last
  attribute of a tag that fits is the one taken; the search goes on behind the match.
\<close>

definition SRC :: string where
  "SRC = ''src='' @ [CHR 0x22] @ ''/_next/''"

definition src_at :: "string \<Rightarrow> (string \<times> string) option" where
  "src_at s =
     (case s of
        [] \<Rightarrow> None
      | c # cs \<Rightarrow>
          (let after = drop (length SRC) cs; u = takeWhile (\<lambda>x. x \<noteq> CHR 0x22) after
           in if js_space c \<and> starts_with SRC cs \<and> u \<noteq> [] \<and> length u < length after
              then Some (u, drop (Suc (length u)) after) else None))"

fun script_attr :: "string \<Rightarrow> (string \<times> string) option" where
  "script_attr [] = None"
| "script_attr (c # cs) =
     (case (if c = CHR ''>'' then None else script_attr cs) of
        Some m \<Rightarrow> Some m | None \<Rightarrow> src_at (c # cs))"

lemma src_at_shorter: "src_at s = Some (u, r) \<Longrightarrow> length r < length s"
  by (auto simp: src_at_def Let_def split: list.splits if_splits)

lemma script_attr_shorter: "script_attr s = Some (u, r) \<Longrightarrow> length r < length s"
  by (induction s) (auto split: option.splits if_splits dest: src_at_shorter)

function script_srcs :: "string \<Rightarrow> string list" where
  "script_srcs [] = []"
| "script_srcs (c # cs) =
     (if starts_with ''<script'' (c # cs)
      then (case script_attr (drop 7 (c # cs)) of
              Some (u, rest) \<Rightarrow> u # script_srcs rest | None \<Rightarrow> script_srcs cs)
      else script_srcs cs)"
  by pat_completeness auto
termination
  by (relation "measure length") (auto dest: script_attr_shorter)

section \<open>The cross-check\<close>

datatype cross_check =
    Unchecked string string
  | Checked string bool "string list" "string list"

fun decode_all :: "string list \<Rightarrow> string list option" where
  "decode_all [] = Some []"
| "decode_all (u # us) =
     (case decodeURIComponent u of
        None \<Rightarrow> None
      | Some f \<Rightarrow> map_option (Cons f) (decode_all us))"

definition DYNAMIC_ROUTE :: string where
  "DYNAMIC_ROUTE = ''dynamic route segment '' @ [CHR 0x97] @ '' no single prerendered HTML exists''"

definition ON_DEMAND :: string where
  "ON_DEMAND = ''server-rendered on demand '' @ [CHR 0x97] @ '' the per-request CSP nonce (WO-30) makes ''
     @ ''this route dynamic, so Next writes no HTML to compare against''"

text \<open>\<open>html\<close> is the prerendered file, if there is one; \<open>None\<close> is a \<open>URIError\<close> that leaves the script.\<close>

definition verifyAgainstPrerenderedHtml ::
  "string list \<Rightarrow> string option \<Rightarrow> string \<Rightarrow> string list \<Rightarrow> cross_check option"
where
  "verifyAgainstPrerenderedHtml polyfills html route manifestFiles =
     (if CHR ''['' \<in> set route then Some (Unchecked route DYNAMIC_ROUTE)
      else case html of
        None \<Rightarrow> Some (Unchecked route ON_DEMAND)
      | Some text \<Rightarrow>
          map_option (\<lambda>files.
            let fromHtml = filter (\<lambda>f. f \<notin> set polyfills) files;
                onlyInHtml = sorted_texts (filter (\<lambda>f. f \<notin> set manifestFiles) (remdups fromHtml));
                onlyInManifest = sorted_texts (filter (\<lambda>f. f \<notin> set fromHtml) (remdups manifestFiles))
            in Checked route (onlyInHtml = [] \<and> onlyInManifest = []) onlyInHtml onlyInManifest)
          (decode_all (script_srcs text)))"

section \<open>What a row shows\<close>

definition formatBytes :: "nat option \<Rightarrow> string" where
  "formatBytes n =
     (case n of
        None \<Rightarrow> [CHR 0x97]
      | Some b \<Rightarrow> locale_int (int b) @ '' B ('' @ to_fixed 1 (of_nat b / 1024) @ '' KiB)'')"

definition formatDelta :: "int option \<Rightarrow> string" where
  "formatDelta n =
     (case n of
        None \<Rightarrow> [CHR 0x97]
      | Some d \<Rightarrow> (if d > 0 then CHR ''+'' else if d < 0 then CHR 0x81 else CHR 0xB1)
                  # locale_int \<bar>d\<bar> @ '' B'')"

text \<open>The texts of a row in \<open>budgets.json\<close> that only the report reads, and what measuring adds.\<close>

record row_texts =
  rt_label :: string
  rt_definition :: "string option"
  rt_enforcedBy :: string

record shown_row =
  sr_eval :: evaluated
  sr_texts :: row_texts
  sr_files :: "(string \<times> nat \<times> nat) list"

abbreviation sr_row :: "shown_row \<Rightarrow> budget_row" where
  "sr_row r \<equiv> me_row (ev_measurement (sr_eval r))"

abbreviation sr_bytes :: "shown_row \<Rightarrow> nat option" where
  "sr_bytes r \<equiv> me_bytes (ev_measurement (sr_eval r))"

definition NO_FONTS :: string where
  "NO_FONTS = ''No self-hosted woff2 emitted. WO-02 has not landed, so this row reports 0 B ''
     @ ''and is not yet a meaningful pass. The measurement path is live: it scans ''
     @ [CHR 0x60] @ ''.next/static/media/**/*.woff2'' @ [CHR 0x60] @ '' and ''
     @ [CHR 0x60] @ ''public/**/*.woff2'' @ [CHR 0x60] @ '' and will report the ''
     @ ''real per-face total the moment WO-02'' @ [CHR 0x27] @ ''s faces exist.''"

definition notes_of :: "shown_row \<Rightarrow> string list" where
  "notes_of r =
     (case bw_kind (sr_row r) of
        Self_hosted_fonts \<Rightarrow> if sr_files r = [] then [NO_FONTS] else []
      | External_total_transferred_js \<Rightarrow>
          [''NOT MEASURED HERE. This row cannot come from the build manifests '' @ [CHR 0x97] @ '' lazy chunks ''
           @ ''are fetched at runtime. It is enforced by '' @ rt_enforcedBy (sr_texts r) @ ''.'']
      | _ \<Rightarrow> [])"

definition statusCell :: "row_status \<Rightarrow> string" where
  "statusCell s =
     (case s of Status_breach \<Rightarrow> ''**BREACH**'' | Status_pass \<Rightarrow> ''pass''
      | Status_external \<Rightarrow> ''**not gated here**'' | Status_reported \<Rightarrow> ''reported'')"

section \<open>The report\<close>

record ratchet_entry =
  ra_row :: string
  ra_from :: int
  ra_to :: int
  ra_date :: "string option"
  ra_authority :: "string option"
  ra_why :: string

record budget_report =
  br_result :: bool
  br_gated :: "string list list"
  br_breaches :: "string list"
  br_external :: "string list list"
  br_externalNotes :: "string list"
  br_reported :: "string list list"
  br_notes :: "string list"
  br_reproduction :: "string list list"
  br_crossChecks :: "string list list"
  br_chunks :: "(string \<times> string list list) list"
  br_ratchet :: "string list list"
  br_ratchetWhy :: "string list"

definition enforced :: "enforcement \<Rightarrow> shown_row list \<Rightarrow> shown_row list" where
  "enforced e rows = filter (\<lambda>r. bw_enforcement (sr_row r) = e) rows"

definition gated_cells :: "shown_row \<Rightarrow> string list" where
  "gated_cells r =
     [rt_label (sr_texts r), formatBytes (sr_bytes r), formatBytes (Some (bw_budget (sr_row r))),
      formatDelta (ev_headroom (sr_eval r)), formatBytes (bw_baseline (sr_row r)),
      formatDelta (ev_baselineDelta (sr_eval r)), statusCell (ev_status (sr_eval r))]"

definition breach_line :: "shown_row \<Rightarrow> string" where
  "breach_line r =
     ''- **'' @ rt_label (sr_texts r) @ ''** is over by ''
     @ locale_int (case ev_headroom (sr_eval r) of None \<Rightarrow> 0 | Some h \<Rightarrow> \<bar>h\<bar>) @ '' B (''
     @ formatBytes (sr_bytes r) @ '' against '' @ formatBytes (Some (bw_budget (sr_row r))) @ '').''
     @ (case rt_definition (sr_texts r) of None \<Rightarrow> [] | Some d \<Rightarrow> if d = [] then [] else '' Definition: '' @ d)"

definition external_cells :: "shown_row \<Rightarrow> string list" where
  "external_cells r =
     [rt_label (sr_texts r), formatBytes (Some (bw_budget (sr_row r))),
      statusCell (ev_status (sr_eval r)), rt_enforcedBy (sr_texts r)]"

definition reported_cells :: "shown_row \<Rightarrow> string list" where
  "reported_cells r =
     (let composition = join '' + '' (if bw_kind (sr_row r) = Derived_total_first_load
                                     then bw_derivedFrom (sr_row r) else [])
      in [rt_label (sr_texts r), formatBytes (sr_bytes r), formatBytes (Some (bw_budget (sr_row r))),
          formatDelta (ev_headroom (sr_eval r)), if composition = [] then [CHR 0x97] else composition])"

definition bytes_text :: "nat \<Rightarrow> string" where
  "bytes_text n = locale_int (int n) @ '' B''"

definition reproduction_cells :: "shown_row \<Rightarrow> string list option" where
  "reproduction_cells r =
     (case (bw_baseline (sr_row r), sr_bytes r) of
        (Some k, Some n) \<Rightarrow>
          Some [rt_label (sr_texts r), bytes_text k, bytes_text n,
            (if ev_baselineExact (sr_eval r) = Some True then ''yes''
             else ''no ('' @ formatDelta (ev_baselineDelta (sr_eval r)) @ '')'')]
      | _ \<Rightarrow> None)"

definition or_none :: "string list \<Rightarrow> string" where
  "or_none fs = (let s = join '', '' fs in if s = [] then ''none'' else s)"

fun cross_cells :: "cross_check \<Rightarrow> string list" where
  "cross_cells (Unchecked route reason) = [route, ''skipped '' @ [CHR 0x97] @ '' '' @ reason]"
| "cross_cells (Checked route match onlyInHtml onlyInManifest) =
     [route, if match then ''manifest union == prerendered <script src> set''
             else ''**mismatch** '' @ [CHR 0x97] @ '' only in HTML: '' @ or_none onlyInHtml
               @ ''; only in manifest: '' @ or_none onlyInManifest]"

definition chunk_table :: "shown_row \<Rightarrow> string \<times> string list list" where
  "chunk_table r =
     (rt_label (sr_texts r),
      map (\<lambda>(file, gz, raw). [file, bytes_text gz, bytes_text raw]) (sr_files r)
      @ [[''**total**'', ''**'' @ bytes_text (case sr_bytes r of None \<Rightarrow> 0 | Some n \<Rightarrow> n) @ ''**'', []]])"

definition ratchet_cells :: "ratchet_entry \<Rightarrow> string list" where
  "ratchet_cells e =
     [ra_row e, locale_int (ra_from e) @ '' B'', locale_int (ra_to e) @ '' B'',
      (case ra_date e of None \<Rightarrow> [CHR 0x97] | Some d \<Rightarrow> d),
      (case ra_authority e of None \<Rightarrow> [CHR 0x97] | Some a \<Rightarrow> a)]"

definition renderReport ::
  "shown_row list \<Rightarrow> bool \<Rightarrow> cross_check list \<Rightarrow> ratchet_entry list \<Rightarrow> budget_report" where
  "renderReport rows breached crossChecks ratchet =
     (let noted = (\<lambda>rs. concat (map (\<lambda>r. map (Pair (rt_label (sr_texts r))) (notes_of r)) rs))
      in \<lparr>br_result = breached,
          br_gated = map gated_cells (enforced Gated rows),
          br_breaches = map breach_line (filter (\<lambda>r. ev_breached (sr_eval r)) rows),
          br_external = map external_cells (enforced External rows),
          br_externalNotes = map (\<lambda>(label, note). ''> '' @ label @ '': '' @ note) (noted (enforced External rows)),
          br_reported = map reported_cells (enforced Reported rows),
          br_notes = map (\<lambda>(label, note). ''- **'' @ label @ ''** '' @ [CHR 0x97] @ '' '' @ note)
            (noted (filter (\<lambda>r. bw_enforcement (sr_row r) \<noteq> External) rows)),
          br_reproduction = List.map_filter reproduction_cells rows,
          br_crossChecks = map cross_cells crossChecks,
          br_chunks = map chunk_table (filter (\<lambda>r. sr_files r \<noteq> []) rows),
          br_ratchet = map ratchet_cells ratchet,
          br_ratchetWhy = map (\<lambda>e. ''- **'' @ ra_row e @ ''** '' @ [CHR 0x97] @ '' '' @ ra_why e) ratchet\<rparr>)"

section \<open>What the script prints\<close>

fun status_text :: "row_status \<Rightarrow> string" where
  "status_text Status_external = ''EXTERNAL''"
| "status_text Status_reported = ''REPORTED''"
| "status_text Status_breach = ''BREACH''"
| "status_text Status_pass = ''PASS''"

definition console_line :: "shown_row \<Rightarrow> string" where
  "console_line r =
     (let s = status_text (ev_status (sr_eval r))
      in s @ replicate (9 - length s) CHR 0x20 @ '' '' @ rt_label (sr_texts r) @ '' '' @ [CHR 0x97] @ '' ''
         @ (case sr_bytes r of None \<Rightarrow> ''not measured here'' | Some n \<Rightarrow> formatBytes (Some n))
         @ '' against '' @ formatBytes (Some (bw_budget (sr_row r))))"

text \<open>The lines of the two streams and the exit code, once the report is written.\<close>

definition budgets_print :: "shown_row list \<Rightarrow> bool \<Rightarrow> string \<Rightarrow> string list \<times> string list \<times> int" where
  "budgets_print rows breached reportPath =
     (let breaches = filter (\<lambda>r. ev_breached (sr_eval r)) rows
      in (map console_line rows @ [CHR 0x0A # ''Report written to '' @ reportPath],
          (if breached
           then [CHR 0x0A # ''Budget breach in '' @ show_nat (length breaches) @ '' row(s): ''
                 @ join '', '' (map (\<lambda>r. bw_id (sr_row r)) breaches) @ ''.'']
           else []),
          if breached then 1 else 0))"

section \<open>Reading a page back\<close>

text \<open>
  The scripts a page of the build has: one that loads a file of the build, with any attributes before
  and behind its \<open>src\<close> (\<open>async=""\<close>, \<open>noModule=""\<close>, \<open>id="_R_" async=""\<close>, a nonce), and one whose attributes
  load no such file: an inline script with its body, or one from elsewhere. A page is a list of
  texts in which no script begins, each with the script behind it, and the text that ends it.
\<close>

datatype html_script =
    Loads string string string
  | Other_script string string

fun script_text :: "html_script \<Rightarrow> string" where
  "script_text (Loads before f behind) =
     ''<script'' @ before @ CHR 0x20 # SRC @ f @ CHR 0x22 # behind @ ''></script>''"
| "script_text (Other_script attrs body) = ''<script'' @ attrs @ CHR ''>'' # body @ ''</script>''"

definition page_text :: "(string \<times> html_script) list \<Rightarrow> string \<Rightarrow> string" where
  "page_text parts end = concat (map (\<lambda>(gap, script). gap @ script_text script) parts) @ end"

fun loaded_of :: "html_script \<Rightarrow> string list" where
  "loaded_of (Loads before f behind) = [f]"
| "loaded_of (Other_script attrs body) = []"

definition page_files :: "(string \<times> html_script) list \<Rightarrow> string list" where
  "page_files parts = concat (map (\<lambda>(gap, script). loaded_of script) parts)"

text \<open>No script begins in the text; and no \<open>src\<close> of the build stands in the attributes.\<close>

fun scriptless :: "string \<Rightarrow> bool" where
  "scriptless [] = True"
| "scriptless (c # cs) = (\<not> starts_with ''<script'' (c # cs) \<and> scriptless cs)"

fun srcless :: "string \<Rightarrow> bool" where
  "srcless [] = True"
| "srcless (c # cs) = (\<not> (js_space c \<and> starts_with SRC cs) \<and> srcless cs)"

definition attrs_ok :: "string \<Rightarrow> bool" where
  "attrs_ok a \<longleftrightarrow> CHR ''>'' \<notin> set a \<and> scriptless a \<and> srcless a \<and> (a = [] \<or> hd a = CHR 0x20)"

fun script_ok :: "html_script \<Rightarrow> bool" where
  "script_ok (Loads before f behind) =
     (CHR ''>'' \<notin> set before \<and> f \<noteq> [] \<and> CHR 0x22 \<notin> set f \<and> attrs_ok behind)"
| "script_ok (Other_script attrs body) = (attrs_ok attrs \<and> scriptless body)"

definition part_ok :: "string \<times> html_script \<Rightarrow> bool" where
  "part_ok = (\<lambda>(gap, script). scriptless gap \<and> script_ok script)"

lemma starts_with_before:
  "starts_with p (a @ c # r) \<Longrightarrow> c \<notin> set p \<Longrightarrow> starts_with p a"
proof (induction p arbitrary: a)
  case (Cons x p)
  then show ?case by (cases a) auto
qed simp

lemma no_second_src:
  "CHR 0x22 \<notin> set p \<Longrightarrow> CHR 0x22 \<notin> set f \<Longrightarrow> starts_with (p @ CHR 0x22 # q) (f @ CHR 0x22 # r)
     \<Longrightarrow> starts_with q r"
proof (induction p arbitrary: f)
  case Nil
  then show ?case by (cases f) auto
next
  case (Cons a p)
  then show ?case by (cases f) auto
qed

lemma script_attr_srcless:
  "CHR ''>'' \<notin> set a \<Longrightarrow> srcless a \<Longrightarrow> script_attr (a @ CHR ''>'' # r) = None"
proof (induction a)
  case Nil
  then show ?case by (simp add: src_at_def js_space_def)
next
  case (Cons c a)
  have "CHR ''>'' \<notin> set SRC" by (simp add: SRC_def)
  then have "\<not> (js_space c \<and> starts_with SRC (a @ CHR ''>'' # r))"
    using starts_with_before [of SRC a "CHR ''>''" r] Cons.prems by auto
  then show ?case using Cons by (auto simp: src_at_def Let_def)
qed

lemma script_attr_quoted:
  assumes "attrs_ok a"
  shows "CHR 0x22 \<notin> set f \<Longrightarrow> script_attr (f @ CHR 0x22 # a @ CHR ''>'' # r) = None"
proof (induction f)
  case Nil
  show ?case
    using script_attr_srcless [of a r] assms by (simp add: attrs_ok_def src_at_def js_space_def)
next
  case (Cons c f)
  have "\<not> starts_with ''/_next/'' (a @ CHR ''>'' # r)"
    using assms by (cases a) (auto simp: attrs_ok_def)
  then have "\<not> starts_with SRC (f @ CHR 0x22 # a @ CHR ''>'' # r)"
    using no_second_src [of "''src=''" f "''/_next/''" "a @ CHR ''>'' # r"] Cons.prems
    by (auto simp: SRC_def)
  then show ?case using Cons by (auto simp: src_at_def Let_def)
qed

lemma script_attr_loads:
  assumes "f \<noteq> []" "CHR 0x22 \<notin> set f" "attrs_ok a"
  shows "CHR ''>'' \<notin> set before \<Longrightarrow>
    script_attr (before @ CHR 0x20 # SRC @ f @ CHR 0x22 # a @ CHR ''>'' # r) = Some (f, a @ CHR ''>'' # r)"
proof (induction before)
  case Nil
  have "script_attr (SRC @ f @ CHR 0x22 # a @ CHR ''>'' # r) = None"
    using script_attr_quoted [OF assms(3,2), of r] by (simp add: SRC_def src_at_def js_space_def)
  moreover have "takeWhile (\<lambda>x. x \<noteq> CHR 0x22) (f @ CHR 0x22 # a @ CHR ''>'' # r) = f"
    using assms(2) by (induction f) auto
  ultimately show ?case
    using assms(1) by (simp add: src_at_def js_space_def Let_def del: append_assoc takeWhile_append)
qed auto

lemma script_srcs_skip:
  "scriptless g \<Longrightarrow> c \<notin> set ''script'' \<Longrightarrow> c \<noteq> CHR ''<'' \<Longrightarrow> script_srcs (g @ c # r) = script_srcs (c # r)"
proof (induction g)
  case (Cons x g)
  then have "\<not> starts_with ''<script'' (x # g @ c # r)"
    using starts_with_before [of "''<script''" "x # g" c r] by auto
  then show ?case using Cons by (simp del: starts_with.simps)
qed simp

lemma script_split:
  "starts_with ''<script'' (u @ CHR ''<'' # r) \<Longrightarrow> u \<noteq> [] \<Longrightarrow> starts_with ''<script'' u"
  by (cases u) (auto dest: starts_with_before [of "''script''" _ "CHR ''<''"])

lemma script_srcs_gap: "scriptless g \<Longrightarrow> script_srcs (g @ CHR ''<'' # r) = script_srcs (CHR ''<'' # r)"
proof (induction g)
  case (Cons c g)
  then have "\<not> starts_with ''<script'' (c # g @ CHR ''<'' # r)"
    using script_split [of "c # g" r] by auto
  then show ?case using Cons by (simp del: starts_with.simps)
qed simp

lemma script_srcs_end: "scriptless g \<Longrightarrow> script_srcs g = []"
  by (induction g) (simp_all del: starts_with.simps)

lemma script_srcs_script:
  assumes "script_ok script"
  shows "script_srcs (script_text script @ r) = loaded_of script @ script_srcs r"
proof (cases script)
  case (Loads before f behind)
  have "script_text script @ r = CHR ''<'' # ''script'' @ before @ CHR 0x20 # SRC @ f @ CHR 0x22 # behind
      @ CHR ''>'' # ''</script>'' @ r"
    by (simp add: Loads)
  then have "script_srcs (script_text script @ r) = f # script_srcs (behind @ CHR ''>'' # ''</script>'' @ r)"
    using script_attr_loads [of f behind before "''</script>'' @ r"] assms Loads by simp
  also have "script_srcs (behind @ CHR ''>'' # ''</script>'' @ r) = script_srcs (CHR ''>'' # ''</script>'' @ r)"
    using assms Loads by (intro script_srcs_skip) (auto simp: attrs_ok_def)
  finally show ?thesis by (simp add: Loads)
next
  case (Other_script attrs body)
  let ?rest = "CHR ''>'' # body @ CHR ''<'' # ''/script>'' @ r"
  have "script_text script @ r = CHR ''<'' # ''script'' @ attrs @ ?rest"
    by (simp add: Other_script)
  then have "script_srcs (script_text script @ r) = script_srcs (attrs @ ?rest)"
    using script_attr_srcless [of attrs "body @ CHR ''<'' # ''/script>'' @ r"] assms Other_script
    by (simp add: attrs_ok_def)
  also have "\<dots> = script_srcs ?rest"
    using assms Other_script by (intro script_srcs_skip) (auto simp: attrs_ok_def)
  also have "\<dots> = script_srcs (body @ CHR ''<'' # ''/script>'' @ r)" by simp
  also have "\<dots> = script_srcs (CHR ''<'' # ''/script>'' @ r)"
    using assms Other_script by (intro script_srcs_gap) simp
  finally show ?thesis by (simp add: Other_script)
qed

lemma script_srcs_page:
  "list_all part_ok parts \<Longrightarrow> scriptless end \<Longrightarrow> script_srcs (page_text parts end) = page_files parts"
proof (induction parts)
  case Nil
  then show ?case by (simp add: page_text_def page_files_def script_srcs_end)
next
  case (Cons x parts)
  obtain gap script where x: "x = (gap, script)" by (cases x)
  have ok: "scriptless gap" "script_ok script" using Cons.prems(1) by (simp_all add: x part_ok_def)
  obtain t where t: "script_text script = CHR ''<'' # t" by (cases script) simp_all
  have "page_text (x # parts) end = gap @ script_text script @ page_text parts end"
    by (simp add: page_text_def x)
  then have "script_srcs (page_text (x # parts) end) = script_srcs (script_text script @ page_text parts end)"
    using ok(1) t script_srcs_gap [of gap "t @ page_text parts end"] by simp
  then show ?case using Cons script_srcs_script [OF ok(2)] by (simp add: page_files_def x)
qed

section \<open>Properties\<close>

lemma set_sorted_texts [simp]: "set (sorted_texts fs) = set fs"
  by (simp add: sorted_texts_def)

lemma sorted_texts_empty [simp]: "sorted_texts fs = [] \<longleftrightarrow> fs = []"
  by (metis set_empty set_sorted_texts)

text \<open>
  C24. The cross-check of a route against its prerendered page. A route with a dynamic segment is
  never checked. For every other one, and every page whose scripts load files of the build or have no
  \<open>src\<close> of it (inline ones too, with any other attributes, provided none repeats such a \<open>src\<close> and no
  script begins inside a text, an attribute or a body): the check leaves the script with a \<open>URIError\<close>
  exactly when some file name of the page does not decode; otherwise it is a match exactly when the
  decoded files of the page are the files the manifests name, polyfills apart, and it names the files
  of either side that the other does not have.
\<close>

theorem cross_check_is_exact:
  assumes "list_all part_ok parts" "scriptless end"
  shows "if CHR ''['' \<in> set route
    then verifyAgainstPrerenderedHtml polyfills (Some (page_text parts end)) route files
        = Some (Unchecked route DYNAMIC_ROUTE)
    else case decode_all (page_files parts) of
        None \<Rightarrow> verifyAgainstPrerenderedHtml polyfills (Some (page_text parts end)) route files = None
      | Some fs \<Rightarrow>
          (\<exists>html manifest.
             verifyAgainstPrerenderedHtml polyfills (Some (page_text parts end)) route files
               = Some (Checked route (html = [] \<and> manifest = []) html manifest)
           \<and> set html = set fs - set polyfills - set files
           \<and> set manifest = set files - (set fs - set polyfills)
           \<and> (html = [] \<and> manifest = [] \<longleftrightarrow> set fs - set polyfills = set files))"
  using script_srcs_page [OF assms]
  by (auto simp: verifyAgainstPrerenderedHtml_def Let_def filter_empty_conv split: option.split)

text \<open>
  The page and the manifests of the fixture in \<open>web/tests/budgets.test.ts\<close>, with an inline script as
  \<open>web/app/layout.tsx\<close> has one in its head.
\<close>

definition attribute :: "string \<Rightarrow> string \<Rightarrow> string" where
  "attribute name v = CHR 0x20 # name @ ''='' @ CHR 0x22 # v @ [CHR 0x22]"

definition NL :: string where
  "NL = [CHR 0x0A]"

definition fixture_page :: "(string \<times> html_script) list" where
  "fixture_page =
     [(''<link'' @ attribute ''rel'' ''stylesheet'' @ attribute ''href'' ''/_next/static/css/bbbbbbbbbbbbbbbb.css'' @ ''/>'' @ NL
       @ ''<link'' @ attribute ''rel'' ''preload'' @ attribute ''as'' ''script''
       @ attribute ''href'' ''/_next/static/chunks/webpack-1111111111111111.js'' @ ''/>'' @ NL,
       Other_script (attribute ''nonce'' ''bm9uY2U='') ''(function(){})();''),
      (NL, Loads [] ''static/chunks/4bd1b696-2222222222222222.js'' (attribute ''async'' [])),
      (NL, Loads [] ''static/chunks/794-3333333333333333.js'' (attribute ''async'' [])),
      (NL, Loads [] ''static/chunks/main-app-4444444444444444.js'' (attribute ''async'' [])),
      (NL, Loads [] ''static/chunks/756-6666666666666666.js'' (attribute ''async'' [])),
      (NL, Loads [] ''static/chunks/app/page-8888888888888888.js'' (attribute ''async'' [])),
      (NL, Loads [] ''static/chunks/polyfills-5555555555555555.js'' (attribute ''noModule'' [])),
      (NL, Loads [] ''static/chunks/webpack-1111111111111111.js''
         (attribute ''id'' ''_R_'' @ attribute ''async'' []))]"

definition fixture_files :: "string list" where
  "fixture_files =
     [''static/chunks/webpack-1111111111111111.js'', ''static/chunks/4bd1b696-2222222222222222.js'',
      ''static/chunks/794-3333333333333333.js'', ''static/chunks/main-app-4444444444444444.js'',
      ''static/chunks/756-6666666666666666.js'', ''static/chunks/app/page-8888888888888888.js'']"

lemma fixture_is_a_page: "list_all part_ok fixture_page"
  by (simp add: fixture_page_def part_ok_def attrs_ok_def attribute_def NL_def SRC_def)

lemma decode_all_plain: "list_all (\<lambda>f. CHR ''%'' \<notin> set f) us \<Longrightarrow> decode_all us = Some us"
proof (induction us)
  case (Cons u us)
  have "CHR ''%'' \<notin> set u \<Longrightarrow> decodeURIComponent u = Some u" by (induction u) auto
  then show ?case using Cons by simp
qed simp

lemma fixture_decodes: "decode_all (page_files fixture_page) = Some (page_files fixture_page)"
  by (rule decode_all_plain) (simp add: page_files_def fixture_page_def)

theorem cross_check_is_exact_witness:
  "verifyAgainstPrerenderedHtml [''static/chunks/polyfills-5555555555555555.js'']
      (Some (page_text fixture_page [])) ''/'' fixture_files = Some (Checked ''/'' True [] [])
   \<and> (\<exists>manifest. verifyAgainstPrerenderedHtml [''static/chunks/polyfills-5555555555555555.js'']
      (Some (page_text fixture_page [])) ''/'' (''static/chunks/nope.js'' # fixture_files)
        = Some (Checked ''/'' False [] manifest) \<and> set manifest = {''static/chunks/nope.js''})"
proof -
  define ps where "ps = [''static/chunks/polyfills-5555555555555555.js'']"
  define n where "n = ''static/chunks/nope.js''"
  have same: "set (page_files fixture_page) - set ps = set fixture_files"
    by (auto simp: ps_def page_files_def fixture_page_def fixture_files_def)
  have new: "n \<notin> set fixture_files" by (simp add: n_def fixture_files_def)
  have check: "\<exists>html manifest. verifyAgainstPrerenderedHtml ps (Some (page_text fixture_page [])) ''/'' files
        = Some (Checked ''/'' (html = [] \<and> manifest = []) html manifest)
      \<and> set html = set fixture_files - set files \<and> set manifest = set files - set fixture_files" for files
    using cross_check_is_exact [OF fixture_is_a_page, of "[]" "''/''" ps files]
    unfolding fixture_decodes same [symmetric] by auto
  have "\<exists>html manifest. verifyAgainstPrerenderedHtml ps (Some (page_text fixture_page [])) ''/'' fixture_files
        = Some (Checked ''/'' (html = [] \<and> manifest = []) html manifest) \<and> html = [] \<and> manifest = []"
    using check [of fixture_files] by auto
  moreover have "\<exists>html manifest. verifyAgainstPrerenderedHtml ps (Some (page_text fixture_page [])) ''/''
          (n # fixture_files)
        = Some (Checked ''/'' (html = [] \<and> manifest = []) html manifest) \<and> html = [] \<and> set manifest = {n}"
    using check [of "n # fixture_files"] new by auto
  ultimately show ?thesis unfolding ps_def [symmetric] n_def [symmetric] by auto
qed

lemma unchecked_routes:
  "CHR ''['' \<in> set route \<Longrightarrow>
     verifyAgainstPrerenderedHtml polyfills html route files = Some (Unchecked route DYNAMIC_ROUTE)"
  "CHR ''['' \<notin> set route \<Longrightarrow>
     verifyAgainstPrerenderedHtml polyfills None route files = Some (Unchecked route ON_DEMAND)"
  by (simp_all add: verifyAgainstPrerenderedHtml_def)

text \<open>Every row is in exactly one of the three tables.\<close>

lemma tables_cover_the_rows:
  "mset (enforced Gated rows) + mset (enforced External rows) + mset (enforced Reported rows) = mset rows"
proof (induction rows)
  case (Cons r rows)
  then show ?case by (cases "bw_enforcement (sr_row r)") (auto simp: enforced_def)
qed (simp add: enforced_def)

lemma evaluate_row_breached:
  assumes "ev_breached (evaluate_row m)"
  shows "bw_enforcement (me_row (ev_measurement (evaluate_row m))) = Gated
    \<and> ev_status (evaluate_row m) = Status_breach
    \<and> (\<exists>n. me_bytes (ev_measurement (evaluate_row m)) = Some n
         \<and> bw_budget (me_row (ev_measurement (evaluate_row m))) < n
         \<and> ev_headroom (evaluate_row m)
             = Some (int (bw_budget (me_row (ev_measurement (evaluate_row m)))) - int n))"
proof (cases "me_bytes m")
  case None
  then show ?thesis using assms by (simp add: evaluate_row_def Let_def)
next
  case (Some n)
  then show ?thesis using assms by (simp add: evaluate_row_def Let_def)
qed

text \<open>
  The report of an evaluation says what the exit code says: a breach exactly when the list of the
  breaches has a line, one for each gated row over its budget and in the order of the rows, each
  with its mark in the table; and the headroom printed with such a line is what it is over by.
\<close>

lemma report_says_the_verdict:
  assumes "map sr_eval rows = fst (evaluate ms)"
  shows "let report = renderReport rows (snd (evaluate ms)) crossChecks ratchet;
             over = filter (\<lambda>r. ev_breached (sr_eval r)) rows
    in br_breaches report = map breach_line over
     \<and> (br_result report \<longleftrightarrow> br_breaches report \<noteq> [])
     \<and> snd (snd (budgets_print rows (snd (evaluate ms)) path)) = (if br_breaches report \<noteq> [] then 1 else 0)
     \<and> set (map gated_cells over) \<subseteq> set (br_gated report)
     \<and> (\<forall>r \<in> set over. statusCell (ev_status (sr_eval r)) = ''**BREACH**''
          \<and> (\<exists>n. sr_bytes r = Some n \<and> bw_budget (sr_row r) < n
               \<and> ev_headroom (sr_eval r) = Some (int (bw_budget (sr_row r)) - int n)))"
proof -
  have evals: "\<exists>m \<in> set ms. sr_eval r = evaluate_row m" if "r \<in> set rows" for r
  proof -
    have "sr_eval r \<in> set (map evaluate_row ms)"
      using assms that by (metis evaluate_def fst_conv image_eqI list.set_map)
    then show ?thesis by auto
  qed
  have over: "ev_breached (sr_eval r) \<Longrightarrow> r \<in> set rows \<Longrightarrow> bw_enforcement (sr_row r) = Gated
      \<and> ev_status (sr_eval r) = Status_breach
      \<and> (\<exists>n. sr_bytes r = Some n \<and> bw_budget (sr_row r) < n
               \<and> ev_headroom (sr_eval r) = Some (int (bw_budget (sr_row r)) - int n))" for r
    using evals [of r] evaluate_row_breached by metis
  have "snd (evaluate ms) \<longleftrightarrow> list_ex ev_breached (map sr_eval rows)"
    using assms by (simp add: evaluate_def Let_def)
  then have verdict: "snd (evaluate ms) \<longleftrightarrow> filter (\<lambda>r. ev_breached (sr_eval r)) rows \<noteq> []"
    by (auto simp: list_ex_iff filter_empty_conv)
  let ?over = "filter (\<lambda>r. ev_breached (sr_eval r)) rows"
  have lines: "br_breaches (renderReport rows (snd (evaluate ms)) crossChecks ratchet) = map breach_line ?over"
    "br_result (renderReport rows (snd (evaluate ms)) crossChecks ratchet) = snd (evaluate ms)"
    "br_gated (renderReport rows (snd (evaluate ms)) crossChecks ratchet) = map gated_cells (enforced Gated rows)"
    by (simp_all add: renderReport_def Let_def)
  have "set ?over \<subseteq> set (enforced Gated rows)" using over by (auto simp: enforced_def)
  moreover have "snd (snd (budgets_print rows (snd (evaluate ms)) path)) = (if ?over \<noteq> [] then 1 else 0)"
    using verdict by (simp add: budgets_print_def Let_def)
  ultimately show ?thesis
    using over verdict unfolding Let_def lines
    by (intro conjI ballI) (auto simp: statusCell_def)
qed

end
