(* ===== verification/Font_Metrics.thy ===== *)
theory Font_Metrics
  imports Stable_Sort "HOL-Library.Word" "HOL-Library.List_Lexorder" "HOL-Library.Char_ord"
begin

unbundle bit_operations_syntax

text \<open>
  The font report, \<open>web/scripts/measure-fonts.mjs\<close>: the byte table against the budget, the reader
  of a woff2 directory and of the \<open>head\<close> and \<open>hhea\<close> values behind it, and the exit status. The
  Brotli decoder and gzip are parameters. A byte past the end of a buffer is \<open>undefined\<close>, which
  every bitwise operator reads as 0; the typed reads of \<open>Buffer\<close> throw there.
\<close>

section \<open>The byte table\<close>

type_synonym byte = "8 word"

definition FONT_BUDGET_BYTES :: int where
  "FONT_BUDGET_BYTES = 120 * 1024"

record font_face =
  ff_name :: string
  ff_raw :: int
  ff_gzip :: int

record byte_table =
  bt_faces :: "font_face list"
  bt_totalRaw :: int
  bt_totalGzip :: int
  bt_budget :: int
  bt_headroom :: int
  bt_withinBudget :: bool

text \<open>The directory, as names with their bytes; \<open>sort()\<close> orders the names by code units.\<close>

type_synonym font_dir = "(string \<times> byte list) list"

definition woff2_files :: "font_dir \<Rightarrow> font_dir" where
  "woff2_files dir =
     sort_by (\<lambda>x y. fst x \<le> fst y)
       (filter (\<lambda>x. length (fst x) \<ge> 6 \<and> drop (length (fst x) - 6) (fst x) = ''.woff2'') dir)"

definition byteTable :: "(byte list \<Rightarrow> byte list) \<Rightarrow> font_dir \<Rightarrow> byte_table" where
  "byteTable gzip dir =
     (let faces = map (\<lambda>(name, bytes). \<lparr>ff_name = name, ff_raw = int (length bytes),
                         ff_gzip = int (length (gzip bytes))\<rparr>) (woff2_files dir);
          raw = foldl (\<lambda>sum face. sum + ff_raw face) 0 faces;
          zip = foldl (\<lambda>sum face. sum + ff_gzip face) 0 faces
      in \<lparr>bt_faces = faces, bt_totalRaw = raw, bt_totalGzip = zip, bt_budget = FONT_BUDGET_BYTES,
          bt_headroom = FONT_BUDGET_BYTES - raw, bt_withinBudget = (raw \<le> FONT_BUDGET_BYTES)\<rparr>)"

section \<open>Reading a woff2 file\<close>

datatype font_error =
    Not_woff2 | Out_of_range | Malformed_base128 | Brotli_failed | No_head_hhea

definition KNOWN_TAGS :: "string list" where
  "KNOWN_TAGS =
     [''cmap'', ''head'', ''hhea'', ''hmtx'', ''maxp'', ''name'', ''OS/2'', ''post'', ''cvt '', ''fpgm'',
      ''glyf'', ''loca'', ''prep'', ''CFF '', ''VORG'', ''EBDT'', ''EBLC'', ''gasp'', ''hdmx'', ''kern'',
      ''LTSH'', ''PCLT'', ''VDMX'', ''vhea'', ''vmtx'', ''BASE'', ''GDEF'', ''GPOS'', ''GSUB'', ''EBSC'',
      ''JSTF'', ''MATH'', ''CBDT'', ''CBLC'', ''COLR'', ''CPAL'', ''SVG '', ''sbix'', ''acnt'', ''avar'',
      ''bdat'', ''bloc'', ''bsln'', ''cvar'', ''fdsc'', ''feat'', ''fmtx'', ''fvar'', ''gvar'', ''hsty'',
      ''just'', ''lcar'', ''mort'', ''morx'', ''opbd'', ''prop'', ''trak'', ''Zapf'', ''Silf'', ''Glat'',
      ''Gloc'', ''Feat'', ''Sill'']"

definition byte_at :: "byte list \<Rightarrow> nat \<Rightarrow> byte" where
  "byte_at buf i = (if i < length buf then buf ! i else 0)"

definition latin1 :: "byte list \<Rightarrow> nat \<Rightarrow> nat \<Rightarrow> string" where
  "latin1 buf i j = map (\<lambda>b. char_of (unat b)) (take (j - i) (drop i buf))"

definition readUInt16BE :: "byte list \<Rightarrow> nat \<Rightarrow> font_error + int" where
  "readUInt16BE buf i =
     (if i + 2 \<le> length buf then Inr (uint (buf ! i) * 256 + uint (buf ! (i + 1)))
      else Inl Out_of_range)"

definition readInt16BE :: "byte list \<Rightarrow> nat \<Rightarrow> font_error + int" where
  "readInt16BE buf i =
     (if i + 2 \<le> length buf then Inr (sint (word_cat (buf ! i) (buf ! (i + 1)) :: 16 word))
      else Inl Out_of_range)"

text \<open>The reader of a variable-length number: the value and the position behind it, or the throw.\<close>

fun base128_loop :: "nat \<Rightarrow> byte list \<Rightarrow> nat \<Rightarrow> nat \<Rightarrow> font_error + nat \<times> nat" where
  "base128_loop 0 buf at value = Inl Malformed_base128"
| "base128_loop (Suc i) buf at value =
     (let byte = byte_at buf at; value = value * 128 + unat (byte AND 0x7F)
      in if byte AND 0x80 = 0 then Inr (value, at + 1) else base128_loop i buf (at + 1) value)"

definition readBase128 :: "byte list \<Rightarrow> nat \<Rightarrow> font_error + nat \<times> nat" where
  "readBase128 buf at = base128_loop 5 buf at 0"

definition table_transformed :: "string \<Rightarrow> byte \<Rightarrow> bool" where
  "table_transformed tag transform \<longleftrightarrow>
     (if tag = ''glyf'' \<or> tag = ''loca'' then transform = 0 else transform \<noteq> 0)"

text \<open>One entry of the directory: its tag, its length and the position behind it.\<close>

definition read_entry :: "byte list \<Rightarrow> nat \<Rightarrow> font_error + (string \<times> nat) \<times> nat" where
  "read_entry buf at =
     (let flags = byte_at buf at;
          index = flags AND 0x3F;
          (tag, at1) = (if index = 0x3F then (latin1 buf (at + 1) (at + 5), at + 5)
                        else (KNOWN_TAGS ! unat index, at + 1));
          transform = drop_bit 6 flags AND 0x03
      in case readBase128 buf at1 of
           Inl e \<Rightarrow> Inl e
         | Inr (origLength, at2) \<Rightarrow>
             if table_transformed tag transform
             then (case readBase128 buf at2 of
                     Inl e \<Rightarrow> Inl e
                   | Inr (tableLength, at3) \<Rightarrow> Inr ((tag, tableLength), at3))
             else Inr ((tag, origLength), at2))"

fun read_directory :: "nat \<Rightarrow> byte list \<Rightarrow> nat \<Rightarrow> font_error + (string \<times> nat) list \<times> nat" where
  "read_directory 0 buf at = Inr ([], at)"
| "read_directory (Suc n) buf at =
     (case read_entry buf at of
        Inl e \<Rightarrow> Inl e
      | Inr (entry, at1) \<Rightarrow>
          (case read_directory n buf at1 of
             Inl e \<Rightarrow> Inl e
           | Inr (entries, at2) \<Rightarrow> Inr (entry # entries, at2)))"

text \<open>\<open>offsets\<close>: the tables lie one behind the other, and a tag that occurs again is set again.\<close>

definition table_offsets :: "(string \<times> nat) list \<Rightarrow> string \<Rightarrow> nat option" where
  "table_offsets directory =
     fst (foldl (\<lambda>(offsets, cursor) (tag, tableLength).
            (offsets(tag \<mapsto> cursor), cursor + tableLength)) (Map.empty, 0) directory)"

record font_metrics =
  fm_unitsPerEm :: int
  fm_ascender :: int
  fm_descender :: int
  fm_lineGap :: int

definition metrics_at :: "byte list \<Rightarrow> nat \<Rightarrow> nat \<Rightarrow> font_error + font_metrics" where
  "metrics_at font head hhea =
     (case (readUInt16BE font (head + 18), readInt16BE font (hhea + 4),
            readInt16BE font (hhea + 6), readInt16BE font (hhea + 8)) of
        (Inr em, Inr asc, Inr desc, Inr gap) \<Rightarrow>
          Inr \<lparr>fm_unitsPerEm = em, fm_ascender = asc, fm_descender = desc, fm_lineGap = gap\<rparr>
      | _ \<Rightarrow> Inl Out_of_range)"

definition readWoff2Metrics ::
  "(byte list \<Rightarrow> byte list option) \<Rightarrow> byte list \<Rightarrow> font_error + font_metrics"
where
  "readWoff2Metrics brotli buf =
     (if latin1 buf 0 4 \<noteq> ''wOF2'' then Inl Not_woff2
      else case readUInt16BE buf 12 of
        Inl e \<Rightarrow> Inl e
      | Inr numTables \<Rightarrow>
          (case read_directory (nat numTables) buf 48 of
             Inl e \<Rightarrow> Inl e
           | Inr (directory, at) \<Rightarrow>
               (case brotli (drop at buf) of
                  None \<Rightarrow> Inl Brotli_failed
                | Some font \<Rightarrow>
                    (case (table_offsets directory ''head'', table_offsets directory ''hhea'') of
                       (Some head, Some hhea) \<Rightarrow> metrics_at font head hhea
                     | _ \<Rightarrow> Inl No_head_hhea))))"

text \<open>\<open>.map\<close> stops at the first file whose read throws.\<close>

fun metrics_of_files ::
  "(byte list \<Rightarrow> byte list option) \<Rightarrow> font_dir \<Rightarrow> (string \<times> font_error) + (string \<times> font_metrics) list"
where
  "metrics_of_files brotli [] = Inr []"
| "metrics_of_files brotli ((name, bytes) # fs) =
     (case readWoff2Metrics brotli bytes of
        Inl e \<Rightarrow> Inl (name, e)
      | Inr m \<Rightarrow> (case metrics_of_files brotli fs of
          Inl e \<Rightarrow> Inl e
        | Inr ms \<Rightarrow> Inr ((name, m) # ms)))"

definition lineGapReport ::
  "(byte list \<Rightarrow> byte list option) \<Rightarrow> font_dir \<Rightarrow> (string \<times> font_error) + (string \<times> font_metrics) list"
where
  "lineGapReport brotli dir = metrics_of_files brotli (woff2_files dir)"

section \<open>The run\<close>

text \<open>What the run ends with: the exit code it set, or the throw that ended it; a browser that
  cannot be measured throws too.\<close>

datatype font_exit = Font_exit nat | Font_threw

definition font_report ::
  "(byte list \<Rightarrow> byte list) \<Rightarrow> (byte list \<Rightarrow> byte list option) \<Rightarrow> bool \<Rightarrow> string list \<Rightarrow> font_dir \<Rightarrow> font_exit"
where
  "font_report gzip brotli measured argv dir =
     (let bytes = byteTable gzip dir;
          browser = (''--no-browser'' \<notin> set argv);
          gaps = (if ''--check-linegap'' \<in> set argv \<or> browser then lineGapReport brotli dir
                  else Inr [])
      in case gaps of
           Inl e \<Rightarrow> Font_threw
         | Inr faces \<Rightarrow>
             if browser \<and> \<not> measured then Font_threw
             else let offenders = filter (\<lambda>x. fm_lineGap (snd x) \<noteq> 0) faces
               in Font_exit (if offenders \<noteq> [] \<or> \<not> bt_withinBudget bytes then 1 else 0))"

end
