(* ===== verification/Font_Harness.thy ===== *)
theory Font_Harness
  imports Font_Metrics JS_Number
begin

text \<open>
  The browser half of the font report, \<open>web/scripts/measure-fonts.mjs\<close>: the function the harness
  page runs (\<open>__wo02_measure\<close>), the Markdown it is printed as, and what a run writes. The layout
  engine is the parameter \<open>render\<close>: what a \<open>font-family\<close> list is laid out with, given the faces
  the document has declared so far, or \<open>None\<close> where the canvas does not accept the shorthand.
  Lengths are the rational numbers the doubles stand for.
\<close>

section \<open>The families\<close>

definition SIZE :: rat where
  "SIZE = 100"

record font_family =
  fam_id :: string
  fam_label :: string
  fam_file :: string
  fam_weight :: nat
  fam_style :: string
  fam_stack :: string
  fam_localSrc :: "string list"
  fam_probes :: "string list"

abbreviation dquoted :: "string \<Rightarrow> string" where
  "dquoted s \<equiv> CHR 0x22 # s @ [CHR 0x22]"

abbreviation squoted :: "string \<Rightarrow> string" where
  "squoted s \<equiv> CHR 0x27 # s @ [CHR 0x27]"

definition FAMILIES :: "font_family list" where
  "FAMILIES =
    [\<lparr>fam_id = ''ui'', fam_label = ''Atkinson Hyperlegible Next'',
      fam_file = ''AtkinsonHyperlegibleNext-400-700.woff2'', fam_weight = 400, fam_style = ''normal'',
      fam_stack = ''ui-sans-serif, system-ui, -apple-system, '' @ dquoted ''Segoe UI'' @ '', sans-serif'',
      fam_localSrc =
        [''Arial'', ''ArialMT'', ''Liberation Sans'', ''LiberationSans'', ''Helvetica Neue'',
         ''HelveticaNeue'', ''Helvetica'', ''DejaVu Sans'', ''DejaVuSans''],
      fam_probes =
        [''SF Pro Text'', ''SF Pro'', ''.SFNS-Regular'', ''.AppleSystemUIFont'', ''Segoe UI'', ''SegoeUI'']\<rparr>,
     \<lparr>fam_id = ''report'', fam_label = ''Literata'', fam_file = ''Literata-400-600.woff2'',
      fam_weight = 400, fam_style = ''normal'',
      fam_stack = ''ui-serif, Georgia, '' @ dquoted ''Times New Roman'' @ '', serif'',
      fam_localSrc =
        [''Georgia'', ''Liberation Serif'', ''LiberationSerif'', ''DejaVu Serif'', ''DejaVuSerif'',
         ''Times New Roman'', ''TimesNewRomanPSMT''],
      fam_probes = [''Times'', ''Times-Roman'', ''SF Pro Text'']\<rparr>,
     \<lparr>fam_id = ''mono'', fam_label = ''IBM Plex Mono'', fam_file = ''IBMPlexMono-400.woff2'',
      fam_weight = 400, fam_style = ''normal'',
      fam_stack = ''ui-monospace, SFMono-Regular, Menlo, Consolas, monospace'',
      fam_localSrc =
        [''Menlo-Regular'', ''Menlo Regular'', ''DejaVu Sans Mono'', ''DejaVuSansMono'',
         ''Liberation Mono'', ''LiberationMono'', ''Courier New'', ''CourierNewPSMT'', ''Consolas''],
      fam_probes = [''Menlo'', ''SFMono-Regular'', ''SF Mono'', ''.SFNSMono-Regular'']\<rparr>]"

section \<open>What is measured\<close>

text \<open>The widths of the three reference strings and the two lengths of the line box.\<close>

record measured =
  ms_prose :: rat
  ms_alphabet :: rat
  ms_data :: rat
  ms_baselineFromTop :: rat
  ms_lineBoxHeight :: rat

text \<open>A declared face: a loaded web font, or a rule over \<open>local()\<close> names with the texts of its
  descriptors in percent (none: the rule of a probe).\<close>

record face_texts =
  ft_sizeAdjust :: string
  ft_ascentOverride :: string
  ft_descentOverride :: string

datatype css_face =
    Web_face string font_family
  | Local_face string "string list" "face_texts option"

type_synonym layout = "css_face list \<Rightarrow> string \<Rightarrow> measured option"

datatype harness_error = Bad_font_spec string | Not_loaded string | No_candidate string

definition measure_spec :: "layout \<Rightarrow> css_face list \<Rightarrow> string \<Rightarrow> harness_error + measured" where
  "measure_spec render faces spec =
     (case render faces spec of None \<Rightarrow> Inl (Bad_font_spec spec) | Some m \<Rightarrow> Inr m)"

record probe_data =
  pd_measured :: measured
  pd_resolved :: bool

definition ABSENT :: string where
  "ABSENT = ''__wo02_absent_family__''"

text \<open>\<open>probeOne\<close> for a list of names; the counter numbers the faces of the probes.\<close>

definition probe_face :: "string \<Rightarrow> nat \<Rightarrow> string" where
  "probe_face i seq = ''__wo02_probe_'' @ i @ ''_'' @ show_nat seq"

fun probe_all ::
  "layout \<Rightarrow> string \<Rightarrow> measured \<Rightarrow> css_face list \<Rightarrow> nat \<Rightarrow> string list
     \<Rightarrow> harness_error + (css_face list \<times> nat \<times> (string \<times> probe_data) list)"
where
  "probe_all render i absent faces seq [] = Inr (faces, seq, [])"
| "probe_all render i absent faces seq (name # names) =
     (let face = probe_face i (seq + 1);
          declared = faces @ [Local_face face [name] None]
      in case measure_spec render declared (squoted face @ '', '' @ squoted ABSENT) of
           Inl e \<Rightarrow> Inl e
         | Inr probe \<Rightarrow>
             (case probe_all render i absent declared (seq + 1) names of
                Inl e \<Rightarrow> Inl e
              | Inr (faces', seq', found) \<Rightarrow>
                  Inr (faces', seq',
                    (name, \<lparr>pd_measured = probe,
                            pd_resolved = (\<bar>ms_prose probe - ms_prose absent\<bar> > 1 / 100)\<rparr>) # found)))"

section \<open>The descriptors\<close>

record descriptors =
  ds_sizeAdjust :: rat
  ds_ascentOverride :: rat
  ds_descentOverride :: rat
  ds_lineGapOverride :: rat

definition descriptors_of :: "measured \<Rightarrow> measured \<Rightarrow> descriptors" where
  "descriptors_of webfont anchor =
     (let sizeAdjust = ms_prose webfont / ms_prose anchor;
          ascent = ms_baselineFromTop webfont / SIZE;
          descent = (ms_lineBoxHeight webfont - ms_baselineFromTop webfont) / SIZE
      in \<lparr>ds_sizeAdjust = sizeAdjust, ds_ascentOverride = ascent / sizeAdjust,
          ds_descentOverride = descent / sizeAdjust, ds_lineGapOverride = 0\<rparr>)"

definition texts_of :: "nat \<Rightarrow> descriptors \<Rightarrow> face_texts" where
  "texts_of places d =
     \<lparr>ft_sizeAdjust = to_fixed places (ds_sizeAdjust d * 100),
      ft_ascentOverride = to_fixed places (ds_ascentOverride d * 100),
      ft_descentOverride = to_fixed places (ds_descentOverride d * 100)\<rparr>"

record residual =
  rd_widthPx :: rat
  rd_widthPercent :: rat
  rd_baselinePx :: rat
  rd_lineBoxPx :: rat
  rd_unadjustedWidthPercent :: rat
  rd_unadjustedLineBoxPx :: rat

definition residual_of :: "measured \<Rightarrow> measured \<Rightarrow> measured \<Rightarrow> residual" where
  "residual_of webfont fallback verified =
     \<lparr>rd_widthPx = ms_prose verified - ms_prose webfont,
      rd_widthPercent = (ms_prose verified - ms_prose webfont) / ms_prose webfont,
      rd_baselinePx = ms_baselineFromTop verified - ms_baselineFromTop webfont,
      rd_lineBoxPx = ms_lineBoxHeight verified - ms_lineBoxHeight webfont,
      rd_unadjustedWidthPercent = (ms_prose fallback - ms_prose webfont) / ms_prose webfont,
      rd_unadjustedLineBoxPx = ms_lineBoxHeight fallback - ms_lineBoxHeight webfont\<rparr>"

record family_metrics =
  fx_id :: string
  fx_webfont :: measured
  fx_fallback :: measured
  fx_candidates :: "(string \<times> probe_data) list"
  fx_probes :: "(string \<times> probe_data) list"
  fx_anchorName :: string
  fx_descriptors :: descriptors
  fx_residual :: residual
  fx_sensitivity :: "rat \<times> rat \<times> rat"

text \<open>From the probes of a family on: its anchor, its descriptors, the adjusted face and how far
  that is from the web font.\<close>

definition anchored ::
  "layout \<Rightarrow> css_face list \<Rightarrow> font_family \<Rightarrow> measured \<Rightarrow> measured
     \<Rightarrow> (string \<times> probe_data) list \<Rightarrow> (string \<times> probe_data) list
     \<Rightarrow> harness_error + (css_face list \<times> family_metrics)"
where
  "anchored render faces family webfont fallback candidates probes =
     (case find (\<lambda>(name, data). pd_resolved data) candidates of
        None \<Rightarrow> Inl (No_candidate (fam_id family))
      | Some (anchorName, data) \<Rightarrow>
          (let anchor = pd_measured data;
               d = descriptors_of webfont anchor;
               adjusted = ''__wo02_adjusted_'' @ fam_id family;
               faces' = faces @ [Local_face adjusted (fam_localSrc family) (Some (texts_of 4 d))]
           in case measure_spec render faces' (squoted adjusted) of
                Inl e \<Rightarrow> Inl e
              | Inr verified \<Rightarrow>
                  Inr (faces', \<lparr>fx_id = fam_id family, fx_webfont = webfont, fx_fallback = fallback,
                    fx_candidates = candidates, fx_probes = probes, fx_anchorName = anchorName,
                    fx_descriptors = d, fx_residual = residual_of webfont fallback verified,
                    fx_sensitivity = (ds_sizeAdjust d, ms_alphabet webfont / ms_alphabet anchor,
                      ms_data webfont / ms_data anchor)\<rparr>)))"

definition probed ::
  "layout \<Rightarrow> css_face list \<Rightarrow> font_family \<Rightarrow> measured \<Rightarrow> measured \<Rightarrow> measured
     \<Rightarrow> harness_error + (css_face list \<times> family_metrics)"
where
  "probed render faces family webfont fallback absent =
     (case probe_all render (fam_id family) absent faces 0 (fam_localSrc family) of
        Inl e \<Rightarrow> Inl e
      | Inr (faces1, seq, candidates) \<Rightarrow>
          (case probe_all render (fam_id family) absent faces1 seq (fam_probes family) of
             Inl e \<Rightarrow> Inl e
           | Inr (faces2, _, probes) \<Rightarrow>
               anchored render faces2 family webfont fallback candidates probes))"

definition measure_family ::
  "layout \<Rightarrow> (font_family \<Rightarrow> bool) \<Rightarrow> css_face list \<Rightarrow> font_family
     \<Rightarrow> harness_error + (css_face list \<times> family_metrics)"
where
  "measure_family render loads faces0 family =
     (let face = ''__wo02_'' @ fam_id family; faces = faces0 @ [Web_face face family]
      in if \<not> loads family then Inl (Not_loaded (fam_id family))
         else case measure_spec render faces (dquoted face) of
           Inl e \<Rightarrow> Inl e
         | Inr webfont \<Rightarrow>
             (case measure_spec render faces (fam_stack family) of
                Inl e \<Rightarrow> Inl e
              | Inr fallback \<Rightarrow>
                  (case measure_spec render faces (dquoted ABSENT) of
                     Inl e \<Rightarrow> Inl e
                   | Inr absent \<Rightarrow> probed render faces family webfont fallback absent)))"

fun measure_families ::
  "layout \<Rightarrow> (font_family \<Rightarrow> bool) \<Rightarrow> css_face list \<Rightarrow> font_family list
     \<Rightarrow> harness_error + family_metrics list"
where
  "measure_families render loads faces [] = Inr []"
| "measure_families render loads faces (family # families) =
     (case measure_family render loads faces family of
        Inl e \<Rightarrow> Inl e
      | Inr (faces', m) \<Rightarrow>
          (case measure_families render loads faces' families of
             Inl e \<Rightarrow> Inl e
           | Inr ms \<Rightarrow> Inr (m # ms)))"

definition wo02_measure ::
  "layout \<Rightarrow> (font_family \<Rightarrow> bool) \<Rightarrow> harness_error + family_metrics list" where
  "wo02_measure render loads = measure_families render loads [] FAMILIES"

end
