(* ===== verification/Harness_Laws.thy ===== *)
theory Harness_Laws
  imports Font_Harness
begin

text \<open>
  What the measurement of a family gives in a browser that lays fonts out as CSS Fonts defines it,
  up to a tolerance for what its shaping and pixel snapping add: which candidate becomes the anchor,
  how far the adjusted face is from the web font, and what an installed candidate that is the
  platform's default does to both. The run \<open>docs/revamp/evidence/gate-3/fonts.md\<close> (4.4) records has residual widths of
  -0.14, -0.06 and -0.87 px, so no exact scaling is assumed.
\<close>

section \<open>A browser that follows the definition\<close>

text \<open>A percentage in a rule, and the layout of a face with its descriptors: \<open>size-adjust\<close> scales the
  em, the overrides are fractions of the scaled em, and there is no leading.\<close>

definition percent_of :: "string \<Rightarrow> rat" where
  "percent_of t = decimal_value t / 100"

definition adjusted_by :: "face_texts \<Rightarrow> measured \<Rightarrow> measured" where
  "adjusted_by t m =
     (let s = percent_of (ft_sizeAdjust t); a = percent_of (ft_ascentOverride t);
          d = percent_of (ft_descentOverride t)
      in \<lparr>ms_prose = s * ms_prose m, ms_alphabet = s * ms_alphabet m, ms_data = s * ms_data m,
          ms_baselineFromTop = a * s * SIZE, ms_lineBoxHeight = (a + d) * s * SIZE\<rparr>)"

definition unquoted :: "string \<Rightarrow> bool" where
  "unquoted s \<longleftrightarrow> CHR 0x27 \<notin> set s"

text \<open>\<open>installed\<close> answers for a \<open>local()\<close> name; a rule that finds none of its sources is no face, and
  the text is laid out in the platform's default.\<close>

definition first_installed :: "(string \<Rightarrow> measured option) \<Rightarrow> string list \<Rightarrow> measured option" where
  "first_installed installed names = Option.bind (find (\<lambda>n. installed n \<noteq> None) names) installed"

text \<open>
  \<open>near w b m v\<close>: a text that should measure \<open>m\<close> measures \<open>v\<close>, its widths within \<open>w\<close> and its box within
  \<open>b\<close>. The law: an unknown family is the default, a plain \<open>local()\<close> face is the installed font, and
  an adjusted one is that font scaled as the descriptors say, within the tolerance.
\<close>

definition near :: "rat \<Rightarrow> rat \<Rightarrow> measured \<Rightarrow> measured \<Rightarrow> bool" where
  "near w b m v \<longleftrightarrow>
     \<bar>ms_prose v - ms_prose m\<bar> \<le> w \<and> \<bar>ms_alphabet v - ms_alphabet m\<bar> \<le> w
   \<and> \<bar>ms_data v - ms_data m\<bar> \<le> w \<and> \<bar>ms_baselineFromTop v - ms_baselineFromTop m\<bar> \<le> b
   \<and> \<bar>ms_lineBoxHeight v - ms_lineBoxHeight m\<bar> \<le> b"

definition css_fonts ::
  "rat \<Rightarrow> rat \<Rightarrow> (string \<Rightarrow> measured option) \<Rightarrow> measured \<Rightarrow> layout \<Rightarrow> bool" where
  "css_fonts w b installed def render \<longleftrightarrow>
     (\<forall>faces. render faces (dquoted ABSENT) = Some def)
   \<and> (\<forall>faces name n. unquoted name \<longrightarrow> unquoted n \<longrightarrow>
        render (faces @ [Local_face name [n] None]) (squoted name @ '', '' @ squoted ABSENT)
          = Some (case installed n of None \<Rightarrow> def | Some m \<Rightarrow> m))
   \<and> (\<forall>faces name names t. unquoted name \<longrightarrow> list_all unquoted names \<longrightarrow>
        (\<exists>v. render (faces @ [Local_face name names (Some t)]) (squoted name) = Some v
           \<and> (case first_installed installed names of
                None \<Rightarrow> v = def | Some m \<Rightarrow> near w b (adjusted_by t m) v)))"

text \<open>What the page can see: a candidate whose text is not as wide as the default's.\<close>

definition laid_out :: "(string \<Rightarrow> measured option) \<Rightarrow> measured \<Rightarrow> string \<Rightarrow> measured" where
  "laid_out installed def n = (case installed n of None \<Rightarrow> def | Some m \<Rightarrow> m)"

definition visible :: "(string \<Rightarrow> measured option) \<Rightarrow> measured \<Rightarrow> string \<Rightarrow> bool" where
  "visible installed def n \<longleftrightarrow> \<bar>ms_prose (laid_out installed def n) - ms_prose def\<bar> > 1 / 100"

section \<open>One family\<close>

lemma probe_face_unquoted: "unquoted i \<Longrightarrow> unquoted (probe_face i seq)"
  using digits_of_show_nat [of seq]
  by (auto simp: unquoted_def probe_face_def list_all_iff digit_char_def)

lemma probe_all_lays_out:
  assumes "css_fonts w b installed def render" "unquoted i" "list_all unquoted names"
  shows "\<exists>faces'. probe_all render i def faces seq names = Inr (faces', seq + length names,
    map (\<lambda>n. (n, \<lparr>pd_measured = laid_out installed def n, pd_resolved = visible installed def n\<rparr>)) names)"
  using assms(3)
proof (induction names arbitrary: faces seq)
  case (Cons n names)
  let ?faces = "faces @ [Local_face (probe_face i (seq + 1)) [n] None]"
  have "render ?faces (squoted (probe_face i (seq + 1)) @ '', '' @ squoted ABSENT)
      = Some (laid_out installed def n)"
    using assms(1) probe_face_unquoted [OF assms(2)] Cons.prems
    unfolding css_fonts_def laid_out_def list.pred_inject by blast
  moreover obtain faces' where "probe_all render i def ?faces (seq + 1) names
      = Inr (faces', seq + 1 + length names, map (\<lambda>n. (n, \<lparr>pd_measured = laid_out installed def n,
          pd_resolved = visible installed def n\<rparr>)) names)"
    using Cons.IH [of ?faces "seq + 1"] Cons.prems by auto
  ultimately show ?case
    by (simp add: Let_def measure_spec_def visible_def)
qed simp

definition family_unquoted :: "font_family \<Rightarrow> bool" where
  "family_unquoted f \<longleftrightarrow>
     unquoted (fam_id f) \<and> list_all unquoted (fam_localSrc f) \<and> list_all unquoted (fam_probes f)"

lemma families_unquoted: "list_all family_unquoted FAMILIES"
  by (simp add: FAMILIES_def family_unquoted_def unquoted_def)

lemma find_probed:
  "find (\<lambda>(name, data). pd_resolved data) (map (\<lambda>n. (n, f n)) names)
     = map_option (\<lambda>n. (n, f n)) (find (\<lambda>n. pd_resolved (f n)) names)"
  by (induction names) auto

text \<open>The page chooses the first candidate it can see; what it then declares is laid out by the
  first one that is installed.\<close>

definition chosen ::
  "(string \<Rightarrow> measured option) \<Rightarrow> measured \<Rightarrow> font_family \<Rightarrow> string option" where
  "chosen installed def family = find (visible installed def) (fam_localSrc family)"

lemma measure_family_chooses:
  assumes law: "css_fonts w b installed def render" and fam: "family_unquoted family" "loads family"
    and web: "\<And>faces. render (faces @ [Web_face (''__wo02_'' @ fam_id family) family])
          (dquoted (''__wo02_'' @ fam_id family)) = Some webfont"
    and stack: "\<And>faces. render faces (fam_stack family) = Some fallback"
  shows "case chosen installed def family of
      None \<Rightarrow> measure_family render loads faces family = Inl (No_candidate (fam_id family))
    | Some n \<Rightarrow>
        (\<exists>faces' fx v. measure_family render loads faces family = Inr (faces', fx) \<and> fx_anchorName fx = n
         \<and> fx_webfont fx = webfont
         \<and> fx_descriptors fx = descriptors_of webfont (laid_out installed def n)
         \<and> fx_residual fx = residual_of webfont fallback v
         \<and> (case first_installed installed (fam_localSrc family) of
               None \<Rightarrow> v = def | Some m \<Rightarrow> near w b (adjusted_by (texts_of 4 (fx_descriptors fx)) m) v))"
proof -
  let ?f = "\<lambda>n. \<lparr>pd_measured = laid_out installed def n, pd_resolved = visible installed def n\<rparr>"
  let ?face = "''__wo02_'' @ fam_id family"
  let ?faces = "faces @ [Web_face ?face family]"
  have ids: "unquoted (fam_id family)" "list_all unquoted (fam_localSrc family)"
    "list_all unquoted (fam_probes family)"
    using fam(1) by (simp_all add: family_unquoted_def)
  obtain f1 where p1: "probe_all render (fam_id family) def ?faces 0 (fam_localSrc family)
      = Inr (f1, length (fam_localSrc family), map (\<lambda>n. (n, ?f n)) (fam_localSrc family))"
    using probe_all_lays_out [OF law ids(1,2), of ?faces 0] by auto
  obtain f2 where p2: "probe_all render (fam_id family) def f1 (length (fam_localSrc family))
        (fam_probes family)
      = Inr (f2, length (fam_localSrc family) + length (fam_probes family),
             map (\<lambda>n. (n, ?f n)) (fam_probes family))"
    using probe_all_lays_out [OF law ids(1,3), of f1 "length (fam_localSrc family)"] by auto
  have absent: "render ?faces (dquoted ABSENT) = Some def" using law unfolding css_fonts_def by blast
  have adj: "\<exists>v. render (f2 @ [Local_face (''__wo02_adjusted_'' @ fam_id family) (fam_localSrc family) (Some t)])
        (squoted (''__wo02_adjusted_'' @ fam_id family)) = Some v
      \<and> (case first_installed installed (fam_localSrc family) of
            None \<Rightarrow> v = def | Some m \<Rightarrow> near w b (adjusted_by t m) v)" for t
  proof -
    have "unquoted (''__wo02_adjusted_'' @ fam_id family)" using ids(1) by (simp add: unquoted_def)
    then show ?thesis using law ids(2) unfolding css_fonts_def by blast
  qed
  have red: "measure_family render loads faces family
      = anchored render f2 family webfont fallback (map (\<lambda>n. (n, ?f n)) (fam_localSrc family))
          (map (\<lambda>n. (n, ?f n)) (fam_probes family))"
    using fam(2) web [of faces] stack [of ?faces] absent p1 p2
    by (simp add: measure_family_def measure_spec_def probed_def Let_def)
  show ?thesis
  proof (cases "chosen installed def family")
    case None
    then show ?thesis by (simp add: red anchored_def find_probed chosen_def)
  next
    case (Some n)
    obtain v where v: "render (f2 @ [Local_face (''__wo02_adjusted_'' @ fam_id family) (fam_localSrc family)
          (Some (texts_of 4 (descriptors_of webfont (laid_out installed def n))))])
        (squoted (''__wo02_adjusted_'' @ fam_id family)) = Some v"
      "case first_installed installed (fam_localSrc family) of
         None \<Rightarrow> v = def
       | Some m \<Rightarrow> near w b (adjusted_by (texts_of 4 (descriptors_of webfont (laid_out installed def n))) m) v"
      using adj by blast
    then show ?thesis
      using Some
      by (simp add: red anchored_def find_probed chosen_def measure_spec_def Let_def)
        (cases "first_installed installed (fam_localSrc family)"; auto)
  qed
qed

section \<open>How far the adjusted face is\<close>

lemma percent_near: "\<bar>percent_of (to_fixed 4 (x * 100)) - x\<bar> \<le> 1 / 2000000"
  using fixed_value_near [of 4 "x * 100"]
  by (simp add: percent_of_def to_fixed_reads_back field_simps abs_le_iff)

lemma rounded_product:
  fixes a :: rat
  assumes "\<bar>a' - a\<bar> \<le> \<delta>" "\<bar>s' - s\<bar> \<le> \<epsilon>" "0 \<le> a" "0 \<le> s"
  shows "\<bar>a' * s' - a * s\<bar> \<le> (a + \<delta>) * \<epsilon> + s * \<delta>"
proof -
  have "a' * s' - a * s = a' * (s' - s) + s * (a' - a)" by (simp add: algebra_simps)
  then have "\<bar>a' * s' - a * s\<bar> \<le> \<bar>a'\<bar> * \<bar>s' - s\<bar> + s * \<bar>a' - a\<bar>"
    using abs_triangle_ineq [of "a' * (s' - s)" "s * (a' - a)"] assms(4) by (simp add: abs_mult)
  also have "\<bar>a'\<bar> * \<bar>s' - s\<bar> \<le> (a + \<delta>) * \<epsilon>"
    using assms by (intro mult_mono) auto
  also have "s * \<bar>a' - a\<bar> \<le> s * \<delta>" using assms by (intro mult_left_mono) auto
  finally show ?thesis by simp
qed

lemma pixels:
  fixes x :: rat
  assumes "x = y * 100" "y \<le> (a + k / 2000000) * (1 / 2000000) + s * (k / 2000000)" "k \<le> 2"
  shows "x \<le> (a + k * s + 1) / 20000"
proof -
  have "(a + k / 2000000) * (1 / 2000000) + s * (k / 2000000) = (a + k * s + k / 2000000) / 2000000"
    by (simp add: add_divide_distrib distrib_right mult.commute)
  with assms(2) have "y \<le> (a + k * s + k / 2000000) / 2000000" by (simp only:)
  then have "x \<le> (a + k * s + k / 2000000) / 20000" using assms(1) by simp
  then show ?thesis using assms(3) by simp
qed

text \<open>A face that is adjusted with descriptors of four places, laid out over its own anchor.\<close>

lemma residual_small:
  fixes webfont anchor fallback :: measured
  assumes pos: "0 < ms_prose webfont" "0 < ms_prose anchor"
    and box: "0 \<le> ms_baselineFromTop webfont" "ms_baselineFromTop webfont \<le> ms_lineBoxHeight webfont"
  defines "d \<equiv> descriptors_of webfont anchor"
  defines "r \<equiv> residual_of webfont fallback (adjusted_by (texts_of 4 d) anchor)"
  shows "\<bar>rd_widthPx r\<bar> \<le> ms_prose anchor / 2000000"
    "\<bar>rd_baselinePx r\<bar> \<le> (ds_ascentOverride d + ds_sizeAdjust d + 1) / 20000"
    "\<bar>rd_lineBoxPx r\<bar> \<le> (ds_ascentOverride d + ds_descentOverride d + 2 * ds_sizeAdjust d + 1) / 20000"
proof -
  let ?s = "ds_sizeAdjust d" and ?a = "ds_ascentOverride d" and ?d = "ds_descentOverride d"
  let ?s' = "percent_of (to_fixed 4 (?s * 100))" and ?a' = "percent_of (to_fixed 4 (?a * 100))"
    and ?d' = "percent_of (to_fixed 4 (?d * 100))"
  have s: "0 < ?s" "?s * ms_prose anchor = ms_prose webfont"
    using pos by (simp_all add: d_def descriptors_of_def Let_def)
  have a: "0 \<le> ?a" "?a * ?s * SIZE = ms_baselineFromTop webfont"
    using pos box by (simp_all add: d_def descriptors_of_def Let_def SIZE_def)
  have l: "0 \<le> ?d" "(?a + ?d) * ?s * SIZE = ms_lineBoxHeight webfont"
    using pos box by (simp_all add: d_def descriptors_of_def Let_def SIZE_def field_simps)
  note near = percent_near [of ?s] percent_near [of ?a] percent_near [of ?d]
  have "rd_widthPx r = (?s' - ?s) * ms_prose anchor"
    using s(2) by (simp add: r_def residual_of_def adjusted_by_def texts_of_def Let_def algebra_simps)
  then show "\<bar>rd_widthPx r\<bar> \<le> ms_prose anchor / 2000000"
    using mult_right_mono [OF near(1), of "ms_prose anchor"] pos(2) by (simp add: abs_mult)
  have "rd_baselinePx r = (?a' * ?s' - ?a * ?s) * SIZE"
    using a(2) by (simp add: r_def residual_of_def adjusted_by_def texts_of_def Let_def algebra_simps)
  then have "\<bar>rd_baselinePx r\<bar> = \<bar>?a' * ?s' - ?a * ?s\<bar> * 100"
    by (simp only: abs_mult SIZE_def abs_numeral)
  then show "\<bar>rd_baselinePx r\<bar> \<le> (?a + ?s + 1) / 20000"
    using pixels [of _ _ ?a 1 ?s] rounded_product [OF near(2,1) a(1) less_imp_le [OF s(1)]] by simp
  have "rd_lineBoxPx r = ((?a' + ?d') * ?s' - (?a + ?d) * ?s) * SIZE"
    using l(2) by (simp add: r_def residual_of_def adjusted_by_def texts_of_def Let_def algebra_simps)
  then have "\<bar>rd_lineBoxPx r\<bar> = \<bar>(?a' + ?d') * ?s' - (?a + ?d) * ?s\<bar> * 100"
    by (simp only: abs_mult SIZE_def abs_numeral)
  moreover have "\<bar>(?a' + ?d') - (?a + ?d)\<bar> \<le> 1 / 1000000" using near(2,3) by linarith
  ultimately show "\<bar>rd_lineBoxPx r\<bar> \<le> (?a + ?d + 2 * ?s + 1) / 20000"
    using pixels [of _ _ "?a + ?d" 2 ?s] rounded_product [OF _ near(1) add_nonneg_nonneg [OF a(1) l(1)] less_imp_le [OF s(1)],
        of "?a' + ?d'" "1 / 1000000"] by simp
qed

text \<open>What the browser adds to a residual is at most its tolerance.\<close>

lemma residual_near:
  assumes "near w b m v"
  shows "\<bar>rd_widthPx (residual_of webfont fallback v)\<bar> \<le> \<bar>rd_widthPx (residual_of webfont fallback m)\<bar> + w"
    and "\<bar>rd_baselinePx (residual_of webfont fallback v)\<bar>
      \<le> \<bar>rd_baselinePx (residual_of webfont fallback m)\<bar> + b"
    and "\<bar>rd_lineBoxPx (residual_of webfont fallback v)\<bar>
      \<le> \<bar>rd_lineBoxPx (residual_of webfont fallback m)\<bar> + b"
  using assms by (auto simp: near_def residual_of_def)

lemma residual_near_web:
  assumes pos: "0 < ms_prose webfont" "0 < ms_prose anchor"
    and box: "0 \<le> ms_baselineFromTop webfont" "ms_baselineFromTop webfont \<le> ms_lineBoxHeight webfont"
    and near: "near w b (adjusted_by (texts_of 4 (descriptors_of webfont anchor)) anchor) v"
  shows "\<bar>rd_widthPx (residual_of webfont fallback v)\<bar> \<le> ms_prose anchor / 2000000 + w
    \<and> \<bar>rd_baselinePx (residual_of webfont fallback v)\<bar>
        \<le> (ds_ascentOverride (descriptors_of webfont anchor)
            + ds_sizeAdjust (descriptors_of webfont anchor) + 1) / 20000 + b
    \<and> \<bar>rd_lineBoxPx (residual_of webfont fallback v)\<bar>
        \<le> (ds_ascentOverride (descriptors_of webfont anchor)
            + ds_descentOverride (descriptors_of webfont anchor)
            + 2 * ds_sizeAdjust (descriptors_of webfont anchor) + 1) / 20000 + b"
  by (intro conjI order_trans [OF residual_near(1) [OF near]] order_trans [OF residual_near(2) [OF near]]
      order_trans [OF residual_near(3) [OF near]] add_right_mono residual_small [OF pos box])

lemma chosen_first_installed:
  assumes "find (\<lambda>n. installed n \<noteq> None) (fam_localSrc family) = Some n"
  shows "chosen installed def family = Some n \<longleftrightarrow> visible installed def n"
proof -
  obtain i where i: "i < length (fam_localSrc family)" "fam_localSrc family ! i = n" "installed n \<noteq> None"
    "\<forall>j<i. installed (fam_localSrc family ! j) = None"
    using assms by (auto simp: find_Some_iff)
  then have "\<forall>j<i. \<not> visible installed def (fam_localSrc family ! j)"
    by (simp add: visible_def laid_out_def)
  then show ?thesis
    using i by (auto simp: chosen_def find_Some_iff intro: exI [of _ i])
qed

text \<open>
  C39. In a browser that follows CSS Fonts up to \<open>w\<close> px on a width and \<open>b\<close> px on a line box, a family is
  anchored on the font its adjusted face resolves to (the first of its sources that is installed)
  exactly when the prose string is more than a hundredth of a pixel wider or narrower in it than in
  the platform's default. And then the face that is measured again, the one declared with
  descriptors of four places, differs from the web font by the browser's tolerance and what the
  rounding of those descriptors explains, half a millionth of the width: a
  larger residual in the report is the browser's own, not the script's arithmetic. (The rule the
  report prints has two places; it is not this face.)
\<close>

theorem adjusted_face_fits:
  assumes law: "css_fonts w b installed def render" and fam: "family \<in> set FAMILIES" "loads family"
    and web: "\<And>faces. render (faces @ [Web_face (''__wo02_'' @ fam_id family) family])
          (dquoted (''__wo02_'' @ fam_id family)) = Some webfont"
    and stack: "\<And>faces. render faces (fam_stack family) = Some fallback"
    and first: "find (\<lambda>n. installed n \<noteq> None) (fam_localSrc family) = Some n" "installed n = Some anchor"
    and pos: "0 < ms_prose webfont" "0 < ms_prose anchor"
    and box: "0 \<le> ms_baselineFromTop webfont" "ms_baselineFromTop webfont \<le> ms_lineBoxHeight webfont"
  shows "((\<exists>faces' fx. measure_family render loads faces family = Inr (faces', fx) \<and> fx_anchorName fx = n)
      \<longleftrightarrow> \<bar>ms_prose anchor - ms_prose def\<bar> > 1 / 100)
    \<and> (\<forall>faces' fx. measure_family render loads faces family = Inr (faces', fx) \<and> fx_anchorName fx = n \<longrightarrow>
        \<bar>rd_widthPx (fx_residual fx)\<bar> \<le> ms_prose anchor / 2000000 + w
      \<and> \<bar>rd_baselinePx (fx_residual fx)\<bar>
          \<le> (ds_ascentOverride (fx_descriptors fx) + ds_sizeAdjust (fx_descriptors fx) + 1) / 20000 + b
      \<and> \<bar>rd_lineBoxPx (fx_residual fx)\<bar>
          \<le> (ds_ascentOverride (fx_descriptors fx) + ds_descentOverride (fx_descriptors fx)
              + 2 * ds_sizeAdjust (fx_descriptors fx) + 1) / 20000 + b)"
proof -
  have fam': "family_unquoted family" using families_unquoted fam(1) by (simp add: list_all_iff)
  note result = measure_family_chooses
    [of w b installed def render family loads webfont fallback faces, OF law fam' fam(2) web stack]
  have laid: "laid_out installed def n = anchor" "first_installed installed (fam_localSrc family) = Some anchor"
    using first by (simp_all add: laid_out_def first_installed_def)
  have seen: "visible installed def n \<longleftrightarrow> \<bar>ms_prose anchor - ms_prose def\<bar> > 1 / 100"
    by (simp add: visible_def laid(1))
  show ?thesis
  proof (cases "chosen installed def family")
    case None
    then show ?thesis
      using result chosen_first_installed [OF first(1), of def] seen by auto
  next
    case (Some k)
    then obtain faces' fx v where fx: "measure_family render loads faces family = Inr (faces', fx)"
      "fx_anchorName fx = k" "fx_descriptors fx = descriptors_of webfont (laid_out installed def k)"
      "fx_residual fx = residual_of webfont fallback v"
      "near w b (adjusted_by (texts_of 4 (fx_descriptors fx)) anchor) v"
      using result laid(2) by auto
    have "fx_anchorName fx = n \<Longrightarrow>
        \<bar>rd_widthPx (fx_residual fx)\<bar> \<le> ms_prose anchor / 2000000 + w
      \<and> \<bar>rd_baselinePx (fx_residual fx)\<bar>
          \<le> (ds_ascentOverride (fx_descriptors fx) + ds_sizeAdjust (fx_descriptors fx) + 1) / 20000 + b
      \<and> \<bar>rd_lineBoxPx (fx_residual fx)\<bar>
          \<le> (ds_ascentOverride (fx_descriptors fx) + ds_descentOverride (fx_descriptors fx)
              + 2 * ds_sizeAdjust (fx_descriptors fx) + 1) / 20000 + b"
    proof -
      assume "fx_anchorName fx = n"
      then have d: "fx_descriptors fx = descriptors_of webfont anchor" using fx(2,3) laid(1) by simp
      show ?thesis
        using residual_near_web [OF pos box fx(5) [unfolded d], of fallback] unfolding fx(4) d by blast
    qed
    then show ?thesis
      using fx(1,2) Some chosen_first_installed [OF first(1), of def] seen by auto
  qed
qed

text \<open>
  A browser on three fonts: it follows the definition whatever is installed, and an adjusted text
  comes out \<open>off\<close> px wider than the exact scaling.
\<close>

definition sample_font :: "rat \<Rightarrow> measured" where
  "sample_font w = \<lparr>ms_prose = w, ms_alphabet = w / 2, ms_data = w / 4,
     ms_baselineFromTop = 100, ms_lineBoxHeight = 130\<rparr>"

fun sample_rule :: "rat \<Rightarrow> (string \<Rightarrow> measured option) \<Rightarrow> measured \<Rightarrow> css_face \<Rightarrow> measured" where
  "sample_rule off installed def (Web_face name f) = def"
| "sample_rule off installed def (Local_face name names None) =
     (case first_installed installed names of None \<Rightarrow> def | Some m \<Rightarrow> m)"
| "sample_rule off installed def (Local_face name names (Some t)) =
     (case first_installed installed names of None \<Rightarrow> def
      | Some m \<Rightarrow> (let v = adjusted_by t m in v\<lparr>ms_prose := ms_prose v + off\<rparr>))"

definition sample_browser ::
  "rat \<Rightarrow> (string \<Rightarrow> measured option) \<Rightarrow> measured \<Rightarrow> measured \<Rightarrow> measured \<Rightarrow> layout" where
  "sample_browser off installed def webfont fallback faces spec =
     Some (if spec = dquoted ABSENT then def
           else if starts_with [CHR 0x27] spec then sample_rule off installed def (last faces)
           else if starts_with [CHR 0x22] spec then webfont else fallback)"

lemma sample_follows:
  "css_fonts \<bar>off\<bar> 0 installed def (sample_browser off installed def webfont fallback)"
  by (simp add: css_fonts_def sample_browser_def first_installed_def near_def Let_def split: option.split)

lemma sample_answers:
  "f \<in> set FAMILIES \<Longrightarrow> sample_browser off installed def webfont fallback faces
     (dquoted (''__wo02_'' @ fam_id f)) = Some webfont"
  "f \<in> set FAMILIES \<Longrightarrow> sample_browser off installed def webfont fallback faces (fam_stack f) = Some fallback"
  by (auto simp: sample_browser_def FAMILIES_def ABSENT_def)

definition only_font :: "string \<Rightarrow> measured \<Rightarrow> string \<Rightarrow> measured option" where
  "only_font name m = (\<lambda>n. if n = name then Some m else None)"

abbreviation literata :: font_family where
  "literata \<equiv> FAMILIES ! 1"

lemma literata_family: "literata \<in> set FAMILIES"
  by (simp add: FAMILIES_def)

theorem adjusted_face_fits_witness:
  "\<exists>faces' fx. measure_family (sample_browser (- 6 / 100) (only_font ''Georgia'' (sample_font 5000)) (sample_font 4500)
      (sample_font 5500) (sample_font 5000)) (\<lambda>f. True) [] literata = Inr (faces', fx)
    \<and> fx_anchorName fx = ''Georgia'' \<and> \<bar>rd_widthPx (fx_residual fx)\<bar> \<le> 7 / 100"
proof -
  have first: "find (\<lambda>n. only_font ''Georgia'' (sample_font 5000) n \<noteq> None) (fam_localSrc literata)
      = Some ''Georgia''"
    by (simp add: FAMILIES_def only_font_def)
  have "only_font ''Georgia'' (sample_font 5000) ''Georgia'' = Some (sample_font 5000)"
    by (simp add: only_font_def)
  note fit = adjusted_face_fits [where faces = "[]" and loads = "\<lambda>f. True",
      OF sample_follows literata_family TrueI sample_answers(1) [OF literata_family]
        sample_answers(2) [OF literata_family] first this, of "sample_font 5500" "- 6 / 100" "sample_font 4500"
        "sample_font 5000"]
  have "\<bar>ms_prose (sample_font 5000) - ms_prose (sample_font 4500)\<bar> > 1 / 100"
    "0 < ms_prose (sample_font 5500)" "0 < ms_prose (sample_font 5000)"
    "0 \<le> ms_baselineFromTop (sample_font 5500)"
    "ms_baselineFromTop (sample_font 5500) \<le> ms_lineBoxHeight (sample_font 5500)"
    "ms_prose (sample_font 5000) / 2000000 + \<bar>- 6 / 100\<bar> \<le> 7 / 100"
    by (simp_all add: sample_font_def)
  with fit show ?thesis by (meson order_trans)
qed

text \<open>
  The only candidate that is installed is the platform's default: the page does not see it and the
  run ends, although the adjusted face would have resolved to it.
\<close>

lemma default_candidate_is_missed:
  "measure_family (sample_browser off (only_font ''Liberation Serif'' (sample_font 5000)) (sample_font 5000)
     (sample_font 5500) (sample_font 5000)) (\<lambda>f. True) [] literata = Inl (No_candidate ''report'')"
proof -
  have "chosen (only_font ''Liberation Serif'' (sample_font 5000)) (sample_font 5000) literata = None"
    by (simp add: chosen_def FAMILIES_def visible_def laid_out_def only_font_def)
  moreover have "fam_id literata = ''report''" by (simp add: FAMILIES_def)
  ultimately show ?thesis
    using measure_family_chooses [where installed = "only_font ''Liberation Serif'' (sample_font 5000)"
        and def = "sample_font 5000" and webfont = "sample_font 5500" and fallback = "sample_font 5000"
        and loads = "\<lambda>f. True" and faces = "[]", OF sample_follows _ TrueI
          sample_answers(1) [OF literata_family] sample_answers(2) [OF literata_family]]
      families_unquoted literata_family
    by (simp add: list_all_iff)
qed

text \<open>The rule that is printed rounds to two places, the rule that was measured to four: the reader
  of the report sees the residual of another face than the one the report hands out.\<close>

lemma printed_face_is_not_the_measured_one:
  assumes "0 < ms_prose anchor"
    and "percent_of (to_fixed 2 (ds_sizeAdjust d * 100)) \<noteq> percent_of (to_fixed 4 (ds_sizeAdjust d * 100))"
  shows "ms_prose (adjusted_by (texts_of 2 d) anchor) \<noteq> ms_prose (adjusted_by (texts_of 4 d) anchor)"
  using assms by (simp add: adjusted_by_def texts_of_def Let_def)

text \<open>
  The run that is recorded needs a tolerance: with the widths of its table, the residuals of -0.14,
  -0.06 and -0.87 px are not the rounding of the descriptors, whatever the browser's tolerance is
  said to be.
\<close>

lemma recorded_residual_needs_tolerance:
  assumes near: "near w b (adjusted_by (texts_of 4 (descriptors_of webfont anchor)) anchor) v"
    and pos: "0 < ms_prose webfont" "0 < ms_prose anchor"
    and box: "0 \<le> ms_baselineFromTop webfont" "ms_baselineFromTop webfont \<le> ms_lineBoxHeight webfont"
    and seen: "(ms_prose anchor, rd_widthPx (residual_of webfont fallback v))
      \<in> {(674492 / 100, - 14 / 100), (671758 / 100, - 6 / 100), (927158 / 100, - 87 / 100)}"
  shows "5 / 100 \<le> w"
proof -
  have "\<bar>rd_widthPx (residual_of webfont fallback v)\<bar> \<le> ms_prose anchor / 2000000 + w"
    using residual_near_web [OF pos box near] by blast
  then show ?thesis using seen by auto
qed

end
