(* ===== verification/Font_Session.thy ===== *)
theory Font_Session
  imports JS_Base Interfaces "HOL-Library.Multiset"
begin

text \<open>
  Driving Chrome in \<open>web/scripts/measure-fonts.mjs\<close>: the DevTools client (\<open>openSession\<close>) that
  pairs answers with requests by their number, and \<open>measureInBrowser\<close> over it, as a machine driven by
  what Chrome, the socket and the timers do, in any order. The calls before its \<open>try\<close> can throw, and
  so can the removal of the directory in \<open>cleanup\<close>; which of them do are parameters. A message is the parsed JSON of a frame;
  the URL of the endpoint is taken to be one that \<open>WebSocket\<close> accepts, and \<open>chrome --version\<close> is the
  parameter \<open>version\<close> (\<open>None\<close>: it fails). A child that cannot be started raises an \<open>error\<close> event nobody
  listens to, which ends the process where it stands.
\<close>

section \<open>The client\<close>

record devtools_message =
  dm_id :: "nat option"
  dm_error :: "(string \<times> string) option"
  dm_result :: "json option"

text \<open>\<open>'w\<close> is who awaits the answer; \<open>dt_sent\<close> is every request with its number.\<close>

record 'w devtools =
  dt_nextId :: nat
  dt_pending :: "(nat \<times> 'w) list"
  dt_sent :: "(nat \<times> 'w) list"

definition openSession :: "'w devtools" where
  "openSession = \<lparr>dt_nextId = 0, dt_pending = [], dt_sent = []\<rparr>"

definition devtools_send :: "'w \<Rightarrow> 'w devtools \<Rightarrow> 'w devtools" where
  "devtools_send w s =
     (let i = dt_nextId s + 1
      in s\<lparr>dt_nextId := i, dt_pending := dt_pending s @ [(i, w)], dt_sent := dt_sent s @ [(i, w)]\<rparr>)"

text \<open>The answer a message brings: the text of an error, or the \<open>result\<close> (\<open>None\<close>: \<open>undefined\<close>).\<close>

definition answer_of :: "devtools_message \<Rightarrow> string + json option" where
  "answer_of m =
     (case dm_error m of
        Some (message, code) \<Rightarrow> Inl (message @ '' ('' @ code @ '')'')
      | None \<Rightarrow> Inr (dm_result m))"

definition devtools_message_in ::
  "devtools_message \<Rightarrow> 'w devtools \<Rightarrow> 'w devtools \<times> ('w \<times> (string + json option)) option"
where
  "devtools_message_in m s =
     (case Option.bind (dm_id m) (map_of (dt_pending s)) of
        None \<Rightarrow> (s, None)
      | Some w \<Rightarrow>
          (s\<lparr>dt_pending := filter (\<lambda>(i, _). Some i \<noteq> dm_id m) (dt_pending s)\<rparr>, Some (w, answer_of m)))"

section \<open>The endpoint\<close>

definition LISTENING :: string where
  "LISTENING = ''DevTools listening on ''"

text \<open>\<open>/DevTools listening on (ws:\/\/\S+)/.exec(buffered)?.[1]\<close>: the leftmost match.\<close>

fun devtools_endpoint :: "string \<Rightarrow> string option" where
  "devtools_endpoint [] = None"
| "devtools_endpoint (c # cs) =
     (let rest = takeWhile (\<lambda>x. \<not> js_space x) (drop (length (LISTENING @ ''ws://'')) (c # cs))
      in if starts_with (LISTENING @ ''ws://'') (c # cs) \<and> rest \<noteq> [] then Some (''ws://'' @ rest)
         else devtools_endpoint cs)"

section \<open>The run\<close>

datatype ask = Create_target | Attach_target | Probe_harness | Run_harness

text \<open>
  The first five are thrown outside the \<open>try\<close>: no Chrome is found, \<open>mkdtempSync\<close>, the page
  (\<open>harnessHtml\<close> reads every font file, \<open>writeFileSync\<close> writes it), \<open>spawn\<close>, and \<open>rmSync\<close> in the
  outer \<open>finally\<close>, which replaces whatever the run was to end with.
\<close>

datatype browser_error =
    No_chrome | No_dir | No_page | No_spawn | Not_removed
  | No_endpoint | Exited_early int string | Cannot_connect string | Devtools_error string
  | Not_an_object | Harness_undefined | Harness_threw json | No_version

datatype chrome_phase =
    Announcing
  | Connecting string
  | Asking ask
  | Sleeping
  | Returned "json option" string
  | Threw browser_error
  | Crashed

datatype chrome_effect =
    Make_dir | Spawn_child | Open_socket | Close_socket | Kill_child | Remove_dir

record chrome_run =
  cr_phase :: chrome_phase
  cr_buffered :: string
  cr_client :: "ask devtools"
  cr_targetId :: "json option"
  cr_sessionId :: "json option"
  cr_deadline :: int
  cr_effects :: "chrome_effect list"

datatype chrome_event =
    Stderr_data string
  | Child_exit int
  | Child_error
  | Announce_timeout
  | Socket_open
  | Socket_error
  | Socket_close
  | Socket_message devtools_message int
  | Sleep_over

text \<open>
  \<open>findChrome\<close>: the first candidate that exists, an empty \<open>CHROME_PATH\<close> being none.
\<close>

definition CHROME_CANDIDATES :: "string option \<Rightarrow> string list" where
  "CHROME_CANDIDATES CHROME_PATH =
     filter (\<lambda>c. c \<noteq> [])
       [case CHROME_PATH of None \<Rightarrow> [] | Some c \<Rightarrow> c,
        ''/Applications/Google Chrome.app/Contents/MacOS/Google Chrome'',
        ''/Applications/Chromium.app/Contents/MacOS/Chromium'',
        ''/usr/bin/google-chrome'', ''/usr/bin/chromium'', ''/usr/bin/chromium-browser'']"

definition findChrome :: "(string \<Rightarrow> bool) \<Rightarrow> string option \<Rightarrow> string option" where
  "findChrome existsSync CHROME_PATH = List.find existsSync (CHROME_CANDIDATES CHROME_PATH)"

text \<open>
  The calls before the \<open>try\<close>, in their order: what is there of them, and whether each of the
  others returns. A throw there passes no \<open>finally\<close>.
\<close>

record machine =
  mc_existsSync :: "string \<Rightarrow> bool"
  mc_CHROME_PATH :: "string option"
  mc_mkdtempSync :: bool
  mc_harnessHtml :: bool
  mc_writeFileSync :: bool
  mc_spawn :: bool

definition run_at :: "chrome_phase \<Rightarrow> chrome_effect list \<Rightarrow> chrome_run" where
  "run_at p fx =
     \<lparr>cr_phase = p, cr_buffered = [], cr_client = openSession, cr_targetId = None,
      cr_sessionId = None, cr_deadline = 0, cr_effects = fx\<rparr>"

definition chrome_spawned :: chrome_run where
  "chrome_spawned = run_at Announcing [Make_dir, Spawn_child]"

definition measure_start :: "machine \<Rightarrow> chrome_run" where
  "measure_start m =
     (if findChrome (mc_existsSync m) (mc_CHROME_PATH m) = None then run_at (Threw No_chrome) []
      else if \<not> mc_mkdtempSync m then run_at (Threw No_dir) []
      else if \<not> mc_harnessHtml m \<or> \<not> mc_writeFileSync m then run_at (Threw No_page) [Make_dir]
      else if \<not> mc_spawn m then run_at (Threw No_spawn) [Make_dir]
      else chrome_spawned)"

text \<open>
  Leaving through the two \<open>finally\<close> blocks; before the session is open only the outer one runs.
  \<open>cleanup\<close> kills the child first; when \<open>rmSync\<close> throws (\<open>removable\<close> is \<open>False\<close>) its error is what
  the run ends with.
\<close>

definition cleanup :: "bool \<Rightarrow> chrome_phase \<Rightarrow> chrome_run \<Rightarrow> chrome_run" where
  "cleanup removable p r =
     (let killed = r\<lparr>cr_effects := cr_effects r @ [Kill_child]\<rparr>
      in if removable then killed\<lparr>cr_effects := cr_effects killed @ [Remove_dir], cr_phase := p\<rparr>
         else killed\<lparr>cr_phase := Threw Not_removed\<rparr>)"

definition leave_unopened :: "bool \<Rightarrow> browser_error \<Rightarrow> chrome_run \<Rightarrow> chrome_run" where
  "leave_unopened removable e r = cleanup removable (Threw e) r"

definition leave_session :: "bool \<Rightarrow> chrome_phase \<Rightarrow> chrome_run \<Rightarrow> chrome_run" where
  "leave_session removable p r =
     cleanup removable p (r\<lparr>cr_effects := cr_effects r @ [Close_socket]\<rparr>)"

definition ask :: "ask \<Rightarrow> chrome_run \<Rightarrow> chrome_run" where
  "ask a r = r\<lparr>cr_client := devtools_send a (cr_client r), cr_phase := Asking a\<rparr>"

definition member_of :: "json option \<Rightarrow> string \<Rightarrow> json option" where
  "member_of v k = Option.bind (Option.bind v as_record) (\<lambda>m. jprop m k)"

definition is_nullish :: "json option \<Rightarrow> bool" where
  "is_nullish v \<longleftrightarrow> v = None \<or> v = Some JNull"

fun truthy :: "json option \<Rightarrow> bool" where
  "truthy None = False"
| "truthy (Some JNull) = False"
| "truthy (Some (JBool b)) = b"
| "truthy (Some (JNum n)) = (n \<noteq> JInt 0)"
| "truthy (Some (JStr s)) = (s \<noteq> [])"
| "truthy (Some (JArr xs)) = True"
| "truthy (Some (JObj m)) = True"

text \<open>What the awaited answer leads to; \<open>now\<close> is the clock when it arrives.\<close>

fun on_result :: "bool \<Rightarrow> string option \<Rightarrow> int \<Rightarrow> ask \<Rightarrow> json option \<Rightarrow> chrome_run \<Rightarrow> chrome_run" where
  "on_result removable version now Create_target v r = ask Attach_target (r\<lparr>cr_targetId := member_of v ''targetId''\<rparr>)"
| "on_result removable version now Attach_target v r =
     ask Probe_harness (r\<lparr>cr_sessionId := member_of v ''sessionId'', cr_deadline := now + 30000\<rparr>)"
| "on_result removable version now Probe_harness v r =
     (if member_of (member_of v ''result'') ''value'' = Some (JStr ''function'') then ask Run_harness r
      else if now > cr_deadline r then leave_session removable (Threw Harness_undefined) r
      else r\<lparr>cr_phase := Sleeping\<rparr>)"
| "on_result removable version now Run_harness v r =
     (if truthy (member_of v ''exceptionDetails'')
      then leave_session removable (Threw (Harness_threw (the (member_of v ''exceptionDetails'')))) r
      else case version of
        None \<Rightarrow> leave_session removable (Threw No_version) r
      | Some text \<Rightarrow>
          if is_nullish (member_of v ''result'') then leave_session removable (Threw Not_an_object) r
          else leave_session removable (Returned (member_of (member_of v ''result'') ''value'') text) r)"

definition on_answer ::
  "bool \<Rightarrow> string option \<Rightarrow> int \<Rightarrow> ask \<Rightarrow> string + json option \<Rightarrow> chrome_run \<Rightarrow> chrome_run" where
  "on_answer removable version now a answer r =
     (case answer of
        Inl e \<Rightarrow> leave_session removable (Threw (Devtools_error e)) r
      | Inr v \<Rightarrow> if is_nullish v then leave_session removable (Threw Not_an_object) r
                 else on_result removable version now a v r)"

fun measureInBrowser :: "bool \<Rightarrow> string option \<Rightarrow> chrome_run \<Rightarrow> chrome_event \<Rightarrow> chrome_run" where
  "measureInBrowser removable version r (Stderr_data chunk) =
     (if cr_phase r = Announcing
      then let buffered = cr_buffered r @ chunk
           in (case devtools_endpoint buffered of
                 None \<Rightarrow> r\<lparr>cr_buffered := buffered\<rparr>
               | Some endpoint \<Rightarrow> r\<lparr>cr_buffered := buffered, cr_phase := Connecting endpoint\<rparr>)
      else r)"
| "measureInBrowser removable version r (Child_exit code) =
     (if cr_phase r = Announcing
      then leave_unopened removable (Exited_early code (take_last 500 (cr_buffered r))) r else r)"
| "measureInBrowser removable version r Child_error =
     (case cr_phase r of
        Returned v text \<Rightarrow> r | Threw e \<Rightarrow> r | _ \<Rightarrow> r\<lparr>cr_phase := Crashed\<rparr>)"
| "measureInBrowser removable version r Announce_timeout =
     (if cr_phase r = Announcing then leave_unopened removable No_endpoint r else r)"
| "measureInBrowser removable version r Socket_open =
     (case cr_phase r of Connecting endpoint \<Rightarrow>
          ask Create_target (r\<lparr>cr_effects := cr_effects r @ [Open_socket]\<rparr>) | _ \<Rightarrow> r)"
| "measureInBrowser removable version r Socket_error =
     (case cr_phase r of Connecting endpoint \<Rightarrow> leave_unopened removable (Cannot_connect endpoint) r | _ \<Rightarrow> r)"
| "measureInBrowser removable version r Socket_close = r"
| "measureInBrowser removable version r (Socket_message m now) =
     (case cr_phase r of
        Asking a \<Rightarrow>
          (case devtools_message_in m (cr_client r) of
             (client, None) \<Rightarrow> r
           | (client, Some (w, answer)) \<Rightarrow> on_answer removable version now w answer (r\<lparr>cr_client := client\<rparr>))
      | _ \<Rightarrow> r)"
| "measureInBrowser removable version r Sleep_over =
     (if cr_phase r = Sleeping then ask Probe_harness r else r)"

section \<open>Laws of the client\<close>

datatype 'w devtools_event = Dev_send 'w | Dev_message devtools_message

text \<open>The client with the log of the answers it delivered.\<close>

fun devtools_step ::
  "'w devtools \<times> (nat \<times> 'w) list \<Rightarrow> 'w devtools_event \<Rightarrow> 'w devtools \<times> (nat \<times> 'w) list"
where
  "devtools_step (s, log) (Dev_send w) = (devtools_send w s, log)"
| "devtools_step (s, log) (Dev_message m) =
     (case devtools_message_in m s of
        (s', None) \<Rightarrow> (s', log)
      | (s', Some (w, answer)) \<Rightarrow> (s', log @ [(the (dm_id m), w)]))"

text \<open>Every request is numbered anew, and awaits its answer or has had it once.\<close>

definition devtools_inv :: "'w devtools \<times> (nat \<times> 'w) list \<Rightarrow> bool" where
  "devtools_inv x \<longleftrightarrow>
     mset (dt_pending (fst x)) + mset (snd x) = mset (dt_sent (fst x))
   \<and> distinct (map fst (dt_sent (fst x))) \<and> (\<forall>i \<in> fst ` set (dt_sent (fst x)). i \<le> dt_nextId (fst x))"

lemma distinct_pending:
  assumes "devtools_inv (s, log)"
  shows "distinct (map fst (dt_pending s @ log))"
proof -
  have "mset (map fst (dt_pending s @ log)) = mset (map fst (dt_sent s))"
    using assms by (simp add: devtools_inv_def flip: image_mset_union mset_map)
      (metis mset_map image_mset_union)
  then show ?thesis using assms by (metis devtools_inv_def fst_conv mset_eq_imp_distinct_iff)
qed

lemma filter_out_one:
  "distinct (map fst xs) \<Longrightarrow> map_of xs i = Some w
     \<Longrightarrow> mset (filter (\<lambda>(j, _). Some j \<noteq> Some i) xs) + {#(i, w)#} = mset xs"
proof (induction xs)
  case (Cons x xs)
  show ?case
  proof (cases "fst x = i")
    case True
    then have "filter (\<lambda>(j, _). Some j \<noteq> Some i) xs = xs"
      using Cons.prems(1) by (auto simp: filter_id_conv image_iff)
    then show ?thesis using True Cons.prems by (cases x) auto
  qed (use Cons in \<open>cases x; auto\<close>)
qed simp

interpretation devtools: reducer devtools_step "(openSession, [])" "devtools_inv :: 'w devtools \<times> _ \<Rightarrow> bool"
proof
  show "devtools_inv (openSession :: 'w devtools, [])" by (simp add: devtools_inv_def openSession_def)
next
  fix x :: "'w devtools \<times> (nat \<times> 'w) list" and e
  assume inv: "devtools_inv x"
  obtain s log where x: "x = (s, log)" by (cases x)
  show "devtools_inv (devtools_step x e)"
  proof (cases e)
    case (Dev_send w)
    have "dt_nextId s + 1 \<notin> fst ` set (dt_sent s)" using inv x by (auto simp: devtools_inv_def)
    then show ?thesis
      using inv Dev_send x by (force simp: devtools_inv_def devtools_send_def Let_def)
  next
    case (Dev_message m)
    show ?thesis
    proof (cases "Option.bind (dm_id m) (map_of (dt_pending s))")
      case None
      then show ?thesis using inv Dev_message x by (simp add: devtools_message_in_def)
    next
      case (Some w)
      then obtain i where i: "dm_id m = Some i" "map_of (dt_pending s) i = Some w"
        by (cases "dm_id m") auto
      then show ?thesis
        using inv Dev_message x Some filter_out_one [of "dt_pending s" i w] distinct_pending [of s log]
        by (simp add: devtools_inv_def devtools_message_in_def)
          (metis (no_types, lifting) add_mset_add_single union_commute union_assoc)
    qed
  qed
qed

lemma each_request_is_answered_once:
  "distinct (map fst (dt_pending (fst (runs devtools_step (openSession, []) es))
      @ snd (runs devtools_step (openSession, []) es)))"
  using distinct_pending [of "fst (runs devtools_step (openSession, []) es)"
      "snd (runs devtools_step (openSession, []) es)"] devtools.inv_from_init [of es] by simp

section \<open>Laws of the run\<close>

text \<open>What is thrown before the session is open.\<close>

fun before_session :: "browser_error \<Rightarrow> bool" where
  "before_session No_endpoint = True"
| "before_session (Exited_early code text) = True"
| "before_session (Cannot_connect endpoint) = True"
| "before_session _ = False"

text \<open>What is thrown outside the \<open>try\<close>.\<close>

definition outside :: "browser_error list" where
  "outside = [No_chrome, No_dir, No_page, No_spawn, Not_removed]"

text \<open>The calls of a run that reached the end of \<open>cleanup\<close>, and of one whose \<open>rmSync\<close> threw.\<close>

definition RUN_ORDER :: "chrome_effect list" where
  "RUN_ORDER = [Make_dir, Spawn_child, Open_socket, Close_socket, Kill_child, Remove_dir]"

definition run_inv :: "bool \<Rightarrow> chrome_run \<Rightarrow> bool" where
  "run_inv removable r \<longleftrightarrow>
     (case cr_phase r of
        Asking a \<Rightarrow> cr_effects r = [Make_dir, Spawn_child, Open_socket]
            \<and> dt_pending (cr_client r) = [(dt_nextId (cr_client r), a)]
      | Sleeping \<Rightarrow> cr_effects r = [Make_dir, Spawn_child, Open_socket] \<and> dt_pending (cr_client r) = []
      | Returned v text \<Rightarrow> removable \<and> cr_effects r = RUN_ORDER
      | Threw e \<Rightarrow>
          if e = No_chrome \<or> e = No_dir then cr_effects r = []
          else if e = No_page \<or> e = No_spawn then cr_effects r = [Make_dir]
          else if e = Not_removed
          then \<not> removable
             \<and> (cr_effects r = [Make_dir, Spawn_child, Kill_child]
              \<or> cr_effects r = [Make_dir, Spawn_child, Open_socket, Close_socket, Kill_child])
          else removable
             \<and> cr_effects r = (if before_session e then [Make_dir, Spawn_child, Kill_child, Remove_dir]
                               else RUN_ORDER)
      | Crashed \<Rightarrow> cr_effects r = [Make_dir, Spawn_child]
             \<or> cr_effects r = [Make_dir, Spawn_child, Open_socket]
      | _ \<Rightarrow> cr_effects r = [Make_dir, Spawn_child] \<and> dt_pending (cr_client r) = [])"

lemmas run_defs = run_inv_def ask_def devtools_send_def leave_session_def leave_unopened_def cleanup_def
  outside_def RUN_ORDER_def

lemma ask_inv: "cr_effects r = [Make_dir, Spawn_child, Open_socket] \<Longrightarrow> dt_pending (cr_client r) = []
    \<Longrightarrow> run_inv removable (ask a r)"
  by (simp add: run_defs Let_def)

lemma leave_inv:
  "cr_effects r = [Make_dir, Spawn_child, Open_socket] \<Longrightarrow> \<not> before_session e \<Longrightarrow> e \<notin> set outside
     \<Longrightarrow> run_inv removable (leave_session removable (Threw e) r)"
  "cr_effects r = [Make_dir, Spawn_child, Open_socket]
     \<Longrightarrow> run_inv removable (leave_session removable (Returned v text) r)"
  "cr_effects r = [Make_dir, Spawn_child] \<Longrightarrow> before_session e
     \<Longrightarrow> run_inv removable (leave_unopened removable e r)"
  by (auto simp: run_defs Let_def)

lemma waiting_inv:
  "cr_effects r = [Make_dir, Spawn_child, Open_socket] \<Longrightarrow> dt_pending (cr_client r) = []
     \<Longrightarrow> run_inv removable (r\<lparr>cr_phase := Sleeping\<rparr>)"
  "cr_effects r = [Make_dir, Spawn_child] \<Longrightarrow> dt_pending (cr_client r) = [] \<Longrightarrow>
     run_inv removable (r\<lparr>cr_buffered := b, cr_phase := Connecting u\<rparr>)"
  by (simp_all add: run_inv_def)

lemmas run_invs = ask_inv leave_inv waiting_inv

lemma answer_inv:
  assumes "cr_effects r = [Make_dir, Spawn_child, Open_socket]" "dt_pending (cr_client r) = []"
  shows "run_inv removable (on_answer removable version now a answer r)"
proof (cases answer)
  case (Inr v)
  then show ?thesis
    using assms by (cases a; cases "is_nullish v")
      (auto simp: on_answer_def run_invs outside_def split: option.split)
qed (use assms in \<open>simp add: on_answer_def leave_inv outside_def\<close>)

text \<open>While one answer is awaited, the message that brings it empties the map.\<close>

lemma message_in_single:
  "dt_pending c = [(i, a)] \<Longrightarrow> devtools_message_in m c
     = (if dm_id m = Some i then (c\<lparr>dt_pending := []\<rparr>, Some (a, answer_of m)) else (c, None))"
  by (cases "dm_id m") (auto simp: devtools_message_in_def)

lemma inv_waiting:
  "run_inv removable r \<Longrightarrow> cr_phase r = Announcing \<or> (\<exists>u. cr_phase r = Connecting u)
     \<Longrightarrow> cr_effects r = [Make_dir, Spawn_child] \<and> dt_pending (cr_client r) = []"
  by (auto simp: run_inv_def)

lemma inv_sleeping:
  "run_inv removable r \<Longrightarrow> cr_phase r = Sleeping
     \<Longrightarrow> cr_effects r = [Make_dir, Spawn_child, Open_socket] \<and> dt_pending (cr_client r) = []"
  by (simp add: run_inv_def)

lemma inv_asking:
  "run_inv removable r \<Longrightarrow> cr_phase r = Asking a
     \<Longrightarrow> cr_effects r = [Make_dir, Spawn_child, Open_socket]
       \<and> dt_pending (cr_client r) = [(dt_nextId (cr_client r), a)]"
  by (simp add: run_inv_def)

lemma step_inv: "run_inv removable r \<Longrightarrow> run_inv removable (measureInBrowser removable version r e)"
proof (cases e)
  case (Socket_message m now)
  assume inv: "run_inv removable r"
  show ?thesis
  proof (cases "cr_phase r")
    case (Asking a)
    then show ?thesis
      using inv inv_asking [OF inv Asking] Socket_message by (simp add: message_in_single answer_inv)
  qed (use inv Socket_message in simp_all)
next
  case (Stderr_data chunk)
  assume inv: "run_inv removable r"
  then show ?thesis
    using inv_waiting [OF inv] Stderr_data
    by (simp add: run_invs Let_def split: option.split) (simp add: run_inv_def)
next
  case Child_error
  assume inv: "run_inv removable r"
  then show ?thesis using Child_error by (simp add: run_inv_def split: chrome_phase.splits)
next
  case Sleep_over
  assume inv: "run_inv removable r"
  then show ?thesis using inv_sleeping [OF inv] Sleep_over by (simp add: run_invs)
next
  case Socket_open
  assume inv: "run_inv removable r"
  then show ?thesis using inv_waiting [OF inv] Socket_open by (simp add: run_invs split: chrome_phase.split)
next
  case Socket_error
  assume inv: "run_inv removable r"
  then show ?thesis using inv_waiting [OF inv] Socket_error by (simp add: run_invs split: chrome_phase.split)
qed (use inv_waiting [of removable r] in \<open>simp_all add: run_invs\<close>)

interpretation chrome: reducer "measureInBrowser removable version" "measure_start m" "run_inv removable"
proof
  show "run_inv removable (measure_start m)"
    by (simp add: run_inv_def measure_start_def run_at_def chrome_spawned_def openSession_def)
qed (rule step_inv)

text \<open>What reaches the run only through a message of the socket.\<close>

fun silent :: "chrome_event \<Rightarrow> bool" where
  "silent (Socket_message m now) = False"
| "silent Child_error = False"
| "silent _ = True"

lemma silence_changes_nothing:
  "cr_phase r = Asking a \<Longrightarrow> list_all silent fs \<Longrightarrow> runs (measureInBrowser removable version) r fs = r"
proof (induction fs)
  case (Cons f fs)
  then have "measureInBrowser removable version r f = r" by (cases f) simp_all
  then show ?case using Cons by simp
qed simp

text \<open>What a run has left behind.\<close>

definition dir_left :: "chrome_run \<Rightarrow> bool" where
  "dir_left r \<longleftrightarrow> Make_dir \<in> set (cr_effects r) \<and> Remove_dir \<notin> set (cr_effects r)"

definition child_left :: "chrome_run \<Rightarrow> bool" where
  "child_left r \<longleftrightarrow> Spawn_child \<in> set (cr_effects r) \<and> Kill_child \<notin> set (cr_effects r)"

definition socket_left :: "chrome_run \<Rightarrow> bool" where
  "socket_left r \<longleftrightarrow> Open_socket \<in> set (cr_effects r) \<and> Close_socket \<notin> set (cr_effects r)"

fun settles :: "chrome_phase \<Rightarrow> bool" where
  "settles (Returned v text) = True"
| "settles (Threw e) = True"
| "settles _ = False"

lemmas left_defs = dir_left_def child_left_def socket_left_def RUN_ORDER_def

lemma run_leaves:
  assumes "run_inv removable r"
  shows "if settles (cr_phase r)
      then \<not> child_left r \<and> \<not> socket_left r
         \<and> (dir_left r \<longleftrightarrow> cr_phase r \<in> {Threw No_page, Threw No_spawn, Threw Not_removed})
      else child_left r \<and> dir_left r"
    and "cr_effects r = filter (\<lambda>x. x \<in> set (cr_effects r)) RUN_ORDER"
    and "if removable then cr_phase r \<noteq> Threw Not_removed
       else settles (cr_phase r) \<longrightarrow> cr_phase r \<in> {Threw No_chrome, Threw No_dir, Threw No_page,
         Threw No_spawn, Threw Not_removed}"
  using assms
  by (auto simp: run_inv_def left_defs split: chrome_phase.splits if_splits)

text \<open>
  C40. What a measurement leaves behind, whatever the calls before its \<open>try\<close> do and however Chrome,
  the socket and the timers behave. One that returns or throws leaves no child and no open socket,
  and it leaves its directory in exactly three cases: the page could not be built or written,
  \<open>spawn\<close> threw (both before the \<open>try\<close>), or \<open>rmSync\<close> itself threw, whose error then replaces the
  result of a run that had measured. One that has not settled, because it still waits or because the
  process died on the unhandled \<open>error\<close> event of the child, has cleaned up nothing: its child is not
  killed and its directory is there. Every call is made once and in the order of the code. And once
  a request is out, only a message moves the run: a child that exits or a connection that is lost
  leaves it waiting for good.
\<close>

theorem browser_run_leaves:
  "let r = runs (measureInBrowser removable version) (measure_start m) es in
     (if settles (cr_phase r)
      then \<not> child_left r \<and> \<not> socket_left r
         \<and> (dir_left r \<longleftrightarrow> cr_phase r \<in> {Threw No_page, Threw No_spawn, Threw Not_removed})
      else child_left r \<and> dir_left r)
    \<and> cr_effects r = filter (\<lambda>x. x \<in> set (cr_effects r)) RUN_ORDER
    \<and> (if removable then cr_phase r \<noteq> Threw Not_removed
       else settles (cr_phase r) \<longrightarrow> cr_phase r \<in> {Threw No_chrome, Threw No_dir, Threw No_page,
         Threw No_spawn, Threw Not_removed})
    \<and> (cr_phase r = Asking a \<longrightarrow> list_all silent fs \<longrightarrow> runs (measureInBrowser removable version) r fs = r)"
  using run_leaves [OF chrome.inv_from_init [of removable version m es]] silence_changes_nothing
  unfolding Let_def by blast

definition a_machine :: machine where
  "a_machine = \<lparr>mc_existsSync = (\<lambda>f. f = ''/usr/bin/chromium''), mc_CHROME_PATH = None,
     mc_mkdtempSync = True, mc_harnessHtml = True, mc_writeFileSync = True, mc_spawn = True\<rparr>"

lemma a_machine_starts: "measure_start a_machine = chrome_spawned"
  by (simp add: measure_start_def a_machine_def findChrome_def CHROME_CANDIDATES_def)

theorem browser_run_leaves_witness:
  "let run = runs (measureInBrowser True (Some ''146''));
       r = run (measure_start a_machine)
             [Stderr_data (LISTENING @ ''ws://127.0.0.1:9222/x ''), Socket_open]
   in run r [Child_exit 1, Socket_close, Socket_error, Announce_timeout] = r \<and> dir_left r \<and> socket_left r"
proof -
  let ?r = "runs (measureInBrowser True (Some ''146'')) (measure_start a_machine)
      [Stderr_data (LISTENING @ ''ws://127.0.0.1:9222/x ''), Socket_open]"
  have "cr_phase ?r = Asking Create_target" "socket_left ?r"
    by (simp_all add: a_machine_starts chrome_spawned_def run_at_def LISTENING_def js_space_def ask_def
        left_defs)
  then show ?thesis
    using browser_run_leaves [of True "Some ''146''" a_machine
        "[Stderr_data (LISTENING @ ''ws://127.0.0.1:9222/x ''), Socket_open]"
        Create_target "[Child_exit 1, Socket_close, Socket_error, Announce_timeout]"]
    unfolding Let_def by simp
qed

text \<open>A font file that cannot be read ends the run with its directory in place.\<close>

lemma unread_font_leaves_the_dir:
  "let r = runs (measureInBrowser True version) (measure_start (a_machine\<lparr>mc_harnessHtml := False\<rparr>)) es
   in cr_effects r = [Make_dir] \<and> cr_phase r = Threw No_page"
proof -
  have "runs (measureInBrowser True version) (run_at (Threw No_page) [Make_dir]) es
      = run_at (Threw No_page) [Make_dir]"
  proof (induction es)
    case (Cons e es)
    have "measureInBrowser True version (run_at (Threw No_page) [Make_dir]) e
        = run_at (Threw No_page) [Make_dir]"
      by (cases e) (simp_all add: run_at_def)
    then show ?case using Cons by simp
  qed simp
  then show ?thesis
    by (simp add: measure_start_def a_machine_def findChrome_def CHROME_CANDIDATES_def run_at_def)
qed

section \<open>The endpoint and the polling\<close>

lemma endpoint_found:
  "u \<noteq> [] \<Longrightarrow> list_all (\<lambda>c. \<not> js_space c) u \<Longrightarrow>
     devtools_endpoint (LISTENING @ ''ws://'' @ u) = Some (''ws://'' @ u)"
  by (cases u) (simp_all add: LISTENING_def list_all_iff Let_def)

text \<open>The line is cut wherever a chunk of the pipe ends: the endpoint is what had arrived by then.\<close>

lemma endpoint_is_cut:
  assumes "u \<noteq> []" "list_all (\<lambda>c. \<not> js_space c) u"
  shows "cr_phase (runs (measureInBrowser removable version) chrome_spawned
      [Stderr_data (LISTENING @ ''ws://'' @ u), Stderr_data rest]) = Connecting (''ws://'' @ u)"
  using endpoint_found [OF assms] by (simp add: chrome_spawned_def run_at_def del: devtools_endpoint.simps)

text \<open>A harness that is not there when the deadline has passed ends the run, and before it the run
  sleeps and asks again.\<close>

lemma polling:
  assumes "cr_phase r = Asking Probe_harness" "dt_pending (cr_client r) = [(i, Probe_harness)]"
    and "dm_id m = Some i" "dm_error m = None" "\<not> is_nullish (dm_result m)"
    and "member_of (member_of (dm_result m) ''result'') ''value'' \<noteq> Some (JStr ''function'')"
  shows "cr_phase (measureInBrowser removable version r (Socket_message m now))
    = (if now > cr_deadline r then if removable then Threw Harness_undefined else Threw Not_removed else Sleeping)"
  using assms by (simp add: message_in_single on_answer_def answer_of_def leave_session_def cleanup_def)

text \<open>The conversation of a run that measures.\<close>

definition reply :: "nat \<Rightarrow> (string \<times> json) list \<Rightarrow> chrome_event" where
  "reply i m = Socket_message \<lparr>dm_id = Some i, dm_error = None, dm_result = Some (JObj m)\<rparr> 0"

lemma a_run_that_measures:
  "cr_phase (runs (measureInBrowser True (Some version)) chrome_spawned
     [Stderr_data (LISTENING @ ''ws://h/x''), Socket_open, reply 1 [(''targetId'', JStr ''T'')],
      reply 2 [(''sessionId'', JStr ''S'')],
      reply 3 [(''result'', JObj [(''value'', JStr ''undefined'')])], Sleep_over,
      reply 4 [(''result'', JObj [(''value'', JStr ''function'')])],
      reply 5 [(''result'', JObj [(''value'', v)])]]) = Returned (Some v) version"
  by (simp add: chrome_spawned_def run_at_def openSession_def LISTENING_def js_space_def run_defs reply_def Let_def
    devtools_message_in_def on_answer_def answer_of_def is_nullish_def member_of_def)

end
