(* ===== verification/Font_Laws.thy ===== *)
theory Font_Laws
  imports Font_Metrics
begin

unbundle bit_operations_syntax

text \<open>
  Laws of the font report. The woff2 directory has a reference encoder here, written from the format
  and not from the reader: base-128 numbers without leading zeros, a tag by its index when it has
  one. The reader reads back what it writes; the totals, the exit status and the bounds of what any
  file can make the reader answer follow.
\<close>

section \<open>Bytes\<close>

definition digit_byte :: "nat \<Rightarrow> byte" where
  "digit_byte d = of_nat d"

definition more_byte :: "nat \<Rightarrow> byte" where
  "more_byte d = of_nat (d + 128)"

lemma digit_bytes:
  assumes "d < 128"
  shows "unat (digit_byte d AND 0x7F) = d" "digit_byte d AND 0x80 = 0"
    "unat (more_byte d AND 0x7F) = d" "more_byte d AND 0x80 \<noteq> 0"
proof -
  have "list_all (\<lambda>d. unat (digit_byte d AND 0x7F) = d \<and> digit_byte d AND 0x80 = 0
      \<and> unat (more_byte d AND 0x7F) = d \<and> more_byte d AND 0x80 \<noteq> 0) [0..<128]"
    by code_simp
  then show "unat (digit_byte d AND 0x7F) = d" "digit_byte d AND 0x80 = 0"
    "unat (more_byte d AND 0x7F) = d" "more_byte d AND 0x80 \<noteq> 0"
    using assms by (simp_all add: list_all_iff)
qed

definition flags_byte :: "nat \<Rightarrow> nat \<Rightarrow> byte" where
  "flags_byte index transform = of_nat (index + 64 * transform)"

lemma flags_bytes:
  assumes "i < 64" "t < 4"
  shows "flags_byte i t AND 0x3F = of_nat i" "drop_bit 6 (flags_byte i t) AND 0x03 = of_nat t"
    "(of_nat i = (0x3F :: byte)) = (i = 63)" "unat (of_nat i :: byte) = i"
proof -
  have "list_all (\<lambda>i. list_all (\<lambda>t. flags_byte i t AND 0x3F = of_nat i
      \<and> drop_bit 6 (flags_byte i t) AND 0x03 = of_nat t) [0..<4]) [0..<64]"
    by code_simp
  then show "flags_byte i t AND 0x3F = of_nat i" "drop_bit 6 (flags_byte i t) AND 0x03 = of_nat t"
    using assms by (simp_all add: list_all_iff)
  show "unat (of_nat i :: byte) = i" using assms by (simp add: unat_of_nat)
  have "list_all (\<lambda>i. (of_nat i = (0x3F :: byte)) = (i = 63)) [0..<64]" by code_simp
  then show "(of_nat i = (0x3F :: byte)) = (i = 63)" using assms by (simp add: list_all_iff)
qed

lemma transform_zero:
  assumes "t < 4"
  shows "(of_nat t = (0 :: byte)) = (t = 0)"
proof -
  have "list_all (\<lambda>t. (of_nat t = (0 :: byte)) = (t = 0)) [0..<4]" by code_simp
  then show ?thesis using assms by (simp add: list_all_iff)
qed

lemma byte_at_drop: "drop i buf = b # bs \<Longrightarrow> byte_at buf i = b \<and> drop (Suc i) buf = bs"
  by (cases "i < length buf") (auto simp: byte_at_def Cons_nth_drop_Suc [symmetric])

section \<open>Numbers\<close>

fun b128_digits :: "nat \<Rightarrow> nat list" where
  "b128_digits n = (if n < 128 then [n] else b128_digits (n div 128) @ [n mod 128])"

declare b128_digits.simps [simp del]

definition encode128 :: "nat \<Rightarrow> byte list" where
  "encode128 n = map more_byte (butlast (b128_digits n)) @ [digit_byte (last (b128_digits n))]"

lemma b128_digits_value: "foldl (\<lambda>v d. v * 128 + d) 0 (b128_digits n) = n"
proof (induction n rule: b128_digits.induct)
  case (1 n)
  show ?case
  proof (cases "n < 128")
    case False
    then have "foldl (\<lambda>v d. v * 128 + d) 0 (b128_digits n) = n div 128 * 128 + n mod 128"
      using 1 by (subst b128_digits.simps) simp
    then show ?thesis by simp
  qed (subst b128_digits.simps, simp)
qed

lemma b128_digits_small: "list_all (\<lambda>d. d < 128) (b128_digits n)"
  by (induction n rule: b128_digits.induct) (subst b128_digits.simps, simp)

lemma b128_digits_length: "n < 128 ^ Suc k \<Longrightarrow> length (b128_digits n) \<le> Suc k \<and> b128_digits n \<noteq> []"
proof (induction k arbitrary: n)
  case (Suc k)
  show ?case
  proof (cases "n < 128")
    case False
    have "n div 128 < 128 ^ Suc k"
      using Suc.prems by (simp add: less_mult_imp_div_less mult.commute)
    then show ?thesis using Suc.IH False by (subst (1 2) b128_digits.simps) simp
  qed (subst (1 2) b128_digits.simps, simp)
qed (simp add: b128_digits.simps)

lemma base128_reads:
  assumes "list_all (\<lambda>d. d < 128) ds" "d < 128" "length ds < k"
    "drop at buf = map more_byte ds @ digit_byte d # rest"
  shows "base128_loop k buf at v
    = Inr (foldl (\<lambda>v d. v * 128 + d) v (ds @ [d]), at + length ds + 1)"
  using assms
proof (induction ds arbitrary: k at v)
  case Nil
  then obtain k' where "k = Suc k'" by (cases k) auto
  then show ?case using Nil byte_at_drop [of at buf "digit_byte d" rest] by (simp add: digit_bytes Let_def)
next
  case (Cons c ds)
  then obtain k' where k: "k = Suc k'" by (cases k) auto
  have at: "byte_at buf at = more_byte c" "drop (Suc at) buf = map more_byte ds @ digit_byte d # rest"
    using Cons.prems(4) byte_at_drop [of at buf "more_byte c"] by simp_all
  then show ?case
    using Cons.IH [of k' "Suc at" "v * 128 + c"] Cons.prems k at by (simp add: digit_bytes Let_def)
qed

lemma readBase128_encode:
  assumes "n < 2 ^ 35" "drop at buf = encode128 n @ rest"
  shows "readBase128 buf at = Inr (n, at + length (encode128 n))"
    and "drop (at + length (encode128 n)) buf = rest"
proof -
  have len: "length (b128_digits n) \<le> 5" "b128_digits n \<noteq> []"
    using b128_digits_length [of n 4] assms(1) by simp_all
  then have split: "b128_digits n = butlast (b128_digits n) @ [last (b128_digits n)]" by simp
  have small: "list_all (\<lambda>d. d < 128) (butlast (b128_digits n))" "last (b128_digits n) < 128"
    using b128_digits_small [of n] by (subst (asm) split, simp)+
  have "readBase128 buf at = Inr (foldl (\<lambda>v d. v * 128 + d) 0 (b128_digits n),
      at + length (butlast (b128_digits n)) + 1)"
    unfolding readBase128_def
    using base128_reads [OF small, of 5 at buf rest 0] len assms(2)
    by (simp add: encode128_def)
  then show "readBase128 buf at = Inr (n, at + length (encode128 n))"
    by (simp add: b128_digits_value encode128_def)
  show "drop (at + length (encode128 n)) buf = rest"
    using assms(2) by (metis add.commute append_eq_conv_conj drop_drop)
qed

lemma base128_bounds:
  "base128_loop k buf at v = Inr (n, j) \<Longrightarrow>
    at < j \<and> j \<le> at + k \<and> n < (v + 1) * 128 ^ (j - at)"
proof (induction k arbitrary: at v)
  case (Suc k)
  let ?b = "unat (byte_at buf at AND 0x7F)"
  have "byte_at buf at AND 0x7F \<le> 0x7F" by (rule word_and_le1)
  then have "?b \<le> unat (0x7F :: byte)" by (simp only: word_le_nat_alt)
  then have b: "?b < 128" by simp
  show ?case
  proof (cases "byte_at buf at AND 0x80 = 0")
    case True
    then show ?thesis using Suc.prems b by (auto simp: Let_def)
  next
    case False
    then have ih: "Suc at < j \<and> j \<le> Suc at + k \<and> n < (v * 128 + ?b + 1) * 128 ^ (j - Suc at)"
      using Suc.IH [of "Suc at" "v * 128 + ?b"] Suc.prems by (simp add: Let_def)
    have "(v * 128 + ?b + 1) * 128 ^ (j - Suc at) \<le> ((v + 1) * 128) * 128 ^ (j - Suc at)"
      using b by (intro mult_le_mono1) simp
    also have "\<dots> = (v + 1) * 128 ^ Suc (j - Suc at)" by (simp add: algebra_simps)
    also have "Suc (j - Suc at) = j - at" using ih by linarith
    finally show ?thesis using ih by simp
  qed
qed simp

section \<open>The directory\<close>

record woff2_table =
  wt_tag :: string
  wt_transform :: nat
  wt_origLength :: nat
  wt_data :: "byte list"

text \<open>The null transform of \<open>glyf\<close> and \<open>loca\<close> is version 3, that of every other table version 0.\<close>

definition is_transformed :: "woff2_table \<Rightarrow> bool" where
  "is_transformed t \<longleftrightarrow>
     wt_transform t \<noteq> (if wt_tag t \<in> {''glyf'', ''loca''} then 3 else 0)"

text \<open>A table of the format: a tag of four characters, a version of its transform that is in use, its
  lengths within the numbers the format can carry, and \<open>head\<close> and \<open>hhea\<close> long enough to hold the values read from them.\<close>

definition table_ok :: "woff2_table \<Rightarrow> bool" where
  "table_ok t \<longleftrightarrow>
     length (wt_tag t) = 4 \<and> wt_origLength t < 2 ^ 35
   \<and> (if wt_tag t \<in> {''glyf'', ''loca''} then wt_transform t \<in> {0, 3} else wt_transform t < 4)
   \<and> length (wt_data t) < 2 ^ 35
   \<and> (is_transformed t \<or> wt_origLength t = length (wt_data t))
   \<and> (if wt_tag t = ''head'' then 20 \<le> length (wt_data t)
      else if wt_tag t = ''hhea'' then 10 \<le> length (wt_data t) else True)"

definition tag_index :: "string \<Rightarrow> nat" where
  "tag_index tag = length (takeWhile (\<lambda>x. x \<noteq> tag) KNOWN_TAGS)"

definition tag_bytes :: "string \<Rightarrow> byte list" where
  "tag_bytes tag = map (\<lambda>c. of_nat (of_char c)) tag"

definition encode_entry :: "woff2_table \<Rightarrow> byte list" where
  "encode_entry t =
     flags_byte (tag_index (wt_tag t)) (wt_transform t)
       # (if wt_tag t \<in> set KNOWN_TAGS then [] else tag_bytes (wt_tag t))
       @ encode128 (wt_origLength t)
       @ (if is_transformed t then encode128 (length (wt_data t)) else [])"

lemma takeWhile_finds: "x \<in> set xs \<Longrightarrow> length (takeWhile (\<lambda>y. y \<noteq> x) xs) < length xs"
  by (induction xs) auto

lemma tag_index_known: "tag \<in> set KNOWN_TAGS \<Longrightarrow> tag_index tag < 63 \<and> KNOWN_TAGS ! tag_index tag = tag"
proof -
  assume tag: "tag \<in> set KNOWN_TAGS"
  then have less: "tag_index tag < length KNOWN_TAGS"
    unfolding tag_index_def by (rule takeWhile_finds)
  then have "KNOWN_TAGS ! tag_index tag = tag"
    unfolding tag_index_def using nth_length_takeWhile by blast
  then show ?thesis using less by (simp add: KNOWN_TAGS_def)
qed

lemma tag_index_unknown: "tag \<notin> set KNOWN_TAGS \<Longrightarrow> tag_index tag = 63"
proof -
  assume "tag \<notin> set KNOWN_TAGS"
  then have "takeWhile (\<lambda>x. x \<noteq> tag) KNOWN_TAGS = KNOWN_TAGS" by (intro takeWhile_eq_all_conv [THEN iffD2]) auto
  then show ?thesis by (simp add: tag_index_def KNOWN_TAGS_def)
qed

lemma latin1_tag: "length tag = 4 \<Longrightarrow> drop i buf = tag_bytes tag @ rest \<Longrightarrow> latin1 buf i (i + 4) = tag"
proof -
  assume a: "length tag = 4" "drop i buf = tag_bytes tag @ rest"
  have "char_of (unat (of_nat (of_char c) :: byte)) = c" for c :: char
    by (simp add: unat_of_nat)
  then show ?thesis using a by (simp add: latin1_def tag_bytes_def map_idI)
qed

lemma transformed_agrees:
  "table_ok t \<Longrightarrow> wt_transform t < 4
    \<and> table_transformed (wt_tag t) (of_nat (wt_transform t)) = is_transformed t"
  using transform_zero [of "wt_transform t"]
  by (auto simp: table_ok_def is_transformed_def table_transformed_def split: if_splits)

lemma read_entry_encode:
  assumes "table_ok t" "drop at buf = encode_entry t @ rest"
  shows "read_entry buf at
      = Inr ((wt_tag t, length (wt_data t)), at + length (encode_entry t))
    \<and> drop (at + length (encode_entry t)) buf = rest"
proof -
  let ?i = "tag_index (wt_tag t)" and ?k = "wt_tag t \<in> set KNOWN_TAGS"
  let ?tail = "encode128 (wt_origLength t)
      @ (if is_transformed t then encode128 (length (wt_data t)) else []) @ rest"
  have i: "?i < 64" "(?i = 63) = (\<not> ?k)"
    using tag_index_known [of "wt_tag t"] tag_index_unknown [of "wt_tag t"] by (cases ?k; simp)+
  have ok: "length (wt_tag t) = 4" "wt_transform t < 4" "wt_origLength t < 2 ^ 35"
      "length (wt_data t) < 2 ^ 35" "\<not> is_transformed t \<Longrightarrow> wt_origLength t = length (wt_data t)"
    using assms(1) transformed_agrees [OF assms(1)] by (simp_all add: table_ok_def)
  note agrees = transformed_agrees [OF assms(1), THEN conjunct2]
  have flags: "byte_at buf at = flags_byte ?i (wt_transform t)"
      "drop (Suc at) buf = (if ?k then [] else tag_bytes (wt_tag t)) @ ?tail"
    using byte_at_drop [of at buf] assms(2) by (simp_all add: encode_entry_def)
  define at1 where "at1 = (if ?k then at + 1 else at + 5)"
  have tag: "(if byte_at buf at AND 0x3F = 0x3F then (latin1 buf (at + 1) (at + 5), at + 5)
      else (KNOWN_TAGS ! unat (byte_at buf at AND 0x3F), at + 1)) = (wt_tag t, at1)"
    using flags i ok(1,2) tag_index_known [of "wt_tag t"]
      latin1_tag [of "wt_tag t" "Suc at" buf ?tail]
    by (auto simp: flags_bytes at1_def add.commute)
  have len: "length (if ?k then [] else tag_bytes (wt_tag t)) = at1 - Suc at" "Suc at \<le> at1"
    using ok(1) by (simp_all add: at1_def tag_bytes_def)
  have "drop at1 buf = drop (at1 - Suc at) (drop (Suc at) buf)" using len(2) by simp
  then have rest1: "drop at1 buf = ?tail" using flags(2) len(1) by simp
  define at2 where "at2 = at1 + length (encode128 (wt_origLength t))"
  note first = readBase128_encode [OF ok(3) rest1, folded at2_def]
  have at1: "at1 = at + 1 + length (if ?k then [] else tag_bytes (wt_tag t))"
    using len by simp
  have total: "at + length (encode_entry t)
      = at2 + length (if is_transformed t then encode128 (length (wt_data t)) else [])"
    by (simp add: encode_entry_def at1 at2_def)
  have transform: "drop_bit 6 (byte_at buf at) AND 0x03 = of_nat (wt_transform t)"
    using flags(1) i ok(2) by (simp add: flags_bytes)
  have entry: "read_entry buf at =
      (if is_transformed t
       then (case readBase128 buf at2 of
               Inl e \<Rightarrow> Inl e
             | Inr (tableLength, at3) \<Rightarrow> Inr ((wt_tag t, tableLength), at3))
       else Inr ((wt_tag t, wt_origLength t), at2))"
    unfolding read_entry_def Let_def tag transform prod.case first(1) sum.case agrees ..
  show ?thesis
  proof (cases "is_transformed t")
    case True
    then have "drop at2 buf = encode128 (length (wt_data t)) @ rest"
      using first(2) by simp
    from readBase128_encode [OF ok(4) this] True show ?thesis
      unfolding entry total by simp
  next
    case False
    then show ?thesis using first(2) ok(5) unfolding entry total by simp
  qed
qed

lemma read_directory_encode:
  assumes "list_all table_ok ts" "drop at buf = concat (map encode_entry ts) @ rest"
  shows "read_directory (length ts) buf at
      = Inr (map (\<lambda>t. (wt_tag t, length (wt_data t))) ts, at + length (concat (map encode_entry ts)))
    \<and> drop (at + length (concat (map encode_entry ts))) buf = rest"
  using assms
proof (induction ts arbitrary: at)
  case (Cons t ts)
  have e: "read_entry buf at
      = Inr ((wt_tag t, length (wt_data t)), at + length (encode_entry t))"
      "drop (at + length (encode_entry t)) buf = concat (map encode_entry ts) @ rest"
    using read_entry_encode [of t at buf "concat (map encode_entry ts) @ rest"] Cons.prems by simp_all
  then show ?case
    using Cons.IH [OF _ e(2)] Cons.prems(1) by (simp add: add.assoc)
qed simp

lemma offsets_after:
  "snd (foldl (\<lambda>(offsets, cursor) (tag, n). (offsets(tag \<mapsto> cursor), cursor + n)) (m, c) d)
     = c + sum_list (map snd d)"
  "tag \<notin> fst ` set d \<Longrightarrow>
    fst (foldl (\<lambda>(offsets, cursor) (tag, n). (offsets(tag \<mapsto> cursor), cursor + n)) (m, c) d) tag = m tag"
  by (induction d arbitrary: m c) (auto simp: case_prod_beta add.assoc)

lemma offsets_at:
  assumes "tag \<notin> fst ` set post"
  shows "table_offsets (pre @ (tag, n) # post) tag = Some (sum_list (map snd pre))"
proof -
  let ?place = "foldl (\<lambda>(offsets, cursor) (tag, n). (offsets(tag \<mapsto> cursor), cursor + n))"
  have "?place (Map.empty, 0) pre = (fst (?place (Map.empty, 0) pre), sum_list (map snd pre))"
    by (simp add: prod_eq_iff offsets_after(1))
  then obtain m where m: "?place (Map.empty, 0) pre = (m, sum_list (map snd pre))" ..
  have "table_offsets (pre @ (tag, n) # post) tag
      = fst (?place (m(tag \<mapsto> sum_list (map snd pre)), sum_list (map snd pre) + n) post) tag"
    unfolding table_offsets_def foldl_append foldl_Cons m by simp
  then show ?thesis by (simp add: offsets_after(2) [OF assms])
qed

lemma offsets_absent: "tag \<notin> fst ` set d \<Longrightarrow> table_offsets d tag = None"
  using offsets_after(2) [of tag d Map.empty 0] by (simp add: table_offsets_def)

section \<open>The values\<close>

lemma reads_inside:
  assumes "k + 2 \<le> length data"
  shows "readUInt16BE (pre @ data @ post) (length pre + k) = readUInt16BE data k"
    "readInt16BE (pre @ data @ post) (length pre + k) = readInt16BE data k"
    "\<exists>n. readUInt16BE data k = Inr n" "\<exists>n. readInt16BE data k = Inr n"
proof -
  have "(pre @ data @ post) ! (length pre + j) = data ! j" if "j < length data" for j
    using that by (simp add: nth_append)
  from this [of k] this [of "k + 1"] show
    "readUInt16BE (pre @ data @ post) (length pre + k) = readUInt16BE data k"
    "readInt16BE (pre @ data @ post) (length pre + k) = readInt16BE data k"
    using assms by (simp_all add: readUInt16BE_def readInt16BE_def add.assoc)
qed (use assms in \<open>simp_all add: readUInt16BE_def readInt16BE_def\<close>)

text \<open>The four values as the two tables themselves hold them.\<close>

definition own_metrics :: "byte list \<Rightarrow> byte list \<Rightarrow> font_error + font_metrics" where
  "own_metrics head hhea =
     (case (readUInt16BE head 18, readInt16BE hhea 4, readInt16BE hhea 6, readInt16BE hhea 8) of
        (Inr em, Inr asc, Inr desc, Inr gap) \<Rightarrow>
          Inr \<lparr>fm_unitsPerEm = em, fm_ascender = asc, fm_descender = desc, fm_lineGap = gap\<rparr>
      | _ \<Rightarrow> Inl Out_of_range)"

lemma table_found:
  assumes "distinct (map wt_tag ts)" "t \<in> set ts"
  obtains pre post where "ts = pre @ t # post"
    "table_offsets (map (\<lambda>t. (wt_tag t, length (wt_data t))) ts) (wt_tag t)
       = Some (length (concat (map wt_data pre)))"
    "concat (map wt_data ts) = concat (map wt_data pre) @ wt_data t @ concat (map wt_data post)"
proof -
  obtain pre post where ts: "ts = pre @ t # post" using assms(2) by (meson split_list)
  have "wt_tag t \<notin> fst ` set (map (\<lambda>t. (wt_tag t, length (wt_data t))) post)"
    using assms(1) by (auto simp: ts)
  from offsets_at [OF this, of "map (\<lambda>t. (wt_tag t, length (wt_data t))) pre" "length (wt_data t)"]
  show thesis using that [OF ts] by (simp add: ts length_concat comp_def)
qed

lemma metrics_found:
  assumes "list_all table_ok ts" "distinct (map wt_tag ts)"
    "find (\<lambda>t. wt_tag t = ''head'') ts = Some h" "find (\<lambda>t. wt_tag t = ''hhea'') ts = Some g"
  shows "\<exists>i j. table_offsets (map (\<lambda>t. (wt_tag t, length (wt_data t))) ts) ''head'' = Some i
    \<and> table_offsets (map (\<lambda>t. (wt_tag t, length (wt_data t))) ts) ''hhea'' = Some j
    \<and> metrics_at (concat (map wt_data ts)) i j = own_metrics (wt_data h) (wt_data g)"
proof -
  let ?d = "map (\<lambda>t. (wt_tag t, length (wt_data t))) ts"
  have h: "h \<in> set ts" "wt_tag h = ''head''" and g: "g \<in> set ts" "wt_tag g = ''hhea''"
    using assms(3,4) by (auto simp: find_Some_iff)
  have sizes: "20 \<le> length (wt_data h)" "10 \<le> length (wt_data g)"
    using assms(1) h g by (simp_all add: list_all_iff table_ok_def)
  obtain pre post :: "woff2_table list" where hp: "table_offsets ?d ''head'' = Some (length (concat (map wt_data pre)))"
      "concat (map wt_data ts) = concat (map wt_data pre) @ wt_data h @ concat (map wt_data post)"
    by (rule table_found [OF assms(2) h(1), unfolded h(2)])
  obtain pre' post' :: "woff2_table list" where gp: "table_offsets ?d ''hhea'' = Some (length (concat (map wt_data pre')))"
      "concat (map wt_data ts) = concat (map wt_data pre') @ wt_data g @ concat (map wt_data post')"
    by (rule table_found [OF assms(2) g(1), unfolded g(2)])
  have "readUInt16BE (concat (map wt_data ts)) (length (concat (map wt_data pre)) + 18)
      = readUInt16BE (wt_data h) 18"
    unfolding hp(2) using sizes(1) by (intro reads_inside) simp
  moreover have at: "readInt16BE (concat (map wt_data ts)) (length (concat (map wt_data pre')) + k)
      = readInt16BE (wt_data g) k" if "k + 2 \<le> 10" for k
    unfolding gp(2) using sizes(2) that by (intro reads_inside) simp
  ultimately show ?thesis
    using at [of 4] at [of 6] at [of 8]
    by (simp add: hp(1) gp(1) metrics_at_def own_metrics_def cong: sum.case_cong)
qed

text \<open>
  C37. The reader reads back what the format writes: of a file that holds \<open>ts\<close>, its tables one behind
  the other in the decoded stream and their entries encoded by the reference encoder, it answers
  the values the \<open>head\<close> and \<open>hhea\<close> tables hold themselves, whatever the tags, transforms and
  lengths of the tables before, between and after them, and refuses it exactly when one of the two
  is missing.
\<close>

theorem woff2_reads_back:
  assumes "length header = 48" "latin1 header 0 4 = ''wOF2''"
    "readUInt16BE header 12 = Inr (int (length ts))"
    "list_all table_ok ts" "distinct (map wt_tag ts)"
    "brotli body = Some (concat (map wt_data ts))"
  shows "readWoff2Metrics brotli (header @ concat (map encode_entry ts) @ body) =
    (case (find (\<lambda>t. wt_tag t = ''head'') ts, find (\<lambda>t. wt_tag t = ''hhea'') ts) of
       (Some head, Some hhea) \<Rightarrow> own_metrics (wt_data head) (wt_data hhea)
     | _ \<Rightarrow> Inl No_head_hhea)"
proof -
  let ?buf = "header @ concat (map encode_entry ts) @ body"
  let ?d = "map (\<lambda>t. (wt_tag t, length (wt_data t))) ts"
  have sig: "latin1 ?buf 0 4 = ''wOF2''" "readUInt16BE ?buf 12 = Inr (int (length ts))"
    using assms(1,2,3) by (simp_all add: latin1_def readUInt16BE_def nth_append)
  have "drop 48 ?buf = concat (map encode_entry ts) @ body" using assms(1) by simp
  note dir = read_directory_encode [OF assms(4) this]
  have read: "readWoff2Metrics brotli ?buf =
      (case (table_offsets ?d ''head'', table_offsets ?d ''hhea'') of
         (Some head, Some hhea) \<Rightarrow> metrics_at (concat (map wt_data ts)) head hhea
       | _ \<Rightarrow> Inl No_head_hhea)"
    using dir by (simp add: readWoff2Metrics_def sig assms(6))
  have absent: "find (\<lambda>t. wt_tag t = tag) ts = None \<Longrightarrow> table_offsets ?d tag = None" for tag
    by (rule offsets_absent) (auto simp: find_None_iff)
  show ?thesis
  proof (cases "find (\<lambda>t. wt_tag t = ''head'') ts")
    case None
    then show ?thesis by (simp add: read absent)
  next
    case head: (Some h)
    show ?thesis
    proof (cases "find (\<lambda>t. wt_tag t = ''hhea'') ts")
      case None
      then show ?thesis by (simp add: read absent head split: option.split)
    next
      case hhea: (Some g)
      show ?thesis
        using metrics_found [OF assms(4,5) head hhea] by (auto simp: read head hhea)
    qed
  qed
qed

section \<open>A concrete file\<close>

definition sample_tables :: "woff2_table list" where
  "sample_tables =
     [\<lparr>wt_tag = ''glyf'', wt_transform = 0, wt_origLength = 300, wt_data = [7, 7]\<rparr>,
      \<lparr>wt_tag = ''head'', wt_transform = 0, wt_origLength = 20,
       wt_data = replicate 18 0 @ [0x03, 0xE8]\<rparr>,
      \<lparr>wt_tag = ''abcd'', wt_transform = 0, wt_origLength = 1, wt_data = [9]\<rparr>,
      \<lparr>wt_tag = ''hhea'', wt_transform = 0, wt_origLength = 10,
       wt_data = [0, 0, 0, 0, 0x03, 0xB6, 0xFE, 0xEA, 0, 0]\<rparr>]"

definition sample_header :: "byte list" where
  "sample_header = tag_bytes ''wOF2'' @ replicate 8 0 @ [0, 4] @ replicate 34 0"

lemma sample_ok: "list_all table_ok sample_tables" "length sample_header = 48"
    "latin1 sample_header 0 4 = ''wOF2''"
    "readUInt16BE sample_header 12 = Inr (int (length sample_tables))"
  by (simp add: sample_tables_def table_ok_def is_transformed_def) code_simp+

theorem woff2_reads_back_witness:
  "readWoff2Metrics (\<lambda>b. Some (concat (map wt_data sample_tables)))
     (sample_header @ concat (map encode_entry sample_tables) @ [])
   = Inr \<lparr>fm_unitsPerEm = 1000, fm_ascender = 950, fm_descender = - 278, fm_lineGap = 0\<rparr>"
proof -
  have "distinct (map wt_tag sample_tables)" by code_simp
  note read = woff2_reads_back [OF sample_ok(2,3,4,1) this,
      of "\<lambda>b. Some (concat (map wt_data sample_tables))" "[]"]
  have "(case (find (\<lambda>t. wt_tag t = ''head'') sample_tables,
              find (\<lambda>t. wt_tag t = ''hhea'') sample_tables) of
       (Some head, Some hhea) \<Rightarrow> own_metrics (wt_data head) (wt_data hhea)
     | _ \<Rightarrow> Inl No_head_hhea)
     = Inr \<lparr>fm_unitsPerEm = 1000, fm_ascender = 950, fm_descender = - 278, fm_lineGap = 0\<rparr>"
    by code_simp
  then show ?thesis using read by simp
qed

section \<open>Any file\<close>

lemma base128_malformed:
  "base128_loop k buf at v = Inl e \<Longrightarrow>
    e = Malformed_base128 \<and> list_all (\<lambda>i. byte_at buf (at + i) AND 0x80 \<noteq> 0) [0..<k]"
proof (induction k arbitrary: at v)
  case (Suc k)
  then have more: "byte_at buf at AND 0x80 \<noteq> 0" by (auto simp: Let_def split: if_splits)
  then have "base128_loop k buf (Suc at) (v * 128 + unat (byte_at buf at AND 0x7F)) = Inl e"
    using Suc.prems by (simp add: Let_def)
  note ih = Suc.IH [OF this]
  have "byte_at buf (at + i) AND 0x80 \<noteq> 0" if "i < Suc k" for i
    using that more ih by (cases i) (simp_all add: list_all_iff)
  then show ?case using ih by (simp only: list_all_iff set_upt) simp
qed simp

lemma int16_bounds: "readInt16BE buf i = Inr n \<Longrightarrow> - 32768 \<le> n \<and> n \<le> 32767"
  using sint_range_size [where w = "word_cat (buf ! i) (buf ! (i + 1)) :: 16 word"]
  by (auto simp: readInt16BE_def word_size split: if_splits)

lemma uint16_bounds: "readUInt16BE buf i = Inr n \<Longrightarrow> 0 \<le> n \<and> n < 65536"
  using uint_lt2p [of "buf ! i"] uint_lt2p [of "buf ! (i + 1)"]
  by (auto simp: readUInt16BE_def split: if_splits)

text \<open>
  What a file can make the reader answer, malformed and truncated files included: a variable-length
  number takes one to five bytes and stays below \<open>2 ^ 35\<close>, and is refused exactly when five
  bytes in a row say that more follow; the values read are those of 16-bit fields, signed for the
  three vertical ones.
\<close>

lemma font_reads_bounded:
  "(case readBase128 buf at of
      Inr (n, j) \<Rightarrow> at < j \<and> j \<le> at + 5 \<and> n < 2 ^ 35
    | Inl e \<Rightarrow> e = Malformed_base128 \<and> list_all (\<lambda>i. byte_at buf (at + i) AND 0x80 \<noteq> 0) [0..<5])
   \<and> (case readWoff2Metrics brotli buf of
      Inr m \<Rightarrow> 0 \<le> fm_unitsPerEm m \<and> fm_unitsPerEm m < 65536
        \<and> list_all (\<lambda>n. - 32768 \<le> n \<and> n \<le> 32767) [fm_ascender m, fm_descender m, fm_lineGap m]
    | Inl e \<Rightarrow> True)"
proof
  show "case readBase128 buf at of
      Inr (n, j) \<Rightarrow> at < j \<and> j \<le> at + 5 \<and> n < 2 ^ 35
    | Inl e \<Rightarrow> e = Malformed_base128 \<and> list_all (\<lambda>i. byte_at buf (at + i) AND 0x80 \<noteq> 0) [0..<5]"
  proof (cases "readBase128 buf at")
    case (Inl e)
    then show ?thesis using base128_malformed [of 5 buf at 0 e] by (simp add: readBase128_def)
  next
    case (Inr r)
    then have r: "at < snd r \<and> snd r \<le> at + 5 \<and> fst r < 128 ^ (snd r - at)"
      using base128_bounds [of 5 buf at 0 "fst r" "snd r"] by (simp add: readBase128_def)
    then have "(128 :: nat) ^ (snd r - at) \<le> 128 ^ 5" by (intro power_increasing) auto
    then show ?thesis using Inr r by (auto simp: case_prod_beta)
  qed
  show "case readWoff2Metrics brotli buf of
      Inr m \<Rightarrow> 0 \<le> fm_unitsPerEm m \<and> fm_unitsPerEm m < 65536
        \<and> list_all (\<lambda>n. - 32768 \<le> n \<and> n \<le> 32767) [fm_ascender m, fm_descender m, fm_lineGap m]
    | Inl e \<Rightarrow> True"
    by (auto simp: readWoff2Metrics_def metrics_at_def split: sum.splits option.splits if_splits
        dest: int16_bounds uint16_bounds)
qed

section \<open>The exit status\<close>

lemma metrics_of_files_sum:
  "metrics_of_files brotli fs =
     (case find (\<lambda>f. isl (readWoff2Metrics brotli (snd f))) fs of
        Some f \<Rightarrow> Inl (fst f, projl (readWoff2Metrics brotli (snd f)))
      | None \<Rightarrow> Inr (map (\<lambda>f. (fst f, projr (readWoff2Metrics brotli (snd f)))) fs))"
proof (induction fs)
  case (Cons f fs)
  then show ?case
    by (cases f; cases "readWoff2Metrics brotli (snd f)") (auto split: option.split)
qed simp

definition is_woff2 :: "string \<times> byte list \<Rightarrow> bool" where
  "is_woff2 f \<longleftrightarrow> (\<exists>stem. fst f = stem @ ''.woff2'')"

lemma is_woff2_filter:
  "is_woff2 f = (length (fst f) \<ge> 6 \<and> drop (length (fst f) - 6) (fst f) = ''.woff2'')"
proof
  assume "length (fst f) \<ge> 6 \<and> drop (length (fst f) - 6) (fst f) = ''.woff2''"
  then have "fst f = take (length (fst f) - 6) (fst f) @ ''.woff2''"
    by (metis append_take_drop_id)
  then show "is_woff2 f" unfolding is_woff2_def by blast
qed (auto simp: is_woff2_def)

lemma woff2_files_mset: "mset (woff2_files dir) = mset (filter is_woff2 dir)"
  by (simp add: woff2_files_def is_woff2_filter [abs_def])

lemma woff2_files_set: "set (woff2_files dir) = {f \<in> set dir. is_woff2 f}"
  by (metis woff2_files_mset mset_eq_setD set_filter)

lemma foldl_sum: "foldl (\<lambda>s x. s + f x) a xs = a + sum_list (map f xs)" for a :: int
  by (induction xs arbitrary: a) simp_all

lemma byteTable_total:
  "bt_totalRaw (byteTable gzip dir) = sum_list (map (\<lambda>f. int (length (snd f))) (filter is_woff2 dir))"
proof -
  have "bt_totalRaw (byteTable gzip dir) = sum_list (map (\<lambda>f. int (length (snd f))) (woff2_files dir))"
    by (simp add: byteTable_def Let_def foldl_sum comp_def case_prod_beta)
  also have "\<dots> = sum_mset (mset (map (\<lambda>f. int (length (snd f))) (woff2_files dir)))"
    by (simp only: sum_mset_sum_list)
  also have "\<dots> = sum_mset (mset (map (\<lambda>f. int (length (snd f))) (filter is_woff2 dir)))"
    by (simp add: woff2_files_mset)
  finally show ?thesis by (simp only: sum_mset_sum_list)
qed

text \<open>
  The verdict of the font report, whatever the order of the directory and whatever gzip makes of
  the files: it fails when the committed woff2 files together exceed 122,880 bytes, or when a
  line gap that was looked at is not 0; it throws when a file it looks into cannot be read or no
  browser measures; every other file of the directory is ignored; and the byte table is exact.
\<close>

lemma font_verdict:
  "let files = filter is_woff2 dir;
       total = sum_list (map (\<lambda>f. int (length (snd f))) files);
       browser = (''--no-browser'' \<notin> set argv);
       looked = (''--check-linegap'' \<in> set argv \<or> browser)
   in font_report gzip brotli measured argv dir =
        (if looked \<and> list_ex (\<lambda>f. isl (readWoff2Metrics brotli (snd f))) files \<or> browser \<and> \<not> measured
         then Font_threw
         else Font_exit (if total > 122880
             \<or> looked \<and> list_ex (\<lambda>f. fm_lineGap (projr (readWoff2Metrics brotli (snd f))) \<noteq> 0) files
           then 1 else 0))
    \<and> bt_totalRaw (byteTable gzip dir) = total
    \<and> bt_headroom (byteTable gzip dir) = 122880 - total
    \<and> bt_withinBudget (byteTable gzip dir) = (total \<le> 122880)
    \<and> mset (map ff_name (bt_faces (byteTable gzip dir))) = mset (map fst files)"
proof -
  let ?files = "filter is_woff2 dir" and ?looked = "''--check-linegap'' \<in> set argv \<or> ''--no-browser'' \<notin> set argv"
  let ?bad = "\<lambda>f. isl (readWoff2Metrics brotli (snd f))"
    and ?gap = "\<lambda>f. fm_lineGap (projr (readWoff2Metrics brotli (snd f))) \<noteq> 0"
  have table: "bt_headroom (byteTable gzip dir) = 122880 - bt_totalRaw (byteTable gzip dir)"
      "bt_withinBudget (byteTable gzip dir) = (bt_totalRaw (byteTable gzip dir) \<le> 122880)"
    by (simp_all add: byteTable_def Let_def FONT_BUDGET_BYTES_def)
  have ex: "list_ex P (woff2_files dir) = list_ex P ?files" for P
    by (simp add: list_ex_iff woff2_files_set)
  have names: "mset (map ff_name (bt_faces (byteTable gzip dir))) = mset (map fst ?files)"
    using arg_cong [OF woff2_files_mset [of dir], of "image_mset fst"]
    by (simp add: byteTable_def Let_def comp_def case_prod_beta)
  have report: "font_report gzip brotli measured argv dir =
        (if ?looked \<and> list_ex ?bad (woff2_files dir) \<or> ''--no-browser'' \<notin> set argv \<and> \<not> measured
         then Font_threw
         else Font_exit (if \<not> bt_withinBudget (byteTable gzip dir) \<or> ?looked \<and> list_ex ?gap (woff2_files dir)
           then 1 else 0))"
  proof (cases "find ?bad (woff2_files dir)")
    case None
    then have "\<not> list_ex ?bad (woff2_files dir)" by (force simp: find_None_iff list_ex_iff)
    then show ?thesis
      using None by (auto simp: font_report_def Let_def lineGapReport_def metrics_of_files_sum
          filter_empty_conv list_ex_iff)
  next
    case (Some f)
    then have "list_ex ?bad (woff2_files dir)" by (auto simp: find_Some_iff list_ex_length)
    then show ?thesis
      using Some by (auto simp: font_report_def Let_def lineGapReport_def metrics_of_files_sum)
  qed
  show ?thesis
    unfolding Let_def report ex table names byteTable_total by (simp add: not_le)
qed

end
