(* ===== verification/Font_Report.thy ===== *)
theory Font_Report
  imports Harness_Laws Font_Session Font_Laws
begin

text \<open>
  What the font report prints (\<open>markdown\<close> in \<open>web/scripts/measure-fonts.mjs\<close>) and the run as a whole:
  the byte table, the line gaps, the browser's numbers, and the exit status. \<open>CHR 0x97\<close> is the em
  dash. \<open>JSON.stringify\<close> of the report is the parameter \<open>to_json\<close>.
\<close>

section \<open>Formats\<close>

definition pct :: "rat \<Rightarrow> string" where
  "pct v = to_fixed 2 (v * 100) @ ''%''"

definition num :: "int \<Rightarrow> string" where
  "num = locale_int"

definition ticked :: "string \<Rightarrow> string" where
  "ticked s = CHR 0x60 # s @ [CHR 0x60]"

text \<open>A row of a table.\<close>

definition cells :: "string list \<Rightarrow> string" where
  "cells cs = ''| '' @ join '' | '' cs @ '' |''"

section \<open>The report\<close>

record font_report_data =
  fr_bytes :: byte_table
  fr_lineGap :: "(string \<times> font_metrics) list option"
  fr_metrics :: "(string \<times> string \<times> family_metrics list) option"

definition bytes_section :: "byte_table \<Rightarrow> string list" where
  "bytes_section b =
     [''### Per-face byte table'', [], ''| File | Raw (B) | gzip (B) |'', ''|---|---:|---:|'']
     @ map (\<lambda>f. cells [ticked (ff_name f), num (ff_raw f), num (ff_gzip f)]) (bt_faces b)
     @ [cells [''**Total**'', ''**'' @ num (bt_totalRaw b) @ ''**'', ''**'' @ num (bt_totalGzip b) @ ''**''],
        cells [''Budget (RC-01)'', num (bt_budget b), [CHR 0x97]],
        cells [''Headroom'', (if bt_headroom b \<ge> 0 then ''+'' else []) @ num (bt_headroom b), [CHR 0x97]], [],
        (if bt_withinBudget b
         then ''Within budget: '' @ to_fixed 1 (of_int (bt_totalRaw b) / of_int (bt_budget b) * 100)
                @ ''% of '' @ num (bt_budget b) @ '' B.''
         else ''**OVER BUDGET by '' @ num (- bt_headroom b) @ '' B.**''), []]"

definition gap_section :: "(string \<times> font_metrics) list \<Rightarrow> string list" where
  "gap_section faces =
     [''### hhea line gap, read from the committed woff2 files'', [],
      ''| File | unitsPerEm | ascender | descender | lineGap |'', ''|---|---:|---:|---:|---:|'']
     @ map (\<lambda>(name, m). cells [ticked name, show_int (fm_unitsPerEm m), show_int (fm_ascender m),
              show_int (fm_descender m), show_int (fm_lineGap m)]) faces
     @ [[]]"

text \<open>\<open>labelOf\<close>, which throws for an id that is no family's.\<close>

definition family_of :: "string \<Rightarrow> font_family option" where
  "family_of i = find (\<lambda>family. fam_id family = i) FAMILIES"

definition label_of :: "string \<Rightarrow> string" where
  "label_of i = (case family_of i of None \<Rightarrow> [] | Some f \<Rightarrow> fam_label f)"

definition descriptor_row :: "family_metrics \<Rightarrow> string" where
  "descriptor_row m =
     (let d = fx_descriptors m
      in cells [label_of (fx_id m), ticked (''local('' @ dquoted (fx_anchorName m) @ '')''),
                pct (ds_sizeAdjust d), pct (ds_ascentOverride d), pct (ds_descentOverride d),
                pct (ds_lineGapOverride d)])"

definition px :: "rat \<Rightarrow> string" where
  "px v = to_fixed 2 v @ '' px''"

definition residual_row :: "family_metrics \<Rightarrow> string" where
  "residual_row m =
     (let r = fx_residual m
      in cells [label_of (fx_id m), px (rd_widthPx r) @ '' ('' @ pct (rd_widthPercent r) @ '')'',
                px (rd_baselinePx r), px (rd_lineBoxPx r), pct (rd_unadjustedWidthPercent r),
                px (rd_unadjustedLineBoxPx r)])"

definition sensitivity_row :: "family_metrics \<Rightarrow> string" where
  "sensitivity_row m =
     (let (prose, alphabet, data) = fx_sensitivity m
      in cells [label_of (fx_id m), pct prose, pct alphabet, pct data])"

definition candidate_row ::
  "family_metrics \<Rightarrow> string \<times> probe_data \<times> string \<Rightarrow> string" where
  "candidate_row m = (\<lambda>(name, data, role).
     cells [label_of (fx_id m),
            ticked name @ (if name = fx_anchorName m then '' **(anchor)**'' else []), role,
            (if pd_resolved data then ''yes'' else ''no''),
            (if pd_resolved data then to_fixed 2 (ms_prose (pd_measured data)) else [CHR 0x97]),
            (if pd_resolved data then pct (ms_prose (fx_webfont m) / ms_prose (pd_measured data))
             else [CHR 0x97])])"

definition candidate_rows :: "family_metrics \<Rightarrow> string list" where
  "candidate_rows m =
     cells [label_of (fx_id m), ''*(declared generic stack)*'', ''what renders with no adjusted face'',
            [CHR 0x97], to_fixed 2 (ms_prose (fx_fallback m)),
            pct (ms_prose (fx_webfont m) / ms_prose (fx_fallback m))]
     # map (candidate_row m)
         (map (\<lambda>(name, data). (name, data, ''src candidate'')) (fx_candidates m)
          @ map (\<lambda>(name, data). (name, data, ''probe'')) (fx_probes m))"

definition face_block :: "family_metrics \<Rightarrow> string list" where
  "face_block m =
     (let d = texts_of 2 (fx_descriptors m)
      in [''@font-face {'',
          ''  font-family: '' @ dquoted (label_of (fx_id m) @ '' Fallback'') @ '';'',
          ''  src: '' @ join '', '' (map (\<lambda>n. ''local('' @ dquoted n @ '')'')
             (case family_of (fx_id m) of None \<Rightarrow> [] | Some f \<Rightarrow> fam_localSrc f)) @ '';'',
          ''  size-adjust: '' @ ft_sizeAdjust d @ ''%;'',
          ''  ascent-override: '' @ ft_ascentOverride d @ ''%;'',
          ''  descent-override: '' @ ft_descentOverride d @ ''%;'',
          ''  line-gap-override: 0%;'', ''}''])"

definition metrics_section :: "string \<times> string \<times> family_metrics list \<Rightarrow> string list" where
  "metrics_section = (\<lambda>(version, platform, metrics).
     [''### Measured fallback metrics'', [],
      ''Measured in '' @ version @ '' on '' @ platform @ '', at 100px.'', [],
      ''| Family | Adjustment anchor | '' @ ticked ''size-adjust'' @ '' | '' @ ticked ''ascent-override''
        @ '' | '' @ ticked ''descent-override'' @ '' | '' @ ticked ''line-gap-override'' @ '' |'',
      ''|---|---|---:|---:|---:|---:|'']
     @ map descriptor_row metrics
     @ [[], ''### Verification: the adjusted face re-measured against the webfont'', [],
        ''Residual is the adjusted fallback minus the webfont, laying out the same reference string. ''
          @ ''The last two columns are what the same swap would have cost with no adjusted face.'', [],
        ''| Family | Residual width | Residual baseline | Residual line box | Unadjusted width | Unadjusted line box |'',
        ''|---|---:|---:|---:|---:|---:|'']
     @ map residual_row metrics
     @ [[], ''### Size-adjust sensitivity to the reference string'', [],
        ''The descriptor is derived from '' @ ticked ''prose'' @ ''; the other two say how much the ratio would move had a different string been chosen.'', [],
        ''| Family | prose (used) | alphabet | data strings |'', ''|---|---:|---:|---:|'']
     @ map sensitivity_row metrics
     @ [[], ''### Fallback candidates, measured individually'', [],
        ''Prose advance width at 100px. '' @ ticked ''size-adjust here'' @ '' is the descriptor that candidate would have ''
          @ ''produced -- the cross-platform spread. Probes are fonts that were tried and are not nameable ''
          @ ''or not installed.'', [],
        ''| Family | Font | Role | Resolved | Prose width (px) | size-adjust here |'',
        ''|---|---|---|---|---:|---:|'']
     @ concat (map candidate_rows metrics)
     @ [[], ''### The @font-face block these numbers produce'', [], replicate 3 (CHR 0x60) @ ''css'']
     @ concat (map face_block metrics) @ [replicate 3 (CHR 0x60), []])"

text \<open>The lines, or \<open>None\<close> where a label is not found and the call throws.\<close>

definition markdown :: "font_report_data \<Rightarrow> string list option" where
  "markdown r =
     (case fr_metrics r of
        Some (version, platform, metrics) \<Rightarrow>
          if list_ex (\<lambda>m. family_of (fx_id m) = None) metrics then None
          else Some (bytes_section (fr_bytes r)
            @ (case fr_lineGap r of None \<Rightarrow> [] | Some faces \<Rightarrow> gap_section faces)
            @ metrics_section (version, platform, metrics))
      | None \<Rightarrow> Some (bytes_section (fr_bytes r)
            @ (case fr_lineGap r of None \<Rightarrow> [] | Some faces \<Rightarrow> gap_section faces)))"

section \<open>The run\<close>

text \<open>What is written to standard output before the process ends, and what it ends with.
  \<open>chrome\<close> is what the browser gave: its version, the platform and the numbers.\<close>

definition font_main ::
  "(byte list \<Rightarrow> byte list) \<Rightarrow> (byte list \<Rightarrow> byte list option) \<Rightarrow> (font_report_data \<Rightarrow> string)
     \<Rightarrow> (string \<times> string \<times> family_metrics list) option \<Rightarrow> string list \<Rightarrow> font_dir
     \<Rightarrow> string option \<times> font_exit"
where
  "font_main gzip brotli to_json chrome argv dir =
     (let bytes = byteTable gzip dir;
          browser = (''--no-browser'' \<notin> set argv);
          checked = (''--check-linegap'' \<in> set argv \<or> browser)
      in case (if checked then lineGapReport brotli dir else Inr []) of
           Inl e \<Rightarrow> (None, Font_threw)
         | Inr faces \<Rightarrow>
             if browser \<and> chrome = None then (None, Font_threw)
             else let report = \<lparr>fr_bytes = bytes, fr_lineGap = (if checked then Some faces else None),
                                 fr_metrics = (if browser then chrome else None)\<rparr>;
                      code = (if list_ex (\<lambda>x. fm_lineGap (snd x) \<noteq> 0) faces \<or> \<not> bt_withinBudget bytes
                              then 1 else 0)
                  in if ''--json'' \<in> set argv then (Some (to_json report), Font_exit code)
                     else (case markdown report of
                             None \<Rightarrow> (None, Font_threw)
                           | Some lines \<Rightarrow> (Some (join [CHR 0x0A] lines), Font_exit code)))"

section \<open>Laws\<close>

lemma measured_ids:
  "measure_families render loads faces fs = Inr ms \<Longrightarrow> map fx_id ms = map fam_id fs"
proof (induction fs arbitrary: faces ms)
  case (Cons f fs)
  then obtain faces' m ms' where m: "measure_family render loads faces f = Inr (faces', m)"
    "measure_families render loads faces' fs = Inr ms'" "ms = m # ms'"
    by (auto split: sum.splits prod.splits)
  have "fx_id m = fam_id f"
    using m(1) by (auto simp: measure_family_def probed_def anchored_def Let_def
      split: if_splits sum.splits prod.splits option.splits)
  then show ?case using Cons.IH [OF m(2)] m(3) by simp
qed simp

text \<open>Nothing the harness answers makes the printing throw.\<close>

lemma markdown_prints:
  assumes "fr_metrics r = Some (version, platform, ms)" "wo02_measure render loads = Inr ms"
  shows "markdown r \<noteq> None"
proof -
  have "map fx_id ms = map fam_id FAMILIES"
    using assms(2) measured_ids by (simp add: wo02_measure_def)
  then have "set (map fx_id ms) = set (map fam_id FAMILIES)" by simp
  then have "\<forall>m \<in> set ms. fx_id m \<in> {''ui'', ''report'', ''mono''}"
    by (auto simp: FAMILIES_def)
  then have "\<not> list_ex (\<lambda>m. family_of (fx_id m) = None) ms"
    by (auto simp: list_ex_iff family_of_def FAMILIES_def)
  then show ?thesis using assms(1) by (simp add: markdown_def)
qed

text \<open>The exit status is the one of the byte and line-gap checks, when the printing does not throw.\<close>

lemma font_main_exit:
  assumes "\<And>r version platform ms. chrome = Some (version, platform, ms) \<Longrightarrow>
      list_all (\<lambda>m. family_of (fx_id m) \<noteq> None) ms"
  shows "snd (font_main gzip brotli to_json chrome argv dir)
    = font_report gzip brotli (chrome \<noteq> None) argv dir"
proof -
  let ?b = "''--no-browser'' \<notin> set argv"
  let ?c = "''--check-linegap'' \<in> set argv \<or> ?b"
  have printed: "\<exists>lines. markdown \<lparr>fr_bytes = b, fr_lineGap = g, fr_metrics = (if ?b then chrome else None)\<rparr>
      = Some lines" for b g
    using assms by (fastforce simp: markdown_def list_all_iff list_ex_iff split: option.splits)
  show ?thesis
  proof (cases "if ?c then lineGapReport brotli dir else Inr []")
    case (Inl e)
    then show ?thesis by (simp only: font_main_def font_report_def Let_def sum.case) simp
  next
    case (Inr faces)
    obtain lines where "markdown \<lparr>fr_bytes = byteTable gzip dir,
        fr_lineGap = (if ?c then Some faces else None), fr_metrics = (if ?b then chrome else None)\<rparr>
        = Some lines"
      using printed by blast
    then show ?thesis
      unfolding font_main_def font_report_def Let_def Inr sum.case
      by (simp only: option.case snd_conv if_distrib [of snd] list_ex_iff filter_empty_conv) simp
  qed
qed

text \<open>The verdict of the byte table is the last line of its section.\<close>

lemma over_budget_is_printed:
  "''**OVER BUDGET by '' @ num (- bt_headroom b) @ '' B.**'' \<in> set (bytes_section b)"
  if "\<not> bt_withinBudget b"
  using that by (simp add: bytes_section_def)

text \<open>The descriptors of the printed rule are within half a hundredth of a percent of the computed
  ones, those of the measured rule within half a ten-thousandth.\<close>

lemma printed_descriptor_near: "\<bar>percent_of (to_fixed 2 (x * 100)) - x\<bar> \<le> 1 / 20000"
  using fixed_value_near [of 2 "x * 100"]
  by (simp add: percent_of_def to_fixed_reads_back field_simps abs_le_iff)

lemma printed_residual_example:
  "percent_of (to_fixed 2 (descriptor * 100)) \<noteq> percent_of (to_fixed 4 (descriptor * 100))"
  if "descriptor = 1000621 / 1000000"
proof -
  have "percent_of (to_fixed 2 (descriptor * 100)) = 10006 / 10000"
    "percent_of (to_fixed 4 (descriptor * 100)) = 1000621 / 1000000"
    by (simp_all add: percent_of_def to_fixed_reads_back fixed_value_def fixed_digits_def that floor_eq_iff)
  then show ?thesis by simp
qed

end
