(* ===== verification/Lhci_Run.thy ===== *)
theory Lhci_Run
  imports Complex_Main Stable_Sort
begin

text \<open>
  The Lighthouse loop, \<open>web/scripts/lhci-run.mjs\<close>: the URLs it moves to another stack, the reports it
  groups, the medians it prints, the assertions it counts and the status it exits with. What
  \<open>lhci autorun\<close> leaves behind, the URL parser and serializer, the pattern matcher and the rounded
  \<open>(x + y) / 2\<close> of doubles are parameters. A score may be \<open>null\<close>, which compares as 0.
\<close>

section \<open>Addresses\<close>

text \<open>The parts of a parsed URL; a port that is the scheme's own is not kept.\<close>

record web_url =
  wu_protocol :: string
  wu_hostname :: string
  wu_port :: "nat option"
  wu_rest :: string

definition default_port :: "string \<Rightarrow> nat option" where
  "default_port protocol =
     (if protocol = ''http:'' then Some 80 else if protocol = ''https:'' then Some 443 else None)"

text \<open>The setters of the URL standard, for the two web schemes: \<open>host\<close> is the name and the port that
  is kept; setting it replaces the port only when the value carries one.\<close>

definition url_host :: "web_url \<Rightarrow> string \<times> nat option" where
  "url_host u = (wu_hostname u, wu_port u)"

definition set_port :: "nat option \<Rightarrow> web_url \<Rightarrow> web_url" where
  "set_port p u = u\<lparr>wu_port := (if p = default_port (wu_protocol u) then None else p)\<rparr>"

definition set_protocol :: "string \<Rightarrow> web_url \<Rightarrow> web_url" where
  "set_protocol protocol u = set_port (wu_port u) (u\<lparr>wu_protocol := protocol\<rparr>)"

definition set_host :: "string \<times> nat option \<Rightarrow> web_url \<Rightarrow> web_url" where
  "set_host h u =
     (case snd h of
        None \<Rightarrow> u\<lparr>wu_hostname := fst h\<rparr>
      | Some p \<Rightarrow> set_port (Some p) (u\<lparr>wu_hostname := fst h\<rparr>))"

section \<open>Profiles\<close>

datatype assert_level = Level_off | Level_warn | Level_error

text \<open>An assertion: the audit, the level, and its \<open>maxNumericValue\<close> where it has one.\<close>

type_synonym lhci_assertion = "string \<times> assert_level \<times> rat option"

record matrix_entry =
  mx_pattern :: string
  mx_assertions :: "lhci_assertion list"

record lhci_profile =
  pf_id :: string
  pf_urls :: "string list"
  pf_matrix :: "matrix_entry list"

text \<open>The committed file: \<open>ci\<close> is the first profile, a further one without its own \<open>ci\<close> throws.\<close>

definition loadProfiles ::
  "lhci_profile option \<Rightarrow> (string \<times> lhci_profile option) list \<Rightarrow> string + lhci_profile list"
where
  "loadProfiles ci profiles =
     (case ci of
        None \<Rightarrow> Inl ''no \"ci\" block''
      | Some mobile \<Rightarrow>
          (case find (\<lambda>(i, c). c = None) profiles of
             Some (i, c) \<Rightarrow> Inl (''profile '' @ i @ '' has no \"ci\" block'')
           | None \<Rightarrow> Inr (mobile\<lparr>pf_id := ''mobile-412''\<rparr>
               # map (\<lambda>(i, c). (the c)\<lparr>pf_id := i\<rparr>) profiles)))"

text \<open>A base that is not a URL throws, and so does a collected URL; an empty base changes nothing.\<close>

fun move_urls :: "(string \<Rightarrow> web_url option) \<Rightarrow> (web_url \<Rightarrow> string) \<Rightarrow> web_url \<Rightarrow> string list
  \<Rightarrow> string list option"
where
  "move_urls parse href base [] = Some []"
| "move_urls parse href base (raw # urls) =
     (case parse raw of
        None \<Rightarrow> None
      | Some url \<Rightarrow>
          map_option ((#) (href (set_host (url_host base) (set_protocol (wu_protocol base) url))))
            (move_urls parse href base urls))"

definition withBaseUrl ::
  "(string \<Rightarrow> web_url option) \<Rightarrow> (web_url \<Rightarrow> string) \<Rightarrow> lhci_profile \<Rightarrow> string option
   \<Rightarrow> lhci_profile option"
where
  "withBaseUrl parse href ci baseUrl =
     (if baseUrl = None \<or> baseUrl = Some [] then Some ci
      else case parse (the baseUrl) of
          None \<Rightarrow> None
        | Some base \<Rightarrow> map_option (\<lambda>urls. ci\<lparr>pf_urls := urls\<rparr>) (move_urls parse href base (pf_urls ci)))"

definition assertionsForUrl ::
  "(string \<Rightarrow> string \<Rightarrow> bool) \<Rightarrow> lhci_profile \<Rightarrow> string \<Rightarrow> lhci_assertion list"
where
  "assertionsForUrl pattern_test ci url =
     foldl (\<lambda>all entry. if pattern_test (mx_pattern entry) url then all @ mx_assertions entry else all)
       [] (pf_matrix ci)"

section \<open>Reports\<close>

record lh_report =
  lh_requestedUrl :: "string option"
  lh_performance :: "rat option"
  lh_accessibility :: "rat option"
  lh_best_practices :: "rat option"
  lh_lcp :: "rat option"
  lh_tbt :: "rat option"
  lh_cls :: "rat option"
  lh_bf_cache :: "rat option"
  lh_bf_items :: "(string \<times> string) list"

text \<open>The manifest, when it was written: an entry's own URL and its report. \<open>byUrl\<close> is a \<open>Map\<close>.\<close>

definition readManifest ::
  "(string \<times> lh_report) list option \<Rightarrow> string \<Rightarrow> lh_report list option"
where
  "readManifest manifest =
     (case manifest of
        None \<Rightarrow> Map.empty
      | Some entries \<Rightarrow>
          foldl (\<lambda>byUrl (entry_url, lhr).
              let url = (case lh_requestedUrl lhr of Some u \<Rightarrow> u | None \<Rightarrow> entry_url);
                  bucket = (case byUrl url of Some runs \<Rightarrow> runs | None \<Rightarrow> [])
              in byUrl(url \<mapsto> bucket @ [lhr])) Map.empty entries)"

definition or_zero :: "rat option \<Rightarrow> rat" where
  "or_zero x = (case x of Some y \<Rightarrow> y | None \<Rightarrow> 0)"

definition median :: "(rat \<Rightarrow> rat \<Rightarrow> rat) \<Rightarrow> rat option list \<Rightarrow> rat option" where
  "median half_sum values =
     (let sorted = sort_by (\<lambda>a b. or_zero a - or_zero b \<le> 0) values;
          mid = length sorted div 2
      in if length sorted mod 2 = 1 then sorted ! mid
         else Some (half_sum (if mid = 0 then 0 else or_zero (sorted ! (mid - 1)))
                (if mid < length sorted then or_zero (sorted ! mid) else 0)))"

definition ASSERTION_IDS :: "string list" where
  "ASSERTION_IDS =
     [''categories:performance'', ''categories:accessibility'', ''categories:best-practices'',
      ''largest-contentful-paint'', ''total-blocking-time'', ''cumulative-layout-shift'', ''bf-cache'']"

definition measure_runs ::
  "(rat \<Rightarrow> rat \<Rightarrow> rat) \<Rightarrow> lh_report list \<Rightarrow> (string \<times> rat option \<times> rat option list) list"
where
  "measure_runs half_sum runs =
     map (\<lambda>(i, field). (i, median half_sum (map field runs), map field runs))
       (zip ASSERTION_IDS
         [lh_performance, lh_accessibility, lh_best_practices, lh_lcp, lh_tbt, lh_cls, lh_bf_cache])"

text \<open>A \<open>Set\<close> keeps the order in which its members came first.\<close>

definition bfCacheReasons :: "lh_report list \<Rightarrow> string list" where
  "bfCacheReasons runs =
     foldl (\<lambda>reasons (reason, failure_type).
         let r = reason @ '' ('' @ failure_type @ '')''
         in if r \<in> set reasons then reasons else reasons @ [r])
       [] (concat (map lh_bf_items runs))"

section \<open>The loop\<close>

record lhci_row =
  rw_url :: string
  rw_measured :: "(nat \<times> (string \<times> rat option \<times> rat option list) list \<times> string list) option"
  rw_assertions :: "lhci_assertion list"

text \<open>One profile's run: the status of \<open>lhci autorun\<close>, \<open>None\<close> when it was killed, and its manifest.\<close>

record autorun_result =
  ar_status :: "int option"
  ar_manifest :: "(string \<times> lh_report) list option"

definition runAutorun :: "autorun_result \<Rightarrow> int" where
  "runAutorun r = (case ar_status r of Some status \<Rightarrow> status | None \<Rightarrow> 1)"

definition profile_row ::
  "(rat \<Rightarrow> rat \<Rightarrow> rat) \<Rightarrow> (string \<Rightarrow> string \<Rightarrow> bool) \<Rightarrow> lhci_profile \<Rightarrow> autorun_result \<Rightarrow> string \<Rightarrow> lhci_row"
where
  "profile_row half_sum pattern_test ci r url =
     \<lparr>rw_url = url,
      rw_measured = (case readManifest (ar_manifest r) url of
          None \<Rightarrow> None
        | Some runs \<Rightarrow> Some (length runs, measure_runs half_sum runs, bfCacheReasons runs)),
      rw_assertions = assertionsForUrl pattern_test ci url\<rparr>"

record lhci_summary =
  ls_results :: "(string \<times> int \<times> lhci_row list) list"
  ls_assertionCount :: nat

fun lhci_profiles ::
  "(rat \<Rightarrow> rat \<Rightarrow> rat) \<Rightarrow> (string \<Rightarrow> string \<Rightarrow> bool) \<Rightarrow> (lhci_profile \<Rightarrow> lhci_profile option)
   \<Rightarrow> (lhci_profile \<Rightarrow> autorun_result) \<Rightarrow> lhci_profile list \<Rightarrow> lhci_summary \<Rightarrow> lhci_summary option"
where
  "lhci_profiles half_sum pattern_test move autorun [] sm = Some sm"
| "lhci_profiles half_sum pattern_test move autorun (p # ps) sm =
     (case move p of
        None \<Rightarrow> None
      | Some ci \<Rightarrow>
          (let r = autorun ci;
               rows = map (profile_row half_sum pattern_test ci r) (pf_urls ci)
           in lhci_profiles half_sum pattern_test move autorun ps
                \<lparr>ls_results = ls_results sm @ [(pf_id p, runAutorun r, rows)],
                 ls_assertionCount = foldl (\<lambda>n row. n + length (rw_assertions row))
                   (ls_assertionCount sm) rows\<rparr>))"

text \<open>The summary that is printed and the exit code; no summary means the run threw.\<close>

definition lhci_main ::
  "(rat \<Rightarrow> rat \<Rightarrow> rat) \<Rightarrow> (string \<Rightarrow> string \<Rightarrow> bool) \<Rightarrow> (lhci_profile \<Rightarrow> lhci_profile option)
   \<Rightarrow> (lhci_profile \<Rightarrow> autorun_result) \<Rightarrow> string + lhci_profile list \<Rightarrow> lhci_summary option \<times> nat"
where
  "lhci_main half_sum pattern_test move autorun profiles =
     (case profiles of
        Inl e \<Rightarrow> (None, 1)
      | Inr ps \<Rightarrow>
          (case lhci_profiles half_sum pattern_test move autorun ps
             \<lparr>ls_results = [], ls_assertionCount = 0\<rparr> of
             None \<Rightarrow> (None, 1)
           | Some sm \<Rightarrow>
               (Some sm, if filter (\<lambda>(i, status, rows). status \<noteq> 0) (ls_results sm) \<noteq> [] then 1 else 0)))"

text \<open>The cell of the back-forward cache.\<close>

definition bf_cell :: "rat option \<Rightarrow> bool" where
  "bf_cell m \<longleftrightarrow> m = Some 1"

section \<open>Laws\<close>

lemma assertions_matching:
  "assertionsForUrl pattern_test ci url
     = concat (map mx_assertions (filter (\<lambda>e. pattern_test (mx_pattern e) url) (pf_matrix ci)))"
proof -
  have "foldl (\<lambda>all entry. if pattern_test (mx_pattern entry) url then all @ mx_assertions entry else all)
      acc es = acc @ concat (map mx_assertions (filter (\<lambda>e. pattern_test (mx_pattern e) url) es))"
    for acc es by (induction es arbitrary: acc) simp_all
  from this [of "[]" "pf_matrix ci"] show ?thesis by (simp add: assertionsForUrl_def)
qed

definition report_url :: "string \<times> lh_report \<Rightarrow> string" where
  "report_url e = (case lh_requestedUrl (snd e) of Some u \<Rightarrow> u | None \<Rightarrow> fst e)"

lemma manifest_buckets:
  "readManifest (Some es) url =
     (let runs = map snd (filter (\<lambda>e. report_url e = url) es) in if runs = [] then None else Some runs)"
proof -
  have "readManifest (Some es) = (\<lambda>url.
      (let runs = map snd (filter (\<lambda>e. report_url e = url) es) in if runs = [] then None else Some runs))"
  proof (induction es rule: rev_induct)
    case (snoc e es)
    then show ?case
      by (cases e) (auto simp: readManifest_def report_url_def Let_def fun_eq_iff filter_empty_conv
          split: option.splits)
  qed (simp add: readManifest_def)
  then show ?thesis by simp
qed

text \<open>
  Moving a stack: a collected URL keeps its path and query, and takes the scheme, the host and
  the port of the base; but of a base whose port is the scheme's own only the name is taken, and
  a port written in the committed file stays, so that the audit leaves the base's origin exactly
  then.
\<close>

lemma base_url_moves:
  "let base = set_port (wu_port b) b;
       v = set_host (url_host base) (set_protocol (wu_protocol base) u)
   in wu_rest v = wu_rest u \<and> wu_protocol v = wu_protocol base \<and> wu_hostname v = wu_hostname base
    \<and> (wu_port v = wu_port base \<longleftrightarrow>
        wu_port base \<noteq> None \<or> wu_port u = None \<or> wu_port u = default_port (wu_protocol base))
    \<and> (wu_port v \<noteq> wu_port base \<longleftrightarrow> wu_port base = None \<and> wu_port v = wu_port u \<and> wu_port u \<noteq> None
        \<and> wu_port u \<noteq> default_port (wu_protocol base))"
  by (cases "wu_port b"; cases "wu_port b = default_port (wu_protocol b)")
     (auto simp: Let_def set_host_def url_host_def set_protocol_def set_port_def split: option.split)

section \<open>Medians\<close>

lemma score_order: "comparator_on UNIV (\<lambda>a b. or_zero a - or_zero b \<le> 0)"
  by (auto simp: comparator_on_def)

lemma half_below:
  assumes "sorted_wrt (\<lambda>a b. or_zero a - or_zero b \<le> 0) xs" "j \<le> length xs"
    "j \<noteq> 0 \<Longrightarrow> or_zero (xs ! (j - 1)) \<le> m"
  shows "j \<le> length (filter (\<lambda>x. or_zero x \<le> m) xs)"
proof -
  have "or_zero (xs ! i) \<le> m" if "i < j" for i
  proof (cases "i = j - 1")
    case False
    then have "or_zero (xs ! i) - or_zero (xs ! (j - 1)) \<le> 0"
      using assms(1,2) that by (simp add: sorted_wrt_iff_nth_less)
    then show ?thesis using assms(3) that by linarith
  qed (use assms(3) that in auto)
  then have "filter (\<lambda>x. or_zero x \<le> m) (take j xs) = take j xs"
    using assms(2) by (auto simp: filter_id_conv in_set_conv_nth)
  then have "j = length (filter (\<lambda>x. or_zero x \<le> m) (take j xs))" using assms(2) by simp
  also have "\<dots> \<le> length (filter (\<lambda>x. or_zero x \<le> m) (take j xs @ drop j xs))"
    unfolding filter_append by simp
  finally show ?thesis by simp
qed

lemma half_above:
  assumes "sorted_wrt (\<lambda>a b. or_zero a - or_zero b \<le> 0) xs" "j \<le> length xs"
    "j < length xs \<Longrightarrow> m \<le> or_zero (xs ! j)"
  shows "length xs - j \<le> length (filter (\<lambda>x. m \<le> or_zero x) xs)"
proof -
  have "m \<le> or_zero (xs ! i)" if "j \<le> i" "i < length xs" for i
  proof (cases "i = j")
    case False
    then have "or_zero (xs ! j) - or_zero (xs ! i) \<le> 0"
      using assms(1) that by (simp add: sorted_wrt_iff_nth_less)
    then show ?thesis using assms(3) that by linarith
  qed (use assms(3) that in auto)
  then have "filter (\<lambda>x. m \<le> or_zero x) (drop j xs) = drop j xs"
    by (auto simp: filter_id_conv in_set_conv_nth)
  then have "length xs - j = length (filter (\<lambda>x. m \<le> or_zero x) (drop j xs))" by simp
  also have "\<dots> \<le> length (filter (\<lambda>x. m \<le> or_zero x) (take j xs @ drop j xs))"
    unfolding filter_append by simp
  finally show ?thesis by simp
qed

lemma filter_sorted: "length (filter P (sort_by le xs)) = length (filter P xs)"
  by (metis mset_filter mset_sort_by size_mset)

text \<open>
  The number in the summary is a median: of any scores, \<open>null\<close> among them, at least half are at
  most and at least half are at least the value printed, which is one of them when their number is
  odd. Of the rounded mean only that it lies between its arguments is used.
\<close>

lemma median_halves:
  assumes "\<And>x y. x \<le> y \<Longrightarrow> x \<le> half_sum x y \<and> half_sum x y \<le> y" "values \<noteq> []"
  shows "let m = or_zero (median half_sum values) in
      length values \<le> 2 * length (filter (\<lambda>x. or_zero x \<le> m) values)
    \<and> length values \<le> 2 * length (filter (\<lambda>x. m \<le> or_zero x) values)
    \<and> (if length values mod 2 = 1 then median half_sum values \<in> set values else True)"
proof -
  let ?s = "sort_by (\<lambda>a b. or_zero a - or_zero b \<le> 0) values" and ?k = "length values div 2"
  let ?m = "or_zero (median half_sum values)"
  have sorted: "sorted_wrt (\<lambda>a b. or_zero a - or_zero b \<le> 0) ?s"
    by (rule sorted_sort_by [OF score_order]) simp
  show ?thesis
  proof (cases "length values mod 2 = 1")
    case True
    then have k: "?k < length values" "length values = 2 * ?k + 1" by presburger+
    have m: "median half_sum values = ?s ! ?k" using True by (simp add: median_def Let_def)
    have "?k + 1 \<le> length (filter (\<lambda>x. or_zero x \<le> ?m) ?s)"
      by (rule half_below [OF sorted]) (use k m in simp_all)
    moreover have "length ?s - ?k \<le> length (filter (\<lambda>x. ?m \<le> or_zero x) ?s)"
      by (rule half_above [OF sorted]) (use k m in simp_all)
    moreover have "median half_sum values \<in> set values"
      using k(1) m nth_mem [of ?k ?s] by simp
    moreover have "length values - ?k = ?k + 1" using k by linarith
    ultimately show ?thesis
      using k(2) unfolding filter_sorted Let_def length_sort_by by (intro conjI) (linarith, linarith, simp)
  next
    case False
    moreover have "0 < length values" using assms(2) by simp
    ultimately have k: "0 < ?k" "?k < length values" "length values = 2 * ?k" by presburger+
    have "or_zero (?s ! (?k - 1)) - or_zero (?s ! ?k) \<le> 0"
      using sorted k by (simp add: sorted_wrt_iff_nth_less)
    then have between: "or_zero (?s ! (?k - 1)) \<le> ?m \<and> ?m \<le> or_zero (?s ! ?k)"
      using assms(1) [of "or_zero (?s ! (?k - 1))" "or_zero (?s ! ?k)"] False k
      by (simp add: median_def Let_def or_zero_def)
    have "?k \<le> length (filter (\<lambda>x. or_zero x \<le> ?m) ?s)"
      by (rule half_below [OF sorted]) (use k between in simp_all)
    moreover have "length ?s - ?k \<le> length (filter (\<lambda>x. ?m \<le> or_zero x) ?s)"
      by (rule half_above [OF sorted]) (use k between in simp_all)
    ultimately show ?thesis using k False unfolding filter_sorted Let_def length_sort_by by simp
  qed
qed

lemma median_halves_witness:
  "let values = [Some 3, None, Some 1, Some 2 :: rat option];
       m = or_zero (median (\<lambda>x y. (x + y) / 2) values) in
      length values \<le> 2 * length (filter (\<lambda>x. or_zero x \<le> m) values)
    \<and> length values \<le> 2 * length (filter (\<lambda>x. m \<le> or_zero x) values)
    \<and> (if length values mod 2 = 1 then median (\<lambda>x y. (x + y) / 2) values \<in> set values else True)"
  unfolding Let_def by (rule median_halves [unfolded Let_def]) simp_all

section \<open>The verdict\<close>

definition counted ::
  "(string \<Rightarrow> string \<Rightarrow> bool) \<Rightarrow> (lhci_profile \<Rightarrow> lhci_profile option) \<Rightarrow> lhci_profile \<Rightarrow> nat" where
  "counted pattern_test move p =
     sum_list (map (\<lambda>url. length (assertionsForUrl pattern_test (the (move p)) url)) (pf_urls (the (move p))))"

definition profile_result ::
  "(rat \<Rightarrow> rat \<Rightarrow> rat) \<Rightarrow> (string \<Rightarrow> string \<Rightarrow> bool) \<Rightarrow> (lhci_profile \<Rightarrow> lhci_profile option)
   \<Rightarrow> (lhci_profile \<Rightarrow> autorun_result) \<Rightarrow> lhci_profile \<Rightarrow> string \<times> int \<times> lhci_row list" where
  "profile_result half_sum pattern_test move autorun p =
     (let ci = the (move p); r = autorun ci
      in (pf_id p, runAutorun r, map (profile_row half_sum pattern_test ci r) (pf_urls ci)))"

lemma foldl_lengths: "foldl (\<lambda>n row. n + length (rw_assertions row)) c rows
    = c + sum_list (map (length \<circ> rw_assertions) rows)"
  by (induction rows arbitrary: c) (simp_all add: add.assoc)

lemma lhci_profiles_result:
  "lhci_profiles half_sum pattern_test move autorun ps sm =
     (if list_ex (\<lambda>p. move p = None) ps then None
      else Some \<lparr>ls_results = ls_results sm @ map (profile_result half_sum pattern_test move autorun) ps,
                 ls_assertionCount = ls_assertionCount sm + sum_list (map (counted pattern_test move) ps)\<rparr>)"
proof (induction ps arbitrary: sm)
  case (Cons p ps)
  show ?case
  proof (cases "move p")
    case (Some ci)
    have "counted pattern_test move p
        = sum_list (map (length \<circ> rw_assertions)
            (map (profile_row half_sum pattern_test ci (autorun ci)) (pf_urls ci)))"
      by (simp add: counted_def Some comp_def profile_row_def)
    then show ?thesis
      by (simp add: Some Cons.IH foldl_lengths profile_result_def Let_def add.assoc)
  qed simp
qed simp

text \<open>
  The verdict of the loop: it reaches every profile or throws because an address cannot be moved;
  then every profile has one result with one row for each of its URLs, and the run fails exactly
  when some \<open>lhci autorun\<close> did not exit with 0, being killed included. What was collected
  plays no part: without a single report the exit code and the number of assertions called
  evaluated are the same.
\<close>

lemma lhci_verdict:
  "let blind = (\<lambda>ci. (autorun ci)\<lparr>ar_manifest := None\<rparr>);
       (summary, code) = lhci_main half_sum pattern_test move autorun (Inr ps)
   in (case summary of
         None \<Rightarrow> code = 1 \<and> list_ex (\<lambda>p. move p = None) ps
       | Some sm \<Rightarrow>
           map (\<lambda>(i, status, rows). (i, map rw_url rows)) (ls_results sm)
             = map (\<lambda>p. (pf_id p, pf_urls (the (move p)))) ps
         \<and> code = (if list_ex (\<lambda>p. ar_status (autorun (the (move p))) \<noteq> Some 0) ps then 1 else 0)
         \<and> ls_assertionCount sm = sum_list (map (counted pattern_test move) ps)
         \<and> map_option ls_assertionCount (fst (lhci_main half_sum pattern_test move blind (Inr ps)))
             = Some (ls_assertionCount sm)
         \<and> snd (lhci_main half_sum pattern_test move blind (Inr ps)) = code)"
proof (cases "list_ex (\<lambda>p. move p = None) ps")
  case True
  then show ?thesis by (simp add: lhci_main_def lhci_profiles_result)
next
  case False
  have status: "(filter (\<lambda>(i, status, rows). status \<noteq> 0)
        (map (profile_result half_sum pattern_test move a) ps) \<noteq> [])
      = list_ex (\<lambda>p. ar_status (a (the (move p))) \<noteq> Some 0) ps" for a
    by (auto simp: filter_empty_conv list_ex_iff profile_result_def Let_def runAutorun_def
        split: option.splits)
  have rows: "map (\<lambda>(i, status, rows). (i, map rw_url rows))
        (map (profile_result half_sum pattern_test move autorun) ps)
      = map (\<lambda>p. (pf_id p, pf_urls (the (move p)))) ps"
    by (simp add: profile_result_def Let_def comp_def profile_row_def)
  show ?thesis
    using False by (simp add: lhci_main_def lhci_profiles_result Let_def status rows del: map_map)
qed

end
