(* ===== verification/Lhci_Summary.thy ===== *)
theory Lhci_Summary
  imports Lhci_Run JS_Number
begin

text \<open>
  What the Lighthouse loop prints (\<open>renderSummary\<close> in \<open>web/scripts/lhci-run.mjs\<close>): the table of the
  medians with the mark at a total blocking time past its ratified ceiling, and the spread of the
  runs. The path and query of a URL (\<open>None\<close>: the URL constructor throws) and the text of a number in a
  template are parameters. \<open>CHR 0x97\<close> is
  the em dash, and the warning sign, which is outside the alphabet, has the free code \<open>CHR 0x82\<close>.
\<close>

section \<open>Cells\<close>

type_synonym lhci_measured = "(string \<times> rat option \<times> rat option list) list"

definition median_in :: "lhci_measured \<Rightarrow> string \<Rightarrow> rat option" where
  "median_in m i = Option.bind (map_of m i) fst"

definition values_in :: "lhci_measured \<Rightarrow> string \<Rightarrow> rat option list" where
  "values_in m i = (case map_of m i of None \<Rightarrow> [] | Some (_, vs) \<Rightarrow> vs)"

text \<open>Arithmetic reads a \<open>null\<close> as 0, \<open>toFixed\<close> throws on one.\<close>

definition score_cell :: "lhci_measured \<Rightarrow> string \<Rightarrow> string" where
  "score_cell m i = show_int (js_round (or_zero (median_in m i) * 100))"

definition summary_row :: "string list \<Rightarrow> string" where
  "summary_row cs = ''| '' @ join '' | '' cs @ '' |''"

definition code_label :: "string \<Rightarrow> string" where
  "code_label s = CHR 0x60 # s @ [CHR 0x60]"

definition TBT :: string where
  "TBT = ''total-blocking-time''"

definition warn_tbt :: "lhci_assertion list \<Rightarrow> lhci_assertion option" where
  "warn_tbt as = find (\<lambda>(audit, level, _). audit = TBT \<and> level = Level_warn) as"

text \<open>Past the ratified ceiling: none is no bound, and one without a number compares as \<open>NaN\<close>.\<close>

definition tbt_flagged :: "lhci_assertion list \<Rightarrow> rat \<Rightarrow> bool" where
  "tbt_flagged as tbt \<longleftrightarrow>
     (case warn_tbt as of Some (_, _, Some ratified) \<Rightarrow> of_int (js_round tbt) > ratified | _ \<Rightarrow> False)"

definition tbt_cell :: "lhci_assertion list \<Rightarrow> rat \<Rightarrow> string" where
  "tbt_cell as tbt =
     (let ms = show_int (js_round tbt) @ '' ms''
      in if tbt_flagged as tbt then ''**'' @ ms @ ''** '' @ [CHR 0x82] else ms)"

section \<open>Rows\<close>

definition NO_REPORT :: string where
  "NO_REPORT = ''no report collected''"

definition state_row :: "(string \<Rightarrow> string option) \<Rightarrow> lhci_row \<Rightarrow> string option" where
  "state_row address row =
     (case (address (rw_url row), rw_measured row) of
        (None, _) \<Rightarrow> None
      | (Some label, None) \<Rightarrow> Some (summary_row (code_label label # replicate 6 [CHR 0x97] @ [NO_REPORT]))
      | (Some label, Some (n, m, reasons)) \<Rightarrow>
          map_option (\<lambda>cls. summary_row
            [code_label label, score_cell m ''categories:performance'', score_cell m ''categories:accessibility'',
             score_cell m ''categories:best-practices'',
             to_fixed 2 (or_zero (median_in m ''largest-contentful-paint'') / 1000) @ '' s'',
             tbt_cell (rw_assertions row) (or_zero (median_in m TBT)), to_fixed 5 cls,
             if bf_cell (median_in m ''bf-cache'') then ''pass'' else ''**fail**''])
          (median_in m ''cumulative-layout-shift''))"

fun fixed_list :: "nat \<Rightarrow> rat option list \<Rightarrow> string list option" where
  "fixed_list f [] = Some []"
| "fixed_list f (None # vs) = None"
| "fixed_list f (Some v # vs) = map_option (Cons (to_fixed f v)) (fixed_list f vs)"

text \<open>A row without a report is passed over; \<open>None\<close> is a \<open>toFixed\<close> or a URL that throws.\<close>

definition spread_row :: "(string \<Rightarrow> string option) \<Rightarrow> lhci_row \<Rightarrow> string list option" where
  "spread_row address row =
     (case rw_measured row of
        None \<Rightarrow> Some []
      | Some (n, m, reasons) \<Rightarrow>
          (case (address (rw_url row), fixed_list 0 (values_in m ''largest-contentful-paint''),
                 fixed_list 0 (values_in m TBT), fixed_list 5 (values_in m ''cumulative-layout-shift'')) of
             (Some label, Some lcp, Some tbt, Some cls) \<Rightarrow>
               Some [summary_row [code_label label, join '', '' lcp, join '', '' tbt, join '', '' cls,
                 if reasons = [] then [CHR 0x97] else join ''; '' reasons]]
           | _ \<Rightarrow> None))"

fun all_some :: "'a option list \<Rightarrow> 'a list option" where
  "all_some [] = Some []"
| "all_some (None # xs) = None"
| "all_some (Some x # xs) = map_option (Cons x) (all_some xs)"

definition verdict_line :: "int \<Rightarrow> string" where
  "verdict_line status =
     ''Result: **'' @ (if status = 0 then ''PASS'' else ''FAIL'') @ ''** ('' @ code_label ''lhci autorun''
     @ '' exit '' @ show_int status @ '')''"

text \<open>The first ceiling any row warns at; its sentence stands under the table.\<close>

definition ceiling_note :: "(rat option \<Rightarrow> string) \<Rightarrow> lhci_row list \<Rightarrow> string list" where
  "ceiling_note number rows =
     (case warn_tbt (concat (map rw_assertions rows)) of
        None \<Rightarrow> []
      | Some (_, _, ratified) \<Rightarrow>
          [[CHR 0x82] @ '' on TBT means the measured median is past 04 '' @ [CHR 0xA7]
           @ ''8.2's ratified ceiling of '' @ number ratified
           @ '' ms without breaching the runner ceiling the run is gated on. It is a warning, not a failure ''
           @ [CHR 0x97] @ '' see '' @ code_label ''web/lighthouserc.json'' @ '''s ''
           @ [CHR 0x22] @ ''TOTAL BLOCKING TIME'' @ [CHR 0x22] @ '' comment.'', []])"

definition STATE_HEADER :: "string list" where
  "STATE_HEADER = [''| State | Perf | A11y | BP | LCP | TBT | CLS | bf-cache |'',
     ''|---|---:|---:|---:|---:|---:|---:|:-:|'']"

definition SPREAD_HEADER :: "string list" where
  "SPREAD_HEADER =
     [''Per-run spread (median is what the assertions were evaluated against):'', [],
      ''| State | LCP runs (ms) | TBT runs (ms) | CLS runs | bf-cache reasons |'', ''|---|---|---|---|---|'']"

definition profile_section ::
  "(string \<Rightarrow> string option) \<Rightarrow> (rat option \<Rightarrow> string) \<Rightarrow> string \<times> string \<times> int \<times> lhci_row list
     \<Rightarrow> string list option"
where
  "profile_section address number = (\<lambda>(i, label, status, rows).
     (case (all_some (map (state_row address) rows), all_some (map (spread_row address) rows)) of
        (Some states, Some spreads) \<Rightarrow>
          Some ([''## '' @ i @ '' '' @ [CHR 0x97] @ '' '' @ label, [], verdict_line status, []]
            @ STATE_HEADER @ states @ [[]] @ ceiling_note number rows
            @ SPREAD_HEADER @ concat spreads @ [[]])
      | _ \<Rightarrow> None))"

text \<open>The file: \<open>None\<close> where a row makes it throw. \<open>generated\<close> is the time of the clock.\<close>

definition SUMMARY_INTRO :: "string list" where
  "SUMMARY_INTRO =
     [''# Lighthouse CI '' @ [CHR 0x97] @ '' '' @ [CHR 0xA7] @ ''8.2 assertion run'', [],
      ''Produced by '' @ code_label ''node scripts/lhci-run.mjs''
      @ '' (WO-29). Every number below is a **local lab measurement** against the seeded Compose stack ''
      @ [CHR 0x97] @ '' a Lighthouse simulated-throttling run on one machine, not field p75. See ''
      @ code_label ''docs/revamp/evidence/gate-4/lhci/README.md'' @ '' '' @ [CHR 0xA7] @ ''1.'', []]"

definition renderSummary ::
  "(string \<Rightarrow> string option) \<Rightarrow> (rat option \<Rightarrow> string) \<Rightarrow> string
     \<Rightarrow> (string \<times> string \<times> int \<times> lhci_row list) list \<Rightarrow> nat \<Rightarrow> string option \<Rightarrow> string option"
where
  "renderSummary address number generated results assertionCount baseUrl =
     map_option (\<lambda>sections. join [CHR 0x0A]
       (SUMMARY_INTRO
        @ [''- Generated: '' @ code_label generated,
           ''- Base URL: '' @ code_label (case baseUrl of None \<Rightarrow> ''(lighthouserc.json default)'' | Some b \<Rightarrow> b),
           ''- Assertions evaluated: **'' @ show_nat assertionCount @ ''**'', []]
        @ concat sections) @ [CHR 0x0A])
     (all_some (map (profile_section address number) results))"

section \<open>Laws\<close>

lemma warn_tbt_is: "warn_tbt as = Some (audit, level, c) \<Longrightarrow> audit = TBT \<and> level = Level_warn"
  by (auto simp: warn_tbt_def find_Some_iff)

text \<open>The mark: whole milliseconds are compared, so it stands exactly when the median is past the
  ceiling where that is whole, but for medians that are past it by less than half a millisecond.\<close>

lemma mark_is_right:
  assumes "warn_tbt as = Some (TBT, Level_warn, Some (of_int c))"
  shows "tbt_flagged as tbt \<longleftrightarrow> of_int c + 1 / 2 \<le> tbt"
proof -
  have "tbt_flagged as tbt \<longleftrightarrow> c < js_round tbt" using assms by (simp add: tbt_flagged_def)
  also have "\<dots> \<longleftrightarrow> c + 1 \<le> js_round tbt" by (rule add1_zle_eq [symmetric])
  also have "\<dots> \<longleftrightarrow> of_int (c + 1) \<le> tbt + 1 / 2" unfolding js_round_def by (rule le_floor_iff)
  also have "\<dots> \<longleftrightarrow> of_int c + 1 / 2 \<le> tbt" by (simp add: field_simps)
  finally show ?thesis .
qed

lemma past_the_ceiling_unmarked:
  "\<not> tbt_flagged [(TBT, Level_warn, Some 200)] (2004 / 10) \<and> (2004 / 10 :: rat) > 200"
proof -
  have "warn_tbt [(TBT, Level_warn, Some 200)] = Some (TBT, Level_warn, Some (of_int 200))"
    by (simp add: warn_tbt_def)
  from mark_is_right [OF this] show ?thesis by simp
qed

lemma all_some_iff: "all_some xs = Some ys \<longleftrightarrow> xs = map Some ys"
proof (induction xs arbitrary: ys)
  case (Cons x xs)
  then show ?case by (cases x; cases ys) auto
qed auto

text \<open>Every row of the results has its line, and one without a report says so instead of a number.\<close>

lemma rows_are_printed:
  assumes "profile_section address number (i, label, status, rows) = Some lines"
  shows "\<exists>states. length states = length rows \<and> set states \<subseteq> set lines \<and> verdict_line status \<in> set lines
    \<and> (\<forall>k < length rows. state_row address (rows ! k) = Some (states ! k))"
proof -
  obtain states where s: "all_some (map (state_row address) rows) = Some states"
    using assms by (auto simp: profile_section_def split: option.splits)
  then have "set states \<subseteq> set lines" "verdict_line status \<in> set lines"
    using assms by (auto simp: profile_section_def split: option.splits)
  moreover have rows: "map (state_row address) rows = map Some states" using s by (simp add: all_some_iff)
  have len: "length states = length rows" using arg_cong [OF rows, of length] by simp
  moreover have "state_row address (rows ! k) = Some (states ! k)" if "k < length rows" for k
    using rows that len nth_map by metis
  ultimately show ?thesis using len by blast
qed

lemma missing_report_row:
  "rw_measured row = None \<Longrightarrow> address (rw_url row) = Some label \<Longrightarrow>
     state_row address row = Some (summary_row (code_label label # replicate 6 [CHR 0x97] @ [NO_REPORT]))
   \<and> spread_row address row = Some []"
  by (simp add: state_row_def spread_row_def)

text \<open>A median that is \<open>null\<close> prints as 0, except the layout shift, whose row makes the printing throw.\<close>

lemma null_medians:
  "median_in m i = None \<Longrightarrow> score_cell m i = show_int 0"
  "address (rw_url row) = Some label \<Longrightarrow> rw_measured row = Some (n, m, reasons) \<Longrightarrow>
     state_row address row = None \<longleftrightarrow> median_in m ''cumulative-layout-shift'' = None"
  by (simp_all add: score_cell_def js_round_zero or_zero_def state_row_def)

end
