(* ===== verification/Vitals.thy ===== *)
theory Vitals
  imports Diag_Recorder Diag_Redact JS_Number
begin

text \<open>
  The web vitals of the diagnostics (\<open>web/lib/diagnostics/vitals.ts\<close>) and the store the panel
  subscribes to (\<open>subscribe\<close> and \<open>getSnapshot\<close> of \<open>ring.ts\<close>). The library is the environment: it loads
  or fails, and then calls back with metrics, of which a double is the rational it stands for.
\<close>

section \<open>The record of a metric\<close>

definition TRACKED_VITALS :: "string list" where
  "TRACKED_VITALS = [''LCP'', ''INP'', ''CLS'']"

record vital_metric =
  vm_name :: string
  vm_value :: rat
  vm_rating :: string
  vm_navigationType :: "string option"

text \<open>\<open>k / 1000\<close> as a number: its text has at most three places and no zero at the end.\<close>

definition thousandths :: "int \<Rightarrow> jnum" where
  "thousandths k =
     (if k mod 1000 = 0 then JInt (k div 1000)
      else JFrac (rev (dropWhile (\<lambda>c. c = CHR ''0'') (rev (to_fixed 3 (of_int k / 1000))))))"

definition vitalRecord :: "vital_metric \<Rightarrow> int \<Rightarrow> diagnostic_input" where
  "vitalRecord metric now =
     (let unitless = (vm_name metric = ''CLS'')
      in (record_input DK_vital (vm_name metric) now Ph_idle)
           \<lparr>di_detail := Some
              [(''value'', JNum (if unitless then thousandths (js_round (vm_value metric * 1000))
                               else JInt (js_round (vm_value metric)))),
               (''rating'', JStr (vm_rating metric)),
               (''unit'', JStr (if unitless then [] else ''ms'')),
               (''navigationType'',
                 (case vm_navigationType metric of None \<Rightarrow> JNull | Some t \<Rightarrow> JStr t))]\<rparr>)"

section \<open>The reporter\<close>

datatype vitals_phase = Vitals_loading | Vitals_failed | Vitals_reporting

record vitals_run =
  vr_phase :: vitals_phase
  vr_ring :: ring

datatype vitals_event = Library_loads | Library_fails | Library_reports vital_metric int

text \<open>Only the three callbacks that were registered exist, and none before the library has loaded.\<close>

fun startWebVitals :: "vitals_run \<Rightarrow> vitals_event \<Rightarrow> vitals_run" where
  "startWebVitals s Library_loads =
     (if vr_phase s = Vitals_loading then s\<lparr>vr_phase := Vitals_reporting\<rparr> else s)"
| "startWebVitals s Library_fails =
     (if vr_phase s = Vitals_loading then s\<lparr>vr_phase := Vitals_failed\<rparr> else s)"
| "startWebVitals s (Library_reports metric now) =
     (if vr_phase s = Vitals_reporting \<and> vm_name metric \<in> set TRACKED_VITALS
      then s\<lparr>vr_ring := fst (ring_push (vr_ring s) (vitalRecord metric now))\<rparr> else s)"

fun reported :: "bool \<Rightarrow> vitals_event list \<Rightarrow> diagnostic_input list" where
  "reported loaded [] = []"
| "reported loaded (Library_loads # es) = reported True es"
| "reported loaded (Library_fails # es) = (if loaded then reported loaded es else [])"
| "reported loaded (Library_reports metric now # es) =
     (if loaded \<and> vm_name metric \<in> set TRACKED_VITALS then [vitalRecord metric now] else [])
     @ reported loaded es"

lemma ring_is_push: "ring_is c xs r \<Longrightarrow> ring_is c (xs @ [x]) (fst (ring_push r x))"
  using ring_is_pushAll [of c xs r "[x]"] by (simp add: ring_pushAll_def ring_push_def)

lemma failed_stays: "vr_phase s = Vitals_failed \<Longrightarrow> foldl startWebVitals s es = s"
proof (induction es)
  case (Cons e es)
  then show ?case by (cases e) simp_all
qed simp

text \<open>
  The ring holds the newest of what it held and of the records of the three metrics that were
  reported once the library was there; a library that fails to load leaves it as it was.
\<close>

lemma vitals_are_recorded:
  assumes "ring_is c xs (vr_ring s)" "vr_phase s = (if loaded then Vitals_reporting else Vitals_loading)"
  shows "ring_contents (vr_ring (foldl startWebVitals s es)) = take_last c (xs @ reported loaded es)"
  using assms
proof (induction es arbitrary: s xs loaded)
  case Nil
  then show ?case using ring_is_contents by simp
next
  case (Cons e es)
  show ?case
  proof (cases e)
    case Library_loads
    then show ?thesis using Cons.prems Cons.IH [of xs "startWebVitals s e" True] by (simp split: if_splits)
  next
    case Library_fails
    then show ?thesis
      using Cons.prems Cons.IH [of xs s loaded] failed_stays [of "s\<lparr>vr_phase := Vitals_failed\<rparr>"]
        ring_is_contents [of c xs "vr_ring s"]
      by (cases loaded) simp_all
  next
    case (Library_reports metric now)
    have "ring_is c (xs @ [vitalRecord metric now]) (fst (ring_push (vr_ring s) (vitalRecord metric now)))"
      using Cons.prems(1) by (rule ring_is_push)
    then show ?thesis
      using Library_reports Cons.prems Cons.IH [of xs s loaded]
        Cons.IH [of "xs @ [vitalRecord metric now]" "startWebVitals s e" loaded]
      by (auto split: if_splits)
  qed
qed

text \<open>What is recorded of a value is within half a unit of its last place, and it survives redaction.\<close>

lemma vital_value:
  "\<exists>n. map_of (the (redactDetail (di_detail (vitalRecord metric now)))) ''value'' = Some (JNum n)
     \<and> n = (if vm_name metric = ''CLS'' then thousandths (js_round (vm_value metric * 1000))
            else JInt (js_round (vm_value metric)))"
proof -
  have "\<not> matchesKey ''value'' REDACTED_KEY_PARTS" by code_simp
  then show ?thesis by (simp add: vitalRecord_def redactDetail_def own_keys_def redactValue_def redact_inner_def Let_def)
qed

lemma layout_shift_near: "\<bar>of_int (js_round (v * 1000)) / 1000 - v\<bar> \<le> (1 / 2000 :: rat)"
  using js_round_near [of "v * 1000"] by (simp add: abs_le_iff field_simps)

section \<open>The store\<close>

text \<open>A ring with its listeners, each known by a number, and the calls they got. A \<open>Set\<close> keeps the
  order in which its members came.\<close>

record watched_ring =
  wr_ring :: ring
  wr_listeners :: "nat list"
  wr_calls :: "nat list"

datatype store_event = Subscribes nat | Unsubscribes nat | Pushes diagnostic_input | Clears

definition wr_emit :: "ring \<Rightarrow> watched_ring \<Rightarrow> watched_ring" where
  "wr_emit r w = w\<lparr>wr_ring := r, wr_calls := wr_calls w @ wr_listeners w\<rparr>"

fun store_step :: "watched_ring \<Rightarrow> store_event \<Rightarrow> watched_ring" where
  "store_step w (Subscribes i) =
     (if i \<in> set (wr_listeners w) then w else w\<lparr>wr_listeners := wr_listeners w @ [i]\<rparr>)"
| "store_step w (Unsubscribes i) = w\<lparr>wr_listeners := filter (\<lambda>j. j \<noteq> i) (wr_listeners w)\<rparr>"
| "store_step w (Pushes x) = wr_emit (fst (ring_push (wr_ring w) x)) w"
| "store_step w Clears = wr_emit (ring_clear (wr_ring w)) w"

definition getSnapshot :: "watched_ring \<Rightarrow> diagnostic_record list" where
  "getSnapshot w = dr_snapshot (wr_ring w)"

definition writes :: "store_event \<Rightarrow> bool" where
  "writes e \<longleftrightarrow> (case e of Pushes x \<Rightarrow> True | Clears \<Rightarrow> True | _ \<Rightarrow> False)"

text \<open>The snapshot changes only by a write, which a listener that is subscribed hears exactly once.\<close>

lemma snapshot_is_stable: "\<not> writes e \<Longrightarrow> getSnapshot (store_step w e) = getSnapshot w"
  by (cases e) (simp_all add: writes_def getSnapshot_def)

interpretation watched: reducer store_step
  "\<lparr>wr_ring = r, wr_listeners = [], wr_calls = []\<rparr>" "\<lambda>w. distinct (wr_listeners w)"
proof
  show "distinct (wr_listeners (store_step w e))" if "distinct (wr_listeners w)" for w e
    using that by (cases e) (simp_all add: wr_emit_def)
qed simp

lemma subscribed_stays:
  "i \<in> set (wr_listeners w) \<Longrightarrow> e \<noteq> Unsubscribes i \<Longrightarrow> i \<in> set (wr_listeners (store_step w e))"
  by (cases e) (auto simp: wr_emit_def)

lemma counted_once: "distinct xs \<Longrightarrow> x \<in> set xs \<Longrightarrow> count_list xs x = 1"
  by (induction xs) (auto simp: count_list_0_iff)

lemma heard_once_each:
  assumes "distinct (wr_listeners w)" "i \<in> set (wr_listeners w)" "Unsubscribes i \<notin> set es"
  shows "count_list (wr_calls (runs store_step w es)) i
    = count_list (wr_calls w) i + length (filter writes es)"
  using assms
proof (induction es arbitrary: w)
  case (Cons e es)
  have "distinct (wr_listeners (store_step w e))" "i \<in> set (wr_listeners (store_step w e))"
    using Cons.prems watched.inv_step subscribed_stays by auto
  moreover have "count_list (wr_calls (store_step w e)) i
      = count_list (wr_calls w) i + (if writes e then 1 else 0)"
    using Cons.prems by (cases e) (simp_all add: wr_emit_def writes_def counted_once)
  ultimately show ?case using Cons by simp
qed simp

end
