(* ===== verification/Controls.thy ===== *)
theory Controls
  imports Composer Run_Surfaces Complex_Main
begin

text \<open>
  The controls every surface is built from (\<open>web/components/primitives/\<close>: \<open>Button\<close>, \<open>Disclosure\<close>,
  \<open>Textarea\<close>, \<open>Field\<close>, \<open>ScrollRegion\<close>, \<open>Skeleton\<close>) and the question composer built from them
  (\<open>web/components/features/QueryComposer.tsx\<close>): what it shows, and the machine of its text, its
  in-flight guard and its two ways to send, also as the landing page and the thread mount it. Class names and generated ids are left out; an id is
  named by its role.
\<close>

section \<open>Button\<close>

text \<open>A caller's \<open>aria-disabled\<close>: absent, a boolean, or a text.\<close>

datatype aria_disabled = Aria_absent | Aria_bool bool | Aria_text string

record button_props =
  bn_busy :: bool
  bn_iconOnly :: bool
  bn_disabled :: bool
  bn_ariaDisabled :: aria_disabled
  bn_ariaLabel :: "string option"
  bn_ariaLabelledby :: "string option"

definition plain_button :: button_props where
  "plain_button = \<lparr>bn_busy = False, bn_iconOnly = False, bn_disabled = False,
     bn_ariaDisabled = Aria_absent, bn_ariaLabel = None, bn_ariaLabelledby = None\<rparr>"

record button_view =
  bv_disabled :: bool
  bv_busy :: bool
  bv_ariaDisabled :: bool
  bv_unavailable :: bool

definition filled :: "string option \<Rightarrow> bool" where
  "filled s \<longleftrightarrow> (case s of None \<Rightarrow> False | Some t \<Rightarrow> t \<noteq> [])"

definition button_refuses :: "button_props \<Rightarrow> bool" where
  "button_refuses p \<longleftrightarrow> bn_busy p \<or> bn_ariaDisabled p = Aria_bool True"

text \<open>\<open>None\<close>: the render throws for a control without a name.\<close>

definition Button :: "button_props \<Rightarrow> button_view option" where
  "Button p =
     (if bn_iconOnly p \<and> \<not> filled (bn_ariaLabel p) \<and> \<not> filled (bn_ariaLabelledby p) then None
      else Some \<lparr>bv_disabled = bn_disabled p, bv_busy = bn_busy p, bv_ariaDisabled = button_refuses p,
                 bv_unavailable = bn_disabled p \<or> button_refuses p\<rparr>)"

text \<open>A click: nothing reaches a \<open>disabled\<close> button, a refusing one prevents the default action.\<close>

datatype click = Click_lost | Click_prevented | Click_passed

definition button_click :: "button_props \<Rightarrow> click" where
  "button_click p =
     (if bn_disabled p then Click_lost else if button_refuses p then Click_prevented else Click_passed)"

lemma button_is_honest:
  "Button p = Some v \<Longrightarrow> (button_click p = Click_passed \<longleftrightarrow> \<not> bv_unavailable v)
     \<and> (button_click p = Click_prevented \<longleftrightarrow> bv_ariaDisabled v \<and> \<not> bv_disabled v)"
  by (auto simp: Button_def button_click_def split: if_splits)

text \<open>The text \<open>"true"\<close> is replaced by nothing: the control neither says it is disabled nor refuses.\<close>

lemma a_text_does_not_disable:
  "Button (plain_button\<lparr>bn_ariaDisabled := Aria_text t\<rparr>) = Button plain_button"
  "button_click (plain_button\<lparr>bn_ariaDisabled := Aria_text t\<rparr>) = Click_passed"
  by (simp_all add: Button_def button_click_def button_refuses_def plain_button_def)

section \<open>Disclosure\<close>

text \<open>The \<open>open\<close> prop is \<open>None\<close> when the component owns the state; the log is what \<open>onOpenChange\<close> got.\<close>

record disclosure =
  dc_uncontrolled :: bool
  dc_told :: "bool list"

definition Disclosure :: "bool \<Rightarrow> disclosure" where
  "Disclosure defaultOpen = \<lparr>dc_uncontrolled = defaultOpen, dc_told = []\<rparr>"

definition isOpen :: "bool option \<Rightarrow> disclosure \<Rightarrow> bool" where
  "isOpen opened d = (case opened of None \<Rightarrow> dc_uncontrolled d | Some b \<Rightarrow> b)"

definition disclosure_toggle :: "disclosure \<Rightarrow> bool option \<Rightarrow> disclosure" where
  "disclosure_toggle d opened =
     (let next = (\<not> isOpen opened d)
      in d\<lparr>dc_uncontrolled := (if opened = None then next else dc_uncontrolled d),
           dc_told := dc_told d @ [next]\<rparr>)"

lemma uncontrolled_toggles:
  "dc_uncontrolled (foldl disclosure_toggle d (replicate n None)) = (dc_uncontrolled d \<noteq> odd n)"
  by (induction n arbitrary: d) (auto simp: disclosure_toggle_def isOpen_def Let_def)

lemma controlled_keeps:
  "list_all (\<lambda>opened. opened \<noteq> None) os \<Longrightarrow>
     dc_uncontrolled (foldl disclosure_toggle d os) = dc_uncontrolled d
   \<and> dc_told (foldl disclosure_toggle d os) = dc_told d @ map (\<lambda>opened. opened = Some False) os"
  by (induction os arbitrary: d) (auto simp: disclosure_toggle_def isOpen_def Let_def)

section \<open>Textarea, Field, ScrollRegion and Skeleton\<close>

datatype described = By_caller string | By_hint | By_count | By_error

record textarea_props =
  tp_error :: "string option"
  tp_hint :: bool
  tp_limit :: "nat option"
  tp_nearLimitRatio :: rat
  tp_describedBy :: "string option"

record textarea_view =
  tv_count :: "(nat \<times> nat) option"
  tv_over :: bool
  tv_near :: bool
  tv_invalid :: bool
  tv_describedBy :: "described list"
  tv_error :: "string option"

definition Textarea :: "textarea_props \<Rightarrow> string \<Rightarrow> textarea_view" where
  "Textarea p text =
     (let count = length text;
          over = (case tp_limit p of None \<Rightarrow> False | Some l \<Rightarrow> count > l);
          near = (case tp_limit p of None \<Rightarrow> False
                  | Some l \<Rightarrow> \<not> over \<and> int count \<ge> \<lfloor>of_nat l * tp_nearLimitRatio p\<rfloor>)
      in \<lparr>tv_count = map_option (Pair count) (tp_limit p), tv_over = over, tv_near = near,
          tv_invalid = filled (tp_error p) \<or> over,
          tv_describedBy =
            (case tp_describedBy p of None \<Rightarrow> [] | Some d \<Rightarrow> if d = [] then [] else [By_caller d])
            @ (if tp_hint p then [By_hint] else []) @ (if tp_limit p \<noteq> None then [By_count] else [])
            @ (if filled (tp_error p) then [By_error] else []),
          tv_error = (if filled (tp_error p) then tp_error p else None)\<rparr>)"

text \<open>The text an uncontrolled field mirrors, and the one it counts.\<close>

definition mirrored_text :: "string option \<Rightarrow> string \<Rightarrow> string" where
  "mirrored_text value mirrored = (case value of None \<Rightarrow> mirrored | Some v \<Rightarrow> v)"

definition handleChange :: "string option \<Rightarrow> string \<Rightarrow> string \<Rightarrow> string" where
  "handleChange value mirrored typed = (case value of None \<Rightarrow> typed | Some v \<Rightarrow> mirrored)"

record field_view =
  fd_invalid :: bool
  fd_describedBy :: "described list"

definition Field :: "string option \<Rightarrow> string option \<Rightarrow> field_view" where
  "Field hint error =
     \<lparr>fd_invalid = filled error,
      fd_describedBy = (if filled hint then [By_hint] else []) @ (if filled error then [By_error] else [])\<rparr>"

text \<open>A region without a name throws; \<open>None\<close> is a label that is no text.\<close>

definition ScrollRegion :: "string option \<Rightarrow> string option" where
  "ScrollRegion label = (case label of None \<Rightarrow> None | Some l \<Rightarrow> if trim l = [] then None else Some l)"

text \<open>The widths of the bars.\<close>

definition Skeleton :: "int \<Rightarrow> string option \<Rightarrow> string list" where
  "Skeleton lines width =
     (let count = nat (max 1 lines); w = (case width of None \<Rightarrow> ''100%'' | Some w \<Rightarrow> w)
      in map (\<lambda>index. if index = count - 1 \<and> count > 1 then ''60%'' else w) [0..<count])"

lemma skeleton_bars: "length (Skeleton lines width) = nat (max 1 lines)"
  by (simp add: Skeleton_def Let_def)

lemma textarea_says_what_is_wrong:
  "tv_invalid (Textarea p text) \<longleftrightarrow> tv_error (Textarea p text) \<noteq> None
     \<or> (\<exists>l. tp_limit p = Some l \<and> l < length text)"
  "By_error \<in> set (tv_describedBy (Textarea p text)) \<longleftrightarrow> tv_error (Textarea p text) \<noteq> None"
  "\<not> (tv_over (Textarea p text) \<and> tv_near (Textarea p text))"
  by (auto simp: Textarea_def filled_def Let_def split: option.splits)

section \<open>The question composer\<close>

datatype composer_variant = Landing | Follow_up

record query_props =
  qc_variant :: composer_variant
  qc_value :: "string option"
  qc_pending :: bool
  qc_unreachable :: "api_failure option"
  qc_failure :: "api_failure option"
  qc_orphanThreadHref :: "string option"

definition refusing :: "query_props \<Rightarrow> composer_props" where
  "refusing p = \<lparr>qp_pending = qc_pending p, qp_unreachable = qc_unreachable p\<rparr>"

definition LANDING_disclosure :: string where
  "LANDING_disclosure = ''Generating a plan starts a billable run. You review and edit the plan before any arXiv search or paper reading happens.''"

definition LANDING_process :: "string list" where
  "LANDING_process = [''Question'', ''Plan you approve'', ''arXiv run'', ''Briefing'']"

text \<open>What is shown; the reason is spoken always and printed only for an unreachable service.\<close>

record query_view =
  qv_heading :: "(string \<times> string) option"
  qv_label :: string
  qv_placeholder :: string
  qv_rows :: nat
  qv_counterState :: string
  qv_counter :: string
  qv_textarea :: textarea_view
  qv_disclosure :: string
  qv_button :: "button_view option"
  qv_buttonText :: string
  qv_describedByReason :: bool
  qv_reason :: "(string \<times> bool) option"
  qv_banner :: "banner_props option"
  qv_process :: "string list"

definition submit_button :: "query_props \<Rightarrow> string \<Rightarrow> button_props" where
  "submit_button p text = plain_button\<lparr>bn_busy := qc_pending p,
     bn_ariaDisabled := (if refuses (refusing p) text then Aria_bool True else Aria_absent)\<rparr>"

definition QueryComposer :: "query_props \<Rightarrow> string \<Rightarrow> query_view" where
  "QueryComposer p mirrored =
     (let text = mirrored_text (qc_value p) mirrored; landing = (qc_variant p = Landing);
          over = is_over text
      in \<lparr>qv_heading = (if landing then Some (''Evidence Workbench'', ''What should the literature settle?'')
                        else None),
          qv_label = (if landing then ''Research question'' else ''Follow-up question''),
          qv_placeholder =
            (if landing
             then ''e.g. How do current systems evaluate faithfulness in retrieval-augmented generation?''
             else ''e.g. Which of those findings are contested, and what is the strongest case against them?''),
          qv_rows = (if landing then 4 else 3),
          qv_counterState = (if over then ''over'' else if is_near text then ''near'' else ''within''),
          qv_counter = queryCounter (length text),
          qv_textarea = Textarea \<lparr>tp_error = (if over then Some (queryOverLimit (length text)) else None),
            tp_hint = True, tp_limit = None, tp_nearLimitRatio = 9 / 10, tp_describedBy = None\<rparr> text,
          qv_disclosure = LANDING_disclosure, qv_button = Button (submit_button p text),
          qv_buttonText = (if qc_pending p then ''Generating plan'' @ [CHR 0x85] else ''Generate plan''),
          qv_describedByReason = (refusal_reason (refusing p) text \<noteq> None),
          qv_reason = map_option (\<lambda>r. (r, qc_unreachable p \<noteq> None)) (refusal_reason (refusing p) text),
          qv_banner = composer_banner (qc_failure p) (qc_orphanThreadHref p),
          qv_process = (if landing then LANDING_process else [])\<rparr>)"

section \<open>Its machine\<close>

text \<open>\<open>qm_mirrored\<close> is the text of an uncontrolled composer, \<open>qm_asked\<close> what \<open>onSubmit\<close> was called with,
  \<open>qm_told\<close> what \<open>onValueChange\<close> was; the promise of a call settles once.\<close>

record composer_machine =
  qm_mirrored :: string
  qm_inFlight :: bool
  qm_asked :: "string list"
  qm_told :: "string list"


datatype composer_event =
    Types string
  | Presses_button
  | Presses_key bool bool string
  | Call_settles

text \<open>\<open>trySubmit\<close>: the guard goes up in the same tick.\<close>

definition composer_try :: "query_props \<Rightarrow> composer_machine \<Rightarrow> composer_machine" where
  "composer_try p m =
     (case trySubmit (qm_inFlight m) (refusing p) (mirrored_text (qc_value p) (qm_mirrored m)) of
        None \<Rightarrow> m
      | Some question \<Rightarrow> m\<lparr>qm_inFlight := True, qm_asked := qm_asked m @ [question]\<rparr>)"

fun composer_step :: "composer_machine \<Rightarrow> query_props \<times> composer_event \<Rightarrow> composer_machine" where
  "composer_step m (p, Types typed) =
     m\<lparr>qm_mirrored := handleChange (qc_value p) (qm_mirrored m) typed, qm_told := qm_told m @ [typed]\<rparr>"
| "composer_step m (p, Presses_button) =
     (if button_click (submit_button p (mirrored_text (qc_value p) (qm_mirrored m))) = Click_passed
      then composer_try p m else m)"
| "composer_step m (p, Presses_key meta ctrl key) =
     (if (meta \<or> ctrl) \<and> key = ''Enter'' then composer_try p m else m)"
| "composer_step m (p, Call_settles) = m\<lparr>qm_inFlight := False\<rparr>"


text \<open>The last thing typed into an uncontrolled composer.\<close>

definition typed_text :: "string \<Rightarrow> (query_props \<times> composer_event) list \<Rightarrow> string" where
  "typed_text start es =
     foldl (\<lambda>t (p, e). case e of Types typed \<Rightarrow> handleChange (qc_value p) t typed | _ \<Rightarrow> t) start es"

lemma composer_try_keeps [simp]: "qm_mirrored (composer_try p m) = qm_mirrored m"
  by (simp add: composer_try_def split: option.split)

lemma typed_kept: "qm_mirrored (foldl composer_step m es) = typed_text (qm_mirrored m) es"
proof (induction es arbitrary: m)
  case (Cons e es)
  obtain p ev where e: "e = (p, ev)" by (cases e)
  show ?case using Cons by (cases ev) (simp_all add: e typed_text_def)
qed (simp add: typed_text_def)




section \<open>As the two pages mount it\<close>



datatype mounted_event = In_composer query_props composer_event | Renders



definition typed_in :: "mounted_event list \<Rightarrow> string list" where
  "typed_in es = List.map_filter
     (\<lambda>e. case e of In_composer p (Types typed) \<Rightarrow> Some typed | _ \<Rightarrow> None) es"


lemma typed_in_simps [simp]:
  "typed_in [] = []"
  "typed_in (e # es) = (case e of In_composer p (Types typed) \<Rightarrow> [typed] | _ \<Rightarrow> []) @ typed_in es"
  by (auto simp: typed_in_def map_filter_def split: mounted_event.split composer_event.split)

lemma composer_try_told [simp]: "qm_told (composer_try p m) = qm_told m"
  by (simp add: composer_try_def split: option.split)








text \<open>The control as it is shown: it says that it refuses exactly when a press is refused, it then has
  a reason unless a question is on its way, and the reason is printed only for an unreachable service.\<close>

lemma composer_shows_why:
  "let v = QueryComposer p mirrored; text = mirrored_text (qc_value p) mirrored
   in (\<exists>b. qv_button v = Some b \<and> (bv_ariaDisabled b \<longleftrightarrow> refuses (refusing p) text)
           \<and> (bv_busy b \<longleftrightarrow> qc_pending p))
    \<and> (refuses (refusing p) text \<longrightarrow> qc_pending p \<or> qv_reason v \<noteq> None)
    \<and> (qv_describedByReason v \<longleftrightarrow> qv_reason v \<noteq> None)
    \<and> (\<forall>reason printed. qv_reason v = Some (reason, printed) \<longrightarrow> (printed \<longleftrightarrow> qc_unreachable p \<noteq> None))
    \<and> (tv_invalid (qv_textarea v) \<longleftrightarrow> 8000 < length text)"
  by (auto simp: QueryComposer_def Button_def submit_button_def plain_button_def button_refuses_def
    refuses_def refusing_def Textarea_def filled_def queryOverLimit_def is_over_def MAX_QUERY_LEN_def
    Let_def split: option.splits)

end
