(* ===== verification/Surfaces.thy ===== *)
theory Surfaces
  imports Controls Thread_Rail Learn_Path
begin

text \<open>
  The small surfaces: what is shown when a page throws or does not exist
  (\<open>RouteError.tsx\<close>, \<open>GlobalErrorSurface.tsx\<close>, \<open>NotFound.tsx\<close> with \<open>lib/copy/recovery.ts\<close> and
  \<open>globalError.ts\<close>), the library of reading paths (\<open>PathListSurface.tsx\<close>, \<open>PathList.tsx\<close>,
  \<open>PathUnavailable\<close>), and the confirmation of a deletion (\<open>ConfirmDialog.tsx\<close>) over the thread rail.
  A surface is what it shows and what its controls call; the dialog library closes on its own
  button, on Escape and on a press outside.
\<close>

section \<open>Recovery\<close>

text \<open>The reference a reader may quote: its label and the digest, with the sentence under it.\<close>

record recovery_surface =
  rs_heading :: string
  rs_body :: "string list"
  rs_reference :: "(string \<times> string) option"
  rs_referenceNote :: "string option"
  rs_action :: string

datatype recovery_call = Calls_reset | Calls_reload | Follows string

definition digest_shown :: "string option \<Rightarrow> string option" where
  "digest_shown digest = (if digest = None \<or> digest = Some [] then None else digest)"

definition RouteError ::
  "string \<Rightarrow> string \<Rightarrow> string \<Rightarrow> string option \<Rightarrow> string \<Rightarrow> string \<Rightarrow> recovery_surface"
where
  "RouteError heading body actionLabel digest digestLabel digestRecovery =
     \<lparr>rs_heading = heading, rs_body = [body],
      rs_reference = map_option (Pair digestLabel) (digest_shown digest),
      rs_referenceNote = map_option (\<lambda>d. digestRecovery) (digest_shown digest), rs_action = actionLabel\<rparr>"

datatype boundary_kind = Workspace_boundary | Thread_boundary

definition BoundaryRouteError :: "boundary_kind \<Rightarrow> string option \<Rightarrow> recovery_surface" where
  "BoundaryRouteError kind digest =
     (let inThread = (kind = Thread_boundary)
      in RouteError
        (if inThread then ''This thread could not be drawn'' else ''This page could not be rendered'')
        (if inThread
         then ''Something failed while drawing this thread. Whatever the research service already accepted is untouched, and this page sends nothing again on its own.''
         else ''Something failed while drawing this page. The run itself is unaffected.'')
        ''Try rendering it again'' digest ''Reference''
        ''Quote this reference to whoever operates this deployment.'')"

definition GlobalErrorSurface :: "string option \<Rightarrow> recovery_surface" where
  "GlobalErrorSurface digest =
     \<lparr>rs_heading = ''The workbench could not be drawn'',
      rs_body = [''The failure reached above the whole workbench, so its frame '' @ [CHR 0x97]
          @ '' the header, the thread rail, the theme control '' @ [CHR 0x97]
          @ '' is not on this screen. Reloading this address is the only recovery from here.'',
        ''Nothing the research service already accepted is affected. This page never held the work itself.''],
      rs_reference = map_option (Pair ''Reference'') (digest_shown digest), rs_referenceNote = None,
      rs_action = ''Reload this page''\<rparr>"

text \<open>Where a boundary is: its one control. The reset renders the segment again, nothing else.\<close>

datatype recovery_place = At_boundary boundary_kind | At_root

definition recovery_of :: "recovery_place \<Rightarrow> string option \<Rightarrow> recovery_surface" where
  "recovery_of place digest =
     (case place of At_boundary kind \<Rightarrow> BoundaryRouteError kind digest | At_root \<Rightarrow> GlobalErrorSurface digest)"

definition recovery_press :: "recovery_place \<Rightarrow> recovery_call" where
  "recovery_press place = (case place of At_boundary kind \<Rightarrow> Calls_reset | At_root \<Rightarrow> Calls_reload)"

text \<open>The links: the first always, the second when both its label and its address are given.\<close>

definition NotFound ::
  "string \<Rightarrow> string \<Rightarrow> string option \<Rightarrow> string option \<Rightarrow> (string \<times> recovery_call) list"
where
  "NotFound actionLabel actionHref secondaryLabel secondaryHref =
     (actionLabel, Follows actionHref)
     # (case (secondaryLabel, secondaryHref) of
          (Some label, Some href) \<Rightarrow> [(label, Follows href)] | _ \<Rightarrow> [])"

definition NotFoundPage :: "(string \<times> recovery_call) list" where
  "NotFoundPage = NotFound ''Start a new question'' ''/'' None None"

text \<open>A reference is shown at either boundary exactly when there is a digest that is not blank.\<close>

lemma reference_shown:
  "rs_reference (recovery_of place digest) \<noteq> None \<longleftrightarrow> (\<exists>d. digest = Some d \<and> d \<noteq> [])"
  "rs_reference (recovery_of place digest) = Some (label, d) \<Longrightarrow> digest = Some d \<and> label = ''Reference''"
  by (cases digest; cases place;
      auto simp: recovery_of_def BoundaryRouteError_def RouteError_def GlobalErrorSurface_def
        digest_shown_def Let_def split: if_splits)+

section \<open>The library of paths\<close>

record path_summary =
  ps_path_id :: string
  ps_title :: string
  ps_goal :: string
  ps_fixture :: bool
  ps_entry_count :: jnum
  ps_est_minutes_total :: jnum
  ps_updated_at :: string

record path_row =
  pr_key :: string
  pr_title :: string
  pr_badge :: "string option"
  pr_goal :: string
  pr_facts :: "(string \<times> string) list"
  pr_href :: string
  pr_link :: string

definition path_row_of :: "path_summary \<Rightarrow> path_row" where
  "path_row_of p =
     \<lparr>pr_key = ps_path_id p, pr_title = ps_title p,
      pr_badge = (if ps_fixture p then Some ''Fixture content'' else None), pr_goal = ps_goal p,
      pr_facts = [(''papers'', show_num (ps_entry_count p)), (''minutes'', show_num (ps_est_minutes_total p)),
                  (''Updated'', ps_updated_at p)],
      pr_href = ''/learn/paths/'' @ encodeURIComponent (ps_path_id p), pr_link = ''Open path''\<rparr>"

definition PathList :: "path_summary list \<Rightarrow> path_row list" where
  "PathList paths = map path_row_of paths"

datatype paths_query = Paths_pending | Paths_error | Paths_data "path_summary list"

datatype paths_view =
    Paths_loading string
  | Paths_unavailable string string "string option"
  | Paths_empty string string
  | Paths_shown "path_row list"

definition PathUnavailable :: "bool \<Rightarrow> paths_view" where
  "PathUnavailable retries =
     Paths_unavailable ''This path is unavailable''
       ''Learning content is not available from the research service right now.''
       (if retries then Some ''Try again'' else None)"

definition PathListSurface :: "paths_query \<Rightarrow> paths_view" where
  "PathListSurface query =
     (case query of
        Paths_pending \<Rightarrow> Paths_loading (''Loading paths'' @ [CHR 0x85])
      | Paths_error \<Rightarrow> PathUnavailable True
      | Paths_data paths \<Rightarrow>
          if paths = [] then
            Paths_empty ''No paths are published'' ''There is no published reading sequence to show yet.''
          else Paths_shown (PathList paths))"

text \<open>The link of a row names its path, whatever its id; two rows with one address are one path.\<close>

lemma drop_prefix: "drop (length xs) (xs @ ys) = ys"
  by simp

lemma path_href: "pr_href (path_row_of p) = ''/learn/paths/'' @ encodeURIComponent (ps_path_id p)"
  unfolding path_row_of_def path_row.select_convs ..

lemma path_link_opens_its_path:
  "decodeURIComponent (drop (length ''/learn/paths/'') (pr_href (path_row_of p))) = Some (ps_path_id p)"
  unfolding path_href drop_prefix by (rule decode_encode)

lemma path_links_distinct:
  "pr_href (path_row_of p) = pr_href (path_row_of q) \<longleftrightarrow> ps_path_id p = ps_path_id q"
proof
  assume "pr_href (path_row_of p) = pr_href (path_row_of q)"
  then have "Some (ps_path_id p) = Some (ps_path_id q)"
    unfolding path_link_opens_its_path [symmetric] by (rule arg_cong)
  then show "ps_path_id p = ps_path_id q" by simp
qed (simp only: path_href)

lemma every_path_has_a_row:
  "PathListSurface (Paths_data paths) = Paths_shown rows \<Longrightarrow>
     map pr_key rows = map ps_path_id paths \<and> rows \<noteq> []"
  by (auto simp: PathListSurface_def PathList_def path_row_of_def split: if_splits)

section \<open>The confirmation\<close>

record confirm_view =
  cf_cancel :: "button_view option"
  cf_accept :: "button_view option"
  cf_acceptText :: string
  cf_focusOnCancel :: bool

definition accept_button :: "bool \<Rightarrow> button_props" where
  "accept_button pending = plain_button\<lparr>bn_busy := pending\<rparr>"

definition ConfirmDialog :: "bool \<Rightarrow> string \<Rightarrow> string \<Rightarrow> confirm_view" where
  "ConfirmDialog pending confirm pendingText =
     \<lparr>cf_cancel = Button plain_button, cf_accept = Button (accept_button pending),
      cf_acceptText = (if pending then pendingText else confirm), cf_focusOnCancel = True\<rparr>"

datatype dialog_input = Presses_cancel | Presses_accept | Dismisses

datatype dialog_call = Calls_open_change bool | Calls_confirm

definition dialog_press :: "bool \<Rightarrow> dialog_input \<Rightarrow> dialog_call option" where
  "dialog_press pending press =
     (case press of
        Presses_accept \<Rightarrow>
          if button_click (accept_button pending) = Click_passed then Some Calls_confirm else None
      | _ \<Rightarrow> Some (Calls_open_change False))"

text \<open>The dialog in the rail, as it was last rendered: mounted when a deletion was asked about, and busy
  when the last one had not been answered.\<close>

definition dialog_in_rail :: "rail \<Rightarrow> dialog_input \<Rightarrow> rail" where
  "dialog_in_rail r press =
     (if rl_dialog r = None then r
      else case dialog_press (rl_busy r) press of
        Some Calls_confirm \<Rightarrow> rail_step r Rl_confirm
      | Some (Calls_open_change next) \<Rightarrow> if next then r else rail_step r Rl_cancel
      | None \<Rightarrow> r)"

text \<open>
  A press in the dialog deletes exactly when it is on the accepting control and that was not rendered
  busy: once it is, the control refuses by itself. Every other press only closes.
\<close>

lemma dialog_deletes:
  "deletes_of (rl_log (dialog_in_rail r press)) = deletes_of (rl_log r)
     @ (case rl_dialog r of
          Some thread \<Rightarrow> if press = Presses_accept \<and> \<not> rl_busy r then [ts_id thread] else []
        | None \<Rightarrow> [])"
  by (cases press)
    (auto simp: dialog_in_rail_def dialog_press_def accept_button_def plain_button_def button_click_def
      button_refuses_def confirmDelete_def rail_call_def split: option.split)

lemma accepting_control_is_named:
  "cf_acceptText (ConfirmDialog pending confirm pendingText) = (if pending then pendingText else confirm)"
  "\<exists>b. cf_accept (ConfirmDialog pending confirm pendingText) = Some b \<and> (bv_busy b \<longleftrightarrow> pending)"
  by (simp_all add: ConfirmDialog_def Button_def accept_button_def plain_button_def)

end
