(* ===== verification/Axe_Gate.thy ===== *)
theory Axe_Gate
  imports JS_Base
begin

text \<open>
  The accessibility gate of the end-to-end tier, \<open>web/e2e/support/axe.ts\<close>: the allowlist and its
  validation, the split of a run's violations, the failure text and the contrast measurements. axe
  itself is an input: its result is the record of the rules that failed, passed or could not be
  decided, with the nodes of each.
\<close>

section \<open>Results of axe\<close>

text \<open>What a check carries; a field that is not there is \<open>None\<close>. A target is a list of selectors, one for
  each frame or shadow host on the way to the node and the node's own last.\<close>

record contrast_check =
  cc_id :: string
  cc_fgColor :: "string option"
  cc_bgColor :: "string option"
  cc_contrastRatio :: "jnum option"
  cc_fontSize :: "string option"
  cc_fontWeight :: "string option"
  cc_expected :: "string option"

record axe_node =
  an_target :: "string list"
  an_checks :: "contrast_check list"
  an_failureSummary :: "string option"

record axe_violation =
  av_id :: string
  av_impact :: "string option"
  av_help :: string
  av_nodes :: "axe_node list"

record axe_results =
  ar_violations :: "axe_violation list"
  ar_passes :: "axe_violation list"
  ar_incomplete :: "axe_violation list"

definition GATED_RULES :: "string list" where
  "GATED_RULES = [''landmark-one-main'', ''region'', ''aria-allowed-role'', ''listitem'',
     ''color-contrast'', ''page-has-heading-one'']"

section \<open>The allowlist\<close>

record allowlist_entry =
  al_rule :: string
  al_state :: string
  al_selector :: string
  al_justification :: string
  al_owner :: string

datatype allowlist_error =
    Not_an_array | Entry_not_object nat | Field_missing nat string | Not_justified nat | Gated_rule nat string

definition MIN_JUSTIFICATION :: nat where
  "MIN_JUSTIFICATION = 20"

definition text_field :: "jobj \<Rightarrow> string \<Rightarrow> string option" where
  "text_field entry field =
     (case Option.bind (jprop entry field) as_string of
        None \<Rightarrow> None | Some s \<Rightarrow> if trim s = [] then None else Some s)"

text \<open>The fields are asked for in this order, and the first that is missing is thrown.\<close>

fun first_missing :: "jobj \<Rightarrow> string list \<Rightarrow> string option" where
  "first_missing entry [] = None"
| "first_missing entry (f # fs) = (if text_field entry f = None then Some f else first_missing entry fs)"

definition field_of :: "jobj \<Rightarrow> string \<Rightarrow> string" where
  "field_of entry f = (case text_field entry f of None \<Rightarrow> [] | Some s \<Rightarrow> s)"

definition parse_allowlist_entry :: "nat \<Rightarrow> json \<Rightarrow> allowlist_error + allowlist_entry" where
  "parse_allowlist_entry index v =
     (case as_record v of
        None \<Rightarrow> Inl (Entry_not_object index)
      | Some entry \<Rightarrow>
          (case first_missing entry [''rule'', ''state'', ''selector'', ''owner''] of
             Some f \<Rightarrow> Inl (Field_missing index f)
           | None \<Rightarrow>
               (let why = (case Option.bind (jprop entry ''justification'') as_string of
                             None \<Rightarrow> [] | Some s \<Rightarrow> trim s);
                    rule = field_of entry ''rule''
                in if length why < MIN_JUSTIFICATION then Inl (Not_justified index)
                   else if rule \<in> set GATED_RULES then Inl (Gated_rule index rule)
                   else Inr \<lparr>al_rule = rule, al_state = field_of entry ''state'',
                             al_selector = field_of entry ''selector'', al_justification = why,
                             al_owner = field_of entry ''owner''\<rparr>)))"

fun parse_allowlist_entries :: "nat \<Rightarrow> json list \<Rightarrow> allowlist_error + allowlist_entry list" where
  "parse_allowlist_entries index [] = Inr []"
| "parse_allowlist_entries index (v # vs) =
     (case parse_allowlist_entry index v of
        Inl e \<Rightarrow> Inl e
      | Inr x \<Rightarrow> (case parse_allowlist_entries (index + 1) vs of Inl e \<Rightarrow> Inl e | Inr xs \<Rightarrow> Inr (x # xs)))"

definition parseAllowlist :: "json \<Rightarrow> allowlist_error + allowlist_entry list" where
  "parseAllowlist raw =
     (case as_array raw of None \<Rightarrow> Inl Not_an_array | Some vs \<Rightarrow> parse_allowlist_entries 0 vs)"

definition covers :: "allowlist_entry \<Rightarrow> string \<Rightarrow> string \<Rightarrow> axe_node \<Rightarrow> bool" where
  "covers entry rule state node \<longleftrightarrow>
     (if al_rule entry \<noteq> rule then False
      else if al_state entry \<noteq> ''*'' \<and> al_state entry \<noteq> state then False
      else if al_selector entry = ''*'' then True
      else list_ex (\<lambda>part. part = al_selector entry) (an_target node))"

section \<open>The split\<close>

record suppressed =
  su_rule :: string
  su_selector :: string
  su_justification :: string

record partitioned =
  pa_gated :: "axe_violation list"
  pa_unlisted :: "axe_violation list"
  pa_suppressed :: "suppressed list"

definition empty_partition :: partitioned where
  "empty_partition = \<lparr>pa_gated = [], pa_unlisted = [], pa_suppressed = []\<rparr>"

definition covering :: "allowlist_entry list \<Rightarrow> string \<Rightarrow> string \<Rightarrow> axe_node \<Rightarrow> allowlist_entry option" where
  "covering allowlist rule state node = find (\<lambda>entry. covers entry rule state node) allowlist"

definition target_text :: "axe_node \<Rightarrow> string" where
  "target_text node = join '' '' (an_target node)"

definition suppressed_of ::
  "allowlist_entry list \<Rightarrow> string \<Rightarrow> string \<Rightarrow> axe_node \<Rightarrow> suppressed option" where
  "suppressed_of allowlist rule state node =
     map_option (\<lambda>entry. \<lparr>su_rule = rule, su_selector = target_text node,
                           su_justification = al_justification entry\<rparr>)
       (covering allowlist rule state node)"

definition partition_one ::
  "string \<Rightarrow> allowlist_entry list \<Rightarrow> partitioned \<Rightarrow> axe_violation \<Rightarrow> partitioned" where
  "partition_one state allowlist out violation =
     (if av_id violation \<in> set GATED_RULES then out\<lparr>pa_gated := pa_gated out @ [violation]\<rparr>
      else let remaining = filter (\<lambda>n. covering allowlist (av_id violation) state n = None) (av_nodes violation);
               accepted = List.map_filter (suppressed_of allowlist (av_id violation) state) (av_nodes violation);
               out' = out\<lparr>pa_suppressed := pa_suppressed out @ accepted\<rparr>
           in if remaining \<noteq> [] then out'\<lparr>pa_unlisted := pa_unlisted out' @ [violation\<lparr>av_nodes := remaining\<rparr>]\<rparr>
              else out')"

definition axe_partition :: "axe_results \<Rightarrow> string \<Rightarrow> allowlist_entry list \<Rightarrow> partitioned" where
  "axe_partition results state allowlist =
     foldl (partition_one state allowlist) empty_partition (ar_violations results)"

section \<open>Contrast\<close>

record contrast_data =
  cd_fg :: string
  cd_bg :: string
  cd_ratio :: jnum
  cd_fontSize :: string
  cd_expected :: string
  cd_fontWeight :: string

definition or_unknown :: "string option \<Rightarrow> string" where
  "or_unknown s = (case s of None \<Rightarrow> ''unknown'' | Some t \<Rightarrow> t)"

text \<open>The first contrast check that carries both colours.\<close>

fun contrast_of :: "contrast_check list \<Rightarrow> contrast_data option" where
  "contrast_of [] = None"
| "contrast_of (c # cs) =
     (if cc_id c \<noteq> ''color-contrast'' \<and> cc_id c \<noteq> ''color-contrast-enhanced'' then contrast_of cs
      else case (cc_fgColor c, cc_bgColor c) of
        (Some fg, Some bg) \<Rightarrow>
          Some \<lparr>cd_fg = to_lower fg, cd_bg = to_lower bg,
                cd_ratio = (case cc_contrastRatio c of None \<Rightarrow> JInt 0 | Some r \<Rightarrow> r),
                cd_fontSize = or_unknown (cc_fontSize c), cd_expected = or_unknown (cc_expected c),
                cd_fontWeight = or_unknown (cc_fontWeight c)\<rparr>
      | _ \<Rightarrow> contrast_of cs)"

definition contrastData :: "axe_node \<Rightarrow> contrast_data option" where
  "contrastData node = contrast_of (an_checks node)"

text \<open>\<open>/\(([\d.]+)px\)/\<close>: the text \<open>Number\<close> is applied to.\<close>

definition size_char :: "char \<Rightarrow> bool" where
  "size_char c \<longleftrightarrow> digit_char c \<or> c = CHR ''.''"

fun pxFrom :: "string \<Rightarrow> string option" where
  "pxFrom [] = None"
| "pxFrom (c # cs) =
     (let digits = takeWhile size_char cs
      in if c = CHR ''('' \<and> digits \<noteq> [] \<and> starts_with ''px)'' (drop (length digits) cs) then Some digits
         else pxFrom cs)"

datatype axe_outcome = Axe_pass | Axe_violation | Axe_incomplete

record contrast_sample =
  cs_fg :: string
  cs_bg :: string
  cs_ratio :: jnum
  cs_fontSizePx :: "string option"
  cs_fontWeight :: string
  cs_target :: string
  cs_outcome :: axe_outcome

definition sample_of :: "axe_outcome \<Rightarrow> axe_node \<Rightarrow> contrast_sample option" where
  "sample_of outcome node =
     map_option (\<lambda>m. \<lparr>cs_fg = cd_fg m, cs_bg = cd_bg m, cs_ratio = cd_ratio m,
         cs_fontSizePx = pxFrom (cd_fontSize m), cs_fontWeight = cd_fontWeight m,
         cs_target = target_text node, cs_outcome = outcome\<rparr>) (contrastData node)"

definition bucket_samples :: "axe_outcome \<Rightarrow> axe_violation list \<Rightarrow> contrast_sample list" where
  "bucket_samples outcome rules =
     concat (map (\<lambda>r. List.map_filter (sample_of outcome) (av_nodes r))
       (filter (\<lambda>r. av_id r = ''color-contrast'') rules))"

definition contrastSamples :: "axe_results \<Rightarrow> contrast_sample list" where
  "contrastSamples results =
     bucket_samples Axe_pass (ar_passes results) @ bucket_samples Axe_violation (ar_violations results)
     @ bucket_samples Axe_incomplete (ar_incomplete results)"

definition samplesFor :: "contrast_sample list \<Rightarrow> string \<Rightarrow> string \<Rightarrow> contrast_sample list" where
  "samplesFor samples fg bg = filter (\<lambda>s. cs_fg s = to_lower fg \<and> cs_bg s = to_lower bg) samples"

section \<open>The failure text\<close>

fun bars :: "string \<Rightarrow> string" where
  "bars [] = []"
| "bars (c # cs) =
     (if c = CHR 0x0A
      then (case cs of [] \<Rightarrow> '' | '' | d # ds \<Rightarrow> if d = CHR 0x0A then bars cs else '' | '' @ bars cs)
      else c # bars cs)"

definition describe_node :: "axe_node \<Rightarrow> string" where
  "describe_node node =
     ''      - '' @ target_text node @ [CHR 0x0A] @ ''        ''
     @ (case contrastData node of
          None \<Rightarrow> bars (case an_failureSummary node of None \<Rightarrow> [] | Some s \<Rightarrow> s)
        | Some m \<Rightarrow> cd_fg m @ '' on '' @ cd_bg m @ '' at '' @ cd_fontSize m @ '' = '' @ show_num (cd_ratio m)
                    @ '' (needs '' @ cd_expected m @ '')'')"

definition axe_describe :: "axe_violation list \<Rightarrow> string" where
  "axe_describe violations =
     join [CHR 0x0A] (map (\<lambda>v.
       ''  '' @ av_id v @ '' ['' @ (case av_impact v of None \<Rightarrow> ''n/a'' | Some i \<Rightarrow> i) @ ''] ''
       @ show_nat (length (av_nodes v)) @ '' node(s) '' @ [CHR 0x97] @ '' '' @ av_help v @ [CHR 0x0A]
       @ join [CHR 0x0A] (map describe_node (av_nodes v))) violations)"

section \<open>Laws\<close>

text \<open>An entry that was accepted.\<close>

definition defended :: "allowlist_entry \<Rightarrow> bool" where
  "defended x \<longleftrightarrow> al_rule x \<notin> set GATED_RULES \<and> trim (al_rule x) \<noteq> [] \<and> trim (al_state x) \<noteq> []
     \<and> trim (al_selector x) \<noteq> [] \<and> trim (al_owner x) \<noteq> [] \<and> 20 \<le> length (al_justification x)"

lemma field_filled: "text_field entry f \<noteq> None \<Longrightarrow> trim (field_of entry f) \<noteq> []"
  by (auto simp: text_field_def field_of_def split: option.splits if_splits)

lemma parse_entry_defended: "parse_allowlist_entry index v = Inr x \<Longrightarrow> defended x"
  using field_filled
  by (auto simp: parse_allowlist_entry_def defended_def MIN_JUSTIFICATION_def Let_def
    split: option.splits if_splits)

lemma parse_entries_defended:
  "parse_allowlist_entries index vs = Inr xs \<Longrightarrow> list_all defended xs \<and> length xs = length vs"
proof (induction vs arbitrary: index xs)
  case (Cons v vs)
  then obtain x ys where "parse_allowlist_entry index v = Inr x"
    "parse_allowlist_entries (index + 1) vs = Inr ys" "xs = x # ys"
    by (auto split: sum.splits)
  then show ?case using Cons.IH parse_entry_defended by auto
qed simp

lemma allowlist_is_defended: "parseAllowlist raw = Inr xs \<Longrightarrow> list_all defended xs"
  using parse_entries_defended by (auto simp: parseAllowlist_def split: option.splits)

text \<open>The three parts of one violation: what is accepted and what remains are its nodes.\<close>

lemma accepted_and_remaining:
  "length (List.map_filter (suppressed_of allowlist rule state) nodes)
     + length (filter (\<lambda>n. covering allowlist rule state n = None) nodes) = length nodes"
  by (induction nodes) (auto simp: suppressed_of_def)

definition nodes_in :: "axe_violation list \<Rightarrow> nat" where
  "nodes_in vs = sum_list (map (\<lambda>v. length (av_nodes v)) vs)"

lemma partition_fold:
  "let out' = foldl (partition_one state allowlist) out vs in
     pa_gated out' = pa_gated out @ filter (\<lambda>v. av_id v \<in> set GATED_RULES) vs
   \<and> pa_unlisted out' = pa_unlisted out @ filter (\<lambda>v. av_nodes v \<noteq> [])
        (map (\<lambda>v. v\<lparr>av_nodes := filter (\<lambda>n. covering allowlist (av_id v) state n = None) (av_nodes v)\<rparr>)
          (filter (\<lambda>v. av_id v \<notin> set GATED_RULES) vs))
   \<and> pa_suppressed out' = pa_suppressed out @ concat (map (\<lambda>v. List.map_filter
        (suppressed_of allowlist (av_id v) state) (av_nodes v)) (filter (\<lambda>v. av_id v \<notin> set GATED_RULES) vs))"
proof (induction vs arbitrary: out)
  case (Cons v vs)
  show ?case using Cons.IH [of "partition_one state allowlist out v"]
    by (auto simp: partition_one_def Let_def)
qed (simp add: Let_def)

lemma nodes_split:
  "length (concat (map (\<lambda>v. List.map_filter (suppressed_of allowlist (av_id v) state) (av_nodes v)) vs))
     + nodes_in (filter (\<lambda>v. av_nodes v \<noteq> [])
        (map (\<lambda>v. v\<lparr>av_nodes := filter (\<lambda>n. covering allowlist (av_id v) state n = None) (av_nodes v)\<rparr>) vs))
   = nodes_in vs"
proof (induction vs)
  case (Cons v vs)
  then show ?case
    using accepted_and_remaining [of allowlist "av_id v" state "av_nodes v"]
    by (auto simp: nodes_in_def)
qed (simp add: nodes_in_def)

lemma covering_some: "covering allowlist rule state node = Some x \<Longrightarrow> x \<in> set allowlist \<and> covers x rule state node"
  by (auto simp: covering_def find_Some_iff)

text \<open>The nodes of a violation no entry accepts.\<close>

definition uncovered :: "allowlist_entry list \<Rightarrow> string \<Rightarrow> axe_violation \<Rightarrow> axe_violation" where
  "uncovered allowlist state v =
     v\<lparr>av_nodes := filter (\<lambda>n. \<forall>entry \<in> set allowlist. \<not> covers entry (av_id v) state n) (av_nodes v)\<rparr>"

lemma covering_none: "covering allowlist rule state node = None
    \<longleftrightarrow> (\<forall>entry \<in> set allowlist. \<not> covers entry rule state node)"
  by (auto simp: covering_def find_None_iff)

lemma suppressed_source:
  assumes "s \<in> set (concat (map (\<lambda>v. List.map_filter (suppressed_of allowlist (av_id v) state) (av_nodes v)) vs))"
  shows "\<exists>v \<in> set vs. \<exists>n \<in> set (av_nodes v). \<exists>entry \<in> set allowlist. covers entry (av_id v) state n
    \<and> s = \<lparr>su_rule = av_id v, su_selector = target_text n, su_justification = al_justification entry\<rparr>"
proof -
  obtain v n where v: "v \<in> set vs" "n \<in> set (av_nodes v)" "suppressed_of allowlist (av_id v) state n = Some s"
    using assms by (auto simp: in_set_map_filter)
  then obtain entry where "covering allowlist (av_id v) state n = Some entry"
    "s = \<lparr>su_rule = av_id v, su_selector = target_text n, su_justification = al_justification entry\<rparr>"
    by (auto simp: suppressed_of_def)
  then show ?thesis using v(1,2) covering_some by blast
qed

text \<open>
  C25. What the accessibility gate reports, for every run and every allowlist that parses: the
  violations of the six gated rules, all of them and untouched; of the others, in order, exactly the
  nodes that no entry covers; and every other node once, as accepted for its own rule and target by
  an entry that covers it, with that entry's justification of at least twenty characters. A gated
  rule is never accepted.
\<close>

theorem axe_partition_is_exact:
  assumes "parseAllowlist raw = Inr allowlist"
  shows "let out = axe_partition results state allowlist;
             others = filter (\<lambda>v. av_id v \<notin> set GATED_RULES) (ar_violations results)
    in pa_gated out = filter (\<lambda>v. av_id v \<in> set GATED_RULES) (ar_violations results)
     \<and> pa_unlisted out = filter (\<lambda>v. av_nodes v \<noteq> []) (map (uncovered allowlist state) others)
     \<and> length (pa_suppressed out) + nodes_in (pa_unlisted out) = nodes_in others
     \<and> (\<forall>s \<in> set (pa_suppressed out). su_rule s \<notin> set GATED_RULES \<and> 20 \<le> length (su_justification s)
         \<and> (\<exists>v \<in> set others. \<exists>n \<in> set (av_nodes v). \<exists>entry \<in> set allowlist. covers entry (av_id v) state n
              \<and> s = \<lparr>su_rule = av_id v, su_selector = target_text n,
                      su_justification = al_justification entry\<rparr>))"
proof -
  let ?out = "axe_partition results state allowlist"
  let ?others = "filter (\<lambda>v. av_id v \<notin> set GATED_RULES) (ar_violations results)"
  note parts = partition_fold [of state allowlist empty_partition "ar_violations results", unfolded Let_def,
      folded axe_partition_def]
  have unlisted: "pa_unlisted ?out = filter (\<lambda>v. av_nodes v \<noteq> []) (map (uncovered allowlist state) ?others)"
    unfolding uncovered_def [abs_def] by (simp add: parts empty_partition_def covering_none)
  have "length (pa_suppressed ?out) + nodes_in (pa_unlisted ?out) = nodes_in ?others"
    using nodes_split [of allowlist state ?others] by (simp add: parts empty_partition_def)
  moreover have "su_rule s \<notin> set GATED_RULES \<and> 20 \<le> length (su_justification s)
      \<and> (\<exists>v \<in> set ?others. \<exists>n \<in> set (av_nodes v). \<exists>entry \<in> set allowlist. covers entry (av_id v) state n
           \<and> s = \<lparr>su_rule = av_id v, su_selector = target_text n, su_justification = al_justification entry\<rparr>)"
    if "s \<in> set (pa_suppressed ?out)" for s
  proof -
    have "s \<in> set (concat (map (\<lambda>v. List.map_filter (suppressed_of allowlist (av_id v) state) (av_nodes v)) ?others))"
      using that by (simp add: parts empty_partition_def)
    from suppressed_source [OF this] show ?thesis
      using allowlist_is_defended [OF assms] by (fastforce simp: defended_def list_all_iff)
  qed
  ultimately show ?thesis
    unfolding Let_def using unlisted by (simp add: parts empty_partition_def)
qed

definition sample_allowlist :: json where
  "sample_allowlist = JArr [JObj [(''rule'', JStr ''tabindex''), (''state'', JStr ''*''),
     (''selector'', JStr ''#frame''), (''owner'', JStr ''web''),
     (''justification'', JStr ''vendor widget, fixed upstream'')]]"

definition sample_entry :: allowlist_entry where
  "sample_entry = \<lparr>al_rule = ''tabindex'', al_state = ''*'', al_selector = ''#frame'',
     al_justification = ''vendor widget, fixed upstream'', al_owner = ''web''\<rparr>"

lemma sample_allowlist_parses: "parseAllowlist sample_allowlist = Inr [sample_entry]"
  by (simp add: sample_allowlist_def sample_entry_def parseAllowlist_def parse_allowlist_entry_def
    text_field_def field_of_def MIN_JUSTIFICATION_def GATED_RULES_def trim_def js_space_def)

definition node_at :: "string list \<Rightarrow> axe_node" where
  "node_at target = \<lparr>an_target = target, an_checks = [], an_failureSummary = None\<rparr>"

definition rule_at :: "string \<Rightarrow> axe_node list \<Rightarrow> axe_violation" where
  "rule_at rule nodes = \<lparr>av_id = rule, av_impact = None, av_help = [], av_nodes = nodes\<rparr>"

theorem axe_partition_is_exact_witness:
  "let out = axe_partition
      \<lparr>ar_violations = [rule_at ''region'' [node_at [''main'']],
          rule_at ''tabindex'' [node_at [''#frame''], node_at [''#other'']]],
       ar_passes = [], ar_incomplete = []\<rparr> ''ready'' [sample_entry]
   in length (pa_suppressed out) + nodes_in (pa_unlisted out) = 2 \<and> length (pa_gated out) = 1"
proof -
  let ?run = "\<lparr>ar_violations = [rule_at ''region'' [node_at [''main'']],
      rule_at ''tabindex'' [node_at [''#frame''], node_at [''#other'']]],
    ar_passes = [], ar_incomplete = []\<rparr>"
  have "nodes_in (filter (\<lambda>v. av_id v \<notin> set GATED_RULES) (ar_violations ?run)) = 2"
    "length (filter (\<lambda>v. av_id v \<in> set GATED_RULES) (ar_violations ?run)) = 1"
    by (simp_all add: rule_at_def nodes_in_def GATED_RULES_def)
  then show ?thesis
    using axe_partition_is_exact [OF sample_allowlist_parses, of ?run "''ready''"] by metis
qed

text \<open>
  A selector is looked for anywhere in the target: an entry written for a frame, or for the host of a
  shadow tree, accepts every node inside it, whatever the rest of the target names.
\<close>

lemma a_frame_selector_covers_its_contents:
  assumes "al_selector entry \<in> set (an_target node)" "al_state entry \<in> {''*'', state}"
  shows "covers entry (al_rule entry) state node"
  using assms by (auto simp: covers_def list_ex_iff)

text \<open>Whatever the case of the colours asked for, a measured pair is found.\<close>

lemma samples_found:
  "s \<in> set (contrastSamples results) \<Longrightarrow> to_lower fg = cs_fg s \<Longrightarrow> to_lower bg = cs_bg s
     \<Longrightarrow> s \<in> set (samplesFor (contrastSamples results) fg bg)"
  by (simp add: samplesFor_def)

lemma px_of_a_size:
  "list_all size_char digits \<Longrightarrow> digits \<noteq> [] \<Longrightarrow> pxFrom (''9pt ('' @ digits @ ''px)'') = Some digits"
proof -
  assume "list_all size_char digits" "digits \<noteq> []"
  moreover have "\<not> size_char CHR ''p''" by (simp add: size_char_def digit_char_def)
  ultimately have "takeWhile size_char (digits @ ''px)'') = digits"
    by (simp add: list_all_iff takeWhile_append2)
  then show ?thesis using \<open>digits \<noteq> []\<close> by (simp add: Let_def)
qed

end
