(* ===== verification/Paid_Path.thy ===== *)
theory Paid_Path
  imports JS_Base Interfaces
begin

text \<open>
  The cost boundary of the end-to-end tier: the interceptor of the four paid writes
  (\<open>web/e2e/support/paid-path.ts\<close>), the proof that a stack is in mock mode it asks for before it
  forwards two of them (\<open>mock-mode.ts\<close>), and the stub upstream (\<open>stub-upstream.mjs\<close>). The browser's
  requests, the passing of the latency and the offline switch are events, in any order.
\<close>

section \<open>Mock mode\<close>

type_synonym env = "string \<Rightarrow> string option"

definition DISABLED_API_KEY :: string where
  "DISABLED_API_KEY = ''local-preview-disabled''"

definition REQUIRED_APP_ENV :: "(string \<times> string) list" where
  "REQUIRED_APP_ENV = [(''USE_MOCK_DATA'', ''true''), (''ANTHROPIC_API_KEY'', DISABLED_API_KEY)]"

text \<open>The lines of the overlay: \<open>n\<close> white-space characters and then something else; a key alone.\<close>

definition indented :: "nat \<Rightarrow> string \<Rightarrow> bool" where
  "indented n line \<longleftrightarrow>
     length line > n \<and> list_all js_space (take n line) \<and> \<not> js_space (line ! n)"

definition key_alone :: "nat \<Rightarrow> string \<Rightarrow> string \<Rightarrow> bool" where
  "key_alone n key line \<longleftrightarrow>
     indented n line \<and> starts_with (key @ '':'') (drop n line)
   \<and> list_all js_space (drop (n + length key + 1) line)"

definition key_start :: "char \<Rightarrow> bool" where
  "key_start c \<longleftrightarrow> (let n = of_char c :: nat in 65 \<le> n \<and> n \<le> 90 \<or> 97 \<le> n \<and> n \<le> 122 \<or> n = 95)"

definition key_char :: "char \<Rightarrow> bool" where
  "key_char c \<longleftrightarrow> key_start c \<or> digit_char c"

definition quote_mark :: "char \<Rightarrow> bool" where
  "quote_mark c \<longleftrightarrow> c = CHR 0x22 \<or> c = CHR 0x27"

text \<open>\<open>replace(/^["']|["']$/g, "")\<close>.\<close>

definition unquote :: "string \<Rightarrow> string" where
  "unquote s =
     (let t = (case s of [] \<Rightarrow> [] | c # cs \<Rightarrow> if quote_mark c then cs else s)
      in if t \<noteq> [] \<and> quote_mark (last t) then butlast t else t)"

text \<open>\<open>/^\s{6}([A-Za-z_][A-Za-z0-9_]*):\s*(.*?)\s*$/\<close>; a dot is no line terminator.\<close>

definition env_entry :: "string \<Rightarrow> (string \<times> string) option" where
  "env_entry line =
     (let rest = drop 6 line; key = takeWhile key_char rest; after = drop (length key) rest;
          value = trim (tl after)
      in if indented 6 line \<and> key \<noteq> [] \<and> key_start (hd key) \<and> after \<noteq> [] \<and> hd after = CHR '':''
            \<and> CHR 0x0A \<notin> set value \<and> CHR 0x0D \<notin> set value
         then Some (key, unquote value) else None)"

record overlay_reader =
  ov_inApp :: bool
  ov_inEnv :: bool
  ov_env :: env

definition overlay_line :: "overlay_reader \<Rightarrow> string \<Rightarrow> overlay_reader" where
  "overlay_line r line =
     (if indented 2 line then r\<lparr>ov_inApp := key_alone 2 ''app'' line, ov_inEnv := False\<rparr>
      else if ov_inApp r \<and> indented 4 line then r\<lparr>ov_inEnv := key_alone 4 ''environment'' line\<rparr>
      else if \<not> ov_inApp r \<or> \<not> ov_inEnv r then r
      else case env_entry line of
        None \<Rightarrow> r | Some (key, value) \<Rightarrow> r\<lparr>ov_env := (ov_env r)(key \<mapsto> value)\<rparr>)"

definition readOverlayAppEnv :: "string \<Rightarrow> env" where
  "readOverlayAppEnv text =
     ov_env (foldl overlay_line \<lparr>ov_inApp = False, ov_inEnv = False, ov_env = Map.empty\<rparr>
       (split_on CHR 0x0A text))"

text \<open>What \<open>docker inspect\<close> printed, or \<open>None\<close> when it could not be asked.\<close>

definition container_line :: "env \<Rightarrow> string \<Rightarrow> env" where
  "container_line env line =
     (let key = takeWhile (\<lambda>c. c \<noteq> CHR ''='') line
      in if key = [] \<or> length key = length line then env
         else env(key \<mapsto> drop (Suc (length key)) line))"

definition readContainerEnv :: "string option \<Rightarrow> env option" where
  "readContainerEnv raw = map_option (\<lambda>text. foldl container_line Map.empty (split_on CHR 0x0A text)) raw"

definition mismatches :: "env \<Rightarrow> string \<Rightarrow> string list" where
  "mismatches env source =
     map (\<lambda>(key, want). source @ '': '' @ key @ '' is ''
          @ (case env key of None \<Rightarrow> ''unset'' | Some v \<Rightarrow> v) @ '', must be '' @ want)
       (filter (\<lambda>(key, want). env key \<noteq> Some want) REQUIRED_APP_ENV)"

text \<open>The problems it throws with, or whether the running container was checked too.\<close>

definition assertMockModeStack :: "string \<Rightarrow> string option \<Rightarrow> string list + bool" where
  "assertMockModeStack overlay docker =
     (let container = readContainerEnv docker;
          problems = mismatches (readOverlayAppEnv overlay) ''overlay''
            @ (case container of None \<Rightarrow> [] | Some env \<Rightarrow> mismatches env ''container'')
      in if problems \<noteq> [] then Inl problems else Inr (container \<noteq> None))"

definition pinned :: "env \<Rightarrow> bool" where
  "pinned env \<longleftrightarrow> env ''USE_MOCK_DATA'' = Some ''true'' \<and> env ''ANTHROPIC_API_KEY'' = Some DISABLED_API_KEY"

section \<open>The interceptor\<close>

datatype paid_path = Research | Conversations | Sessions | Session_turn

datatype session_mode = Fulfil | Mock_pass_through

text \<open>Which route of the four a path belongs to.\<close>

definition turn_path :: "string \<Rightarrow> bool" where
  "turn_path path \<longleftrightarrow>
     (case split_on CHR ''/'' path of
        [a, b, c, d, i, e] \<Rightarrow> a = [] \<and> b = ''api'' \<and> c = ''learn'' \<and> d = ''sessions'' \<and> i \<noteq> [] \<and> e = ''turn''
      | _ \<Rightarrow> False)"

definition paid_route :: "string \<Rightarrow> paid_path option" where
  "paid_route path =
     (if path = ''/api/research'' then Some Research
      else if path = ''/api/learn/sessions'' then Some Sessions
      else if turn_path path then Some Session_turn
      else if path = ''/api/conversations'' then Some Conversations
      else None)"

record paid_attempt =
  at_path :: paid_path
  at_query :: "string option"
  at_conversationId :: "string option"

datatype route_answer = Fulfilled nat | Aborted | Forwarded

record interceptor =
  ip_mode :: session_mode
  ip_offline :: bool
  ip_attempts :: "paid_attempt list"
  ip_waiting :: "(nat \<times> paid_path) list"
  ip_answers :: "(string \<times> string \<times> route_answer) list"

text \<open>Installing it: the pass-through mode throws unless the stack proved to be in mock mode.\<close>

definition interceptPaidPath :: "session_mode \<Rightarrow> string list + bool \<Rightarrow> interceptor option" where
  "interceptPaidPath mode stack =
     (if mode = Mock_pass_through \<and> \<not> (\<exists>b. stack = Inr b) then None
      else Some \<lparr>ip_mode = mode, ip_offline = False, ip_attempts = [], ip_waiting = [], ip_answers = []\<rparr>)"

text \<open>A member of the body, when the body is JSON and the member a string.\<close>

definition body_text :: "json option \<Rightarrow> string \<Rightarrow> string option" where
  "body_text body k = Option.bind (Option.bind (Option.bind body as_record) (\<lambda>m. jprop m k)) as_string"

definition attempt_of :: "paid_path \<Rightarrow> json option \<Rightarrow> paid_attempt" where
  "attempt_of p body =
     (case p of
        Research \<Rightarrow> \<lparr>at_path = p, at_query = body_text body ''query'',
                     at_conversationId = body_text body ''conversation_id''\<rparr>
      | Conversations \<Rightarrow> \<lparr>at_path = p, at_query = None, at_conversationId = Some ''baseline-populated''\<rparr>
      | _ \<Rightarrow> \<lparr>at_path = p, at_query = None, at_conversationId = None\<rparr>)"

fun path_text :: "paid_path \<Rightarrow> string" where
  "path_text Research = ''/api/research''"
| "path_text Conversations = ''/api/conversations''"
| "path_text Sessions = ''/api/learn/sessions''"
| "path_text Session_turn = ''/api/learn/sessions/{id}/turn''"

text \<open>What the handler does once the latency has passed.\<close>

definition settled :: "session_mode \<Rightarrow> bool \<Rightarrow> paid_path \<Rightarrow> route_answer" where
  "settled mode offline p =
     (if offline then Aborted
      else case p of
        Research \<Rightarrow> Fulfilled 202
      | Conversations \<Rightarrow> Fulfilled 201
      | Sessions \<Rightarrow> if mode = Mock_pass_through then Forwarded else Fulfilled 202
      | Session_turn \<Rightarrow> if mode = Mock_pass_through then Forwarded else Fulfilled 200)"

datatype page_event =
    Page_request string string "json option"
  | Latency_over nat
  | Set_offline bool

text \<open>The handler of a research write reads members of its body before it counts it: the body
  \<open>null\<close> makes it throw, and the request is neither counted nor answered.\<close>

definition handler_throws :: "paid_path \<Rightarrow> json option \<Rightarrow> bool" where
  "handler_throws p body \<longleftrightarrow> p = Research \<and> body = Some JNull"

text \<open>\<open>Page_request method path body\<close>; a request the routes do not take goes to the network.\<close>

fun intercept :: "interceptor \<Rightarrow> page_event \<Rightarrow> interceptor" where
  "intercept s (Page_request meth path body) =
     (case (if meth = ''POST'' then paid_route path else None) of
        None \<Rightarrow> s\<lparr>ip_answers := ip_answers s @ [(meth, path, Forwarded)]\<rparr>
      | Some p \<Rightarrow>
          if handler_throws p body then s
          else s\<lparr>ip_waiting := ip_waiting s @ [(length (ip_attempts s), p)],
                 ip_attempts := ip_attempts s @ [attempt_of p body]\<rparr>)"
| "intercept s (Latency_over i) =
     (case map_of (ip_waiting s) i of
        None \<Rightarrow> s
      | Some p \<Rightarrow> s\<lparr>ip_waiting := filter (\<lambda>(j, _). j \<noteq> i) (ip_waiting s),
                     ip_answers := ip_answers s @ [(''POST'', path_text p, settled (ip_mode s) (ip_offline s) p)]\<rparr>)"
| "intercept s (Set_offline b) = s\<lparr>ip_offline := b\<rparr>"

definition posts :: "paid_path \<Rightarrow> interceptor \<Rightarrow> nat" where
  "posts p s = length (filter (\<lambda>a. at_path a = p) (ip_attempts s))"

text \<open>\<open>expectExactly\<close> and \<open>expectSessionExactly\<close>: the cells of the recorded row, and whether the
  assertion behind it throws. The row is recorded first.\<close>

definition verdict_word :: "bool \<Rightarrow> string" where
  "verdict_word ok = (if ok then ''PASS'' else ''FAIL'')"

definition expectExactly :: "nat \<Rightarrow> string \<Rightarrow> string \<Rightarrow> interceptor \<Rightarrow> string list \<times> bool" where
  "expectExactly expected project scenario s =
     (let seen = posts Research s
      in ([verdict_word (seen = expected), project, scenario, ''expected='' @ show_nat expected,
           ''POST /api/research='' @ show_nat seen,
           ''POST /api/conversations='' @ show_nat (posts Conversations s)], seen \<noteq> expected))"

definition expectSessionExactly ::
  "nat \<Rightarrow> nat \<Rightarrow> string \<Rightarrow> string \<Rightarrow> interceptor \<Rightarrow> string list \<times> bool" where
  "expectSessionExactly expectedCreates expectedTurns project scenario s =
     (let creates = posts Sessions s; turns = posts Session_turn s
      in ([verdict_word (creates = expectedCreates \<and> turns = expectedTurns), project, scenario,
           ''expected_session_creates='' @ show_nat expectedCreates,
           ''POST /api/learn/sessions='' @ show_nat creates,
           ''expected_session_turns='' @ show_nat expectedTurns,
           ''POST /api/learn/sessions/{id}/turn='' @ show_nat turns,
           ''mode='' @ (case ip_mode s of Fulfil \<Rightarrow> ''fulfil'' | Mock_pass_through \<Rightarrow> ''mock-pass-through'')],
          creates \<noteq> expectedCreates \<or> turns \<noteq> expectedTurns))"

section \<open>The stub upstream\<close>

definition stub_upstream :: "string \<Rightarrow> string \<Rightarrow> nat \<times> string" where
  "stub_upstream meth pathname =
     (if pathname = ''/research'' \<or> starts_with ''/research/'' pathname then (501, ''stub_refuses_research'')
      else if meth = ''GET'' \<and> pathname = ''/healthz'' then (200, ''ok'')
      else (404, ''stub_unhandled: '' @ meth @ '' '' @ pathname))"

section \<open>Laws of the mock-mode proof\<close>

lemma mismatches_empty: "mismatches env source = [] \<longleftrightarrow> pinned env"
  by (auto simp: mismatches_def pinned_def REQUIRED_APP_ENV_def)

lemma mock_mode_is_pinned:
  "assertMockModeStack overlay docker = Inr checked \<longleftrightarrow>
     pinned (readOverlayAppEnv overlay)
   \<and> (\<forall>env. readContainerEnv docker = Some env \<longrightarrow> pinned env)
   \<and> (checked \<longleftrightarrow> docker \<noteq> None)"
  by (auto simp: assertMockModeStack_def mismatches_empty readContainerEnv_def Let_def split: option.split)

text \<open>An overlay as it is written: services with a flat environment each.\<close>

definition env_line :: "string \<times> string \<Rightarrow> string" where
  "env_line = (\<lambda>(k, v). ''      '' @ k @ '': '' @ v)"

definition service_lines :: "string \<times> (string \<times> string) list \<Rightarrow> string list" where
  "service_lines = (\<lambda>(name, env). (''  '' @ name @ '':'') # ''    environment:'' # map env_line env)"

definition overlay_text :: "(string \<times> (string \<times> string) list) list \<Rightarrow> string" where
  "overlay_text services = join [CHR 0x0A] (''services:'' # concat (map service_lines services))"

text \<open>Names and values that stand in such a file as they are.\<close>

definition plain :: "string \<Rightarrow> bool" where
  "plain s \<longleftrightarrow> s \<noteq> [] \<and> list_all (\<lambda>c. \<not> js_space c \<and> c \<noteq> CHR '':'' \<and> \<not> quote_mark c) s"

definition env_ok :: "string \<times> string \<Rightarrow> bool" where
  "env_ok = (\<lambda>(k, v). k \<noteq> [] \<and> key_start (hd k) \<and> list_all key_char k \<and> plain v)"

lemma plain_trim: "plain v \<Longrightarrow> trim v = v \<and> trim (CHR '' '' # v) = v"
proof -
  assume v: "plain v"
  then have "dropWhile js_space v = v" "dropWhile js_space (rev v) = rev v"
    by (auto simp: plain_def dropWhile_eq_self_iff list_all_iff hd_rev)
  then show ?thesis by (simp add: trim_def js_space_def)
qed

lemma plain_unquote: "plain v \<Longrightarrow> unquote v = v"
  by (cases v) (auto simp: plain_def unquote_def Let_def list_all_iff)

lemma plain_lines: "plain v \<Longrightarrow> CHR 0x0A \<notin> set v \<and> CHR 0x0D \<notin> set v"
proof -
  assume v: "plain v"
  have "js_space CHR 0x0A" "js_space CHR 0x0D" by (simp_all add: js_space_def)
  then show ?thesis using v unfolding plain_def list_all_iff by blast
qed

lemma key_start_space: "key_start c \<Longrightarrow> \<not> js_space c"
  by (auto simp: key_start_def js_space_def Let_def)

lemma key_char_colon: "\<not> key_char CHR '':''"
  by (simp add: key_char_def key_start_def digit_char_def)

lemma env_entry_line:
  assumes "env_ok (k, v)"
  shows "env_entry (env_line (k, v)) = Some (k, v)"
proof -
  have k: "k \<noteq> []" "key_start (hd k)" "list_all key_char k" "plain v"
    using assms by (simp_all add: env_ok_def)
  have "takeWhile key_char (k @ CHR '':'' # CHR '' '' # v) = k"
    using k(3) key_char_colon by (simp add: list_all_iff takeWhile_append2)
  moreover have "indented 6 (env_line (k, v))"
    using k(1) key_start_space [OF k(2)]
    by (cases k) (simp_all add: indented_def env_line_def, simp add: js_space_def)
  ultimately show ?thesis
    using k plain_trim [OF k(4)] plain_unquote [OF k(4)] plain_lines [OF k(4)]
    by (simp add: env_entry_def env_line_def Let_def)
qed

lemma env_lines_read:
  "list_all env_ok env \<Longrightarrow> ov_inApp r \<Longrightarrow> ov_inEnv r \<Longrightarrow>
     foldl overlay_line r (map env_line env) = r\<lparr>ov_env := ov_env r ++ map_of (rev env)\<rparr>"
proof (induction env arbitrary: r)
  case (Cons x env)
  obtain k v where x: "x = (k, v)" by (cases x)
  have line: "\<not> indented 2 (env_line x)" "\<not> indented 4 (env_line x)"
    by (simp_all add: x env_line_def indented_def js_space_def)
  have "env_entry (env_line x) = Some (k, v)" using Cons.prems(1) env_entry_line x by simp
  then show ?case using Cons line by (simp add: overlay_line_def x)
qed simp

lemma other_lines_skipped: "\<not> ov_inApp r \<Longrightarrow> foldl overlay_line r (map env_line env) = r"
proof (induction env)
  case (Cons x env)
  have "\<not> indented 2 (env_line x)"
    by (cases x) (simp add: env_line_def indented_def js_space_def)
  then show ?case using Cons by (simp add: overlay_line_def)
qed simp

lemma service_line_name:
  assumes "plain name"
  shows "indented 2 (''  '' @ name @ '':'')" "key_alone 2 ''app'' (''  '' @ name @ '':'') \<longleftrightarrow> name = ''app''"
proof -
  show "indented 2 (''  '' @ name @ '':'')"
    using assms by (cases name) (auto simp: plain_def indented_def js_space_def)
  moreover have "name = ''app''"
    if app: "starts_with ''app:'' (name @ '':'')" and rest: "list_all js_space (drop 4 (name @ '':''))"
  proof -
    obtain t where t: "name @ '':'' = ''app:'' @ t" using app unfolding starts_with_iff by blast
    have "t = []"
    proof (rule ccontr)
      assume "t \<noteq> []"
      then have "last t = CHR '':''" using t by (metis last_append last_snoc list.simps(3) last.simps)
      moreover have "list_all js_space t" using rest t by simp
      ultimately show False using \<open>t \<noteq> []\<close> by (auto simp: list_all_iff js_space_def dest!: last_in_set)
    qed
    then show ?thesis using t by simp
  qed
  ultimately show "key_alone 2 ''app'' (''  '' @ name @ '':'') \<longleftrightarrow> name = ''app''"
    by (auto simp: key_alone_def)
qed

lemma service_read:
  assumes "plain name" "list_all env_ok env"
  shows "foldl overlay_line r (service_lines (name, env)) =
    (if name = ''app'' then r\<lparr>ov_inApp := True, ov_inEnv := True, ov_env := ov_env r ++ map_of (rev env)\<rparr>
     else r\<lparr>ov_inApp := False, ov_inEnv := False\<rparr>)"
proof -
  have "indented 4 ''    environment:''" "\<not> indented 2 ''    environment:''"
    "key_alone 4 ''environment'' ''    environment:''"
    by (simp_all add: key_alone_def indented_def js_space_def)
  then show ?thesis
    using service_line_name [OF assms(1)] assms(2)
    by (simp add: service_lines_def overlay_line_def env_lines_read other_lines_skipped)
qed

definition service_ok :: "string \<times> (string \<times> string) list \<Rightarrow> bool" where
  "service_ok = (\<lambda>(name, env). plain name \<and> list_all env_ok env)"

text \<open>What is read of the services one after the other: the environments of those called \<open>app\<close>.\<close>

lemma services_read:
  "list_all service_ok services \<Longrightarrow> ov_env (foldl overlay_line r (concat (map service_lines services)))
     = foldl (\<lambda>m (name, env). if name = ''app'' then m ++ map_of (rev env) else m) (ov_env r) services"
proof (induction services arbitrary: r)
  case (Cons x services)
  obtain name env where x: "x = (name, env)" by (cases x)
  then have "foldl overlay_line r (service_lines x) =
    (if name = ''app'' then r\<lparr>ov_inApp := True, ov_inEnv := True, ov_env := ov_env r ++ map_of (rev env)\<rparr>
     else r\<lparr>ov_inApp := False, ov_inEnv := False\<rparr>)"
    using Cons.prems service_read by (simp add: service_ok_def)
  then show ?case using Cons by (simp add: x)
qed simp

lemma no_newline:
  assumes "service_ok x" "l \<in> set (service_lines x)"
  shows "CHR 0x0A \<notin> set l"
proof -
  obtain name env where x: "x = (name, env)" by (cases x)
  have "CHR 0x0A \<notin> set k" if "list_all key_char k" for k
    using that by (auto simp: list_all_iff key_char_def key_start_def digit_char_def)
  then show ?thesis
    using assms plain_lines
    by (auto simp: x service_ok_def service_lines_def env_line_def env_ok_def list_all_iff)
qed

lemma overlay_reads_back:
  assumes "list_all service_ok services"
  shows "readOverlayAppEnv (overlay_text services)
    = foldl (\<lambda>m (name, env). if name = ''app'' then m ++ map_of (rev env) else m) Map.empty services"
proof -
  have "split_on CHR 0x0A (overlay_text services) = ''services:'' # concat (map service_lines services)"
    unfolding overlay_text_def using assms no_newline
    by (intro split_on_join) (auto simp: list_all_iff)
  moreover have "\<not> indented 2 ''services:''" by (simp add: indented_def js_space_def)
  ultimately show ?thesis
    using services_read [OF assms] by (simp add: readOverlayAppEnv_def overlay_line_def)
qed

section \<open>Laws of the interceptor\<close>

text \<open>The requests of the page that one route takes.\<close>

definition takes :: "paid_path \<Rightarrow> page_event \<Rightarrow> bool" where
  "takes p e \<longleftrightarrow>
     (case e of
        Page_request meth path body \<Rightarrow>
          meth = ''POST'' \<and> paid_route path = Some p \<and> \<not> handler_throws p body
      | _ \<Rightarrow> False)"

lemma posts_counted: "posts p (runs intercept s es) = posts p s + length (filter (takes p) es)"
proof (induction es arbitrary: s)
  case (Cons e es)
  have "posts p (intercept s e) = posts p s + length (filter (takes p) [e])"
    by (cases e; cases "case e of Page_request meth path body \<Rightarrow> paid_route path | _ \<Rightarrow> None")
      (auto simp: posts_def takes_def attempt_of_def handler_throws_def split: option.split paid_path.split)
  then show ?case using Cons by simp
qed simp

definition may_forward :: "session_mode \<Rightarrow> string \<Rightarrow> string \<Rightarrow> bool" where
  "may_forward mode meth path \<longleftrightarrow> meth \<noteq> ''POST'' \<or> paid_route path = None
     \<or> mode = Mock_pass_through \<and> paid_route path \<in> {Some Sessions, Some Session_turn}"

lemma path_text_route: "paid_route (path_text p) = Some p"
  by (cases p) (simp_all add: paid_route_def turn_path_def)

definition intercept_inv :: "session_mode \<Rightarrow> interceptor \<Rightarrow> bool" where
  "intercept_inv mode s \<longleftrightarrow> ip_mode s = mode
   \<and> (\<forall>(meth, path, answer) \<in> set (ip_answers s). answer = Forwarded \<longrightarrow> may_forward mode meth path)
   \<and> distinct (map fst (ip_waiting s)) \<and> (\<forall>(i, p) \<in> set (ip_waiting s). i < length (ip_attempts s))"

lemma intercept_inv_step: "intercept_inv mode s \<Longrightarrow> intercept_inv mode (intercept s e)"
proof (cases e)
  case (Page_request meth path body)
  assume inv: "intercept_inv mode s"
  show ?thesis
  proof (cases "if meth = ''POST'' then paid_route path else None")
    case None
    then show ?thesis using inv Page_request
      by (auto simp: intercept_inv_def may_forward_def split: if_splits)
  next
    case (Some p)
    have "length (ip_attempts s) \<notin> fst ` set (ip_waiting s)" using inv by (auto simp: intercept_inv_def)
    then show ?thesis using inv Page_request Some by (auto simp: intercept_inv_def split: if_splits)
  qed
next
  case (Latency_over i)
  assume inv: "intercept_inv mode s"
  show ?thesis
  proof (cases "map_of (ip_waiting s) i")
    case None
    then show ?thesis using inv Latency_over by simp
  next
    case (Some p)
    have "settled (ip_mode s) (ip_offline s) p = Forwarded \<Longrightarrow> may_forward mode ''POST'' (path_text p)"
      using inv by (cases p) (auto simp: settled_def may_forward_def intercept_inv_def path_text_route
        simp del: path_text.simps split: if_splits)
    then show ?thesis using inv Latency_over Some
      by (auto simp: intercept_inv_def distinct_map_filter)
  qed
qed (auto simp: intercept_inv_def)

interpretation paid: reducer intercept
  "\<lparr>ip_mode = mode, ip_offline = False, ip_attempts = [], ip_waiting = [], ip_answers = []\<rparr>"
  "intercept_inv mode"
  by unfold_locales (simp add: intercept_inv_def, rule intercept_inv_step)

text \<open>
  C26. The paid writes stay in the browser: once the interceptor is installed, whatever the page
  requests, however long the answers take and whenever the network is switched off, a POST that is
  forwarded is of no paid route, or is one of the two session writes, and then the overlay, and the
  container if it could be asked, pin the mock data and the disabled key. Research and conversation
  writes are never forwarded, and every paid write is counted, once; the one that is not is a
  research write with the body \<open>null\<close>, whose handler throws and answers nothing.
\<close>

theorem paid_writes_stay_home:
  assumes "interceptPaidPath mode (assertMockModeStack overlay docker) = Some s"
  shows "let s' = runs intercept s es in
      (\<forall>meth path. (meth, path, Forwarded) \<in> set (ip_answers s') \<longrightarrow>
         meth \<noteq> ''POST'' \<or> paid_route path = None
       \<or> paid_route path \<in> {Some Sessions, Some Session_turn}
         \<and> pinned (readOverlayAppEnv overlay)
         \<and> (\<forall>env. readContainerEnv docker = Some env \<longrightarrow> pinned env))
    \<and> (\<forall>p. posts p s' = length (filter (takes p) es))"
proof -
  have s: "s = \<lparr>ip_mode = mode, ip_offline = False, ip_attempts = [], ip_waiting = [], ip_answers = []\<rparr>"
    "mode = Mock_pass_through \<Longrightarrow> \<exists>b. assertMockModeStack overlay docker = Inr b"
    using assms by (auto simp: interceptPaidPath_def split: if_splits)
  have "intercept_inv mode (runs intercept s es)" using paid.inv_from_init [of mode es] s(1) by simp
  then have "may_forward mode meth path" if "(meth, path, Forwarded) \<in> set (ip_answers (runs intercept s es))"
    for meth path using that by (auto simp: intercept_inv_def)
  moreover have "posts p s = 0" for p by (simp add: s(1) posts_def)
  moreover have "pinned (readOverlayAppEnv overlay) \<and> (\<forall>env. readContainerEnv docker = Some env \<longrightarrow> pinned env)"
    if "mode = Mock_pass_through" using s(2) [OF that] mock_mode_is_pinned [of overlay docker] by blast
  ultimately show ?thesis unfolding Let_def may_forward_def by (simp add: posts_counted) blast
qed

lemma sample_overlay:
  "pinned (readOverlayAppEnv (overlay_text
     [(''web'', [(''PORT'', ''3000'')]),
      (''app'', [(''USE_MOCK_DATA'', ''true''), (''ANTHROPIC_API_KEY'', DISABLED_API_KEY)])]))"
proof -
  have "list_all service_ok
     [(''web'', [(''PORT'', ''3000'')]),
      (''app'', [(''USE_MOCK_DATA'', ''true''), (''ANTHROPIC_API_KEY'', DISABLED_API_KEY)])]"
    by (simp add: service_ok_def plain_def env_ok_def key_start_def key_char_def digit_char_def js_space_def
      quote_mark_def DISABLED_API_KEY_def)
  then show ?thesis by (simp add: overlay_reads_back pinned_def)
qed

theorem paid_writes_stay_home_witness:
  "\<exists>overlay s. interceptPaidPath Mock_pass_through (assertMockModeStack overlay None) = Some s
    \<and> posts Sessions (runs intercept s [Page_request ''POST'' ''/api/learn/sessions'' None, Latency_over 0]) = 1"
proof -
  let ?overlay = "overlay_text [(''web'', [(''PORT'', ''3000'')]),
      (''app'', [(''USE_MOCK_DATA'', ''true''), (''ANTHROPIC_API_KEY'', DISABLED_API_KEY)])]"
  have "assertMockModeStack ?overlay None = Inr False"
    using sample_overlay by (simp only: mock_mode_is_pinned) (simp add: readContainerEnv_def)
  then have installed: "interceptPaidPath Mock_pass_through (assertMockModeStack ?overlay None)
      = Some \<lparr>ip_mode = Mock_pass_through, ip_offline = False, ip_attempts = [], ip_waiting = [],
              ip_answers = []\<rparr>"
    by (auto simp: interceptPaidPath_def)
  have "takes Sessions (Page_request ''POST'' ''/api/learn/sessions'' None)" "\<not> takes Sessions (Latency_over 0)"
    by (simp_all add: takes_def paid_route_def handler_throws_def)
  then show ?thesis
    using installed paid_writes_stay_home [OF installed,
        of "[Page_request ''POST'' ''/api/learn/sessions'' None, Latency_over 0]"]
    unfolding Let_def by (intro exI conjI) auto
qed

text \<open>A recorded row passes exactly when the assertion behind it does not throw, and the stub answers
  no research request with anything but a refusal.\<close>

lemma recorded_rows:
  "hd (fst (expectExactly n project scenario s)) = verdict_word (\<not> snd (expectExactly n project scenario s))"
  "hd (fst (expectSessionExactly c t project scenario s))
     = verdict_word (\<not> snd (expectSessionExactly c t project scenario s))"
  by (simp_all add: expectExactly_def expectSessionExactly_def Let_def)

lemma stub_never_runs:
  "fst (stub_upstream meth path) < 300 \<longleftrightarrow> meth = ''GET'' \<and> path = ''/healthz''"
  by (auto simp: stub_upstream_def)

end
