(* ===== verification/Csp_Probe.thy ===== *)
theory Csp_Probe
  imports Server_Proxy
begin

text \<open>
  What the end-to-end tier reads of the content security policy (\<open>web/e2e/support/csp.ts\<close>): the
  violations a page collects, the header of a response, the console messages that count, and the
  evidence file several workers write. The response is the one of the middleware in \<open>Server_Proxy\<close>.
\<close>

section \<open>Violations\<close>

record csp_violation =
  cv_directive :: string
  cv_blockedUri :: string
  cv_disposition :: string
  cv_sample :: string
  cv_documentUri :: string
  cv_sourceFile :: string
  cv_line :: int
  cv_column :: int

text \<open>The browser's event; what an engine does not supply is \<open>None\<close>.\<close>

record policy_event =
  ev_effectiveDirective :: string
  ev_violatedDirective :: string
  ev_blockedURI :: string
  ev_disposition :: string
  ev_sample :: "string option"
  ev_documentURI :: string
  ev_sourceFile :: "string option"
  ev_lineNumber :: "int option"
  ev_columnNumber :: "int option"

definition or_blank_text :: "string option \<Rightarrow> string" where
  "or_blank_text s = (case s of None \<Rightarrow> [] | Some t \<Rightarrow> t)"

definition or_zero :: "int option \<Rightarrow> int" where
  "or_zero n = (case n of None \<Rightarrow> 0 | Some k \<Rightarrow> k)"

definition csp_violation_of :: "policy_event \<Rightarrow> csp_violation" where
  "csp_violation_of e =
     \<lparr>cv_directive = (if ev_effectiveDirective e \<noteq> [] then ev_effectiveDirective e else ev_violatedDirective e),
      cv_blockedUri = ev_blockedURI e, cv_disposition = ev_disposition e,
      cv_sample = take 60 (or_blank_text (ev_sample e)), cv_documentUri = ev_documentURI e,
      cv_sourceFile = or_blank_text (ev_sourceFile e), cv_line = or_zero (ev_lineNumber e),
      cv_column = or_zero (ev_columnNumber e)\<rparr>"

text \<open>The global of the page, \<open>None\<close> before the probe ran in it: every document starts anew.\<close>

datatype probe_event = Opens_document | Refuses policy_event

fun csp_probe :: "csp_violation list option \<Rightarrow> probe_event \<Rightarrow> csp_violation list option" where
  "csp_probe seen Opens_document = Some []"
| "csp_probe seen (Refuses e) = map_option (\<lambda>vs. vs @ [csp_violation_of e]) seen"

definition readCspViolations :: "csp_violation list option \<Rightarrow> csp_violation list" where
  "readCspViolations seen = (case seen of None \<Rightarrow> [] | Some vs \<Rightarrow> vs)"

definition isCspConsoleMessage :: "string \<Rightarrow> bool" where
  "isCspConsoleMessage text \<longleftrightarrow>
     list_ex (str_includes (to_lower text))
       [''content security policy'', ''content-security-policy'', ''violates the following'']"

section \<open>The header\<close>

datatype reading_mode = Reads_enforce | Reads_report_only | Reads_absent

record csp_reading =
  cr_mode :: reading_mode
  cr_policy :: string
  cr_nonce :: "string option"

definition NONCE_OPEN :: string where
  "NONCE_OPEN = CHR 0x27 # ''nonce-''"

text \<open>The leftmost match of \<open>/'nonce-([^']+)'/\<close>.\<close>

fun nonce_in :: "string \<Rightarrow> string option" where
  "nonce_in [] = None"
| "nonce_in (c # cs) =
     (let rest = drop (length NONCE_OPEN) (c # cs); u = takeWhile (\<lambda>x. x \<noteq> CHR 0x27) rest
      in if starts_with NONCE_OPEN (c # cs) \<and> u \<noteq> [] \<and> length u < length rest then Some u
         else nonce_in cs)"

definition readCspHeader :: "headers option \<Rightarrow> csp_reading" where
  "readCspHeader response =
     (let h = (case response of None \<Rightarrow> Map.empty | Some h \<Rightarrow> h);
          enforcing = h ''content-security-policy'';
          reporting = h ''content-security-policy-report-only'';
          policy = (case enforcing of Some p \<Rightarrow> p
                    | None \<Rightarrow> (case reporting of Some p \<Rightarrow> p | None \<Rightarrow> []))
      in \<lparr>cr_mode = (if enforcing \<noteq> None then Reads_enforce
                     else if reporting \<noteq> None then Reads_report_only else Reads_absent),
          cr_policy = policy, cr_nonce = nonce_in policy\<rparr>)"

section \<open>The evidence\<close>

definition tabbed :: "string list \<Rightarrow> string" where
  "tabbed cells = join [CHR 0x09] cells"

definition CSP_ROWS_HEADER :: string where
  "CSP_ROWS_HEADER =
     tabbed [''state'', ''rows'', ''mode'', ''violations'', ''console'', ''directives'']"

definition csp_row :: "string \<Rightarrow> string list \<Rightarrow> string \<Rightarrow> csp_violation list \<Rightarrow> string list \<Rightarrow> string" where
  "csp_row state rows mode violations consoleMessages =
     (let directives = join '','' (map cv_directive violations)
      in tabbed [state, join ''+'' rows, mode, show_nat (length violations),
           show_nat (length consoleMessages), if directives = [] then [CHR 0x97] else directives])"

text \<open>The two calls of \<open>appendCspRow\<close>, which other workers' calls may come between: the exclusive
  creation with the header, and the append. \<open>None\<close> is a file that does not exist.\<close>

datatype file_call = Creates | Appends string

fun evidence_file :: "string option \<Rightarrow> file_call \<Rightarrow> string option" where
  "evidence_file None Creates = Some (CSP_ROWS_HEADER @ [CHR 0x0A])"
| "evidence_file (Some text) Creates = Some text"
| "evidence_file file (Appends line) = Some (or_blank_text file @ line @ [CHR 0x0A])"

definition describe_violation :: "csp_violation \<Rightarrow> string" where
  "describe_violation v =
     ''  '' @ cv_disposition v @ '' '' @ cv_directive v @ '' blocked='' @ cv_blockedUri v
     @ (if cv_sourceFile v = [] then []
        else '' at '' @ cv_sourceFile v @ '':'' @ show_int (cv_line v) @ '':'' @ show_int (cv_column v))
     @ (if cv_sample v = [] then [] else '' sample='' @ stringify (JStr (cv_sample v)))"

definition describeViolations :: "csp_violation list \<Rightarrow> string list \<Rightarrow> string" where
  "describeViolations violations consoleMessages =
     join [CHR 0x0A] (map describe_violation violations
       @ map (\<lambda>message. ''  console: '' @ message) consoleMessages)"

section \<open>Laws\<close>

lemma base64_char_plain: "base64_char n \<noteq> CHR 0x27"
proof -
  have "of_char (base64_char n) \<noteq> (39 :: nat)" by (auto simp: base64_char_def)
  then show ?thesis by auto
qed

lemma nonce_plain: "list_all (\<lambda>c. c \<noteq> CHR 0x27) (createNonce random)"
  unfolding createNonce_def by (induction random rule: btoa.induct) (simp_all add: base64_char_plain)

lemma nonce_found:
  assumes "nonce \<noteq> []" "list_all (\<lambda>c. c \<noteq> CHR 0x27) nonce"
  shows "nonce_in (buildCspPolicy nonce) = Some nonce"
proof -
  have "takeWhile (\<lambda>x. x \<noteq> CHR 0x27) (nonce @ CHR 0x27 # rest) = nonce" for rest
    using assms(2) by (simp add: list_all_iff takeWhile_append2)
  then show ?thesis
    using assms(1) by (simp add: buildCspPolicy_text quoted_def NONCE_OPEN_def)
qed

text \<open>
  C38. What a browser test reads of a response is what the middleware decided, for every
  configuration and all random bytes: the mode, the policy and in it the nonce of this request, the
  same one the renderer is handed; nothing at all where the policy is off.
\<close>

theorem csp_header_reads_back:
  assumes "random \<noteq> []"
  shows "let (request, response) = middleware env random h; nonce = createNonce random
    in readCspHeader (Some response) =
         (case cspModeFor env of
            Csp_off \<Rightarrow> \<lparr>cr_mode = Reads_absent, cr_policy = [], cr_nonce = None\<rparr>
          | Csp_enforce \<Rightarrow> \<lparr>cr_mode = Reads_enforce, cr_policy = buildCspPolicy nonce, cr_nonce = Some nonce\<rparr>
          | Csp_report_only \<Rightarrow>
              \<lparr>cr_mode = Reads_report_only, cr_policy = buildCspPolicy nonce, cr_nonce = Some nonce\<rparr>)
     \<and> (cspModeFor env \<noteq> Csp_off \<longrightarrow> request NONCE_HEADER = Some nonce)"
proof -
  have "createNonce random \<noteq> []"
    unfolding createNonce_def using assms by (cases random rule: btoa.cases) simp_all
  then have "nonce_in (buildCspPolicy (createNonce random)) = Some (createNonce random)"
    by (rule nonce_found) (rule nonce_plain)
  then show ?thesis
    by (cases "cspModeFor env")
      (simp_all add: middleware_def readCspHeader_def CSP_HEADER_def CSP_REPORT_ONLY_HEADER_def
        NONCE_HEADER_def Let_def)
qed

theorem csp_header_reads_back_witness:
  "cr_nonce (readCspHeader (Some (snd (middleware Map.empty (replicate 16 0) Map.empty))))
     = Some (createNonce (replicate 16 0))"
  using csp_header_reads_back [of "replicate 16 0" Map.empty Map.empty]
  by (auto simp: cspModeFor_def Let_def split: prod.splits)

text \<open>Only the document that is open is accounted for: what was refused before is not read.\<close>

lemma a_document_starts_anew:
  assumes "list_all (\<lambda>e. e \<noteq> Opens_document) es"
  shows "readCspViolations (foldl csp_probe seen (Opens_document # es))
    = map (\<lambda>e. case e of Refuses p \<Rightarrow> csp_violation_of p) es"
proof -
  have "foldl csp_probe (Some vs) es = Some (vs @ map (\<lambda>e. case e of Refuses p \<Rightarrow> csp_violation_of p) es)" for vs
    using assms
  proof (induction es arbitrary: vs)
    case (Cons e es)
    then show ?case by (cases e) simp_all
  qed simp
  then show ?thesis by (simp add: readCspViolations_def)
qed

text \<open>Whatever the workers' calls are interleaved as, the file is the header once and then every row.\<close>

lemma evidence_is_whole:
  "foldl evidence_file None (Creates # calls) =
     Some (concat (map (\<lambda>line. line @ [CHR 0x0A])
       (CSP_ROWS_HEADER # List.map_filter (\<lambda>c. case c of Appends line \<Rightarrow> Some line | _ \<Rightarrow> None) calls)))"
proof -
  have "foldl evidence_file (Some t) calls =
      Some (t @ concat (map (\<lambda>line. line @ [CHR 0x0A])
        (List.map_filter (\<lambda>c. case c of Appends line \<Rightarrow> Some line | _ \<Rightarrow> None) calls)))" for t
  proof (induction calls arbitrary: t)
    case (Cons c calls)
    then show ?case by (cases c) (simp_all add: or_blank_text_def)
  qed simp
  then show ?thesis by simp
qed

end
