(* ===== verification/A11y_Probes.thy ===== *)
theory A11y_Probes
  imports Diag_Redact Complex_Main
begin

text \<open>
  The probes of the accessibility specifications (\<open>web/e2e/support/a11y.ts\<close>, and the reflow and work
  surface of \<open>measure.ts\<close>): which outline counts as the focus indicator, the walk of the tab key, the
  role and name of a snapshot line, the recorder of the live regions and what is found in motion. What
  the browser computes of an element is a record; lengths are rationals.
\<close>

section \<open>The focus indicator\<close>

text \<open>A computed outline; a width that is no number is \<open>None\<close>.\<close>

record outline =
  ol_style :: string
  ol_width :: "rat option"
  ol_widthText :: string
  ol_offset :: string

definition ringOf :: "outline option \<Rightarrow> string option" where
  "ringOf node =
     (case node of
        None \<Rightarrow> None
      | Some s \<Rightarrow>
          if ol_style s = ''none'' \<or> ol_width s = None \<or> ol_width s = Some 0 then None
          else Some (ol_style s @ '' '' @ ol_widthText s @ '' @ '' @ ol_offset s))"

definition authored :: "string option \<Rightarrow> bool" where
  "authored ring \<longleftrightarrow> (case ring of None \<Rightarrow> False | Some r \<Rightarrow> \<not> starts_with ''auto '' r)"

datatype outline_place = On_self | On_sibling | On_parent | On_none

definition indicator :: "outline option \<Rightarrow> outline option \<Rightarrow> outline option \<Rightarrow> string \<times> outline_place" where
  "indicator self sibling parent =
     (let rings = [(On_self, ringOf self), (On_sibling, ringOf sibling), (On_parent, ringOf parent)];
          found = map (\<lambda>(p, r). (p, if authored r then r else None)) rings @ rings
      in case find (\<lambda>(p, r). r \<noteq> None) found of
           Some (p, Some r) \<Rightarrow> (r, p)
         | _ \<Rightarrow> (''none'', On_none))"

text \<open>No indicator is reported exactly when neither the element nor the two beside it has one; and one
  of the browser's own is reported only when nobody wrote another.\<close>

lemma indicator_is_found:
  "snd (indicator self sibling parent) = On_none
     \<longleftrightarrow> ringOf self = None \<and> ringOf sibling = None \<and> ringOf parent = None"
  "snd (indicator self sibling parent) \<noteq> On_none \<Longrightarrow> \<not> authored (Some (fst (indicator self sibling parent)))
     \<Longrightarrow> \<not> authored (ringOf self) \<and> \<not> authored (ringOf sibling) \<and> \<not> authored (ringOf parent)"
  by (cases "ringOf self"; cases "ringOf sibling"; cases "ringOf parent";
      auto simp: indicator_def authored_def Let_def split: if_splits)+

section \<open>A line of the accessibility tree\<close>

text \<open>\<open>replace(/^\s*-\s+'?/, "- ")\<close>.\<close>

definition list_marker :: "string \<Rightarrow> string" where
  "list_marker s =
     (let t = dropWhile js_space s
      in if t \<noteq> [] \<and> hd t = CHR ''-'' \<and> tl t \<noteq> [] \<and> js_space (hd (tl t))
         then ''- '' @ (let r = dropWhile js_space (tl t)
                        in if r \<noteq> [] \<and> hd r = CHR 0x27 then tl r else r)
         else s)"

text \<open>\<open>/^-\s+([a-zA-Z]+)(?:\s+"([^"]*)")?/\<close>.\<close>

definition quoted_name :: "string \<Rightarrow> string option" where
  "quoted_name s =
     (let r = dropWhile js_space s; u = takeWhile (\<lambda>c. c \<noteq> CHR 0x22) (tl r)
      in if s \<noteq> [] \<and> js_space (hd s) \<and> r \<noteq> [] \<and> hd r = CHR 0x22 \<and> length u < length (tl r) then Some u else None)"

definition parseAriaLine :: "string \<Rightarrow> string \<times> string" where
  "parseAriaLine snapshot =
     (let first = list_marker (hd (split_on CHR 0x0A snapshot));
          r = dropWhile js_space (tl first); role = takeWhile letter r
      in if first \<noteq> [] \<and> hd first = CHR ''-'' \<and> tl first \<noteq> [] \<and> js_space (hd (tl first)) \<and> role \<noteq> []
         then (role, case quoted_name (drop (length role) r) of None \<Rightarrow> [] | Some name \<Rightarrow> name)
         else (''(unknown)'', []))"

section \<open>The walk of the tab key\<close>

text \<open>\<open>stop k\<close> is what the \<open>k\<close>th press of the key puts the focus on.\<close>

fun tabUntil_from :: "(nat \<Rightarrow> 'stop) \<Rightarrow> ('stop \<Rightarrow> bool) \<Rightarrow> nat \<Rightarrow> nat \<Rightarrow> 'stop list \<times> 'stop option" where
  "tabUntil_from stop matches index 0 = ([], None)"
| "tabUntil_from stop matches index (Suc left) =
     (if matches (stop index) then ([stop index], Some (stop index))
      else let (stops, found) = tabUntil_from stop matches (index + 1) left in (stop index # stops, found))"

definition tabUntil :: "(nat \<Rightarrow> 'stop) \<Rightarrow> ('stop \<Rightarrow> bool) \<Rightarrow> nat \<Rightarrow> 'stop list \<times> 'stop option" where
  "tabUntil stop matches limit = tabUntil_from stop matches 1 limit"

definition walkTabOrder :: "(nat \<Rightarrow> 'stop) \<Rightarrow> nat \<Rightarrow> 'stop list" where
  "walkTabOrder stop count = map stop [1..<Suc count]"

lemma tabUntil_from_walks:
  "tabUntil_from stop matches i n =
     (let w = map stop [i..<i + n]
      in (takeWhile (\<lambda>s. \<not> matches s) w @ take 1 (dropWhile (\<lambda>s. \<not> matches s) w), find matches w))"
proof (induction n arbitrary: i)
  case (Suc n)
  have "[i..<i + Suc n] = i # [Suc i..<Suc i + n]" by (simp add: upt_rec)
  then show ?case using Suc.IH [of "Suc i"] by (simp add: Let_def del: upt_Suc)
qed (simp add: Let_def)

text \<open>The walk stops at the first element that matches, having recorded every stop up to it, or after
  the limit with nothing found.\<close>

lemma tabUntil_finds_the_first:
  "let w = walkTabOrder stop limit; (stops, found) = tabUntil stop matches limit
   in found = find matches w \<and> (\<exists>rest. w = stops @ rest)
    \<and> (found = None \<longleftrightarrow> stops = w \<and> \<not> list_ex matches w)"
proof -
  define w where "w = map stop [1..<1 + limit]"
  have walk: "walkTabOrder stop limit = w" by (simp add: walkTabOrder_def w_def)
  let ?kept = "takeWhile (\<lambda>s. \<not> matches s) w" and ?left = "dropWhile (\<lambda>s. \<not> matches s) w"
  have tabbed: "tabUntil stop matches limit = (?kept @ take 1 ?left, find matches w)"
    unfolding tabUntil_def tabUntil_from_walks w_def by (simp only: Let_def)
  have found: "find matches w = None \<longleftrightarrow> \<not> list_ex matches w"
    unfolding find_None_iff list_ex_iff by fast
  have all: "?kept @ take 1 ?left = w" if "\<not> list_ex matches w"
  proof -
    have "?kept = w" "?left = []" using that by (simp_all add: takeWhile_eq_all_conv list_ex_iff)
    then show ?thesis by (metis append_Nil2 take_Nil)
  qed
  have "?kept @ take 1 ?left @ drop 1 ?left = w" by (metis append_take_drop_id takeWhile_dropWhile_id)
  then have "\<exists>rest. w = (?kept @ take 1 ?left) @ rest" by (metis append.assoc)
  then show ?thesis unfolding walk tabbed Let_def case_prod_conv using found all by metis
qed

section \<open>Live regions\<close>

text \<open>A region is a number; its text is what it has when the observer's callback runs, the regions of
  the callback are those a mutation since the last one was in. A sample is a region and its text.\<close>

record live_recorder =
  lr_text :: "nat \<Rightarrow> string"
  lr_touched :: "nat list"
  lr_last :: "nat \<Rightarrow> string option"
  lr_samples :: "(nat \<times> string) list"

datatype live_event = Mutates nat string | Observer_runs

definition sample_region :: "nat \<Rightarrow> live_recorder \<Rightarrow> live_recorder" where
  "sample_region r s =
     (let t = lr_text s r
      in if lr_last s r = Some t then s
         else s\<lparr>lr_last := (lr_last s)(r := Some t), lr_samples := lr_samples s @ [(r, t)]\<rparr>)"

fun recordLiveRegions :: "live_recorder \<Rightarrow> live_event \<Rightarrow> live_recorder" where
  "recordLiveRegions s (Mutates r t) =
     s\<lparr>lr_text := (lr_text s)(r := t), lr_touched := lr_touched s @ [r]\<rparr>"
| "recordLiveRegions s Observer_runs = (fold sample_region (lr_touched s) s)\<lparr>lr_touched := []\<rparr>"

text \<open>The samples of one region, in order.\<close>

definition samples_of :: "nat \<Rightarrow> live_recorder \<Rightarrow> string list" where
  "samples_of r s = map snd (filter (\<lambda>(q, t). q = r) (lr_samples s))"

definition live_inv :: "live_recorder \<Rightarrow> bool" where
  "live_inv s \<longleftrightarrow> (\<forall>r. distinct_adj (samples_of r s)
     \<and> lr_last s r = (if samples_of r s = [] then None else Some (last (samples_of r s))))"

lemma sample_inv: "live_inv s \<Longrightarrow> live_inv (sample_region r s)"
  by (auto simp: live_inv_def sample_region_def samples_of_def Let_def distinct_adj_append_iff)

lemma fold_sample_inv: "live_inv s \<Longrightarrow> live_inv (fold sample_region rs s)"
  by (induction rs arbitrary: s) (auto simp: sample_inv)

interpretation live: reducer recordLiveRegions
  "\<lparr>lr_text = f, lr_touched = [], lr_last = (\<lambda>r. None), lr_samples = []\<rparr>" live_inv
proof
  show "live_inv (recordLiveRegions s e)" if "live_inv s" for s e
    using that fold_sample_inv [OF that] by (cases e) (simp_all add: live_inv_def samples_of_def)
qed (simp add: live_inv_def samples_of_def)

text \<open>What a region announced is recorded once per change the observer saw, the last sample being its
  text then; a text that is replaced before the observer runs is not in the record.\<close>

lemma texts_kept: "lr_text (fold sample_region rs s) = lr_text s"
  by (induction rs arbitrary: s) (simp_all add: sample_region_def Let_def)

lemma sampled_last:
  "r \<in> set rs \<Longrightarrow> lr_last (fold sample_region rs s) r = Some (lr_text s r)"
proof (induction rs arbitrary: s)
  case (Cons q rs)
  have stays: "lr_last t r = Some (lr_text t r) \<Longrightarrow> lr_last (fold sample_region qs t) r = Some (lr_text t r)" for qs t
    by (induction qs arbitrary: t) (simp_all add: sample_region_def Let_def)
  have "lr_text (sample_region q s) = lr_text s" by (simp add: sample_region_def Let_def)
  moreover have "lr_last (sample_region r s) r = Some (lr_text s r)" by (simp add: sample_region_def Let_def)
  ultimately show ?case
    using Cons stays [of "sample_region q s" rs] by (cases "q = r") auto
qed simp

lemma replaced_text_is_lost:
  "samples_of r (runs recordLiveRegions \<lparr>lr_text = f, lr_touched = [], lr_last = (\<lambda>r. None), lr_samples = []\<rparr>
     [Mutates r a, Mutates r b, Observer_runs]) = [b]"
  by (simp add: sample_region_def samples_of_def)

section \<open>Motion and layout\<close>

text \<open>One part of a duration list: its number, if it is one, and whether it is in milliseconds.\<close>

definition positive :: "(rat option \<times> bool) list \<Rightarrow> bool" where
  "positive parts \<longleftrightarrow>
     list_ex (\<lambda>(n, ms). case n of None \<Rightarrow> False | Some v \<Rightarrow> (if ms then v / 1000 else v) > 15 / 10000) parts"

record motion_style =
  mo_animationName :: string
  mo_animationDuration :: "(rat option \<times> bool) list"
  mo_transitionProperty :: string
  mo_transitionDuration :: "(rat option \<times> bool) list"

definition moving :: "motion_style \<Rightarrow> bool" where
  "moving s \<longleftrightarrow>
     mo_animationName s \<noteq> ''none'' \<and> positive (mo_animationDuration s)
   \<or> mo_transitionProperty s \<noteq> ''none'' \<and> mo_transitionProperty s \<noteq> [] \<and> positive (mo_transitionDuration s)"

definition findMoving :: "(string \<times> motion_style) list \<Rightarrow> (string \<times> motion_style) list" where
  "findMoving elements = filter (moving \<circ> snd) elements"

text \<open>A millisecond, the duration of the reduced-motion styles, is not motion in either unit.\<close>

lemma a_millisecond_is_still: "\<not> positive [(Some 1, True), (Some (1 / 1000), False), (None, b)]"
  by (simp add: positive_def)

text \<open>The widest element past the viewport; its right edge is compared before it is rounded.\<close>

definition widest_overflow :: "rat \<Rightarrow> (string \<times> rat) list \<Rightarrow> (string \<times> rat) option" where
  "widest_overflow clientWidth elements =
     foldl (\<lambda>widest (selector, right).
        if right \<le> clientWidth + 1 then widest
        else case widest of
          None \<Rightarrow> Some (selector, of_int \<lfloor>right + 1 / 2\<rfloor>)
        | Some (_, width) \<Rightarrow>
            if right \<le> width then widest else Some (selector, of_int \<lfloor>right + 1 / 2\<rfloor>)) None elements"

definition WORK_SURFACES :: "string list" where
  "WORK_SURFACES = [''[data-workbench-shell] .ew-shell__surface'', ''[data-workbench-shell] main#main'',
     ''main'', ''div.flex.h-screen > div.flex-1'']"

definition measureWorkSurface :: "(string \<Rightarrow> rat option) \<Rightarrow> int \<times> string" where
  "measureWorkSurface width_of =
     (case find (\<lambda>selector. width_of selector \<noteq> None) WORK_SURFACES of
        None \<Rightarrow> (0, ''none'')
      | Some selector \<Rightarrow> (\<lfloor>the (width_of selector) + 1 / 2\<rfloor>, selector))"

lemma widest_step:
  "(foldl (\<lambda>widest (selector, right).
        if right \<le> c + 1 then widest
        else case widest of
          None \<Rightarrow> Some (selector, of_int \<lfloor>right + 1 / 2\<rfloor>)
        | Some (_, width) \<Rightarrow>
            if right \<le> width then widest else Some (selector, of_int \<lfloor>right + 1 / 2\<rfloor>)) w es \<noteq> None)
   \<longleftrightarrow> w \<noteq> None \<or> (\<exists>(selector, right) \<in> set es. right > c + 1)"
  by (induction es arbitrary: w) (auto split: option.split)

text \<open>Something is named exactly when an element reaches more than a pixel past the viewport. It need
  not be the widest: an edge that rounds up hides a wider one within half a pixel.\<close>

lemma overflow_is_named:
  "widest_overflow c es \<noteq> None \<longleftrightarrow> (\<exists>(selector, right) \<in> set es. right > c + 1)"
  unfolding widest_overflow_def widest_step by simp

lemma wider_one_hidden:
  "widest_overflow 320 [(''a'', 3305 / 10), (''b'', 3309 / 10)] = Some (''a'', 331)"
  by (simp add: widest_overflow_def)

section \<open>A snapshot line read back\<close>

lemma snapshot_line_reads_back:
  assumes "role \<noteq> []" "list_all letter role" "CHR 0x22 \<notin> set name" "CHR 0x0A \<notin> set name"
  shows "parseAriaLine (''- '' @ role @ '' '' @ CHR 0x22 # name @ [CHR 0x22]) = (role, name)"
proof -
  have spaces: "js_space CHR '' ''" "\<not> js_space CHR 0x22" "\<not> js_space CHR ''-''"
    by (simp_all add: js_space_def)
  have letters: "letter c \<Longrightarrow> \<not> js_space c \<and> c \<noteq> CHR 0x0A \<and> c \<noteq> CHR 0x27" for c
    by (auto simp: letter_def js_space_def Let_def)
  obtain c cs where r: "role = c # cs" "letter c" using assms(1,2) by (cases role) auto
  let ?line = "''- '' @ role @ '' '' @ CHR 0x22 # name @ [CHR 0x22]"
  have free: "CHR 0x0A \<notin> set ?line"
    using assms(2,4) letters by (auto simp: list_all_iff)
  have first: "hd (split_on CHR 0x0A ?line) = ?line" unfolding split_on_single [OF free] by (rule list.sel)
  have marked: "list_marker ?line = ?line"
    using letters [OF r(2)] spaces by (simp add: list_marker_def r(1) Let_def)
  have role: "takeWhile letter (role @ '' '' @ CHR 0x22 # name @ [CHR 0x22]) = role"
    using assms(2) by (simp add: list_all_iff takeWhile_append2 letter_def)
  have name: "quoted_name ('' '' @ CHR 0x22 # name @ [CHR 0x22]) = Some name"
  proof -
    have "takeWhile (\<lambda>c. c \<noteq> CHR 0x22) (name @ [CHR 0x22]) = name"
      using assms(3) by (subst takeWhile_append2) auto
    then show ?thesis using spaces by (simp add: quoted_name_def Let_def)
  qed
  have skipped: "dropWhile js_space (tl ?line) = role @ '' '' @ CHR 0x22 # name @ [CHR 0x22]"
    using letters [OF r(2)] spaces by (simp add: r(1))
  show ?thesis
    unfolding parseAriaLine_def Let_def first marked skipped role
    using assms(1) name spaces by simp
qed

end
