(* ===== verification/Audit_Report.thy ===== *)
theory Audit_Report
  imports Audit_Gate
begin

text \<open>
  The rest of the dependency audit gate, \<open>web/scripts/audit-gate.mjs\<close>: what a run of npm yields, how
  its JSON is read as a report, the summary and the complaints, and \<open>main\<close> as one function. The
  outcome of npm and of reading the exceptions file are inputs; \<open>parse\<close> is \<open>JSON.parse\<close> with \<open>None\<close>
  where it throws. \<open>CHR 0x97\<close> is the em dash.
\<close>

section \<open>Running npm\<close>

text \<open>What \<open>execFileSync\<close> returns, or throws: the output, the error output and the message.\<close>

datatype npm_run = Npm_exits string | Npm_fails "string option" "string option" string

datatype audit_error = No_json "string list" string | Not_json "string list" string

definition audit_args :: "bool \<Rightarrow> string list" where
  "audit_args omitDev =
     [''audit'', ''--audit-level=high'', ''--json''] @ (if omitDev then [''--omit=dev''] else [])"

definition runAudit :: "(string \<Rightarrow> json option) \<Rightarrow> bool \<Rightarrow> npm_run \<Rightarrow> audit_error + json" where
  "runAudit parse omitDev npm =
     (let args = audit_args omitDev;
          stdout = (case npm of Npm_exits out \<Rightarrow> out | Npm_fails None _ _ \<Rightarrow> [] | Npm_fails (Some out) _ _ \<Rightarrow> out)
      in case npm of
           Npm_fails _ stderr message \<Rightarrow>
             if trim stdout = [] then Inl (No_json args (case stderr of Some t \<Rightarrow> t | None \<Rightarrow> message))
             else (case parse stdout of Some v \<Rightarrow> Inr v | None \<Rightarrow> Inl (Not_json args (take 2000 stdout)))
         | Npm_exits _ \<Rightarrow>
             (case parse stdout of Some v \<Rightarrow> Inr v | None \<Rightarrow> Inl (Not_json args (take 2000 stdout))))"

section \<open>Reading the JSON as a report\<close>

text \<open>\<open>Boolean(v)\<close>.\<close>

fun js_true :: "json option \<Rightarrow> bool" where
  "js_true None = False"
| "js_true (Some JNull) = False"
| "js_true (Some (JBool b)) = b"
| "js_true (Some (JNum n)) = (n \<noteq> JInt 0)"
| "js_true (Some (JStr s)) = (s \<noteq> [])"
| "js_true (Some v) = True"

text \<open>A source is a number; its title is read only where it is a text.\<close>

definition via_of :: "json \<Rightarrow> via" where
  "via_of v =
     (case v of
        JStr name \<Rightarrow> Via_name name
      | JObj m \<Rightarrow> Via_advisory (Option.bind (jprop m ''source'') as_integer) (string_at m ''title'')
      | _ \<Rightarrow> Via_other)"

definition array_at :: "jobj \<Rightarrow> string \<Rightarrow> json list" where
  "array_at m k = (case Option.bind (jprop m k) as_array of Some xs \<Rightarrow> xs | None \<Rightarrow> [])"

text \<open>One entry; \<open>null\<close> throws when its severity is read. Its lists are arrays or absent.\<close>

definition vulnerability_of :: "json \<Rightarrow> vulnerability option" where
  "vulnerability_of v =
     (case v of
        JNull \<Rightarrow> None
      | JObj m \<Rightarrow> Some \<lparr>vu_severity = (case string_at m ''severity'' of Some s \<Rightarrow> s | None \<Rightarrow> []),
          vu_isDirect = js_true (jprop m ''isDirect''),
          vu_nodes = List.map_filter as_string (array_at m ''nodes''),
          vu_via = map via_of (array_at m ''via'')\<rparr>
      | _ \<Rightarrow> Some \<lparr>vu_severity = [], vu_isDirect = False, vu_nodes = [], vu_via = []\<rparr>)"

fun entries_of :: "(string \<times> json) list \<Rightarrow> audit_report option" where
  "entries_of [] = Some []"
| "entries_of ((name, v) # es) =
     (case (vulnerability_of v, entries_of es) of (Some x, Some xs) \<Rightarrow> Some ((name, x) # xs) | _ \<Rightarrow> None)"

text \<open>\<open>Object.entries(report.vulnerabilities ?? {})\<close>: a report that is \<open>null\<close> throws, one without the
  property has no entries.\<close>

definition report_of :: "json \<Rightarrow> audit_report option" where
  "report_of v =
     (case v of
        JNull \<Rightarrow> None
      | JObj m \<Rightarrow>
          (case jprop m ''vulnerabilities'' of
             Some (JObj es) \<Rightarrow> entries_of es
           | Some (JArr xs) \<Rightarrow> entries_of (zip (map show_nat [0..<length xs]) xs)
           | _ \<Rightarrow> Some [])
      | _ \<Rightarrow> Some [])"

section \<open>The summary\<close>

definition describe :: "finding \<Rightarrow> string" where
  "describe f =
     fn_package f @ '' ('' @ fn_severity f @ '', advisories ''
     @ (if fn_advisories f = [] then ''none reported'' else join '', '' (map show_int (fn_advisories f))) @ '')''
     @ (if fn_titles f = [] then [] else '' '' @ [CHR 0x97] @ '' '' @ join ''; '' (fn_titles f))"

definition in_quotes :: "string \<Rightarrow> string" where
  "in_quotes s = CHR 0x22 # s @ [CHR 0x22]"

definition production_lines :: "finding list \<times> bool \<Rightarrow> string list" where
  "production_lines = (\<lambda>(findings, ok).
     (''  production tree  (--omit=dev): ''
      @ (if ok then ''0 high/critical advisories'' else show_nat (length findings) @ '' BLOCKING''))
     # map (\<lambda>f. ''    ! '' @ describe f) findings)"

definition accepted_lines :: "finding \<times> audit_exception \<Rightarrow> string list" where
  "accepted_lines = (\<lambda>(f, x).
     [''    ok '' @ describe f,
      ''       accepted '' @ ex_date x
      @ (case ex_owner x of None \<Rightarrow> [] | Some owner \<Rightarrow> if owner = [] then [] else '' by '' @ owner)
      @ '': '' @ ex_path x])"

definition unlisted_lines :: "finding \<times> audit_exception option \<Rightarrow> string list" where
  "unlisted_lines = (\<lambda>(f, entry).
     [''    ! '' @ describe f,
      (case entry of
         Some x \<Rightarrow> ''       '' @ EXCEPTIONS_PATH @ '' lists '' @ in_quotes (fn_package f) @ '' for advisories ''
           @ join '', '' (map show_int (ex_advisories x)) @ '', not ''
           @ join '', '' (map show_int (fn_advisories f)) @ ''.''
       | None \<Rightarrow> ''       not listed in '' @ EXCEPTIONS_PATH @ ''.'')])"

definition stale_line :: "audit_exception \<Rightarrow> string" where
  "stale_line x = ''    ! stale exception: '' @ in_quotes (ex_package x) @ '' matches nothing in this report.''"

definition full_line :: "full_verdict \<Rightarrow> audit_exception list \<Rightarrow> string" where
  "full_line full exceptions =
     ''  full tree        (incl. dev): '' @ show_nat (length (fv_findings full)) @ '' high/critical advisor''
     @ (if length (fv_findings full) = 1 then ''y'' else ''ies'') @ '', '' @ show_nat (length (fv_accepted full))
     @ '' accounted for by '' @ show_nat (length exceptions) @ '' exception''
     @ (if length exceptions = 1 then [] else ''s'')"

definition summary_lines :: "finding list \<times> bool \<Rightarrow> full_verdict \<Rightarrow> audit_exception list \<Rightarrow> string list" where
  "summary_lines production full exceptions =
     [''Dependency audit gate (05-MIGRATION.md C4)'', []] @ production_lines production
     @ [full_line full exceptions] @ concat (map accepted_lines (fv_accepted full))
     @ concat (map unlisted_lines (fv_unlisted full)) @ map stale_line (fv_stale full)"

definition renderSummary_audit :: "finding list \<times> bool \<Rightarrow> full_verdict \<Rightarrow> audit_exception list \<Rightarrow> string" where
  "renderSummary_audit production full exceptions = join [CHR 0x0A] (summary_lines production full exceptions)"

section \<open>The program\<close>

datatype complaint = Takes_no_arguments | Production_reached | Not_accounted_for | Outlived

definition complaints :: "finding list \<times> bool \<Rightarrow> full_verdict \<Rightarrow> complaint list" where
  "complaints production full =
     (if snd production then [] else [Production_reached])
     @ (if length (fv_unlisted full) > 0 then [Not_accounted_for] else [])
     @ (if length (fv_stale full) > 0 then [Outlived] else [])"

datatype gate_stop =
    Exceptions_not_json | Exceptions_refused exceptions_error | Audit_failed audit_error | Report_unreadable

text \<open>\<open>main\<close>, with the text of the exceptions file and the two runs of npm: what is printed, what is
  complained of, and the exit status; a \<open>gate_stop\<close> is the exception that ends it. The production tree
  is audited first, both before anything is evaluated.\<close>

definition gate_main ::
  "(string \<Rightarrow> string \<Rightarrow> bool) \<Rightarrow> (string \<Rightarrow> json option) \<Rightarrow> string list \<Rightarrow> string \<Rightarrow> npm_run \<Rightarrow> npm_run
     \<Rightarrow> gate_stop + string option \<times> complaint list \<times> int"
where
  "gate_main le parse argv file productionRun fullRun =
     (if length argv > 0 then Inr (None, [Takes_no_arguments], 2)
      else case parse file of
        None \<Rightarrow> Inl Exceptions_not_json
      | Some raw \<Rightarrow>
     (case parseExceptions raw of
        Inl e \<Rightarrow> Inl (Exceptions_refused e)
      | Inr exceptions \<Rightarrow>
     (case runAudit parse True productionRun of
        Inl e \<Rightarrow> Inl (Audit_failed e)
      | Inr p \<Rightarrow>
     (case runAudit parse False fullRun of
        Inl e \<Rightarrow> Inl (Audit_failed e)
      | Inr f \<Rightarrow>
     (case (report_of p, report_of f) of
        (Some productionReport, Some fullReport) \<Rightarrow>
          let production = evaluateProduction le productionReport;
              full = evaluateFullTree le fullReport exceptions
          in Inr (Some (renderSummary_audit production full exceptions), complaints production full,
                  if snd production \<and> fv_ok full then 0 else 1)
      | _ \<Rightarrow> Inl Report_unreadable)))))"

section \<open>Laws\<close>

lemmas gate_defs = gate_main_def Let_def
lemmas gate_splits = option.splits sum.splits if_splits

text \<open>The gate is quiet exactly when it passes.\<close>

lemma complaints_iff_fails: "complaints production (evaluateFullTree le report xs) = []
    \<longleftrightarrow> snd production \<and> fv_ok (evaluateFullTree le report xs)"
  by (auto simp: complaints_def evaluateFullTree_def Let_def)

lemma quiet_iff_passes:
  "gate_main le parse argv file productionRun fullRun = Inr (out, complained, status) \<Longrightarrow>
     status = 0 \<longleftrightarrow> complained = []"
  by (auto simp: gate_defs complaints_iff_fails [symmetric] split: gate_splits)

text \<open>With both reports at hand it ends as the verdict says.\<close>

lemma gate_main_ends_as_audit_main:
  assumes "parse file = Some raw" "parseExceptions raw = Inr xs"
    and "runAudit parse True productionRun = Inr p" "report_of p = Some productionReport"
    and "runAudit parse False fullRun = Inr f" "report_of f = Some fullReport"
  shows "map_option (snd \<circ> snd) (case gate_main le parse argv file productionRun fullRun of
           Inl e \<Rightarrow> None | Inr r \<Rightarrow> Some r)
       = audit_main le argv raw productionReport fullReport"
  using assms by (simp add: gate_defs audit_main_def audit_run_def)

text \<open>Every finding of either tree and every stale exception has its line.\<close>

lemma findings_are_split:
  assumes "full = evaluateFullTree le report xs" "f \<in> set (fv_findings full)"
  shows "f \<in> fst ` set (fv_accepted full) \<or> f \<in> fst ` set (fv_unlisted full)"
  using assms by (auto simp: evaluateFullTree_def Let_def image_image)

lemma every_finding_is_printed:
  assumes full: "full = evaluateFullTree le report xs"
    and f: "f \<in> set (fst production) \<union> set (fv_findings full)"
  shows "\<exists>mark \<in> {''    ! '', ''    ok ''}. mark @ describe f \<in> set (summary_lines production full xs)"
proof (cases "f \<in> set (fst production)")
  case True
  then have "''    ! '' @ describe f \<in> set (production_lines production)"
    by (cases production) (simp add: production_lines_def)
  then show ?thesis unfolding summary_lines_def by auto
next
  case False
  then consider (ok) x where "(f, x) \<in> set (fv_accepted full)" | (no) x where "(f, x) \<in> set (fv_unlisted full)"
    using f findings_are_split [OF full] by fastforce
  then show ?thesis
  proof cases
    case ok
    then have "''    ok '' @ describe f \<in> set (concat (map accepted_lines (fv_accepted full)))"
      by (force simp: accepted_lines_def)
    then show ?thesis unfolding summary_lines_def by auto
  next
    case no
    then have "''    ! '' @ describe f \<in> set (concat (map unlisted_lines (fv_unlisted full)))"
      by (force simp: unlisted_lines_def)
    then show ?thesis unfolding summary_lines_def by auto
  qed
qed

lemma every_stale_exception_is_printed:
  "x \<in> set (fv_stale full) \<Longrightarrow> stale_line x \<in> set (summary_lines production full xs)"
  by (simp add: summary_lines_def)

text \<open>
  When npm itself fails it answers, under \<open>--json\<close>, an object that says so. That object parses and has
  no vulnerabilities: it reads as a clean tree. The production half then passes, and the whole gate
  does when no exception is listed; it is only a listed exception, which goes stale, that keeps it shut.
\<close>

lemma failed_audit_reads_as_clean:
  assumes "trim out \<noteq> []" "parse out = Some (JObj m)" "jprop m ''vulnerabilities'' = None"
  shows "runAudit parse omitDev (Npm_fails (Some out) stderr message) = Inr (JObj m)"
    and "report_of (JObj m) = Some []"
  using assms by (simp_all add: runAudit_def Let_def report_of_def)

lemma failed_audit_can_pass:
  assumes "trim out \<noteq> []" "parse out = Some (JObj m)" "jprop m ''vulnerabilities'' = None"
    and "parse file = Some raw" "parseExceptions raw = Inr xs"
  shows "\<exists>printed complained.
     gate_main le parse [] file (Npm_fails (Some out) stderr t) (Npm_fails (Some out) stderr' t')
       = Inr (printed, complained, if xs = [] then 0 else 1)"
proof -
  have none: "blockingFindings le [] = []" using set_blockingFindings [of le "[]"] by simp
  have "fv_ok (evaluateFullTree le [] xs) \<longleftrightarrow> xs = []" by (simp add: evaluateFullTree_def none Let_def)
  moreover have "snd (evaluateProduction le [])" by (simp add: evaluateProduction_def none Let_def)
  ultimately show ?thesis
    using assms(4,5) failed_audit_reads_as_clean [where parse = parse, OF assms(1-3)] by (simp add: gate_defs)
qed

end
