(* ===== verification/Stream_Probe.thy ===== *)
theory Stream_Probe
  imports Job_Hook
begin

text \<open>
  The stream interceptors of the end-to-end tier (\<open>web/e2e/support/intercept.ts\<close> and
  \<open>checkpointStream\<close> of \<open>a11y.ts\<close>): the frames they write, what each open of a stream is answered
  with, and the gaps between opens. The reader of an event stream is the browser's, written out from
  the HTML standard for lines that end in a line feed; with it the frames are followed into the job
  machine. Times are milliseconds.
\<close>

section \<open>Frames\<close>

definition sseFrame :: "string \<Rightarrow> jobj \<Rightarrow> string" where
  "sseFrame event data =
     ''event: '' @ event @ CHR 0x0A # ''data: '' @ stringify (JObj data) @ [CHR 0x0A, CHR 0x0A]"

text \<open>The browser's reader: the name and the data lines of the event being read, and the events so far.\<close>

record sse_reader =
  sr_name :: string
  sr_data :: "string list"
  sr_events :: "(string \<times> string) list"

definition without_space :: "string \<Rightarrow> string" where
  "without_space s = (case s of [] \<Rightarrow> [] | c # cs \<Rightarrow> if c = CHR '' '' then cs else s)"

definition sse_field :: "string \<Rightarrow> string \<Rightarrow> sse_reader \<Rightarrow> sse_reader" where
  "sse_field field value r =
     (if field = ''event'' then r\<lparr>sr_name := value\<rparr>
      else if field = ''data'' then r\<lparr>sr_data := sr_data r @ [value]\<rparr>
      else r)"

definition sse_line :: "sse_reader \<Rightarrow> string \<Rightarrow> sse_reader" where
  "sse_line r line =
     (if line = [] then
        r\<lparr>sr_name := [], sr_data := [],
          sr_events := (if sr_data r = [] then sr_events r
                        else sr_events r @ [(if sr_name r = [] then ''message'' else sr_name r,
                                             join [CHR 0x0A] (sr_data r))])\<rparr>
      else let field = takeWhile (\<lambda>c. c \<noteq> CHR '':'') line; rest = drop (length field) line
           in if field = [] then r else sse_field field (without_space (tl rest)) r)"

text \<open>What has no line feed after it when the stream ends is no line, and an event without its empty
  line is dropped.\<close>

definition event_stream :: "string \<Rightarrow> (string \<times> string) list" where
  "event_stream body =
     sr_events (foldl sse_line \<lparr>sr_name = [], sr_data = [], sr_events = []\<rparr>
       (butlast (split_on CHR 0x0A body)))"

section \<open>Interceptors\<close>

text \<open>What is routed: an interrupted stream, one that times out once, an open that is only counted, and
  a burst of checkpoints.\<close>

datatype stream_mode = Interrupts | Times_out string int | Counts | Bursts nat

definition timeout_data :: "string \<Rightarrow> int \<Rightarrow> jobj" where
  "timeout_data job maxDurationSec =
     [(''job_id'', JStr job), (''reason'', JStr ''max_duration_exceeded''),
      (''max_duration_sec'', JNum (JInt maxDurationSec)), (''reconnect'', JBool True)]"

definition checkpoint_data :: "nat \<Rightarrow> jobj" where
  "checkpoint_data index =
     [(''node'', JStr (''checkpoint_'' @ show_nat (index + 1))),
      (''state_delta'', JObj [(''papers_read'', JNum (JInt (int index + 1)))])]"

definition comment :: "string \<Rightarrow> string" where
  "comment s = '': '' @ s @ [CHR 0x0A, CHR 0x0A]"

definition checkpointStream :: "nat \<Rightarrow> string" where
  "checkpointStream count =
     concat (map (\<lambda>index. sseFrame ''node_completed'' (checkpoint_data index)) [0..<count])
     @ comment ''synthetic checkpoint burst''"

text \<open>One open at a time: the times so far, and the body, \<open>None\<close> where the stack answers.\<close>

definition interruptStream :: "int list \<Rightarrow> int \<Rightarrow> int list \<times> string option" where
  "interruptStream opens now = (opens @ [now], Some (comment ''synthetic connection interruption''))"

definition timeoutThenHold :: "string \<Rightarrow> int \<Rightarrow> int list \<Rightarrow> int \<Rightarrow> int list \<times> string option" where
  "timeoutThenHold job maxDurationSec opens now =
     (let opens = opens @ [now]
      in (opens,
          Some (if length opens = 1 then sseFrame ''stream_timeout'' (timeout_data job maxDurationSec)
                else comment ''reopened after stream_timeout'')))"

definition countStreamOpens :: "int list \<Rightarrow> int \<Rightarrow> int list \<times> string option" where
  "countStreamOpens opens now = (opens @ [now], None)"

definition stream_opens :: "stream_mode \<Rightarrow> int list \<Rightarrow> int \<Rightarrow> int list \<times> string option" where
  "stream_opens mode =
     (case mode of
        Interrupts \<Rightarrow> interruptStream
      | Times_out job maxDurationSec \<Rightarrow> timeoutThenHold job maxDurationSec
      | Counts \<Rightarrow> countStreamOpens
      | Bursts count \<Rightarrow> (\<lambda>opens now. (opens, Some (checkpointStream count))))"

fun opened :: "stream_mode \<Rightarrow> int list \<Rightarrow> int list \<Rightarrow> int list \<times> string option list" where
  "opened mode opens [] = (opens, [])"
| "opened mode opens (now # later) =
     (let (opens', body) = stream_opens mode opens now; (all, bodies) = opened mode opens' later
      in (all, body # bodies))"

definition RACE_FLOOR_MS :: int where
  "RACE_FLOOR_MS = 1000"

definition openGaps :: "int list \<Rightarrow> int list" where
  "openGaps opens = map (\<lambda>(earlier, time). time - earlier) (zip opens (tl opens))"

section \<open>A frame is one event\<close>

text \<open>No number of the value is printed over two lines, as none is by \<open>String\<close>.\<close>

fun one_line :: "json \<Rightarrow> bool" where
  "one_line (JNum n) = (CHR 0x0A \<notin> set (show_num n))"
| "one_line (JArr xs) = list_all one_line xs"
| "one_line (JObj m) = list_all (\<lambda>(k, v). one_line v) m"
| "one_line _ = True"

lemma show_int_one_line: "CHR 0x0A \<notin> set (show_int i)"
proof -
  have "\<not> digit_char CHR 0x0A" by (simp add: digit_char_def)
  then have "CHR 0x0A \<notin> set (show_nat n)" for n using digits_show_nat by blast
  then show ?thesis by (simp add: show_int_def)
qed

lemma char_of_line_feed: "k < 256 \<Longrightarrow> CHR 0x0A = char_of (k :: nat) \<longleftrightarrow> k = 10"
proof
  assume "CHR 0x0A = char_of k" "k < 256"
  then have "of_char (CHR 0x0A) = k" by simp
  then show "k = 10" by simp
next
  have "char_of (of_char (CHR 0x0A) :: nat) = CHR 0x0A" by (rule char_of_char)
  then show "k = 10 \<Longrightarrow> CHR 0x0A = char_of k" by (simp del: char_of_char)
qed

lemma escape_one_line: "CHR 0x0A \<notin> set (escape_char c)"
proof (cases "of_char c = (10 :: nat)")
  case False
  then have "c \<noteq> CHR 0x0A" by auto
  then show ?thesis
    using False by (auto simp: escape_char_def hex_digit_def Let_def char_of_line_feed split: if_splits)
qed (simp add: escape_char_def char_of_line_feed)

lemma quote_one_line: "CHR 0x0A \<notin> set (quote_text s)"
  using escape_one_line by (auto simp: quote_text_def)

lemma joined_free: "c \<notin> set sep \<Longrightarrow> (\<And>w. w \<in> set ws \<Longrightarrow> c \<notin> set w) \<Longrightarrow> c \<notin> set (join sep ws)"
  by (induction sep ws rule: join.induct) auto

lemma stringify_one_line:
  "one_line v \<Longrightarrow> CHR 0x0A \<notin> set (stringify v)"
  "list_all one_line xs \<Longrightarrow> w \<in> set (stringify_items xs) \<Longrightarrow> CHR 0x0A \<notin> set w"
  "list_all (\<lambda>(k, v). one_line v) m \<Longrightarrow> w \<in> set (stringify_members m) \<Longrightarrow> CHR 0x0A \<notin> set w"
proof (induction v and xs and m arbitrary: and w and w
    rule: stringify_stringify_items_stringify_members.induct)
qed (use quote_one_line joined_free [of "CHR 0x0A" "'',''"] in auto)

lemma sse_field_lines:
  "sse_line r [] = r\<lparr>sr_name := [], sr_data := [],
     sr_events := (if sr_data r = [] then sr_events r
       else sr_events r @ [(if sr_name r = [] then ''message'' else sr_name r, join [CHR 0x0A] (sr_data r))])\<rparr>"
  "sse_line r (''event: '' @ value) = r\<lparr>sr_name := value\<rparr>"
  "sse_line r (''data: '' @ value) = r\<lparr>sr_data := sr_data r @ [value]\<rparr>"
  "sse_line r (CHR '':'' # value) = r"
  by (simp_all add: sse_line_def sse_field_def without_space_def)

text \<open>The lines of a body that is a frame, or a comment, and more.\<close>

lemma frame_lines:
  assumes "CHR 0x0A \<notin> set event" "one_line (JObj data)"
  shows "split_on CHR 0x0A (sseFrame event data @ body)
    = (''event: '' @ event) # (''data: '' @ stringify (JObj data)) # [] # split_on CHR 0x0A body"
proof -
  have "CHR 0x0A \<notin> set (''event: '' @ event)" "CHR 0x0A \<notin> set (''data: '' @ stringify (JObj data))"
    using assms(1) stringify_one_line(1) [OF assms(2)] by (simp_all del: stringify.simps)
  from split_on_append [OF this(1)] split_on_append [OF this(2)]
  have "split_on CHR 0x0A ((''event: '' @ event) @ CHR 0x0A # (''data: '' @ stringify (JObj data)) @ CHR 0x0A # s)
      = (''event: '' @ event) # (''data: '' @ stringify (JObj data)) # split_on CHR 0x0A s" for s by metis
  from this [of "CHR 0x0A # body"] split_on_append [of "CHR 0x0A" "[]" body]
  show ?thesis unfolding sseFrame_def by (simp del: stringify.simps)
qed

definition reader_at :: "(string \<times> string) list \<Rightarrow> sse_reader" where
  "reader_at events = \<lparr>sr_name = [], sr_data = [], sr_events = events\<rparr>"

definition reads :: "(string \<times> string) list \<Rightarrow> string \<Rightarrow> (string \<times> string) list" where
  "reads events body = sr_events (foldl sse_line (reader_at events) (butlast (split_on CHR 0x0A body)))"

lemma event_stream_reads: "event_stream body = reads [] body"
  by (simp add: event_stream_def reads_def reader_at_def)

lemma frame_reads:
  assumes "CHR 0x0A \<notin> set event" "event \<noteq> []" "one_line (JObj data)"
  shows "reads events (sseFrame event data @ body) = reads (events @ [(event, stringify (JObj data))]) body"
proof -
  have walk: "foldl sse_line r (butlast (a # b # c # split_on CHR 0x0A body))
    = foldl sse_line (sse_line (sse_line (sse_line r a) b) c) (butlast (split_on CHR 0x0A body))" for r a b c
    by simp
  show ?thesis
    unfolding reads_def frame_lines [OF assms(1,3)] walk sse_field_lines reader_at_def
    using assms(2) by (simp del: stringify.simps)
qed

lemma comment_reads:
  assumes "CHR 0x0A \<notin> set s"
  shows "reads events (comment s) = events"
proof -
  have "split_on CHR 0x0A (comment s) = ['': '' @ s, [], []]"
    using assms split_on_append [of "CHR 0x0A" "'': '' @ s" "[CHR 0x0A]"] by (simp add: comment_def)
  then show ?thesis by (simp add: reads_def reader_at_def sse_field_lines)
qed

lemma frames_read:
  assumes "\<And>i. i \<in> set is \<Longrightarrow> CHR 0x0A \<notin> set (name i) \<and> name i \<noteq> [] \<and> one_line (JObj (data i))"
  shows "reads events (concat (map (\<lambda>i. sseFrame (name i) (data i)) is) @ body)
    = reads (events @ map (\<lambda>i. (name i, stringify (JObj (data i)))) is) body"
  using assms
proof (induction "is" arbitrary: events)
  case (Cons i rest)
  then show ?case by (simp add: frame_reads del: stringify.simps)
qed simp

section \<open>What each open is answered with\<close>

lemma timeout_one_line: "one_line (JObj (timeout_data job maxDurationSec))"
  using show_int_one_line by (simp add: timeout_data_def)

lemma checkpoint_one_line: "one_line (JObj (checkpoint_data index))"
  using show_int_one_line by (simp add: checkpoint_data_def)

text \<open>An interrupted stream is a stream without an event.\<close>

lemma interruption_is_silent:
  "event_stream (the (snd (stream_opens Interrupts opens now))) = []"
  by (simp add: stream_opens_def interruptStream_def event_stream_reads comment_reads)

text \<open>The timeout is sent once: the first open is answered with it, every later one with no event, in
  whatever order the browser opens.\<close>

lemma timeout_body:
  "event_stream (the (snd (stream_opens (Times_out job sec) opens now)))
     = (if opens = [] then [(''stream_timeout'', stringify (JObj (timeout_data job sec)))] else [])"
proof -
  have "reads [] (sseFrame ''stream_timeout'' (timeout_data job sec) @ [])
      = [(''stream_timeout'', stringify (JObj (timeout_data job sec)))]"
    by (subst frame_reads) (simp_all add: timeout_one_line reads_def reader_at_def del: stringify.simps one_line.simps)
  then show ?thesis by (simp add: stream_opens_def timeoutThenHold_def event_stream_reads comment_reads del: stringify.simps)
qed

lemma one_timeout:
  "concat (map (event_stream \<circ> the) (snd (opened (Times_out job sec) opens nows)))
     = (if opens = [] \<and> nows \<noteq> [] then [(''stream_timeout'', stringify (JObj (timeout_data job sec)))] else [])"
proof (induction nows arbitrary: opens)
  case (Cons now later)
  obtain opens' body where o: "stream_opens (Times_out job sec) opens now = (opens', body)" by fastforce
  then have "opens' \<noteq> []" by (auto simp: stream_opens_def timeoutThenHold_def)
  moreover have "event_stream (the body)
      = (if opens = [] then [(''stream_timeout'', stringify (JObj (timeout_data job sec)))] else [])"
    using timeout_body [of job sec opens now] o by simp
  ultimately show ?case using Cons.IH [of opens'] o by (simp add: split_beta del: stringify.simps)
qed simp

text \<open>The gaps: one between every two opens, none negative while the clock does not go back, and all
  of them together the time from the first open to the last.\<close>

lemma openGaps_Cons: "openGaps (a # b # opens) = (b - a) # openGaps (b # opens)"
  by (simp add: openGaps_def)

lemma gaps_are_the_times:
  "length (openGaps opens) = length opens - 1"
  "opens \<noteq> [] \<Longrightarrow> sum_list (openGaps opens) = last opens - hd opens"
  "sorted opens \<Longrightarrow> list_all (\<lambda>gap. 0 \<le> gap) (openGaps opens)"
proof -
  show "length (openGaps opens) = length opens - 1" by (simp add: openGaps_def)
  show "opens \<noteq> [] \<Longrightarrow> sum_list (openGaps opens) = last opens - hd opens"
    by (induction opens rule: induct_list012) (simp_all add: openGaps_Cons, simp_all add: openGaps_def)
  show "sorted opens \<Longrightarrow> list_all (\<lambda>gap. 0 \<le> gap) (openGaps opens)"
    by (induction opens rule: induct_list012) (simp_all add: openGaps_Cons, simp_all add: openGaps_def)
qed

section \<open>A burst of checkpoints in the job machine\<close>

lemma burst_reads:
  "event_stream (checkpointStream count)
     = map (\<lambda>index. (''node_completed'', stringify (JObj (checkpoint_data index)))) [0..<count]"
proof -
  have "event_stream (checkpointStream count)
      = reads ([] @ map (\<lambda>index. (''node_completed'', stringify (JObj (checkpoint_data index)))) [0..<count])
          (comment ''synthetic checkpoint burst'')"
    unfolding event_stream_reads checkpointStream_def
    by (rule frames_read) (simp add: checkpoint_one_line del: one_line.simps)
  then show ?thesis by (simp add: comment_reads del: stringify.simps)
qed

text \<open>What the listeners of the stream make of an event; \<open>parse\<close> is \<open>JSON.parse\<close>.\<close>

definition heard :: "(string \<Rightarrow> json option) \<Rightarrow> int \<Rightarrow> string \<times> string \<Rightarrow> job_event" where
  "heard parse now = (\<lambda>(name, text).
     frameEvent (case find (\<lambda>t. wire_name t = name) JOB_EVENT_TYPES of Some t \<Rightarrow> t | None \<Rightarrow> E_unknown_frame)
       \<lparr>jf_name = name, jf_data = Option.bind (parse text) as_record, jf_receivedAt = now\<rparr>)"

definition burst_observation :: "int \<Rightarrow> nat \<Rightarrow> observed_checkpoint" where
  "burst_observation now index =
     \<lparr>oc_node = ''checkpoint_'' @ show_nat (index + 1), oc_observedAt = now,
      oc_stateDelta = [(''papers_read'', JNum (JInt (int index + 1)))]\<rparr>"

lemma heard_checkpoint:
  assumes "parse (stringify (JObj (checkpoint_data index))) = Some (JObj (checkpoint_data index))"
  shows "heard parse now (''node_completed'', stringify (JObj (checkpoint_data index)))
    = Ev_node_completed \<lparr>jf_name = ''node_completed'', jf_data = Some (checkpoint_data index), jf_receivedAt = now\<rparr>"
  using assms by (simp add: heard_def JOB_EVENT_TYPES_def del: stringify.simps)

lemma burst_step:
  assumes "phase s = Ph_live" "connection s = Conn_open"
  shows "let t = jobReducer s (Ev_node_completed \<lparr>jf_name = ''node_completed'',
             jf_data = Some (checkpoint_data index), jf_receivedAt = now\<rparr>)
    in phase t = Ph_live \<and> connection t = Conn_open
     \<and> observed t = observed s @ [burst_observation now index]"
  using assms
  by (simp add: Let_def jobReducer_def observeCheckpoint_def noteFrame_def ensureOpen_def withFrame_def
      readNode_def readStateDelta_def checkpoint_data_def burst_observation_def)

text \<open>Every checkpoint of the burst is observed, in order and under its own name, however many there are
  and whatever was observed before.\<close>

lemma burst_is_observed:
  assumes parse: "\<And>index. parse (stringify (JObj (checkpoint_data index))) = Some (JObj (checkpoint_data index))"
    and s: "phase s = Ph_live" "connection s = Conn_open"
  shows "observed (runs jobReducer s (map (heard parse now) (event_stream (checkpointStream count))))
    = observed s @ map (burst_observation now) [0..<count]"
proof -
  let ?event = "\<lambda>index. Ev_node_completed \<lparr>jf_name = ''node_completed'',
    jf_data = Some (checkpoint_data index), jf_receivedAt = now\<rparr>"
  have "map (heard parse now) (event_stream (checkpointStream count)) = map ?event [0..<count]"
    using parse by (simp add: burst_reads heard_checkpoint del: stringify.simps)
  moreover have "observed (runs jobReducer s (map ?event is)) = observed s @ map (burst_observation now) is" for "is"
    using s
  proof (induction "is" arbitrary: s)
    case (Cons index rest)
    then show ?case using burst_step [of s index now] by (simp add: Let_def runs_def)
  qed simp
  ultimately show ?thesis by simp
qed

end
