(* ===== verification/Spec2Isabelle.thy ===== *)
theory Spec2Isabelle
  imports Hook_Properties Plan_Schema Spine Diag_Redact Server_Proxy
    Copy_Errors Query_Laws Thread_Laws Composer Plan_Editor_Laws Thread_Rail Shell Report_View
    Diag_Recorder Diag_Panel Run_Surfaces Run_Metrics Learn_Ledger Session_Laws Audit_Gate Budget_Report Font_Report
    Lhci_Summary Vitals Surfaces Axe_Gate Paid_Path Csp_Probe A11y_Probes
    Audit_Report Stream_Probe
begin

text \<open>
  Verification development for the browser client and the proxy of the research workbench: the
  TypeScript and JavaScript under \<open>web/\<close> that decides what is requested, under whose key, what
  is remembered of a run and what a reader is told about it.

  The program. A reader asks a question. The composer creates a conversation (a thread) and
  submits the question into it; the server answers with a job. The job provider attaches to the
  job: a GET of its detail, then an \<open>EventSource\<close> whose frames narrate the run, a poll while
  nothing is streamed, and a reconciling read when a terminal frame arrives. Everything that
  happens is an event of one reducer, and the page (thread, active run panel, trace spine,
  plan review form, announcer) reads the reducer's state and the query cache. Every request
  goes through one client, which turns every failure into one of twelve variants, and through
  the same-origin proxy, which adds the API key the browser never sees. A diagnostics ring
  remembers what happened and is redacted before it is copied. Beside the research runs stands
  guided reading: a path of papers, a session on one of them that is driven by the same reducer,
  and a ledger of what was recorded. Around the program stand the operators' gates: the dependency
  audit, the health check, the route budgets, the font report and the Lighthouse loop; and the two
  gates of the end-to-end tier that decide something themselves, the accessibility gate and the
  boundary no paid request crosses.

  Theories, in the order of the calls.

  \<^item> \<open>JS_Base\<close>: the prelude; JavaScript values, strings and the library functions the sources call.
    \<open>Stable_Sort\<close> is \<open>Array.prototype.sort\<close> with a comparator, \<open>JS_Lookup\<close> a bracket read of an object
    literal with the members it inherits.
  \<^item> \<open>Interfaces\<close>: the contracts. \<open>reducer\<close> (a step function, an initial state, an invariant every
    step keeps) gives the invariant along every run; \<open>bounded_log\<close> (a capped log that appends and
    drops the oldest) gives that the log is the last entries of what was written. Interpretations:
    \<open>job\<close>, \<open>shown\<close> (the job reducer), \<open>hooked\<close> (the hook), \<open>link\<close> (a request's abort link), \<open>principal\<close>
    (the resolver's cached configuration), \<open>counter\<close> (the proxy's byte count), \<open>landing\<close> (the
    landing page), \<open>pipe\<close> (the report renderer), \<open>editor\<close> (the plan editor), \<open>rail\<close> (the thread
    rail), \<open>shell\<close> (the workbench shell), \<open>export\<close> (the export control), \<open>path\<close> (the start of a
    session), \<open>guided\<close> (the session page), \<open>submitted\<close> (a submission in the job reducer), \<open>copying\<close>
    (the copy control), \<open>devtools\<close> and \<open>chrome\<close> (the client and the run of the font measurement),
    \<open>paid\<close> (the interceptor of paid writes), \<open>watched\<close> (the ring as an external store), \<open>live\<close> (the
    recorder of live regions), \<open>frame_log\<close> and \<open>ring_log\<close> (both logs).
  \<^item> \<open>Api_Errors\<close>, \<open>Api_Client\<close>: \<open>lib/api/errors.ts\<close>, \<open>lib/api/client.ts\<close>. The normalizer, the
    encoded paths, the one request path with its timeout and abort link, and the calls over it.
  \<^item> \<open>Job_Types\<close>, \<open>Copy_Trace\<close>, \<open>Job_Machine\<close>: \<open>lib/job/types.ts\<close>, \<open>session.ts\<close>, \<open>machine.ts\<close> and the
    sentences of \<open>lib/copy/trace.ts\<close>, \<open>run.ts\<close>. The transition table is one \<open>fun\<close> per row.
    \<open>Job_Laws\<close> has the nine-clause invariant \<open>job_inv\<close>, kept by each cell; \<open>Job_Rules\<close> the rules the
    comments of the machine number; \<open>Job_Properties\<close> the properties of whole runs.
  \<^item> \<open>Job_Hook\<close>: \<open>lib/job/useJobStream.ts\<close> and \<open>lib/job/provider.tsx\<close>. The refs are a record, every
    pending promise and every \<open>EventSource\<close> is an entry of a list, and \<open>hook_step\<close> is one move of
    the environment, so that a run is an interleaving. \<open>Hook_Laws\<close> has the invariant (one open
    stream, one submission in flight), \<open>Hook_Properties\<close> the promises and three orders of moves
    in which an answer to one job reaches another.
  \<^item> \<open>Plan_Schema\<close>: \<open>lib/plan/schema.ts\<close> and \<open>lib/copy/plan.ts\<close>; \<open>Spine\<close>: \<open>lib/spine/\<close> and
    \<open>lib/copy/spine.ts\<close>; \<open>Copy_Errors\<close>: \<open>lib/copy/errors.ts\<close>.
  \<^item> \<open>Diag_Ring\<close>, \<open>Diag_Redact\<close>: \<open>lib/diagnostics/ring.ts\<close>, \<open>redact.ts\<close>; the ring is refined against
    \<open>bounded_log\<close>, the regular expressions are written out as matchers.
  \<^item> \<open>Server_Pilot\<close>, \<open>Server_Proxy\<close>: \<open>lib/server/\<close>, \<open>lib/identity.ts\<close>, \<open>app/api/[...path]/route.ts\<close>,
    \<open>middleware.ts\<close>. Whose key a request is proxied under, the header allow-lists, the log line
    and the content security policy.
  \<^item> \<open>Query_Cache\<close>, \<open>Query_Laws\<close>: \<open>lib/queries/\<close>. Keys, the retry rule, the defaults, the page
    parameters, the optimistic delete and the review outcome.
  \<^item> \<open>Thread_View\<close>, \<open>Thread_Laws\<close>: \<open>lib/report/briefings.ts\<close>, \<open>renderer.ts\<close> and the decisions of
    \<open>ThreadTimeline.tsx\<close> and \<open>ActiveRunPanel.tsx\<close>.
  \<^item> \<open>Composer\<close>: \<open>lib/copy/composer.ts\<close>, the guard of \<open>QueryComposer.tsx\<close>, and \<open>LandingComposer.tsx\<close>.
    \<open>Controls\<close>: the primitives under \<open>web/components/primitives/\<close> and the composer built from them, as
    a view and as the machine of its text, its in-flight guard and its two ways to send, also mounted
    as the landing page and the thread mount it.
  \<^item> \<open>Plan_Editor\<close>, \<open>Plan_Editor_Laws\<close>: \<open>PlanEditor.tsx\<close>, \<open>PlanEditorFields.tsx\<close>. What a press sends,
    what a conflict does to the rows on screen, which rejected reviews are explained and where.
  \<^item> \<open>Thread_Rail\<close>: \<open>lib/copy/threads.ts\<close>, \<open>ThreadList.tsx\<close>, \<open>ThreadRail.tsx\<close>, \<open>ThreadRailBridge.tsx\<close>, with
    \<open>Uri_Decode\<close> (the library's \<open>decodeURIComponent\<close> on the characters a string can hold here). A press
    reaches the handlers of the last render, and an answer whichever thread the rail shows by then.
  \<^item> \<open>Shell\<close>: \<open>WorkbenchShell.tsx\<close>, \<open>ThreadDrawer.tsx\<close>, \<open>ThemeToggle.tsx\<close> and the pre-paint script of
    \<open>lib/tokens.ts\<close>. \<open>Report_View\<close>: \<open>ReportReader.tsx\<close>, \<open>SectionRail.tsx\<close>, \<open>ExportDisclosure.tsx\<close>.
  \<^item> \<open>Diag_Recorder\<close>: \<open>lib/diagnostics/useDiagnostics.ts\<close>, over the seam of the provider; \<open>Vitals\<close>:
    \<open>vitals.ts\<close>, and the ring as the external store its readers subscribe to.
  \<^item> \<open>Diag_Panel\<close>: \<open>Diagnostics.tsx\<close>, \<open>lib/copy/diagnostics.ts\<close>. What the disclosure shows of the ring,
    the copy control and the text it copies; \<open>JS_Date\<close> is \<open>toISOString\<close> with its calendar.
  \<^item> \<open>Run_Surfaces\<close>: \<open>StatusBadge.tsx\<close>, \<open>StatusBanner.tsx\<close>, the banners of every surface,
    \<open>ActiveRunPanel.tsx\<close> beside the follow-up composer, \<open>TraceSpine.tsx\<close>, \<open>CheckpointLedger.tsx\<close>. A
    render that throws is an \<open>Inl\<close>; what the page announces, over every run of the job machine, and
    the rejected review it does not.
  \<^item> \<open>Run_Metrics\<close>: \<open>MetricsStrip.tsx\<close>, \<open>lib/copy/metrics.ts\<close> and the line of a completed run.
  \<^item> \<open>Learn_Path\<close>: \<open>lib/copy/learn.ts\<close>, \<open>PathView.tsx\<close> and \<open>PathDetailSurface.tsx\<close>. What a refused start
    says, where positions come from, and that one start costs one session.
  \<^item> \<open>Learn_Session\<close>, \<open>Session_Laws\<close>: \<open>GuidedSessionView.tsx\<close>, \<open>SessionDetailSurface.tsx\<close> over the job
    machine. When the composer opens, the guard of a turn and its one leak, the read after a turn.
  \<^item> \<open>Learn_Ledger\<close>: \<open>lib/copy/ledger.ts\<close>, \<open>LedgerView.tsx\<close>, \<open>LedgerSurface.tsx\<close>. Every line shown has
    an event behind it.
  \<^item> \<open>Audit_Gate\<close>, \<open>Ops_Gates\<close>: \<open>web/scripts/audit-gate.mjs\<close>, \<open>healthcheck.mjs\<close>, \<open>route-budgets.mjs\<close>;
    \<open>Audit_Report\<close>: what a run of npm reads as, the summary and \<open>main\<close> of the first;
    \<open>Budget_Report\<close>: the cross-check of the budgets with prerendered HTML, with the pages a Next build
    writes, as their parts, on which it is exact, and its report. \<open>JS_Number\<close>: \<open>toFixed\<close> and \<open>toLocaleString\<close> with a reader.
  \<^item> \<open>web/scripts/measure-fonts.mjs\<close>: \<open>Font_Metrics\<close>, \<open>Font_Laws\<close> are the byte side, on 8-bit words, with
    a reference encoder of the woff2 directory that the reader inverts; \<open>Font_Harness\<close> the function
    the browser page runs, \<open>Harness_Laws\<close> what its descriptors achieve in a browser that follows CSS
    Fonts up to a tolerance; \<open>Font_Session\<close> the DevTools client and the run of Chrome as a machine,
    with what each way it can end leaves behind; \<open>Font_Report\<close> what
    is printed. \<open>Lhci_Run\<close>: \<open>web/scripts/lhci-run.mjs\<close>; \<open>Lhci_Summary\<close>: the summary it prints.
  \<^item> \<open>Surfaces\<close>: \<open>RouteError.tsx\<close>, \<open>GlobalErrorSurface.tsx\<close>, \<open>NotFound.tsx\<close>, \<open>PathList.tsx\<close>,
    \<open>PathListSurface.tsx\<close>, and \<open>ConfirmDialog.tsx\<close> over the thread rail.
  \<^item> \<open>Axe_Gate\<close>: \<open>web/e2e/support/axe.ts\<close>; \<open>Paid_Path\<close>: \<open>paid-path.ts\<close>, \<open>mock-mode.ts\<close> and
    \<open>stub-upstream.mjs\<close> beside it. An overlay that is written as YAML is read back. \<open>Csp_Probe\<close>:
    \<open>csp.ts\<close>, whose reader of the policy header is shown against the middleware; \<open>A11y_Probes\<close>:
    \<open>a11y.ts\<close> and two measurements of \<open>measure.ts\<close>; \<open>Stream_Probe\<close>: \<open>intercept.ts\<close>, whose frames
    are read as the browser reads them and followed into the job machine.

  Parameters and hypotheses. What the code calls and the repository does not hold is an argument:
  \<open>JSON.parse\<close>, the \<open>URL\<close> constructor, the SHA-256 digest, Brotli and gzip, \<open>localeCompare\<close>, the
  rounded mean of two doubles, what \<open>lhci autorun\<close> leaves behind, the imported Markdown module, \<open>URLSearchParams\<close>,
  \<open>toFixed\<close> where doubles are printed that are not sums of integers (the run metrics),
  the layout of text in a font (\<open>css_fonts\<close> states what CSS Fonts says of \<open>local()\<close> and the four
  descriptors, each size up to a tolerance of the browser's), what a call before a \<open>try\<close> throws, what \<open>docker inspect\<close>, \<open>fetch\<close> and the environment answer. The query library is two records
  of functions, \<open>infinite_lib\<close> and \<open>query_client\<close>, and the form library a third, \<open>form_lib\<close>;
  \<open>infinite_docs\<close>, \<open>query_client_docs\<close> and \<open>form_docs\<close> state what their documentation promises, and are
  instantiated with concrete functions by the witnesses. A component is its state and the moves of
  its reader and its environment; a \<open>commit\<close> is the move in which a render's effects run.

  Bounds and termination. There is no fuel. Loops over data are structural; the walk over an
  audit report's \<open>via\<close> graph terminates by the number of packages not yet seen; "load more" is
  shown to end by a bound on the number of pages. Interleavings are lists of moves of any length,
  so an invariant of all runs is an invariant of all interleavings.

  Not modelled: markup, styling and layout; timers and clocks other than as events with a time
  stamp; generated API types; the remaining copy dictionaries, which are constants; the fixed prose
  of the font and budget reports; the specifications of the end-to-end tier themselves; prototypes and the
  bundled Storybook output under \<open>docs/\<close>; and the Python backend, the other side of the network.
\<close>

end
